(* ===== verification/Kailo_Prelude.thy ===== *)
theory Kailo_Prelude
  imports Main "HOL-Library.List_Lexorder" "HOL-Library.Char_ord" "HOL-Library.Product_Lexorder"
begin

text \<open>
  Shared vocabulary of the development: Go's 64-bit integers and times, the string functions
  of the standard library that the code calls, the state-and-error actions in which every
  stateful operation is written, and tables of rows with the SQL statements the repositories
  issue. The collections \<open>act_inv\<close> (inversion of a successful action), \<open>row_simps\<close>
  (rows and tables) and \<open>keeps_intro\<close> (preservation of a state predicate) carry the
  proofs of the component theories.
\<close>

named_theorems act_inv "inversion of a successful run of an action"
named_theorems row_simps "rewriting of table lookups and updates"
named_theorems keeps_intro "introduction rules for preservation of a predicate"

section \<open>Numbers and times\<close>

text \<open>Times are nanoseconds since Go's zero time (year 1), so \<open>IsZero\<close> is \<open>t = 0\<close>.\<close>

type_synonym time = int
type_synonym duration = int

abbreviation second :: duration where "second \<equiv> 1000000000"
abbreviation minute :: duration where "minute \<equiv> 60000000000"
abbreviation hour :: duration where "hour \<equiv> 3600000000000"

definition int64_max :: int where "int64_max = 9223372036854775807"
definition int64_min :: int where "int64_min = - 9223372036854775808"

definition is_int64 :: "int \<Rightarrow> bool" where
  "is_int64 x \<longleftrightarrow> int64_min \<le> x \<and> x \<le> int64_max"

text \<open>The value of a wrapped 64-bit result.\<close>

definition wrap64 :: "int \<Rightarrow> int" where
  "wrap64 x = (x + 9223372036854775808) mod 18446744073709551616 - 9223372036854775808"

lemma wrap64_id: "is_int64 x \<Longrightarrow> wrap64 x = x"
  by (simp add: wrap64_def is_int64_def int64_min_def int64_max_def)

lemma is_int64_wrap64: "is_int64 (wrap64 x)"
proof -
  have "0 \<le> (x + 9223372036854775808) mod 18446744073709551616"
    and "(x + 9223372036854775808) mod 18446744073709551616 < 18446744073709551616"
    by simp_all
  then show ?thesis by (simp add: wrap64_def is_int64_def int64_min_def int64_max_def)
qed

text \<open>\<open>Time.Sub\<close> saturates at the limits of \<open>Duration\<close>; integer division truncates.\<close>

definition time_sub :: "time \<Rightarrow> time \<Rightarrow> duration" where
  "time_sub a b = max int64_min (min int64_max (a - b))"

definition go_quo :: "int \<Rightarrow> int \<Rightarrow> int" where
  "go_quo a b = sgn a * sgn b * (\<bar>a\<bar> div \<bar>b\<bar>)"

definition go_rem :: "int \<Rightarrow> int \<Rightarrow> int" where
  "go_rem a b = a - b * go_quo a b"

lemma go_quo_nonneg: "0 \<le> a \<Longrightarrow> 0 < b \<Longrightarrow> go_quo a b = a div b"
  by (cases "a = 0") (auto simp: go_quo_def sgn_if)

lemma go_rem_nonneg: "0 \<le> a \<Longrightarrow> 0 < b \<Longrightarrow> go_rem a b = a mod b"
  by (simp add: go_rem_def go_quo_nonneg minus_mult_div_eq_mod)

section \<open>Strings\<close>

text \<open>
  A Go string is its bytes, a \<open>char list\<close>. \<open>strings.TrimSpace\<close> removes the Unicode white
  space at both ends; \<open>space_seqs\<close> lists the UTF-8 encodings of that set.
\<close>

definition space_seqs :: "string list" where
  "space_seqs = [[CHR 0x09], [CHR 0x0A], [CHR 0x0B], [CHR 0x0C], [CHR 0x0D], [CHR 0x20],
     [CHR 0xC2, CHR 0x85], [CHR 0xC2, CHR 0xA0], [CHR 0xE1, CHR 0x9A, CHR 0x80],
     [CHR 0xE2, CHR 0x80, CHR 0x80], [CHR 0xE2, CHR 0x80, CHR 0x81], [CHR 0xE2, CHR 0x80, CHR 0x82],
     [CHR 0xE2, CHR 0x80, CHR 0x83], [CHR 0xE2, CHR 0x80, CHR 0x84], [CHR 0xE2, CHR 0x80, CHR 0x85],
     [CHR 0xE2, CHR 0x80, CHR 0x86], [CHR 0xE2, CHR 0x80, CHR 0x87], [CHR 0xE2, CHR 0x80, CHR 0x88],
     [CHR 0xE2, CHR 0x80, CHR 0x89], [CHR 0xE2, CHR 0x80, CHR 0x8A], [CHR 0xE2, CHR 0x80, CHR 0xA8],
     [CHR 0xE2, CHR 0x80, CHR 0xA9], [CHR 0xE2, CHR 0x80, CHR 0xAF], [CHR 0xE2, CHR 0x81, CHR 0x9F],
     [CHR 0xE3, CHR 0x80, CHR 0x80]]"

definition has_prefix :: "string \<Rightarrow> string \<Rightarrow> bool" where
  "has_prefix p s \<longleftrightarrow> take (length p) s = p"

fun trim_left_fuel :: "nat \<Rightarrow> string list \<Rightarrow> string \<Rightarrow> string" where
  "trim_left_fuel 0 seqs s = s"
| "trim_left_fuel (Suc n) seqs s =
     (case find (\<lambda>p. has_prefix p s) seqs of
        None \<Rightarrow> s
      | Some p \<Rightarrow> trim_left_fuel n seqs (drop (length p) s))"

text \<open>Every sequence is non-empty, so \<open>length s\<close> rounds are enough.\<close>

definition trim_space :: "string \<Rightarrow> string" where
  "trim_space s =
     (let l = trim_left_fuel (length s) space_seqs s
      in rev (trim_left_fuel (length l) (List.map rev space_seqs) (rev l)))"

definition trim_right_char :: "char \<Rightarrow> string \<Rightarrow> string" where
  "trim_right_char c s = rev (dropWhile (\<lambda>x. x = c) (rev s))"

text \<open>\<open>strings.Cut\<close> at a one-byte separator: the parts, and whether it occurs.\<close>

fun str_cut :: "char \<Rightarrow> string \<Rightarrow> string \<times> string \<times> bool" where
  "str_cut c [] = ([], [], False)"
| "str_cut c (x # xs) =
     (if x = c then ([], xs, True)
      else case str_cut c xs of (a, b, ok) \<Rightarrow> (x # a, b, ok))"

lemma str_cut_absent: "c \<notin> set s \<Longrightarrow> str_cut c s = (s, [], False)"
  by (induction s) auto

lemma str_cut_append: "c \<notin> set s \<Longrightarrow> str_cut c (s @ c # t) = (s, t, True)"
  by (induction s) auto

text \<open>Decimal digits.\<close>

definition digit_char :: "nat \<Rightarrow> char" where
  "digit_char d = char_of (48 + d)"

definition is_digit :: "char \<Rightarrow> bool" where
  "is_digit c \<longleftrightarrow> CHR ''0'' \<le> c \<and> c \<le> CHR ''9''"

definition digit_val :: "char \<Rightarrow> nat" where
  "digit_val c = of_char c - 48"

lemma less_eq_char_nat: "(c::char) \<le> d \<longleftrightarrow> (of_char c :: nat) \<le> of_char d"
  by (simp add: less_eq_char_def)

lemma is_digit_nat: "is_digit c \<longleftrightarrow> 48 \<le> (of_char c :: nat) \<and> (of_char c :: nat) \<le> 57"
  by (simp add: is_digit_def less_eq_char_nat)

lemma of_char_digit_char: "d < 10 \<Longrightarrow> (of_char (digit_char d) :: nat) = 48 + d"
  by (simp add: digit_char_def)

lemma digit_val_char [simp]: "d < 10 \<Longrightarrow> digit_val (digit_char d) = d"
  by (simp add: digit_val_def of_char_digit_char)

lemma is_digit_char [simp]: "d < 10 \<Longrightarrow> is_digit (digit_char d)"
  by (simp add: is_digit_nat of_char_digit_char)

text \<open>The value of a digit string, most significant digit first.\<close>

definition digits_val :: "string \<Rightarrow> nat" where
  "digits_val s = foldl (\<lambda>a c. 10 * a + digit_val c) 0 s"

lemma digits_val_Nil [simp]: "digits_val [] = 0"
  by (simp add: digits_val_def)

lemma digits_val_snoc [simp]: "digits_val (s @ [c]) = 10 * digits_val s + digit_val c"
  by (simp add: digits_val_def)

lemma digits_val_append: "digits_val (s @ t) = digits_val s * 10 ^ length t + digits_val t"
proof (induction t rule: rev_induct)
  case Nil
  then show ?case by simp
next
  case (snoc c t)
  have "digits_val (s @ t @ [c]) = 10 * digits_val (s @ t) + digit_val c"
    using digits_val_snoc [of "s @ t" c] by simp
  with snoc show ?case by (simp add: algebra_simps)
qed

lemma digits_val_zeros [simp]: "digits_val (replicate n (CHR ''0'')) = 0"
proof (induction n)
  case 0
  then show ?case by simp
next
  case (Suc n)
  have "replicate (Suc n) (CHR ''0'') = replicate n (CHR ''0'') @ [CHR ''0'']"
    by (simp add: replicate_append_same)
  with Suc show ?case by (simp add: digit_val_def)
qed

text \<open>\<open>strconv.Itoa\<close> on a non-negative value, and on any integer.\<close>

fun nat_str :: "nat \<Rightarrow> string" where
  "nat_str n = (if n < 10 then [digit_char n] else nat_str (n div 10) @ [digit_char (n mod 10)])"

declare nat_str.simps [simp del]

definition format_int :: "int \<Rightarrow> string" where
  "format_int x = (if x < 0 then CHR ''-'' # nat_str (nat (- x)) else nat_str (nat x))"

lemma nat_str_nonempty [simp]: "nat_str n \<noteq> []"
  by (subst nat_str.simps) simp

lemma nat_str_digits: "c \<in> set (nat_str n) \<Longrightarrow> is_digit c"
proof (induction n rule: nat_str.induct)
  case (1 n)
  then show ?case by (subst (asm) nat_str.simps) (auto split: if_splits)
qed

lemma digits_val_nat_str [simp]: "digits_val (nat_str n) = n"
proof (induction n rule: nat_str.induct)
  case (1 n)
  show ?case
  proof (cases "n < 10")
    case True
    then show ?thesis
      using digits_val_snoc [of "[]" "digit_char n"] by (subst nat_str.simps) simp
  next
    case False
    with 1 show ?thesis by (subst nat_str.simps) simp
  qed
qed

lemma nat_str_inj: "nat_str a = nat_str b \<Longrightarrow> a = b"
  using digits_val_nat_str by metis

lemma nat_str_hd: "n \<noteq> 0 \<Longrightarrow> hd (nat_str n) \<noteq> CHR ''0''"
proof (induction n rule: nat_str.induct)
  case (1 n)
  show ?case
  proof (cases "n < 10")
    case True
    have "digit_char n \<noteq> CHR ''0''"
    proof
      assume "digit_char n = CHR ''0''"
      then have "(of_char (digit_char n) :: nat) = 48" by simp
      with True 1(2) show False by (simp add: of_char_digit_char)
    qed
    with True show ?thesis by (subst nat_str.simps) simp
  next
    case False
    then have "n div 10 \<noteq> 0" by auto
    with 1 False have "hd (nat_str (n div 10)) \<noteq> CHR ''0''" by simp
    with False show ?thesis by (subst nat_str.simps) (simp add: hd_append)
  qed
qed

lemma nat_str_small: "n < 10 \<Longrightarrow> nat_str n = [digit_char n]"
  by (subst nat_str.simps) simp

lemma length_nat_str_pos [simp]: "0 < length (nat_str n)"
  by simp

text \<open>Zero padding to a width, as \<open>%07d\<close> does for a non-negative value.\<close>

definition pad_str :: "nat \<Rightarrow> nat \<Rightarrow> string" where
  "pad_str w n = (let s = nat_str n in replicate (w - length s) (CHR ''0'') @ s)"

lemma digits_val_pad [simp]: "digits_val (pad_str w n) = n"
  by (simp add: pad_str_def Let_def digits_val_append)

lemma length_nat_str_le: "n < 10 ^ k \<Longrightarrow> 0 < k \<Longrightarrow> length (nat_str n) \<le> k"
proof (induction n arbitrary: k rule: nat_str.induct)
  case (1 n)
  show ?case
  proof (cases "n < 10")
    case True
    with 1(3) show ?thesis by (subst nat_str.simps) simp
  next
    case False
    from False 1(2) have k: "1 < k" by (cases "k = 1") (use 1(3) in auto)
    have "n div 10 < 10 ^ (k - 1)"
    proof (rule less_mult_imp_div_less)
      have "(10::nat) ^ k = 10 ^ (k - 1) * 10" using k by (cases k) auto
      with 1(2) show "n < 10 ^ (k - 1) * 10" by simp
    qed
    with 1(1) [OF False, of "k - 1"] k have "length (nat_str (n div 10)) \<le> k - 1" by simp
    with False k show ?thesis by (subst nat_str.simps) simp
  qed
qed

lemma length_pad_str: "n < 10 ^ w \<Longrightarrow> 0 < w \<Longrightarrow> length (pad_str w n) = w"
  using length_nat_str_le [of n w] by (simp add: pad_str_def Let_def)

lemma pad_str_digits: "c \<in> set (pad_str w n) \<Longrightarrow> is_digit c"
  by (auto simp: pad_str_def Let_def is_digit_def dest: nat_str_digits split: if_splits)

section \<open>Actions: state, errors, sequencing\<close>

text \<open>
  An operation takes a state and returns an error or a value together with the new state. An
  error does not undo the state changes made before it; a database transaction does
  (\<open>act_tx\<close> of the store theory).
\<close>

type_synonym ('s, 'e, 'a) act = "'s \<Rightarrow> ('e + 'a) \<times> 's"

definition act_ret :: "'a \<Rightarrow> ('s, 'e, 'a) act" where
  "act_ret x s = (Inr x, s)"

definition act_fail :: "'e \<Rightarrow> ('s, 'e, 'a) act" where
  "act_fail e s = (Inl e, s)"

definition act_bind :: "('s, 'e, 'a) act \<Rightarrow> ('a \<Rightarrow> ('s, 'e, 'b) act) \<Rightarrow> ('s, 'e, 'b) act" where
  "act_bind m f s = (case m s of (Inl e, s') \<Rightarrow> (Inl e, s') | (Inr x, s') \<Rightarrow> f x s')"

text \<open>\<open>x, err := f(); if err != nil \<dots>\<close>: the error becomes a value to branch on.\<close>

definition act_try :: "('s, 'e, 'a) act \<Rightarrow> ('s, 'e, 'e + 'a) act" where
  "act_try m s = (case m s of (r, s') \<Rightarrow> (Inr r, s'))"

definition act_guard :: "bool \<Rightarrow> 'e \<Rightarrow> ('s, 'e, unit) act" where
  "act_guard b e = (if b then act_ret () else act_fail e)"

definition act_lift :: "'e + 'a \<Rightarrow> ('s, 'e, 'a) act" where
  "act_lift r s = (r, s)"

definition act_get :: "('s \<Rightarrow> 'a) \<Rightarrow> ('s, 'e, 'a) act" where
  "act_get f s = (Inr (f s), s)"

text \<open>A loop over a slice that stops at the first error, threading an accumulator.\<close>

fun act_fold :: "('x \<Rightarrow> 'a \<Rightarrow> ('s, 'e, 'a) act) \<Rightarrow> 'x list \<Rightarrow> 'a \<Rightarrow> ('s, 'e, 'a) act" where
  "act_fold f [] a = act_ret a"
| "act_fold f (x # xs) a = act_bind (f x a) (act_fold f xs)"

lemma act_ret_Inr [act_inv]: "act_ret x s = (Inr y, s') \<longleftrightarrow> y = x \<and> s' = s"
  by (auto simp: act_ret_def)

lemma act_ret_Inl [act_inv]: "act_ret x s = (Inl e, s') \<longleftrightarrow> False"
  by (auto simp: act_ret_def)

lemma act_fail_Inr [act_inv]: "act_fail e s = (Inr y, s') \<longleftrightarrow> False"
  by (auto simp: act_fail_def)

lemma act_fail_Inl [act_inv]: "act_fail e s = (Inl e', s') \<longleftrightarrow> e' = e \<and> s' = s"
  by (auto simp: act_fail_def)

lemma act_bind_Inr [act_inv]:
  "act_bind m f s = (Inr y, s') \<longleftrightarrow> (\<exists>x s1. m s = (Inr x, s1) \<and> f x s1 = (Inr y, s'))"
  by (auto simp: act_bind_def split: prod.splits sum.splits)

lemma act_bind_Inl:
  "act_bind m f s = (Inl e, s') \<longleftrightarrow>
     m s = (Inl e, s') \<or> (\<exists>x s1. m s = (Inr x, s1) \<and> f x s1 = (Inl e, s'))"
  by (auto simp: act_bind_def split: prod.splits sum.splits)

lemma act_try_Inr [act_inv]: "act_try m s = (Inr r, s') \<longleftrightarrow> m s = (r, s')"
  by (auto simp: act_try_def split: prod.splits)

lemma act_try_Inl [act_inv]: "act_try m s = (Inl e, s') \<longleftrightarrow> False"
  by (auto simp: act_try_def split: prod.splits)

lemma act_guard_Inr [act_inv]: "act_guard b e s = (Inr y, s') \<longleftrightarrow> b \<and> s' = s"
  by (auto simp: act_guard_def act_inv)

lemma act_guard_Inl [act_inv]: "act_guard b e s = (Inl e', s') \<longleftrightarrow> \<not> b \<and> e' = e \<and> s' = s"
  by (auto simp: act_guard_def act_inv)

lemma act_lift_eq [act_inv]: "act_lift r s = (x, s') \<longleftrightarrow> x = r \<and> s' = s"
  by (auto simp: act_lift_def)

lemma act_get_Inr [act_inv]: "act_get f s = (Inr y, s') \<longleftrightarrow> y = f s \<and> s' = s"
  by (auto simp: act_get_def)

lemma act_get_Inl [act_inv]: "act_get f s = (Inl e, s') \<longleftrightarrow> False"
  by (auto simp: act_get_def)

lemmas act_run = act_ret_def act_fail_def act_bind_def act_try_def act_guard_def act_lift_def act_get_def

text \<open>Preservation of a predicate on states, on success and on failure.\<close>

definition keeps :: "('s \<Rightarrow> bool) \<Rightarrow> ('s, 'e, 'a) act \<Rightarrow> bool" where
  "keeps P m \<longleftrightarrow> (\<forall>s. P s \<longrightarrow> P (snd (m s)))"

lemma keepsD: "keeps P m \<Longrightarrow> P s \<Longrightarrow> m s = (r, s') \<Longrightarrow> P s'"
  by (metis keeps_def snd_conv)

lemma keepsI: "(\<And>s r s'. P s \<Longrightarrow> m s = (r, s') \<Longrightarrow> P s') \<Longrightarrow> keeps P m"
  unfolding keeps_def by (metis prod.collapse)

lemma keeps_ret [keeps_intro]: "keeps P (act_ret x)"
  by (simp add: keeps_def act_ret_def)

lemma keeps_fail [keeps_intro]: "keeps P (act_fail e)"
  by (simp add: keeps_def act_fail_def)

lemma keeps_guard [keeps_intro]: "keeps P (act_guard b e)"
  by (simp add: keeps_def act_guard_def act_ret_def act_fail_def)

lemma keeps_lift [keeps_intro]: "keeps P (act_lift r)"
  by (simp add: keeps_def act_lift_def)

lemma keeps_get [keeps_intro]: "keeps P (act_get f)"
  by (simp add: keeps_def act_get_def)

lemma keeps_bind [keeps_intro]:
  "keeps P m \<Longrightarrow> (\<And>x. keeps P (f x)) \<Longrightarrow> keeps P (act_bind m f)"
  by (fastforce simp: keeps_def act_bind_def split: prod.splits sum.splits)

lemma keeps_try [keeps_intro]: "keeps P m \<Longrightarrow> keeps P (act_try m)"
  by (auto simp: keeps_def act_try_def split: prod.splits)

lemma keeps_fold [keeps_intro]: "(\<And>x a. keeps P (f x a)) \<Longrightarrow> keeps P (act_fold f xs a)"
  by (induction xs arbitrary: a) (auto intro: keeps_ret keeps_bind)

lemma keeps_if [keeps_intro]: "keeps P a \<Longrightarrow> keeps P b \<Longrightarrow> keeps P (if c then a else b)"
  by simp

lemma keeps_case_sum [keeps_intro]:
  "(\<And>e. keeps P (f e)) \<Longrightarrow> (\<And>x. keeps P (g x)) \<Longrightarrow> keeps P (case r of Inl e \<Rightarrow> f e | Inr x \<Rightarrow> g x)"
  by (cases r) auto

lemma keeps_case_option [keeps_intro]:
  "keeps P f \<Longrightarrow> (\<And>x. keeps P (g x)) \<Longrightarrow> keeps P (case r of None \<Rightarrow> f | Some x \<Rightarrow> g x)"
  by (cases r) auto

lemma keeps_case_prod [keeps_intro]:
  "(\<And>x y. keeps P (f x y)) \<Longrightarrow> keeps P (case p of (x, y) \<Rightarrow> f x y)"
  by (cases p) auto

section \<open>Tables\<close>

text \<open>
  A table is the list of its rows in insertion order. \<open>update_rows\<close> is \<open>UPDATE \<dots> SET \<dots> WHERE\<close>,
  \<open>count_rows\<close> its \<open>RowsAffected\<close>, \<open>first_by\<close> a \<open>SELECT \<dots> ORDER BY \<dots> LIMIT 1\<close>.
\<close>

definition update_rows :: "('r \<Rightarrow> bool) \<Rightarrow> ('r \<Rightarrow> 'r) \<Rightarrow> 'r list \<Rightarrow> 'r list" where
  "update_rows P f rows = List.map (\<lambda>r. if P r then f r else r) rows"

definition count_rows :: "('r \<Rightarrow> bool) \<Rightarrow> 'r list \<Rightarrow> nat" where
  "count_rows P rows = length (filter P rows)"

definition first_by :: "('r \<Rightarrow> 'k::linorder) \<Rightarrow> ('r \<Rightarrow> bool) \<Rightarrow> 'r list \<Rightarrow> 'r option" where
  "first_by k P rows = (case sort_key k (filter P rows) of [] \<Rightarrow> None | r # _ \<Rightarrow> Some r)"

definition select_by :: "('r \<Rightarrow> 'k::linorder) \<Rightarrow> ('r \<Rightarrow> bool) \<Rightarrow> nat \<Rightarrow> 'r list \<Rightarrow> 'r list" where
  "select_by k P n rows = take n (sort_key k (filter P rows))"

lemma first_by_Some: "first_by k P rows = Some r \<Longrightarrow> r \<in> set rows \<and> P r"
proof -
  assume "first_by k P rows = Some r"
  then obtain rest where "sort_key k (filter P rows) = r # rest"
    by (auto simp: first_by_def split: list.splits)
  then have "r \<in> set (sort_key k (filter P rows))" by (simp del: set_sort)
  then show ?thesis by simp
qed

lemma first_by_None: "first_by k P rows = None \<longleftrightarrow> (\<forall>r \<in> set rows. \<not> P r)"
proof -
  have "first_by k P rows = None \<longleftrightarrow> sort_key k (filter P rows) = []"
    by (simp add: first_by_def split: list.splits)
  also have "\<dots> \<longleftrightarrow> set (sort_key k (filter P rows)) = {}"
    by (simp del: set_sort)
  also have "\<dots> \<longleftrightarrow> (\<forall>r \<in> set rows. \<not> P r)" by auto
  finally show ?thesis .
qed

lemma first_by_least: "first_by k P rows = Some r \<Longrightarrow> x \<in> set rows \<Longrightarrow> P x \<Longrightarrow> k r \<le> k x"
proof -
  assume r: "first_by k P rows = Some r" and x: "x \<in> set rows" "P x"
  from r obtain rest where s: "sort_key k (filter P rows) = r # rest"
    by (auto simp: first_by_def split: list.splits)
  from x have "x \<in> set (r # rest)" unfolding s [symmetric] by simp
  moreover from s have "sorted (map k (r # rest))" by (metis sorted_sort_key)
  ultimately show ?thesis by auto
qed

lemma select_by_mem: "r \<in> set (select_by k P n rows) \<Longrightarrow> r \<in> set rows \<and> P r"
  by (auto simp: select_by_def dest: in_set_takeD)

lemma select_by_length: "length (select_by k P n rows) \<le> n"
  by (simp add: select_by_def)

lemma find_row_Some: "List.find P rows = Some r \<Longrightarrow> r \<in> set rows \<and> P r"
  by (auto simp: find_Some_iff)

lemma map_update_rows [row_simps]:
  "(\<And>r. g (f r) = g r) \<Longrightarrow> List.map g (update_rows P f rows) = List.map g rows"
  by (simp add: update_rows_def)

lemma set_update_rows: "r \<in> set (update_rows P f rows) \<Longrightarrow>
    (\<exists>q \<in> set rows. (P q \<and> r = f q) \<or> (\<not> P q \<and> r = q))"
  by (auto simp: update_rows_def split: if_splits)

lemma find_update_rows_same:
  "(\<And>r. g (f r) = g r) \<Longrightarrow>
   List.find (\<lambda>r. g r = k) (update_rows P f rows) =
     map_option (\<lambda>r. if P r then f r else r) (List.find (\<lambda>r. g r = k) rows)"
  by (induction rows) (auto simp: update_rows_def)

lemma update_rows_none: "(\<And>r. r \<in> set rows \<Longrightarrow> \<not> P r) \<Longrightarrow> update_rows P f rows = rows"
  unfolding update_rows_def by (rule map_idI) auto

lemma count_rows_le: "count_rows P rows \<le> length rows"
  by (simp add: count_rows_def)

lemma count_rows_0: "count_rows P rows = 0 \<longleftrightarrow> (\<forall>r \<in> set rows. \<not> P r)"
  by (simp add: count_rows_def filter_empty_conv)

text \<open>An update by a unique key meets at most one row; one that meets none changes nothing.\<close>

lemma count_rows_key:
  assumes "distinct (List.map k rows)" and "\<And>r. P r \<Longrightarrow> k r = x"
  shows "count_rows P rows \<le> 1"
  using assms(1)
proof (induction rows)
  case (Cons a rows)
  show ?case
  proof (cases "P a")
    case True
    have "\<not> P r" if "r \<in> set rows" for r
    proof
      assume "P r"
      with True assms(2) have "k a = k r" by metis
      with that Cons.prems show False by auto
    qed
    then have "count_rows P rows = 0" by (simp add: count_rows_0)
    with True show ?thesis by (simp add: count_rows_def)
  qed (use Cons in \<open>simp add: count_rows_def\<close>)
qed (simp add: count_rows_def)

lemma update_rows_unmet: "count_rows P rows = 0 \<Longrightarrow> update_rows P f rows = rows"
  unfolding count_rows_0 by (rule update_rows_none) blast

lemma count_rows_one: "count_rows P rows = 1 \<Longrightarrow> \<exists>r \<in> set rows. P r"
  using count_rows_0 [of P rows] by auto

section \<open>Encodings\<close>

text \<open>The contract of an encoder and its decoder.\<close>

locale codec =
  fixes enc :: "'a \<Rightarrow> 'b"
    and dec :: "'b \<Rightarrow> 'a option"
    and valid :: "'a \<Rightarrow> bool"
  assumes dec_enc: "valid x \<Longrightarrow> dec (enc x) = Some x"
begin

lemma enc_inj: "valid x \<Longrightarrow> valid y \<Longrightarrow> enc x = enc y \<Longrightarrow> x = y"
  by (metis dec_enc option.inject)

lemma enc_inj_on: "inj_on enc {x. valid x}"
  by (rule inj_onI) (auto intro: enc_inj)

end

end
