(* ===== verification/Kailo_Errors.thy ===== *)
theory Kailo_Errors
  imports Kailo_Prelude
begin

text \<open>
  The errors of the program. Each sentinel \<open>errors.New\<close> value that callers compare with
  \<open>errors.Is\<close> is a constructor; \<open>ErrText\<close> stands for the anonymous ones, with their
  text. \<open>fmt.Errorf("\<dots>: %w", err)\<close> keeps the identity of its cause under
  \<open>errors.Is\<close> and \<open>errors.As\<close>, so a wrapped error is modelled by its cause.
  \<open>ErrJoined\<close> is \<open>errors.Join\<close>.
\<close>

datatype auth_error =
    InvalidTransaction | InvalidIdentity | ProviderFailed | GoogleNotConfigured | InvalidSession
  | UserDisabled | InvalidProfile | InvalidAvatar | AvatarNotFound | InvalidPasswordReset
  | InvalidCredentials | EmailTaken | EmailNotVerified | WeakPassword | InvalidChallenge
  | DeveloperModeRequired | InvalidKey | InvalidKeyName

datatype kyc_error =
    KycProviderUnavailable | KycInvalidWebhook | KycInvalidRequest | KycInquiryNotFound
  | KycProviderEventConflict

datatype wallet_error =
    Sep10InvalidAccount | Sep10InvalidChallenge | Sep10ChallengeExpired | Sep10ChallengeConsumed
  | Sep10AccountMismatch | Sep10InvalidToken | Sep10ChallengeNotFound
  | Sep38QuoteNotFound | Sep38QuoteExpired | Sep38QuoteConsumed | Sep38QuoteConflict | Sep38InvalidRequest
  | Sep24InteractiveNotFound | Sep24InteractiveExpired | Sep24InteractiveCompleted | Sep24UserMismatch
  | Sep24WalletMismatch | Sep24InteractiveConflict
  | Sep24InvalidRequest | Sep24TransactionNotFound | Sep24TransactionConflict | Sep24StatusUnavailable
  | InvalidDeveloperWallet | DeveloperWalletProofRequired | DeveloperWalletAccountMismatch
  | DeveloperWalletNotFound | InvalidDeveloperQuery

datatype err =
    ErrInvalidOrderState
  | ErrInvalidAmount
  | ErrInvalidPrice | ErrStalePrice | ErrInvalidQuote
  | ErrInvalidCommand | ErrInvalidDestination | ErrAmountOutOfRange
  | ErrInsufficientLiquidity | ErrIdempotencyConflict | ErrOrderNotFound | ErrCheckoutUnknown
  | CheckoutUnknownError string
  | ErrKYCRequired
  | ErrInvalidOrderPrincipal
  | ErrInvalidFinancialSnapshot
  | ErrInvalidCallback | ErrPaymentMismatch
  | ErrInvalidWithdrawal
  | ErrNoJob
  | ErrRetirementHashAlreadySaved
  | ErrSandboxPayoutDisabled | ErrSandboxPayoutInvalid
  | ErrInvalidQuoteRequest
  | ErrInvalidDepositPayment
  | ErrInvalidWebhookURL | ErrInvalidWebhookEventType
  | ErrWebhookEndpointNotFound | ErrWebhookDeliveryNotFound | ErrWebhookReplayNotAllowed
  | ErrRecordNotFound
  | ErrDuplicateKey
  | ErrCheckViolation | ErrForeignKey
  | ErrDatabase
  | ErrLockConflict
  | ErrContextDone
  | ErrRandom
  | ErrText string
  | ErrJoined err err
  | ErrAuth auth_error
  | ErrKYC kyc_error
  | ErrWallet wallet_error
  | KYCProviderUnavailableError err

text \<open>
  \<open>errors.Is\<close>: \<open>CheckoutUnknownError\<close> unwraps to \<open>ErrCheckoutUnknown\<close>, a join to both parts,
  \<open>KYCProviderUnavailableError\<close> is \<open>ErrKYCProviderUnavailable\<close> and unwraps to its cause.
\<close>

fun errors_is :: "err \<Rightarrow> err \<Rightarrow> bool" where
  "errors_is (ErrJoined a b) t \<longleftrightarrow> ErrJoined a b = t \<or> errors_is a t \<or> errors_is b t"
| "errors_is (CheckoutUnknownError i) t \<longleftrightarrow> t = CheckoutUnknownError i \<or> t = ErrCheckoutUnknown"
| "errors_is (KYCProviderUnavailableError e) t \<longleftrightarrow>
     t = KYCProviderUnavailableError e \<or> t = ErrKYC KycProviderUnavailable \<or> errors_is e t"
| "errors_is e t \<longleftrightarrow> e = t"

end
