(* ===== verification/Order_Machine.thy ===== *)
theory Order_Machine
  imports Kailo_Errors
begin

text \<open>
  \<open>internal/entity/order.go\<close>: the statuses of an order, the transition relation between
  them and the aggregate \<open>Order\<close> with its version counter. The lemmas characterise the
  lifecycles the relation admits: they never repeat a status, they are short, and they complete
  only through the settlement stages.
\<close>

datatype order_status =
    OSUnknown | OSCreated | OSPaymentPending | OSPaymentConfirmed | OSStellarProcessing
  | OSCompleted | OSExpired | OSPaymentFailed | OSStellarFailed | OSCancelled
  | OSAssetPending | OSAssetReceived | OSAssetInvalid | OSRetirementProcessing
  | OSWithdrawalProcessing | OSRetirementFailed | OSWithdrawalFailed

fun status_text :: "order_status \<Rightarrow> string" where
  "status_text OSUnknown = ''''"
| "status_text OSCreated = ''created''"
| "status_text OSPaymentPending = ''payment_pending''"
| "status_text OSPaymentConfirmed = ''payment_confirmed''"
| "status_text OSStellarProcessing = ''stellar_processing''"
| "status_text OSCompleted = ''completed''"
| "status_text OSExpired = ''expired''"
| "status_text OSPaymentFailed = ''payment_failed''"
| "status_text OSStellarFailed = ''stellar_failed''"
| "status_text OSCancelled = ''cancelled''"
| "status_text OSAssetPending = ''asset_pending''"
| "status_text OSAssetReceived = ''asset_received''"
| "status_text OSAssetInvalid = ''asset_invalid''"
| "status_text OSRetirementProcessing = ''retirement_processing''"
| "status_text OSWithdrawalProcessing = ''withdrawal_processing''"
| "status_text OSRetirementFailed = ''retirement_failed''"
| "status_text OSWithdrawalFailed = ''withdrawal_failed''"

datatype payment_method = PMUnknown | PMQRIS | PMBRIVA | PMXendit | PMOther string

fun payment_method_text :: "payment_method \<Rightarrow> string" where
  "payment_method_text PMUnknown = ''''"
| "payment_method_text PMQRIS = ''qris''"
| "payment_method_text PMBRIVA = ''bri_va''"
| "payment_method_text PMXendit = ''xendit''"
| "payment_method_text (PMOther s) = s"

datatype withdrawal_method = WMUnknown | WMSandboxTransfer | WMOther string

fun withdrawal_method_text :: "withdrawal_method \<Rightarrow> string" where
  "withdrawal_method_text WMUnknown = ''''"
| "withdrawal_method_text WMSandboxTransfer = ''sandbox_bank_transfer''"
| "withdrawal_method_text (WMOther s) = s"

fun allowed_transition :: "order_status \<Rightarrow> order_status \<Rightarrow> bool" where
  "allowed_transition OSCreated n =
     (n = OSPaymentPending \<or> n = OSAssetPending \<or> n = OSPaymentFailed \<or> n = OSCancelled)"
| "allowed_transition OSPaymentPending n =
     (n = OSPaymentConfirmed \<or> n = OSExpired \<or> n = OSPaymentFailed \<or> n = OSCancelled)"
| "allowed_transition OSPaymentConfirmed n = (n = OSStellarProcessing)"
| "allowed_transition OSStellarProcessing n = (n = OSCompleted \<or> n = OSStellarFailed)"
| "allowed_transition OSAssetPending n =
     (n = OSAssetReceived \<or> n = OSExpired \<or> n = OSAssetInvalid \<or> n = OSCancelled)"
| "allowed_transition OSAssetReceived n = (n = OSRetirementProcessing)"
| "allowed_transition OSRetirementProcessing n = (n = OSWithdrawalProcessing \<or> n = OSRetirementFailed)"
| "allowed_transition OSWithdrawalProcessing n = (n = OSCompleted \<or> n = OSWithdrawalFailed)"
| "allowed_transition _ n = False"

record order_aggregate =
  agg_status :: order_status
  agg_version :: int

definition order_transition :: "order_aggregate \<Rightarrow> order_status \<Rightarrow> err + order_aggregate" where
  "order_transition ord n =
     (if \<not> allowed_transition (agg_status ord) n then Inl ErrInvalidOrderState
      else Inr (ord\<lparr>agg_status := n, agg_version := agg_version ord + 1\<rparr>))"

text \<open>Several transitions in a row, stopping at the first one refused.\<close>

fun order_transitions :: "order_aggregate \<Rightarrow> order_status list \<Rightarrow> err + order_aggregate" where
  "order_transitions ord [] = Inr ord"
| "order_transitions ord (n # ns) =
     (case order_transition ord n of Inl e \<Rightarrow> Inl e | Inr ord' \<Rightarrow> order_transitions ord' ns)"

section \<open>Lifecycles\<close>

text \<open>A rank that every allowed transition raises: the relation has no cycle.\<close>

fun status_rank :: "order_status \<Rightarrow> nat" where
  "status_rank OSUnknown = 0"
| "status_rank OSCreated = 0"
| "status_rank OSPaymentPending = 1"
| "status_rank OSPaymentConfirmed = 2"
| "status_rank OSStellarProcessing = 3"
| "status_rank OSAssetPending = 1"
| "status_rank OSAssetReceived = 2"
| "status_rank OSRetirementProcessing = 3"
| "status_rank OSWithdrawalProcessing = 4"
| "status_rank _ = 5"

definition terminal_status :: "order_status \<Rightarrow> bool" where
  "terminal_status s \<longleftrightarrow> s \<in> {OSUnknown, OSCompleted, OSExpired, OSPaymentFailed, OSStellarFailed,
     OSCancelled, OSAssetInvalid, OSRetirementFailed, OSWithdrawalFailed}"

lemma allowed_rank: "allowed_transition a b \<Longrightarrow> status_rank a < status_rank b"
  by (cases a) auto

lemma rank_bound: "status_rank s \<le> 5"
  by (cases s) auto

lemma terminal_stuck: "terminal_status s \<Longrightarrow> \<not> allowed_transition s n"
  by (cases s) (auto simp: terminal_status_def)

lemma chain_rank: "successively allowed_transition (s # ns) \<Longrightarrow>
    status_rank s + length ns \<le> status_rank (last (s # ns))"
proof (induction ns arbitrary: s)
  case Nil
  then show ?case by simp
next
  case (Cons n ns)
  then have "status_rank s < status_rank n" by (auto dest: allowed_rank)
  moreover from Cons have "status_rank n + length ns \<le> status_rank (last (n # ns))" by simp
  ultimately show ?case by simp
qed

lemma chain_above: "successively allowed_transition (s # ns) \<Longrightarrow> n \<in> set ns \<Longrightarrow>
    status_rank s < status_rank n"
proof (induction ns arbitrary: s)
  case Nil
  then show ?case by simp
next
  case (Cons m ns)
  then have m: "status_rank s < status_rank m" by (auto dest: allowed_rank)
  show ?case
  proof (cases "n = m")
    case True
    with m show ?thesis by simp
  next
    case False
    with Cons have "status_rank m < status_rank n" by simp
    with m show ?thesis by simp
  qed
qed

lemma chain_distinct: "successively allowed_transition xs \<Longrightarrow> distinct xs"
proof (induction xs)
  case Nil
  then show ?case by simp
next
  case (Cons x xs)
  then have "x \<notin> set xs" using chain_above [of x xs x] by auto
  moreover from Cons have "successively allowed_transition xs" by (auto simp: successively_Cons)
  ultimately show ?case using Cons.IH by simp
qed

lemma order_transitions_Inr: "order_transitions ord ns = Inr ord' \<longleftrightarrow>
    successively allowed_transition (agg_status ord # ns) \<and>
    ord' = ord\<lparr>agg_status := last (agg_status ord # ns), agg_version := agg_version ord + int (length ns)\<rparr>"
  by (induction ns arbitrary: ord) (auto simp: order_transition_def split: if_splits)

text \<open>A status a chain ends in was entered from one of its predecessors.\<close>

lemma chain_enters: "successively allowed_transition (s # ns) \<Longrightarrow> t \<in> set ns \<Longrightarrow>
    \<exists>p \<in> set (s # ns). allowed_transition p t"
  by (induction ns arbitrary: s) auto

lemma chain_enters_ne:
  assumes "successively allowed_transition (s # ns)" and "t \<in> set (s # ns)" and "t \<noteq> s"
  shows "\<exists>p \<in> set (s # ns). allowed_transition p t"
  using assms chain_enters [of s ns t] by auto

lemma completed_from: "allowed_transition p OSCompleted \<Longrightarrow> p = OSStellarProcessing \<or> p = OSWithdrawalProcessing"
  by (cases p) auto

lemma stellar_from: "allowed_transition p OSStellarProcessing \<Longrightarrow> p = OSPaymentConfirmed"
  by (cases p) auto

lemma confirmed_from: "allowed_transition p OSPaymentConfirmed \<Longrightarrow> p = OSPaymentPending"
  by (cases p) auto

lemma withdrawal_from: "allowed_transition p OSWithdrawalProcessing \<Longrightarrow> p = OSRetirementProcessing"
  by (cases p) auto

lemma retirement_from: "allowed_transition p OSRetirementProcessing \<Longrightarrow> p = OSAssetReceived"
  by (cases p) auto

text \<open>Completion is reached through one of the two settlement pipelines.\<close>

lemma chain_completed:
  assumes c: "successively allowed_transition (OSCreated # ns)" and t: "OSCompleted \<in> set ns"
  shows "{OSPaymentConfirmed, OSStellarProcessing} \<subseteq> set ns \<or>
         {OSAssetReceived, OSRetirementProcessing, OSWithdrawalProcessing} \<subseteq> set ns"
proof -
  have pre: "\<exists>p \<in> set ns. allowed_transition p u"
    if "u \<in> set ns" "\<not> allowed_transition OSCreated u" for u
    using chain_enters [OF c that(1)] that(2) by auto
  from pre [OF t] obtain p where p: "p \<in> set ns" "allowed_transition p OSCompleted" by auto
  from completed_from [OF p(2)] show ?thesis
  proof
    assume "p = OSStellarProcessing"
    with p(1) pre [of OSStellarProcessing] show ?thesis by (auto dest: stellar_from)
  next
    assume w: "p = OSWithdrawalProcessing"
    with p(1) pre [of OSWithdrawalProcessing] have r: "OSRetirementProcessing \<in> set ns"
      by (auto dest: withdrawal_from)
    with pre [of OSRetirementProcessing] have "OSAssetReceived \<in> set ns"
      by (auto dest: retirement_from)
    with r w p(1) show ?thesis by auto
  qed
qed

end
