(* ===== verification/Amounts.thy ===== *)
theory Amounts
  imports Complex_Main Order_Machine
begin

text \<open>
  \<open>internal/entity/amount.go\<close>, the decimal parsers of the use cases and repositories
  (\<open>parseDecimalStroops\<close>, \<open>parseStroops\<close>, \<open>parseSEP38IDR\<close>) and the two
  \<open>math/big\<close> functions they and the quotes rest on, \<open>Rat.SetString\<close> and
  \<open>Rat.FloatString\<close>. Amounts are \<open>int64\<close> in the code; the model keeps them as \<open>int\<close>
  with the range test written where the code tests it.
\<close>

type_synonym idr = int
type_synonym stroops = int

definition stroops_per_xlm :: stroops where "stroops_per_xlm = 10000000"

definition amount_validate :: "int \<Rightarrow> err + unit" where
  "amount_validate a = (if a \<le> 0 then Inl ErrInvalidAmount else Inr ())"

text \<open>\<open>%0wd\<close> pads after the sign and counts it.\<close>

definition pad_int :: "nat \<Rightarrow> int \<Rightarrow> string" where
  "pad_int w x = (if x < 0 then CHR ''-'' # pad_str (w - 1) (nat (- x)) else pad_str w (nat x))"

definition stroops_string :: "stroops \<Rightarrow> string" where
  "stroops_string a =
     (let whole = go_quo a stroops_per_xlm; fraction = go_rem a stroops_per_xlm
      in format_int whole @ ''.'' @ pad_int 7 fraction)"

definition parse_decimal_stroops :: "string \<Rightarrow> err + stroops" where
  "parse_decimal_stroops value =
     (case str_cut (CHR ''.'') value of (whole, fraction, ok) \<Rightarrow>
      if whole = '''' \<and> fraction = '''' then Inl (ErrText ''empty XLM amount'')
      else if length fraction > 7 then Inl (ErrText ''more than stroop precision'')
      else if \<not> list_all is_digit (whole @ fraction) then Inl (ErrText ''non-numeric XLM amount'')
      else if whole \<noteq> '''' \<and> hd whole = CHR ''0'' \<and> length whole > 1
        then Inl (ErrText ''leading zero in XLM amount'')
      else let digits = whole @ fraction @ replicate (7 - length fraction) (CHR ''0'');
               number = int (digits_val digits)
           in if \<not> is_int64 number \<or> number \<le> 0 then Inl (ErrText ''XLM amount out of range'')
              else Inr number)"

section \<open>Decimal rationals\<close>

text \<open>
  \<open>Rat.SetString\<close> on the decimal grammar \<open>[sign] digits [. digits] [e [sign] digits]\<close>. Its
  inputs here are JSON numbers (the market price), \<open>Rat.FloatString\<close> output (stored rates)
  and PostgreSQL \<open>numeric\<close> text, none of which has a base prefix, an underscore or a
  fraction bar. A decimal exponent beyond one million is refused unless the mantissa is zero.
\<close>

definition parse_exponent :: "string \<Rightarrow> int option" where
  "parse_exponent s =
     (let (neg, ds) = (case s of [] \<Rightarrow> (False, [])
                       | c # r \<Rightarrow> if c = CHR ''-'' then (True, r) else if c = CHR ''+'' then (False, r)
                                 else (False, c # r))
      in if ds = [] \<or> \<not> list_all is_digit ds \<or> \<not> is_int64 (int (digits_val ds)) then None
         else Some (if neg then - int (digits_val ds) else int (digits_val ds)))"

definition rat_scale :: "nat \<Rightarrow> int \<Rightarrow> rat" where
  "rat_scale m x = (if 0 \<le> x then of_nat m * 10 ^ nat x else of_nat m / 10 ^ nat (- x))"

definition rat_unsigned :: "string \<Rightarrow> rat option" where
  "rat_unsigned s =
     (let mant = takeWhile (\<lambda>c. c \<noteq> CHR ''e'' \<and> c \<noteq> CHR ''E'') s;
          expo = (if mant = s then Some 0 else parse_exponent (drop (Suc (length mant)) s))
      in case str_cut (CHR ''.'') mant of (whole, fraction, ok) \<Rightarrow>
         if whole @ fraction = '''' \<or> \<not> list_all is_digit (whole @ fraction) then None
         else case expo of None \<Rightarrow> None
         | Some e \<Rightarrow>
             let m = digits_val (whole @ fraction); x = e - int (length fraction)
             in if m = 0 then Some 0 else if \<bar>x\<bar> > 1000000 then None else Some (rat_scale m x))"

definition rat_set_string :: "string \<Rightarrow> rat option" where
  "rat_set_string s =
     (case s of [] \<Rightarrow> None
      | c # r \<Rightarrow> if c = CHR ''-'' then map_option uminus (rat_unsigned r)
                else if c = CHR ''+'' then rat_unsigned r else rat_unsigned s)"

text \<open>\<open>Rat.FloatString\<close>: the given number of decimals, rounding half away from zero.\<close>

definition float_parts :: "nat \<Rightarrow> int \<Rightarrow> int \<Rightarrow> int \<times> int" where
  "float_parts prec a b =
     (let q = a div b; r0 = (a mod b) * 10 ^ prec; r = r0 div b; r2 = r0 mod b
      in if b \<le> r2 + r2
         then (if 10 ^ prec \<le> r + 1 then (q + 1, r + 1 - 10 ^ prec) else (q, r + 1))
         else (q, r))"

definition float_string :: "nat \<Rightarrow> rat \<Rightarrow> string" where
  "float_string prec x =
     (case quotient_of x of (a, b) \<Rightarrow>
      case float_parts prec \<bar>a\<bar> b of (q, r) \<Rightarrow>
        (if a < 0 then ''-'' else '''') @ nat_str (nat q) @ ''.'' @ pad_str prec (nat r))"

text \<open>\<open>decimal\<close> of \<open>onramp_quote_usecase.go\<close>.\<close>

definition decimal :: "rat \<Rightarrow> string" where
  "decimal value = trim_right_char (CHR ''.'') (trim_right_char (CHR ''0'') (float_string 18 value))"

text \<open>\<open>parseStroops\<close> of \<open>settlement_repository.go\<close>, on the stored \<open>numeric\<close> text.\<close>

definition parse_stroops :: "string \<Rightarrow> err + stroops" where
  "parse_stroops amount =
     (case rat_set_string amount of
        None \<Rightarrow> Inl (ErrText ''invalid settlement amount'')
      | Some value \<Rightarrow>
          if value \<le> 0 then Inl (ErrText ''invalid settlement amount'')
          else let scaled = value * of_int stroops_per_xlm
               in if snd (quotient_of scaled) \<noteq> 1 \<or> \<not> is_int64 (fst (quotient_of scaled))
                  then Inl (ErrText ''settlement amount exceeds stroop precision'')
                  else Inr (fst (quotient_of scaled)))"

section \<open>Facts about the formats\<close>

lemma not_digit [simp]: "\<not> is_digit (CHR ''.'')" "\<not> is_digit (CHR ''-'')" "\<not> is_digit (CHR ''+'')"
  "\<not> is_digit (CHR ''e'')" "\<not> is_digit (CHR ''E'')" "\<not> is_digit (CHR '':'')"
  by (simp_all add: is_digit_nat)

lemma dot_notin_nat_str [simp]: "CHR ''.'' \<notin> set (nat_str n)"
  using nat_str_digits not_digit by blast

lemma stroops_string_pos:
  assumes "0 \<le> a"
  shows "stroops_string a =
    nat_str (nat (a div stroops_per_xlm)) @ ''.'' @ pad_str 7 (nat (a mod stroops_per_xlm))"
proof -
  have p: "0 < stroops_per_xlm" by (simp add: stroops_per_xlm_def)
  have "0 \<le> a div stroops_per_xlm" using assms p by (simp add: pos_imp_zdiv_nonneg_iff)
  moreover have "\<not> a mod stroops_per_xlm < 0" using p by (simp add: not_less)
  ultimately show ?thesis
    using assms p
    by (simp add: stroops_string_def go_quo_nonneg go_rem_nonneg Let_def format_int_def pad_int_def)
qed

lemma nat_str_leading: "nat_str n \<noteq> '''' \<and> hd (nat_str n) = CHR ''0'' \<and> length (nat_str n) > 1 \<longleftrightarrow> False"
proof (cases "n = 0")
  case True
  then show ?thesis by (simp add: nat_str_small)
next
  case False
  then show ?thesis using nat_str_hd by simp
qed

lemma cut_dot_stroops:
  "str_cut (CHR ''.'') (nat_str w @ ''.'' @ pad_str 7 f) = (nat_str w, pad_str 7 f, True)"
  using str_cut_append [of "CHR ''.''" "nat_str w"] by simp

lemma list_all_digits: "list_all is_digit (nat_str w @ pad_str k f)"
  by (auto simp: list_all_iff dest: nat_str_digits pad_str_digits)

lemma stroops_parts: "0 \<le> a \<Longrightarrow>
    int (digits_val (nat_str (nat (a div stroops_per_xlm)) @ pad_str 7 (nat (a mod stroops_per_xlm)))) = a"
proof -
  assume a: "0 \<le> a"
  have "nat (a mod stroops_per_xlm) < 10 ^ 7"
    using a by (simp add: stroops_per_xlm_def nat_less_iff)
  then have l: "length (pad_str 7 (nat (a mod stroops_per_xlm))) = 7" by (rule length_pad_str) simp
  show ?thesis
    using a unfolding digits_val_append l
    by (simp add: stroops_per_xlm_def pos_imp_zdiv_nonneg_iff)
qed

lemma pad7_length: "0 \<le> a \<Longrightarrow> length (pad_str 7 (nat (a mod stroops_per_xlm))) = 7"
  by (rule length_pad_str) (simp_all add: stroops_per_xlm_def nat_less_iff)

lemma parse_decimal_stroops_bounds:
  "parse_decimal_stroops v = Inr s \<Longrightarrow> 0 < s \<and> s \<le> int64_max"
  by (auto simp: parse_decimal_stroops_def is_int64_def Let_def split: prod.splits if_splits)

text \<open>The numerator and denominator of a rational.\<close>

lemma quotient_of_value: "quotient_of x = (n, d) \<Longrightarrow> x = of_int n / of_int d \<and> 0 < d"
  by (simp add: quotient_of_div quotient_of_denom_pos)

lemma quotient_of_pos: "0 < x \<Longrightarrow> quotient_of x = (n, d) \<Longrightarrow> 0 < n \<and> 0 < d"
  using quotient_of_value [of x n d] by (auto simp: zero_less_divide_iff)

lemma quotient_of_whole: "snd (quotient_of x) = 1 \<Longrightarrow> x = of_int (fst (quotient_of x))"
  using quotient_of_value [of x "fst (quotient_of x)" 1] by (metis div_by_1 of_int_1 prod.collapse)

lemma parse_stroops_Inr:
  "parse_stroops v = Inr s \<longleftrightarrow>
     (\<exists>x. rat_set_string v = Some x \<and> 0 < x \<and> x * of_int stroops_per_xlm = of_int s \<and> is_int64 s)"
proof
  assume "parse_stroops v = Inr s"
  then show "\<exists>x. rat_set_string v = Some x \<and> 0 < x \<and> x * of_int stroops_per_xlm = of_int s \<and> is_int64 s"
    using quotient_of_whole
    by (fastforce simp: parse_stroops_def Let_def split: option.splits if_splits)
next
  assume "\<exists>x. rat_set_string v = Some x \<and> 0 < x \<and> x * of_int stroops_per_xlm = of_int s \<and> is_int64 s"
  then show "parse_stroops v = Inr s" by (auto simp: parse_stroops_def Let_def)
qed

lemma parse_stroops_bounds:
  assumes "parse_stroops v = Inr s"
  shows "0 < s \<and> s \<le> int64_max"
proof -
  from assms obtain x :: rat where x: "0 < x" "x * of_int stroops_per_xlm = of_int s" "is_int64 s"
    by (auto simp: parse_stroops_Inr)
  then have "(0::rat) < of_int s" by (metis mult_pos_pos of_int_0_less_iff stroops_per_xlm_def zero_less_numeral)
  with x(3) show ?thesis by (simp add: is_int64_def)
qed

end
