(* ===== verification/Quote.thy ===== *)
theory Quote
  imports Amounts
begin

text \<open>
  \<open>internal/usecase/onramp_quote_usecase.go\<close>: the quote policy that prices buy orders
  (\<open>quote_create\<close>) and sell orders (\<open>quote_create_reverse\<close>) from a market price with a
  spread in basis points. Rates are exact rationals; each result is rounded down once.
\<close>

record market_price =
  idr_per_xlm :: string
  observed_at :: time

record quote =
  fiat_amount :: idr
  asset_amount :: stroops
  q_rate :: string
  adjusted_rate :: string
  q_spread_bps :: int
  source_at :: time
  q_expires_at :: time

record quote_policy =
  ttl :: duration
  max_age :: duration
  spread_bps :: int

definition policy_invalid :: "quote_policy \<Rightarrow> bool" where
  "policy_invalid p \<longleftrightarrow> ttl p \<le> 0 \<or> max_age p \<le> 0 \<or> spread_bps p < 0 \<or> spread_bps p > 10000"

definition price_stale :: "quote_policy \<Rightarrow> time \<Rightarrow> market_price \<Rightarrow> bool" where
  "price_stale p now m \<longleftrightarrow>
     observed_at m = 0 \<or> time_sub now (observed_at m) > max_age p \<or> observed_at m > now + minute"

definition spread_multiplier :: "quote_policy \<Rightarrow> rat" where
  "spread_multiplier p = of_int (10000 + spread_bps p) / 10000"

definition quote_create :: "quote_policy \<Rightarrow> time \<Rightarrow> idr \<Rightarrow> market_price \<Rightarrow> err + quote" where
  "quote_create p now amount m =
     (if policy_invalid p \<or> amount_validate amount \<noteq> Inr () then Inl ErrInvalidQuote
      else if price_stale p now m then Inl ErrStalePrice
      else case rat_set_string (trim_space (idr_per_xlm m)) of
        None \<Rightarrow> Inl ErrInvalidPrice
      | Some rate \<Rightarrow>
          if rate \<le> 0 then Inl ErrInvalidPrice
          else let adjusted = rate * spread_multiplier p;
                   numerator = amount * stroops_per_xlm * snd (quotient_of adjusted);
                   stroops = go_quo numerator (fst (quotient_of adjusted))
               in if \<not> is_int64 stroops \<or> stroops \<le> 0 then Inl ErrInvalidQuote
                  else Inr \<lparr>fiat_amount = amount, asset_amount = stroops,
                         q_rate = decimal rate, adjusted_rate = decimal adjusted,
                         q_spread_bps = spread_bps p, source_at = observed_at m,
                         q_expires_at = now + ttl p\<rparr>)"

definition quote_create_reverse :: "quote_policy \<Rightarrow> time \<Rightarrow> stroops \<Rightarrow> market_price \<Rightarrow> err + quote" where
  "quote_create_reverse p now asset m =
     (if policy_invalid p \<or> amount_validate asset \<noteq> Inr () then Inl ErrInvalidQuote
      else if price_stale p now m then Inl ErrStalePrice
      else case rat_set_string (trim_space (idr_per_xlm m)) of
        None \<Rightarrow> Inl ErrInvalidPrice
      | Some rate \<Rightarrow>
          if rate \<le> 0 then Inl ErrInvalidPrice
          else let adjusted = rate * spread_multiplier p;
                   numerator = asset * fst (quotient_of adjusted);
                   idr_minor = go_quo numerator (snd (quotient_of adjusted) * stroops_per_xlm)
               in if \<not> is_int64 idr_minor \<or> idr_minor \<le> 0 then Inl ErrInvalidQuote
                  else Inr \<lparr>fiat_amount = idr_minor, asset_amount = asset,
                         q_rate = decimal rate, adjusted_rate = decimal adjusted,
                         q_spread_bps = spread_bps p, source_at = observed_at m,
                         q_expires_at = now + ttl p\<rparr>)"

section \<open>The abstract price of an order\<close>

text \<open>
  Abstractly a quote is one floor: the amount bought is \<open>floor (amount * 10^7 / r)\<close> and the
  amount paid out is \<open>floor (asset * r / 10^7)\<close>, with \<open>r\<close> the adjusted rate.
\<close>

definition buy_floor :: "rat \<Rightarrow> idr \<Rightarrow> stroops" where
  "buy_floor r amount = \<lfloor>of_int (amount * stroops_per_xlm) / r\<rfloor>"

definition sell_floor :: "rat \<Rightarrow> stroops \<Rightarrow> idr" where
  "sell_floor r asset = \<lfloor>of_int asset * r / of_int stroops_per_xlm\<rfloor>"

definition market_rate :: "market_price \<Rightarrow> rat option" where
  "market_rate m = rat_set_string (trim_space (idr_per_xlm m))"

definition adjusted_market_rate :: "quote_policy \<Rightarrow> market_price \<Rightarrow> rat" where
  "adjusted_market_rate p m = the (market_rate m) * spread_multiplier p"

lemma floor_div_pos:
  assumes "0 < d"
  shows "\<lfloor>(of_int n :: rat) / of_int d\<rfloor> = n div d"
  by (rule floor_divide_of_int_eq)

lemma buy_floor_quo:
  assumes r: "0 < r" and a: "0 < a"
  shows "go_quo (a * stroops_per_xlm * snd (quotient_of r)) (fst (quotient_of r)) = buy_floor r a"
proof -
  obtain n d where q: "quotient_of r = (n, d)" by (cases "quotient_of r")
  from quotient_of_value [OF q] quotient_of_pos [OF r q]
  have v: "r = of_int n / of_int d" "0 < n" "0 < d" by auto
  have "go_quo (a * stroops_per_xlm * d) n = (a * stroops_per_xlm * d) div n"
    using a v by (intro go_quo_nonneg) (simp_all add: stroops_per_xlm_def)
  also have "\<dots> = \<lfloor>(of_int (a * stroops_per_xlm * d) :: rat) / of_int n\<rfloor>"
    using v by (simp only: floor_div_pos)
  also have "(of_int (a * stroops_per_xlm * d) :: rat) / of_int n = of_int (a * stroops_per_xlm) / r"
    using v by simp
  finally show ?thesis by (simp add: q buy_floor_def)
qed

lemma sell_floor_quo:
  assumes r: "0 < r" and a: "0 < a"
  shows "go_quo (a * fst (quotient_of r)) (snd (quotient_of r) * stroops_per_xlm) = sell_floor r a"
proof -
  obtain n d where q: "quotient_of r = (n, d)" by (cases "quotient_of r")
  from quotient_of_value [OF q] quotient_of_pos [OF r q]
  have v: "r = of_int n / of_int d" "0 < n" "0 < d" by auto
  have "go_quo (a * n) (d * stroops_per_xlm) = (a * n) div (d * stroops_per_xlm)"
    using a v by (intro go_quo_nonneg) (simp_all add: stroops_per_xlm_def)
  also have "\<dots> = \<lfloor>(of_int (a * n) :: rat) / of_int (d * stroops_per_xlm)\<rfloor>"
    using v by (intro floor_div_pos [symmetric]) (simp add: stroops_per_xlm_def)
  also have "(of_int (a * n) :: rat) / of_int (d * stroops_per_xlm) = of_int a * r / of_int stroops_per_xlm"
    using v by simp
  finally show ?thesis by (simp add: q sell_floor_def)
qed

lemma spread_multiplier_ge1: "\<not> policy_invalid p \<Longrightarrow> 1 \<le> spread_multiplier p"
  by (simp add: policy_invalid_def spread_multiplier_def)

lemma adjusted_pos: "\<not> policy_invalid p \<Longrightarrow> 0 < rate \<Longrightarrow> 0 < rate * spread_multiplier p"
  using spread_multiplier_ge1 [of p] by simp

lemma quote_create_Inr:
  "quote_create p now a m = Inr q \<longleftrightarrow>
     \<not> policy_invalid p \<and> 0 < a \<and> \<not> price_stale p now m \<and>
     (\<exists>rate. market_rate m = Some rate \<and> 0 < rate \<and>
        (let adj = rate * spread_multiplier p
         in 0 < buy_floor adj a \<and> is_int64 (buy_floor adj a) \<and>
            q = \<lparr>fiat_amount = a, asset_amount = buy_floor adj a, q_rate = decimal rate,
                  adjusted_rate = decimal adj, q_spread_bps = spread_bps p,
                  source_at = observed_at m, q_expires_at = now + ttl p\<rparr>))"
  using buy_floor_quo adjusted_pos [of p]
  by (auto simp: quote_create_def market_rate_def amount_validate_def Let_def split: option.splits)

lemma quote_create_reverse_Inr:
  "quote_create_reverse p now a m = Inr q \<longleftrightarrow>
     \<not> policy_invalid p \<and> 0 < a \<and> \<not> price_stale p now m \<and>
     (\<exists>rate. market_rate m = Some rate \<and> 0 < rate \<and>
        (let adj = rate * spread_multiplier p
         in 0 < sell_floor adj a \<and> is_int64 (sell_floor adj a) \<and>
            q = \<lparr>fiat_amount = sell_floor adj a, asset_amount = a, q_rate = decimal rate,
                  adjusted_rate = decimal adj, q_spread_bps = spread_bps p,
                  source_at = observed_at m, q_expires_at = now + ttl p\<rparr>))"
  using sell_floor_quo adjusted_pos [of p]
  by (auto simp: quote_create_reverse_def market_rate_def amount_validate_def Let_def
      split: option.splits)

lemma buy_floor_bounds:
  assumes "0 < r"
  shows "of_int (buy_floor r a) * r \<le> of_int (a * stroops_per_xlm)"
    and "of_int (a * stroops_per_xlm) < of_int (buy_floor r a + 1) * r"
proof -
  let ?x = "of_int (a * stroops_per_xlm) / r"
  have "of_int (buy_floor r a) \<le> ?x" "?x < of_int (buy_floor r a) + 1"
    unfolding buy_floor_def by linarith+
  then show "of_int (buy_floor r a) * r \<le> of_int (a * stroops_per_xlm)"
    and "of_int (a * stroops_per_xlm) < of_int (buy_floor r a + 1) * r"
    using assms by (simp_all add: pos_le_divide_eq pos_divide_less_eq)
qed

lemma sell_floor_bounds:
  "of_int (sell_floor r a) * of_int stroops_per_xlm \<le> of_int a * r"
  "of_int a * r < of_int (sell_floor r a + 1) * of_int stroops_per_xlm"
proof -
  let ?x = "of_int a * r / of_int stroops_per_xlm"
  have p: "(0::rat) < of_int stroops_per_xlm" by (simp add: stroops_per_xlm_def)
  have "of_int (sell_floor r a) \<le> ?x" "?x < of_int (sell_floor r a) + 1"
    unfolding sell_floor_def by linarith+
  with p show "of_int (sell_floor r a) * of_int stroops_per_xlm \<le> of_int a * r"
    and "of_int a * r < of_int (sell_floor r a + 1) * of_int stroops_per_xlm"
    by (simp_all add: pos_le_divide_eq pos_divide_less_eq)
qed

text \<open>Selling what was bought, at the same adjusted rate, never yields more than was paid.\<close>

lemma sell_buy_le:
  assumes "0 < r"
  shows "sell_floor r (buy_floor r a) \<le> a"
proof -
  have p: "(0::rat) < of_int stroops_per_xlm" by (simp add: stroops_per_xlm_def)
  have "of_int (sell_floor r (buy_floor r a)) * (of_int stroops_per_xlm :: rat)
      \<le> of_int (buy_floor r a) * r" by (rule sell_floor_bounds)
  also have "\<dots> \<le> of_int a * of_int stroops_per_xlm"
    using buy_floor_bounds(1) [OF assms, of a] by simp
  finally have "(of_int (sell_floor r (buy_floor r a)) :: rat) \<le> of_int a" using p by simp
  then show ?thesis by simp
qed

lemma buy_sell_le:
  assumes r: "0 < r"
  shows "buy_floor r (sell_floor r a) \<le> a"
proof -
  have "of_int (buy_floor r (sell_floor r a)) * r \<le> of_int (sell_floor r a) * of_int stroops_per_xlm"
    using buy_floor_bounds(1) [OF r, of "sell_floor r a"] by simp
  also have "\<dots> \<le> of_int a * r" by (rule sell_floor_bounds)
  finally have "(of_int (buy_floor r (sell_floor r a)) :: rat) \<le> of_int a" using r by simp
  then show ?thesis by simp
qed

lemma buy_floor_mono: "0 < r \<Longrightarrow> a \<le> b \<Longrightarrow> buy_floor r a \<le> buy_floor r b"
  unfolding buy_floor_def by (intro floor_mono divide_right_mono) (auto simp: stroops_per_xlm_def)

lemma buy_floor_antimono_rate: "0 < r \<Longrightarrow> r \<le> r' \<Longrightarrow> 0 \<le> a \<Longrightarrow> buy_floor r' a \<le> buy_floor r a"
  unfolding buy_floor_def
  by (intro floor_mono divide_left_mono) (auto simp: stroops_per_xlm_def)

lemma sell_floor_mono_rate: "r \<le> r' \<Longrightarrow> 0 \<le> a \<Longrightarrow> sell_floor r a \<le> sell_floor r' a"
  unfolding sell_floor_def
  by (intro floor_mono divide_right_mono mult_left_mono) (auto simp: stroops_per_xlm_def)

text \<open>Both functions as the floors, with every error.\<close>

lemma buy_floor_lower: "0 < r \<Longrightarrow> 0 < a \<Longrightarrow> \<not> buy_floor r a < int64_min"
proof -
  assume "0 < r" "0 < a"
  then have "0 \<le> buy_floor r a" by (simp add: buy_floor_def stroops_per_xlm_def)
  then show ?thesis by (simp add: int64_min_def)
qed

lemma sell_floor_lower: "0 < r \<Longrightarrow> 0 < a \<Longrightarrow> \<not> sell_floor r a < int64_min"
proof -
  assume "0 < r" "0 < a"
  then have "0 \<le> sell_floor r a" by (simp add: sell_floor_def stroops_per_xlm_def)
  then show ?thesis by (simp add: int64_min_def)
qed

lemma quote_create_spec:
  "quote_create p now amount m =
     (if policy_invalid p \<or> amount \<le> 0 then Inl ErrInvalidQuote
      else if price_stale p now m then Inl ErrStalePrice
      else case market_rate m of None \<Rightarrow> Inl ErrInvalidPrice
      | Some rate \<Rightarrow>
          if rate \<le> 0 then Inl ErrInvalidPrice
          else let n = buy_floor (rate * spread_multiplier p) amount in
            if n \<le> 0 \<or> int64_max < n then Inl ErrInvalidQuote
            else Inr \<lparr>fiat_amount = amount, asset_amount = n, q_rate = decimal rate,
              adjusted_rate = decimal (rate * spread_multiplier p), q_spread_bps = spread_bps p,
              source_at = observed_at m, q_expires_at = now + ttl p\<rparr>)"
  using buy_floor_quo adjusted_pos [of p] buy_floor_lower
  by (auto simp: quote_create_def market_rate_def amount_validate_def Let_def is_int64_def not_le
      split: option.split)

lemma quote_create_reverse_spec:
  "quote_create_reverse p now asset m =
     (if policy_invalid p \<or> asset \<le> 0 then Inl ErrInvalidQuote
      else if price_stale p now m then Inl ErrStalePrice
      else case market_rate m of None \<Rightarrow> Inl ErrInvalidPrice
      | Some rate \<Rightarrow>
          if rate \<le> 0 then Inl ErrInvalidPrice
          else let n = sell_floor (rate * spread_multiplier p) asset in
            if n \<le> 0 \<or> int64_max < n then Inl ErrInvalidQuote
            else Inr \<lparr>fiat_amount = n, asset_amount = asset, q_rate = decimal rate,
              adjusted_rate = decimal (rate * spread_multiplier p), q_spread_bps = spread_bps p,
              source_at = observed_at m, q_expires_at = now + ttl p\<rparr>)"
  using sell_floor_quo adjusted_pos [of p] sell_floor_lower
  by (auto simp: quote_create_reverse_def market_rate_def amount_validate_def Let_def is_int64_def not_le
      split: option.split)

text \<open>A buy and a sell quote of one policy and market price are floors at one rate.\<close>

lemma quote_pair:
  assumes "quote_create p now1 a m = Inr b" and "quote_create_reverse p now2 c m = Inr s"
  shows "\<exists>r > 0. fiat_amount b = a \<and> asset_amount b = buy_floor r a \<and> asset_amount s = c \<and>
    fiat_amount s = sell_floor r c"
proof -
  from assms(1) obtain rate where r: "market_rate m = Some rate" "0 < rate * spread_multiplier p"
    and b: "fiat_amount b = a" "asset_amount b = buy_floor (rate * spread_multiplier p) a"
    using adjusted_pos by (auto simp: quote_create_Inr Let_def)
  from assms(2) r(1) have "asset_amount s = c" "fiat_amount s = sell_floor (rate * spread_multiplier p) c"
    by (auto simp: quote_create_reverse_Inr Let_def)
  with r(2) b show ?thesis by (intro exI [of _ "rate * spread_multiplier p"]) simp
qed

end
