(* ===== verification/Amount_Formats.thy ===== *)
theory Amount_Formats
  imports Quote
begin

text \<open>
  Round trips of the amount and rate formats: a stroop amount survives
  \<open>Stroops.String\<close> followed by either parser, and a rate with at most eighteen decimals
  survives \<open>decimal\<close> followed by \<open>Rat.SetString\<close>, which is how SEP-38 reads a quote back.
\<close>

lemma trim_right_snoc [simp]:
  "trim_right_char c (s @ [d]) = (if d = c then trim_right_char c s else s @ [d])"
  by (simp add: trim_right_char_def)

lemma trim_right_replicate [simp]:
  "trim_right_char c (s @ replicate n c) = trim_right_char c s"
proof -
  have "dropWhile (\<lambda>x. x = c) (replicate n c @ rev s) = dropWhile (\<lambda>x. x = c) (rev s)"
    by (rule dropWhile_append2) simp
  then show ?thesis by (simp add: trim_right_char_def)
qed

lemma trim_right_id: "s \<noteq> [] \<Longrightarrow> last s \<noteq> c \<Longrightarrow> trim_right_char c s = s"
  using trim_right_snoc [of c "butlast s" "last s"] by simp

lemma trim_right_split:
  obtains n where "s = trim_right_char c s @ replicate n c"
    and "trim_right_char c s = [] \<or> last (trim_right_char c s) \<noteq> c"
proof -
  let ?t = "takeWhile (\<lambda>x. x = c) (rev s)" and ?d = "dropWhile (\<lambda>x. x = c) (rev s)"
  have "rev ?t = replicate (length ?t) c"
  proof -
    have "\<forall>x \<in> set (rev ?t). x = c" using set_takeWhileD by fastforce
    then have "replicate (length (rev ?t)) c = rev ?t" by (rule replicate_length_same)
    then show ?thesis by simp
  qed
  moreover have "s = rev ?d @ rev ?t" by (metis rev_append rev_rev_ident takeWhile_dropWhile_id)
  ultimately have "s = trim_right_char c s @ replicate (length ?t) c"
    by (simp add: trim_right_char_def)
  moreover have "?d = [] \<or> hd ?d \<noteq> c" using hd_dropWhile [of "\<lambda>x. x = c" "rev s"] by blast
  then have "trim_right_char c s = [] \<or> last (trim_right_char c s) \<noteq> c"
    by (simp add: trim_right_char_def last_rev)
  ultimately show thesis by (rule that)
qed

lemma digits_no_exp: "list_all is_digit w \<Longrightarrow> c \<in> set w \<Longrightarrow> c \<noteq> CHR ''e'' \<and> c \<noteq> CHR ''E'' \<and> c \<noteq> CHR ''.''"
  using not_digit by (auto simp: list_all_iff)

lemma digits_hd: "list_all is_digit w \<Longrightarrow> w \<noteq> [] \<Longrightarrow> hd w \<noteq> CHR ''-'' \<and> hd w \<noteq> CHR ''+''"
  using not_digit by (cases w) auto

lemma rat_set_via_unsigned:
  assumes "list_all is_digit w" "w \<noteq> []"
  shows "rat_set_string (w @ s) = rat_unsigned (w @ s)"
  using digits_hd [OF assms] assms(2) by (cases w) (simp_all add: rat_set_string_def)

text \<open>A plain decimal denotes its digits over a power of ten.\<close>

lemma rat_set_digits:
  assumes w: "list_all is_digit w" "w \<noteq> []" and f: "list_all is_digit f" "length f \<le> 1000000"
  shows "rat_set_string (w @ CHR ''.'' # f) = Some (of_nat (digits_val (w @ f)) / 10 ^ length f)"
proof -
  let ?s = "w @ CHR ''.'' # f"
  have noexp: "\<forall>c \<in> set ?s. c \<noteq> CHR ''e'' \<and> c \<noteq> CHR ''E''"
    using digits_no_exp [OF w(1)] digits_no_exp [OF f(1)] by auto
  then have tw: "takeWhile (\<lambda>c. c \<noteq> CHR ''e'' \<and> c \<noteq> CHR ''E'') ?s = ?s"
    by (simp only: takeWhile_eq_all_conv)
  have "CHR ''.'' \<notin> set w" using digits_no_exp [OF w(1)] by blast
  then have cut: "str_cut (CHR ''.'') ?s = (w, f, True)" by (rule str_cut_append)
  have "rat_unsigned ?s = Some (of_nat (digits_val (w @ f)) / 10 ^ length f)"
    unfolding rat_unsigned_def Let_def tw cut
    using w f by (auto simp: rat_scale_def)
  with rat_set_via_unsigned [OF w] show ?thesis by simp
qed

lemma rat_set_whole:
  assumes w: "list_all is_digit w" "w \<noteq> []"
  shows "rat_set_string w = Some (of_nat (digits_val w))"
proof -
  have "\<forall>c \<in> set w. c \<noteq> CHR ''e'' \<and> c \<noteq> CHR ''E''" using digits_no_exp [OF w(1)] by blast
  then have tw: "takeWhile (\<lambda>c. c \<noteq> CHR ''e'' \<and> c \<noteq> CHR ''E'') w = w"
    by (simp only: takeWhile_eq_all_conv)
  have "CHR ''.'' \<notin> set w" using digits_no_exp [OF w(1)] by blast
  then have cut: "str_cut (CHR ''.'') w = (w, [], False)" by (rule str_cut_absent)
  have "rat_unsigned w = Some (of_nat (digits_val w))"
    unfolding rat_unsigned_def Let_def tw cut
    using w by (auto simp: rat_scale_def)
  with rat_set_via_unsigned [OF w, of "[]"] show ?thesis by simp
qed

lemma nat_str_all [simp]: "list_all is_digit (nat_str n)"
  by (auto simp: list_all_iff dest: nat_str_digits)

lemma pad_str_all [simp]: "list_all is_digit (pad_str w n)"
  by (auto simp: list_all_iff dest: pad_str_digits)

section \<open>Stroop amounts\<close>

lemma parse_decimal_of_string:
  assumes a: "0 < a" "a \<le> int64_max"
  shows "parse_decimal_stroops (stroops_string a) = Inr a"
proof -
  let ?w = "nat_str (nat (a div stroops_per_xlm))" and ?f = "pad_str 7 (nat (a mod stroops_per_xlm))"
  have s: "stroops_string a = ?w @ ''.'' @ ?f" using a by (simp add: stroops_string_pos)
  have l: "length ?f = 7" using a by (simp add: pad7_length)
  have v: "int (digits_val (?w @ ?f)) = a" using a by (simp add: stroops_parts)
  have lead: "\<not> (?w \<noteq> '''' \<and> hd ?w = CHR ''0'' \<and> length ?w > 1)" using nat_str_leading by blast
  have i: "is_int64 a" using a by (simp add: is_int64_def int64_min_def int64_max_def)
  show ?thesis
    unfolding parse_decimal_stroops_def s cut_dot_stroops
    using l v lead a(1) i by (simp add: list_all_digits Let_def del: digits_val_append)
qed

lemma parse_stroops_of_string:
  assumes a: "0 < a" "a \<le> int64_max"
  shows "parse_stroops (stroops_string a) = Inr a"
proof -
  let ?w = "nat_str (nat (a div stroops_per_xlm))" and ?f = "pad_str 7 (nat (a mod stroops_per_xlm))"
  have s: "stroops_string a = ?w @ CHR ''.'' # ?f" using a by (simp add: stroops_string_pos)
  have l: "length ?f = 7" using a by (simp add: pad7_length)
  have v: "int (digits_val (?w @ ?f)) = a" using a by (simp add: stroops_parts)
  have "rat_set_string (stroops_string a) = Some (of_nat (digits_val (?w @ ?f)) / 10 ^ 7)"
    unfolding s using rat_set_digits [of ?w ?f] l by simp
  also have "(of_nat (digits_val (?w @ ?f)) :: rat) = of_int a"
    using v by (metis of_int_of_nat_eq)
  finally have r: "rat_set_string (stroops_string a) = Some (of_int a / 10 ^ 7)" .
  have i: "is_int64 a" using a by (simp add: is_int64_def int64_min_def int64_max_def)
  show ?thesis
    unfolding parse_stroops_Inr r
    by (rule exI [of _ "of_int a / 10 ^ 7"]) (use a(1) i in \<open>simp add: stroops_per_xlm_def\<close>)
qed

text \<open>Both parsers decode what \<open>Stroops.String\<close> encodes.\<close>

definition right_of :: "'e + 'a \<Rightarrow> 'a option" where
  "right_of r = (case r of Inl _ \<Rightarrow> None | Inr x \<Rightarrow> Some x)"

interpretation api_amount: codec stroops_string "\<lambda>s. right_of (parse_decimal_stroops s)" "\<lambda>a. 0 < a \<and> a \<le> int64_max"
  by unfold_locales (simp add: parse_decimal_of_string right_of_def)

interpretation stored_amount: codec stroops_string "\<lambda>s. right_of (parse_stroops s)" "\<lambda>a. 0 < a \<and> a \<le> int64_max"
  by unfold_locales (simp add: parse_stroops_of_string right_of_def)

section \<open>Rates\<close>

lemma float_parts_exact:
  assumes b: "0 < b" and a: "a * 10 ^ p = k * b"
  shows "float_parts p a b = (a div b, k - (a div b) * 10 ^ p)"
proof -
  have r0: "(a mod b) * 10 ^ p = (k - (a div b) * 10 ^ p) * b"
    using a by (simp add: minus_mult_div_eq_mod [symmetric] algebra_simps)
  then show ?thesis using b unfolding float_parts_def Let_def by simp
qed

lemma decimal_shape:
  fixes x :: rat
  assumes x: "0 \<le> x" and k: "x * 10 ^ 18 = of_int k"
  obtains w f where "float_string 18 x = nat_str w @ CHR ''.'' # f" "list_all is_digit f"
    "length f = 18" "x = of_nat (digits_val (nat_str w @ f)) / 10 ^ 18"
proof -
  obtain a b where q: "quotient_of x = (a, b)" by (cases "quotient_of x")
  then have v: "x = of_int a / of_int b" "0 < b" using quotient_of_value by auto
  with x have a0: "0 \<le> a" by (simp add: zero_le_divide_iff)
  have "(of_int (a * 10 ^ 18) :: rat) = of_int (k * b)"
    using k v by (simp add: field_simps)
  then have ab: "a * 10 ^ 18 = k * b" using of_int_eq_iff by blast
  define q0 where "q0 = a div b"
  define r where "r = k - q0 * 10 ^ 18"
  have q0: "0 \<le> q0" unfolding q0_def using a0 v(2) by (simp add: pos_imp_zdiv_nonneg_iff)
  have rb: "r * b = (a mod b) * 10 ^ 18"
    using ab by (simp add: r_def q0_def minus_mult_div_eq_mod [symmetric] algebra_simps)
  have "0 \<le> r * b" unfolding rb using v(2) by simp
  then have r0: "0 \<le> r" using v(2) by (simp add: zero_le_mult_iff)
  have "r * b < 10 ^ 18 * b" unfolding rb using v(2) pos_mod_bound [of b a] by (simp add: mult.commute)
  then have r1: "r < 10 ^ 18" using v(2) by simp
  have fs: "float_string 18 x = nat_str (nat q0) @ CHR ''.'' # pad_str 18 (nat r)"
    using a0 float_parts_exact [OF v(2) ab] by (simp add: float_string_def q q0_def r_def)
  have l: "length (pad_str 18 (nat r)) = 18"
    by (rule length_pad_str) (use r0 r1 in \<open>simp_all add: nat_less_iff\<close>)
  have "digits_val (nat_str (nat q0) @ pad_str 18 (nat r)) = nat q0 * 10 ^ 18 + nat r"
    unfolding digits_val_append l by simp
  then have "int (digits_val (nat_str (nat q0) @ pad_str 18 (nat r))) = k"
    using q0 r0 by (simp add: r_def)
  then have "(of_nat (digits_val (nat_str (nat q0) @ pad_str 18 (nat r))) :: rat) = of_int k"
    by (metis of_int_of_nat_eq)
  with k have "x = of_nat (digits_val (nat_str (nat q0) @ pad_str 18 (nat r))) / 10 ^ 18"
    by (simp add: field_simps)
  with fs l that [of "nat q0" "pad_str 18 (nat r)"] show thesis by simp
qed

lemma decimal_set_string:
  fixes x :: rat
  assumes x: "0 \<le> x" and k: "x * 10 ^ 18 = of_int k"
  shows "rat_set_string (decimal x) = Some x"
proof -
  obtain w f where s: "float_string 18 x = nat_str w @ CHR ''.'' # f" and f: "list_all is_digit f"
    and l: "length f = 18" and v: "x = of_nat (digits_val (nat_str w @ f)) / 10 ^ 18"
    using decimal_shape [OF x k] .
  define g where "g = trim_right_char (CHR ''0'') f"
  obtain n where n: "f = g @ replicate n (CHR ''0'')" and g: "g = [] \<or> last g \<noteq> CHR ''0''"
    unfolding g_def using trim_right_split by blast
  have gd: "list_all is_digit g" using f n by simp
  have lg: "length g + n = 18" using l n by simp
  have "float_string 18 x = (nat_str w @ CHR ''.'' # g) @ replicate n (CHR ''0'')"
    using s n by simp
  then have t0: "trim_right_char (CHR ''0'') (float_string 18 x) = nat_str w @ CHR ''.'' # g"
    using g trim_right_id [of "nat_str w @ CHR ''.'' # g" "CHR ''0''"]
    by (cases "g = []") (simp_all only: trim_right_replicate, auto)
  have val: "x = of_nat (digits_val (nat_str w @ g)) / 10 ^ length g"
  proof -
    have "digits_val (nat_str w @ f) = digits_val (nat_str w @ g) * 10 ^ n"
      using digits_val_append [of "nat_str w @ g" "replicate n (CHR ''0'')"] n by simp
    then have "x = of_nat (digits_val (nat_str w @ g)) * 10 ^ n / 10 ^ 18" using v by simp
    moreover have "(10::rat) ^ 18 = 10 ^ length g * 10 ^ n" using lg by (metis power_add)
    moreover have "(10::rat) ^ n \<noteq> 0" by simp
    ultimately show ?thesis by (metis nonzero_mult_divide_mult_cancel_right)
  qed
  show ?thesis
  proof (cases "g = []")
    case True
    have "trim_right_char (CHR ''.'') (nat_str w) = nat_str w"
      by (rule trim_right_id) (use last_in_set [of "nat_str w"] dot_notin_nat_str [of w] in \<open>simp, metis nat_str_nonempty\<close>)
    then have "decimal x = nat_str w"
      unfolding decimal_def t0 using True by simp
    with True val rat_set_whole [of "nat_str w"] show ?thesis by simp
  next
    case False
    have "last (nat_str w @ CHR ''.'' # g) \<noteq> CHR ''.''"
    proof -
      have "is_digit (last g)" using False gd by (simp add: list_all_iff)
      then have "last g \<noteq> CHR ''.''" using not_digit(1) by metis
      with False show ?thesis by simp
    qed
    then have "decimal x = nat_str w @ CHR ''.'' # g"
      unfolding decimal_def t0 by (intro trim_right_id) auto
    with val rat_set_digits [of "nat_str w" g] gd lg show ?thesis by simp
  qed
qed

end
