(* ===== verification/Encodings.thy ===== *)
theory Encodings
  imports Kailo_Prelude "HOL-Library.Word"
begin

text \<open>
  The text encodings of bytes that the code takes from Go's standard library: hexadecimal
  (\<open>encoding/hex\<close>) and base64 (\<open>encoding/base64\<close>), unpadded in the URL alphabet and padded in
  the standard alphabet, with their round trips.
\<close>

unbundle bit_operations_syntax

type_synonym byte = "8 word"

section \<open>Hexadecimal\<close>

definition hex_char :: "nat \<Rightarrow> char" where
  "hex_char n = (if n < 10 then char_of (48 + n) else char_of (87 + n))"

definition hex_value :: "char \<Rightarrow> nat option" where
  "hex_value c = (let n = of_char c in
     if 48 \<le> n \<and> n \<le> 57 then Some (n - 48)
     else if 97 \<le> n \<and> n \<le> 102 then Some (n - 87)
     else if 65 \<le> n \<and> n \<le> 70 then Some (n - 55) else None)"

fun hex_encode :: "byte list \<Rightarrow> string" where
  "hex_encode [] = []"
| "hex_encode (b # bs) = hex_char (unat b div 16) # hex_char (unat b mod 16) # hex_encode bs"

text \<open>\<open>hex.DecodeString\<close>: both letter cases, an even number of digits.\<close>

fun hex_decode :: "string \<Rightarrow> byte list option" where
  "hex_decode [] = Some []"
| "hex_decode [c] = None"
| "hex_decode (c # d # s) = (case (hex_value c, hex_value d) of
     (Some h, Some l) \<Rightarrow> map_option (Cons (of_nat (16 * h + l))) (hex_decode s)
   | _ \<Rightarrow> None)"

section \<open>Base64 without padding, URL alphabet\<close>

definition b64_alphabet :: string where
  "b64_alphabet = ''ABCDEFGHIJKLMNOPQRSTUVWXYZabcdefghijklmnopqrstuvwxyz0123456789-_''"

definition b64_char :: "nat \<Rightarrow> char" where
  "b64_char n = b64_alphabet ! n"

fun b64_sextets :: "nat list \<Rightarrow> nat list" where
  "b64_sextets [] = []"
| "b64_sextets [a] = [a div 4, (a mod 4) * 16]"
| "b64_sextets [a, b] = [a div 4, (a mod 4) * 16 + b div 16, (b mod 16) * 4]"
| "b64_sextets (a # b # c # r) =
     [a div 4, (a mod 4) * 16 + b div 16, (b mod 16) * 4 + c div 64, c mod 64] @ b64_sextets r"

definition b64_raw_url :: "byte list \<Rightarrow> string" where
  "b64_raw_url bs = List.map b64_char (b64_sextets (List.map unat bs))"

section \<open>Base64 with padding, standard alphabet\<close>

definition b64_std_alphabet :: string where
  "b64_std_alphabet = ''ABCDEFGHIJKLMNOPQRSTUVWXYZabcdefghijklmnopqrstuvwxyz0123456789+/''"

definition b64_std_value :: "char \<Rightarrow> nat option" where
  "b64_std_value c = (let n = length (takeWhile (\<lambda>x. x \<noteq> c) b64_std_alphabet) in
     if n < 64 then Some n else None)"

fun b64_padding :: "'a list \<Rightarrow> string" where
  "b64_padding [] = []"
| "b64_padding [a] = ''==''"
| "b64_padding [a, b] = ''=''"
| "b64_padding (a # b # c # r) = b64_padding r"

definition b64_std_encode :: "byte list \<Rightarrow> string" where
  "b64_std_encode bs =
     List.map ((!) b64_std_alphabet) (b64_sextets (List.map unat bs)) @ b64_padding bs"

fun b64_quads :: "string \<Rightarrow> byte list option" where
  "b64_quads [] = Some []"
| "b64_quads (a # b # c # d # r) =
     (case (b64_std_value a, b64_std_value b) of
        (Some x, Some y) \<Rightarrow>
          if d = CHR ''='' then
            if r \<noteq> [] then None
            else if c = CHR ''='' then Some [of_nat (x * 4 + y div 16)]
            else (case b64_std_value c of None \<Rightarrow> None
              | Some z \<Rightarrow> Some [of_nat (x * 4 + y div 16), of_nat ((y mod 16) * 16 + z div 4)])
          else (case (b64_std_value c, b64_std_value d) of
              (Some z, Some w) \<Rightarrow> map_option
                 (\<lambda>bs. of_nat (x * 4 + y div 16) # of_nat ((y mod 16) * 16 + z div 4) #
                       of_nat ((z mod 4) * 64 + w) # bs) (b64_quads r)
            | _ \<Rightarrow> None)
      | _ \<Rightarrow> None)"
| "b64_quads _ = None"

text \<open>\<open>RawStdEncoding\<close>: the same alphabet without padding.\<close>

definition b64_raw_std :: "byte list \<Rightarrow> string" where
  "b64_raw_std bs = List.map ((!) b64_std_alphabet) (b64_sextets (List.map unat bs))"

fun b64_raw_quads :: "string \<Rightarrow> byte list option" where
  "b64_raw_quads [] = Some []"
| "b64_raw_quads [a] = None"
| "b64_raw_quads [a, b] =
     (case (b64_std_value a, b64_std_value b) of
        (Some x, Some y) \<Rightarrow> Some [of_nat (x * 4 + y div 16)] | _ \<Rightarrow> None)"
| "b64_raw_quads [a, b, c] =
     (case (b64_std_value a, b64_std_value b, b64_std_value c) of
        (Some x, Some y, Some z) \<Rightarrow> Some [of_nat (x * 4 + y div 16), of_nat ((y mod 16) * 16 + z div 4)]
      | _ \<Rightarrow> None)"
| "b64_raw_quads (a # b # c # d # r) =
     (case (b64_std_value a, b64_std_value b, b64_std_value c, b64_std_value d) of
        (Some x, Some y, Some z, Some w) \<Rightarrow> map_option
           (\<lambda>bs. of_nat (x * 4 + y div 16) # of_nat ((y mod 16) * 16 + z div 4) #
                 of_nat ((z mod 4) * 64 + w) # bs) (b64_raw_quads r)
      | _ \<Rightarrow> None)"

definition b64_raw_std_decode :: "string \<Rightarrow> byte list option" where
  "b64_raw_std_decode s = b64_raw_quads (filter (\<lambda>c. c \<noteq> CHR 0x0A \<and> c \<noteq> CHR 0x0D) s)"

text \<open>\<open>StdEncoding.DecodeString\<close> skips line breaks and does not check the unused bits.\<close>

definition b64_std_decode :: "string \<Rightarrow> byte list option" where
  "b64_std_decode s = b64_quads (filter (\<lambda>c. c \<noteq> CHR 0x0A \<and> c \<noteq> CHR 0x0D) s)"

section \<open>Round trips\<close>

lemma hex_value_char: "n < 16 \<Longrightarrow> hex_value (hex_char n) = Some n"
  by (auto simp: hex_value_def hex_char_def Let_def)

lemma hex_decode_encode: "hex_decode (hex_encode bs) = Some bs"
proof (induction bs)
  case Nil
  then show ?case by simp
next
  case (Cons b bs)
  have "unat b < 256" using unsigned_less [of b, where 'a = nat] by simp
  then have "hex_value (hex_char (unat b div 16)) = Some (unat b div 16)"
    "hex_value (hex_char (unat b mod 16)) = Some (unat b mod 16)"
    by (simp_all add: hex_value_char)
  moreover have "of_nat (16 * (unat b div 16) + unat b mod 16) = b"
    by (simp only: mult_div_mod_eq) simp
  ultimately show ?case using Cons.IH by simp
qed

lemma hex_encode_append: "hex_encode (a @ b) = hex_encode a @ hex_encode b"
  by (induction a) simp_all

lemma hex_char_not_dash: "n < 16 \<Longrightarrow> hex_char n \<noteq> CHR ''-''"
  using hex_value_char [of n] by (auto simp: hex_value_def)

lemma hex_encode_no_dash: "filter (\<lambda>c. c \<noteq> CHR ''-'') (hex_encode bs) = hex_encode bs"
proof (induction bs)
  case (Cons b bs)
  have "unat b < 256" using unsigned_less [of b, where 'a = nat] by simp
  then show ?case using Cons by (simp add: hex_char_not_dash)
qed simp

lemma length_b64_sextets: "length (b64_sextets ns) = (4 * length ns + 2) div 3"
  by (induction ns rule: b64_sextets.induct) simp_all

lemma sextet_bounds:
  "a < 256 \<Longrightarrow> a div 4 < (64::nat)" "(a mod 4) * 16 < (64::nat)"
  "b < 256 \<Longrightarrow> (a mod 4) * 16 + b div 16 < (64::nat)"
  "(b mod 16) * 4 < (64::nat)" "c < 256 \<Longrightarrow> (b mod 16) * 4 + c div 64 < (64::nat)"
proof -
  have m: "a mod 4 < 4" "b mod 16 < 16" by simp_all
  show "a < 256 \<Longrightarrow> a div 4 < 64" by (simp add: less_mult_imp_div_less)
  show "(a mod 4) * 16 < 64" "(b mod 16) * 4 < 64" using m by linarith+
  show "(a mod 4) * 16 + b div 16 < 64" if "b < 256"
    using m less_mult_imp_div_less [of b 16 16] that by simp
  show "(b mod 16) * 4 + c div 64 < 64" if "c < 256"
    using m less_mult_imp_div_less [of c 4 64] that by simp
qed

lemma b64_sextets_less:
  "list_all (\<lambda>n. n < 256) ns \<Longrightarrow> list_all (\<lambda>x. x < 64) (b64_sextets ns)"
  by (induction ns rule: b64_sextets.induct) (simp_all add: sextet_bounds)

lemma radix_inj:
  "x * n + y = x' * n + y' \<Longrightarrow> y < n \<Longrightarrow> y' < n \<Longrightarrow> x = x' \<and> y = (y'::nat)"
proof -
  assume e: "x * n + y = x' * n + y'" and l: "y < n" "y' < n"
  have "(x * n + y) div n = x" "(x' * n + y') div n = x'" using l by simp_all
  with e show ?thesis by simp
qed

lemma sextet_group_inj:
  fixes a :: nat
  assumes "a < 256" "b < 256" "c < 256" "a' < 256" "b' < 256" "c' < 256"
    and "a div 4 = a' div 4" "(a mod 4) * 16 + b div 16 = (a' mod 4) * 16 + b' div 16"
    "(b mod 16) * 4 + c div 64 = (b' mod 16) * 4 + c' div 64" "c mod 64 = c' mod 64"
  shows "a = a' \<and> b = b' \<and> c = c'"
proof -
  have d: "b div 16 < 16" "b' div 16 < 16" "c div 64 < 4" "c' div 64 < 4"
    using assms(1-6) by (simp_all add: less_mult_imp_div_less)
  have "a mod 4 = a' mod 4 \<and> b div 16 = b' div 16" using radix_inj [OF assms(8)] d by simp
  moreover have "b mod 16 = b' mod 16 \<and> c div 64 = c' div 64" using radix_inj [OF assms(9)] d by simp
  ultimately show ?thesis using assms(7,10) by (metis div_mult_mod_eq)
qed

lemma b64_sextets_inj:
  "length ns = length ms \<Longrightarrow> list_all (\<lambda>n. n < 256) ns \<Longrightarrow> list_all (\<lambda>n. n < 256) ms \<Longrightarrow>
   b64_sextets ns = b64_sextets ms \<Longrightarrow> ns = ms"
proof (induction ns arbitrary: ms rule: b64_sextets.induct)
  case 1
  then show ?case by simp
next
  case (2 a)
  then obtain a' where "ms = [a']" by (cases ms) auto
  with 2 sextet_group_inj [of a 0 0 a' 0 0] show ?case by simp
next
  case (3 a b)
  then obtain a' b' where "ms = [a', b']" by (cases ms; cases "tl ms") auto
  with 3 sextet_group_inj [of a b 0 a' b' 0] show ?case by simp
next
  case (4 a b c r)
  then obtain a' b' c' r' where ms: "ms = a' # b' # c' # r'"
    by (cases ms; cases "tl ms"; cases "tl (tl ms)") auto
  with 4 sextet_group_inj [of a b c a' b' c'] have "a = a' \<and> b = b' \<and> c = c'" by simp
  moreover have "r = r'" by (rule "4.IH") (use 4 ms in auto)
  ultimately show ?case using ms by simp
qed

lemma b64_char_inj: "m < 64 \<Longrightarrow> n < 64 \<Longrightarrow> b64_char m = b64_char n \<Longrightarrow> m = n"
proof -
  assume l: "m < 64" "n < 64" and e: "b64_char m = b64_char n"
  have "distinct b64_alphabet" "length b64_alphabet = 64" by (simp_all add: b64_alphabet_def)
  with l e show "m = n" by (simp add: b64_char_def nth_eq_iff_index_eq)
qed

lemma unat_bytes: "list_all (\<lambda>n. n < 256) (List.map unat (bs :: byte list))"
proof (induction bs)
  case (Cons b bs)
  have "unat b < 256" using unsigned_less [of b, where 'a = nat] by simp
  with Cons show ?case by simp
qed simp

lemma b64_raw_url_inj:
  assumes "length as = length bs" and "b64_raw_url as = b64_raw_url bs"
  shows "as = bs"
proof -
  let ?x = "b64_sextets (List.map unat as)" and ?y = "b64_sextets (List.map unat bs)"
  have "inj_on b64_char {..<64}" by (rule inj_onI) (simp add: b64_char_inj)
  moreover have "set ?x \<union> set ?y \<subseteq> {..<64}"
    using b64_sextets_less [OF unat_bytes [of as]] b64_sextets_less [OF unat_bytes [of bs]]
    by (simp add: list_all_iff subset_iff)
  ultimately have "inj_on b64_char (set ?x \<union> set ?y)" by (rule inj_on_subset)
  then have "?x = ?y" using assms(2) unfolding b64_raw_url_def by (rule map_inj_on [rotated])
  then have "List.map unat as = List.map unat bs"
    by (rule b64_sextets_inj [rotated 3]) (simp_all only: assms(1) unat_bytes length_map)
  moreover have "inj (unat :: byte \<Rightarrow> nat)" by (rule inj_onI) (simp add: unsigned_word_eqI)
  ultimately show ?thesis by (simp add: inj_map_eq_map)
qed

lemma length_b64_raw_url: "length (b64_raw_url bs) = (4 * length bs + 2) div 3"
  by (simp add: b64_raw_url_def length_b64_sextets)

text \<open>What is encoded in the standard alphabet decodes to the same bytes.\<close>

lemma b64_std_value_nth:
  assumes "n < 64"
  shows "b64_std_value (b64_std_alphabet ! n) = Some n"
proof -
  have d: "distinct b64_std_alphabet" and l: "length b64_std_alphabet = 64"
    by (simp_all add: b64_std_alphabet_def)
  have "takeWhile (\<lambda>x. x \<noteq> b64_std_alphabet ! n) b64_std_alphabet = take n b64_std_alphabet"
    by (rule takeWhile_eq_take_P_nth) (use assms d l in \<open>auto simp: nth_eq_iff_index_eq\<close>)
  then show ?thesis using assms l by (simp add: b64_std_value_def)
qed

lemma b64_std_alphabet_plain:
  assumes "n < 64"
  shows "b64_std_alphabet ! n \<notin> {CHR ''='', CHR 0x0A, CHR 0x0D}"
proof -
  have "b64_std_alphabet ! n \<in> set b64_std_alphabet"
    by (rule nth_mem) (use assms in \<open>simp add: b64_std_alphabet_def\<close>)
  then show ?thesis by (auto simp: b64_std_alphabet_def)
qed

lemma byte_of_sextets:
  fixes a b c :: byte
  shows "of_nat ((unat a div 4) * 4 + ((unat a mod 4) * 16 + unat b div 16) div 16) = a"
    and "of_nat ((((unat a mod 4) * 16 + unat b div 16) mod 16) * 16 + ((unat b mod 16) * 4 + unat c div 64) div 4) = b"
    and "of_nat ((((unat b mod 16) * 4 + unat c div 64) mod 4) * 64 + unat c mod 64) = c"
    and "of_nat ((unat a div 4) * 4 + ((unat a mod 4) * 16) div 16) = a"
    and "of_nat ((((unat a mod 4) * 16 + unat b div 16) mod 16) * 16 + ((unat b mod 16) * 4) div 4) = b"
proof -
  have "unat x < 256" for x :: byte using unsigned_less [of x, where 'a = nat] by simp
  then have l: "unat b div 16 < 16" "unat c div 64 < 4" by (simp_all add: less_mult_imp_div_less)
  then have "((unat a mod 4) * 16 + unat b div 16) div 16 = unat a mod 4"
    "((unat a mod 4) * 16 + unat b div 16) mod 16 = unat b div 16"
    "((unat b mod 16) * 4 + unat c div 64) div 4 = unat b mod 16"
    "((unat b mod 16) * 4 + unat c div 64) mod 4 = unat c div 64" by simp_all
  then show "of_nat ((unat a div 4) * 4 + ((unat a mod 4) * 16 + unat b div 16) div 16) = a"
    "of_nat ((((unat a mod 4) * 16 + unat b div 16) mod 16) * 16 + ((unat b mod 16) * 4 + unat c div 64) div 4) = b"
    "of_nat ((((unat b mod 16) * 4 + unat c div 64) mod 4) * 64 + unat c mod 64) = c"
    "of_nat ((unat a div 4) * 4 + ((unat a mod 4) * 16) div 16) = a"
    "of_nat ((((unat a mod 4) * 16 + unat b div 16) mod 16) * 16 + ((unat b mod 16) * 4) div 4) = b"
    by (simp_all only: div_mult_mod_eq nonzero_mult_div_cancel_right) simp_all
qed

lemma b64_quads_four:
  assumes "x < 64" "y < 64" "z < 64" "w < 64"
  shows "b64_quads (List.map ((!) b64_std_alphabet) [x, y, z, w] @ r) = map_option
      (\<lambda>bs. of_nat (x * 4 + y div 16) # of_nat ((y mod 16) * 16 + z div 4) #
            of_nat ((z mod 4) * 64 + w) # bs) (b64_quads r)"
  using assms b64_std_alphabet_plain [of w] by (simp add: b64_std_value_nth)

lemma b64_quads_three:
  assumes "x < 64" "y < 64" "z < 64"
  shows "b64_quads (List.map ((!) b64_std_alphabet) [x, y, z] @ ''='') =
      Some [of_nat (x * 4 + y div 16), of_nat ((y mod 16) * 16 + z div 4)]"
  using assms b64_std_alphabet_plain [of z] by (simp add: b64_std_value_nth)

lemma b64_quads_two:
  assumes "x < 64" "y < 64"
  shows "b64_quads (List.map ((!) b64_std_alphabet) [x, y] @ ''=='') = Some [of_nat (x * 4 + y div 16)]"
  using assms by (simp add: b64_std_value_nth)

lemma b64_quads_encode: "b64_quads (b64_std_encode bs) = Some bs"
proof (induction bs rule: b64_padding.induct)
  case (4 a b c r)
  have l: "unat x < 256" for x :: byte using unsigned_less [of x, where 'a = nat] by simp
  have "b64_std_encode (a # b # c # r) = List.map ((!) b64_std_alphabet)
      [unat a div 4, (unat a mod 4) * 16 + unat b div 16, (unat b mod 16) * 4 + unat c div 64, unat c mod 64] @
      b64_std_encode r" by (simp add: b64_std_encode_def)
  moreover have "b64_quads \<dots> = map_option (\<lambda>bs. a # b # c # bs) (b64_quads (b64_std_encode r))"
    by (subst b64_quads_four) (simp_all only: l sextet_bounds byte_of_sextets mod_less_divisor zero_less_numeral)
  ultimately show ?case by (simp only: 4 option.map)
next
  case (2 a)
  have l: "unat x < 256" for x :: byte using unsigned_less [of x, where 'a = nat] by simp
  have "b64_std_encode [a] = List.map ((!) b64_std_alphabet) [unat a div 4, (unat a mod 4) * 16] @ ''==''"
    by (simp add: b64_std_encode_def)
  moreover have "b64_quads \<dots> = Some [a]"
    by (subst b64_quads_two) (simp_all only: l sextet_bounds byte_of_sextets zero_less_numeral)
  ultimately show ?case by (simp only:)
next
  case (3 a b)
  have l: "unat x < 256" for x :: byte using unsigned_less [of x, where 'a = nat] by simp
  have "b64_std_encode [a, b] = List.map ((!) b64_std_alphabet)
      [unat a div 4, (unat a mod 4) * 16 + unat b div 16, (unat b mod 16) * 4] @ ''=''"
    by (simp add: b64_std_encode_def)
  moreover have "b64_quads \<dots> = Some [a, b]"
    by (subst b64_quads_three) (simp_all only: l sextet_bounds byte_of_sextets zero_less_numeral)
  ultimately show ?case by (simp only:)
qed (simp add: b64_std_encode_def)

lemma b64_std_encode_no_breaks:
  "filter (\<lambda>c. c \<noteq> CHR 0x0A \<and> c \<noteq> CHR 0x0D) (b64_std_encode bs) = b64_std_encode bs"
proof (rule filter_True, rule ballI)
  fix c assume "c \<in> set (b64_std_encode bs)"
  then consider n where "n < 64" "c = b64_std_alphabet ! n" | "c \<in> set (b64_padding bs)"
    using b64_sextets_less [OF unat_bytes [of bs]]
    by (auto simp: b64_std_encode_def list_all_iff)
  moreover have "set (b64_padding bs) \<subseteq> {CHR ''=''}"
    by (induction bs rule: b64_padding.induct) auto
  ultimately show "c \<noteq> CHR 0x0A \<and> c \<noteq> CHR 0x0D"
    using b64_std_alphabet_plain by cases auto
qed

lemma b64_std_decode_encode: "b64_std_decode (b64_std_encode bs) = Some bs"
  by (simp add: b64_std_decode_def b64_std_encode_no_breaks b64_quads_encode)

text \<open>The same without padding.\<close>

lemma b64_raw_quads_encode: "b64_raw_quads (b64_raw_std bs) = Some bs"
proof (induction bs rule: b64_padding.induct)
  case (4 a b c r)
  have l: "unat x < 256" for x :: byte using unsigned_less [of x, where 'a = nat] by simp
  have "b64_raw_quads (b64_raw_std (a # b # c # r)) =
      map_option (\<lambda>bs. of_nat ((unat a div 4) * 4 + ((unat a mod 4) * 16 + unat b div 16) div 16) #
        of_nat ((((unat a mod 4) * 16 + unat b div 16) mod 16) * 16 + ((unat b mod 16) * 4 + unat c div 64) div 4) #
        of_nat ((((unat b mod 16) * 4 + unat c div 64) mod 4) * 64 + unat c mod 64) # bs)
      (b64_raw_quads (b64_raw_std r))"
    using l by (simp only: b64_raw_std_def list.map b64_sextets.simps append.simps b64_raw_quads.simps
        b64_std_value_nth sextet_bounds mod_less_divisor zero_less_numeral prod.case option.case)
  then show ?case by (simp only: byte_of_sextets 4 option.map)
next
  case (2 a)
  have l: "unat x < 256" for x :: byte using unsigned_less [of x, where 'a = nat] by simp
  have "b64_raw_quads (b64_raw_std [a]) = Some [of_nat ((unat a div 4) * 4 + ((unat a mod 4) * 16) div 16)]"
    using l by (simp only: b64_raw_std_def list.map b64_sextets.simps append.simps b64_raw_quads.simps
        b64_std_value_nth sextet_bounds zero_less_numeral prod.case option.case)
  then show ?case by (simp only: byte_of_sextets)
next
  case (3 a b)
  have l: "unat x < 256" for x :: byte using unsigned_less [of x, where 'a = nat] by simp
  have "b64_raw_quads (b64_raw_std [a, b]) =
      Some [of_nat ((unat a div 4) * 4 + ((unat a mod 4) * 16 + unat b div 16) div 16),
        of_nat ((((unat a mod 4) * 16 + unat b div 16) mod 16) * 16 + ((unat b mod 16) * 4) div 4)]"
    using l by (simp only: b64_raw_std_def list.map b64_sextets.simps append.simps b64_raw_quads.simps
        b64_std_value_nth sextet_bounds zero_less_numeral prod.case option.case)
  then show ?case by (simp only: byte_of_sextets)
qed (simp add: b64_raw_std_def)

lemma b64_raw_std_decode_encode: "b64_raw_std_decode (b64_raw_std bs) = Some bs"
proof -
  have "filter (\<lambda>c. c \<noteq> CHR 0x0A \<and> c \<noteq> CHR 0x0D) (b64_raw_std bs) = b64_raw_std bs"
    using b64_sextets_less [OF unat_bytes [of bs]] b64_std_alphabet_plain
    by (auto simp: filter_id_conv b64_raw_std_def list_all_iff)
  then show ?thesis by (simp add: b64_raw_std_decode_def b64_raw_quads_encode)
qed

interpretation raw_base64: codec b64_raw_std b64_raw_std_decode "\<lambda>_. True"
  by unfold_locales (rule b64_raw_std_decode_encode)

interpretation hex: codec hex_encode hex_decode "\<lambda>_. True"
  by unfold_locales (rule hex_decode_encode)

interpretation base64: codec b64_std_encode b64_std_decode "\<lambda>_. True"
  by unfold_locales (rule b64_std_decode_encode)

end
