(* ===== verification/Entities.thy ===== *)
theory Entities
  imports Amount_Formats Encodings
begin

text \<open>
  The table rows of \<open>internal/entity\<close> and the view types of the use cases. A nullable
  column is an \<open>option\<close>, a \<open>text\<close> column with a closed set of values (a \<open>CHECK\<close> of the
  migrations) a datatype, a JSON object the list of its members.
\<close>

datatype reservation_status = RSReserved | RSConsumed | RSReleased

datatype stellar_status = STPending | STSubmitted | STConfirmed | STFailed | STUnknown | STSimulated

datatype idempotency_state = ISProcessing | ISCompleted | ISFailed

datatype attempt_status =
  WADelivered | WARetryScheduled | WAFailed | WAExhausted | WAInFlight | WASuperseded | WAReplayPending

record order_record =
  or_id :: string
  or_client_id :: "string option"
  or_created_by :: "string option"
  or_retail_session :: "string option"
  or_wallet_account :: "string option"
  or_quote_id :: "string option"
  or_direction :: string
  or_status :: order_status
  or_version :: int
  or_currency :: string
  or_fiat_minor :: int
  or_asset_code :: string
  or_asset_issuer :: string
  or_network :: string
  or_asset_amount :: string
  or_asset_stroops :: int
  or_quote_provider :: string
  or_quote_source_at :: time
  or_quote_rate :: string
  or_quote_adjusted :: string
  or_quote_spread :: int
  or_quote_expires :: time
  or_payment_method :: "payment_method option"
  or_gateway :: "string option"
  or_stellar_source :: "string option"
  or_stellar_dest :: "string option"
  or_stellar_memo :: "string option"
  or_withdrawal_method :: "withdrawal_method option"
  or_withdrawal_dest :: string
  or_expires :: "time option"
  or_failure_code :: "string option"
  or_failure_stage :: "string option"
  or_failure_retry :: "bool option"
  or_created :: time
  or_updated :: time
  or_completed :: "time option"

record order_event =
  ev_id :: string
  ev_order :: string
  ev_version :: int
  ev_type :: string
  ev_prev :: "order_status option"
  ev_next :: "order_status option"
  ev_source :: string
  ev_created :: time

record treasury_account =
  ta_id :: string
  ta_network :: string
  ta_account :: string
  ta_observed :: int
  ta_reserved :: int
  ta_buffer :: int
  ta_reconciled :: time
  ta_created :: time
  ta_updated :: time

record treasury_reservation =
  tr_id :: string
  tr_treasury :: string
  tr_order :: string
  tr_amount :: int
  tr_status :: reservation_status
  tr_expires :: time
  tr_consumed :: "time option"
  tr_released :: "time option"
  tr_created :: time
  tr_updated :: time

record payment_checkout =
  pc_id :: string
  pc_order :: string
  pc_provider :: string
  pc_provider_id :: string
  pc_request_id :: "string option"
  pc_method :: payment_method
  pc_currency :: string
  pc_amount :: int
  pc_status :: string
  pc_presentation :: "string option"
  pc_expires :: "time option"
  pc_metadata :: "(string \<times> string) list"
  pc_created :: time
  pc_updated :: time

record gateway_event =
  ge_id :: string
  ge_provider :: string
  ge_event :: string
  ge_type :: string
  ge_checkout :: "string option"
  ge_order :: "string option"
  ge_payload_hash :: string
  ge_verified :: bool
  ge_matching :: string
  ge_received :: time
  ge_processed :: "time option"
  ge_status :: string

record stellar_transaction =
  st_id :: string
  st_order :: string
  st_intent :: string
  st_purpose :: string
  st_network :: string
  st_asset_code :: string
  st_asset_issuer :: string
  st_amount :: string
  st_source :: "string option"
  st_dest :: "string option"
  st_memo :: "string option"
  st_hash :: "string option"
  st_status :: stellar_status
  st_attempts :: int
  st_ledger :: "time option"
  st_error :: "string option"
  st_created :: time
  st_updated :: time

record idempotency_record =
  ir_id :: string
  ir_client :: "string option"
  ir_user :: "string option"
  ir_operation :: string
  ir_key :: string
  ir_request :: string
  ir_response :: "int option"
  ir_resource :: "string option"
  ir_state :: idempotency_state
  ir_expires :: time
  ir_created :: time
  ir_updated :: time

record outbox_message =
  ob_id :: string
  ob_topic :: string
  ob_aggregate_type :: string
  ob_aggregate :: string
  ob_payload :: "(string \<times> string) list"
  ob_created :: time
  ob_available :: time
  ob_lease_owner :: "string option"
  ob_lease_until :: "time option"
  ob_attempts :: int
  ob_processed :: "time option"
  ob_error :: "string option"

record offramp_payout =
  po_id :: string
  po_order :: string
  po_method :: string
  po_amount :: int
  po_reference :: string
  po_state :: string
  po_completed :: "time option"
  po_created :: time
  po_updated :: time

record order_financial =
  of_id :: string
  of_order :: string
  of_client :: "string option"
  of_direction :: string
  of_environment :: string
  of_network :: string
  of_currency :: string
  of_asset_code :: string
  of_asset_issuer :: string
  of_asset_amount :: string
  of_stroops :: int
  of_gross :: int
  of_fee :: int
  of_platform :: int
  of_developer :: int
  of_net :: int
  of_fee_currency :: string
  of_policy :: string
  of_source :: string
  of_spread :: int
  of_simulated :: bool
  of_created :: time

record retail_session =
  rs_id :: string
  rs_user :: string
  rs_token :: "byte list"
  rs_expires :: time
  rs_last_used :: "time option"
  rs_revoked :: "time option"
  rs_created :: time
  rs_updated :: time

record sep24_transaction =
  s24_id :: string
  s24_transaction :: string
  s24_order :: string
  s24_kind :: string
  s24_wallet :: "string option"
  s24_quote :: "string option"
  s24_stellar :: "string option"
  s24_external :: "string option"
  s24_created :: time

section \<open>Views\<close>

record payout_view =
  pv_reference :: string
  pv_method :: string
  pv_amount :: int
  pv_state :: string
  pv_simulated :: "bool option"
  pv_disclosure :: string

record checkout =
  co_provider_id :: string
  co_request_id :: string
  co_method :: payment_method
  co_status :: string
  co_presentation_type :: string
  co_presentation_value :: string
  co_link_url :: string
  co_expires :: "time option"

record order_view =
  ov_id :: string
  ov_status :: order_status
  ov_asset_code :: string
  ov_asset_issuer :: string
  ov_fiat_minor :: idr
  ov_asset_amount :: stroops
  ov_rate :: string
  ov_adjusted :: string
  ov_spread :: int
  ov_source_at :: time
  ov_expires_at :: time
  ov_method :: payment_method
  ov_destination :: string
  ov_memo :: string
  ov_checkout :: "checkout option"
  ov_tx_hash :: string
  ov_deposit_hash :: string
  ov_payout :: "payout_view option"
  ov_failure :: string
  ov_created :: time
  ov_updated :: time

text \<open>The canonical webhook payload of \<open>BuildEventEnvelope\<close> and the test payload, before JSON encoding.\<close>

datatype envelope_object = OrderObject order_view | TestObject string string

record event_envelope =
  en_id :: string
  en_type :: string
  en_api_version :: string
  en_created :: time
  en_environment :: string
  en_object :: envelope_object

record webhook_event =
  we_id :: string
  we_order :: "string option"
  we_client :: "string option"
  we_type :: string
  we_api_version :: string
  we_payload :: event_envelope
  we_source_event :: "string option"
  we_test :: bool
  we_created :: time

record webhook_endpoint =
  wp_id :: string
  wp_client :: string
  wp_url :: string
  wp_status :: string
  wp_secret :: string
  wp_types :: "string list"
  wp_created :: time
  wp_updated :: time
  wp_disabled :: "time option"

record webhook_attempt =
  wa_id :: string
  wa_event :: string
  wa_endpoint :: string
  wa_number :: int
  wa_status :: attempt_status
  wa_scheduled :: time
  wa_started :: "time option"
  wa_completed :: "time option"
  wa_http :: "int option"
  wa_duration :: "int option"
  wa_body_hash :: "string option"
  wa_error :: "string option"
  wa_next :: "time option"
  wa_lease_owner :: "string option"
  wa_lease_until :: "time option"

record api_client =
  ac_id :: string
  ac_owner :: string
  ac_name :: string
  ac_environment :: string
  ac_status :: string
  ac_created :: time
  ac_updated :: time

record user =
  us_id :: string
  us_status :: string
  us_display :: string
  us_email :: "string option"
  us_avatar :: "string option"
  us_verified :: "time option"
  us_developer :: "time option"
  us_created :: time
  us_updated :: time

text \<open>Accounts: identities, password credentials, single-use tokens.\<close>

record user_identity =
  ui_id :: string
  ui_user :: string
  ui_provider :: string
  ui_subject :: string
  ui_created :: time
  ui_last_login :: "time option"

record auth_transaction =
  at_id :: string
  at_state :: "byte list"
  at_nonce :: "byte list"
  at_verifier :: "byte list"
  at_expires :: time
  at_consumed :: "time option"
  at_created :: time

record auth_credential =
  cr_id :: string
  cr_user :: string
  cr_hash :: string
  cr_failed :: int
  cr_locked :: "time option"
  cr_changed :: time
  cr_created :: time
  cr_updated :: time

record auth_challenge =
  ch_id :: string
  ch_user :: string
  ch_token :: "byte list"
  ch_purpose :: string
  ch_expires :: time
  ch_consumed :: "time option"
  ch_created :: time

record api_key =
  ak_id :: string
  ak_client :: string
  ak_public :: string
  ak_prefix :: string
  ak_secret :: "byte list"
  ak_created :: time
  ak_last_used :: "time option"
  ak_revoked :: "time option"

text \<open>Identity verification; \<open>KSNotStarted\<close> is the view of a user without an inquiry, never a row.\<close>

datatype kyc_status =
  KSNotStarted | KSCreating | KSCreated | KSPending | KSCompleted | KSPendingReview |
  KSApproved | KSDeclined | KSFailed | KSExpired

record kyc_inquiry =
  ky_id :: string
  ky_user :: string
  ky_provider :: string
  ky_provider_id :: "string option"
  ky_request :: string
  ky_provider_status :: string
  ky_status :: kyc_status
  ky_event_at :: "time option"
  ky_event_id :: "string option"
  ky_started :: "time option"
  ky_completed :: "time option"
  ky_approved :: "time option"
  ky_expires :: "time option"
  ky_created :: time
  ky_updated :: time

record kyc_event =
  ke_id :: string
  ke_provider :: string
  ke_event :: string
  ke_inquiry :: string
  ke_type :: string
  ke_at :: time
  ke_hash :: string
  ke_received :: time

text \<open>Wallets: proofs of control, firm quotes, linked accounts.\<close>

record sep10_challenge =
  sc_id :: string
  sc_hash :: "byte list"
  sc_account :: string
  sc_domain :: string
  sc_network :: string
  sc_expires :: time
  sc_consumed :: "time option"
  sc_created :: time

record sep38_quote =
  sq_id :: string
  sq_quote :: string
  sq_wallet :: string
  sq_sell_asset :: string
  sq_buy_asset :: string
  sq_sell_amount :: string
  sq_buy_amount :: string
  sq_price :: string
  sq_spread :: int
  sq_delivery :: string
  sq_expires :: time
  sq_consumed :: "time option"
  sq_created :: time
  sq_updated :: time

record developer_wallet =
  dw_id :: string
  dw_user :: string
  dw_client :: "string option"
  dw_network :: string
  dw_account :: string
  dw_label :: string
  dw_primary :: bool
  dw_method :: string
  dw_verified :: time
  dw_status :: string
  dw_revoked :: "time option"
  dw_created :: time
  dw_updated :: time

text \<open>A \<open>jsonb\<close> object is the list of its members.\<close>

datatype json = JString string | JNumber int

record sep24_session =
  sn_id :: string
  sn_transaction :: string
  sn_kind :: string
  sn_wallet :: string
  sn_token_hash :: "byte list"
  sn_request_hash :: "byte list"
  sn_payload :: "(string \<times> json) list"
  sn_asset :: string
  sn_asset_amount :: "string option"
  sn_fiat :: "int option"
  sn_method :: "string option"
  sn_destination :: string
  sn_quote :: "string option"
  sn_user :: "string option"
  sn_session :: "string option"
  sn_kyc :: string
  sn_order :: "string option"
  sn_expires :: time
  sn_completed :: "time option"
  sn_created :: time
  sn_updated :: time

end
