(* ===== verification/Store.thy ===== *)
theory Store
  imports Entities
begin

text \<open>
  The database and its environment. \<open>db\<close> holds one list of rows per table; \<open>world\<close> adds
  what a run depends on and cannot choose: the identifiers \<open>platform.NewID\<close> will draw, the
  outcome of each SQL statement (\<open>w_faults\<close>: success, an infrastructure failure, a
  transient lock conflict), the answers of \<open>ctx.Err()\<close> and the current time. Every error
  branch of a repository is thereby reachable. Statements of different transactions do not
  interleave: row locks (\<open>FOR UPDATE\<close>) serialise the transactions that touch one
  aggregate, and interleaving is modelled at the level of whole operations. \<open>tx_do\<close> is
  \<open>txManager.do\<close> of \<open>internal/repository/tx.go\<close>.
\<close>

named_theorems store_defs "definitions of the table statements"

record account_db =
  identities :: "user_identity list"
  auth_txs :: "auth_transaction list"
  credentials :: "auth_credential list"
  challenges :: "auth_challenge list"
  api_keys :: "api_key list"
  kyc_inquiries :: "kyc_inquiry list"
  kyc_events :: "kyc_event list"
  sep10_challenges :: "sep10_challenge list"
  sep38_quotes :: "sep38_quote list"
  developer_wallets :: "developer_wallet list"
  sep24_sessions :: "sep24_session list"

record db =
  orders :: "order_record list"
  order_events :: "order_event list"
  treasuries :: "treasury_account list"
  reservations :: "treasury_reservation list"
  checkouts :: "payment_checkout list"
  gateway_events :: "gateway_event list"
  stellar_txs :: "stellar_transaction list"
  idempotency :: "idempotency_record list"
  outbox :: "outbox_message list"
  payouts :: "offramp_payout list"
  financials :: "order_financial list"
  sessions :: "retail_session list"
  sep24_txs :: "sep24_transaction list"
  webhook_events :: "webhook_event list"
  webhook_endpoints :: "webhook_endpoint list"
  webhook_attempts :: "webhook_attempt list"
  api_clients :: "api_client list"
  users :: "user list"
  accts :: account_db

definition empty_db :: db where
  "empty_db = \<lparr>orders = [], order_events = [], treasuries = [], reservations = [], checkouts = [],
     gateway_events = [], stellar_txs = [], idempotency = [], outbox = [], payouts = [],
     financials = [], sessions = [], sep24_txs = [], webhook_events = [], webhook_endpoints = [],
     webhook_attempts = [], api_clients = [], users = [],
     accts = \<lparr>identities = [], auth_txs = [], credentials = [], challenges = [], api_keys = [],
       kyc_inquiries = [], kyc_events = [], sep10_challenges = [], sep38_quotes = [],
       developer_wallets = [], sep24_sessions = []\<rparr>\<rparr>"

datatype fault = NoFault | HardFault | LockFault

datatype tx_state = TxNone | TxOpen | TxAborted

record world =
  w_db :: db
  w_ids :: "string list"
  w_faults :: "fault list"
  w_ctx :: "bool list"
  w_now :: time
  w_tx :: tx_state

type_synonym 'a repo = "(world, err, 'a) act"

definition world0 :: "db \<Rightarrow> string list \<Rightarrow> time \<Rightarrow> world" where
  "world0 d ids now = \<lparr>w_db = d, w_ids = ids, w_faults = [], w_ctx = [], w_now = now, w_tx = TxNone\<rparr>"

section \<open>Environment\<close>

definition new_id :: "string repo" where
  "new_id w = (case w_ids w of [] \<Rightarrow> (Inl ErrRandom, w) | i # is \<Rightarrow> (Inr i, w\<lparr>w_ids := is\<rparr>))"

text \<open>
  \<open>rand.Read\<close> of \<open>n\<close> bytes, taken from the next draw. \<open>newUUID\<close> of the repository and use case
  packages returns the empty text when the source of randomness fails.
\<close>

definition random_bytes :: "nat \<Rightarrow> byte list repo" where
  "random_bytes n = act_bind new_id (\<lambda>s.
     act_ret (take n (List.map (\<lambda>c. of_nat (of_char c)) s @ replicate n 0)))"

definition random_string :: "nat \<Rightarrow> string repo" where
  "random_string n = act_bind (random_bytes n) (\<lambda>b. act_ret (b64_raw_url b))"

definition new_uuid :: "string repo" where
  "new_uuid = act_bind (act_try new_id) (\<lambda>r. case r of Inl e \<Rightarrow> act_ret [] | Inr i \<Rightarrow> act_ret i)"

definition now_utc :: "time repo" where
  "now_utc = act_get w_now"

definition ctx_done :: "bool repo" where
  "ctx_done w = (case w_ctx w of [] \<Rightarrow> (Inr False, w) | b # bs \<Rightarrow> (Inr b, w\<lparr>w_ctx := bs\<rparr>))"

section \<open>Statements\<close>

text \<open>A failed statement aborts the enclosing transaction: later statements of it fail too.\<close>

definition abort_tx :: "world \<Rightarrow> world" where
  "abort_tx w = (if w_tx w = TxOpen then w\<lparr>w_tx := TxAborted\<rparr> else w)"

definition sql_run :: "(db \<Rightarrow> (err + 'a) \<times> db) \<Rightarrow> 'a repo" where
  "sql_run f w = (case f (w_db w) of
      (Inl e, d) \<Rightarrow> (Inl e, abort_tx w)
    | (Inr x, d) \<Rightarrow> (Inr x, w\<lparr>w_db := d\<rparr>))"

definition sql :: "(db \<Rightarrow> (err + 'a) \<times> db) \<Rightarrow> 'a repo" where
  "sql f w =
     (if w_tx w = TxAborted then (Inl ErrDatabase, w)
      else case w_faults w of
        [] \<Rightarrow> sql_run f w
      | x # xs \<Rightarrow>
          (let w1 = w\<lparr>w_faults := xs\<rparr> in
           case x of NoFault \<Rightarrow> sql_run f w1
           | HardFault \<Rightarrow> (Inl ErrDatabase, abort_tx w1)
           | LockFault \<Rightarrow> (Inl ErrLockConflict, abort_tx w1)))"

definition select :: "(db \<Rightarrow> 'a) \<Rightarrow> 'a repo" where
  "select f = sql (\<lambda>d. (Inr (f d), d))"

text \<open>\<open>First\<close> and \<open>Take\<close>: no row is gorm's \<open>ErrRecordNotFound\<close>, which is no SQL error.\<close>

definition select_first :: "(db \<Rightarrow> 'a option) \<Rightarrow> 'a repo" where
  "select_first f = act_bind (select f) (\<lambda>r.
     case r of None \<Rightarrow> act_fail ErrRecordNotFound | Some x \<Rightarrow> act_ret x)"

definition insert_row ::
  "('r \<Rightarrow> 'r \<Rightarrow> bool) \<Rightarrow> (db \<Rightarrow> 'r list) \<Rightarrow> ('r list \<Rightarrow> db \<Rightarrow> db) \<Rightarrow> 'r \<Rightarrow> unit repo" where
  "insert_row clash tab put r = sql (\<lambda>d.
     if list_ex (clash r) (tab d) then (Inl ErrDuplicateKey, d)
     else (Inr (), put (tab d @ [r]) d))"

text \<open>\<open>UPDATE\<close> under a table constraint; the result is \<open>RowsAffected\<close>.\<close>

definition update_table ::
  "('r list \<Rightarrow> err option) \<Rightarrow> (db \<Rightarrow> 'r list) \<Rightarrow> ('r list \<Rightarrow> db \<Rightarrow> db) \<Rightarrow>
   ('r \<Rightarrow> bool) \<Rightarrow> ('r \<Rightarrow> 'r) \<Rightarrow> nat repo" where
  "update_table chk tab put P f = sql (\<lambda>d.
     let rows = update_rows P f (tab d) in
     case chk rows of Some e \<Rightarrow> (Inl e, d)
     | None \<Rightarrow> (Inr (count_rows P (tab d)), put rows d))"

abbreviation no_check :: "'r list \<Rightarrow> err option" where
  "no_check rows \<equiv> None"

section \<open>Transactions\<close>

definition tx_body :: "'a repo \<Rightarrow> 'a repo" where
  "tx_body body w =
     (case body (w\<lparr>w_tx := TxOpen\<rparr>) of
        (Inl e, w') \<Rightarrow> (Inl e, w'\<lparr>w_db := w_db w, w_tx := TxNone\<rparr>)
      | (Inr x, w') \<Rightarrow>
          (if w_tx w' = TxAborted then (Inl ErrDatabase, w'\<lparr>w_db := w_db w, w_tx := TxNone\<rparr>)
           else case w_faults w' of
             [] \<Rightarrow> (Inr x, w'\<lparr>w_tx := TxNone\<rparr>)
           | NoFault # xs \<Rightarrow> (Inr x, w'\<lparr>w_faults := xs, w_tx := TxNone\<rparr>)
           | HardFault # xs \<Rightarrow> (Inl ErrDatabase, w'\<lparr>w_db := w_db w, w_faults := xs, w_tx := TxNone\<rparr>)
           | LockFault # xs \<Rightarrow> (Inl ErrLockConflict, w'\<lparr>w_db := w_db w, w_faults := xs, w_tx := TxNone\<rparr>)))"

fun is_transient_lock_error :: "err \<Rightarrow> bool" where
  "is_transient_lock_error ErrLockConflict = True"
| "is_transient_lock_error (ErrJoined a b) = (is_transient_lock_error a \<or> is_transient_lock_error b)"
| "is_transient_lock_error _ = False"

definition max_transaction_attempts :: nat where "max_transaction_attempts = 3"

fun tx_attempts :: "nat \<Rightarrow> 'a repo \<Rightarrow> err \<Rightarrow> 'a repo" where
  "tx_attempts 0 body e0 = act_fail e0"
| "tx_attempts (Suc n) body e0 =
     act_bind (act_try (tx_body body)) (\<lambda>r. case r of
       Inr x \<Rightarrow> act_ret x
     | Inl e \<Rightarrow> act_bind ctx_done (\<lambda>cancelled.
         if cancelled then act_fail (ErrJoined e ErrContextDone)
         else if \<not> is_transient_lock_error e then act_fail e
         else act_bind ctx_done (\<lambda>cancelled.
           if cancelled then act_fail (ErrJoined e ErrContextDone)
           else tx_attempts n body e)))"

definition tx_do :: "'a repo \<Rightarrow> 'a repo" where
  "tx_do body = tx_attempts max_transaction_attempts body ErrDatabase"

section \<open>Inversion of the primitives\<close>

lemma now_utc_Inr [act_inv]: "now_utc w = (Inr t, w') \<longleftrightarrow> t = w_now w \<and> w' = w"
  by (simp add: now_utc_def act_inv)

lemma now_utc_Inl [act_inv]: "now_utc w = (Inl e, w') \<longleftrightarrow> False"
  by (simp add: now_utc_def act_inv)

lemma sql_Inr: "sql f w = (Inr x, w') \<Longrightarrow>
    f (w_db w) = (Inr x, w_db w') \<and> w_now w' = w_now w"
  by (auto simp: sql_def sql_run_def Let_def split: if_splits list.splits fault.splits prod.splits sum.splits)

lemma sql_Inl: "sql f w = (Inl e, w') \<Longrightarrow> w_db w' = w_db w \<and> w_now w' = w_now w"
  by (auto simp: sql_def sql_run_def abort_tx_def Let_def
      split: if_splits list.splits fault.splits prod.splits sum.splits)

lemma select_Inr: "select f w = (Inr x, w') \<Longrightarrow>
    x = f (w_db w) \<and> w_db w' = w_db w \<and> w_now w' = w_now w"
  unfolding select_def by (drule sql_Inr) auto

lemma select_Inl: "select f w = (Inl e, w') \<Longrightarrow> w_db w' = w_db w \<and> w_now w' = w_now w"
  unfolding select_def by (rule sql_Inl)

lemma insert_row_Inr: "insert_row clash tab put r w = (Inr u, w') \<Longrightarrow>
    w_db w' = put (tab (w_db w) @ [r]) (w_db w) \<and> w_now w' = w_now w \<and>
    (\<forall>q \<in> set (tab (w_db w)). \<not> clash r q)"
  unfolding insert_row_def by (drule sql_Inr) (simp add: list_ex_iff split: if_splits)

lemma insert_row_Inl: "insert_row clash tab put r w = (Inl e, w') \<Longrightarrow>
    w_db w' = w_db w \<and> w_now w' = w_now w"
  unfolding insert_row_def by (rule sql_Inl)

lemma update_table_Inr: "update_table chk tab put P f w = (Inr n, w') \<Longrightarrow>
    w_db w' = put (update_rows P f (tab (w_db w))) (w_db w) \<and> w_now w' = w_now w \<and>
    n = count_rows P (tab (w_db w)) \<and> chk (update_rows P f (tab (w_db w))) = None"
  unfolding update_table_def by (drule sql_Inr) (simp add: Let_def split: option.splits)

lemma update_table_Inl: "update_table chk tab put P f w = (Inl e, w') \<Longrightarrow>
    w_db w' = w_db w \<and> w_now w' = w_now w"
  unfolding update_table_def by (rule sql_Inl)

lemma ctx_done_db: "ctx_done w = (r, w') \<Longrightarrow> w_db w' = w_db w \<and> w_now w' = w_now w"
  by (auto simp: ctx_done_def split: list.splits)

lemma new_id_db: "new_id w = (r, w') \<Longrightarrow> w_db w' = w_db w \<and> w_now w' = w_now w"
  by (auto simp: new_id_def split: list.splits)

lemma tx_body_Inl: "tx_body body w = (Inl e, w') \<Longrightarrow> w_db w' = w_db w"
  by (auto simp: tx_body_def split: prod.splits sum.splits if_splits list.splits fault.splits)

text \<open>A transaction's outcome is the error or the value of one run of its body on the same database.\<close>

lemma tx_body_run:
  assumes "tx_body body w = (r, w')"
  obtains r1 w1 w2 where "body w1 = (r1, w2)" "w_db w1 = w_db w" "w_now w1 = w_now w"
    "w_now w' = w_now w2" "w_tx w' = TxNone"
    "case r of Inl e \<Rightarrow> w_db w' = w_db w | Inr x \<Rightarrow> r1 = Inr x \<and> w_db w' = w_db w2"
proof -
  let ?w1 = "w\<lparr>w_tx := TxOpen\<rparr>"
  obtain r1 w2 where b: "body ?w1 = (r1, w2)" by fastforce
  have n: "w_now w' = w_now w2" "w_tx w' = TxNone"
    "case r of Inl e \<Rightarrow> w_db w' = w_db w | Inr x \<Rightarrow> r1 = Inr x \<and> w_db w' = w_db w2"
    using assms b
    by (auto simp: tx_body_def split: sum.splits if_splits list.splits fault.splits)
  show thesis by (rule that [OF b _ _ n]) simp_all
qed

section \<open>Outcomes\<close>

text \<open>
  \<open>outcome m Q E d t\<close>: started on database \<open>d\<close> at time \<open>t\<close>, whatever the identifiers, faults
  and cancellations, \<open>m\<close> ends with a value and a database that satisfy \<open>Q\<close>, or with an error
  and a database that satisfy \<open>E\<close>. The rules \<open>outcome_intro\<close> run an operation symbolically.
\<close>

definition outcome ::
  "'a repo \<Rightarrow> ('a \<Rightarrow> db \<Rightarrow> bool) \<Rightarrow> (err \<Rightarrow> db \<Rightarrow> bool) \<Rightarrow> db \<Rightarrow> time \<Rightarrow> bool" where
  "outcome m Q E d t \<longleftrightarrow>
     (\<forall>w r w'. w_db w = d \<longrightarrow> w_now w = t \<longrightarrow> m w = (r, w') \<longrightarrow>
        w_now w' = t \<and> (case r of Inl e \<Rightarrow> E e (w_db w') | Inr x \<Rightarrow> Q x (w_db w')))"

named_theorems outcome_intro "symbolic execution rules"

lemma outcomeI:
  "(\<And>w r w'. w_db w = d \<Longrightarrow> w_now w = t \<Longrightarrow> m w = (r, w') \<Longrightarrow>
     w_now w' = t \<and> (case r of Inl e \<Rightarrow> E e (w_db w') | Inr x \<Rightarrow> Q x (w_db w'))) \<Longrightarrow> outcome m Q E d t"
  by (auto simp: outcome_def)

lemma outcomeD: "outcome m Q E d t \<Longrightarrow> w_db w = d \<Longrightarrow> w_now w = t \<Longrightarrow> m w = (r, w') \<Longrightarrow>
     w_now w' = t \<and> (case r of Inl e \<Rightarrow> E e (w_db w') | Inr x \<Rightarrow> Q x (w_db w'))"
  by (auto simp: outcome_def)

lemma outcome_both:
  "outcome m Q E d t \<Longrightarrow> outcome m Q' E' d t \<Longrightarrow>
   outcome m (\<lambda>x d'. Q x d' \<and> Q' x d') (\<lambda>e d'. E e d' \<and> E' e d') d t"
proof (rule outcomeI)
  fix w r w' assume o: "outcome m Q E d t" "outcome m Q' E' d t" and w: "w_db w = d" "w_now w = t" "m w = (r, w')"
  from outcomeD [OF o(1) w] outcomeD [OF o(2) w]
  show "w_now w' = t \<and> (case r of Inl e \<Rightarrow> E e (w_db w') \<and> E' e (w_db w') | Inr x \<Rightarrow> Q x (w_db w') \<and> Q' x (w_db w'))"
    by (cases r) simp_all
qed

lemma outcome_refused:
  "outcome m (\<lambda>_ _. False) (\<lambda>_ d'. d' = w_db u) (w_db u) (w_now u) \<Longrightarrow> \<exists>e u'. m u = (Inl e, u') \<and> w_db u' = w_db u"
proof -
  assume o: "outcome m (\<lambda>_ _. False) (\<lambda>_ d'. d' = w_db u) (w_db u) (w_now u)"
  obtain r u' where m: "m u = (r, u')" by fastforce
  from outcomeD [OF o refl refl m] m show ?thesis by (cases r) auto
qed

lemma outcome_Inr: "outcome m Q E (w_db w) (w_now w) \<Longrightarrow> m w = (Inr x, w') \<Longrightarrow> Q x (w_db w')"
  using outcomeD [of m Q E "w_db w" "w_now w" w "Inr x" w'] by simp

lemma outcome_Inl: "outcome m Q E (w_db w) (w_now w) \<Longrightarrow> m w = (Inl e, w') \<Longrightarrow> E e (w_db w')"
  using outcomeD [of m Q E "w_db w" "w_now w" w "Inl e" w'] by simp

lemma outcome_weaken:
  "outcome m Q E d t \<Longrightarrow> (\<And>x d'. Q x d' \<Longrightarrow> Q' x d') \<Longrightarrow> (\<And>e d'. E e d' \<Longrightarrow> E' e d') \<Longrightarrow>
   outcome m Q' E' d t"
proof (rule outcomeI)
  fix w r w' assume "outcome m Q E d t" and i: "\<And>x d'. Q x d' \<Longrightarrow> Q' x d'" "\<And>e d'. E e d' \<Longrightarrow> E' e d'"
    and "w_db w = d" "w_now w = t" "m w = (r, w')"
  from outcomeD [OF this(1,4,5,6)] i
  show "w_now w' = t \<and> (case r of Inl e \<Rightarrow> E' e (w_db w') | Inr x \<Rightarrow> Q' x (w_db w'))"
    by (cases r) simp_all
qed

lemma outcome_ret [outcome_intro]: "Q x d \<Longrightarrow> outcome (act_ret x) Q E d t"
  by (rule outcomeI) (auto simp: act_ret_def)

lemma outcome_fail [outcome_intro]: "E e d \<Longrightarrow> outcome (act_fail e) Q E d t"
  by (rule outcomeI) (auto simp: act_fail_def)

lemma outcome_guard [outcome_intro]:
  "(b \<Longrightarrow> Q () d) \<Longrightarrow> (\<not> b \<Longrightarrow> E e d) \<Longrightarrow> outcome (act_guard b e) Q E d t"
  by (cases b) (auto simp: act_guard_def intro: outcome_ret outcome_fail)

lemma outcome_lift [outcome_intro]:
  "(\<And>x. r = Inr x \<Longrightarrow> Q x d) \<Longrightarrow> (\<And>e. r = Inl e \<Longrightarrow> E e d) \<Longrightarrow> outcome (act_lift r) Q E d t"
  by (rule outcomeI) (auto simp: act_lift_def split: sum.splits)

lemma outcome_bind [outcome_intro]:
  "outcome m (\<lambda>x d'. outcome (f x) Q E d' t) E d t \<Longrightarrow> outcome (act_bind m f) Q E d t"
proof (rule outcomeI)
  fix w r w'
  assume o: "outcome m (\<lambda>x d'. outcome (f x) Q E d' t) E d t" and w: "w_db w = d" "w_now w = t"
    and b: "act_bind m f w = (r, w')"
  obtain r1 w1 where m: "m w = (r1, w1)" by fastforce
  from outcomeD [OF o w m] have t: "w_now w1 = t"
    and c: "case r1 of Inl e \<Rightarrow> E e (w_db w1) | Inr x \<Rightarrow> outcome (f x) Q E (w_db w1) t" by auto
  show "w_now w' = t \<and> (case r of Inl e \<Rightarrow> E e (w_db w') | Inr x \<Rightarrow> Q x (w_db w'))"
  proof (cases r1)
    case (Inl e)
    with m b t c show ?thesis by (auto simp: act_bind_def)
  next
    case (Inr x)
    with m b have "f x w1 = (r, w')" by (simp add: act_bind_def)
    with outcomeD [of "f x" Q E "w_db w1" t w1 r w'] c Inr t show ?thesis by simp
  qed
qed

lemma outcome_try [outcome_intro]:
  "outcome m (\<lambda>x. Q (Inr x)) (\<lambda>e. Q (Inl e)) d t \<Longrightarrow> outcome (act_try m) Q E d t"
  by (rule outcomeI) (auto simp: act_try_def split: prod.splits sum.splits dest: outcomeD)

lemma outcome_now [outcome_intro]: "Q t d \<Longrightarrow> outcome now_utc Q E d t"
  by (rule outcomeI) (auto simp: now_utc_def act_get_def)

lemma outcome_new_id [outcome_intro]:
  "(\<And>i. Q i d) \<Longrightarrow> E ErrRandom d \<Longrightarrow> outcome new_id Q E d t"
  by (rule outcomeI) (auto simp: new_id_def split: list.splits)

lemma outcome_random_bytes [outcome_intro]:
  "(\<And>b. length b = n \<Longrightarrow> Q b d) \<Longrightarrow> E ErrRandom d \<Longrightarrow> outcome (random_bytes n) Q E d t"
  unfolding random_bytes_def by (intro outcome_bind outcome_new_id outcome_ret) simp_all

lemma outcome_random_string [outcome_intro]:
  "(\<And>b. length b = n \<Longrightarrow> Q (b64_raw_url b) d) \<Longrightarrow> E ErrRandom d \<Longrightarrow> outcome (random_string n) Q E d t"
  unfolding random_string_def by (intro outcome_bind outcome_random_bytes outcome_ret) simp_all

lemma outcome_new_uuid [outcome_intro]: "(\<And>i. Q i d) \<Longrightarrow> outcome new_uuid Q E d t"
  unfolding new_uuid_def
  by (rule outcome_bind, rule outcome_try, rule outcome_new_id) (auto intro: outcome_ret)

lemma outcome_ctx_done [outcome_intro]: "(\<And>b. Q b d) \<Longrightarrow> outcome ctx_done Q E d t"
  by (rule outcomeI) (auto simp: ctx_done_def split: list.splits)

lemma outcome_sql:
  "(\<And>x d'. f d = (Inr x, d') \<Longrightarrow> Q x d') \<Longrightarrow> (\<And>e. E e d) \<Longrightarrow> outcome (sql f) Q E d t"
  by (rule outcomeI) (auto split: sum.splits dest!: sql_Inr sql_Inl)

lemma outcome_select [outcome_intro]:
  "Q (f d) d \<Longrightarrow> (\<And>e. E e d) \<Longrightarrow> outcome (select f) Q E d t"
  by (rule outcomeI) (auto split: sum.splits dest!: select_Inr select_Inl)

lemma outcome_select_first [outcome_intro]:
  "(\<And>x. f d = Some x \<Longrightarrow> Q x d) \<Longrightarrow> (\<And>e. E e d) \<Longrightarrow> outcome (select_first f) Q E d t"
  unfolding select_first_def
  by (rule outcome_bind, rule outcome_select)
     (auto split: option.splits intro: outcome_ret outcome_fail)

lemma outcome_insert [outcome_intro]:
  assumes "\<And>rs. rs = tab d @ [r] \<Longrightarrow> (\<And>q. q \<in> set (tab d) \<Longrightarrow> \<not> clash r q) \<Longrightarrow> Q () (put rs d)"
    and "\<And>e. E e d"
  shows "outcome (insert_row clash tab put r) Q E d t"
  by (rule outcomeI) (use assms in \<open>auto split: sum.splits dest!: insert_row_Inr insert_row_Inl\<close>)

lemma outcome_update [outcome_intro]:
  assumes "\<And>rs. rs = update_rows P f (tab d) \<Longrightarrow> chk rs = None \<Longrightarrow> Q (count_rows P (tab d)) (put rs d)"
    and "\<And>e. E e d"
  shows "outcome (update_table chk tab put P f) Q E d t"
  by (rule outcomeI) (use assms in \<open>auto split: sum.splits dest!: update_table_Inr update_table_Inl\<close>)

lemma outcome_if [outcome_intro]:
  "(c \<Longrightarrow> outcome a Q E d t) \<Longrightarrow> (\<not> c \<Longrightarrow> outcome b Q E d t) \<Longrightarrow>
   outcome (if c then a else b) Q E d t"
  by simp

lemma outcome_case_None [outcome_intro]:
  "outcome f Q E d t \<Longrightarrow> outcome (case None of None \<Rightarrow> f | Some x \<Rightarrow> g x) Q E d t" by simp

lemma outcome_case_Some [outcome_intro]:
  "outcome (g x) Q E d t \<Longrightarrow> outcome (case Some x of None \<Rightarrow> f | Some x \<Rightarrow> g x) Q E d t" by simp

lemma outcome_case_Inl [outcome_intro]:
  "outcome (f e) Q E d t \<Longrightarrow> outcome (case Inl e of Inl e \<Rightarrow> f e | Inr x \<Rightarrow> g x) Q E d t" by simp

lemma outcome_case_Inr [outcome_intro]:
  "outcome (g x) Q E d t \<Longrightarrow> outcome (case Inr x of Inl e \<Rightarrow> f e | Inr x \<Rightarrow> g x) Q E d t" by simp

lemma outcome_case_sum [outcome_intro]:
  "(\<And>e. r = Inl e \<Longrightarrow> outcome (f e) Q E d t) \<Longrightarrow> (\<And>x. r = Inr x \<Longrightarrow> outcome (g x) Q E d t) \<Longrightarrow>
   outcome (case r of Inl e \<Rightarrow> f e | Inr x \<Rightarrow> g x) Q E d t"
  by (cases r) auto

lemma outcome_case_option [outcome_intro]:
  "(r = None \<Longrightarrow> outcome f Q E d t) \<Longrightarrow> (\<And>x. r = Some x \<Longrightarrow> outcome (g x) Q E d t) \<Longrightarrow>
   outcome (case r of None \<Rightarrow> f | Some x \<Rightarrow> g x) Q E d t"
  by (cases r) auto

lemma outcome_case_prod [outcome_intro]:
  "(\<And>x y. p = (x, y) \<Longrightarrow> outcome (f x y) Q E d t) \<Longrightarrow> outcome (case p of (x, y) \<Rightarrow> f x y) Q E d t"
  by (cases p) auto

lemma outcome_let [outcome_intro]:
  "(\<And>x. x = e \<Longrightarrow> outcome (f x) Q E d t) \<Longrightarrow> outcome (let x = e in f x) Q E d t"
  by simp

lemma outcome_True: "outcome m (\<lambda>_ _. True) (\<lambda>_ _. True) d t \<Longrightarrow> m w = (r, w') \<Longrightarrow>
    w_db w = d \<Longrightarrow> w_now w = t \<Longrightarrow> w_now w' = t"
  using outcomeD by blast

text \<open>Operations that read only.\<close>

definition reads :: "'a repo \<Rightarrow> bool" where
  "reads m \<longleftrightarrow> (\<forall>d t. outcome m (\<lambda>_ d'. d' = d) (\<lambda>_ d'. d' = d) d t)"

lemma readsI: "(\<And>d t. outcome m (\<lambda>_ d'. d' = d) (\<lambda>_ d'. d' = d) d t) \<Longrightarrow> reads m"
  by (simp add: reads_def)

lemma outcome_reads: "reads m \<Longrightarrow> (\<And>x. Q x d) \<Longrightarrow> (\<And>e. E e d) \<Longrightarrow> outcome m Q E d t"
  unfolding reads_def by (erule allE, erule allE, erule outcome_weaken) simp_all

lemma outcome_seq:
  assumes "outcome m (\<lambda>_. I) (\<lambda>_. I) d t" and "\<And>x d'. I d' \<Longrightarrow> outcome (f x) Q E d' t"
    and "\<And>e d'. I d' \<Longrightarrow> E e d'"
  shows "outcome (act_bind m f) Q E d t"
  by (rule outcome_bind, rule outcome_weaken [OF assms(1)]) (simp_all add: assms(2,3))

text \<open>Loops: an invariant on the accumulator and the database.\<close>

lemma outcome_fold:
  assumes "\<And>x a d. x \<in> set xs \<Longrightarrow> I a d \<Longrightarrow> outcome (f x a) I E d t" and "I a d"
  shows "outcome (act_fold f xs a) I E d t"
  using assms
proof (induction xs arbitrary: a d)
  case Nil
  then show ?case by (simp add: outcome_ret)
next
  case (Cons x xs)
  have "outcome (f x a) I E d t" by (rule Cons.prems) (use Cons.prems in auto)
  then have "outcome (f x a) (\<lambda>y d'. outcome (act_fold f xs y) I E d' t) E d t"
    by (rule outcome_weaken) (auto intro!: Cons.IH Cons.prems)
  then show ?case by (simp add: outcome_bind)
qed

text \<open>A loop whose invariant speaks of the elements still to come.\<close>

lemma outcome_fold_rest:
  assumes "\<And>x xs' a d. I (x # xs') a d \<Longrightarrow> outcome (f x a) (I xs') E d t" and "I xs a d"
  shows "outcome (act_fold f xs a) (I []) E d t"
  using assms(2)
proof (induction xs arbitrary: a d)
  case Nil
  then show ?case by (simp add: outcome_ret)
next
  case (Cons x xs)
  from assms(1) [OF Cons.prems]
  have "outcome (f x a) (\<lambda>y d'. outcome (act_fold f xs y) (I []) E d' t) E d t"
    by (rule outcome_weaken) (auto intro: Cons.IH)
  then show ?case by (simp add: outcome_bind)
qed

section \<open>Outcomes of transactions\<close>

lemma outcome_tx_body:
  assumes "outcome body Q (\<lambda>_ _. True) d t"
  shows "outcome (tx_body body) Q (\<lambda>_ d'. d' = d) d t"
proof (rule outcomeI)
  fix w r w' assume w: "w_db w = d" "w_now w = t" and b: "tx_body body w = (r, w')"
  from b obtain r1 w1 w2 where 1: "body w1 = (r1, w2)" "w_db w1 = w_db w" "w_now w1 = w_now w"
    "w_now w' = w_now w2" "w_tx w' = TxNone"
    "case r of Inl e \<Rightarrow> w_db w' = w_db w | Inr x \<Rightarrow> r1 = Inr x \<and> w_db w' = w_db w2"
    by (rule tx_body_run)
  from outcomeD [OF assms _ _ 1(1)] 1 w have "w_now w2 = t"
    and "case r1 of Inl e \<Rightarrow> True | Inr x \<Rightarrow> Q x (w_db w2)" by simp_all
  with 1 w show "w_now w' = t \<and> (case r of Inl e \<Rightarrow> w_db w' = d | Inr x \<Rightarrow> Q x (w_db w'))"
    by (auto split: sum.splits)
qed

lemma outcome_tx_attempts:
  assumes "outcome body Q (\<lambda>_ _. True) d t"
  shows "outcome (tx_attempts n body e0) Q (\<lambda>_ d'. d' = d) d t"
proof (induction n arbitrary: e0)
  case 0
  show ?case by (simp add: outcome_fail)
next
  case (Suc n)
  have b: "outcome (tx_body body) Q (\<lambda>_ d'. d' = d) d t"
    by (rule outcome_tx_body [OF assms])
  show ?case
    unfolding tx_attempts.simps
    by (rule outcome_bind, rule outcome_try, rule outcome_weaken [OF b])
       (auto intro!: outcome_ret outcome_bind outcome_ctx_done outcome_if outcome_fail Suc.IH)
qed

text \<open>
  What \<open>txManager.do\<close> promises: the postcondition of the body on success, and on any error,
  a failed commit and an exhausted retry included, the database it started with.
\<close>

lemma outcome_tx [outcome_intro]:
  assumes "outcome body Q (\<lambda>_ _. True) d t" and "\<And>e. E e d"
  shows "outcome (tx_do body) Q E d t"
  unfolding tx_do_def
  by (rule outcome_weaken [OF outcome_tx_attempts [OF assms(1)]]) (use assms(2) in auto)

lemma tx_do_Inl:
  assumes "outcome body (\<lambda>_ _. True) (\<lambda>_ _. True) (w_db w) (w_now w)"
    and "tx_do body w = (Inl e, w')"
  shows "w_db w' = w_db w"
proof -
  from assms(1) have "outcome (tx_do body) (\<lambda>_ _. True) (\<lambda>_ d'. d' = w_db w) (w_db w) (w_now w)"
    by (rule outcome_tx) simp
  from outcome_Inl [OF this assms(2)] show ?thesis .
qed

text \<open>The state after a run, from an outcome that keeps a predicate.\<close>

lemma outcome_state:
  assumes "outcome m (\<lambda>_. I) (\<lambda>_. I) (w_db w) (w_now w)"
  shows "I (w_db (snd (m w)))"
  using outcomeD [OF assms refl refl, of "fst (m w)" "snd (m w)"] by (simp split: sum.splits)

lemma tx_body_atomic:
  "case tx_body body w of
     (Inl e, w') \<Rightarrow> w_db w' = w_db w
   | (Inr x, w') \<Rightarrow> \<exists>w1 w2. w_db w1 = w_db w \<and> body w1 = (Inr x, w2) \<and> w_db w' = w_db w2"
proof -
  obtain r w' where b: "tx_body body w = (r, w')" by fastforce
  then show ?thesis by (rule tx_body_run) (use b in \<open>cases r; auto\<close>)
qed

lemma tx_attempts_atomic:
  "case tx_attempts n body e0 w of
     (Inl e, w') \<Rightarrow> w_db w' = w_db w
   | (Inr x, w') \<Rightarrow> \<exists>w1 w2. w_db w1 = w_db w \<and> body w1 = (Inr x, w2) \<and> w_db w' = w_db w2"
proof (induction n arbitrary: e0 w)
  case 0
  show ?case by (simp add: act_fail_def)
next
  case (Suc n)
  obtain r w1 where b: "tx_body body w = (r, w1)" by fastforce
  obtain r2 w2 where c: "ctx_done w1 = (r2, w2)" by fastforce
  obtain r3 w3 where c3: "ctx_done w2 = (r3, w3)" by fastforce
  note db = ctx_done_db [OF c] ctx_done_db [OF c3]
  show ?case
  proof (cases r)
    case (Inr x)
    with b tx_body_atomic [where body = body and w = w] show ?thesis by (simp add: act_bind_def act_try_def act_ret_def)
  next
    case (Inl e)
    with b tx_body_atomic [where body = body and w = w] have w1: "w_db w1 = w_db w" by simp
    obtain b2 b3 where "r2 = Inr b2" "r3 = Inr b3"
      using c c3 by (auto simp: ctx_done_def split: list.splits)
    with Inl b c c3 db w1 Suc.IH [of w3 e] show ?thesis
      by (auto simp: act_bind_def act_try_def act_ret_def act_fail_def split: prod.splits sum.splits)
  qed
qed

end
