(* ===== verification/Tables.thy ===== *)
theory Tables
  imports Store
begin

text \<open>
  The statements the repositories issue on each table, with the unique keys and the checks of
  the migrations (\<open>migrations/*.up.sql\<close> and the \<open>gorm\<close> tags of \<open>internal/entity\<close>). A null
  key never clashes, as in SQL. \<open>First\<close> orders by the primary key after any explicit order.
\<close>

text \<open>
  A \<open>timestamptz\<close> column keeps microseconds: the driver drops the nanoseconds of a Go time. The
  tables of the sessions and of the firm quotes, whose expiry goes to the client as well, are modelled
  with it; the other tables keep the time as it is.
\<close>

definition timestamptz :: "time \<Rightarrow> time" where
  "timestamptz t = t - t mod 1000"

lemma timestamptz_twice [simp]: "timestamptz (timestamptz t) = timestamptz t"
proof -
  have "t - t mod 1000 = 1000 * (t div 1000)" by (simp add: minus_mod_eq_mult_div)
  then show ?thesis by (simp add: timestamptz_def)
qed

lemma timestamptz_le: "timestamptz t \<le> t"
  by (simp add: timestamptz_def)

text \<open>Before a stored time is the same for a time and for what a query parameter keeps of it.\<close>

lemma timestamptz_before: "timestamptz a < timestamptz b \<longleftrightarrow> a < timestamptz b"
proof -
  have "timestamptz x = 1000 * (x div 1000)" for x by (simp add: timestamptz_def minus_mod_eq_mult_div)
  then show ?thesis by simp linarith
qed

section \<open>Inserts\<close>

definition same_some :: "'k option \<Rightarrow> 'k option \<Rightarrow> bool" where
  "same_some a b \<longleftrightarrow> a \<noteq> None \<and> a = b"

text \<open>
  The \<open>CHECK\<close>s of the first migration that admit only the asset \<open>XLM\<close> (\<open>000001_week1_onramp.up.sql\<close>,
  lines 98 and 202) are left out of the orders and the Stellar transactions: the code writes \<open>KXLM\<close>,
  and \<open>cmd/automigrate\<close>, which builds the tables from the entities, has no such \<open>CHECK\<close>.
\<close>

definition insert_order :: "order_record \<Rightarrow> unit repo" where
  "insert_order = insert_row (\<lambda>a b. or_id a = or_id b) orders (\<lambda>rs d. d\<lparr>orders := rs\<rparr>)"

definition insert_event :: "order_event \<Rightarrow> unit repo" where
  "insert_event = insert_row
     (\<lambda>a b. ev_id a = ev_id b \<or> ev_order a = ev_order b \<and> ev_version a = ev_version b)
     order_events (\<lambda>rs d. d\<lparr>order_events := rs\<rparr>)"

text \<open>The \<open>CHECK\<close>s of \<open>treasury_accounts\<close>.\<close>

definition treasury_ok :: "treasury_account \<Rightarrow> bool" where
  "treasury_ok t \<longleftrightarrow> 0 \<le> ta_reserved t \<and> ta_reserved t \<le> ta_observed t \<and> 0 \<le> ta_buffer t"

definition check_treasuries :: "treasury_account list \<Rightarrow> err option" where
  "check_treasuries rows = (if list_all treasury_ok rows then None else Some ErrCheckViolation)"

definition insert_treasury :: "treasury_account \<Rightarrow> unit repo" where
  "insert_treasury t = act_bind (act_guard (treasury_ok t) ErrCheckViolation) (\<lambda>_.
     insert_row (\<lambda>a b. ta_id a = ta_id b \<or> ta_network a = ta_network b \<and> ta_account a = ta_account b)
       treasuries (\<lambda>rs d. d\<lparr>treasuries := rs\<rparr>) t)"

definition insert_reservation :: "treasury_reservation \<Rightarrow> unit repo" where
  "insert_reservation = insert_row (\<lambda>a b. tr_id a = tr_id b \<or> tr_order a = tr_order b)
     reservations (\<lambda>rs d. d\<lparr>reservations := rs\<rparr>)"

definition insert_checkout :: "payment_checkout \<Rightarrow> unit repo" where
  "insert_checkout = insert_row
     (\<lambda>a b. pc_id a = pc_id b \<or> pc_provider a = pc_provider b \<and>
        (pc_provider_id a = pc_provider_id b \<or> same_some (pc_request_id a) (pc_request_id b)))
     checkouts (\<lambda>rs d. d\<lparr>checkouts := rs\<rparr>)"

definition gateway_clash :: "gateway_event \<Rightarrow> gateway_event \<Rightarrow> bool" where
  "gateway_clash a b \<longleftrightarrow>
     ge_id a = ge_id b \<or> ge_provider a = ge_provider b \<and> ge_event a = ge_event b"

text \<open>\<open>INSERT \<dots> ON CONFLICT DO NOTHING\<close>; the result is \<open>RowsAffected\<close>.\<close>

definition insert_gateway_event :: "gateway_event \<Rightarrow> nat repo" where
  "insert_gateway_event r = sql (\<lambda>d.
     if list_ex (gateway_clash r) (gateway_events d) then (Inr 0, d)
     else (Inr 1, d\<lparr>gateway_events := gateway_events d @ [r]\<rparr>))"

definition insert_stellar :: "stellar_transaction \<Rightarrow> unit repo" where
  "insert_stellar = insert_row
     (\<lambda>a b. st_id a = st_id b \<or> st_intent a = st_intent b \<or>
        st_order a = st_order b \<and> st_purpose a = st_purpose b \<or> same_some (st_hash a) (st_hash b))
     stellar_txs (\<lambda>rs d. d\<lparr>stellar_txs := rs\<rparr>)"

definition insert_idempotency :: "idempotency_record \<Rightarrow> unit repo" where
  "insert_idempotency = insert_row
     (\<lambda>a b. ir_id a = ir_id b \<or> ir_operation a = ir_operation b \<and> ir_key a = ir_key b \<and>
        (same_some (ir_client a) (ir_client b) \<or> same_some (ir_user a) (ir_user b)))
     idempotency (\<lambda>rs d. d\<lparr>idempotency := rs\<rparr>)"

definition insert_outbox :: "outbox_message \<Rightarrow> unit repo" where
  "insert_outbox = insert_row (\<lambda>a b. ob_id a = ob_id b) outbox (\<lambda>rs d. d\<lparr>outbox := rs\<rparr>)"

definition insert_payout :: "offramp_payout \<Rightarrow> unit repo" where
  "insert_payout = insert_row
     (\<lambda>a b. po_id a = po_id b \<or> po_order a = po_order b \<or> po_reference a = po_reference b)
     payouts (\<lambda>rs d. d\<lparr>payouts := rs\<rparr>)"

definition insert_financial :: "order_financial \<Rightarrow> unit repo" where
  "insert_financial = insert_row (\<lambda>a b. of_id a = of_id b \<or> of_order a = of_order b)
     financials (\<lambda>rs d. d\<lparr>financials := rs\<rparr>)"

definition insert_webhook_event :: "webhook_event \<Rightarrow> unit repo" where
  "insert_webhook_event = insert_row (\<lambda>a b. we_id a = we_id b)
     webhook_events (\<lambda>rs d. d\<lparr>webhook_events := rs\<rparr>)"

definition insert_webhook_endpoint :: "webhook_endpoint \<Rightarrow> unit repo" where
  "insert_webhook_endpoint = insert_row (\<lambda>a b. wp_id a = wp_id b)
     webhook_endpoints (\<lambda>rs d. d\<lparr>webhook_endpoints := rs\<rparr>)"

definition insert_webhook_attempt :: "webhook_attempt \<Rightarrow> unit repo" where
  "insert_webhook_attempt = insert_row
     (\<lambda>a b. wa_id a = wa_id b \<or>
        wa_event a = wa_event b \<and> wa_endpoint a = wa_endpoint b \<and> wa_number a = wa_number b)
     webhook_attempts (\<lambda>rs d. d\<lparr>webhook_attempts := rs\<rparr>)"

definition insert_api_client :: "api_client \<Rightarrow> unit repo" where
  "insert_api_client = insert_row
     (\<lambda>a b. ac_id a = ac_id b \<or> ac_owner a = ac_owner b \<and> ac_environment a = ac_environment b)
     api_clients (\<lambda>rs d. d\<lparr>api_clients := rs\<rparr>)"

text \<open>The account tables.\<close>

definition active_user_status :: string where "active_user_status = ''active''"

definition put_acc ::
  "(('r list \<Rightarrow> 'r list) \<Rightarrow> account_db \<Rightarrow> account_db) \<Rightarrow> 'r list \<Rightarrow> db \<Rightarrow> db" where
  "put_acc upd rs d = d\<lparr>accts := upd (\<lambda>_. rs) (accts d)\<rparr>"

declare put_acc_def [simp]

definition insert_user :: "user \<Rightarrow> unit repo" where
  "insert_user = insert_row (\<lambda>a b. us_id a = us_id b \<or> same_some (us_email a) (us_email b))
     users (\<lambda>rs d. d\<lparr>users := rs\<rparr>)"

definition insert_identity :: "user_identity \<Rightarrow> unit repo" where
  "insert_identity = insert_row
     (\<lambda>a b. ui_id a = ui_id b \<or> ui_provider a = ui_provider b \<and> ui_subject a = ui_subject b)
     (\<lambda>d. identities (accts d)) (put_acc identities_update)"

definition insert_auth_tx :: "auth_transaction \<Rightarrow> unit repo" where
  "insert_auth_tx = insert_row (\<lambda>a b. at_id a = at_id b \<or> at_state a = at_state b)
     (\<lambda>d. auth_txs (accts d)) (put_acc auth_txs_update)"

definition insert_credential :: "auth_credential \<Rightarrow> unit repo" where
  "insert_credential = insert_row (\<lambda>a b. cr_id a = cr_id b \<or> cr_user a = cr_user b)
     (\<lambda>d. credentials (accts d)) (put_acc credentials_update)"

definition insert_challenge :: "auth_challenge \<Rightarrow> unit repo" where
  "insert_challenge = insert_row (\<lambda>a b. ch_id a = ch_id b \<or> ch_token a = ch_token b)
     (\<lambda>d. challenges (accts d)) (put_acc challenges_update)"

definition stored_session :: "retail_session \<Rightarrow> retail_session" where
  "stored_session s = s\<lparr>rs_expires := timestamptz (rs_expires s), rs_last_used := map_option timestamptz (rs_last_used s),
     rs_revoked := map_option timestamptz (rs_revoked s), rs_created := timestamptz (rs_created s),
     rs_updated := timestamptz (rs_updated s)\<rparr>"

definition insert_session :: "retail_session \<Rightarrow> unit repo" where
  "insert_session s = insert_row (\<lambda>a b. rs_id a = rs_id b \<or> rs_token a = rs_token b)
     sessions (\<lambda>rs d. d\<lparr>sessions := rs\<rparr>) (stored_session s)"

lemma stored_session_simps [simp]:
  "rs_id (stored_session s) = rs_id s" "rs_user (stored_session s) = rs_user s" "rs_token (stored_session s) = rs_token s"
  "rs_expires (stored_session s) = timestamptz (rs_expires s)" "rs_revoked (stored_session s) = map_option timestamptz (rs_revoked s)"
  by (simp_all add: stored_session_def)

definition insert_api_key :: "api_key \<Rightarrow> unit repo" where
  "insert_api_key = insert_row (\<lambda>a b. ak_id a = ak_id b \<or> ak_public a = ak_public b)
     (\<lambda>d. api_keys (accts d)) (put_acc api_keys_update)"

text \<open>The partial unique indexes of \<open>kyc_inquiries\<close>: one open inquiry of a user.\<close>

fun kyc_open :: "kyc_status \<Rightarrow> bool" where
  "kyc_open KSCreating = True" | "kyc_open KSCreated = True" | "kyc_open KSPending = True"
| "kyc_open KSCompleted = True" | "kyc_open KSPendingReview = True" | "kyc_open _ = False"

definition kyc_clash :: "kyc_inquiry \<Rightarrow> kyc_inquiry \<Rightarrow> bool" where
  "kyc_clash a b \<longleftrightarrow> ky_id a = ky_id b \<or> ky_request a = ky_request b \<or>
     same_some (ky_provider_id a) (ky_provider_id b) \<or>
     ky_user a = ky_user b \<and> kyc_open (ky_status a) \<and> kyc_open (ky_status b)"

definition insert_kyc_inquiry :: "kyc_inquiry \<Rightarrow> nat repo" where
  "insert_kyc_inquiry r = sql (\<lambda>d.
     if list_ex (kyc_clash r) (kyc_inquiries (accts d)) then (Inr 0, d)
     else (Inr 1, put_acc kyc_inquiries_update (kyc_inquiries (accts d) @ [r]) d))"

definition insert_kyc_event :: "kyc_event \<Rightarrow> nat repo" where
  "insert_kyc_event r = sql (\<lambda>d.
     if list_ex (\<lambda>q. ke_id r = ke_id q \<or> ke_provider r = ke_provider q \<and> ke_event r = ke_event q) (kyc_events (accts d))
     then (Inr 0, d)
     else (Inr 1, put_acc kyc_events_update (kyc_events (accts d) @ [r]) d))"

definition insert_sep10 :: "sep10_challenge \<Rightarrow> unit repo" where
  "insert_sep10 = insert_row (\<lambda>a b. sc_id a = sc_id b \<or> sc_hash a = sc_hash b)
     (\<lambda>d. sep10_challenges (accts d)) (put_acc sep10_challenges_update)"

definition stored_quote :: "sep38_quote \<Rightarrow> sep38_quote" where
  "stored_quote q = q\<lparr>sq_expires := timestamptz (sq_expires q), sq_consumed := map_option timestamptz (sq_consumed q),
     sq_created := timestamptz (sq_created q), sq_updated := timestamptz (sq_updated q)\<rparr>"

lemma stored_quote_simps [simp]:
  "sq_id (stored_quote q) = sq_id q" "sq_quote (stored_quote q) = sq_quote q" "sq_wallet (stored_quote q) = sq_wallet q"
  "sq_expires (stored_quote q) = timestamptz (sq_expires q)" "sq_consumed (stored_quote q) = map_option timestamptz (sq_consumed q)"
  by (simp_all add: stored_quote_def)

definition insert_sep38 :: "sep38_quote \<Rightarrow> unit repo" where
  "insert_sep38 q = act_bind (act_guard (0 \<le> sq_spread q \<and> sq_spread q \<le> 10000) ErrCheckViolation) (\<lambda>_.
     insert_row (\<lambda>a b. sq_id a = sq_id b \<or> sq_quote a = sq_quote b)
       (\<lambda>d. sep38_quotes (accts d)) (put_acc sep38_quotes_update) (stored_quote q))"

text \<open>\<open>ON CONFLICT DO NOTHING\<close>.\<close>

definition insert_sep24 :: "sep24_transaction \<Rightarrow> nat repo" where
  "insert_sep24 r = act_bind (act_guard (s24_transaction r \<noteq> [] \<and> length (s24_transaction r) \<le> 255 \<and>
       (s24_kind r = ''deposit'' \<or> s24_kind r = ''withdraw'')) ErrCheckViolation) (\<lambda>_. sql (\<lambda>d.
     if list_ex (\<lambda>q. s24_id r = s24_id q \<or> s24_transaction r = s24_transaction q \<or> s24_order r = s24_order q \<or>
         same_some (s24_external r) (s24_external q)) (sep24_txs d)
     then (Inr 0, d)
     else (Inr 1, d\<lparr>sep24_txs := sep24_txs d @ [r]\<rparr>)))"

definition insert_sep24_session :: "sep24_session \<Rightarrow> unit repo" where
  "insert_sep24_session r = act_bind (act_guard (sn_transaction r \<noteq> [] \<and> length (sn_transaction r) \<le> 255 \<and>
       (sn_kind r = ''deposit'' \<or> sn_kind r = ''withdraw'' \<or> sn_kind r = ''withdrawal'')) ErrCheckViolation) (\<lambda>_.
     insert_row (\<lambda>a b. sn_id a = sn_id b \<or> sn_transaction a = sn_transaction b \<or> sn_token_hash a = sn_token_hash b \<or>
         same_some (sn_order a) (sn_order b))
       (\<lambda>d. sep24_sessions (accts d)) (put_acc sep24_sessions_update) r)"

section \<open>Updates\<close>

text \<open>The unique keys of a table as a check of its rows after an update.\<close>

definition check_unique :: "('r \<Rightarrow> 'k option) \<Rightarrow> 'r list \<Rightarrow> err option" where
  "check_unique k rows =
     (if distinct (List.map k (filter (\<lambda>r. k r \<noteq> None) rows)) then None else Some ErrDuplicateKey)"

definition update_users :: "(user \<Rightarrow> bool) \<Rightarrow> (user \<Rightarrow> user) \<Rightarrow> nat repo" where
  "update_users = update_table (check_unique us_email) users (\<lambda>rs d. d\<lparr>users := rs\<rparr>)"

definition update_identities :: "(user_identity \<Rightarrow> bool) \<Rightarrow> (user_identity \<Rightarrow> user_identity) \<Rightarrow> nat repo" where
  "update_identities = update_table no_check (\<lambda>d. identities (accts d)) (put_acc identities_update)"

definition update_auth_txs :: "(auth_transaction \<Rightarrow> bool) \<Rightarrow> (auth_transaction \<Rightarrow> auth_transaction) \<Rightarrow> nat repo" where
  "update_auth_txs = update_table no_check (\<lambda>d. auth_txs (accts d)) (put_acc auth_txs_update)"

definition update_credentials :: "(auth_credential \<Rightarrow> bool) \<Rightarrow> (auth_credential \<Rightarrow> auth_credential) \<Rightarrow> nat repo" where
  "update_credentials = update_table no_check (\<lambda>d. credentials (accts d)) (put_acc credentials_update)"

definition update_challenges :: "(auth_challenge \<Rightarrow> bool) \<Rightarrow> (auth_challenge \<Rightarrow> auth_challenge) \<Rightarrow> nat repo" where
  "update_challenges = update_table no_check (\<lambda>d. challenges (accts d)) (put_acc challenges_update)"

definition update_sessions :: "(retail_session \<Rightarrow> bool) \<Rightarrow> (retail_session \<Rightarrow> retail_session) \<Rightarrow> nat repo" where
  "update_sessions = update_table no_check sessions (\<lambda>rs d. d\<lparr>sessions := rs\<rparr>)"

definition update_api_keys :: "(api_key \<Rightarrow> bool) \<Rightarrow> (api_key \<Rightarrow> api_key) \<Rightarrow> nat repo" where
  "update_api_keys = update_table no_check (\<lambda>d. api_keys (accts d)) (put_acc api_keys_update)"

definition kyc_conflict :: "kyc_inquiry list \<Rightarrow> err option" where
  "kyc_conflict rows = (case check_unique ky_provider_id rows of Some e \<Rightarrow> Some e
     | None \<Rightarrow> check_unique (\<lambda>r. if kyc_open (ky_status r) then Some (ky_user r) else None) rows)"

definition update_kyc_inquiries :: "(kyc_inquiry \<Rightarrow> bool) \<Rightarrow> (kyc_inquiry \<Rightarrow> kyc_inquiry) \<Rightarrow> nat repo" where
  "update_kyc_inquiries = update_table kyc_conflict (\<lambda>d. kyc_inquiries (accts d)) (put_acc kyc_inquiries_update)"

definition update_sep10 :: "(sep10_challenge \<Rightarrow> bool) \<Rightarrow> (sep10_challenge \<Rightarrow> sep10_challenge) \<Rightarrow> nat repo" where
  "update_sep10 = update_table no_check (\<lambda>d. sep10_challenges (accts d)) (put_acc sep10_challenges_update)"

definition update_sep38 :: "(sep38_quote \<Rightarrow> bool) \<Rightarrow> (sep38_quote \<Rightarrow> sep38_quote) \<Rightarrow> nat repo" where
  "update_sep38 = update_table no_check (\<lambda>d. sep38_quotes (accts d)) (put_acc sep38_quotes_update)"

definition check_wallets :: "developer_wallet list \<Rightarrow> err option" where
  "check_wallets rows =
     check_unique (\<lambda>r. if dw_primary r \<and> dw_status r = ''active'' then Some (dw_user r, dw_network r) else None) rows"

definition update_wallets ::
  "(developer_wallet \<Rightarrow> bool) \<Rightarrow> (developer_wallet \<Rightarrow> developer_wallet) \<Rightarrow> nat repo" where
  "update_wallets = update_table check_wallets (\<lambda>d. developer_wallets (accts d)) (put_acc developer_wallets_update)"

text \<open>The foreign keys of \<open>sep24_interactive_sessions\<close>, checked on the rows an update writes.\<close>

definition refers :: "string option \<Rightarrow> string list \<Rightarrow> bool" where
  "refers k ids \<longleftrightarrow> (case k of None \<Rightarrow> True | Some i \<Rightarrow> i \<in> set ids)"

definition session_refers :: "db \<Rightarrow> sep24_session \<Rightarrow> bool" where
  "session_refers d r \<longleftrightarrow> refers (sn_user r) (List.map us_id (users d)) \<and>
     refers (sn_session r) (List.map rs_id (sessions d)) \<and> refers (sn_order r) (List.map or_id (orders d))"

definition update_sep24_sessions :: "(sep24_session \<Rightarrow> bool) \<Rightarrow> (sep24_session \<Rightarrow> sep24_session) \<Rightarrow> nat repo" where
  "update_sep24_sessions P f = sql (\<lambda>d.
     let rows = sep24_sessions (accts d); rs = update_rows P f rows in
     if check_unique sn_order rs \<noteq> None then (Inl ErrDuplicateKey, d)
     else if \<not> list_all (\<lambda>r. \<not> P r \<or> session_refers d (f r)) rows then (Inl ErrForeignKey, d)
     else (Inr (count_rows P rows), put_acc sep24_sessions_update rs d))"

definition update_orders :: "(order_record \<Rightarrow> bool) \<Rightarrow> (order_record \<Rightarrow> order_record) \<Rightarrow> nat repo" where
  "update_orders = update_table no_check orders (\<lambda>rs d. d\<lparr>orders := rs\<rparr>)"

definition update_treasuries ::
  "(treasury_account \<Rightarrow> bool) \<Rightarrow> (treasury_account \<Rightarrow> treasury_account) \<Rightarrow> nat repo" where
  "update_treasuries = update_table check_treasuries treasuries (\<lambda>rs d. d\<lparr>treasuries := rs\<rparr>)"

definition update_reservations ::
  "(treasury_reservation \<Rightarrow> bool) \<Rightarrow> (treasury_reservation \<Rightarrow> treasury_reservation) \<Rightarrow> nat repo" where
  "update_reservations = update_table no_check reservations (\<lambda>rs d. d\<lparr>reservations := rs\<rparr>)"

definition update_gateway_events ::
  "(gateway_event \<Rightarrow> bool) \<Rightarrow> (gateway_event \<Rightarrow> gateway_event) \<Rightarrow> nat repo" where
  "update_gateway_events = update_table no_check gateway_events (\<lambda>rs d. d\<lparr>gateway_events := rs\<rparr>)"

definition distinct_hashes :: "stellar_transaction list \<Rightarrow> bool" where
  "distinct_hashes rows \<longleftrightarrow> distinct (List.map st_hash (filter (\<lambda>r. st_hash r \<noteq> None) rows))"

definition check_stellar :: "stellar_transaction list \<Rightarrow> err option" where
  "check_stellar rows = (if distinct_hashes rows then None else Some ErrDuplicateKey)"

definition update_stellar ::
  "(stellar_transaction \<Rightarrow> bool) \<Rightarrow> (stellar_transaction \<Rightarrow> stellar_transaction) \<Rightarrow> nat repo" where
  "update_stellar = update_table check_stellar stellar_txs (\<lambda>rs d. d\<lparr>stellar_txs := rs\<rparr>)"

definition update_idempotency ::
  "(idempotency_record \<Rightarrow> bool) \<Rightarrow> (idempotency_record \<Rightarrow> idempotency_record) \<Rightarrow> nat repo" where
  "update_idempotency = update_table no_check idempotency (\<lambda>rs d. d\<lparr>idempotency := rs\<rparr>)"

definition update_outbox ::
  "(outbox_message \<Rightarrow> bool) \<Rightarrow> (outbox_message \<Rightarrow> outbox_message) \<Rightarrow> nat repo" where
  "update_outbox = update_table no_check outbox (\<lambda>rs d. d\<lparr>outbox := rs\<rparr>)"

definition update_sep24 ::
  "(sep24_transaction \<Rightarrow> bool) \<Rightarrow> (sep24_transaction \<Rightarrow> sep24_transaction) \<Rightarrow> nat repo" where
  "update_sep24 = update_table no_check sep24_txs (\<lambda>rs d. d\<lparr>sep24_txs := rs\<rparr>)"

definition update_webhook_endpoints ::
  "(webhook_endpoint \<Rightarrow> bool) \<Rightarrow> (webhook_endpoint \<Rightarrow> webhook_endpoint) \<Rightarrow> nat repo" where
  "update_webhook_endpoints =
     update_table no_check webhook_endpoints (\<lambda>rs d. d\<lparr>webhook_endpoints := rs\<rparr>)"

definition update_webhook_attempts ::
  "(webhook_attempt \<Rightarrow> bool) \<Rightarrow> (webhook_attempt \<Rightarrow> webhook_attempt) \<Rightarrow> nat repo" where
  "update_webhook_attempts =
     update_table no_check webhook_attempts (\<lambda>rs d. d\<lparr>webhook_attempts := rs\<rparr>)"

section \<open>Queries\<close>

abbreviation first_row :: "(db \<Rightarrow> 'r list) \<Rightarrow> ('r \<Rightarrow> 'k::linorder) \<Rightarrow> ('r \<Rightarrow> bool) \<Rightarrow> 'r repo" where
  "first_row tab k P \<equiv> select_first (\<lambda>d. first_by k P (tab d))"

definition find_order :: "string \<Rightarrow> order_record repo" where
  "find_order i = first_row orders or_id (\<lambda>r. or_id r = i)"

definition find_stellar :: "string \<Rightarrow> string \<Rightarrow> stellar_transaction repo" where
  "find_stellar i p = first_row stellar_txs st_id (\<lambda>r. st_order r = i \<and> st_purpose r = p)"

definition find_intent :: "string \<Rightarrow> stellar_transaction repo" where
  "find_intent i = first_row stellar_txs st_id (\<lambda>r. st_intent r = i)"

definition find_payout :: "string \<Rightarrow> offramp_payout repo" where
  "find_payout i = first_row payouts po_id (\<lambda>r. po_order r = i)"

text \<open>\<open>if err == nil \<dots> else if !errors.Is(err, gorm.ErrRecordNotFound) \<dots>\<close>\<close>

definition optional_row :: "'r repo \<Rightarrow> 'r option repo" where
  "optional_row m = act_bind (act_try m) (\<lambda>r. case r of
     Inr x \<Rightarrow> act_ret (Some x)
   | Inl e \<Rightarrow> if errors_is e ErrRecordNotFound then act_ret None else act_fail e)"

lemmas table_defs [store_defs] =
  insert_order_def insert_event_def insert_treasury_def insert_reservation_def insert_checkout_def
  insert_stellar_def insert_idempotency_def insert_outbox_def insert_payout_def
  insert_financial_def insert_webhook_event_def insert_webhook_endpoint_def
  insert_webhook_attempt_def insert_api_client_def update_orders_def update_treasuries_def update_reservations_def
  update_gateway_events_def update_stellar_def update_idempotency_def update_outbox_def
  update_sep24_def update_webhook_endpoints_def update_webhook_attempts_def
  find_order_def find_stellar_def find_intent_def find_payout_def
  insert_user_def insert_identity_def insert_auth_tx_def insert_credential_def insert_challenge_def
  insert_session_def insert_api_key_def insert_sep10_def insert_sep38_def update_users_def
  update_identities_def update_auth_txs_def update_credentials_def update_challenges_def
  update_sessions_def update_api_keys_def update_kyc_inquiries_def update_sep10_def update_sep38_def
  update_wallets_def

lemma outcome_insert_gateway_event [outcome_intro]:
  "Q 0 d \<Longrightarrow> Q 1 (d\<lparr>gateway_events := gateway_events d @ [r]\<rparr>) \<Longrightarrow> (\<And>e. E e d) \<Longrightarrow>
   outcome (insert_gateway_event r) Q E d t"
  unfolding insert_gateway_event_def
  by (rule outcomeI)
     (auto split: sum.splits if_splits dest!: sql_Inr sql_Inl simp: eq_commute [of "f\<lparr>gateway_events := x\<rparr>" for f x])

lemma select_error: "select f w = (Inl e, w') \<Longrightarrow> \<not> errors_is e ErrRecordNotFound"
  by (auto simp: select_def sql_def sql_run_def Let_def split: if_splits list.splits fault.splits)

text \<open>A failed \<open>First\<close> is distinguished from a missing row.\<close>

lemma outcome_try_first [outcome_intro]:
  assumes "\<And>x. f d = Some x \<Longrightarrow> Q (Inr x) d" and "f d = None \<Longrightarrow> Q (Inl ErrRecordNotFound) d"
    and "\<And>e. \<not> errors_is e ErrRecordNotFound \<Longrightarrow> Q (Inl e) d"
  shows "outcome (act_try (select_first f)) Q E d t"
proof (rule outcome_try, rule outcomeI)
  fix w r w' assume w: "w_db w = d" "w_now w = t" "select_first f w = (r, w')"
  obtain r1 w1 where s: "select f w = (r1, w1)" by fastforce
  show "w_now w' = t \<and> (case r of Inl e \<Rightarrow> Q (Inl e) (w_db w') | Inr x \<Rightarrow> Q (Inr x) (w_db w'))"
  proof (cases r1)
    case (Inl e)
    with s w select_Inl [of f w e w1] select_error [of f w e w1] assms(3) show ?thesis
      by (auto simp: select_first_def act_bind_def)
  next
    case (Inr x)
    with s w select_Inr [of f w x w1] assms(1,2) show ?thesis
      by (auto simp: select_first_def act_bind_def act_fail_def act_ret_def split: option.splits)
  qed
qed

lemma outcome_optional [outcome_intro]:
  assumes "\<And>x. f d = Some x \<Longrightarrow> Q (Some x) d" and "f d = None \<Longrightarrow> Q None d" and "\<And>e. E e d"
  shows "outcome (optional_row (select_first f)) Q E d t"
  unfolding optional_row_def
  by (rule outcome_bind, rule outcome_try_first) (auto intro!: outcome_ret outcome_fail assms)

lemma outcome_insert_kyc_inquiry [outcome_intro]:
  assumes "list_ex (kyc_clash r) (kyc_inquiries (accts d)) \<Longrightarrow> Q 0 d"
    and "\<not> list_ex (kyc_clash r) (kyc_inquiries (accts d)) \<Longrightarrow> Q 1 (put_acc kyc_inquiries_update (kyc_inquiries (accts d) @ [r]) d)"
    and "\<And>e. E e d"
  shows "outcome (insert_kyc_inquiry r) Q E d t"
  unfolding insert_kyc_inquiry_def
  by (rule outcome_sql) (use assms in \<open>auto split: if_splits\<close>)

lemma outcome_insert_kyc_event [outcome_intro]:
  assumes "list_ex (\<lambda>q. ke_id r = ke_id q \<or> ke_provider r = ke_provider q \<and> ke_event r = ke_event q) (kyc_events (accts d)) \<Longrightarrow> Q 0 d"
    and "\<not> list_ex (\<lambda>q. ke_id r = ke_id q \<or> ke_provider r = ke_provider q \<and> ke_event r = ke_event q) (kyc_events (accts d)) \<Longrightarrow>
      Q 1 (put_acc kyc_events_update (kyc_events (accts d) @ [r]) d)"
    and "\<And>e. E e d"
  shows "outcome (insert_kyc_event r) Q E d t"
  unfolding insert_kyc_event_def
  by (rule outcome_sql) (use assms in \<open>auto split: if_splits\<close>)

end
