(* ===== verification/Principal.thy ===== *)
theory Principal
  imports Tables
begin

text \<open>
  \<open>internal/usecase/order_principal.go\<close> and \<open>internal/repository/order_ownership.go\<close>: the
  authenticated owner of an order, its validation, and the ownership filters every order and
  idempotency query carries.
\<close>

datatype principal_kind = OPApiClient | OPRetailSession | OPOther string

record order_principal =
  op_kind :: principal_kind
  op_client :: string
  op_owner :: string
  op_session :: string

text \<open>The parts of \<open>Principal\<close> (API key) and \<open>AuthenticatedUser\<close> (session) that are read.\<close>

record api_principal =
  ap_client :: string
  ap_owner :: string

record authenticated_user =
  au_id :: string
  au_verified :: bool
  au_session :: string

fun principal_validate :: "order_principal \<Rightarrow> err option" where
  "principal_validate p = (case op_kind p of
      OPApiClient \<Rightarrow>
        if op_client p = [] \<or> op_owner p = [] \<or> op_session p \<noteq> [] then Some ErrInvalidOrderPrincipal
        else None
    | OPRetailSession \<Rightarrow>
        if op_owner p = [] \<or> op_session p = [] \<or> op_client p \<noteq> [] then Some ErrInvalidOrderPrincipal
        else None
    | OPOther _ \<Rightarrow> Some ErrInvalidOrderPrincipal)"

declare principal_validate.simps [simp del]

definition is_api_client :: "order_principal \<Rightarrow> bool" where
  "is_api_client p \<longleftrightarrow> op_kind p = OPApiClient"

definition is_retail_session :: "order_principal \<Rightarrow> bool" where
  "is_retail_session p \<longleftrightarrow> op_kind p = OPRetailSession"

definition new_api_client_principal :: "api_principal \<Rightarrow> err + order_principal" where
  "new_api_client_principal a =
     (let p = \<lparr>op_kind = OPApiClient, op_client = trim_space (ap_client a),
               op_owner = trim_space (ap_owner a), op_session = []\<rparr>
      in case principal_validate p of Some e \<Rightarrow> Inl e | None \<Rightarrow> Inr p)"

definition new_retail_session_principal :: "authenticated_user \<Rightarrow> err + order_principal" where
  "new_retail_session_principal u =
     (let p = \<lparr>op_kind = OPRetailSession, op_client = [], op_owner = trim_space (au_id u),
               op_session = trim_space (au_session u)\<rparr>
      in if \<not> au_verified u then Inl ErrInvalidOrderPrincipal
         else case principal_validate p of Some e \<Rightarrow> Inl e | None \<Rightarrow> Inr p)"

record order_ownership =
  ow_client :: "string option"
  ow_created_by :: "string option"
  ow_session :: "string option"
  ow_retail_user :: "string option"

definition order_ownership_for :: "order_principal \<Rightarrow> err + order_ownership" where
  "order_ownership_for p = (case principal_validate p of
      Some e \<Rightarrow> Inl e
    | None \<Rightarrow> (case op_kind p of
        OPApiClient \<Rightarrow> Inr \<lparr>ow_client = Some (op_client p), ow_created_by = None, ow_session = None,
                              ow_retail_user = None\<rparr>
      | OPRetailSession \<Rightarrow> Inr \<lparr>ow_client = None, ow_created_by = Some (op_owner p),
                              ow_session = Some (op_session p), ow_retail_user = Some (op_owner p)\<rparr>
      | OPOther _ \<Rightarrow> Inl ErrInvalidOrderPrincipal))"

definition validate_retail_session_ownership :: "order_principal \<Rightarrow> unit repo" where
  "validate_retail_session_ownership p =
     (if \<not> is_retail_session p then act_ret ()
      else act_bind (act_try (first_row sessions rs_id (\<lambda>s. rs_id s = op_session p))) (\<lambda>r. case r of
        Inl e \<Rightarrow> if errors_is e ErrRecordNotFound then act_fail ErrInvalidOrderPrincipal else act_fail e
      | Inr s \<Rightarrow> act_guard (rs_user s = op_owner p) ErrInvalidOrderPrincipal))"

text \<open>The \<open>WHERE\<close> clauses added to a query, or the validation error.\<close>

definition apply_order_ownership :: "order_principal \<Rightarrow> err + (order_record \<Rightarrow> bool)" where
  "apply_order_ownership p = (case principal_validate p of
      Some e \<Rightarrow> Inl e
    | None \<Rightarrow>
        if is_api_client p
        then Inr (\<lambda>r. or_client_id r = Some (op_client p) \<and> or_retail_session r = None)
        else Inr (\<lambda>r. or_client_id r = None \<and> or_retail_session r \<noteq> None \<and>
                      or_created_by r = Some (op_owner p)))"

definition apply_idempotency_ownership :: "order_principal \<Rightarrow> err + (idempotency_record \<Rightarrow> bool)" where
  "apply_idempotency_ownership p = (case principal_validate p of
      Some e \<Rightarrow> Inl e
    | None \<Rightarrow>
        if is_api_client p then Inr (\<lambda>r. ir_client r = Some (op_client p) \<and> ir_user r = None)
        else Inr (\<lambda>r. ir_client r = None \<and> ir_user r = Some (op_owner p)))"

section \<open>Scopes\<close>

text \<open>What a valid principal stands for: one API client, or one retail user.\<close>

datatype owner_scope = ClientScope string | UserScope string

fun principal_scope :: "order_principal \<Rightarrow> owner_scope" where
  "principal_scope p =
     (if op_kind p = OPApiClient then ClientScope (op_client p) else UserScope (op_owner p))"

declare principal_scope.simps [simp del]

lemma principal_validate_None: "principal_validate p = None \<longleftrightarrow>
    op_kind p = OPApiClient \<and> op_client p \<noteq> [] \<and> op_owner p \<noteq> [] \<and> op_session p = [] \<or>
    op_kind p = OPRetailSession \<and> op_client p = [] \<and> op_owner p \<noteq> [] \<and> op_session p \<noteq> []"
  by (auto simp: principal_validate.simps split: principal_kind.splits)

lemma principal_validate_error: "principal_validate p = Some e \<Longrightarrow> e = ErrInvalidOrderPrincipal"
  by (auto simp: principal_validate.simps split: principal_kind.splits if_splits)

lemma new_api_client_principal_valid:
  "new_api_client_principal a = Inr p \<Longrightarrow> principal_validate p = None"
  by (auto simp: new_api_client_principal_def Let_def split: option.splits)

lemma new_retail_session_principal_valid:
  "new_retail_session_principal u = Inr p \<Longrightarrow> principal_validate p = None \<and> au_verified u"
  by (auto simp: new_retail_session_principal_def Let_def split: option.splits if_splits)

lemma order_ownership_valid: "order_ownership_for p = Inr w \<Longrightarrow> principal_validate p = None"
  by (auto simp: order_ownership_for_def split: option.splits)

lemma order_ownership_total: "principal_validate p = None \<Longrightarrow> \<exists>w. order_ownership_for p = Inr w"
  by (cases "op_kind p") (simp_all add: order_ownership_for_def principal_validate.simps)

text \<open>
  The order and the idempotency record written for a principal are visible to exactly the
  principals of the same scope.
\<close>

lemma order_filter_scope:
  assumes "order_ownership_for p = Inr w" and "apply_order_ownership q = Inr P"
    and "or_client_id r = ow_client w" "or_created_by r = ow_created_by w"
      "or_retail_session r = ow_session w"
  shows "P r \<longleftrightarrow> principal_scope q = principal_scope p"
  using assms
  by (auto simp: order_ownership_for_def apply_order_ownership_def principal_scope.simps
      is_api_client_def principal_validate_None
      split: option.splits principal_kind.splits if_splits)

lemma idempotency_filter_scope:
  assumes "order_ownership_for p = Inr w" and "apply_idempotency_ownership q = Inr P"
    and "ir_client r = ow_client w" "ir_user r = ow_retail_user w"
  shows "P r \<longleftrightarrow> principal_scope q = principal_scope p"
  using assms
  by (auto simp: order_ownership_for_def apply_idempotency_ownership_def principal_scope.simps
      is_api_client_def principal_validate_None
      split: option.splits principal_kind.splits if_splits)

lemma outcome_retail_session [outcome_intro]:
  "((is_retail_session p \<longrightarrow> (\<exists>s \<in> set (sessions d). rs_id s = op_session p \<and> rs_user s = op_owner p)) \<Longrightarrow>
     Q () d) \<Longrightarrow> (\<And>e. E e d) \<Longrightarrow> outcome (validate_retail_session_ownership p) Q E d t"
  unfolding validate_retail_session_ownership_def
  by (intro outcome_intro) (auto dest!: first_by_Some)

end
