(* ===== verification/Ledger.thy ===== *)
theory Ledger
  imports Principal
begin

text \<open>
  What both repositories write beside an order: the order event with its public webhook event
  and delivery message (\<open>onramp_repository.go\<close>, \<open>usecase/webhook_usecase.go\<close>), the financial
  snapshot (\<open>usecase/financial_usecase.go\<close>, \<open>financial_repository.go\<close>), and the order view
  with its retirement evidence (\<open>offramp_repository.go\<close>).
\<close>

definition str_ptr_if_not_empty :: "string \<Rightarrow> string option" where
  "str_ptr_if_not_empty v = (if trim_space v = [] then None else Some (trim_space v))"

definition deref_str :: "string option \<Rightarrow> string" where
  "deref_str v = (case v of None \<Rightarrow> [] | Some s \<Rightarrow> s)"

section \<open>Public events\<close>

definition public_webhook_event_type :: "string \<Rightarrow> string option" where
  "public_webhook_event_type s =
     (if s = ''order.created'' then Some ''order.created''
      else if s = ''checkout.created'' then Some ''order.payment_pending''
      else if s = ''payment.confirmed'' then Some ''order.payment_confirmed''
      else if s = ''asset.received'' then Some ''order.asset_received''
      else if s = ''stellar.transfer_requested'' \<or> s = ''retirement.requested'' \<or>
              s = ''retirement.simulated'' then Some ''order.processing''
      else if s = ''stellar.transfer_confirmed'' \<or> s = ''payout.simulated'' then Some ''order.completed''
      else if s = ''checkout.failed'' \<or> s = ''asset.invalid'' \<or> s = ''retirement.failed'' \<or>
              s = ''stellar.failed'' \<or> s = ''withdrawal.failed'' then Some ''order.failed''
      else if s = ''order.expired'' then Some ''order.expired''
      else None)"

definition is_known_event_type :: "string \<Rightarrow> bool" where
  "is_known_event_type s \<longleftrightarrow> List.member
     [''order.created'', ''order.payment_pending'', ''order.payment_confirmed'',
      ''order.asset_received'', ''order.processing'', ''order.completed'', ''order.failed'',
      ''order.expired''] s"

lemma public_type_known: "public_webhook_event_type s = Some t \<Longrightarrow> is_known_event_type t"
  by (auto simp: public_webhook_event_type_def is_known_event_type_def split: if_splits)

definition webhook_api_version :: string where "webhook_api_version = ''2026-08-01''"

definition build_event_envelope :: "string \<Rightarrow> string \<Rightarrow> string \<Rightarrow> time \<Rightarrow> order_view \<Rightarrow> event_envelope" where
  "build_event_envelope event_id event_type environment created ord =
     \<lparr>en_id = ''evt_'' @ event_id, en_type = event_type, en_api_version = webhook_api_version,
      en_created = created, en_environment = environment, en_object = OrderObject ord\<rparr>"

section \<open>Views\<close>

definition sandbox_payout_disclosure :: string where
  "sandbox_payout_disclosure = ''Sandbox simulation: the asset deposit was received, but no on-chain burn or retirement was submitted; no real IDR moved.''"

definition sandbox_payout_after_confirmed_retirement_disclosure :: string where
  "sandbox_payout_after_confirmed_retirement_disclosure = ''Sandbox simulation: the sell asset'' @
     CHR 0x27 # ''s on-chain burn or retirement was confirmed on Stellar testnet, but no real IDR moved.''"

definition sandbox_payout_unknown_retirement_disclosure :: string where
  "sandbox_payout_unknown_retirement_disclosure = ''Sandbox payout simulation: no real IDR moved; check the sell asset'' @
     CHR 0x27 # ''s on-chain transaction status separately.''"

text \<open>The status argument; \<open>None\<close> stands for every other text, \<open>""\<close> included.\<close>

definition sandbox_payout_disclosure_for :: "stellar_status option \<Rightarrow> string" where
  "sandbox_payout_disclosure_for s =
     (if s = Some STSimulated then sandbox_payout_disclosure
      else if s = Some STConfirmed then sandbox_payout_after_confirmed_retirement_disclosure
      else sandbox_payout_unknown_retirement_disclosure)"

definition base_order_view :: "order_record \<Rightarrow> order_view" where
  "base_order_view r =
     \<lparr>ov_id = or_id r, ov_status = or_status r, ov_asset_code = or_asset_code r,
      ov_asset_issuer = or_asset_issuer r, ov_fiat_minor = or_fiat_minor r,
      ov_asset_amount = or_asset_stroops r, ov_rate = or_quote_rate r,
      ov_adjusted = or_quote_adjusted r, ov_spread = or_quote_spread r,
      ov_source_at = or_quote_source_at r, ov_expires_at = or_quote_expires r,
      ov_method = (case or_payment_method r of None \<Rightarrow> PMUnknown | Some m \<Rightarrow> m),
      ov_destination =
        (case or_stellar_dest r of Some s \<Rightarrow> s
         | None \<Rightarrow> if or_direction r = ''offramp'' then deref_str (or_stellar_source r) else []),
      ov_memo = deref_str (or_stellar_memo r), ov_checkout = None, ov_tx_hash = [],
      ov_deposit_hash = [], ov_payout = None, ov_failure = deref_str (or_failure_code r),
      ov_created = or_created r, ov_updated = or_updated r\<rparr>"

definition apply_retirement_evidence :: "order_view \<Rightarrow> stellar_transaction \<Rightarrow> order_view" where
  "apply_retirement_evidence view retirement =
     (let status = (case st_status retirement of
            STSimulated \<Rightarrow> if st_hash retirement \<noteq> None \<or> st_ledger retirement \<noteq> None then None
                          else Some STSimulated
          | STConfirmed \<Rightarrow> if st_hash retirement = None \<or> st_ledger retirement = None then None
                          else Some STConfirmed
          | _ \<Rightarrow> None);
          view1 = (if status = Some STConfirmed then view\<lparr>ov_tx_hash := deref_str (st_hash retirement)\<rparr>
                   else view)
      in view1\<lparr>ov_payout := map_option (\<lambda>p. p\<lparr>pv_disclosure := sandbox_payout_disclosure_for status\<rparr>)
                             (ov_payout view1)\<rparr>)"

section \<open>Order events\<close>

definition append_public_webhook_event ::
  "string \<Rightarrow> string \<Rightarrow> string \<Rightarrow> order_status \<Rightarrow> time \<Rightarrow> unit repo" where
  "append_public_webhook_event source_id order_id event_type nxt now =
     act_bind (find_order order_id) (\<lambda>ord.
     let view = base_order_view ord;
         view = (if status_text nxt \<noteq> [] then view\<lparr>ov_status := nxt\<rparr> else view) in
     act_bind
       (if or_direction ord = ''offramp'' \<and> event_type = ''order.completed'' then
          act_bind (find_payout order_id) (\<lambda>payout.
          let view = view\<lparr>ov_payout := Some \<lparr>pv_reference = po_reference payout,
                pv_method = po_method payout, pv_amount = po_amount payout, pv_state = po_state payout,
                pv_simulated = Some True, pv_disclosure = []\<rparr>\<rparr> in
          act_bind (find_stellar order_id ''retirement'') (\<lambda>retirement.
          act_ret (apply_retirement_evidence view retirement)))
        else act_ret view) (\<lambda>view.
     act_bind new_id (\<lambda>public_id.
     act_bind (insert_webhook_event
       \<lparr>we_id = public_id, we_order = Some order_id, we_client = or_client_id ord, we_type = event_type,
        we_api_version = webhook_api_version,
        we_payload = build_event_envelope public_id event_type ''sandbox'' now view,
        we_source_event = Some source_id, we_test = False, we_created = now\<rparr>) (\<lambda>_.
     act_bind new_id (\<lambda>outbox_id.
     insert_outbox
       \<lparr>ob_id = outbox_id, ob_topic = ''webhook.deliver'', ob_aggregate_type = ''webhook_event'',
        ob_aggregate = public_id, ob_payload = [(''event_id'', public_id)], ob_created = now,
        ob_available = now, ob_lease_owner = None, ob_lease_until = None, ob_attempts = 0,
        ob_processed = None, ob_error = None\<rparr>)))))"

text \<open>An empty previous status is \<open>OSUnknown\<close> and is stored as null.\<close>

definition status_ptr :: "order_status \<Rightarrow> order_status option" where
  "status_ptr s = (if status_text s = [] then None else Some s)"

lemma status_ptr_simps [simp]: "status_ptr s = (if s = OSUnknown then None else Some s)"
  by (cases s) (simp_all add: status_ptr_def)

definition append_order_event_from_source ::
  "string \<Rightarrow> int \<Rightarrow> string \<Rightarrow> order_status \<Rightarrow> order_status \<Rightarrow> string \<Rightarrow> time \<Rightarrow> unit repo" where
  "append_order_event_from_source order_id version event_type prev nxt source now =
     act_bind new_id (\<lambda>i.
     act_bind (insert_event
       \<lparr>ev_id = i, ev_order = order_id, ev_version = version, ev_type = event_type,
        ev_prev = status_ptr prev, ev_next = status_ptr nxt, ev_source = source, ev_created = now\<rparr>) (\<lambda>_.
     case public_webhook_event_type event_type of
       None \<Rightarrow> act_ret ()
     | Some public \<Rightarrow> append_public_webhook_event i order_id public nxt now))"

definition append_order_event ::
  "string \<Rightarrow> int \<Rightarrow> string \<Rightarrow> order_status \<Rightarrow> order_status \<Rightarrow> time \<Rightarrow> unit repo" where
  "append_order_event order_id version event_type prev nxt now =
     append_order_event_from_source order_id version event_type prev nxt ''api'' now"

section \<open>Financial snapshots\<close>

definition stellar_testnet_network :: string where "stellar_testnet_network = ''stellar_testnet''"
definition kxlm_asset_code :: string where "kxlm_asset_code = ''KXLM''"
definition idr_currency :: string where "idr_currency = ''IDR''"

record financial_input =
  fi_snapshot :: string
  fi_order :: string
  fi_client :: "string option"
  fi_direction :: string
  fi_environment :: string
  fi_network :: string
  fi_currency :: string
  fi_asset_code :: string
  fi_asset_issuer :: string
  fi_asset_amount :: string
  fi_stroops :: int
  fi_gross :: int
  fi_spread :: int
  fi_created :: time

definition build_sandbox_financial_snapshot :: "financial_input \<Rightarrow> err + order_financial" where
  "build_sandbox_financial_snapshot i =
     (if trim_space (fi_snapshot i) = [] \<or> trim_space (fi_order i) = [] \<or>
         (fi_direction i \<noteq> ''onramp'' \<and> fi_direction i \<noteq> ''offramp'') \<or>
         fi_environment i \<noteq> ''test'' \<or> fi_network i \<noteq> stellar_testnet_network \<or>
         fi_currency i \<noteq> idr_currency \<or> fi_asset_code i \<noteq> kxlm_asset_code \<or>
         trim_space (fi_asset_amount i) = [] \<or> fi_stroops i \<le> 0 \<or> fi_gross i \<le> 0 \<or>
         fi_spread i < 0 \<or> 10000 < fi_spread i \<or> fi_created i = 0
      then Inl ErrInvalidFinancialSnapshot
      else Inr \<lparr>of_id = fi_snapshot i, of_order = fi_order i, of_client = fi_client i,
        of_direction = fi_direction i, of_environment = fi_environment i, of_network = fi_network i,
        of_currency = fi_currency i, of_asset_code = fi_asset_code i, of_asset_issuer = fi_asset_issuer i,
        of_asset_amount = fi_asset_amount i, of_stroops = fi_stroops i, of_gross = fi_gross i,
        of_fee = 0, of_platform = 0, of_developer = 0, of_net = fi_gross i,
        of_fee_currency = fi_currency i, of_policy = ''sandbox-zero-fee-v1'', of_source = ''sandbox'',
        of_spread = fi_spread i, of_simulated = True, of_created = fi_created i\<rparr>)"

definition create_sandbox_order_financial :: "order_record \<Rightarrow> unit repo" where
  "create_sandbox_order_financial ord =
     act_bind new_id (\<lambda>snapshot_id.
     act_bind (act_lift (build_sandbox_financial_snapshot
       \<lparr>fi_snapshot = snapshot_id, fi_order = or_id ord, fi_client = or_client_id ord,
        fi_direction = or_direction ord, fi_environment = ''test'', fi_network = or_network ord,
        fi_currency = or_currency ord, fi_asset_code = or_asset_code ord,
        fi_asset_issuer = or_asset_issuer ord, fi_asset_amount = or_asset_amount ord,
        fi_stroops = or_asset_stroops ord, fi_gross = or_fiat_minor ord,
        fi_spread = or_quote_spread ord, fi_created = or_created ord\<rparr>)) insert_financial)"

section \<open>Outcomes\<close>

text \<open>
  Publishing adds nothing, or one webhook event together with the one undelivered message for it.
\<close>

definition delivery_pair :: "string \<Rightarrow> string \<Rightarrow> time \<Rightarrow> webhook_event list \<Rightarrow> outbox_message list \<Rightarrow> bool" where
  "delivery_pair order_id event_type now ws os \<longleftrightarrow>
     (case public_webhook_event_type event_type of
        None \<Rightarrow> ws = [] \<and> os = []
      | Some public \<Rightarrow> \<exists>w m. ws = [w] \<and> os = [m] \<and> we_order w = Some order_id \<and> we_type w = public \<and>
          ob_topic m = ''webhook.deliver'' \<and> ob_aggregate m = we_id w \<and>
          ob_payload m = [(''event_id'', we_id w)] \<and> ob_available m = now \<and>
          ob_lease_until m = None \<and> ob_processed m = None \<and> ob_attempts m = 0)"

lemma outcome_public_event:
  assumes "\<And>ws os w m. ws = webhook_events d @ [w] \<Longrightarrow> os = outbox d @ [m] \<Longrightarrow>
        we_order w = Some order_id \<Longrightarrow> we_type w = public \<Longrightarrow>
        ob_topic m = ''webhook.deliver'' \<Longrightarrow> ob_aggregate m = we_id w \<Longrightarrow>
        ob_payload m = [(''event_id'', we_id w)] \<Longrightarrow> ob_available m = now \<Longrightarrow>
        ob_lease_until m = None \<Longrightarrow> ob_processed m = None \<Longrightarrow> ob_attempts m = 0 \<Longrightarrow>
        Q () (d\<lparr>webhook_events := ws, outbox := os\<rparr>)"
    and "\<And>e d'. E e d'"
  shows "outcome (append_public_webhook_event i order_id public nxt now) Q E d t"
  unfolding append_public_webhook_event_def store_defs
  by (intro outcome_intro assms(2)) (auto intro!: assms(1))

lemma outcome_event [outcome_intro]:
  assumes "\<And>es i ws os ms ns. es = order_events d @
           [\<lparr>ev_id = i, ev_order = order_id, ev_version = version, ev_type = event_type,
             ev_prev = status_ptr prev, ev_next = status_ptr nxt, ev_source = source, ev_created = now\<rparr>] \<Longrightarrow>
        ms = webhook_events d @ ws \<Longrightarrow> ns = outbox d @ os \<Longrightarrow>
        delivery_pair order_id event_type now ws os \<Longrightarrow>
        Q () (d\<lparr>order_events := es, webhook_events := ms, outbox := ns\<rparr>)"
    and "\<And>e d'. E e d'"
  shows "outcome (append_order_event_from_source order_id version event_type prev nxt source now) Q E d t"
  unfolding append_order_event_from_source_def insert_event_def
proof (intro outcome_intro assms(2))
  fix i es
  assume es: "es = order_events d @ [\<lparr>ev_id = i, ev_order = order_id, ev_version = version, ev_type = event_type,
       ev_prev = status_ptr prev, ev_next = status_ptr nxt, ev_source = source, ev_created = now\<rparr>]"
    and "public_webhook_event_type event_type = None"
  then have "delivery_pair order_id event_type now [] []" by (simp add: delivery_pair_def)
  with assms(1) [OF es, of "webhook_events d" "[]" "outbox d" "[]"]
  show "Q () (d\<lparr>order_events := es\<rparr>)" by simp
next
  fix i es public
  assume es: "es = order_events d @ [\<lparr>ev_id = i, ev_order = order_id, ev_version = version, ev_type = event_type,
       ev_prev = status_ptr prev, ev_next = status_ptr nxt, ev_source = source, ev_created = now\<rparr>]"
    and p: "public_webhook_event_type event_type = Some public"
  show "outcome (append_public_webhook_event i order_id public nxt now) Q E (d\<lparr>order_events := es\<rparr>) t"
  proof (rule outcome_public_event)
    fix w m and ws :: "webhook_event list" and os :: "outbox_message list"
    assume "ws = webhook_events (d\<lparr>order_events := es\<rparr>) @ [w]" "os = outbox (d\<lparr>order_events := es\<rparr>) @ [m]"
      and d: "we_order w = Some order_id" "we_type w = public" "ob_topic m = ''webhook.deliver''"
      "ob_aggregate m = we_id w" "ob_payload m = [(''event_id'', we_id w)]" "ob_available m = now"
      "ob_lease_until m = None" "ob_processed m = None" "ob_attempts m = 0"
    then have l: "ws = webhook_events d @ [w]" "os = outbox d @ [m]" by simp_all
    from d p have "delivery_pair order_id event_type now [w] [m]" by (simp add: delivery_pair_def)
    from assms(1) [OF es l this]
    show "Q () (d\<lparr>order_events := es, webhook_events := ws, outbox := os\<rparr>)" by simp
  qed (rule assms(2))
qed

lemma outcome_event_api [outcome_intro]:
  assumes "\<And>es i ws os ms ns. es = order_events d @
           [\<lparr>ev_id = i, ev_order = order_id, ev_version = version, ev_type = event_type,
             ev_prev = status_ptr prev, ev_next = status_ptr nxt, ev_source = ''api'', ev_created = now\<rparr>] \<Longrightarrow>
        ms = webhook_events d @ ws \<Longrightarrow> ns = outbox d @ os \<Longrightarrow>
        delivery_pair order_id event_type now ws os \<Longrightarrow>
        Q () (d\<lparr>order_events := es, webhook_events := ms, outbox := ns\<rparr>)"
    and "\<And>e d'. E e d'"
  shows "outcome (append_order_event order_id version event_type prev nxt now) Q E d t"
  unfolding append_order_event_def
  by (rule outcome_event, rule assms(1), assumption, assumption, assumption, assumption, rule assms(2))

lemma financial_snapshot_Inr: "build_sandbox_financial_snapshot i = Inr f \<Longrightarrow>
    of_order f = fi_order i \<and> of_stroops f = fi_stroops i \<and> of_gross f = fi_gross i \<and>
    of_fee f = 0 \<and> of_net f = of_gross f - of_fee f \<and> 0 < of_stroops f \<and> 0 < of_gross f"
  by (auto simp: build_sandbox_financial_snapshot_def split: if_splits)

lemma outcome_financial [outcome_intro]:
  assumes "\<And>fs f. fs = financials d @ [f] \<Longrightarrow> of_order f = or_id ord \<Longrightarrow>
      of_stroops f = or_asset_stroops ord \<Longrightarrow> of_gross f = or_fiat_minor ord \<Longrightarrow> of_fee f = 0 \<Longrightarrow>
      of_net f = of_gross f \<Longrightarrow> 0 < or_fiat_minor ord \<Longrightarrow> 0 < or_asset_stroops ord \<Longrightarrow>
      Q () (d\<lparr>financials := fs\<rparr>)"
    and "\<And>e d'. E e d'"
  shows "outcome (create_sandbox_order_financial ord) Q E d t"
  unfolding create_sandbox_order_financial_def insert_financial_def
  by (intro outcome_intro assms(2)) (auto intro!: assms(1) dest: financial_snapshot_Inr)

end
