(* ===== verification/Ledger_Invariants.thy ===== *)
theory Ledger_Invariants
  imports Ledger
begin

text \<open>
  The invariants of the shared tables, stated on the rows alone: every order's event log is a
  lifecycle the state machine admits and ends in the order's row (\<open>orders_logged\<close>), every
  treasury account's reserved amount is the sum of its open reservations
  (\<open>treasury_balanced\<close>), and payouts belong to completed off-ramp orders (\<open>payouts_match\<close>).
  The lemmas say how the row changes of the operations affect them.
\<close>

section \<open>Event logs\<close>

definition order_log :: "order_event list \<Rightarrow> string \<Rightarrow> order_event list" where
  "order_log es i = filter (\<lambda>e. ev_order e = i) es"

definition log_statuses :: "order_event list \<Rightarrow> order_status list" where
  "log_statuses es = List.map (\<lambda>e. case ev_next e of Some s \<Rightarrow> s | None \<Rightarrow> OSUnknown) es"

text \<open>The statuses of the two directions; the machine itself lets a created order enter either.\<close>

fun status_lane :: "string \<Rightarrow> order_status \<Rightarrow> bool" where
  "status_lane dir OSPaymentPending = (dir \<noteq> ''offramp'')"
| "status_lane dir OSPaymentConfirmed = (dir \<noteq> ''offramp'')"
| "status_lane dir OSStellarProcessing = (dir \<noteq> ''offramp'')"
| "status_lane dir OSPaymentFailed = (dir \<noteq> ''offramp'')"
| "status_lane dir OSStellarFailed = (dir \<noteq> ''offramp'')"
| "status_lane dir OSAssetPending = (dir = ''offramp'')"
| "status_lane dir OSAssetReceived = (dir = ''offramp'')"
| "status_lane dir OSAssetInvalid = (dir = ''offramp'')"
| "status_lane dir OSRetirementProcessing = (dir = ''offramp'')"
| "status_lane dir OSWithdrawalProcessing = (dir = ''offramp'')"
| "status_lane dir OSRetirementFailed = (dir = ''offramp'')"
| "status_lane dir OSWithdrawalFailed = (dir = ''offramp'')"
| "status_lane dir _ = True"

definition log_conforms :: "order_record \<Rightarrow> order_event list \<Rightarrow> bool" where
  "log_conforms r es \<longleftrightarrow>
     (let ss = log_statuses es in
        es \<noteq> [] \<and> hd ss = OSCreated \<and> successively allowed_transition ss \<and> last ss = or_status r \<and>
        or_version r = int (length es) \<and>
        list_all (status_lane (or_direction r)) ss \<and>
        (or_direction r = ''offramp'' \<longrightarrow> or_status r \<noteq> OSCreated) \<and>
        List.map ev_version es = List.map int [1..<Suc (length es)] \<and>
        List.map ev_next es = List.map Some ss \<and>
        List.map ev_prev es = None # List.map Some (butlast ss))"

definition orders_logged :: "order_record list \<Rightarrow> order_event list \<Rightarrow> bool" where
  "orders_logged os es \<longleftrightarrow>
     distinct (List.map or_id os) \<and>
     (\<forall>r \<in> set os. log_conforms r (order_log es (or_id r))) \<and>
     ev_order ` set es \<subseteq> or_id ` set os"

lemma log_statuses_append [simp]: "log_statuses (es @ fs) = log_statuses es @ log_statuses fs"
  by (simp add: log_statuses_def)

lemma length_log_statuses [simp]: "length (log_statuses es) = length es"
  by (simp add: log_statuses_def)

lemma log_statuses_Nil [simp]: "log_statuses es = [] \<longleftrightarrow> es = []"
  by (simp add: log_statuses_def)

lemma lane_step:
  assumes "allowed_transition s n" and "status_lane dir s" and "dir = ''offramp'' \<longrightarrow> s \<noteq> OSCreated"
    and "n \<noteq> OSAssetPending"
  shows "status_lane dir n" "n \<noteq> OSCreated"
  using assms by (cases s; auto)+

lemma log_conforms_new:
  assumes "ev_version e = 1" "ev_prev e = None" "ev_next e = Some OSCreated"
    and "or_status r = OSCreated" "or_version r = 1" "or_direction r \<noteq> ''offramp''"
  shows "log_conforms r [e]"
  using assms by (simp add: log_conforms_def log_statuses_def)

lemma log_conforms_extend:
  assumes c: "log_conforms r es" and a: "allowed_transition (or_status r) n"
    and e: "ev_version e = or_version r + 1" "ev_prev e = Some (or_status r)" "ev_next e = Some n"
    and r': "or_status r' = n" "or_version r' = or_version r + 1" "or_direction r' = or_direction r"
    and np: "n \<noteq> OSAssetPending"
  shows "log_conforms r' (es @ [e])"
proof -
  let ?ss = "log_statuses es"
  from c have ne: "es \<noteq> []" and v: "or_version r = int (length es)" and l: "last ?ss = or_status r"
    and s: "successively allowed_transition ?ss" and p: "List.map ev_prev es = None # List.map Some (butlast ?ss)"
    and m: "List.map ev_version es = List.map int [1..<Suc (length es)]"
    and la: "list_all (status_lane (or_direction r)) ?ss"
    and of: "or_direction r = ''offramp'' \<longrightarrow> or_status r \<noteq> OSCreated"
    and h: "hd ?ss = OSCreated" and nx: "List.map ev_next es = List.map Some ?ss"
    by (auto simp: log_conforms_def Let_def)
  have "status_lane (or_direction r) (or_status r)"
    using la l ne by (metis list_all_iff last_in_set log_statuses_Nil)
  from lane_step [OF a this of np] have n: "status_lane (or_direction r) n" "n \<noteq> OSCreated" .
  have sing: "log_statuses [e] = [n]" by (simp add: log_statuses_def e)
  have "successively allowed_transition (?ss @ [n])"
    using s a l ne by (simp add: successively_append_iff)
  moreover have "List.map Some ?ss = List.map Some (butlast ?ss) @ [Some (or_status r)]"
    using l ne by (metis append_butlast_last_id list.simps(8,9) log_statuses_Nil map_append)
  ultimately show ?thesis
    using ne v h nx m p e r' n la by (simp add: log_conforms_def Let_def sing hd_append butlast_append)
qed

lemma order_log_append [simp]: "order_log (es @ fs) i = order_log es i @ order_log fs i"
  by (simp add: order_log_def)

lemma order_log_all: "(\<And>e. e \<in> set es \<Longrightarrow> ev_order e = i) \<Longrightarrow> order_log es i = es"
  by (simp add: order_log_def)

lemma order_log_none: "(\<And>e. e \<in> set es \<Longrightarrow> ev_order e \<noteq> i) \<Longrightarrow> order_log es i = []"
  by (simp add: order_log_def filter_empty_conv)

lemma orders_logged_create:
  assumes o: "orders_logged os es" and fresh: "\<And>q. q \<in> set os \<Longrightarrow> or_id r \<noteq> or_id q"
    and fs: "\<And>e. e \<in> set fs \<Longrightarrow> ev_order e = or_id r" and c: "log_conforms r fs"
  shows "orders_logged (os @ [r]) (es @ fs)"
proof -
  have "or_id r \<notin> or_id ` set os" using fresh by auto
  moreover have "order_log es (or_id r) = []"
    using o \<open>or_id r \<notin> or_id ` set os\<close>
    by (intro order_log_none) (metis image_eqI orders_logged_def subsetD)
  moreover have "\<And>q. q \<in> set os \<Longrightarrow> order_log fs (or_id q) = []"
    using fs fresh by (intro order_log_none) metis
  ultimately show ?thesis
    using o fs c by (auto simp: orders_logged_def order_log_all)
qed

lemma orders_logged_update:
  assumes o: "orders_logged os es" and r: "r \<in> set os" and P: "\<And>q. P q \<Longrightarrow> or_id q = or_id r" "P r"
    and f: "or_id (f r) = or_id r" and fs: "\<And>e. e \<in> set fs \<Longrightarrow> ev_order e = or_id r"
    and c: "log_conforms (f r) (order_log es (or_id r) @ fs)"
  shows "orders_logged (update_rows P f os) (es @ fs)"
proof -
  from o have d: "distinct (List.map or_id os)" by (simp add: orders_logged_def)
  have one: "q = r" if "q \<in> set os" "P q" for q
    using that P r d by (metis distinct_map inj_on_contraD)
  have ids: "List.map or_id (update_rows P f os) = List.map or_id os"
    by (auto simp: update_rows_def f dest: one)
  have rows: "q' \<in> set (update_rows P f os) \<Longrightarrow> q' = f r \<or> (q' \<in> set os \<and> \<not> P q')" for q'
    by (auto simp: update_rows_def dest: one)
  have other: "or_id q \<noteq> or_id r" if "q \<in> set os" "\<not> P q" for q
    using that P r d by (metis distinct_map inj_on_contraD)
  have "log_conforms q' (order_log (es @ fs) (or_id q'))" if q': "q' \<in> set (update_rows P f os)" for q'
    using rows [OF q']
  proof
    assume "q' = f r"
    with c f fs show ?thesis by (simp add: order_log_all)
  next
    assume q: "q' \<in> set os \<and> \<not> P q'"
    then have "order_log fs (or_id q') = []" using other fs by (intro order_log_none) metis
    with q o show ?thesis by (simp add: orders_logged_def)
  qed
  moreover have "ev_order ` set (es @ fs) \<subseteq> or_id ` set (update_rows P f os)"
  proof -
    have "or_id ` set (update_rows P f os) = or_id ` set os" using ids by (metis list.set_map)
    moreover have "ev_order ` set fs \<subseteq> or_id ` set os" using fs r by auto
    ultimately show ?thesis using o by (auto simp: orders_logged_def)
  qed
  ultimately show ?thesis using d ids by (simp add: orders_logged_def)
qed

lemma log_conforms_cong:
  "or_status r' = or_status r \<Longrightarrow> or_direction r' = or_direction r \<Longrightarrow> or_version r' = or_version r \<Longrightarrow> log_conforms r' es = log_conforms r es"
  by (simp add: log_conforms_def)

text \<open>An update that leaves identity, status and version alone.\<close>

lemma orders_logged_neutral:
  assumes o: "orders_logged os es"
    and f: "\<And>r. or_id (f r) = or_id r" "\<And>r. or_status (f r) = or_status r" "\<And>r. or_version (f r) = or_version r"
      "\<And>r. or_direction (f r) = or_direction r"
  shows "orders_logged (update_rows P f os) es"
proof -
  have ids: "List.map or_id (update_rows P f os) = List.map or_id os"
    by (simp add: update_rows_def f)
  then have "or_id ` set (update_rows P f os) = or_id ` set os" by (metis list.set_map)
  moreover have "log_conforms (f r) = log_conforms r" for r
    using f by (intro ext log_conforms_cong) auto
  then have "log_conforms q (order_log es (or_id q))" if "q \<in> set (update_rows P f os)" for q
    using that o f by (auto simp: orders_logged_def dest!: set_update_rows)
  ultimately show ?thesis
    using o ids by (simp add: orders_logged_def)
qed

text \<open>The step every handler makes: the row moves to \<open>n\<close> at the next version, one event records it.\<close>

lemma orders_logged_advance:
  assumes "orders_logged os es" "r \<in> set os" "\<And>q. P q \<Longrightarrow> or_id q = or_id r" "P r"
    and "or_id (f r) = or_id r" "or_status (f r) = n" "or_version (f r) = or_version r + 1"
      "or_direction (f r) = or_direction r"
    and "allowed_transition (or_status r) n" "n \<noteq> OSAssetPending"
    and "ev_order e = or_id r" "ev_version e = or_version r + 1" "ev_prev e = Some (or_status r)"
      "ev_next e = Some n"
  shows "orders_logged (update_rows P f os) (es @ [e])"
proof -
  have "log_conforms r (order_log es (or_id r))" using assms(1,2) by (simp add: orders_logged_def)
  then have c: "log_conforms (f r) (order_log es (or_id r) @ [e])"
    by (rule log_conforms_extend) (fact assms)+
  show ?thesis
    proof (rule orders_logged_update [where r = r and f = f])
    show "orders_logged os es" "r \<in> set os" "P r" "or_id (f r) = or_id r" by fact+
    show "or_id q = or_id r" if "P q" for q using that by (rule assms(3))
    show "ev_order d = or_id r" if "d \<in> set [e]" for d using that assms(11) by auto
    show "log_conforms (f r) (order_log es (or_id r) @ [e])" by (rule c)
  qed
qed

lemma orders_logged_advance2:
  assumes "orders_logged os es" "r \<in> set os" "\<And>q. P q \<Longrightarrow> or_id q = or_id r" "P r"
    and "or_id (f r) = or_id r" "or_status (f r) = n2" "or_version (f r) = or_version r + 2"
      "or_direction (f r) = or_direction r"
    and "allowed_transition (or_status r) n1" "allowed_transition n1 n2"
      "n1 \<noteq> OSAssetPending" "n2 \<noteq> OSAssetPending"
    and "ev_order e1 = or_id r" "ev_version e1 = or_version r + 1" "ev_prev e1 = Some (or_status r)"
      "ev_next e1 = Some n1"
    and "ev_order e2 = or_id r" "ev_version e2 = or_version r + 2" "ev_prev e2 = Some n1"
      "ev_next e2 = Some n2"
  shows "orders_logged (update_rows P f os) (es @ [e1, e2])"
proof -
  let ?mid = "r\<lparr>or_status := n1, or_version := or_version r + 1\<rparr>"
  have "log_conforms r (order_log es (or_id r))" using assms(1,2) by (simp add: orders_logged_def)
  then have "log_conforms ?mid (order_log es (or_id r) @ [e1])"
    by (rule log_conforms_extend [where n = n1]) (fact assms | simp)+
  then have "log_conforms (f r) ((order_log es (or_id r) @ [e1]) @ [e2])"
    by (rule log_conforms_extend [where n = n2]) (fact assms | simp add: assms(5-8,14,18))+
  then have c: "log_conforms (f r) (order_log es (or_id r) @ [e1, e2])" by simp
  show ?thesis
    proof (rule orders_logged_update [where r = r and f = f])
    show "orders_logged os es" "r \<in> set os" "P r" "or_id (f r) = or_id r" by fact+
    show "or_id q = or_id r" if "P q" for q using that by (rule assms(3))
    show "ev_order d = or_id r" if "d \<in> set [e1, e2]" for d using that assms(13,17) by auto
    show "log_conforms (f r) (order_log es (or_id r) @ [e1, e2])" by (rule c)
  qed
qed

lemma log_conforms_new2:
  assumes "ev_version e1 = 1" "ev_prev e1 = None" "ev_next e1 = Some OSCreated"
    and "ev_version e2 = 2" "ev_prev e2 = Some OSCreated" "ev_next e2 = Some OSAssetPending"
    and "or_status r = OSAssetPending" "or_version r = 2" "or_direction r = ''offramp''"
  shows "log_conforms r [e1, e2]"
  using assms by (simp add: log_conforms_def log_statuses_def)

section \<open>Treasury balances\<close>

definition open_amount :: "treasury_reservation list \<Rightarrow> string \<Rightarrow> int" where
  "open_amount rs i =
     sum_list (List.map tr_amount (filter (\<lambda>r. tr_treasury r = i \<and> tr_status r = RSReserved) rs))"

definition treasury_balanced :: "treasury_account list \<Rightarrow> treasury_reservation list \<Rightarrow> bool" where
  "treasury_balanced ts rs \<longleftrightarrow>
     distinct (List.map ta_id ts) \<and> distinct (List.map tr_id rs) \<and> distinct (List.map tr_order rs) \<and>
     tr_treasury ` set rs \<subseteq> ta_id ` set ts \<and>
     list_all treasury_ok ts \<and>
     (\<forall>t \<in> set ts. ta_reserved t = open_amount rs (ta_id t))"

lemma open_amount_none: "i \<notin> tr_treasury ` set rs \<Longrightarrow> open_amount rs i = 0"
  by (induction rs) (auto simp: open_amount_def)

lemma open_amount_append: "open_amount (rs @ qs) i = open_amount rs i + open_amount qs i"
  by (simp add: open_amount_def)

lemma open_amount_close:
  assumes "distinct (List.map tr_id rs)" and "r \<in> set rs" and "tr_status r = RSReserved"
    and "\<And>q. tr_treasury (g q) = tr_treasury q" "\<And>q. tr_status (g q) \<noteq> RSReserved"
  shows "open_amount (update_rows (\<lambda>q. tr_id q = tr_id r) g rs) i =
         open_amount rs i - (if tr_treasury r = i then tr_amount r else 0)"
  using assms(1-3)
proof (induction rs)
  case Nil
  then show ?case by simp
next
  case (Cons q rs)
  show ?case
  proof (cases "q = r")
    case True
    with Cons.prems have "tr_id r \<notin> tr_id ` set rs" by simp
    then have "\<And>x. x \<in> set rs \<Longrightarrow> \<not> tr_id x = tr_id r" by (metis imageI)
    then have "update_rows (\<lambda>q. tr_id q = tr_id r) g rs = rs" by (rule update_rows_none)
    with True Cons.prems assms(4,5) show ?thesis by (simp add: open_amount_def update_rows_def)
  next
    case False
    with Cons.prems have "tr_id q \<noteq> tr_id r" by auto
    with Cons False show ?thesis by (simp add: open_amount_def update_rows_def)
  qed
qed

text \<open>A reservation leaves the open state and its amount leaves the reserved balance.\<close>

lemma treasury_close:
  assumes b: "treasury_balanced ts rs" and r: "r \<in> set rs" "tr_status r = RSReserved"
    and g: "\<And>q. tr_id (g q) = tr_id q" "\<And>q. tr_order (g q) = tr_order q"
      "\<And>q. tr_treasury (g q) = tr_treasury q" "\<And>q. tr_status (g q) \<noteq> RSReserved"
    and f: "\<And>t. ta_id (f t) = ta_id t" "\<And>t. ta_reserved (f t) = ta_reserved t - tr_amount r"
    and ok: "check_treasuries (update_rows (\<lambda>t. ta_id t = tr_treasury r) f ts) = None"
  shows "treasury_balanced (update_rows (\<lambda>t. ta_id t = tr_treasury r) f ts)
           (update_rows (\<lambda>q. tr_id q = tr_id r) g rs)"
proof -
  let ?ts = "update_rows (\<lambda>t. ta_id t = tr_treasury r) f ts"
  let ?rs = "update_rows (\<lambda>q. tr_id q = tr_id r) g rs"
  have maps: "List.map ta_id ?ts = List.map ta_id ts" "List.map tr_id ?rs = List.map tr_id rs"
    "List.map tr_order ?rs = List.map tr_order rs" "List.map tr_treasury ?rs = List.map tr_treasury rs"
    by (simp_all add: update_rows_def f g)
  then have sets: "ta_id ` set ?ts = ta_id ` set ts" "tr_treasury ` set ?rs = tr_treasury ` set rs"
    by (metis list.set_map)+
  have close: "open_amount ?rs i = open_amount rs i - (if tr_treasury r = i then tr_amount r else 0)" for i
    using b r g(3,4) by (intro open_amount_close) (simp_all add: treasury_balanced_def)
  have "ta_reserved t = open_amount ?rs (ta_id t)" if t: "t \<in> set ?ts" for t
  proof -
    obtain u where u: "u \<in> set ts" "ta_id u = tr_treasury r \<and> t = f u \<or> ta_id u \<noteq> tr_treasury r \<and> t = u"
      using set_update_rows [OF t] by blast
    from u(1) b have "ta_reserved u = open_amount rs (ta_id u)" by (simp add: treasury_balanced_def)
    moreover have "ta_id t = ta_id u" using u(2) f(1) by metis
    moreover have "ta_reserved t = ta_reserved u - (if tr_treasury r = ta_id u then tr_amount r else 0)"
      using u(2) f(2) [of u] by (elim disjE conjE) simp_all
    ultimately show ?thesis by (simp only: close)
  qed
  with b maps sets ok show ?thesis
    by (simp add: treasury_balanced_def check_treasuries_def split: if_splits)
qed

lemma treasury_open:
  assumes b: "treasury_balanced ts rs" and t: "t \<in> set ts" "tr_treasury r = ta_id t"
    and r: "tr_status r = RSReserved" "\<And>q. q \<in> set rs \<Longrightarrow> tr_id r \<noteq> tr_id q \<and> tr_order r \<noteq> tr_order q"
    and f: "\<And>t. ta_id (f t) = ta_id t" "\<And>t. ta_reserved (f t) = ta_reserved t + tr_amount r"
    and ok: "check_treasuries (update_rows (\<lambda>t. ta_id t = tr_treasury r) f ts) = None"
  shows "treasury_balanced (update_rows (\<lambda>t. ta_id t = tr_treasury r) f ts) (rs @ [r])"
proof -
  let ?ts = "update_rows (\<lambda>t. ta_id t = tr_treasury r) f ts"
  have maps: "List.map ta_id ?ts = List.map ta_id ts"
    by (simp add: update_rows_def f)
  then have sets: "ta_id ` set ?ts = ta_id ` set ts" by (metis list.set_map)
  have one: "open_amount [r] i = (if tr_treasury r = i then tr_amount r else 0)" for i
    by (simp add: open_amount_def r(1))
  have "ta_reserved v = open_amount (rs @ [r]) (ta_id v)" if v: "v \<in> set ?ts" for v
  proof -
    obtain u where u: "u \<in> set ts" "ta_id u = tr_treasury r \<and> v = f u \<or> ta_id u \<noteq> tr_treasury r \<and> v = u"
      using set_update_rows [OF v] by blast
    from u(1) b have "ta_reserved u = open_amount rs (ta_id u)" by (simp add: treasury_balanced_def)
    moreover have "ta_id v = ta_id u" using u(2) f(1) by metis
    moreover have "ta_reserved v = ta_reserved u + (if tr_treasury r = ta_id u then tr_amount r else 0)"
      using u(2) f(2) [of u] by (elim disjE conjE) simp_all
    ultimately show ?thesis by (simp only: open_amount_append one)
  qed
  moreover have "tr_id r \<notin> tr_id ` set rs" "tr_order r \<notin> tr_order ` set rs" using r(2) by auto
  moreover have "tr_treasury r \<in> ta_id ` set ts" using t by auto
  moreover have "list_all treasury_ok ?ts" using ok by (simp add: check_treasuries_def split: if_splits)
  ultimately show ?thesis
    using b maps sets by (simp add: treasury_balanced_def)
qed

lemma treasury_new:
  assumes b: "treasury_balanced ts rs" and fresh: "\<And>u. u \<in> set ts \<Longrightarrow> ta_id t \<noteq> ta_id u"
    and t: "ta_reserved t = 0" "treasury_ok t"
  shows "treasury_balanced (ts @ [t]) rs"
proof -
  have "ta_id t \<notin> ta_id ` set ts" using fresh by auto
  with b have "ta_id t \<notin> tr_treasury ` set rs" by (auto simp: treasury_balanced_def)
  with b t fresh show ?thesis
    by (auto simp: treasury_balanced_def open_amount_none)
qed

text \<open>An update of an account that keeps its identity and its reserved amount.\<close>

lemma treasury_reconcile:
  assumes b: "treasury_balanced ts rs" and t: "t \<in> set ts"
    and f: "ta_id (f t) = ta_id t" "ta_reserved (f t) = ta_reserved t"
    and ok: "check_treasuries (update_rows (\<lambda>u. ta_id u = ta_id t) f ts) = None"
  shows "treasury_balanced (update_rows (\<lambda>u. ta_id u = ta_id t) f ts) rs"
proof -
  let ?ts = "update_rows (\<lambda>u. ta_id u = ta_id t) f ts"
  from b have d: "distinct (List.map ta_id ts)" by (simp add: treasury_balanced_def)
  have one: "u = t" if "u \<in> set ts" "ta_id u = ta_id t" for u
    using that t d by (metis distinct_map inj_on_contraD)
  have maps: "List.map ta_id ?ts = List.map ta_id ts"
    by (auto simp: update_rows_def f dest: one)
  then have sets: "ta_id ` set ?ts = ta_id ` set ts" by (metis list.set_map)
  have "ta_reserved u = open_amount rs (ta_id u)" if "u \<in> set ?ts" for u
    using set_update_rows [OF that] b t f by (auto simp: treasury_balanced_def dest: one)
  with b maps sets ok show ?thesis
    by (simp add: treasury_balanced_def check_treasuries_def split: if_splits)
qed

section \<open>Payouts\<close>

definition payouts_match :: "order_record list \<Rightarrow> offramp_payout list \<Rightarrow> bool" where
  "payouts_match os ps \<longleftrightarrow>
     distinct (List.map po_order ps) \<and>
     (\<forall>p \<in> set ps. \<exists>r \<in> set os. or_id r = po_order p \<and> or_status r = OSCompleted \<and>
        po_amount p = or_fiat_minor r) \<and>
     (\<forall>r \<in> set os. or_direction r = ''offramp'' \<and> or_status r = OSCompleted \<longrightarrow>
        or_id r \<in> po_order ` set ps)"

lemma payouts_create: "payouts_match os ps \<Longrightarrow> or_status r \<noteq> OSCompleted \<Longrightarrow> payouts_match (os @ [r]) ps"
  by (fastforce simp: payouts_match_def)

lemma payouts_neutral:
  assumes "payouts_match os ps" and f: "\<And>r. or_id (f r) = or_id r" "\<And>r. or_status (f r) = or_status r"
    "\<And>r. or_fiat_minor (f r) = or_fiat_minor r" "\<And>r. or_direction (f r) = or_direction r"
  shows "payouts_match (update_rows P f os) ps"
proof -
  have "\<exists>r \<in> set (update_rows P f os). or_id r = po_order p \<and> or_status r = OSCompleted \<and>
        po_amount p = or_fiat_minor r" if "p \<in> set ps" for p
  proof -
    from that assms(1) obtain r where r: "r \<in> set os" "or_id r = po_order p \<and> or_status r = OSCompleted \<and>
        po_amount p = or_fiat_minor r" by (auto simp: payouts_match_def)
    let ?r = "if P r then f r else r"
    from r have "?r \<in> set (update_rows P f os)" by (auto simp: update_rows_def)
    moreover from r f have "or_id ?r = po_order p \<and> or_status ?r = OSCompleted \<and> po_amount p = or_fiat_minor ?r"
      by simp
    ultimately show ?thesis by blast
  qed
  moreover have "or_id q \<in> po_order ` set ps"
    if "q \<in> set (update_rows P f os)" "or_direction q = ''offramp'' \<and> or_status q = OSCompleted" for q
    using set_update_rows [OF that(1)] that(2) assms(1) f by (auto simp: payouts_match_def)
  ultimately show ?thesis using assms(1) by (simp add: payouts_match_def)
qed

text \<open>An order that is not yet completed moves on; a completed off-ramp order has its payout.\<close>

lemma payouts_advance:
  assumes m: "payouts_match os ps" and d: "distinct (List.map or_id os)" and r: "r \<in> set os"
    and P: "\<And>q. P q \<Longrightarrow> or_id q = or_id r" and s: "or_status r \<noteq> OSCompleted"
    and f: "or_id (f r) = or_id r" "or_direction (f r) = or_direction r"
    and c: "or_direction r = ''offramp'' \<longrightarrow> or_status (f r) \<noteq> OSCompleted \<or> or_id r \<in> po_order ` set ps"
  shows "payouts_match (update_rows P f os) ps"
proof -
  have one: "q = r" if "q \<in> set os" "P q" for q
    using that P r d by (metis distinct_map inj_on_contraD)
  have "\<exists>q \<in> set (update_rows P f os). or_id q = po_order p \<and> or_status q = OSCompleted \<and>
        po_amount p = or_fiat_minor q" if "p \<in> set ps" for p
  proof -
    from that m obtain q where q: "q \<in> set os" "or_id q = po_order p \<and> or_status q = OSCompleted \<and>
        po_amount p = or_fiat_minor q" by (auto simp: payouts_match_def)
    with s one have "\<not> P q" by auto
    with q have "q \<in> set (update_rows P f os)" by (auto simp: update_rows_def)
    with q(2) show ?thesis by blast
  qed
  moreover have "or_id q \<in> po_order ` set ps"
    if "q \<in> set (update_rows P f os)" "or_direction q = ''offramp'' \<and> or_status q = OSCompleted" for q
  proof -
    from set_update_rows [OF that(1)] one have "q = f r \<or> q \<in> set os" by auto
    then show ?thesis using that(2) m c f by (auto simp: payouts_match_def)
  qed
  ultimately show ?thesis using m by (simp add: payouts_match_def)
qed

text \<open>A payout for a completed order, and completion together with the payout.\<close>

lemma payouts_add:
  assumes "payouts_match os ps" and "r \<in> set os" "or_status r = OSCompleted"
    and "po_order p = or_id r" "po_amount p = or_fiat_minor r" and "or_id r \<notin> po_order ` set ps"
  shows "payouts_match os (ps @ [p])"
  using assms by (auto simp: payouts_match_def)

lemma payouts_complete:
  assumes m: "payouts_match os ps" and d: "distinct (List.map or_id os)" and r: "r \<in> set os"
    and P: "\<And>q. P q \<Longrightarrow> or_id q = or_id r" "P r" and s: "or_status r \<noteq> OSCompleted"
    and f: "or_id (f r) = or_id r" "or_fiat_minor (f r) = or_fiat_minor r" "or_status (f r) = OSCompleted"
    and p: "po_order p = or_id r" "po_amount p = or_fiat_minor r"
  shows "payouts_match (update_rows P f os) (ps @ [p])"
proof -
  have one: "q = r" if "q \<in> set os" "P q" for q
    using that P r d by (metis distinct_map inj_on_contraD)
  have keep: "q \<in> set (update_rows P f os)" if "q \<in> set os" "or_status q = OSCompleted" for q
  proof -
    from that s one have "\<not> P q" by auto
    with that(1) show ?thesis by (auto simp: update_rows_def)
  qed
  have new: "f r \<in> set (update_rows P f os)" using r P(2) by (auto simp: update_rows_def)
  have rev: "q = f r \<or> q \<in> set os" if "q \<in> set (update_rows P f os)" for q
    using set_update_rows [OF that] one by auto
  have "or_id r \<notin> po_order ` set ps"
  proof
    assume "or_id r \<in> po_order ` set ps"
    with m obtain q where "q \<in> set os" "or_id q = or_id r" "or_status q = OSCompleted"
      by (auto simp: payouts_match_def)
    with r s d show False by (metis distinct_map inj_on_contraD)
  qed
  with m have dist: "distinct (List.map po_order (ps @ [p]))" by (auto simp: payouts_match_def p)
  have "\<exists>q \<in> set (update_rows P f os). or_id q = po_order x \<and> or_status q = OSCompleted \<and>
        po_amount x = or_fiat_minor q" if "x \<in> set (ps @ [p])" for x
  proof (cases "x = p")
    case True
    with new f p show ?thesis by auto
  next
    case False
    with that have "x \<in> set ps" by simp
    with m obtain q where "q \<in> set os" "or_id q = po_order x \<and> or_status q = OSCompleted \<and>
        po_amount x = or_fiat_minor q" by (auto simp: payouts_match_def)
    with keep show ?thesis by blast
  qed
  moreover have "or_id q \<in> po_order ` set (ps @ [p])"
    if "q \<in> set (update_rows P f os)" "or_direction q = ''offramp'' \<and> or_status q = OSCompleted" for q
    using rev [OF that(1)] that(2) m f(1) p by (auto simp: payouts_match_def)
  ultimately show ?thesis using dist by (simp add: payouts_match_def)
qed

section \<open>The invariant of the order ledger\<close>

definition ledger_ok ::
  "order_record list \<Rightarrow> order_event list \<Rightarrow> treasury_account list \<Rightarrow> treasury_reservation list \<Rightarrow>
   offramp_payout list \<Rightarrow> bool" where
  "ledger_ok os es ts rs ps \<longleftrightarrow>
     orders_logged os es \<and> treasury_balanced ts rs \<and> payouts_match os ps"

definition ledger_inv :: "db \<Rightarrow> bool" where
  "ledger_inv d \<longleftrightarrow>
     ledger_ok (orders d) (order_events d) (treasuries d) (reservations d) (payouts d)"

lemma ledger_ok_advance:
  assumes "ledger_ok os es ts rs ps" "r \<in> set os" "\<And>q. P q \<Longrightarrow> or_id q = or_id r" "P r"
    and "or_id (f r) = or_id r" "or_status (f r) = n" "or_version (f r) = or_version r + 1"
      "or_direction (f r) = or_direction r"
    and "allowed_transition (or_status r) n" "n \<noteq> OSAssetPending"
    and "ev_order e = or_id r" "ev_version e = or_version r + 1" "ev_prev e = Some (or_status r)"
      "ev_next e = Some n"
    and "n = OSCompleted \<longrightarrow> or_direction r \<noteq> ''offramp''"
  shows "ledger_ok (update_rows P f os) (es @ [e]) ts rs ps"
proof -
  have o: "orders_logged os es" and t: "treasury_balanced ts rs" and p: "payouts_match os ps"
    using assms(1) by (simp_all add: ledger_ok_def)
  from o have d: "distinct (List.map or_id os)" by (simp add: orders_logged_def)
  have nc: "or_status r \<noteq> OSCompleted" using assms(9) by auto
  have ol: "orders_logged (update_rows P f os) (es @ [e])"
    by (rule orders_logged_advance [where r = r and n = n]) (fact o assms)+
  have c: "or_direction r = ''offramp'' \<longrightarrow> or_status (f r) \<noteq> OSCompleted \<or> or_id r \<in> po_order ` set ps"
    using assms(6,15) by auto
  have "payouts_match (update_rows P f os) ps"
    by (rule payouts_advance [where r = r]) (fact p d nc c assms)+
  then show ?thesis using t ol by (simp add: ledger_ok_def)
qed

lemma ledger_ok_advance2:
  assumes "ledger_ok os es ts rs ps" "r \<in> set os" "\<And>q. P q \<Longrightarrow> or_id q = or_id r" "P r"
    and "or_id (f r) = or_id r" "or_status (f r) = n2" "or_version (f r) = or_version r + 2"
      "or_direction (f r) = or_direction r"
    and "allowed_transition (or_status r) n1" "allowed_transition n1 n2"
      "n1 \<noteq> OSAssetPending" "n2 \<noteq> OSAssetPending"
    and "ev_order e1 = or_id r" "ev_version e1 = or_version r + 1" "ev_prev e1 = Some (or_status r)"
      "ev_next e1 = Some n1"
    and "ev_order e2 = or_id r" "ev_version e2 = or_version r + 2" "ev_prev e2 = Some n1"
      "ev_next e2 = Some n2"
    and "n2 \<noteq> OSCompleted"
  shows "ledger_ok (update_rows P f os) (es @ [e1, e2]) ts rs ps"
proof -
  have o: "orders_logged os es" and t: "treasury_balanced ts rs" and p: "payouts_match os ps"
    using assms(1) by (simp_all add: ledger_ok_def)
  from o have d: "distinct (List.map or_id os)" by (simp add: orders_logged_def)
  have nc: "or_status r \<noteq> OSCompleted" using assms(9) by auto
  have ol: "orders_logged (update_rows P f os) (es @ [e1, e2])"
    by (rule orders_logged_advance2 [where r = r and ?n1.0 = n1 and ?n2.0 = n2]) (fact o assms)+
  have c: "or_direction r = ''offramp'' \<longrightarrow> or_status (f r) \<noteq> OSCompleted \<or> or_id r \<in> po_order ` set ps"
    using assms(6,21) by auto
  have "payouts_match (update_rows P f os) ps"
    by (rule payouts_advance [where r = r]) (fact p d nc c assms)+
  then show ?thesis using t ol by (simp add: ledger_ok_def)
qed

lemma ledger_ok_neutral:
  assumes "ledger_ok os es ts rs ps"
    and "\<And>r. or_id (f r) = or_id r" "\<And>r. or_status (f r) = or_status r"
      "\<And>r. or_version (f r) = or_version r" "\<And>r. or_direction (f r) = or_direction r"
      "\<And>r. or_fiat_minor (f r) = or_fiat_minor r"
  shows "ledger_ok (update_rows P f os) es ts rs ps"
  using assms by (simp add: ledger_ok_def orders_logged_neutral payouts_neutral)

lemma ledger_ok_create:
  assumes "ledger_ok os es ts rs ps" and "\<And>q. q \<in> set os \<Longrightarrow> or_id r \<noteq> or_id q"
    and "\<And>e. e \<in> set fs \<Longrightarrow> ev_order e = or_id r" and "log_conforms r fs"
    and "or_status r \<noteq> OSCompleted"
  shows "ledger_ok (os @ [r]) (es @ fs) ts rs ps"
proof -
  have "orders_logged (os @ [r]) (es @ fs)"
    by (rule orders_logged_create) (use assms in \<open>auto simp: ledger_ok_def\<close>)
  with assms(1,5) show ?thesis by (simp add: ledger_ok_def payouts_create)
qed

lemma ledger_ok_treasury:
  "ledger_ok os es ts rs ps \<Longrightarrow> treasury_balanced ts' rs' \<Longrightarrow> ledger_ok os es ts' rs' ps"
  by (simp add: ledger_ok_def)

lemma treasury_open_at:
  assumes "treasury_balanced ts rs" and "t \<in> set ts" and "tr_treasury r = ta_id t"
    and "tr_status r = RSReserved" "\<And>q. q \<in> set rs \<Longrightarrow> tr_id r \<noteq> tr_id q \<and> tr_order r \<noteq> tr_order q"
    and "\<And>t. ta_id (f t) = ta_id t" "\<And>t. ta_reserved (f t) = ta_reserved t + tr_amount r"
    and "check_treasuries (update_rows (\<lambda>u. ta_id u = ta_id t) f ts) = None"
  shows "treasury_balanced (update_rows (\<lambda>u. ta_id u = ta_id t) f ts) (rs @ [r])"
  using treasury_open [where t = t, OF assms(1-7)] assms(3,8) by simp

lemma ledger_ok_lane:
  assumes "ledger_ok os es ts rs ps" and "r \<in> set os"
  shows "status_lane (or_direction r) (or_status r)"
    and "or_direction r = ''offramp'' \<longrightarrow> or_status r \<noteq> OSCreated"
proof -
  let ?ss = "log_statuses (order_log es (or_id r))"
  from assms have c: "log_conforms r (order_log es (or_id r))"
    by (simp add: ledger_ok_def orders_logged_def)
  then have "?ss \<noteq> []" and l: "last ?ss = or_status r" and a: "list_all (status_lane (or_direction r)) ?ss"
    by (simp_all add: log_conforms_def Let_def)
  then have "last ?ss \<in> set ?ss" by (intro last_in_set)
  with l a show "status_lane (or_direction r) (or_status r)" by (simp add: list_all_iff)
  from c show "or_direction r = ''offramp'' \<longrightarrow> or_status r \<noteq> OSCreated"
    by (simp add: log_conforms_def Let_def)
qed

text \<open>Completion of an off-ramp order with its payout.\<close>

lemma ledger_ok_payout:
  assumes "ledger_ok os es ts rs ps" "r \<in> set os" "\<And>q. P q \<Longrightarrow> or_id q = or_id r" "P r"
    and "or_id (f r) = or_id r" "or_status (f r) = OSCompleted" "or_version (f r) = or_version r + 1"
      "or_direction (f r) = or_direction r" and fm: "or_fiat_minor (f r) = or_fiat_minor r"
    and "allowed_transition (or_status r) OSCompleted"
    and "ev_order e = or_id r" "ev_version e = or_version r + 1" "ev_prev e = Some (or_status r)"
      "ev_next e = Some OSCompleted"
    and p: "po_order p = or_id r" "po_amount p = or_fiat_minor r"
  shows "ledger_ok (update_rows P f os) (es @ [e]) ts rs (ps @ [p])"
proof -
  have o: "orders_logged os es" and t: "treasury_balanced ts rs" and m: "payouts_match os ps"
    using assms(1) by (simp_all add: ledger_ok_def)
  from o have d: "distinct (List.map or_id os)" by (simp add: orders_logged_def)
  have nc: "or_status r \<noteq> OSCompleted" using assms(10) by auto
  have np: "OSCompleted \<noteq> OSAssetPending" by simp
  have "orders_logged (update_rows P f os) (es @ [e])"
    by (rule orders_logged_advance [where r = r and n = OSCompleted]) (fact o np assms)+
  moreover have "payouts_match (update_rows P f os) (ps @ [p])"
    by (rule payouts_complete [where r = r]) (fact m d nc assms)+
  ultimately show ?thesis using t by (simp add: ledger_ok_def)
qed

text \<open>An order with a payout is completed.\<close>

lemma ledger_ok_paid:
  assumes "ledger_ok os es ts rs ps" "r \<in> set os" "p \<in> set ps" "po_order p = or_id r"
  shows "or_status r = OSCompleted" "po_amount p = or_fiat_minor r"
proof -
  from assms obtain q where q: "q \<in> set os" "or_id q = or_id r" "or_status q = OSCompleted"
    "po_amount p = or_fiat_minor q" by (auto simp: ledger_ok_def payouts_match_def)
  moreover have "q = r"
    using assms q by (metis distinct_map inj_on_contraD ledger_ok_def orders_logged_def)
  ultimately show "or_status r = OSCompleted" "po_amount p = or_fiat_minor r" by simp_all
qed

lemma ledger_inv_ok: "ledger_inv d \<Longrightarrow>
    ledger_ok (orders d) (order_events d) (treasuries d) (reservations d) (payouts d)"
  by (simp add: ledger_inv_def)

end
