(* ===== verification/Paging.thy ===== *)
theory Paging
  imports Kailo_Prelude
begin

text \<open>
  Keyset pagination, as the order lists and the webhook deliveries do it: a page holds the rows
  below the cursor in descending order of a key, one row more than the limit tells that there is
  a next page, and the last row shown is its cursor. The locale states what it takes of a table,
  that its keys are distinct, and proves that walking the pages shows every row once.
\<close>

definition keyset_rows ::
  "('r \<Rightarrow> 'k::linorder) \<Rightarrow> ('r \<Rightarrow> bool) \<Rightarrow> 'k option \<Rightarrow> nat \<Rightarrow> 'r list \<Rightarrow> 'r list" where
  "keyset_rows key P cursor n rows =
     take n (rev (sort_key key
       (filter (\<lambda>r. P r \<and> (case cursor of None \<Rightarrow> True | Some k \<Rightarrow> key r < k)) rows)))"

text \<open>Following the cursors for at most \<open>n\<close> pages.\<close>

fun keyset_walk ::
  "('r \<Rightarrow> 'k::linorder) \<Rightarrow> ('r \<Rightarrow> bool) \<Rightarrow> nat \<Rightarrow> nat \<Rightarrow> 'k option \<Rightarrow> 'r list \<Rightarrow> 'r list" where
  "keyset_walk key P limit 0 cursor rows = []"
| "keyset_walk key P limit (Suc n) cursor rows =
     (let page = keyset_rows key P cursor (limit + 1) rows in
      if limit < length page
      then take limit page @ keyset_walk key P limit n (Some (key (page ! (limit - 1)))) rows
      else page)"

locale keyset =
  fixes valid :: "'d \<Rightarrow> bool"
    and tab :: "'d \<Rightarrow> 'r list"
    and key :: "'r \<Rightarrow> 'k::linorder"
  assumes keys_distinct: "valid d \<Longrightarrow> distinct (List.map key (tab d))"
begin

definition newest :: "('r \<Rightarrow> bool) \<Rightarrow> 'd \<Rightarrow> 'r list" where
  "newest P d = rev (sort_key key (filter P (tab d)))"

lemma newest_keys:
  assumes "valid d"
  shows "sorted_wrt (\<lambda>x y. key y < key x) (newest P d)"
proof -
  have "distinct (List.map key (filter P (tab d)))"
    using keys_distinct [OF assms] by (rule distinct_map_filter)
  then have "distinct (List.map key (sort_key key (filter P (tab d))))"
    by (simp add: distinct_map)
  then have "sorted_wrt (<) (List.map key (sort_key key (filter P (tab d))))"
    by (simp add: strict_sorted_iff)
  then show ?thesis by (simp add: newest_def sorted_wrt_map sorted_wrt_rev)
qed

lemma newest_set: "set (newest P d) = {r \<in> set (tab d). P r}"
  by (auto simp: newest_def)

lemma newest_below:
  assumes "valid d"
  shows "rev (sort_key key (filter (\<lambda>r. P r \<and> Q (key r)) (tab d))) = filter (\<lambda>r. Q (key r)) (newest P d)"
proof -
  have "filter (\<lambda>r. Q (key r)) (newest P d) = rev (sort_key key (filter (\<lambda>r. Q (key r)) (filter P (tab d))))"
    by (simp only: newest_def rev_filter [symmetric] filter_sort)
  then show ?thesis by (simp add: conj_commute)
qed

lemma filter_strict_drop:
  "sorted_wrt (\<lambda>x y. key y < key x) xs \<Longrightarrow> k < length xs \<Longrightarrow>
   filter (\<lambda>r. key r < key (xs ! k)) xs = drop (Suc k) xs"
proof (induction xs arbitrary: k)
  case (Cons x xs)
  show ?case
  proof (cases k)
    case 0
    from Cons.prems have "\<forall>y \<in> set xs. key y < key x" by simp
    with 0 show ?thesis by (auto intro: filter_True)
  next
    case (Suc j)
    with Cons.prems have "xs ! j \<in> set xs" by simp
    with Cons.prems have "key (xs ! j) < key x" by simp
    with Suc Cons show ?thesis by (simp add: not_less_iff_gr_or_eq)
  qed
qed simp

lemma keyset_rows_first: "valid d \<Longrightarrow> keyset_rows key P None n (tab d) = take n (newest P d)"
  by (simp add: keyset_rows_def newest_def)

lemma keyset_rows_after:
  assumes "valid d" and "k < length (newest P d)"
  shows "keyset_rows key P (Some (key (newest P d ! k))) n (tab d) = take n (drop (Suc k) (newest P d))"
  using newest_below [OF assms(1), of P "\<lambda>x. x < key (newest P d ! k)"]
    filter_strict_drop [OF newest_keys [OF assms(1)] assms(2)]
  by (simp add: keyset_rows_def)

lemma keyset_walk_after:
  assumes "valid d" and "0 < limit"
  shows "k < length (newest P d) \<Longrightarrow> length (newest P d) \<le> Suc k + n * limit \<Longrightarrow> 0 < n \<Longrightarrow>
    keyset_walk key P limit n (Some (key (newest P d ! k))) (tab d) = drop (Suc k) (newest P d)"
proof (induction n arbitrary: k)
  case (Suc n)
  let ?ys = "newest P d"
  let ?page = "take (limit + 1) (drop (Suc k) ?ys)"
  note rows = keyset_rows_after [OF assms(1) Suc.prems(1)]
  show ?case
  proof (cases "limit < length ?page")
    case True
    then have l: "Suc k + limit < length ?ys" by simp
    have nth: "?page ! (limit - 1) = ?ys ! (k + limit)" using l assms(2) by simp
    have n: "0 < n" using l Suc.prems(2) by (cases n) auto
    have "keyset_walk key P limit n (Some (key (?ys ! (k + limit)))) (tab d) = drop (Suc (k + limit)) ?ys"
      by (rule Suc.IH) (use l n Suc.prems in auto)
    moreover have "take limit ?page = take limit (drop (Suc k) ?ys)" by simp
    moreover have "take limit (drop (Suc k) ?ys) @ drop (Suc (k + limit)) ?ys = drop (Suc k) ?ys"
      by (metis append_take_drop_id drop_drop add.commute add_Suc_right)
    ultimately show ?thesis using True nth by (simp only: keyset_walk.simps rows Let_def if_True)
  next
    case False
    then have "?page = drop (Suc k) ?ys" by simp
    with False show ?thesis by (simp only: keyset_walk.simps rows Let_def if_False)
  qed
qed simp

text \<open>Walking the pages from the start shows every row that is asked for, once, newest first.\<close>

lemma keyset_walk_all:
  assumes "valid d" and "0 < limit" and "length (tab d) < n"
  shows "keyset_walk key P limit n None (tab d) = newest P d"
proof -
  let ?ys = "newest P d"
  have le: "length ?ys \<le> length (tab d)" by (simp add: newest_def)
  obtain m where n: "n = Suc m" using assms(3) by (cases n) auto
  note rows = keyset_rows_first [OF assms(1)]
  show ?thesis
  proof (cases "limit < length ?ys")
    case True
    then have m: "0 < m" and lm: "length ?ys \<le> m" using n assms(3) le by auto
    have "m \<le> m * limit" using assms(2) by simp
    with lm have b: "length ?ys \<le> Suc (limit - 1) + m * limit" by linarith
    have "keyset_walk key P limit m (Some (key (?ys ! (limit - 1)))) (tab d) = drop (Suc (limit - 1)) ?ys"
      by (rule keyset_walk_after [OF assms(1,2) _ b m]) (use True in simp)
    then show ?thesis using True assms(2) by (simp add: n rows Let_def)
  next
    case False
    then show ?thesis by (simp add: n rows Let_def)
  qed
qed

end

end
