(* ===== verification/Onramp_Repo.thy ===== *)
theory Onramp_Repo
  imports Ledger_Invariants Paging
begin

text \<open>
  \<open>internal/repository/onramp_repository.go\<close>: reservation and creation of on-ramp orders,
  checkouts, gateway callbacks, payment confirmation, and the order queries. The last sections
  show that every operation keeps the ledger invariant, and what each one changes.
\<close>

record onramp_config =
  oc_treasury :: string
  oc_network :: string
  oc_buffer :: stroops

definition onramp_create_operation :: string where "onramp_create_operation = ''onramp.create''"
definition settle_topic :: string where "settle_topic = ''stellar.settle_onramp''"
definition kxlm_issue_fee_reserve :: stroops where "kxlm_issue_fee_reserve = 10000"

record create_record =
  cr_order :: string
  cr_principal :: order_principal
  cr_wallet :: string
  cr_quote_id :: string
  cr_key_hash :: string
  cr_request_hash :: string
  cr_method :: payment_method
  cr_destination :: string
  cr_memo :: string
  cr_quote :: quote
  cr_created :: time

record callback_receipt =
  rc_event :: string
  rc_type :: string
  rc_checkout :: string
  rc_payload_hash :: string

record expected_payment =
  xp_order :: string
  xp_provider :: string
  xp_amount :: idr
  xp_currency :: string
  xp_channel :: string
  xp_asset :: stroops

record payment_confirmation =
  cf_event :: string
  cf_expected :: expected_payment

section \<open>Views\<close>

text \<open>
  The Go code reuses the variable \<open>stellar\<close> for the deposit query: when the transfer query found
  a row, \<open>gorm\<close> adds that row's primary key to the condition.
\<close>

definition onramp_order_view :: "order_record \<Rightarrow> order_view repo" where
  "onramp_order_view r =
     (let view = (base_order_view r)\<lparr>ov_asset_code := [], ov_asset_issuer := []\<rparr> in
     act_bind (optional_row (select_first (\<lambda>d. first_by (\<lambda>c. (- pc_created c, pc_id c))
                 (\<lambda>c. pc_order c = or_id r) (checkouts d)))) (\<lambda>c.
     let view = (case c of None \<Rightarrow> view
           | Some c \<Rightarrow> view\<lparr>ov_checkout := Some
               \<lparr>co_provider_id = pc_provider_id c, co_request_id = [], co_method = pc_method c,
                co_status = pc_status c,
                co_presentation_type = deref_str (map_of (pc_metadata c) ''presentation_type''),
                co_presentation_value = deref_str (pc_presentation c),
                co_link_url = deref_str (map_of (pc_metadata c) ''payment_link_url''),
                co_expires = pc_expires c\<rparr>\<rparr>) in
     act_bind (optional_row (find_stellar (or_id r) ''transfer'')) (\<lambda>transfer.
     let view = (case transfer of None \<Rightarrow> view
           | Some s \<Rightarrow> (case st_hash s of None \<Rightarrow> view | Some h \<Rightarrow> view\<lparr>ov_tx_hash := h\<rparr>)) in
     if or_direction r = ''offramp'' then
       act_bind (optional_row (find_payout (or_id r))) (\<lambda>payout.
       let view = (case payout of None \<Rightarrow> view
             | Some p \<Rightarrow> view\<lparr>ov_payout := Some \<lparr>pv_reference = po_reference p, pv_method = po_method p,
                 pv_amount = po_amount p, pv_state = po_state p, pv_simulated = Some True,
                 pv_disclosure = sandbox_payout_disclosure_for None\<rparr>\<rparr>) in
       act_bind (optional_row (first_row stellar_txs st_id (\<lambda>s. st_order s = or_id r \<and>
           st_purpose s = ''deposit'' \<and> (case transfer of None \<Rightarrow> True | Some t \<Rightarrow> st_id s = st_id t)))) (\<lambda>deposit.
       let view = (case deposit of None \<Rightarrow> view
             | Some s \<Rightarrow> (case st_hash s of None \<Rightarrow> view | Some h \<Rightarrow> view\<lparr>ov_deposit_hash := h\<rparr>)) in
       act_bind (optional_row (find_stellar (or_id r) ''retirement'')) (\<lambda>retirement.
       act_ret (case retirement of None \<Rightarrow> view | Some s \<Rightarrow> apply_retirement_evidence view s))))
     else act_ret view)))"

text \<open>\<open>Get\<close> over either repository's view.\<close>

definition get_order :: "(order_record \<Rightarrow> order_view repo) \<Rightarrow> order_principal \<Rightarrow> string \<Rightarrow> order_view repo" where
  "get_order view p order_id =
     act_bind (act_lift (apply_order_ownership p)) (\<lambda>owned.
     act_bind (act_try (first_row orders or_id (\<lambda>r. or_id r = order_id \<and> owned r))) (\<lambda>res. case res of
       Inl e \<Rightarrow> if errors_is e ErrRecordNotFound then act_fail ErrOrderNotFound else act_fail e
     | Inr r \<Rightarrow> view r))"

definition onramp_get :: "order_principal \<Rightarrow> string \<Rightarrow> order_view repo" where
  "onramp_get = get_order onramp_order_view"

definition onramp_get_by_wallet :: "string \<Rightarrow> string \<Rightarrow> order_view repo" where
  "onramp_get_by_wallet wallet order_id =
     act_bind (act_try (first_row orders or_id
        (\<lambda>r. or_id r = order_id \<and> or_wallet_account r = Some (trim_space wallet)))) (\<lambda>res. case res of
       Inl e \<Rightarrow> if errors_is e ErrRecordNotFound then act_fail ErrOrderNotFound else act_fail e
     | Inr r \<Rightarrow> onramp_order_view r)"

section \<open>Listing\<close>

definition order_key :: "order_record \<Rightarrow> time \<times> string" where
  "order_key r = (or_created r, or_id r)"

text \<open>One page: the rows below the cursor in descending order, one more than the limit.\<close>

definition page_rows ::
  "(order_record \<Rightarrow> bool) \<Rightarrow> (time \<times> string) option \<Rightarrow> nat \<Rightarrow> order_record list \<Rightarrow> order_record list" where
  "page_rows P cursor n rows = keyset_rows order_key P cursor n rows"

definition page_cut :: "nat \<Rightarrow> order_record list \<Rightarrow> order_record list \<times> string" where
  "page_cut limit rows =
     (if limit < length rows then (take limit rows, or_id (rows ! (limit - 1))) else (rows, []))"

definition list_orders ::
  "(order_record \<Rightarrow> order_view repo) \<Rightarrow> order_principal \<Rightarrow> nat \<Rightarrow> string \<Rightarrow> (order_view list \<times> string) repo" where
  "list_orders view p limit cursor =
     act_bind (act_lift (apply_order_ownership p)) (\<lambda>owned.
     act_bind
       (if cursor \<noteq> [] then
          act_bind (act_try (first_row orders or_id (\<lambda>r. or_id r = cursor \<and> owned r))) (\<lambda>res. case res of
            Inl e \<Rightarrow> act_fail ErrOrderNotFound
          | Inr r \<Rightarrow> act_ret (Some (order_key r)))
        else act_ret None) (\<lambda>key.
     act_bind (select (\<lambda>d. page_rows owned key (limit + 1) (orders d))) (\<lambda>rows.
     case page_cut limit rows of (page, nxt) \<Rightarrow>
     act_bind (act_fold (\<lambda>r vs. act_bind (view r) (\<lambda>v. act_ret (vs @ [v]))) page []) (\<lambda>views.
     act_ret (views, nxt)))))"

definition onramp_list :: "order_principal \<Rightarrow> nat \<Rightarrow> string \<Rightarrow> (order_view list \<times> string) repo" where
  "onramp_list = list_orders onramp_order_view"

section \<open>Replay\<close>

text \<open>\<open>FindReplay\<close> of the on-ramp and \<open>FindOfframpReplay\<close> differ in the operation, the error of a record without order, and the view.\<close>

definition find_replay_of ::
  "string \<Rightarrow> err \<Rightarrow> (order_principal \<Rightarrow> string \<Rightarrow> order_view repo) \<Rightarrow>
   order_principal \<Rightarrow> string \<Rightarrow> string \<Rightarrow> order_view option repo" where
  "find_replay_of op missing get p key_hash request_hash =
     act_bind (act_lift (apply_idempotency_ownership p)) (\<lambda>owned.
     act_bind (optional_row (first_row idempotency ir_id
        (\<lambda>r. owned r \<and> ir_operation r = op \<and> ir_key r = key_hash))) (\<lambda>row. case row of
       None \<Rightarrow> act_ret None
     | Some r \<Rightarrow>
         if ir_request r \<noteq> request_hash then act_fail ErrIdempotencyConflict
         else (case ir_resource r of
           None \<Rightarrow> act_fail missing
         | Some i \<Rightarrow> act_bind (get p i) (\<lambda>v. act_ret (Some v)))))"

definition onramp_find_replay :: "order_principal \<Rightarrow> string \<Rightarrow> string \<Rightarrow> order_view option repo" where
  "onramp_find_replay = find_replay_of onramp_create_operation ErrCheckoutUnknown onramp_get"

section \<open>Creation\<close>

definition lock_treasury :: "onramp_config \<Rightarrow> stroops \<Rightarrow> time \<Rightarrow> treasury_account repo" where
  "lock_treasury c observed now =
     act_bind (optional_row (first_row treasuries ta_id
        (\<lambda>t. ta_network t = oc_network c \<and> ta_account t = oc_treasury c))) (\<lambda>row. case row of
       None \<Rightarrow>
         act_bind new_id (\<lambda>i.
         let t = \<lparr>ta_id = i, ta_network = oc_network c, ta_account = oc_treasury c, ta_observed = observed,
                  ta_reserved = 0, ta_buffer = oc_buffer c, ta_reconciled = now, ta_created = now,
                  ta_updated = now\<rparr> in
         act_bind (insert_treasury t) (\<lambda>_. act_ret t))
     | Some t \<Rightarrow>
         let t' = t\<lparr>ta_observed := observed, ta_reconciled := now, ta_updated := now\<rparr> in
         act_bind (update_treasuries (\<lambda>u. ta_id u = ta_id t) (\<lambda>_. t')) (\<lambda>_. act_ret t'))"

definition treasury_available :: "treasury_account \<Rightarrow> stroops" where
  "treasury_available t = wrap64 (wrap64 (ta_observed t - ta_reserved t) - ta_buffer t)"

definition add_reserved :: "string \<Rightarrow> int \<Rightarrow> nat repo" where
  "add_reserved i n =
     act_bind now_utc (\<lambda>now.
     update_treasuries (\<lambda>t. ta_id t = i) (\<lambda>t. t\<lparr>ta_reserved := ta_reserved t + n, ta_updated := now\<rparr>))"

definition onramp_order_row :: "onramp_config \<Rightarrow> order_ownership \<Rightarrow> create_record \<Rightarrow> order_record" where
  "onramp_order_row c w r =
     \<lparr>or_id = cr_order r, or_client_id = ow_client w, or_created_by = ow_created_by w,
      or_retail_session = ow_session w, or_wallet_account = str_ptr_if_not_empty (cr_wallet r),
      or_quote_id = str_ptr_if_not_empty (cr_quote_id r), or_direction = ''onramp'',
      or_status = OSCreated, or_version = 1, or_currency = ''IDR'', or_fiat_minor = fiat_amount (cr_quote r),
      or_asset_code = kxlm_asset_code, or_asset_issuer = oc_treasury c, or_network = oc_network c,
      or_asset_amount = stroops_string (asset_amount (cr_quote r)), or_asset_stroops = asset_amount (cr_quote r),
      or_quote_provider = ''coinmarketcap'', or_quote_source_at = source_at (cr_quote r),
      or_quote_rate = q_rate (cr_quote r), or_quote_adjusted = adjusted_rate (cr_quote r),
      or_quote_spread = q_spread_bps (cr_quote r), or_quote_expires = q_expires_at (cr_quote r),
      or_payment_method = Some (cr_method r), or_gateway = Some ''xendit'',
      or_stellar_source = Some (oc_treasury c), or_stellar_dest = Some (cr_destination r),
      or_stellar_memo = (if cr_memo r \<noteq> [] then Some (cr_memo r) else None),
      or_withdrawal_method = None, or_withdrawal_dest = [], or_expires = None, or_failure_code = None,
      or_failure_stage = None, or_failure_retry = None, or_created = cr_created r,
      or_updated = cr_created r, or_completed = None\<rparr>"

definition reserve_and_create :: "onramp_config \<Rightarrow> create_record \<Rightarrow> stroops \<Rightarrow> unit repo" where
  "reserve_and_create c r observed =
     act_bind (act_lift (order_ownership_for (cr_principal r))) (\<lambda>w.
     tx_do (
       act_bind (validate_retail_session_ownership (cr_principal r)) (\<lambda>_.
       act_bind (lock_treasury c observed (cr_created r)) (\<lambda>treasury.
       act_bind (act_guard (\<not> treasury_available treasury < kxlm_issue_fee_reserve) ErrInsufficientLiquidity) (\<lambda>_.
       let ord = onramp_order_row c w r in
       act_bind (insert_order ord) (\<lambda>_.
       act_bind (create_sandbox_order_financial ord) (\<lambda>_.
       act_bind new_id (\<lambda>reservation_id.
       act_bind (insert_reservation
         \<lparr>tr_id = reservation_id, tr_treasury = ta_id treasury, tr_order = or_id ord,
          tr_amount = kxlm_issue_fee_reserve, tr_status = RSReserved,
          tr_expires = q_expires_at (cr_quote r), tr_consumed = None, tr_released = None,
          tr_created = cr_created r, tr_updated = cr_created r\<rparr>) (\<lambda>_.
       act_bind (add_reserved (ta_id treasury) kxlm_issue_fee_reserve) (\<lambda>_.
       act_bind (append_order_event (or_id ord) 1 ''order.created'' OSUnknown OSCreated (cr_created r)) (\<lambda>_.
       act_bind new_id (\<lambda>idempotency_id.
       insert_idempotency
         \<lparr>ir_id = idempotency_id, ir_client = ow_client w, ir_user = ow_retail_user w,
          ir_operation = onramp_create_operation, ir_key = cr_key_hash r, ir_request = cr_request_hash r,
          ir_response = None, ir_resource = Some (or_id ord), ir_state = ISProcessing,
          ir_expires = cr_created r + 24 * hour, ir_created = cr_created r,
          ir_updated = cr_created r\<rparr>))))))))))))"

section \<open>Checkouts\<close>

definition attach_checkout_tx :: "string \<Rightarrow> checkout \<Rightarrow> unit repo" where
  "attach_checkout_tx order_id co =
     tx_do (
       act_bind (find_order order_id) (\<lambda>ord.
       act_bind (act_guard (or_status ord = OSCreated) ErrInvalidOrderState) (\<lambda>_.
       act_bind now_utc (\<lambda>now.
       act_bind new_id (\<lambda>checkout_id.
       act_bind (insert_checkout
         \<lparr>pc_id = checkout_id, pc_order = order_id, pc_provider = ''xendit'',
          pc_provider_id = co_provider_id co,
          pc_request_id = (if co_request_id co \<noteq> [] then Some (co_request_id co) else None),
          pc_method = co_method co, pc_currency = ''IDR'', pc_amount = or_fiat_minor ord,
          pc_status = co_status co, pc_presentation = Some (co_presentation_value co),
          pc_expires = co_expires co,
          pc_metadata = [(''payment_link_url'', co_link_url co),
            (''presentation_type'', co_presentation_type co),
            (''presentation_value'', co_presentation_value co)],
          pc_created = now, pc_updated = now\<rparr>) (\<lambda>_.
       act_bind (update_orders (\<lambda>r. or_id r = or_id ord \<and> or_version r = or_version ord)
         (\<lambda>r. r\<lparr>or_status := OSPaymentPending, or_version := or_version ord + 1, or_updated := now\<rparr>)) (\<lambda>_.
       act_bind (append_order_event (or_id ord) (or_version ord + 1) ''checkout.created''
         (or_status ord) OSPaymentPending now) (\<lambda>_.
       act_bind (update_idempotency
         (\<lambda>r. ir_resource r = Some (or_id ord) \<and> ir_operation r = onramp_create_operation)
         (\<lambda>r. r\<lparr>ir_state := ISCompleted, ir_response := Some 201, ir_updated := now\<rparr>)) (\<lambda>_.
       act_ret ())))))))))"

definition attach_checkout :: "string \<Rightarrow> checkout \<Rightarrow> order_view repo" where
  "attach_checkout order_id co =
     act_bind (attach_checkout_tx order_id co) (\<lambda>_.
     act_bind (find_order order_id) onramp_order_view)"

definition release_failed_order :: "string \<Rightarrow> order_status \<Rightarrow> string \<Rightarrow> string \<Rightarrow> unit repo" where
  "release_failed_order order_id status code reason =
     tx_do (
       act_bind (find_order order_id) (\<lambda>ord.
       act_bind (act_guard (or_status ord = OSCreated) ErrInvalidOrderState) (\<lambda>_.
       act_bind (first_row reservations tr_id
         (\<lambda>r. tr_order r = order_id \<and> tr_status r = RSReserved)) (\<lambda>reservation.
       act_bind now_utc (\<lambda>now.
       act_bind (update_reservations (\<lambda>r. tr_id r = tr_id reservation)
         (\<lambda>r. r\<lparr>tr_status := RSReleased, tr_released := Some now, tr_updated := now\<rparr>)) (\<lambda>_.
       act_bind (add_reserved (tr_treasury reservation) (- tr_amount reservation)) (\<lambda>_.
       act_bind (update_orders (\<lambda>r. or_id r = or_id ord \<and> or_version r = or_version ord)
         (\<lambda>r. r\<lparr>or_status := status, or_failure_code := Some code, or_failure_stage := Some ''payment'',
               or_failure_retry := Some False, or_updated := now, or_version := or_version ord + 1\<rparr>)) (\<lambda>_.
       append_order_event (or_id ord) (or_version ord + 1) ''checkout.failed'' (or_status ord) status now))))))))"

definition fail_checkout :: "string \<Rightarrow> string \<Rightarrow> unit repo" where
  "fail_checkout order_id reason = release_failed_order order_id OSPaymentFailed ''checkout_failed'' reason"

definition mark_checkout_unknown :: "string \<Rightarrow> string \<Rightarrow> unit repo" where
  "mark_checkout_unknown order_id reason =
     act_bind now_utc (\<lambda>now.
     act_bind (update_orders (\<lambda>r. or_id r = order_id \<and> or_status r = OSCreated)
       (\<lambda>r. r\<lparr>or_failure_code := Some ''checkout_unknown'', or_failure_stage := Some ''payment'',
             or_failure_retry := Some True, or_updated := now\<rparr>)) (\<lambda>_.
     act_ret ()))"

section \<open>Callbacks\<close>

definition find_gateway_event :: "string \<Rightarrow> gateway_event repo" where
  "find_gateway_event event_id =
     first_row gateway_events ge_id (\<lambda>g. ge_provider g = ''xendit'' \<and> ge_event g = event_id)"

definition receipt_seen :: "callback_receipt \<Rightarrow> gateway_event \<Rightarrow> bool repo" where
  "receipt_seen rc g =
     act_bind (act_guard (ge_payload_hash g = rc_payload_hash rc) ErrPaymentMismatch) (\<lambda>_.
     act_ret (ge_processed g \<noteq> None))"

definition record_callback_receipt :: "callback_receipt \<Rightarrow> bool repo" where
  "record_callback_receipt rc =
     act_bind (optional_row (find_gateway_event (rc_event rc))) (\<lambda>existing. case existing of
       Some g \<Rightarrow> receipt_seen rc g
     | None \<Rightarrow>
         act_bind new_id (\<lambda>i.
         act_bind now_utc (\<lambda>now.
         act_bind (insert_gateway_event
           \<lparr>ge_id = i, ge_provider = ''xendit'', ge_event = rc_event rc, ge_type = rc_type rc,
            ge_checkout = Some (rc_checkout rc), ge_order = None, ge_payload_hash = rc_payload_hash rc,
            ge_verified = True, ge_matching = ''pending'', ge_received = now, ge_processed = None,
            ge_status = ''received''\<rparr>) (\<lambda>affected.
         if 0 < affected then act_ret False
         else act_bind (find_gateway_event (rc_event rc)) (receipt_seen rc)))))"

definition get_expected_payment :: "string \<Rightarrow> expected_payment repo" where
  "get_expected_payment provider_id =
     act_bind (act_try (first_row checkouts pc_id
        (\<lambda>c. pc_provider c = ''xendit'' \<and>
             (pc_provider_id c = provider_id \<or> pc_request_id c = Some provider_id)))) (\<lambda>res. case res of
       Inl e \<Rightarrow> if errors_is e ErrRecordNotFound then act_fail ErrOrderNotFound else act_fail e
     | Inr c \<Rightarrow>
         act_bind (find_order (pc_order c)) (\<lambda>ord.
         act_ret \<lparr>xp_order = or_id ord, xp_provider = provider_id, xp_amount = pc_amount c,
           xp_currency = pc_currency c,
           xp_channel = (if pc_method c = PMXendit then []
                         else if pc_method c = PMBRIVA then ''BRI_VIRTUAL_ACCOUNT'' else ''QRIS''),
           xp_asset = or_asset_stroops ord\<rparr>))"

definition confirm_payment_and_enqueue :: "payment_confirmation \<Rightarrow> unit repo" where
  "confirm_payment_and_enqueue cf =
     tx_do (
       act_bind (find_order (xp_order (cf_expected cf))) (\<lambda>ord.
       if or_status ord = OSStellarProcessing \<or> or_status ord = OSCompleted then act_ret ()
       else
       act_bind (act_guard (or_status ord = OSPaymentPending) ErrInvalidOrderState) (\<lambda>_.
       act_bind now_utc (\<lambda>now.
       act_bind (update_orders (\<lambda>r. or_id r = or_id ord \<and> or_version r = or_version ord)
         (\<lambda>r. r\<lparr>or_status := OSStellarProcessing, or_version := or_version ord + 2, or_updated := now\<rparr>)) (\<lambda>_.
       act_bind (append_order_event (or_id ord) (or_version ord + 1) ''payment.confirmed''
         (or_status ord) OSPaymentConfirmed now) (\<lambda>_.
       act_bind (append_order_event (or_id ord) (or_version ord + 2) ''stellar.transfer_requested''
         OSPaymentConfirmed OSStellarProcessing now) (\<lambda>_.
       act_bind new_id (\<lambda>intent_row_id.
       let intent_id = ''stellar-onramp-'' @ or_id ord in
       act_bind (insert_stellar
         \<lparr>st_id = intent_row_id, st_order = or_id ord, st_intent = intent_id, st_purpose = ''transfer'',
          st_network = or_network ord, st_asset_code = or_asset_code ord,
          st_asset_issuer = or_asset_issuer ord, st_amount = or_asset_amount ord,
          st_source = or_stellar_source ord, st_dest = or_stellar_dest ord, st_memo = or_stellar_memo ord,
          st_hash = None, st_status = STPending, st_attempts = 0, st_ledger = None, st_error = None,
          st_created = now, st_updated = now\<rparr>) (\<lambda>_.
       act_bind new_id (\<lambda>outbox_id.
       act_bind (insert_outbox
         \<lparr>ob_id = outbox_id, ob_topic = settle_topic, ob_aggregate_type = ''order'',
          ob_aggregate = or_id ord,
          ob_payload = [(''intent_id'', intent_id), (''order_id'', or_id ord)], ob_created = now,
          ob_available = now, ob_lease_owner = None, ob_lease_until = None, ob_attempts = 0,
          ob_processed = None, ob_error = None\<rparr>) (\<lambda>_.
       act_bind (update_gateway_events (\<lambda>g. ge_provider g = ''xendit'' \<and> ge_event g = cf_event cf)
         (\<lambda>g. g\<lparr>ge_order := Some (or_id ord), ge_matching := ''matched'', ge_status := ''processing''\<rparr>)) (\<lambda>_.
       act_ret ()))))))))))))"

definition complete_callback :: "string \<Rightarrow> string \<Rightarrow> unit repo" where
  "complete_callback event_id result =
     act_bind now_utc (\<lambda>now.
     act_bind (update_gateway_events (\<lambda>g. ge_provider g = ''xendit'' \<and> ge_event g = event_id)
       (\<lambda>g. g\<lparr>ge_matching := result,
             ge_status := (if result \<noteq> ''processed'' then ''rejected'' else ''processed''),
             ge_processed := Some now\<rparr>)) (\<lambda>_.
     act_ret ()))"

section \<open>The ledger invariant\<close>

lemma onramp_order_view_reads: "reads (onramp_order_view r)"
  unfolding onramp_order_view_def store_defs
  by (intro readsI outcome_intro) simp_all

lemma release_failed_order_inv:
  assumes inv: "ledger_inv d"
  shows "outcome (release_failed_order i OSPaymentFailed code reason) (\<lambda>_. ledger_inv) (\<lambda>_. ledger_inv) d t"
  unfolding release_failed_order_def store_defs add_reserved_def
proof (intro outcome_intro, goal_cases)
  case (1 r q rs ts os es i ws us ms ns)
  have L: "ledger_ok (orders d) (order_events d) (treasuries d) (reservations d) (payouts d)"
    by (rule ledger_inv_ok [OF inv])
  have "treasury_balanced ts rs"
    using 1 L by (auto intro!: treasury_close dest!: first_by_Some simp: ledger_ok_def)
  from ledger_ok_treasury [OF L this]
  have "ledger_ok os es ts rs (payouts d)"
    using 1 by (auto intro!: ledger_ok_advance [where r = r and n = OSPaymentFailed] dest!: first_by_Some)
  then show ?case by (simp add: ledger_inv_def)
qed (auto simp: inv)

lemma fail_checkout_inv:
  "ledger_inv d \<Longrightarrow> outcome (fail_checkout i reason) (\<lambda>_. ledger_inv) (\<lambda>_. ledger_inv) d t"
  unfolding fail_checkout_def by (rule release_failed_order_inv)

lemma mark_checkout_unknown_inv:
  assumes inv: "ledger_inv d"
  shows "outcome (mark_checkout_unknown i reason) (\<lambda>_. ledger_inv) (\<lambda>_. ledger_inv) d t"
  unfolding mark_checkout_unknown_def store_defs
proof (intro outcome_intro, goal_cases)
  case (1 rs)
  with ledger_ok_neutral [OF ledger_inv_ok [OF inv]] show ?case by (simp add: ledger_inv_def)
qed (rule inv)

lemma attach_checkout_tx_inv:
  assumes inv: "ledger_inv d"
  shows "outcome (attach_checkout_tx i co) (\<lambda>_. ledger_inv) (\<lambda>_. ledger_inv) d t"
  unfolding attach_checkout_tx_def store_defs
proof (intro outcome_intro, goal_cases)
  case (1 r co_id cs os es ev_id ws us ms ns irs)
  then have "ledger_ok os es (treasuries d) (reservations d) (payouts d)"
    using ledger_inv_ok [OF inv]
    by (auto intro!: ledger_ok_advance [where r = r and n = OSPaymentPending] dest!: first_by_Some)
  then show ?case by (simp add: ledger_inv_def)
qed (auto simp: inv)

lemma attach_checkout_inv:
  "ledger_inv d \<Longrightarrow> outcome (attach_checkout i co) (\<lambda>_. ledger_inv) (\<lambda>_. ledger_inv) d t"
  unfolding attach_checkout_def store_defs
  by (rule outcome_seq [OF attach_checkout_tx_inv])
     (assumption | intro outcome_intro outcome_reads [OF onramp_order_view_reads])+

lemma record_callback_receipt_inv:
  "ledger_inv d \<Longrightarrow> outcome (record_callback_receipt rc) (\<lambda>_. ledger_inv) (\<lambda>_. ledger_inv) d t"
  unfolding record_callback_receipt_def find_gateway_event_def receipt_seen_def
  by (intro outcome_intro) (simp_all add: ledger_inv_def)

lemma complete_callback_inv:
  "ledger_inv d \<Longrightarrow> outcome (complete_callback e r) (\<lambda>_. ledger_inv) (\<lambda>_. ledger_inv) d t"
  unfolding complete_callback_def store_defs
  by (intro outcome_intro) (simp_all add: ledger_inv_def)

lemma confirm_payment_inv:
  assumes inv: "ledger_inv d"
  shows "outcome (confirm_payment_and_enqueue cf) (\<lambda>_. ledger_inv) (\<lambda>_. ledger_inv) d t"
  unfolding confirm_payment_and_enqueue_def store_defs
proof (intro outcome_intro, goal_cases)
  case (2 r os es1 e1 ws1 us1 ms1 ns1 es2 e2 ws2 us2 ms2 ns2 row_id intent sts ob_id obs ges)
  then have "ledger_ok os es2 (treasuries d) (reservations d) (payouts d)"
    using ledger_inv_ok [OF inv]
    by (auto intro!: ledger_ok_advance2 [where r = r and ?n1.0 = OSPaymentConfirmed and ?n2.0 = OSStellarProcessing]
        dest!: first_by_Some)
  then show ?case by (simp add: ledger_inv_def)
qed (auto simp: inv)

text \<open>Locking the treasury row creates it or reconciles its observed balance.\<close>

lemma outcome_lock_treasury:
  assumes b: "treasury_balanced (treasuries d) (reservations d)"
    and Q: "\<And>ts tr. tr \<in> set ts \<Longrightarrow> treasury_balanced ts (reservations d) \<Longrightarrow> ta_observed tr = observed \<Longrightarrow>
      ta_network tr = oc_network c \<Longrightarrow> ta_account tr = oc_treasury c \<Longrightarrow> Q tr (d\<lparr>treasuries := ts\<rparr>)"
    and E: "\<And>e d'. E e d'"
  shows "outcome (lock_treasury c observed now) Q E d t"
  unfolding lock_treasury_def insert_treasury_def update_treasuries_def
proof (intro outcome_intro E, goal_cases)
  case (1 tr tr' ts)
  show ?case
  proof (rule Q)
    from 1 have tr: "tr \<in> set (treasuries d)" "ta_network tr = oc_network c \<and> ta_account tr = oc_treasury c"
      by (auto dest!: first_by_Some)
    then show "tr' \<in> set ts" using 1 by (force simp: update_rows_def)
    show "treasury_balanced ts (reservations d)"
      using 1 tr b by (auto intro!: treasury_reconcile)
    show "ta_observed tr' = observed" "ta_network tr' = oc_network c" "ta_account tr' = oc_treasury c"
      using 1 tr by simp_all
  qed
next
  case (2 i tr ts)
  show ?case
    by (rule Q) (use 2 b in \<open>auto intro!: treasury_new\<close>)
qed

lemma reserve_and_create_inv:
  assumes inv: "ledger_inv d"
  shows "outcome (reserve_and_create c r observed) (\<lambda>_. ledger_inv) (\<lambda>_. ledger_inv) d t"
proof -
  have L: "ledger_ok (orders d) (order_events d) (treasuries d) (reservations d) (payouts d)"
    by (rule ledger_inv_ok [OF inv])
  then have b: "treasury_balanced (treasuries d) (reservations d)" by (simp add: ledger_ok_def)
  show ?thesis
    unfolding reserve_and_create_def store_defs add_reserved_def
  proof (intro outcome_intro outcome_lock_treasury b, goal_cases)
    case (1 w ts tr ord os fs f ri rs ts2 es ei ws us ms ns ii irs)
    have tb: "treasury_balanced ts2 rs"
      using 1 by (auto intro!: treasury_open_at)
    have o: "or_id ord = cr_order r" "or_status ord = OSCreated" "or_version ord = 1"
      "or_direction ord \<noteq> ''offramp''" using 1 by (simp_all add: onramp_order_row_def)
    have os: "os = orders d @ [ord]" "\<And>q. q \<in> set (orders d) \<Longrightarrow> or_id ord \<noteq> or_id q"
      using 1 by simp_all
    obtain e where e: "es = order_events d @ [e]" "ev_order e = or_id ord" "ev_version e = 1"
      "ev_prev e = None" "ev_next e = Some OSCreated" using 1 by simp
    have "ledger_ok os es ts2 rs (payouts d)"
      unfolding os(1) e(1)
      by (rule ledger_ok_create [OF ledger_ok_treasury [OF L tb]])
         (use os(2) in \<open>simp_all add: e o log_conforms_new\<close>)
    then show ?case by (simp add: ledger_inv_def)
  qed (auto simp: inv)
qed

end
