(* ===== verification/Interfaces.thy ===== *)
theory Interfaces
  imports Tables
begin

text \<open>
  The contracts between the parts of the program, as locales: a system of operations that keeps
  an invariant, a queue whose messages are leased, and an operation that is filed
  under an idempotency key. (The contracts of encodings and of pages are in the prelude and in the
  paging theory.) Each is interpreted on the model's
  definitions in the theory that provides them.
\<close>

section \<open>Invariants of a system of operations\<close>

locale invariant_system =
  fixes run :: "'o \<Rightarrow> unit repo"
    and inv :: "db \<Rightarrow> bool"
  assumes run_keeps: "inv d \<Longrightarrow> outcome (run op) (\<lambda>_. inv) (\<lambda>_. inv) d t"
begin

text \<open>A schedule: each operation starts on the database the one before left, in its own world.\<close>

fun schedule :: "('o \<times> (db \<Rightarrow> world)) list \<Rightarrow> db \<Rightarrow> db" where
  "schedule [] d = d"
| "schedule ((op, env) # ops) d = schedule ops (w_db (snd (run op (env d))))"

lemma step_keeps: "inv (w_db w) \<Longrightarrow> inv (w_db (snd (run op w)))"
  by (rule outcome_state) (rule run_keeps)

lemma schedule_keeps:
  "inv d \<Longrightarrow> list_all (\<lambda>p. \<forall>d. w_db (snd p d) = d) ops \<Longrightarrow> inv (schedule ops d)"
  by (induction ops d rule: schedule.induct) (simp_all add: step_keeps)

end

section \<open>Leased queues\<close>

text \<open>
  A lease picks a pending message of its kind whose lease is over, marks it, and changes nothing
  else of the queue; a failure changes nothing at all.
\<close>

definition lease_over :: "time \<Rightarrow> outbox_message \<Rightarrow> bool" where
  "lease_over now m \<longleftrightarrow> (case ob_lease_until m of None \<Rightarrow> True | Some u \<Rightarrow> u < now)"

definition leased_to :: "string \<Rightarrow> string \<Rightarrow> time \<Rightarrow> outbox_message list \<Rightarrow> outbox_message list" where
  "leased_to i worker until rows = update_rows (\<lambda>m. ob_id m = i)
     (\<lambda>m. m\<lparr>ob_lease_owner := Some worker, ob_lease_until := Some until, ob_attempts := ob_attempts m + 1\<rparr>) rows"

text \<open>Two leases never hold one message at one time.\<close>

definition never_shared :: "(string \<Rightarrow> time \<Rightarrow> duration \<Rightarrow> 'j repo) \<Rightarrow> ('j \<Rightarrow> string) \<Rightarrow> bool" where
  "never_shared lease message \<longleftrightarrow>
     (\<forall>worker1 now1 dur1 w j1 w1 v worker2 now2 dur2 j2 v1.
        lease worker1 now1 dur1 w = (Inr j1, w1) \<and> w_db v = w_db w1 \<and> now2 \<le> now1 + dur1 \<and>
        lease worker2 now2 dur2 v = (Inr j2, v1) \<longrightarrow> message j2 \<noteq> message j1)"

locale leased_queue =
  fixes lease :: "string \<Rightarrow> time \<Rightarrow> duration \<Rightarrow> 'j repo"
    and message :: "'j \<Rightarrow> string"
    and kind :: "string \<Rightarrow> bool"
    and max_attempts :: int
  assumes lease_picks: "outcome (lease worker now dur)
      (\<lambda>j d'. (\<exists>m \<in> set (outbox d). ob_id m = message j \<and> kind (ob_topic m) \<and> ob_processed m = None \<and>
          ob_available m \<le> now \<and> ob_attempts m < max_attempts \<and> lease_over now m) \<and>
        d' = d\<lparr>outbox := leased_to (message j) worker (now + dur) (outbox d)\<rparr>)
      (\<lambda>_ d'. d' = d) d t"
begin

lemma lease_failed: "lease worker now dur w = (Inl e, w') \<Longrightarrow> w_db w' = w_db w"
  using outcome_Inl [OF lease_picks] .

text \<open>While a lease lasts, no other worker gets the same message.\<close>

lemma lease_exclusive:
  assumes "lease worker1 now1 dur1 w = (Inr j1, w1)"
    and "w_db v = w_db w1" and "now2 \<le> now1 + dur1"
    and "lease worker2 now2 dur2 v = (Inr j2, v1)"
  shows "message j2 \<noteq> message j1"
proof
  assume e: "message j2 = message j1"
  from outcome_Inr [OF lease_picks assms(1)]
  have w1: "outbox (w_db w1) = leased_to (message j1) worker1 (now1 + dur1) (outbox (w_db w))" by simp
  from conjunct1 [OF outcome_Inr [OF lease_picks assms(4)]] obtain m where
    m: "m \<in> set (outbox (w_db w1))" "ob_id m = message j1" "lease_over now2 m"
    unfolding e assms(2) by blast
  then have "ob_lease_until m = Some (now1 + dur1)"
    unfolding w1 leased_to_def by (auto simp: update_rows_def)
  with m(3) assms(3) show False by (simp add: lease_over_def)
qed

lemma lease_not_shared: "never_shared lease message"
  unfolding never_shared_def using lease_exclusive by blast

text \<open>A message whose attempts are used up is never leased again.\<close>

lemma lease_used_up:
  assumes "lease worker now dur w = (Inr j, w')"
    and "\<And>m. m \<in> set (outbox (w_db w)) \<Longrightarrow> ob_id m = i \<Longrightarrow> max_attempts \<le> ob_attempts m"
  shows "message j \<noteq> i"
proof
  assume i: "message j = i"
  from conjunct1 [OF outcome_Inr [OF lease_picks assms(1)]] obtain m where
    m: "m \<in> set (outbox (w_db w))" "ob_id m = message j" "ob_attempts m < max_attempts" by blast
  from assms(2) [OF m(1)] m(2,3) i show False by simp
qed

end

section \<open>Idempotent operations\<close>

text \<open>
  A successful run files its key, a failed one changes nothing, and with the key on file no run
  succeeds. A filed key stays on file as long as a record of the same scope, operation and key
  is kept, whatever becomes of its other columns.
\<close>

definition idem_keys :: "db \<Rightarrow> (string option \<times> string option \<times> string \<times> string) set" where
  "idem_keys d = (\<lambda>r. (ir_client r, ir_user r, ir_operation r, ir_key r)) ` set (idempotency d)"

locale filed_operation =
  fixes create :: "'c \<Rightarrow> 'v repo"
    and on_file :: "'c \<Rightarrow> db \<Rightarrow> bool"
  assumes create_files: "outcome (create c) (\<lambda>_. on_file c) (\<lambda>_ d'. d' = d) d t"
    and create_refused: "on_file c d \<Longrightarrow> outcome (create c) (\<lambda>_ _. False) (\<lambda>_ d'. d' = d) d t"
    and on_file_mono: "on_file c d \<Longrightarrow> idem_keys d \<subseteq> idem_keys d' \<Longrightarrow> on_file c d'"
begin

lemma create_once:
  assumes "create c w = (Inr v, w1)" and "idem_keys (w_db w1) \<subseteq> idem_keys (w_db u)"
  shows "\<exists>e u1. create c u = (Inl e, u1) \<and> w_db u1 = w_db u"
proof -
  have "on_file c (w_db w1)" by (rule outcome_Inr [OF create_files assms(1)])
  then have f: "on_file c (w_db u)" using assms(2) by (rule on_file_mono)
  obtain r u1 where c: "create c u = (r, u1)" by fastforce
  from outcomeD [OF create_refused [OF f] refl refl c] c show ?thesis
    by (cases r) auto
qed

end

section \<open>Single-use tokens\<close>

text \<open>
  Redeeming a token spends it, and a spent token is refused for as long as it stays on record,
  which the other operations see to.
\<close>

locale single_use =
  fixes redeem :: "'k \<Rightarrow> time \<Rightarrow> 'v repo"
    and spent :: "'k \<Rightarrow> db \<Rightarrow> bool"
    and ok :: "db \<Rightarrow> bool"
  assumes redeem_spends: "ok d \<Longrightarrow> outcome (redeem k now) (\<lambda>_. spent k) (\<lambda>_ d'. d' = d) d t"
    and spent_refused: "ok d \<Longrightarrow> spent k d \<Longrightarrow> outcome (redeem k now) (\<lambda>_ _. False) (\<lambda>_ d'. d' = d) d t"
begin

lemma redeemed_spent: "ok (w_db w) \<Longrightarrow> redeem k now w = (Inr v, w') \<Longrightarrow> spent k (w_db w')"
  using outcome_Inr [OF redeem_spends] .

lemma refused: "ok (w_db w) \<Longrightarrow> spent k (w_db w) \<Longrightarrow>
    \<exists>e w'. redeem k now w = (Inl e, w') \<and> w_db w' = w_db w \<and> w_now w' = w_now w"
proof -
  assume s: "ok (w_db w)" "spent k (w_db w)"
  obtain r w' where r: "redeem k now w = (r, w')" by fastforce
  from outcomeD [OF spent_refused [OF s] refl refl r] r show ?thesis by (cases r) auto
qed

lemma redeemed_once:
  assumes "ok (w_db w)" and "redeem k now w = (Inr v, w1)"
    and "spent k (w_db w1) \<Longrightarrow> spent k (w_db u)" and "ok (w_db u)"
  shows "\<exists>e u'. redeem k now' u = (Inl e, u') \<and> w_db u' = w_db u"
  using refused [OF assms(4)] assms(3) redeemed_spent [OF assms(1,2)] by blast

end

end
