(* ===== verification/Settlement_Repo.thy ===== *)
theory Settlement_Repo
  imports Onramp_Repo Interfaces
begin

text \<open>
  \<open>internal/repository/settlement_repository.go\<close>: the outbox lease, the settlement intent and
  its terminal transitions, and the release of expired treasury reservations.
\<close>

record job =
  jb_outbox :: string
  jb_intent :: string

record transfer =
  tf_order :: string
  tf_source :: string
  tf_destination :: string
  tf_asset_code :: string
  tf_asset_issuer :: string
  tf_clawback_from :: string
  tf_amount :: stroops
  tf_memo :: string

record intent =
  in_id :: string
  in_hash :: string
  in_transfer :: transfer

section \<open>Leases\<close>

definition leasable :: "string \<Rightarrow> int \<Rightarrow> time \<Rightarrow> outbox_message \<Rightarrow> bool" where
  "leasable topic max_attempts now m \<longleftrightarrow>
     ob_topic m = topic \<and> ob_processed m = None \<and> ob_available m \<le> now \<and> ob_attempts m < max_attempts \<and>
     (case ob_lease_until m of None \<Rightarrow> True | Some u \<Rightarrow> u < now)"

definition lease_key :: "outbox_message \<Rightarrow> time \<times> time \<times> string" where
  "lease_key m = (ob_available m, ob_created m, ob_id m)"

definition lease_row :: "string \<Rightarrow> int \<Rightarrow> string \<Rightarrow> time \<Rightarrow> duration \<Rightarrow> outbox_message repo" where
  "lease_row topic max_attempts worker now dur =
     act_bind (optional_row (first_row outbox lease_key (leasable topic max_attempts now))) (\<lambda>row. case row of
       None \<Rightarrow> act_fail ErrNoJob
     | Some m \<Rightarrow>
         act_bind (update_outbox (\<lambda>r. ob_id r = ob_id m)
           (\<lambda>r. r\<lparr>ob_lease_owner := Some worker, ob_lease_until := Some (now + dur),
                 ob_attempts := ob_attempts r + 1\<rparr>)) (\<lambda>_.
         act_ret m))"

definition normalize_outbox_job :: "string \<Rightarrow> job \<Rightarrow> job" where
  "normalize_outbox_job row_id j = (if jb_outbox j = [] then j\<lparr>jb_outbox := row_id\<rparr> else j)"

text \<open>\<open>LeaseOutbox\<close> runs in a plain transaction, without the retries of \<open>txManager\<close>.\<close>

definition lease_outbox ::
  "int \<Rightarrow> ((string \<times> string) list \<Rightarrow> err + job) \<Rightarrow> string \<Rightarrow> string \<Rightarrow> time \<Rightarrow> duration \<Rightarrow> job repo" where
  "lease_outbox max_attempts decode topic worker now dur =
     tx_body (
       act_bind (lease_row topic max_attempts worker now dur) (\<lambda>m.
       case decode (ob_payload m) of
         Inl _ \<Rightarrow> act_fail (ErrText (''invalid '' @ topic @ '' outbox payload''))
       | Inr j \<Rightarrow> act_ret (normalize_outbox_job (ob_id m) j)))"

definition settlement_lease :: "int \<Rightarrow> string \<Rightarrow> time \<Rightarrow> duration \<Rightarrow> job repo" where
  "settlement_lease max_attempts worker now dur =
     tx_do (
       act_bind (lease_row settle_topic max_attempts worker now dur) (\<lambda>m.
       let intent_id = deref_str (map_of (ob_payload m) ''intent_id'') in
       if intent_id = [] then act_fail (ErrText ''invalid settlement outbox payload'')
       else act_ret \<lparr>jb_outbox = ob_id m, jb_intent = intent_id\<rparr>))"

definition finish_outbox :: "string \<Rightarrow> string \<Rightarrow> time \<Rightarrow> unit repo" where
  "finish_outbox topic aggregate_id now =
     act_bind (update_outbox
       (\<lambda>r. ob_topic r = topic \<and> ob_aggregate r = aggregate_id \<and> ob_processed r = None)
       (\<lambda>r. r\<lparr>ob_processed := Some now, ob_lease_owner := None, ob_lease_until := None\<rparr>)) (\<lambda>_.
     act_ret ())"

text \<open>The update that closes an aggregate's pending message inside a larger transaction.\<close>

definition close_outbox :: "string \<Rightarrow> string \<Rightarrow> time \<Rightarrow> string option \<Rightarrow> unit repo" where
  "close_outbox topic aggregate_id now last_error =
     act_bind (update_outbox
       (\<lambda>r. ob_topic r = topic \<and> ob_aggregate r = aggregate_id \<and> ob_processed r = None)
       (\<lambda>r. r\<lparr>ob_processed := Some now, ob_lease_owner := None, ob_lease_until := None,
             ob_error := last_error\<rparr>)) (\<lambda>_.
     act_ret ())"

section \<open>Intents\<close>

definition load_intent :: "string \<Rightarrow> intent repo" where
  "load_intent intent_id =
     act_bind (first_row stellar_txs st_id (\<lambda>s. st_intent s = intent_id \<and> st_purpose s = ''transfer'')) (\<lambda>row.
     act_bind (act_lift (parse_stroops (st_amount row))) (\<lambda>amount.
     act_ret \<lparr>in_id = st_intent row, in_hash = deref_str (st_hash row),
       in_transfer = \<lparr>tf_order = st_order row, tf_source = deref_str (st_source row),
         tf_destination = deref_str (st_dest row), tf_asset_code = st_asset_code row,
         tf_asset_issuer = st_asset_issuer row, tf_clawback_from = [], tf_amount = amount,
         tf_memo = deref_str (st_memo row)\<rparr>\<rparr>))"

definition mark_submitted :: "string \<Rightarrow> string \<Rightarrow> time \<Rightarrow> unit repo" where
  "mark_submitted intent_id hash now =
     act_bind (update_stellar (\<lambda>s. st_intent s = intent_id)
       (\<lambda>s. s\<lparr>st_hash := Some hash, st_status := STSubmitted, st_attempts := st_attempts s + 1,
             st_updated := now\<rparr>)) (\<lambda>_.
     act_ret ())"

definition append_settlement_event :: "order_record \<Rightarrow> time \<Rightarrow> unit repo" where
  "append_settlement_event ord now =
     append_order_event_from_source (or_id ord) (or_version ord + 1) ''stellar.transfer_confirmed''
       (or_status ord) OSCompleted ''worker'' now"

definition consume_reservation :: "treasury_reservation \<Rightarrow> time \<Rightarrow> unit repo" where
  "consume_reservation reservation now =
     (if tr_status reservation = RSReserved then
        act_bind (update_reservations (\<lambda>r. tr_id r = tr_id reservation)
          (\<lambda>r. r\<lparr>tr_status := RSConsumed, tr_consumed := Some now, tr_updated := now\<rparr>)) (\<lambda>_.
        act_bind (add_reserved (tr_treasury reservation) (- tr_amount reservation)) (\<lambda>_.
        act_ret ()))
      else act_ret ())"

definition settlement_confirm :: "string \<Rightarrow> string \<Rightarrow> time \<Rightarrow> unit repo" where
  "settlement_confirm intent_id hash ledger_at =
     tx_do (
       act_bind (find_intent intent_id) (\<lambda>stellar.
       if st_status stellar = STConfirmed then act_ret ()
       else
       act_bind (act_guard (st_hash stellar = Some hash) (ErrText ''settlement hash mismatch'')) (\<lambda>_.
       act_bind now_utc (\<lambda>now.
       act_bind (update_stellar (\<lambda>s. st_id s = st_id stellar)
         (\<lambda>s. s\<lparr>st_status := STConfirmed, st_ledger := Some ledger_at, st_updated := now\<rparr>)) (\<lambda>_.
       act_bind (first_row reservations tr_id (\<lambda>r. tr_order r = st_order stellar)) (\<lambda>reservation.
       act_bind (consume_reservation reservation now) (\<lambda>_.
       act_bind (find_order (st_order stellar)) (\<lambda>ord.
       act_bind (act_guard (or_status ord = OSStellarProcessing) ErrInvalidOrderState) (\<lambda>_.
       act_bind (update_orders (\<lambda>r. or_id r = or_id ord)
         (\<lambda>r. r\<lparr>or_status := OSCompleted, or_version := or_version ord + 1, or_completed := Some now,
               or_updated := now\<rparr>)) (\<lambda>_.
       act_bind (update_sep24 (\<lambda>s. s24_order s = st_order stellar) (\<lambda>s. s\<lparr>s24_stellar := Some hash\<rparr>)) (\<lambda>_.
       act_bind (append_settlement_event ord now) (\<lambda>_.
       close_outbox settle_topic (or_id ord) now None))))))))))))"

definition mark_unknown :: "string \<Rightarrow> string \<Rightarrow> unit repo" where
  "mark_unknown intent_id safe_error =
     act_bind now_utc (\<lambda>now.
     act_bind (update_stellar (\<lambda>s. st_intent s = intent_id)
       (\<lambda>s. s\<lparr>st_status := STUnknown, st_error := Some safe_error, st_updated := now\<rparr>)) (\<lambda>_.
     act_ret ()))"

definition fail_permanent :: "string \<Rightarrow> string \<Rightarrow> unit repo" where
  "fail_permanent intent_id safe_error =
     tx_do (
       act_bind (find_intent intent_id) (\<lambda>stellar.
       act_bind (find_order (st_order stellar)) (\<lambda>ord.
       act_bind (act_guard (or_status ord = OSStellarProcessing) ErrInvalidOrderState) (\<lambda>_.
       act_bind now_utc (\<lambda>now.
       act_bind (update_stellar (\<lambda>s. st_id s = st_id stellar)
         (\<lambda>s. s\<lparr>st_status := STFailed, st_error := Some safe_error, st_updated := now\<rparr>)) (\<lambda>_.
       act_bind (update_orders (\<lambda>r. or_id r = or_id ord \<and> or_version r = or_version ord)
         (\<lambda>r. r\<lparr>or_status := OSStellarFailed, or_failure_code := Some ''stellar_permanent_failure'',
               or_failure_stage := Some ''stellar'', or_failure_retry := Some False,
               or_version := or_version ord + 1, or_updated := now\<rparr>)) (\<lambda>_.
       act_bind (append_order_event (or_id ord) (or_version ord + 1) ''stellar.failed'' (or_status ord)
         OSStellarFailed now) (\<lambda>_.
       close_outbox settle_topic (st_order stellar) now (Some safe_error)))))))))"

definition retry_later :: "string \<Rightarrow> time \<Rightarrow> string \<Rightarrow> unit repo" where
  "retry_later intent_id available_at safe_error =
     act_bind (find_intent intent_id) (\<lambda>stellar.
     act_bind (update_outbox
       (\<lambda>r. ob_topic r = settle_topic \<and> ob_aggregate r = st_order stellar \<and> ob_processed r = None)
       (\<lambda>r. r\<lparr>ob_available := available_at, ob_lease_owner := None, ob_lease_until := None,
             ob_error := Some safe_error\<rparr>)) (\<lambda>_.
     act_ret ()))"

definition reset_submitted :: "string \<Rightarrow> string \<Rightarrow> unit repo" where
  "reset_submitted intent_id safe_error =
     act_bind now_utc (\<lambda>now.
     act_bind (update_stellar (\<lambda>s. st_intent s = intent_id)
       (\<lambda>s. s\<lparr>st_hash := None, st_status := STPending, st_error := Some safe_error, st_updated := now\<rparr>)) (\<lambda>_.
     act_ret ()))"

section \<open>Expired reservations\<close>

definition release_one :: "time \<Rightarrow> treasury_reservation \<Rightarrow> nat \<Rightarrow> nat repo" where
  "release_one now reservation released =
     act_bind (find_order (tr_order reservation)) (\<lambda>ord.
     if or_status ord \<noteq> OSPaymentPending then act_ret released
     else
     act_bind (update_reservations (\<lambda>r. tr_id r = tr_id reservation)
       (\<lambda>r. r\<lparr>tr_status := RSReleased, tr_released := Some now, tr_updated := now\<rparr>)) (\<lambda>_.
     act_bind (add_reserved (tr_treasury reservation) (- tr_amount reservation)) (\<lambda>_.
     act_bind (update_orders (\<lambda>r. or_id r = or_id ord \<and> or_version r = or_version ord)
       (\<lambda>r. r\<lparr>or_status := OSExpired, or_version := or_version ord + 1, or_updated := now\<rparr>)) (\<lambda>_.
     act_bind (append_order_event (or_id ord) (or_version ord + 1) ''order.expired'' (or_status ord)
       OSExpired now) (\<lambda>_.
     act_ret (released + 1))))))"

definition expired_reservation :: "time \<Rightarrow> treasury_reservation \<Rightarrow> bool" where
  "expired_reservation now r \<longleftrightarrow> tr_status r = RSReserved \<and> tr_expires r < now"

definition release_expired_reservations :: "time \<Rightarrow> nat \<Rightarrow> nat repo" where
  "release_expired_reservations now limit =
     tx_do (
       act_bind (select (\<lambda>d. select_by tr_expires (expired_reservation now) limit (reservations d))) (\<lambda>rs.
       act_fold (release_one now) rs 0))"

section \<open>The ledger invariant\<close>

lemma outcome_lease_row:
  assumes "\<And>m os. first_by lease_key (leasable topic k now) (outbox d) = Some m \<Longrightarrow>
      os = update_rows (\<lambda>r. ob_id r = ob_id m)
           (\<lambda>r. r\<lparr>ob_lease_owner := Some worker, ob_lease_until := Some (now + dur),
                 ob_attempts := ob_attempts r + 1\<rparr>) (outbox d) \<Longrightarrow> Q m (d\<lparr>outbox := os\<rparr>)"
    and "\<And>e. E e d" and "\<And>e d'. E e d'"
  shows "outcome (lease_row topic k worker now dur) Q E d t"
  unfolding lease_row_def store_defs
  by (intro outcome_intro assms)

lemma outcome_tx_body_inv:
  assumes "I d" and "outcome body (\<lambda>_. I) (\<lambda>_ _. True) d t"
  shows "outcome (tx_body body) (\<lambda>_. I) (\<lambda>_. I) d t"
  by (rule outcome_weaken [OF outcome_tx_body [OF assms(2)]]) (simp_all add: assms(1))

lemma lease_outbox_inv:
  assumes inv: "ledger_inv d"
  shows "outcome (lease_outbox k decode topic worker now dur) (\<lambda>_. ledger_inv) (\<lambda>_. ledger_inv) d t"
  unfolding lease_outbox_def
  by (rule outcome_tx_body_inv [where I = ledger_inv, OF inv], intro outcome_intro outcome_lease_row)
     (use inv in \<open>simp_all add: ledger_inv_def\<close>)

lemma settlement_lease_inv:
  assumes inv: "ledger_inv d"
  shows "outcome (settlement_lease k worker now dur) (\<lambda>_. ledger_inv) (\<lambda>_. ledger_inv) d t"
  unfolding settlement_lease_def
  by (intro outcome_intro outcome_lease_row) (use inv in \<open>simp_all add: ledger_inv_def\<close>)

text \<open>
  The leases meet the contract of a leased queue. The decoders of the workers leave the message
  id to \<open>normalizeOutboxJob\<close>.
\<close>

lemma lease_row_picks:
  assumes "\<And>m os. m \<in> set (outbox d) \<Longrightarrow> ob_topic m = topic \<Longrightarrow> ob_processed m = None \<Longrightarrow> ob_available m \<le> now \<Longrightarrow>
      ob_attempts m < k \<Longrightarrow> lease_over now m \<Longrightarrow> os = leased_to (ob_id m) worker (now + dur) (outbox d) \<Longrightarrow>
      Q m (d\<lparr>outbox := os\<rparr>)"
    and "\<And>e d'. E e d'"
  shows "outcome (lease_row topic k worker now dur) Q E d t"
proof (rule outcome_lease_row)
  fix m os
  assume f: "first_by lease_key (leasable topic k now) (outbox d) = Some m"
    and os: "os = update_rows (\<lambda>r. ob_id r = ob_id m)
      (\<lambda>r. r\<lparr>ob_lease_owner := Some worker, ob_lease_until := Some (now + dur),
            ob_attempts := ob_attempts r + 1\<rparr>) (outbox d)"
  show "Q m (d\<lparr>outbox := os\<rparr>)"
    by (rule assms(1)) (use first_by_Some [OF f] os in \<open>simp_all add: leasable_def lease_over_def leased_to_def\<close>)
qed (rule assms(2))+

interpretation settlement_queue: leased_queue "settlement_lease k" jb_outbox "\<lambda>topic. topic = settle_topic" k for k
proof (unfold_locales, unfold settlement_lease_def Let_def, rule outcome_tx, rule outcome_bind, rule lease_row_picks)
qed (auto intro!: outcome_intro)

definition decoded_by_payload :: "((string \<times> string) list \<Rightarrow> err + job) \<Rightarrow> bool" where
  "decoded_by_payload decode \<longleftrightarrow> (\<forall>p j. decode p = Inr j \<longrightarrow> jb_outbox j = [])"

lemma lease_outbox_picks:
  assumes "decoded_by_payload decode"
  shows "outcome (lease_outbox k decode topic worker now dur)
      (\<lambda>j d'. (\<exists>m \<in> set (outbox d). ob_id m = jb_outbox j \<and> ob_topic m = topic \<and> ob_processed m = None \<and>
          ob_available m \<le> now \<and> ob_attempts m < k \<and> lease_over now m) \<and>
        d' = d\<lparr>outbox := leased_to (jb_outbox j) worker (now + dur) (outbox d)\<rparr>)
      (\<lambda>_ d'. d' = d) d t"
  unfolding lease_outbox_def
  by (rule outcome_tx_body, rule outcome_bind, rule lease_row_picks)
     (use assms in \<open>auto simp: decoded_by_payload_def normalize_outbox_job_def intro!: outcome_intro\<close>)

lemma load_intent_reads: "reads (load_intent i)"
  unfolding load_intent_def by (intro readsI outcome_intro) simp_all

text \<open>Statements on the outbox, the Stellar table and SEP-24 leave the ledger alone.\<close>

lemma finish_outbox_inv:
  "ledger_inv d \<Longrightarrow> outcome (finish_outbox topic i now) (\<lambda>_. ledger_inv) (\<lambda>_. ledger_inv) d t"
  unfolding finish_outbox_def store_defs by (intro outcome_intro) (simp_all add: ledger_inv_def)

lemma mark_submitted_inv:
  "ledger_inv d \<Longrightarrow> outcome (mark_submitted i h now) (\<lambda>_. ledger_inv) (\<lambda>_. ledger_inv) d t"
  unfolding mark_submitted_def store_defs by (intro outcome_intro) (simp_all add: ledger_inv_def)

lemma mark_unknown_inv:
  "ledger_inv d \<Longrightarrow> outcome (mark_unknown i e) (\<lambda>_. ledger_inv) (\<lambda>_. ledger_inv) d t"
  unfolding mark_unknown_def store_defs by (intro outcome_intro) (simp_all add: ledger_inv_def)

lemma reset_submitted_inv:
  "ledger_inv d \<Longrightarrow> outcome (reset_submitted i e) (\<lambda>_. ledger_inv) (\<lambda>_. ledger_inv) d t"
  unfolding reset_submitted_def store_defs by (intro outcome_intro) (simp_all add: ledger_inv_def)

lemma retry_later_inv:
  "ledger_inv d \<Longrightarrow> outcome (retry_later i a e) (\<lambda>_. ledger_inv) (\<lambda>_. ledger_inv) d t"
  unfolding retry_later_def store_defs by (intro outcome_intro) (simp_all add: ledger_inv_def)

lemma outcome_consume_reservation:
  assumes b: "treasury_balanced (treasuries d) (reservations d)" and r: "r \<in> set (reservations d)"
    and Q: "\<And>ts rs. treasury_balanced ts rs \<Longrightarrow> Q () (d\<lparr>reservations := rs, treasuries := ts\<rparr>)"
    and E: "\<And>e d'. E e d'"
  shows "outcome (consume_reservation r now) Q E d t"
  unfolding consume_reservation_def store_defs add_reserved_def
proof (intro outcome_intro E, goal_cases)
  case (1 rs ts)
  then have "treasury_balanced ts rs" using b r by (auto intro!: treasury_close)
  from Q [OF this] show ?case .
next
  case 2
  from Q [OF b] show ?case by simp
qed

lemma settlement_confirm_inv:
  assumes inv: "ledger_inv d"
  shows "outcome (settlement_confirm i h l) (\<lambda>_. ledger_inv) (\<lambda>_. ledger_inv) d t"
  unfolding settlement_confirm_def store_defs append_settlement_event_def close_outbox_def
proof (intro outcome_intro outcome_consume_reservation, goal_cases)
  case (2 st sts r)
  then show ?case using ledger_inv_ok [OF inv] by (simp add: ledger_ok_def)
next
  case (3 st sts r)
  then show ?case by (auto dest!: first_by_Some)
next
  case (4 st sts r ts rs ord os seps es ei ws us ms ns obs)
  have L: "ledger_ok (orders d) (order_events d) (treasuries d) (reservations d) (payouts d)"
    by (rule ledger_inv_ok [OF inv])
  have o: "ord \<in> set (orders d)" using 4 by (auto dest!: first_by_Some)
  with 4 ledger_ok_lane [OF L o] have "or_direction ord \<noteq> ''offramp''" by auto
  with o 4 ledger_ok_treasury [OF L] have "ledger_ok os es ts rs (payouts d)"
    by (auto intro!: ledger_ok_advance [where r = ord and n = OSCompleted])
  then show ?case by (simp add: ledger_inv_def)
qed (auto simp: inv)

lemma fail_permanent_inv:
  assumes inv: "ledger_inv d"
  shows "outcome (fail_permanent i e) (\<lambda>_. ledger_inv) (\<lambda>_. ledger_inv) d t"
  unfolding fail_permanent_def store_defs close_outbox_def
proof (intro outcome_intro, goal_cases)
  case (1 st ord sts os es ei ws us ms ns obs)
  then have "ledger_ok os es (treasuries d) (reservations d) (payouts d)"
    using ledger_inv_ok [OF inv]
    by (auto intro!: ledger_ok_advance [where r = ord and n = OSStellarFailed] dest!: first_by_Some)
  then show ?case by (simp add: ledger_inv_def)
qed (auto simp: inv)

text \<open>
  The loop of \<open>ReleaseExpiredReservations\<close> works on rows read before it: each one still to
  come is unchanged when its turn comes, because an iteration closes one reservation only.
\<close>

definition release_inv :: "treasury_reservation list \<Rightarrow> nat \<Rightarrow> db \<Rightarrow> bool" where
  "release_inv todo n d \<longleftrightarrow>
     ledger_inv d \<and> distinct todo \<and> set todo \<subseteq> set (reservations d) \<and>
     (\<forall>r \<in> set todo. tr_status r = RSReserved)"

lemma release_one_inv:
  assumes inv: "release_inv (q # todo) n d"
  shows "outcome (release_one now q n) (release_inv todo) (\<lambda>_ _. True) d t"
proof -
  from inv have li: "ledger_inv d" and q: "q \<in> set (reservations d)" "tr_status q = RSReserved"
    by (simp_all add: release_inv_def)
  have L: "ledger_ok (orders d) (order_events d) (treasuries d) (reservations d) (payouts d)"
    by (rule ledger_inv_ok [OF li])
  from L have ids: "distinct (List.map tr_id (reservations d))"
    by (simp add: ledger_ok_def treasury_balanced_def)
  have other: "tr_id r \<noteq> tr_id q" if "r \<in> set todo" for r
    using that inv ids unfolding release_inv_def
    by (metis distinct.simps(2) distinct_map inj_onD list.set_intros(1,2) subsetD)
  show ?thesis
    unfolding release_one_def store_defs add_reserved_def
  proof (intro outcome_intro, goal_cases)
    case (1 ord)
    with inv show ?case by (simp add: release_inv_def)
  next
    case (2 ord rs ts os es ei ws us ms ns)
    have tb: "treasury_balanced ts rs"
      using 2 L q by (auto intro!: treasury_close simp: ledger_ok_def)
    have "ledger_ok os es ts rs (payouts d)"
      using 2 ledger_ok_treasury [OF L tb]
      by (auto intro!: ledger_ok_advance [where r = ord and n = OSExpired] dest!: first_by_Some)
    moreover have "set todo \<subseteq> set rs"
      using 2 other inv by (auto simp: update_rows_def release_inv_def)
    ultimately show ?case using inv by (simp add: release_inv_def ledger_inv_def)
  qed simp_all
qed

lemma select_by_distinct: "distinct xs \<Longrightarrow> distinct (select_by k P n xs)"
  by (simp add: select_by_def)

lemma release_expired_inv:
  assumes inv: "ledger_inv d"
  shows "outcome (release_expired_reservations now limit) (\<lambda>_. ledger_inv) (\<lambda>_. ledger_inv) d t"
proof -
  from ledger_inv_ok [OF inv] have "distinct (reservations d)"
    by (auto simp: ledger_ok_def treasury_balanced_def distinct_map)
  then have "release_inv (select_by tr_expires (expired_reservation now) limit (reservations d)) 0 d"
    using inv by (auto simp: release_inv_def select_by_distinct expired_reservation_def dest: select_by_mem)
  from outcome_fold_rest [where I = release_inv, OF release_one_inv this]
  have "outcome (act_fold (release_one now) (select_by tr_expires (expired_reservation now) limit (reservations d)) 0)
      (\<lambda>_. ledger_inv) (\<lambda>_ _. True) d t"
    by (rule outcome_weaken) (simp_all add: release_inv_def)
  then show ?thesis
    unfolding release_expired_reservations_def
    by (intro outcome_intro) (simp_all add: inv)
qed

end
