(* ===== verification/Offramp_Repo.thy ===== *)
theory Offramp_Repo
  imports Settlement_Repo
begin

text \<open>
  \<open>internal/repository/offramp_repository.go\<close>: creation of off-ramp orders, deposit evidence,
  the retirement of the deposited asset and the simulated payout.
\<close>

record offramp_config =
  fc_deposit :: string
  fc_network :: string

definition offramp_create_operation :: string where "offramp_create_operation = ''offramp.create''"
definition retire_topic :: string where "retire_topic = ''stellar.retire_offramp''"
definition payout_topic :: string where "payout_topic = ''payout.simulate_offramp''"

record observed_payment =
  py_hash :: string
  py_from :: string
  py_to :: string
  py_asset_code :: string
  py_asset_issuer :: string
  py_amount :: stroops
  py_memo :: string
  py_ledger :: time

record offramp_create_record =
  fr_order :: string
  fr_principal :: order_principal
  fr_wallet :: string
  fr_quote_id :: string
  fr_key_hash :: string
  fr_request_hash :: string
  fr_amount :: stroops
  fr_issuer :: string
  fr_quote :: quote
  fr_destination :: string
  fr_memo :: string
  fr_expires :: time
  fr_created :: time

record retirement_intent =
  ri_id :: string
  ri_order :: string
  ri_source :: string
  ri_clawback_from :: string
  ri_asset_code :: string
  ri_asset_issuer :: string
  ri_destination :: string
  ri_amount :: stroops
  ri_memo :: string
  ri_hash :: string

section \<open>Views and replay\<close>

definition offramp_order_view :: "order_record \<Rightarrow> order_view repo" where
  "offramp_order_view r =
     (let view = base_order_view r in
     act_bind (optional_row (find_payout (or_id r))) (\<lambda>payout.
     let view = (case payout of None \<Rightarrow> view
           | Some p \<Rightarrow> view\<lparr>ov_payout := Some \<lparr>pv_reference = po_reference p, pv_method = po_method p,
               pv_amount = po_amount p, pv_state = po_state p, pv_simulated = Some True,
               pv_disclosure = sandbox_payout_disclosure_for None\<rparr>\<rparr>) in
     act_bind (optional_row (find_stellar (or_id r) ''retirement'')) (\<lambda>retirement.
     let view = (case retirement of None \<Rightarrow> view | Some s \<Rightarrow> apply_retirement_evidence view s) in
     act_bind (optional_row (find_stellar (or_id r) ''deposit'')) (\<lambda>deposit.
     act_ret (case deposit of None \<Rightarrow> view
       | Some s \<Rightarrow> (case st_hash s of None \<Rightarrow> view | Some h \<Rightarrow> view\<lparr>ov_deposit_hash := h\<rparr>))))))"

definition offramp_get :: "order_principal \<Rightarrow> string \<Rightarrow> order_view repo" where
  "offramp_get = get_order offramp_order_view"

definition offramp_list :: "order_principal \<Rightarrow> nat \<Rightarrow> string \<Rightarrow> (order_view list \<times> string) repo" where
  "offramp_list = list_orders offramp_order_view"

definition offramp_find_replay :: "order_principal \<Rightarrow> string \<Rightarrow> string \<Rightarrow> order_view option repo" where
  "offramp_find_replay = find_replay_of offramp_create_operation ErrInvalidWithdrawal offramp_get"

section \<open>Creation\<close>

definition offramp_order_row :: "offramp_config \<Rightarrow> order_ownership \<Rightarrow> offramp_create_record \<Rightarrow> order_record" where
  "offramp_order_row c w r =
     \<lparr>or_id = fr_order r, or_client_id = ow_client w, or_created_by = ow_created_by w,
      or_retail_session = ow_session w, or_wallet_account = str_ptr_if_not_empty (fr_wallet r),
      or_quote_id = str_ptr_if_not_empty (fr_quote_id r), or_direction = ''offramp'',
      or_status = OSAssetPending, or_version = 2, or_currency = ''IDR'',
      or_fiat_minor = fiat_amount (fr_quote r), or_asset_code = kxlm_asset_code,
      or_asset_issuer = fr_issuer r, or_network = fc_network c,
      or_asset_amount = stroops_string (fr_amount r), or_asset_stroops = fr_amount r,
      or_quote_provider = ''coinmarketcap'', or_quote_source_at = source_at (fr_quote r),
      or_quote_rate = q_rate (fr_quote r), or_quote_adjusted = adjusted_rate (fr_quote r),
      or_quote_spread = q_spread_bps (fr_quote r), or_quote_expires = q_expires_at (fr_quote r),
      or_payment_method = None, or_gateway = None, or_stellar_source = Some (fc_deposit c),
      or_stellar_dest = None, or_stellar_memo = Some (fr_memo r),
      or_withdrawal_method = Some WMSandboxTransfer, or_withdrawal_dest = fr_destination r,
      or_expires = Some (fr_expires r), or_failure_code = None, or_failure_stage = None,
      or_failure_retry = None, or_created = fr_created r, or_updated = fr_created r,
      or_completed = None\<rparr>"

definition create_offramp :: "offramp_config \<Rightarrow> offramp_create_record \<Rightarrow> unit repo" where
  "create_offramp c r =
     act_bind (act_lift (order_ownership_for (fr_principal r))) (\<lambda>w.
     tx_do (
       act_bind (validate_retail_session_ownership (fr_principal r)) (\<lambda>_.
       let ord = offramp_order_row c w r; now = fr_created r in
       act_bind (insert_order ord) (\<lambda>_.
       act_bind (create_sandbox_order_financial ord) (\<lambda>_.
       act_bind (append_order_event (or_id ord) 1 ''order.created'' OSUnknown OSCreated now) (\<lambda>_.
       act_bind (append_order_event (or_id ord) 2 ''deposit.instructions_issued'' OSCreated OSAssetPending now) (\<lambda>_.
       act_bind new_id (\<lambda>idempotency_id.
       insert_idempotency
         \<lparr>ir_id = idempotency_id, ir_client = ow_client w, ir_user = ow_retail_user w,
          ir_operation = offramp_create_operation, ir_key = fr_key_hash r, ir_request = fr_request_hash r,
          ir_response = Some 201, ir_resource = Some (or_id ord), ir_state = ISCompleted,
          ir_expires = now + 24 * hour, ir_created = now, ir_updated = now\<rparr>))))))))"

section \<open>Deposits\<close>

definition deposit_candidate :: "string \<Rightarrow> time \<Rightarrow> order_record \<Rightarrow> bool" where
  "deposit_candidate account now r \<longleftrightarrow>
     or_direction r = ''offramp'' \<and> or_status r = OSAssetPending \<and> or_stellar_source r = Some account \<and>
     (case or_expires r of None \<Rightarrow> True | Some e \<Rightarrow> now < e)"

definition find_deposit_candidates :: "string \<Rightarrow> nat \<Rightarrow> order_view list repo" where
  "find_deposit_candidates account limit =
     act_bind now_utc (\<lambda>now.
     act_bind (select (\<lambda>d. select_by or_created (deposit_candidate account now) limit (orders d))) (\<lambda>rows.
     act_fold (\<lambda>r vs. act_bind (offramp_order_view r) (\<lambda>v. act_ret (vs @ [v]))) rows []))"

definition expired_deposit :: "time \<Rightarrow> order_record \<Rightarrow> bool" where
  "expired_deposit now r \<longleftrightarrow>
     or_direction r = ''offramp'' \<and> or_status r = OSAssetPending \<and>
     (case or_expires r of None \<Rightarrow> False | Some e \<Rightarrow> e \<le> now)"

definition expire_one :: "time \<Rightarrow> order_record \<Rightarrow> nat \<Rightarrow> nat repo" where
  "expire_one now ord expired =
     act_bind (update_orders
       (\<lambda>r. or_id r = or_id ord \<and> or_version r = or_version ord \<and> or_status r = OSAssetPending)
       (\<lambda>r. r\<lparr>or_status := OSExpired, or_version := or_version ord + 1, or_updated := now\<rparr>)) (\<lambda>affected.
     act_bind (act_guard (affected = 1) ErrInvalidOrderState) (\<lambda>_.
     act_bind (append_order_event (or_id ord) (or_version ord + 1) ''order.expired'' (or_status ord)
       OSExpired now) (\<lambda>_.
     act_ret (expired + 1))))"

definition expire_pending_deposits :: "time \<Rightarrow> int \<Rightarrow> nat repo" where
  "expire_pending_deposits now limit =
     (if limit \<le> 0 then act_ret 0
      else tx_do (
        act_bind (select (\<lambda>d. select_by (\<lambda>r. case or_expires r of None \<Rightarrow> 0 | Some e \<Rightarrow> e)
            (expired_deposit now) (nat limit) (orders d))) (\<lambda>rows.
        act_fold (expire_one now) rows 0)))"

definition validate_observed_deposit :: "order_record \<Rightarrow> observed_payment \<Rightarrow> bool" where
  "validate_observed_deposit ord p \<longleftrightarrow>
     \<not> (or_direction ord \<noteq> ''offramp'' \<or> or_stellar_source ord = None \<or> or_stellar_memo ord = None \<or>
        py_hash p = [] \<or> Some (py_to p) \<noteq> or_stellar_source ord \<or>
        py_asset_code p \<noteq> or_asset_code ord \<or> py_asset_issuer p \<noteq> or_asset_issuer ord \<or>
        py_amount p \<noteq> or_asset_stroops ord \<or> Some (py_memo p) \<noteq> or_stellar_memo ord \<or>
        py_ledger p = 0)"

definition deposit_row :: "string \<Rightarrow> order_record \<Rightarrow> observed_payment \<Rightarrow> time \<Rightarrow> stellar_transaction" where
  "deposit_row i ord p now =
     \<lparr>st_id = i, st_order = or_id ord,
      st_intent = ''stellar-offramp-deposit-'' @ take (min 24 (length (py_hash p))) (py_hash p),
      st_purpose = ''deposit'', st_network = or_network ord, st_asset_code = or_asset_code ord,
      st_asset_issuer = or_asset_issuer ord, st_amount = or_asset_amount ord,
      st_source = Some (py_from p), st_dest = or_stellar_source ord, st_memo = or_stellar_memo ord,
      st_hash = Some (py_hash p), st_status = STConfirmed, st_attempts = 1,
      st_ledger = Some (py_ledger p), st_error = None, st_created = now, st_updated = now\<rparr>"

definition retirement_row :: "string \<Rightarrow> order_record \<Rightarrow> time \<Rightarrow> stellar_transaction" where
  "retirement_row i ord now =
     \<lparr>st_id = i, st_order = or_id ord, st_intent = ''stellar-retire-'' @ or_id ord,
      st_purpose = ''retirement'', st_network = or_network ord, st_asset_code = or_asset_code ord,
      st_asset_issuer = or_asset_issuer ord, st_amount = or_asset_amount ord,
      st_source = Some (or_asset_issuer ord), st_dest = or_stellar_source ord,
      st_memo = or_stellar_memo ord, st_hash = None, st_status = STPending, st_attempts = 0,
      st_ledger = None, st_error = None, st_created = now, st_updated = now\<rparr>"

definition record_asset_received :: "string \<Rightarrow> observed_payment \<Rightarrow> unit repo" where
  "record_asset_received order_id p =
     tx_do (
       act_bind (find_order order_id) (\<lambda>ord.
       if or_status ord = OSAssetReceived \<or> or_status ord = OSRetirementProcessing \<or>
          or_status ord = OSWithdrawalProcessing \<or> or_status ord = OSCompleted then act_ret ()
       else
       act_bind (act_guard (or_status ord = OSAssetPending) ErrInvalidOrderState) (\<lambda>_.
       act_bind (act_guard (validate_observed_deposit ord p) ErrInvalidDepositPayment) (\<lambda>_.
       act_bind now_utc (\<lambda>now.
       act_bind new_id (\<lambda>intent_row_id.
       act_bind (insert_stellar (deposit_row intent_row_id ord p now)) (\<lambda>_.
       act_bind (update_orders (\<lambda>r. or_id r = or_id ord \<and> or_version r = or_version ord)
         (\<lambda>r. r\<lparr>or_status := OSAssetReceived, or_version := or_version ord + 1, or_updated := now\<rparr>)) (\<lambda>_.
       act_bind (append_order_event (or_id ord) (or_version ord + 1) ''asset.received'' (or_status ord)
         OSAssetReceived now) (\<lambda>_.
       act_bind new_id (\<lambda>retirement_id.
       act_bind (insert_stellar (retirement_row retirement_id ord now)) (\<lambda>_.
       act_bind new_id (\<lambda>outbox_id.
       act_bind (insert_outbox
         \<lparr>ob_id = outbox_id, ob_topic = retire_topic, ob_aggregate_type = ''order'',
          ob_aggregate = or_id ord, ob_payload = [(''intent_id'', ''stellar-retire-'' @ or_id ord)],
          ob_created = now, ob_available = now, ob_lease_owner = None, ob_lease_until = None,
          ob_attempts = 0, ob_processed = None, ob_error = None\<rparr>) (\<lambda>_.
       act_bind (update_orders (\<lambda>r. or_id r = or_id ord \<and> or_version r = or_version ord + 1)
         (\<lambda>r. r\<lparr>or_status := OSRetirementProcessing, or_version := or_version ord + 2, or_updated := now\<rparr>)) (\<lambda>_.
       append_order_event (or_id ord) (or_version ord + 2) ''retirement.requested'' OSAssetReceived
         OSRetirementProcessing now))))))))))))))"

definition record_asset_invalid :: "string \<Rightarrow> string \<Rightarrow> string \<Rightarrow> unit repo" where
  "record_asset_invalid order_id hash safe_reason =
     tx_do (
       act_bind (act_try (first_row orders or_id
          (\<lambda>r. or_id r = order_id \<and> or_status r = OSAssetPending))) (\<lambda>res. case res of
         Inl e \<Rightarrow> if errors_is e ErrRecordNotFound then act_fail ErrInvalidOrderState else act_fail e
       | Inr ord \<Rightarrow>
       act_bind now_utc (\<lambda>now.
       act_bind (update_orders (\<lambda>r. or_id r = or_id ord \<and> or_version r = or_version ord)
         (\<lambda>r. r\<lparr>or_status := OSAssetInvalid, or_failure_code := Some ''deposit_mismatch'',
               or_failure_stage := Some ''deposit'', or_failure_retry := Some False,
               or_version := or_version ord + 1, or_updated := now\<rparr>)) (\<lambda>_.
       append_order_event (or_id ord) (or_version ord + 1) ''asset.invalid'' (or_status ord)
         OSAssetInvalid now))))"

section \<open>Retirement\<close>

definition load_retirement :: "string \<Rightarrow> retirement_intent repo" where
  "load_retirement intent_id =
     act_bind (first_row stellar_txs st_id (\<lambda>s. st_intent s = intent_id \<and> st_purpose s = ''retirement'')) (\<lambda>row.
     act_bind (act_lift (parse_stroops (st_amount row))) (\<lambda>amount.
     act_ret \<lparr>ri_id = st_intent row, ri_order = st_order row, ri_source = deref_str (st_source row),
       ri_clawback_from = (if st_asset_issuer row \<noteq> [] then deref_str (st_dest row) else []),
       ri_asset_code = st_asset_code row, ri_asset_issuer = st_asset_issuer row,
       ri_destination = (if st_asset_issuer row \<noteq> [] then [] else deref_str (st_dest row)),
       ri_amount = amount, ri_memo = deref_str (st_memo row), ri_hash = deref_str (st_hash row)\<rparr>))"

definition unclaimed :: "string \<Rightarrow> stellar_transaction \<Rightarrow> bool" where
  "unclaimed intent_id s \<longleftrightarrow>
     st_intent s = intent_id \<and> st_purpose s = ''retirement'' \<and> st_status s = STPending \<and>
     st_hash s = None \<and> st_ledger s = None"

definition save_retirement_hash :: "string \<Rightarrow> string \<Rightarrow> time \<Rightarrow> unit repo" where
  "save_retirement_hash intent_id hash now =
     act_bind (update_stellar (unclaimed intent_id)
       (\<lambda>s. s\<lparr>st_hash := Some hash, st_status := STSubmitted, st_attempts := st_attempts s + 1,
             st_updated := now\<rparr>)) (\<lambda>affected.
     act_guard (affected = 1) ErrRetirementHashAlreadySaved)"

definition reset_retirement_hash :: "string \<Rightarrow> string \<Rightarrow> string \<Rightarrow> time \<Rightarrow> unit repo" where
  "reset_retirement_hash intent_id hash safe_error now =
     act_bind (update_stellar
       (\<lambda>s. st_intent s = intent_id \<and> st_purpose s = ''retirement'' \<and> st_status s = STSubmitted \<and>
            st_hash s = Some hash \<and> st_ledger s = None)
       (\<lambda>s. s\<lparr>st_hash := None, st_status := STPending, st_error := Some safe_error, st_updated := now\<rparr>)) (\<lambda>affected.
     act_guard (affected = 1) ErrInvalidOrderState)"

definition requeueable :: "db \<Rightarrow> time \<Rightarrow> int \<Rightarrow> outbox_message \<Rightarrow> bool" where
  "requeueable d now max_attempts m \<longleftrightarrow>
     ob_topic m = retire_topic \<and> ob_processed m = None \<and> max_attempts \<le> ob_attempts m \<and>
     (case ob_lease_until m of None \<Rightarrow> True | Some u \<Rightarrow> u \<le> now) \<and>
     list_ex (\<lambda>s. st_order s = ob_aggregate m \<and> st_purpose s = ''retirement'' \<and> st_status s = STPending \<and>
        st_hash s = None \<and> st_ledger s = None) (stellar_txs d) \<and>
     list_ex (\<lambda>r. or_id r = ob_aggregate m \<and> or_direction r = ''offramp'' \<and>
        or_status r = OSRetirementProcessing) (orders d)"

definition requeue_unsubmitted_retirements :: "time \<Rightarrow> int \<Rightarrow> nat repo" where
  "requeue_unsubmitted_retirements now max_attempts =
     (if max_attempts \<le> 0 then act_fail (ErrText ''maximum outbox attempts must be positive'')
      else sql (\<lambda>d. let P = requeueable d now max_attempts in
        (Inr (count_rows P (outbox d)), d\<lparr>outbox := update_rows P
          (\<lambda>r. r\<lparr>ob_attempts := 0, ob_available := now, ob_lease_owner := None, ob_lease_until := None,
                ob_error := None\<rparr>) (outbox d)\<rparr>)))"

definition enqueue_sandbox_payout :: "string \<Rightarrow> time \<Rightarrow> unit repo" where
  "enqueue_sandbox_payout order_id now =
     act_bind new_id (\<lambda>i.
     insert_outbox
       \<lparr>ob_id = i, ob_topic = payout_topic, ob_aggregate_type = ''order'', ob_aggregate = order_id,
        ob_payload = [(''order_id'', order_id)], ob_created = now, ob_available = now,
        ob_lease_owner = None, ob_lease_until = None, ob_attempts = 0, ob_processed = None,
        ob_error = None\<rparr>)"

definition simulate_retirement :: "string \<Rightarrow> time \<Rightarrow> unit repo" where
  "simulate_retirement intent_id now =
     tx_do (
       act_bind (first_row stellar_txs st_id
          (\<lambda>s. st_intent s = intent_id \<and> st_purpose s = ''retirement'')) (\<lambda>stellar.
       act_bind (find_order (st_order stellar)) (\<lambda>ord.
       if st_status stellar = STSimulated then
         act_guard (st_hash stellar = None \<and> st_ledger stellar = None \<and>
            (or_status ord = OSWithdrawalProcessing \<or> or_status ord = OSCompleted)) ErrInvalidOrderState
       else
       act_bind (act_guard (\<not> (st_status stellar \<noteq> STPending \<or> st_hash stellar \<noteq> None \<or> st_ledger stellar \<noteq> None))
         (ErrText ''retirement intent cannot be simulated after submission'')) (\<lambda>_.
       act_bind (act_guard (\<not> (or_direction ord \<noteq> ''offramp'' \<or> or_status ord \<noteq> OSRetirementProcessing))
         ErrInvalidOrderState) (\<lambda>_.
       act_bind (update_stellar
         (\<lambda>s. st_id s = st_id stellar \<and> st_status s = STPending \<and> st_hash s = None \<and> st_ledger s = None)
         (\<lambda>s. s\<lparr>st_status := STSimulated, st_error := None, st_updated := now\<rparr>)) (\<lambda>affected.
       act_bind (act_guard (affected = 1) ErrInvalidOrderState) (\<lambda>_.
       act_bind (update_orders
         (\<lambda>r. or_id r = or_id ord \<and> or_version r = or_version ord \<and> or_status r = OSRetirementProcessing)
         (\<lambda>r. r\<lparr>or_status := OSWithdrawalProcessing, or_version := or_version ord + 1, or_updated := now\<rparr>)) (\<lambda>affected.
       act_bind (act_guard (affected = 1) ErrInvalidOrderState) (\<lambda>_.
       act_bind (append_order_event_from_source (or_id ord) (or_version ord + 1) ''retirement.simulated''
         (or_status ord) OSWithdrawalProcessing ''worker'' now) (\<lambda>_.
       act_bind (close_outbox retire_topic (or_id ord) now None) (\<lambda>_.
       enqueue_sandbox_payout (or_id ord) now)))))))))))"

definition confirm_retirement :: "string \<Rightarrow> string \<Rightarrow> time \<Rightarrow> unit repo" where
  "confirm_retirement intent_id hash ledger_at =
     tx_do (
       act_bind (find_intent intent_id) (\<lambda>stellar.
       if st_status stellar = STConfirmed then act_ret ()
       else
       act_bind (act_guard (st_hash stellar = Some hash) (ErrText ''retirement hash mismatch'')) (\<lambda>_.
       act_bind now_utc (\<lambda>now.
       act_bind (update_stellar (\<lambda>s. st_id s = st_id stellar)
         (\<lambda>s. s\<lparr>st_status := STConfirmed, st_ledger := Some ledger_at, st_updated := now\<rparr>)) (\<lambda>_.
       act_bind (update_sep24 (\<lambda>s. s24_order s = st_order stellar) (\<lambda>s. s\<lparr>s24_stellar := Some hash\<rparr>)) (\<lambda>_.
       act_bind (find_order (st_order stellar)) (\<lambda>ord.
       act_bind (act_guard (or_status ord = OSRetirementProcessing) ErrInvalidOrderState) (\<lambda>_.
       act_bind (update_orders (\<lambda>r. or_id r = or_id ord \<and> or_version r = or_version ord)
         (\<lambda>r. r\<lparr>or_status := OSWithdrawalProcessing, or_version := or_version ord + 1, or_updated := now\<rparr>)) (\<lambda>_.
       act_bind (append_order_event_from_source (or_id ord) (or_version ord + 1) ''retirement.confirmed''
         (or_status ord) OSWithdrawalProcessing ''worker'' now) (\<lambda>_.
       act_bind (close_outbox retire_topic (or_id ord) now None) (\<lambda>_.
       enqueue_sandbox_payout (or_id ord) now)))))))))))"

definition fail_retirement :: "string \<Rightarrow> string \<Rightarrow> unit repo" where
  "fail_retirement intent_id safe_error =
     tx_do (
       act_bind (find_intent intent_id) (\<lambda>stellar.
       act_bind (find_order (st_order stellar)) (\<lambda>ord.
       act_bind (act_guard (or_status ord = OSRetirementProcessing) ErrInvalidOrderState) (\<lambda>_.
       act_bind now_utc (\<lambda>now.
       act_bind (update_stellar (\<lambda>s. st_id s = st_id stellar)
         (\<lambda>s. s\<lparr>st_status := STFailed, st_error := Some safe_error, st_updated := now\<rparr>)) (\<lambda>_.
       act_bind (update_orders (\<lambda>r. or_id r = or_id ord \<and> or_version r = or_version ord)
         (\<lambda>r. r\<lparr>or_status := OSRetirementFailed, or_failure_code := Some ''retirement_failed'',
               or_failure_stage := Some ''stellar'', or_failure_retry := Some False,
               or_version := or_version ord + 1, or_updated := now\<rparr>)) (\<lambda>_.
       act_bind (append_order_event_from_source (or_id ord) (or_version ord + 1) ''retirement.failed''
         (or_status ord) OSRetirementFailed ''worker'' now) (\<lambda>_.
       close_outbox retire_topic (st_order stellar) now (Some safe_error)))))))))"

section \<open>The simulated payout\<close>

text \<open>The existing payout of the order, or the one created now.\<close>

definition ensure_payout :: "order_record \<Rightarrow> string \<Rightarrow> time \<Rightarrow> offramp_payout repo" where
  "ensure_payout ord reference now =
     act_bind (act_try (find_payout (or_id ord))) (\<lambda>res. case res of
       Inr p \<Rightarrow> act_ret p
     | Inl e \<Rightarrow>
         if errors_is e ErrRecordNotFound then
           act_bind new_id (\<lambda>payout_id.
           act_bind (act_try (insert_payout
             \<lparr>po_id = payout_id, po_order = or_id ord, po_method = ''sandbox_bank_transfer'',
              po_amount = or_fiat_minor ord, po_reference = reference, po_state = ''completed'',
              po_completed = Some now, po_created = now, po_updated = now\<rparr>)) (\<lambda>created.
           act_bind (case created of
               Inr _ \<Rightarrow> act_ret ()
             | Inl e \<Rightarrow> act_guard (errors_is e ErrDuplicateKey) e) (\<lambda>_.
           first_row payouts po_id (\<lambda>p. po_order p = or_id ord \<and> po_id p = payout_id))))
         else act_fail e)"

definition complete_sandbox_payout :: "string \<Rightarrow> string \<Rightarrow> string \<Rightarrow> time \<Rightarrow> unit repo" where
  "complete_sandbox_payout order_id outbox_id reference now =
     tx_do (
       act_bind (find_order order_id) (\<lambda>ord.
       act_bind (act_guard (\<not> (or_status ord \<noteq> OSWithdrawalProcessing \<and> or_status ord \<noteq> OSCompleted))
         ErrInvalidOrderState) (\<lambda>_.
       act_bind (ensure_payout ord reference now) (\<lambda>payout.
       act_bind
         (if or_status ord = OSWithdrawalProcessing then
            act_bind (update_orders (\<lambda>r. or_id r = or_id ord \<and> or_version r = or_version ord)
              (\<lambda>r. r\<lparr>or_status := OSCompleted, or_version := or_version ord + 1,
                    or_completed := Some now, or_updated := now\<rparr>)) (\<lambda>_.
            append_order_event_from_source (or_id ord) (or_version ord + 1) ''payout.simulated''
              (or_status ord) OSCompleted ''worker'' now)
          else act_ret ()) (\<lambda>_.
       act_bind (update_sep24 (\<lambda>s. s24_order s = or_id ord)
         (\<lambda>s. s\<lparr>s24_external := Some (po_reference payout)\<rparr>)) (\<lambda>_.
       act_bind (update_outbox
         (\<lambda>r. ob_id r = outbox_id \<and> ob_topic r = payout_topic \<and> ob_processed r = None)
         (\<lambda>r. r\<lparr>ob_processed := Some now, ob_lease_owner := None, ob_lease_until := None,
               ob_error := None\<rparr>)) (\<lambda>_.
       act_ret ())))))))"

section \<open>The ledger invariant\<close>

lemma offramp_order_view_reads: "reads (offramp_order_view r)"
  unfolding offramp_order_view_def store_defs
  by (intro readsI outcome_intro) simp_all

lemma create_offramp_inv:
  assumes inv: "ledger_inv d"
  shows "outcome (create_offramp c r) (\<lambda>_. ledger_inv) (\<lambda>_. ledger_inv) d t"
  unfolding create_offramp_def store_defs
proof (intro outcome_intro, goal_cases)
  case (1 w ord now os fs f es1 i1 ws1 us1 ms1 ns1 es2 i2 ws2 us2 ms2 ns2 ii irs)
  have o: "or_id ord = fr_order r" "or_status ord = OSAssetPending" "or_version ord = 2"
    "or_direction ord = ''offramp''" using 1 by (simp_all add: offramp_order_row_def)
  have os: "os = orders d @ [ord]" "\<And>q. q \<in> set (orders d) \<Longrightarrow> or_id ord \<noteq> or_id q"
    using 1 by simp_all
  obtain e1 e2 where e: "es2 = order_events d @ [e1, e2]" "ev_order e1 = or_id ord" "ev_version e1 = 1"
    "ev_prev e1 = None" "ev_next e1 = Some OSCreated" "ev_order e2 = or_id ord" "ev_version e2 = 2"
    "ev_prev e2 = Some OSCreated" "ev_next e2 = Some OSAssetPending" using 1 by simp
  have "ledger_ok os es2 (treasuries d) (reservations d) (payouts d)"
    unfolding os(1) e(1)
    by (rule ledger_ok_create [OF ledger_inv_ok [OF inv]])
       (use os(2) e o in \<open>auto intro: log_conforms_new2\<close>)
  then show ?case by (simp add: ledger_inv_def)
qed (auto simp: inv)

lemma find_deposit_candidates_reads: "reads (find_deposit_candidates a n)"
proof (rule readsI)
  fix d t
  show "outcome (find_deposit_candidates a n) (\<lambda>_ d'. d' = d) (\<lambda>_ d'. d' = d) d t"
    unfolding find_deposit_candidates_def
    by (intro outcome_intro outcome_fold [where I = "\<lambda>_ d'. d' = d"])
       (auto intro!: outcome_bind outcome_reads [OF offramp_order_view_reads] outcome_ret)
qed

lemma count_rows_pos: "count_rows P rows = Suc n \<Longrightarrow> \<exists>r \<in> set rows. P r"
  using count_rows_0 [of P rows] by auto

lemma expire_one_inv:
  assumes inv: "ledger_inv d" and s: "or_status ord = OSAssetPending"
  shows "outcome (expire_one now ord n) (\<lambda>_. ledger_inv) (\<lambda>_ _. True) d t"
  unfolding expire_one_def store_defs
proof (intro outcome_intro, goal_cases)
  case (1 os es ei ws us ms ns)
  then obtain q where q: "q \<in> set (orders d)" "or_id q = or_id ord" "or_version q = or_version ord"
    "or_status q = OSAssetPending"
    by (auto dest!: count_rows_pos)
  with 1 ledger_inv_ok [OF inv] s have "ledger_ok os es (treasuries d) (reservations d) (payouts d)"
    by (auto intro!: ledger_ok_advance [where r = q and n = OSExpired])
  then show ?case by (simp add: ledger_inv_def)
qed simp_all

lemma expire_pending_inv:
  assumes inv: "ledger_inv d"
  shows "outcome (expire_pending_deposits now n) (\<lambda>_. ledger_inv) (\<lambda>_. ledger_inv) d t"
proof -
  let ?rows = "select_by (\<lambda>r. case or_expires r of None \<Rightarrow> 0 | Some e \<Rightarrow> e) (expired_deposit now) (nat n) (orders d)"
  have "outcome (act_fold (expire_one now) ?rows 0) (\<lambda>_. ledger_inv) (\<lambda>_ _. True) d t"
    by (rule outcome_fold) (auto intro!: expire_one_inv simp: inv expired_deposit_def dest: select_by_mem)
  then show ?thesis
    unfolding expire_pending_deposits_def by (intro outcome_intro) (simp_all add: inv)
qed

lemma record_asset_received_inv:
  assumes inv: "ledger_inv d"
  shows "outcome (record_asset_received i p) (\<lambda>_. ledger_inv) (\<lambda>_. ledger_inv) d t"
  unfolding record_asset_received_def store_defs
proof (intro outcome_intro, goal_cases)
  case (2 ord di sts os1 es1 e1 ws1 us1 ms1 ns1 ri sts2 oi obs os2 es2 e2 ws2 us2 ms2 ns2)
  have L: "ledger_ok (orders d) (order_events d) (treasuries d) (reservations d) (payouts d)"
    by (rule ledger_inv_ok [OF inv])
  have o: "ord \<in> set (orders d)" using 2 by (auto dest!: first_by_Some)
  let ?r = "ord\<lparr>or_status := OSAssetReceived, or_version := or_version ord + 1, or_updated := t\<rparr>"
  have L1: "ledger_ok os1 es1 (treasuries d) (reservations d) (payouts d)"
    using 2 L o by (auto intro!: ledger_ok_advance [where r = ord and n = OSAssetReceived])
  have r: "?r \<in> set os1" using 2 o by (force simp: update_rows_def)
  have os2: "os2 = update_rows (\<lambda>r. or_id r = or_id ord \<and> or_version r = or_version ord + 1)
      (\<lambda>r. r\<lparr>or_status := OSRetirementProcessing, or_version := or_version ord + 2, or_updated := t\<rparr>) os1"
    using 2 by simp
  obtain e where e: "es2 = es1 @ [e]" "ev_order e = or_id ord" "ev_version e = or_version ord + 2"
    "ev_prev e = Some OSAssetReceived" "ev_next e = Some OSRetirementProcessing" using 2 by simp
  have "ledger_ok os2 es2 (treasuries d) (reservations d) (payouts d)"
    unfolding os2 e(1)
    by (rule ledger_ok_advance [where r = ?r and n = OSRetirementProcessing, OF L1 r]) (simp_all add: e)
  then show ?case by (simp add: ledger_inv_def)
qed (auto simp: inv)

lemma record_asset_invalid_inv:
  assumes inv: "ledger_inv d"
  shows "outcome (record_asset_invalid i h reason) (\<lambda>_. ledger_inv) (\<lambda>_. ledger_inv) d t"
  unfolding record_asset_invalid_def store_defs
proof (intro outcome_intro, goal_cases)
  case (1 ord os es ei ws us ms ns)
  then have "ledger_ok os es (treasuries d) (reservations d) (payouts d)"
    using ledger_inv_ok [OF inv]
    by (auto intro!: ledger_ok_advance [where r = ord and n = OSAssetInvalid] dest!: first_by_Some)
  then show ?case by (simp add: ledger_inv_def)
qed (auto simp: inv)

lemma load_retirement_reads: "reads (load_retirement i)"
  unfolding load_retirement_def by (intro readsI outcome_intro) simp_all

lemma save_retirement_hash_inv:
  "ledger_inv d \<Longrightarrow> outcome (save_retirement_hash i h now) (\<lambda>_. ledger_inv) (\<lambda>_. ledger_inv) d t"
  unfolding save_retirement_hash_def store_defs by (intro outcome_intro) (simp_all add: ledger_inv_def)

lemma reset_retirement_hash_inv:
  "ledger_inv d \<Longrightarrow> outcome (reset_retirement_hash i h e now) (\<lambda>_. ledger_inv) (\<lambda>_. ledger_inv) d t"
  unfolding reset_retirement_hash_def store_defs by (intro outcome_intro) (simp_all add: ledger_inv_def)

lemma requeue_inv:
  "ledger_inv d \<Longrightarrow>
   outcome (requeue_unsubmitted_retirements now k) (\<lambda>_. ledger_inv) (\<lambda>_. ledger_inv) d t"
  unfolding requeue_unsubmitted_retirements_def
  by (intro outcome_intro outcome_sql) (auto simp: ledger_inv_def Let_def)

lemma simulate_retirement_inv:
  assumes inv: "ledger_inv d"
  shows "outcome (simulate_retirement i now) (\<lambda>_. ledger_inv) (\<lambda>_. ledger_inv) d t"
  unfolding simulate_retirement_def store_defs close_outbox_def enqueue_sandbox_payout_def
proof (intro outcome_intro, goal_cases)
  case (3 st ord sts os es ei ws us ms ns obs oi obs2)
  then have "ledger_ok os es (treasuries d) (reservations d) (payouts d)"
    using ledger_inv_ok [OF inv]
    by (auto intro!: ledger_ok_advance [where r = ord and n = OSWithdrawalProcessing] dest!: first_by_Some)
  then show ?case by (simp add: ledger_inv_def)
qed (auto simp: inv)

lemma confirm_retirement_inv:
  assumes inv: "ledger_inv d"
  shows "outcome (confirm_retirement i h l) (\<lambda>_. ledger_inv) (\<lambda>_. ledger_inv) d t"
  unfolding confirm_retirement_def store_defs close_outbox_def enqueue_sandbox_payout_def
proof (intro outcome_intro, goal_cases)
  case (2 st sts seps ord os es ei ws us ms ns obs oi obs2)
  then have "ledger_ok os es (treasuries d) (reservations d) (payouts d)"
    using ledger_inv_ok [OF inv]
    by (auto intro!: ledger_ok_advance [where r = ord and n = OSWithdrawalProcessing] dest!: first_by_Some)
  then show ?case by (simp add: ledger_inv_def)
qed (auto simp: inv)

lemma fail_retirement_inv:
  assumes inv: "ledger_inv d"
  shows "outcome (fail_retirement i e) (\<lambda>_. ledger_inv) (\<lambda>_. ledger_inv) d t"
  unfolding fail_retirement_def store_defs close_outbox_def
proof (intro outcome_intro, goal_cases)
  case (1 st ord sts os es ei ws us ms ns obs)
  then have "ledger_ok os es (treasuries d) (reservations d) (payouts d)"
    using ledger_inv_ok [OF inv]
    by (auto intro!: ledger_ok_advance [where r = ord and n = OSRetirementFailed] dest!: first_by_Some)
  then show ?case by (simp add: ledger_inv_def)
qed (auto simp: inv)

text \<open>A payout is returned: the one on file, or a new one when the order has none.\<close>

lemma outcome_ensure_payout:
  assumes old: "\<And>p. p \<in> set (payouts d) \<Longrightarrow> po_order p = or_id ord \<Longrightarrow> Q p d"
    and new: "\<And>p ps. ps = payouts d @ [p] \<Longrightarrow> or_id ord \<notin> po_order ` set (payouts d) \<Longrightarrow>
      po_order p = or_id ord \<Longrightarrow> po_amount p = or_fiat_minor ord \<Longrightarrow> po_reference p = reference \<Longrightarrow>
      Q p (d\<lparr>payouts := ps\<rparr>)"
    and E: "\<And>e d'. E e d'"
  shows "outcome (ensure_payout ord reference now) Q E d t"
  unfolding ensure_payout_def store_defs
proof (intro outcome_intro E, goal_cases)
  case (1 p)
  then show ?case by (auto intro!: old dest!: first_by_Some)
next
  case (2 e pid ps q)
  then have ne: "po_order x \<noteq> or_id ord" if "x \<in> set (payouts d)" for x using 2(3) [OF that] by auto
  have none: "or_id ord \<notin> po_order ` set (payouts d)" unfolding image_iff using ne by metis
  have "q \<in> set ps" "po_order q = or_id ord" using 2 by (auto dest!: first_by_Some)
  then have "q = \<lparr>po_id = pid, po_order = or_id ord, po_method = ''sandbox_bank_transfer'',
      po_amount = or_fiat_minor ord, po_reference = reference, po_state = ''completed'',
      po_completed = Some now, po_created = now, po_updated = now\<rparr>" using 2(2) ne [of q] by auto
  then show ?case using 2 none by (auto intro!: new)
next
  case (3 e pid e' q)
  then show ?case by (auto intro!: old dest!: first_by_Some)
qed

lemma complete_payout_inv:
  assumes inv: "ledger_inv d"
  shows "outcome (complete_sandbox_payout i o_id reference now) (\<lambda>_. ledger_inv) (\<lambda>_. ledger_inv) d t"
  unfolding complete_sandbox_payout_def store_defs
proof (intro outcome_intro outcome_ensure_payout, simp_all add: inv, goal_cases)
  case (1 ord p os es ei ws us ms ns seps obs)
  then have "ord \<in> set (orders d)" by (auto dest!: first_by_Some)
  from ledger_ok_paid(1) [OF ledger_inv_ok [OF inv] this 1(2,3)] 1 show ?case by simp
next
  case (2 ord p seps obs)
  with inv show ?case by (simp add: ledger_inv_def)
next
  case (3 ord p ps os es ei ws us ms ns seps obs)
  then have "ledger_ok os es (treasuries d) (reservations d) (payouts d @ [p])"
    using ledger_inv_ok [OF inv] by (auto intro!: ledger_ok_payout [where r = ord] dest!: first_by_Some)
  with 3 show ?case by (simp add: ledger_inv_def)
next
  case (4 ord p ps seps obs)
  then have "payouts_match (orders d) (payouts d @ [p])"
    using ledger_inv_ok [OF inv]
    by (auto intro!: payouts_add [where r = ord] dest!: first_by_Some simp: ledger_ok_def)
  with inv show ?case by (simp add: ledger_inv_def ledger_ok_def)
qed

end
