(* ===== verification/System.thy ===== *)
theory System
  imports Offramp_Repo
begin

text \<open>
  All state-changing operations of the repositories as one transition system: an operation
  runs on the database with any identifiers, faults, cancellations and time, and the database
  it leaves is the next state. Handlers, callbacks and workers of the program interleave at
  this granularity.
\<close>

datatype operation =
    OpReserveAndCreate onramp_config create_record stroops
  | OpAttachCheckout string checkout
  | OpFailCheckout string string
  | OpMarkCheckoutUnknown string string
  | OpRecordReceipt callback_receipt
  | OpConfirmPayment payment_confirmation
  | OpCompleteCallback string string
  | OpSettlementLease int string time duration
  | OpLeaseOutbox int "(string \<times> string) list \<Rightarrow> err + job" string string time duration
  | OpFinishOutbox string string time
  | OpMarkSubmitted string string time
  | OpSettlementConfirm string string time
  | OpMarkUnknown string string
  | OpFailPermanent string string
  | OpRetryLater string time string
  | OpResetSubmitted string string
  | OpReleaseExpired time nat
  | OpCreateOfframp offramp_config offramp_create_record
  | OpExpireDeposits time int
  | OpAssetReceived string observed_payment
  | OpAssetInvalid string string string
  | OpSaveRetirementHash string string time
  | OpResetRetirementHash string string string time
  | OpRequeueRetirements time int
  | OpSimulateRetirement string time
  | OpConfirmRetirement string string time
  | OpFailRetirement string string
  | OpCompletePayout string string string time

definition ignore :: "'a repo \<Rightarrow> unit repo" where
  "ignore m = act_bind m (\<lambda>_. act_ret ())"

fun run_op :: "operation \<Rightarrow> unit repo" where
  "run_op (OpReserveAndCreate c r b) = reserve_and_create c r b"
| "run_op (OpAttachCheckout i co) = ignore (attach_checkout i co)"
| "run_op (OpFailCheckout i e) = fail_checkout i e"
| "run_op (OpMarkCheckoutUnknown i e) = mark_checkout_unknown i e"
| "run_op (OpRecordReceipt rc) = ignore (record_callback_receipt rc)"
| "run_op (OpConfirmPayment cf) = confirm_payment_and_enqueue cf"
| "run_op (OpCompleteCallback e r) = complete_callback e r"
| "run_op (OpSettlementLease k w n dur) = ignore (settlement_lease k w n dur)"
| "run_op (OpLeaseOutbox k dec tp w n dur) = ignore (lease_outbox k dec tp w n dur)"
| "run_op (OpFinishOutbox tp a n) = finish_outbox tp a n"
| "run_op (OpMarkSubmitted i h n) = mark_submitted i h n"
| "run_op (OpSettlementConfirm i h l) = settlement_confirm i h l"
| "run_op (OpMarkUnknown i e) = mark_unknown i e"
| "run_op (OpFailPermanent i e) = fail_permanent i e"
| "run_op (OpRetryLater i a e) = retry_later i a e"
| "run_op (OpResetSubmitted i e) = reset_submitted i e"
| "run_op (OpReleaseExpired n k) = ignore (release_expired_reservations n k)"
| "run_op (OpCreateOfframp c r) = create_offramp c r"
| "run_op (OpExpireDeposits n k) = ignore (expire_pending_deposits n k)"
| "run_op (OpAssetReceived i p) = record_asset_received i p"
| "run_op (OpAssetInvalid i h e) = record_asset_invalid i h e"
| "run_op (OpSaveRetirementHash i h n) = save_retirement_hash i h n"
| "run_op (OpResetRetirementHash i h e n) = reset_retirement_hash i h e n"
| "run_op (OpRequeueRetirements n k) = ignore (requeue_unsubmitted_retirements n k)"
| "run_op (OpSimulateRetirement i n) = simulate_retirement i n"
| "run_op (OpConfirmRetirement i h l) = confirm_retirement i h l"
| "run_op (OpFailRetirement i e) = fail_retirement i e"
| "run_op (OpCompletePayout i ob ref n) = complete_sandbox_payout i ob ref n"

text \<open>A database before its first order: migrated and seeded.\<close>

definition fresh_db :: "db \<Rightarrow> bool" where
  "fresh_db d \<longleftrightarrow> orders d = [] \<and> order_events d = [] \<and> treasuries d = [] \<and> reservations d = [] \<and>
     payouts d = []"

inductive reachable :: "db \<Rightarrow> bool" where
  reachable_fresh: "fresh_db d \<Longrightarrow> reachable d"
| reachable_step: "reachable (w_db w) \<Longrightarrow> run_op op w = (r, w') \<Longrightarrow> reachable (w_db w')"

inductive_simps reachable_unfold: "reachable d"

lemma outcome_ignore:
  "outcome m (\<lambda>_. I) (\<lambda>_. I) d t \<Longrightarrow> outcome (ignore m) (\<lambda>_. I) (\<lambda>_. I) d t"
  unfolding ignore_def by (rule outcome_seq [where I = I]) (auto intro: outcome_ret)

lemmas operation_inv =
  reserve_and_create_inv fail_checkout_inv mark_checkout_unknown_inv confirm_payment_inv
  complete_callback_inv finish_outbox_inv mark_submitted_inv settlement_confirm_inv
  mark_unknown_inv fail_permanent_inv retry_later_inv reset_submitted_inv create_offramp_inv
  record_asset_received_inv record_asset_invalid_inv save_retirement_hash_inv
  reset_retirement_hash_inv simulate_retirement_inv confirm_retirement_inv fail_retirement_inv
  complete_payout_inv
  outcome_ignore [OF attach_checkout_inv] outcome_ignore [OF record_callback_receipt_inv]
  outcome_ignore [OF settlement_lease_inv] outcome_ignore [OF lease_outbox_inv]
  outcome_ignore [OF release_expired_inv] outcome_ignore [OF expire_pending_inv]
  outcome_ignore [OF requeue_inv]

lemma run_op_inv:
  "ledger_inv d \<Longrightarrow> outcome (run_op op) (\<lambda>_. ledger_inv) (\<lambda>_. ledger_inv) d t"
  by (cases op) (simp_all add: operation_inv)

interpretation ledger_system: invariant_system run_op ledger_inv
  by unfold_locales (rule run_op_inv)

interpretation order_pages: keyset ledger_inv orders order_key
proof
  fix d assume "ledger_inv d"
  then have "distinct (List.map or_id (orders d))"
    using ledger_inv_ok by (simp add: ledger_ok_def orders_logged_def)
  then show "distinct (List.map order_key (orders d))"
    by (auto simp: distinct_map order_key_def inj_on_def)
qed

lemma ledger_inv_step:
  assumes "ledger_inv (w_db w)" and "run_op op w = (r, w')"
  shows "ledger_inv (w_db w')"
  using outcomeD [OF run_op_inv [OF assms(1)] refl refl assms(2)] by (cases r) simp_all

lemma ledger_inv_fresh: "fresh_db d \<Longrightarrow> ledger_inv d"
  by (simp add: fresh_db_def ledger_inv_def ledger_ok_def orders_logged_def treasury_balanced_def
      payouts_match_def)

lemma reachable_ledger_inv: "reachable d \<Longrightarrow> ledger_inv d"
  by (induction rule: reachable.induct) (auto intro: ledger_inv_fresh ledger_inv_step)

text \<open>Runs of several operations.\<close>

fun run_ops :: "operation list \<Rightarrow> unit repo" where
  "run_ops [] = act_ret ()"
| "run_ops (op # ops) = act_bind (act_try (run_op op)) (\<lambda>_. run_ops ops)"

lemma reachable_run_ops:
  "reachable (w_db w) \<Longrightarrow> run_ops ops w = (r, w') \<Longrightarrow> reachable (w_db w')"
proof (induction ops arbitrary: w)
  case Nil
  then show ?case by (simp add: act_ret_def)
next
  case (Cons op ops)
  obtain r1 w1 where 1: "run_op op w = (r1, w1)" by fastforce
  with Cons.prems have "run_ops ops w1 = (r, w')" by (simp add: act_bind_def act_try_def)
  with Cons.IH reachable_step [OF Cons.prems(1) 1] show ?case by blast
qed


section \<open>Consequences in reachable databases\<close>

lemma reachable_ledger_ok:
  "reachable d \<Longrightarrow> ledger_ok (orders d) (order_events d) (treasuries d) (reservations d) (payouts d)"
  by (rule ledger_inv_ok [OF reachable_ledger_inv])

lemma reachable_log:
  "reachable d \<Longrightarrow> r \<in> set (orders d) \<Longrightarrow> log_conforms r (order_log (order_events d) (or_id r))"
  using reachable_ledger_ok [of d] by (simp add: ledger_ok_def orders_logged_def)

lemma chain_from_withdrawal:
  "successively allowed_transition (OSWithdrawalProcessing # ns) \<Longrightarrow>
   (if ns = [] then OSWithdrawalProcessing else last ns) = OSCompleted \<Longrightarrow> ns = [OSCompleted]"
  by (cases ns; cases "tl ns") auto

lemma chain_from_stellar:
  "successively allowed_transition (OSStellarProcessing # ns) \<Longrightarrow>
   (if ns = [] then OSStellarProcessing else last ns) = OSCompleted \<Longrightarrow> ns = [OSCompleted]"
  by (cases ns; cases "tl ns") auto

lemma chain_failed:
  "successively allowed_transition (OSRetirementFailed # ns) \<longleftrightarrow> ns = []"
  by (cases ns) auto

lemma chain_from_asset:
  "successively allowed_transition (OSAssetPending # ns) \<Longrightarrow> (if ns = [] then OSAssetPending else last ns) = OSCompleted \<Longrightarrow>
   ns = [OSAssetReceived, OSRetirementProcessing, OSWithdrawalProcessing, OSCompleted]"
  by (cases ns; cases "tl ns"; cases "tl (tl ns)") (auto simp: chain_failed dest: chain_from_withdrawal)

lemma chain_from_payment:
  "successively allowed_transition (OSPaymentPending # ns) \<Longrightarrow> (if ns = [] then OSPaymentPending else last ns) = OSCompleted \<Longrightarrow>
   ns = [OSPaymentConfirmed, OSStellarProcessing, OSCompleted]"
  by (cases ns; cases "tl ns") (auto dest: chain_from_stellar)

lemma completed_log:
  assumes c: "log_conforms r es" and s: "or_status r = OSCompleted"
  shows "log_statuses es =
    (if or_direction r = ''offramp''
     then [OSCreated, OSAssetPending, OSAssetReceived, OSRetirementProcessing, OSWithdrawalProcessing,
           OSCompleted]
     else [OSCreated, OSPaymentPending, OSPaymentConfirmed, OSStellarProcessing, OSCompleted])"
proof -
  from c s obtain ns where l: "log_statuses es = OSCreated # ns"
    and ch: "successively allowed_transition (OSCreated # ns)" "last (OSCreated # ns) = OSCompleted"
    and la: "list_all (status_lane (or_direction r)) ns"
    by (cases "log_statuses es") (auto simp: log_conforms_def Let_def)
  show ?thesis
  proof (cases ns)
    case Nil
    with ch show ?thesis by simp
  next
    case (Cons n ms)
    have n: "allowed_transition OSCreated n" "successively allowed_transition (n # ms)"
      "last (n # ms) = OSCompleted" "status_lane (or_direction r) n"
      using ch la Cons by simp_all
    then consider "n = OSPaymentPending" | "n = OSAssetPending" | "n = OSPaymentFailed \<or> n = OSCancelled"
      by auto
    then show ?thesis
    proof cases
      case 1
      with n l Cons chain_from_payment [of ms] show ?thesis by simp
    next
      case 2
      with n l Cons chain_from_asset [of ms] show ?thesis by simp
    next
      case 3
      with n show ?thesis by (cases ms) auto
    qed
  qed
qed

lemma log_versions:
  assumes "log_conforms r es"
  shows "List.map ev_version es = [1..or_version r] \<and> 1 \<le> or_version r \<and> or_version r \<le> 6"
proof -
  from assms have v: "or_version r = int (length es)" "es \<noteq> []"
    and m: "List.map ev_version es = List.map int [1..<Suc (length es)]"
    and ss: "successively allowed_transition (log_statuses es)"
    by (auto simp: log_conforms_def Let_def)
  have "List.map int [1..<Suc n] = [1..int n]" for n
    by (induction n) (simp_all add: upto_rec2 [of 1 "1 + int n" for n] add.commute)
  then have "List.map ev_version es = [1..or_version r]" using v(1) m by presburger
  moreover have "length es \<le> 6"
  proof -
    obtain s ns where s: "log_statuses es = s # ns" using v(2) by (cases "log_statuses es") auto
    with ss chain_rank [of s ns] rank_bound [of "last (s # ns)"] have "length ns \<le> 5" by simp
    moreover have "length es = Suc (length ns)" using s by (metis length_Cons length_log_statuses)
    ultimately show ?thesis by simp
  qed
  moreover have "1 \<le> length es" using v(2) by (simp add: Suc_le_eq)
  ultimately show ?thesis using v(1) by simp
qed

lemma open_amount_sum:
  "open_amount rs i = (\<Sum>r \<leftarrow> rs. if tr_treasury r = i \<and> tr_status r = RSReserved then tr_amount r else 0)"
  by (induction rs) (simp_all add: open_amount_def)

lemma reachable_treasury:
  "reachable d \<Longrightarrow> t \<in> set (treasuries d) \<Longrightarrow>
   ta_reserved t = (\<Sum>r \<leftarrow> reservations d.
      if tr_treasury r = ta_id t \<and> tr_status r = RSReserved then tr_amount r else 0) \<and> treasury_ok t"
  using reachable_ledger_ok [of d]
  by (simp add: ledger_ok_def treasury_balanced_def list_all_iff open_amount_sum)

lemma filter_distinct_key:
  "distinct (List.map f xs) \<Longrightarrow> length (filter (\<lambda>x. f x = k) xs) = (if k \<in> f ` set xs then 1 else 0)"
proof (induction xs)
  case (Cons x xs)
  have "filter (\<lambda>y. f y = f x) xs = []"
    using Cons.prems by (simp add: filter_empty_conv) (metis image_eqI)
  with Cons show ?case by (cases "f x = k") auto
qed simp

lemma payout_count:
  assumes ok: "ledger_ok os es ts rs ps" and r: "r \<in> set os" "or_direction r = ''offramp''"
  shows "length (filter (\<lambda>p. po_order p = or_id r) ps) = (if or_status r = OSCompleted then 1 else 0) \<and>
    list_all (\<lambda>p. po_amount p = or_fiat_minor r) (filter (\<lambda>p. po_order p = or_id r) ps)"
proof -
  from ok have m: "payouts_match os ps" by (simp add: ledger_ok_def)
  have paid: "or_status r = OSCompleted \<and> po_amount p = or_fiat_minor r"
    if "p \<in> set ps" "po_order p = or_id r" for p
    using ledger_ok_paid [OF ok r(1) that] by simp
  have "or_id r \<in> po_order ` set ps \<longleftrightarrow> or_status r = OSCompleted"
    using m r paid by (auto simp: payouts_match_def)
  moreover have "distinct (List.map po_order ps)" using m by (simp add: payouts_match_def)
  ultimately show ?thesis
    using filter_distinct_key [of po_order ps "or_id r"] paid by (auto simp: list_all_iff)
qed

end
