(* ===== verification/Onramp_Usecase.thy ===== *)
theory Onramp_Usecase
  imports System
begin

text \<open>
  \<open>internal/usecase/onramp_usecase.go\<close> and \<open>onramp_callback_usecase.go\<close> over the repository
  model. The price feed, the KYC reader, the Stellar account readers, the payment gateway and
  SHA-256 are parameters; the gateway's answers may depend on the database, that is on
  everything that happened before.
\<close>

datatype gateway_failure = GatewayUnknown | GatewayRejected err

record checkout_input =
  ci_order :: string
  ci_method :: payment_method
  ci_amount :: idr
  ci_expires :: time

record onramp_deps =
  od_price :: "err + market_price"
  od_balance :: "string \<Rightarrow> err + stroops"
  od_checkout :: "checkout_input \<Rightarrow> db \<Rightarrow> gateway_failure + checkout"
  od_destination :: "string \<Rightarrow> bool"
  od_trustline :: "(string \<Rightarrow> string \<Rightarrow> string \<Rightarrow> bool) option"
  od_kyc :: "string \<Rightarrow> err + bool"
  od_digest :: "string \<Rightarrow> string"

record service_config =
  sc_policy :: quote_policy
  sc_min :: idr
  sc_max :: idr
  sc_treasury :: string
  sc_repo :: onramp_config

record command =
  cm_principal :: order_principal
  cm_wallet :: string
  cm_quote_id :: string
  cm_key :: string
  cm_amount :: idr
  cm_method :: payment_method
  cm_destination :: string
  cm_memo :: string

section \<open>Request identity\<close>

text \<open>The text that is digested: every part preceded by its length in bytes.\<close>

definition encode_part :: "string \<Rightarrow> string" where
  "encode_part p = format_int (int (length p)) @ CHR '':'' # p"

definition encode_parts :: "string list \<Rightarrow> string" where
  "encode_parts ps = List.concat (List.map encode_part ps)"

definition order_request_hash :: "(string \<Rightarrow> string) \<Rightarrow> string \<Rightarrow> string list \<Rightarrow> string" where
  "order_request_hash digest op values = digest (encode_parts (op # values))"

definition onramp_request_hash :: "(string \<Rightarrow> string) \<Rightarrow> command \<Rightarrow> string" where
  "onramp_request_hash digest c = order_request_hash digest onramp_create_operation
     [format_int (cm_amount c), payment_method_text (cm_method c), cm_destination c, cm_memo c]"

section \<open>Create\<close>

definition is_base32_char :: "char \<Rightarrow> bool" where
  "is_base32_char c \<longleftrightarrow> (CHR ''A'' \<le> c \<and> c \<le> CHR ''Z'') \<or> (CHR ''2'' \<le> c \<and> c \<le> CHR ''7'')"

definition validate_command :: "command \<Rightarrow> bool" where
  "validate_command c \<longleftrightarrow>
     \<not> (cm_key c = [] \<or> 255 < length (cm_key c) \<or> amount_validate (cm_amount c) \<noteq> Inr () \<or>
        (cm_method c \<noteq> PMQRIS \<and> cm_method c \<noteq> PMBRIVA \<and> cm_method c \<noteq> PMXendit) \<or>
        length (cm_destination c) \<noteq> 56 \<or> \<not> has_prefix ''G'' (cm_destination c) \<or> 28 < length (cm_memo c)) \<and>
     list_all is_base32_char (cm_destination c)"

definition normalize_command :: "command \<Rightarrow> command" where
  "normalize_command c = c\<lparr>cm_key := trim_space (cm_key c), cm_destination := trim_space (cm_destination c),
     cm_memo := trim_space (cm_memo c),
     cm_method := (if cm_method c = PMUnknown then PMXendit else cm_method c)\<rparr>"

definition replay_error :: "order_view \<Rightarrow> err option" where
  "replay_error v = (if ov_failure v = ''checkout_unknown'' then Some (CheckoutUnknownError (ov_id v)) else None)"

definition replayed :: "order_view \<Rightarrow> (order_view \<times> bool) repo" where
  "replayed v = (case replay_error v of None \<Rightarrow> act_ret (v, True) | Some e \<Rightarrow> act_fail e)"

text \<open>What follows the reservation: the provider checkout and its three outcomes.\<close>

definition open_checkout ::
  "onramp_deps \<Rightarrow> string \<Rightarrow> command \<Rightarrow> quote \<Rightarrow> (order_view \<times> bool) repo" where
  "open_checkout deps order_id c q =
     act_bind (act_get w_db) (\<lambda>d.
     case od_checkout deps \<lparr>ci_order = order_id, ci_method = cm_method c, ci_amount = cm_amount c,
            ci_expires = q_expires_at q\<rparr> d of
       Inl GatewayUnknown \<Rightarrow>
         act_bind (act_try (mark_checkout_unknown order_id ''provider outcome unknown'')) (\<lambda>_.
         act_fail (CheckoutUnknownError order_id))
     | Inl (GatewayRejected e) \<Rightarrow>
         act_bind (act_try (fail_checkout order_id ''provider rejected checkout'')) (\<lambda>_.
         act_fail e)
     | Inr co \<Rightarrow> act_bind (attach_checkout order_id co) (\<lambda>v. act_ret (v, False)))"

definition onramp_create_record ::
  "string \<Rightarrow> command \<Rightarrow> string \<Rightarrow> string \<Rightarrow> quote \<Rightarrow> time \<Rightarrow> create_record" where
  "onramp_create_record order_id c key_hash request_hash q now =
     \<lparr>cr_order = order_id, cr_principal = cm_principal c, cr_wallet = trim_space (cm_wallet c),
      cr_quote_id = trim_space (cm_quote_id c), cr_key_hash = key_hash, cr_request_hash = request_hash,
      cr_method = cm_method c, cr_destination = cm_destination c, cr_memo = cm_memo c, cr_quote = q,
      cr_created = now\<rparr>"

text \<open>A failed creation is answered with the order of a concurrent request with the same key.\<close>

definition after_failed_create ::
  "(string \<Rightarrow> string \<Rightarrow> order_view option repo) \<Rightarrow> (order_view \<Rightarrow> (order_view \<times> bool) repo) \<Rightarrow>
   string \<Rightarrow> string \<Rightarrow> err \<Rightarrow> (order_view \<times> bool) repo" where
  "after_failed_create find_replay answer key_hash request_hash e =
     act_bind (act_try (find_replay key_hash request_hash)) (\<lambda>again. case again of
       Inr (Some v) \<Rightarrow> answer v
     | Inr None \<Rightarrow> act_fail e
     | Inl e2 \<Rightarrow> if errors_is e2 ErrIdempotencyConflict then act_fail e2 else act_fail e)"

definition onramp_reserve ::
  "onramp_deps \<Rightarrow> service_config \<Rightarrow> command \<Rightarrow> string \<Rightarrow> string \<Rightarrow> (order_view \<times> bool) repo" where
  "onramp_reserve deps cfg c key_hash request_hash =
     act_bind (act_lift (od_kyc deps (op_owner (cm_principal c)))) (\<lambda>approved.
     act_bind (act_guard approved ErrKYCRequired) (\<lambda>_.
     act_bind (act_lift (od_price deps)) (\<lambda>market.
     act_bind now_utc (\<lambda>now.
     act_bind (act_lift (quote_create (sc_policy cfg) now (cm_amount c) market)) (\<lambda>q.
     act_bind (act_lift (od_balance deps (sc_treasury cfg))) (\<lambda>observed.
     act_bind new_id (\<lambda>order_id.
     act_bind (act_try (reserve_and_create (sc_repo cfg)
        (onramp_create_record order_id c key_hash request_hash q now) observed)) (\<lambda>created.
     case created of
       Inl e \<Rightarrow> after_failed_create (onramp_find_replay (cm_principal c)) replayed key_hash request_hash e
     | Inr _ \<Rightarrow> open_checkout deps order_id c q))))))))"

definition onramp_create :: "onramp_deps \<Rightarrow> service_config \<Rightarrow> command \<Rightarrow> (order_view \<times> bool) repo" where
  "onramp_create deps cfg c0 =
     (if principal_validate (cm_principal c0) \<noteq> None then act_fail ErrInvalidCommand
      else let c = normalize_command c0 in
      act_bind (act_guard (validate_command c) ErrInvalidCommand) (\<lambda>_.
      act_bind (act_guard (od_destination deps (cm_destination c)) ErrInvalidDestination) (\<lambda>_.
      act_bind (act_guard (case od_trustline deps of None \<Rightarrow> True
          | Some check \<Rightarrow> check (cm_destination c) kxlm_asset_code (sc_treasury cfg)) ErrInvalidDestination) (\<lambda>_.
      act_bind (act_guard (\<not> (cm_amount c < sc_min cfg \<or> sc_max cfg < cm_amount c)) ErrAmountOutOfRange) (\<lambda>_.
      let key_hash = od_digest deps (cm_key c);
          request_hash = onramp_request_hash (od_digest deps) c in
      act_bind (onramp_find_replay (cm_principal c) key_hash request_hash) (\<lambda>found. case found of
        Some v \<Rightarrow> replayed v
      | None \<Rightarrow> onramp_reserve deps cfg c key_hash request_hash))))))"

definition onramp_usecase_get :: "order_principal \<Rightarrow> string \<Rightarrow> order_view repo" where
  "onramp_usecase_get p order_id =
     (if principal_validate p \<noteq> None then act_fail ErrOrderNotFound else onramp_get p order_id)"

definition page_limit :: "int \<Rightarrow> nat" where
  "page_limit n = (if n < 1 \<or> 100 < n then 20 else nat n)"

definition onramp_usecase_list :: "order_principal \<Rightarrow> int \<Rightarrow> string \<Rightarrow> (order_view list \<times> string) repo" where
  "onramp_usecase_list p limit cursor =
     (if principal_validate p \<noteq> None then act_fail ErrOrderNotFound
      else onramp_list p (page_limit limit) cursor)"

section \<open>Callbacks\<close>

record callback =
  cb_event :: string
  cb_type :: string
  cb_checkout :: string

record payment_state =
  ps_provider :: string
  ps_reference :: string
  ps_status :: string
  ps_currency :: string
  ps_amount :: idr
  ps_channel :: string

record callback_gateway =
  cg_verify :: "string \<Rightarrow> string \<Rightarrow> err + callback"
  cg_state :: "string \<Rightarrow> db \<Rightarrow> err + payment_state"
  cg_digest :: "string \<Rightarrow> string"

definition valid_event :: "callback \<Rightarrow> payment_state \<Rightarrow> bool" where
  "valid_event cb actual \<longleftrightarrow>
     cb_type cb = ''payment.capture'' \<and> ps_status actual = ''SUCCEEDED'' \<or>
     cb_type cb = ''payment_session.completed'' \<and> ps_status actual = ''COMPLETED''"

definition payment_matches :: "callback \<Rightarrow> payment_state \<Rightarrow> expected_payment \<Rightarrow> bool" where
  "payment_matches cb actual x \<longleftrightarrow>
     \<not> (\<not> valid_event cb actual \<or> ps_provider actual \<noteq> xp_provider x \<or> ps_reference actual \<noteq> xp_order x \<or>
        ps_currency actual \<noteq> xp_currency x \<or> ps_amount actual \<noteq> xp_amount x \<or>
        (xp_channel x \<noteq> [] \<and> ps_channel actual \<noteq> xp_channel x))"

definition settle_callback :: "callback_gateway \<Rightarrow> callback \<Rightarrow> expected_payment \<Rightarrow> unit repo" where
  "settle_callback gw cb x =
     act_bind (act_get w_db) (\<lambda>d.
     act_bind (act_lift (cg_state gw (cb_checkout cb) d)) (\<lambda>actual.
     if \<not> payment_matches cb actual x then
       act_bind (act_try (complete_callback (cb_event cb) ''mismatched'')) (\<lambda>_. act_fail ErrPaymentMismatch)
     else
       act_bind (confirm_payment_and_enqueue \<lparr>cf_event = cb_event cb, cf_expected = x\<rparr>) (\<lambda>_.
       complete_callback (cb_event cb) ''processed'')))"

definition process_callback :: "callback_gateway \<Rightarrow> string \<Rightarrow> string \<Rightarrow> unit repo" where
  "process_callback gw raw token =
     act_bind (act_lift (cg_verify gw raw token)) (\<lambda>cb.
     act_bind (record_callback_receipt \<lparr>rc_event = cb_event cb, rc_type = cb_type cb,
        rc_checkout = cb_checkout cb, rc_payload_hash = cg_digest gw raw\<rparr>) (\<lambda>processed.
     if processed then act_ret ()
     else
       act_bind (act_try (get_expected_payment (cb_checkout cb))) (\<lambda>expected. case expected of
         Inl e \<Rightarrow> act_bind (act_try (complete_callback (cb_event cb) ''unmatched'')) (\<lambda>_. act_fail e)
       | Inr x \<Rightarrow> settle_callback gw cb x)))"

section \<open>Request encodings are unambiguous\<close>

lemma format_int_nat: "format_int (int n) = nat_str n"
  by (simp add: format_int_def)

lemma encode_part_append_eq:
  assumes "encode_part p @ s = encode_part q @ t"
  shows "p = q \<and> s = t"
proof -
  have ndig: "CHR '':'' \<notin> set (nat_str n)" for n
    using nat_str_digits [of "CHR '':''" n] by (auto simp: is_digit_def less_eq_char_nat)
  have "str_cut (CHR '':'') (encode_part p @ s) = str_cut (CHR '':'') (encode_part q @ t)"
    using assms by simp
  then have "nat_str (length p) = nat_str (length q) \<and> p @ s = q @ t"
    by (simp add: encode_part_def format_int_nat str_cut_append ndig)
  then show ?thesis using nat_str_inj [of "length p" "length q"] by simp
qed

lemma encode_part_nonempty: "encode_part p @ s \<noteq> []"
  by (simp add: encode_part_def)

lemma encode_parts_inj: "encode_parts ps = encode_parts qs \<Longrightarrow> ps = qs"
proof (induction ps arbitrary: qs)
  case Nil
  then show ?case by (cases qs) (simp_all add: encode_parts_def encode_part_def)
next
  case (Cons p ps)
  then obtain q qs' where qs: "qs = q # qs'"
    by (cases qs) (simp_all add: encode_parts_def encode_part_def)
  with Cons.prems have "encode_part p @ encode_parts ps = encode_part q @ encode_parts qs'"
    by (simp add: encode_parts_def)
  then have "p = q" "encode_parts ps = encode_parts qs'" using encode_part_append_eq by blast+
  with Cons.IH qs show ?case by simp
qed

lemma format_int_inj: "format_int a = format_int b \<Longrightarrow> a = b"
proof -
  assume e: "format_int a = format_int b"
  have nominus: "nat_str n \<noteq> CHR ''-'' # s" for n s
    using nat_str_digits [of "CHR ''-''" n] by (auto simp: is_digit_def less_eq_char_nat)
  show ?thesis
    using e nominus nominus [symmetric]
    by (auto simp: format_int_def split: if_splits dest!: nat_str_inj)
qed

section \<open>Replay\<close>

lemma get_order_reads: "(\<And>r. reads (view r)) \<Longrightarrow> reads (get_order view p i)"
  unfolding get_order_def
  by (intro readsI outcome_intro) (auto intro!: outcome_reads outcome_fail)

lemma onramp_get_reads: "reads (onramp_get p i)"
  unfolding onramp_get_def by (rule get_order_reads) (rule onramp_order_view_reads)

text \<open>A key that is on file for the principal's scope.\<close>

definition key_on_file :: "db \<Rightarrow> string \<Rightarrow> order_principal \<Rightarrow> string \<Rightarrow> bool" where
  "key_on_file d op p key_hash \<longleftrightarrow>
     (\<exists>owned r. apply_idempotency_ownership p = Inr owned \<and> r \<in> set (idempotency d) \<and> owned r \<and>
        ir_operation r = op \<and> ir_key r = key_hash)"

lemma outcome_find_replay:
  assumes g: "\<And>i. reads (get p i)"
    and some: "\<And>v. Q (Some v) d" and none: "\<not> key_on_file d op p key_hash \<Longrightarrow> Q None d"
    and E: "\<And>e. E e d"
  shows "outcome (find_replay_of op missing get p key_hash request_hash) Q E d t"
  unfolding find_replay_of_def
  by (intro outcome_intro outcome_reads [OF g] some E)
     (auto intro!: none simp: key_on_file_def first_by_None)

lemma find_replay_reads: "(\<And>i. reads (get p i)) \<Longrightarrow> reads (find_replay_of op missing get p k h)"
  by (rule readsI, rule outcome_find_replay) simp_all

lemma onramp_find_replay_reads: "reads (onramp_find_replay p k h)"
  unfolding onramp_find_replay_def by (rule find_replay_reads) (rule onramp_get_reads)

text \<open>The unique keys of \<open>idempotency_records\<close> refuse a second order for a key on file.\<close>

lemma idempotency_row_clash:
  assumes "apply_idempotency_ownership p = Inr owned" "owned q" "order_ownership_for p = Inr w"
  shows "same_some (ow_client w) (ir_client q) \<or> same_some (ow_retail_user w) (ir_user q)"
  using assms
  by (auto simp: apply_idempotency_ownership_def order_ownership_for_def same_some_def is_api_client_def
      split: option.splits principal_kind.splits if_splits)

lemma outcome_lock_treasury_any:
  assumes "\<And>ts tr. Q tr (d\<lparr>treasuries := ts\<rparr>)" and "\<And>e d'. E e d'"
  shows "outcome (lock_treasury c observed now) Q E d t"
  unfolding lock_treasury_def insert_treasury_def update_treasuries_def
  by (intro outcome_intro assms)

lemma reserve_key_on_file:
  assumes k: "key_on_file d onramp_create_operation (cr_principal r) (cr_key_hash r)"
  shows "outcome (reserve_and_create c r b) (\<lambda>_ _. False) (\<lambda>_ d'. d' = d) d t"
proof -
  from k obtain owned q where q: "apply_idempotency_ownership (cr_principal r) = Inr owned"
    "q \<in> set (idempotency d)" "owned q" "ir_operation q = onramp_create_operation"
    "ir_key q = cr_key_hash r" by (auto simp: key_on_file_def)
  show ?thesis
    unfolding reserve_and_create_def store_defs add_reserved_def
  proof (intro outcome_intro outcome_lock_treasury_any, goal_cases)
    case (1 w ts tr ord os fs f ri rs ts2 es ei ws us ms ns ii irs)
    from 1(1) idempotency_row_clash [OF q(1,3)]
    have c: "same_some (ow_client w) (ir_client q) \<or> same_some (ow_retail_user w) (ir_user q)" by blast
    have "q \<in> set (idempotency d)" by (rule q)
    with 1 q c show ?case by fastforce
  qed simp_all
qed

text \<open>A created order files the key of its request.\<close>

lemma ownership_owns:
  assumes "order_ownership_for p = Inr w" and "ir_client r = ow_client w" "ir_user r = ow_retail_user w"
  shows "\<exists>owned. apply_idempotency_ownership p = Inr owned \<and> owned r"
  using assms
  by (auto simp: apply_idempotency_ownership_def order_ownership_for_def is_api_client_def
      split: option.splits principal_kind.splits if_splits)

lemma key_filed:
  assumes "order_ownership_for p = Inr w" and "r \<in> set (idempotency d)" "ir_client r = ow_client w"
    "ir_user r = ow_retail_user w" "ir_operation r = op" "ir_key r = k"
  shows "key_on_file d op p k"
  using ownership_owns [OF assms(1,3,4)] assms(2,5,6) by (auto simp: key_on_file_def)

lemma key_on_file_mono:
  assumes k: "key_on_file d op p k" and m: "idem_keys d \<subseteq> idem_keys d'"
  shows "key_on_file d' op p k"
proof -
  from k obtain owned r where o: "apply_idempotency_ownership p = Inr owned" "r \<in> set (idempotency d)" "owned r"
    "ir_operation r = op" "ir_key r = k" by (auto simp: key_on_file_def)
  from o(2) m obtain q where q: "q \<in> set (idempotency d')"
    "(ir_client q, ir_user q, ir_operation q, ir_key q) = (ir_client r, ir_user r, ir_operation r, ir_key r)"
    unfolding idem_keys_def by (metis (mono_tags, lifting) image_eqI image_iff subsetD)
  then have "owned q"
    using o(1,3) by (auto simp: apply_idempotency_ownership_def split: option.splits if_splits)
  with o q show ?thesis by (auto simp: key_on_file_def)
qed

lemma reserve_files_key:
  "outcome (reserve_and_create c r b)
     (\<lambda>_ d'. key_on_file d' onramp_create_operation (cr_principal r) (cr_key_hash r)) (\<lambda>_ d'. d' = d) d t"
  unfolding reserve_and_create_def store_defs add_reserved_def
  by (intro outcome_intro outcome_lock_treasury_any) (auto intro!: key_filed)

interpretation onramp_filed: filed_operation
  "\<lambda>(c, r, b). reserve_and_create c r b"
  "\<lambda>(c, r, b) d. key_on_file d onramp_create_operation (cr_principal r) (cr_key_hash r)"
  by unfold_locales (auto intro: reserve_files_key reserve_key_on_file key_on_file_mono)

text \<open>With its key on file, a request creates nothing: it is answered from the record or refused.\<close>

lemma replayed_reads: "reads (replayed v)"
  unfolding replayed_def by (intro readsI outcome_intro) simp_all

lemma onramp_create_key_on_file:
  assumes k: "key_on_file d onramp_create_operation (cm_principal c) (od_digest deps (trim_space (cm_key c)))"
  shows "outcome (onramp_create deps cfg c) (\<lambda>_ d'. d' = d) (\<lambda>_ d'. d' = d) d t"
  unfolding onramp_create_def onramp_find_replay_def
  by (intro outcome_intro outcome_find_replay outcome_reads [OF replayed_reads] onramp_get_reads)
     (use k in \<open>auto simp: normalize_command_def\<close>)

section \<open>The ledger invariant\<close>

lemma outcome_try_seq:
  assumes "outcome m (\<lambda>_. I) (\<lambda>_. I) d t" and "\<And>r d'. I d' \<Longrightarrow> outcome (f r) Q E d' t"
  shows "outcome (act_bind (act_try m) f) Q E d t"
  by (rule outcome_bind, rule outcome_try, rule outcome_weaken [OF assms(1)]) (simp_all add: assms(2))

lemma outcome_try_reads:
  assumes "reads m" and "\<And>r. outcome (f r) Q E d t"
  shows "outcome (act_bind (act_try m) f) Q E d t"
  by (rule outcome_bind, rule outcome_try, rule outcome_reads [OF assms(1)]) (simp_all add: assms(2))

lemma outcome_get_db [outcome_intro]: "Q d d \<Longrightarrow> outcome (act_get w_db) Q E d t"
  by (rule outcomeI) (auto simp: act_get_def)

lemma outcome_case_gateway [outcome_intro]:
  "(g = GatewayUnknown \<Longrightarrow> outcome a Q E d t) \<Longrightarrow> (\<And>e. g = GatewayRejected e \<Longrightarrow> outcome (b e) Q E d t) \<Longrightarrow>
   outcome (case g of GatewayUnknown \<Rightarrow> a | GatewayRejected e \<Rightarrow> b e) Q E d t"
  by (cases g) auto

lemma open_checkout_inv:
  assumes inv: "ledger_inv d"
  shows "outcome (open_checkout deps i c q) (\<lambda>_. ledger_inv) (\<lambda>_. ledger_inv) d t"
  unfolding open_checkout_def
  by (intro outcome_get_db outcome_bind [of "act_get w_db"] outcome_case_sum outcome_case_gateway
      outcome_try_seq [OF mark_checkout_unknown_inv [OF inv]] outcome_try_seq [OF fail_checkout_inv [OF inv]]
      outcome_seq [OF attach_checkout_inv [OF inv]] outcome_ret outcome_fail)

lemma after_failed_create_inv:
  assumes inv: "ledger_inv d" and "reads (fnd k h)" "\<And>v. reads (ans v)"
  shows "outcome (after_failed_create fnd ans k h e) (\<lambda>_. ledger_inv) (\<lambda>_. ledger_inv) d t"
  unfolding after_failed_create_def
  by (rule outcome_bind, rule outcome_try, rule outcome_reads [OF assms(2)])
     (auto split: option.splits intro!: outcome_reads [OF assms(3)] outcome_fail inv)

lemma onramp_reserve_inv:
  assumes inv: "ledger_inv d"
  shows "outcome (onramp_reserve deps cfg c k h) (\<lambda>_. ledger_inv) (\<lambda>_. ledger_inv) d t"
  unfolding onramp_reserve_def
  by (intro outcome_intro outcome_try_seq [OF reserve_and_create_inv] open_checkout_inv
      after_failed_create_inv onramp_find_replay_reads replayed_reads inv)

lemma onramp_create_inv:
  assumes inv: "ledger_inv d"
  shows "outcome (onramp_create deps cfg c) (\<lambda>_. ledger_inv) (\<lambda>_. ledger_inv) d t"
  unfolding onramp_create_def onramp_find_replay_def
  by (intro outcome_intro outcome_find_replay outcome_reads [OF replayed_reads] onramp_get_reads
      onramp_reserve_inv inv)

lemma settle_callback_inv:
  assumes inv: "ledger_inv d"
  shows "outcome (settle_callback gw cb x) (\<lambda>_. ledger_inv) (\<lambda>_. ledger_inv) d t"
  unfolding settle_callback_def
  by (intro outcome_get_db outcome_bind [of "act_get w_db"] outcome_bind [of "act_lift r" for r]
      outcome_lift outcome_if outcome_try_seq [OF complete_callback_inv [OF inv]]
      outcome_seq [OF confirm_payment_inv [OF inv]] outcome_fail complete_callback_inv inv)

lemma get_expected_payment_reads: "reads (get_expected_payment i)"
  unfolding get_expected_payment_def store_defs by (intro readsI outcome_intro) simp_all

lemma process_callback_inv:
  assumes inv: "ledger_inv d"
  shows "outcome (process_callback gw raw token) (\<lambda>_. ledger_inv) (\<lambda>_. ledger_inv) d t"
  unfolding process_callback_def
  by (intro outcome_bind [of "act_lift r" for r] outcome_lift outcome_seq [OF record_callback_receipt_inv]
      outcome_if outcome_ret outcome_try_reads [OF get_expected_payment_reads] outcome_case_sum
      outcome_try_seq [OF complete_callback_inv] outcome_fail settle_callback_inv inv)

section \<open>Payment evidence\<close>

text \<open>
  An order moves on only when the gateway's own state of the checkout agrees with the checkout
  row in provider, order, currency, amount and channel.
\<close>

definition paid_by :: "callback_gateway \<Rightarrow> string \<Rightarrow> string \<Rightarrow> db \<Rightarrow> string \<Rightarrow> bool" where
  "paid_by gw raw token d i \<longleftrightarrow>
     (\<exists>cb actual k d1. cg_verify gw raw token = Inr cb \<and> cg_state gw (cb_checkout cb) d1 = Inr actual \<and>
        valid_event cb actual \<and> k \<in> set (checkouts d) \<and> pc_order k = i \<and> ps_reference actual = i \<and>
        ps_provider actual = cb_checkout cb \<and> ps_amount actual = pc_amount k \<and>
        ps_currency actual = pc_currency k)"

lemma paid_byI:
  assumes "cg_verify gw raw token = Inr cb" "k \<in> set (checkouts d)" "cg_state gw (cb_checkout cb) d1 = Inr actual"
    and "payment_matches cb actual x" and "xp_order x = pc_order k" "xp_provider x = cb_checkout cb"
    "xp_amount x = pc_amount k" "xp_currency x = pc_currency k"
  shows "paid_by gw raw token d (pc_order k)"
  unfolding paid_by_def
  by (rule exI [of _ cb], rule exI [of _ actual], rule exI [of _ k], rule exI [of _ d1])
     (use assms in \<open>auto simp: payment_matches_def\<close>)

lemma outcome_expected_payment:
  assumes "\<And>k x. k \<in> set (checkouts d) \<Longrightarrow> xp_order x = pc_order k \<Longrightarrow> xp_provider x = i \<Longrightarrow>
      xp_amount x = pc_amount k \<Longrightarrow> xp_currency x = pc_currency k \<Longrightarrow> Q x d" and "\<And>e. E e d"
  shows "outcome (get_expected_payment i) Q E d t"
  unfolding get_expected_payment_def store_defs
proof (intro outcome_intro assms(2), goal_cases)
  case (1 k r)
  then show ?case by (intro assms(1) [of k]) (auto dest!: first_by_Some)
qed

lemma outcome_record_receipt:
  assumes "\<And>b gs. Q b (d\<lparr>gateway_events := gs\<rparr>)" and "\<And>e gs. E e (d\<lparr>gateway_events := gs\<rparr>)"
  shows "outcome (record_callback_receipt rc) Q E d t"
proof -
  have Q: "Q b d" for b using assms(1) [of b "gateway_events d"] by simp
  have E: "E e d" for e using assms(2) [of e "gateway_events d"] by simp
  show ?thesis
    unfolding record_callback_receipt_def find_gateway_event_def receipt_seen_def
    by (intro outcome_intro assms Q E)
qed

lemma outcome_complete_callback:
  assumes "\<And>gs. Q () (d\<lparr>gateway_events := gs\<rparr>)" and "\<And>e gs. E e (d\<lparr>gateway_events := gs\<rparr>)"
  shows "outcome (complete_callback ev r) Q E d t"
proof -
  have E: "E e d" for e using assms(2) [of e "gateway_events d"] by simp
  show ?thesis
    unfolding complete_callback_def store_defs by (intro outcome_intro assms E)
qed

text \<open>The effect of a confirmation on the order rows.\<close>

definition moved_by_payment :: "string \<Rightarrow> order_record list \<Rightarrow> order_record list \<Rightarrow> bool" where
  "moved_by_payment i os os' \<longleftrightarrow>
     list_all2 (\<lambda>r r'. r' = r \<or> or_id r = i \<and> or_id r' = i \<and> or_status r' = OSStellarProcessing) os os'"

lemma moved_by_payment_refl: "moved_by_payment i os os"
  by (simp add: moved_by_payment_def list.rel_refl)

lemma moved_by_payment_update:
  assumes "\<And>q. or_id (f q) = or_id q" "\<And>q. or_status (f q) = OSStellarProcessing"
  shows "moved_by_payment i os (update_rows (\<lambda>q. or_id q = i \<and> V q) f os)"
  by (induction os) (simp_all add: moved_by_payment_def update_rows_def assms)

lemma outcome_confirm_payment:
  assumes "\<And>d'. moved_by_payment (xp_order (cf_expected cf)) (orders d) (orders d') \<Longrightarrow> Q () d'"
    and "\<And>e. E e d"
  shows "outcome (confirm_payment_and_enqueue cf) Q E d t"
  unfolding confirm_payment_and_enqueue_def store_defs
proof (intro outcome_intro assms(2), goal_cases)
  case (1 r)
  show ?case by (rule assms(1)) (rule moved_by_payment_refl)
next
  case (2 r os es1 e1 ws1 us1 ms1 ns1 es2 e2 ws2 us2 ms2 ns2 row_id intent sts ob_id obs ges)
  from 2 have "or_id r = xp_order (cf_expected cf)" by (auto dest!: first_by_Some)
  with 2 have "moved_by_payment (xp_order (cf_expected cf)) (orders d) os"
    by (simp add: moved_by_payment_update)
  then show ?case by (intro assms(1)) simp
qed simp_all

lemma process_callback_evidence:
  "outcome (process_callback gw raw token)
     (\<lambda>_ d'. orders d' = orders d \<or> (\<exists>i. paid_by gw raw token d i \<and> moved_by_payment i (orders d) (orders d')))
     (\<lambda>_ d'. orders d' = orders d \<or> (\<exists>i. paid_by gw raw token d i \<and> moved_by_payment i (orders d) (orders d'))) d t"
  unfolding process_callback_def settle_callback_def
  by (intro outcome_bind [of "act_lift r" for r] outcome_lift outcome_bind [of "record_callback_receipt r" for r]
    outcome_record_receipt outcome_if outcome_ret outcome_bind [of "act_try m" for m] outcome_try
    outcome_expected_payment outcome_case_Inr outcome_case_Inl outcome_complete_callback outcome_fail
    outcome_bind [of "act_get w_db"] outcome_get_db outcome_bind [of "confirm_payment_and_enqueue c" for c]
    outcome_confirm_payment)
     (simp_all, (blast intro: paid_byI)+)

end
