(* ===== verification/Settlement_Usecase.thy ===== *)
theory Settlement_Usecase
  imports Onramp_Usecase
begin

text \<open>
  \<open>internal/usecase/settlement_usecase.go\<close>: one pass of the settlement worker over the
  Stellar network. The network is a parameter; its answers may depend on the database, that is
  on everything that happened before.
\<close>

datatype submission_result =
  SRUnknown | SRConfirmed | SRPending | SRPermanent | SRRetryable | SROther string

record submission =
  sb_result :: submission_result
  sb_ledger :: time
  sb_error :: string

record built_transaction =
  bt_hash :: string
  bt_envelope :: string

record network =
  nw_build :: "transfer \<Rightarrow> db \<Rightarrow> err + built_transaction"
  nw_submit :: "built_transaction \<Rightarrow> db \<Rightarrow> err + submission"
  nw_find :: "string \<Rightarrow> db \<Rightarrow> err + submission"

record settlement_config =
  sg_lease :: duration
  sg_retry :: duration
  sg_max_attempts :: int

abbreviation from_network :: "(db \<Rightarrow> err + 'a) \<Rightarrow> 'a repo" where
  "from_network f \<equiv> act_bind (act_get w_db) (\<lambda>d. act_lift (f d))"

definition retry_after :: "settlement_config \<Rightarrow> string \<Rightarrow> string \<Rightarrow> unit repo" where
  "retry_after cfg intent_id safe_error =
     act_bind now_utc (\<lambda>now. retry_later intent_id (now + sg_retry cfg) safe_error)"

text \<open>
  \<open>reconcile\<close> and \<open>handleSubmission\<close> call each other; a reconciliation filters the unknown
  results, so the second call of the cycle is never followed by a third.
\<close>

function (sequential) reconcile :: "network \<Rightarrow> settlement_config \<Rightarrow> string \<Rightarrow> string \<Rightarrow> unit repo"
  and handle_submission ::
    "network \<Rightarrow> settlement_config \<Rightarrow> string \<Rightarrow> string \<Rightarrow> submission \<Rightarrow> unit repo"
where
  "reconcile nw cfg intent_id hash =
     act_bind (act_try (from_network (nw_find nw hash))) (\<lambda>found. case found of
       Inl _ \<Rightarrow> retry_after cfg intent_id ''transaction reconciliation unavailable''
     | Inr s \<Rightarrow>
         if sb_result s = SRUnknown \<or> sb_result s = SRPending \<or> sb_result s = SRRetryable
         then retry_after cfg intent_id (sb_error s)
         else handle_submission nw cfg intent_id hash s)"
| "handle_submission nw cfg intent_id hash s =
     (case sb_result s of
        SRConfirmed \<Rightarrow> settlement_confirm intent_id hash (sb_ledger s)
      | SRPermanent \<Rightarrow> fail_permanent intent_id (sb_error s)
      | SRUnknown \<Rightarrow> act_bind (mark_unknown intent_id (sb_error s)) (\<lambda>_. reconcile nw cfg intent_id hash)
      | SRPending \<Rightarrow> retry_after cfg intent_id (sb_error s)
      | SRRetryable \<Rightarrow> retry_after cfg intent_id (sb_error s)
      | SROther _ \<Rightarrow> act_fail (ErrText ''invalid Stellar submission result''))"
  by pat_completeness auto
termination
  by (relation "measure (case_sum (\<lambda>_. 1) (\<lambda>(nw, cfg, i, h, s). if sb_result s = SRUnknown then 2 else 0))")
     auto

declare reconcile.simps [simp del] handle_submission.simps [simp del]

text \<open>\<open>return true, err\<close>.\<close>

definition processed :: "unit repo \<Rightarrow> (bool \<times> err option) repo" where
  "processed m = act_bind (act_try m) (\<lambda>r. case r of
     Inl e \<Rightarrow> act_ret (True, Some e) | Inr _ \<Rightarrow> act_ret (True, None))"

definition submit_built ::
  "network \<Rightarrow> settlement_config \<Rightarrow> string \<Rightarrow> built_transaction \<Rightarrow> time \<Rightarrow> unit repo" where
  "submit_built nw cfg intent_id built now =
     act_bind (mark_submitted intent_id (bt_hash built) now) (\<lambda>_.
     act_bind (act_try (from_network (nw_submit nw built))) (\<lambda>res. case res of
       Inl _ \<Rightarrow>
         act_bind (act_try (mark_unknown intent_id ''submission outcome unknown'')) (\<lambda>_.
         reconcile nw cfg intent_id (bt_hash built))
     | Inr s \<Rightarrow>
         if sb_result s = SRRetryable then
           act_bind (reset_submitted intent_id (sb_error s)) (\<lambda>_.
           retry_later intent_id (now + sg_retry cfg) (sb_error s))
         else handle_submission nw cfg intent_id (bt_hash built) s))"

definition settle_intent :: "network \<Rightarrow> settlement_config \<Rightarrow> intent \<Rightarrow> time \<Rightarrow> unit repo" where
  "settle_intent nw cfg it now =
     (if in_hash it \<noteq> [] then reconcile nw cfg (in_id it) (in_hash it)
      else act_bind (act_try (from_network (nw_build nw (in_transfer it)))) (\<lambda>res. case res of
        Inl e \<Rightarrow>
          act_bind (act_try (retry_later (in_id it) (now + sg_retry cfg) ''building transaction failed'')) (\<lambda>_.
          act_fail e)
      | Inr built \<Rightarrow>
          if bt_hash built = [] \<or> bt_envelope built = []
          then act_fail (ErrText ''Stellar adapter returned incomplete transaction'')
          else submit_built nw cfg (in_id it) built now))"

definition settlement_run_once :: "network \<Rightarrow> settlement_config \<Rightarrow> string \<Rightarrow> (bool \<times> err option) repo" where
  "settlement_run_once nw cfg worker =
     act_bind now_utc (\<lambda>now.
     act_bind (act_try (settlement_lease (sg_max_attempts cfg) worker now (sg_lease cfg))) (\<lambda>leased.
     case leased of
       Inl e \<Rightarrow> act_ret (False, if errors_is e ErrNoJob then None else Some e)
     | Inr j \<Rightarrow> processed (act_bind (load_intent (jb_intent j)) (\<lambda>it. settle_intent nw cfg it now))))"

definition expired_reservation_batch_limit :: nat where "expired_reservation_batch_limit = 100"

definition release_expired :: "nat repo" where
  "release_expired = act_bind now_utc (\<lambda>now.
     release_expired_reservations now expired_reservation_batch_limit)"

section \<open>The ledger invariant\<close>

lemma retry_after_inv:
  "ledger_inv d \<Longrightarrow> outcome (retry_after cfg i e) (\<lambda>_. ledger_inv) (\<lambda>_. ledger_inv) d t"
  unfolding retry_after_def by (intro outcome_bind [of now_utc] outcome_now retry_later_inv)

lemma outcome_from_network [outcome_intro]:
  "(\<And>x. f d = Inr x \<Longrightarrow> Q x d) \<Longrightarrow> (\<And>e. f d = Inl e \<Longrightarrow> E e d) \<Longrightarrow> outcome (from_network f) Q E d t"
  by (intro outcome_bind outcome_get_db outcome_lift) auto

lemma outcome_case_submission:
  "(r = SRUnknown \<Longrightarrow> outcome a Q E d t) \<Longrightarrow> (r = SRConfirmed \<Longrightarrow> outcome b Q E d t) \<Longrightarrow>
   (r = SRPending \<Longrightarrow> outcome c Q E d t) \<Longrightarrow> (r = SRPermanent \<Longrightarrow> outcome f Q E d t) \<Longrightarrow>
   (r = SRRetryable \<Longrightarrow> outcome g Q E d t) \<Longrightarrow> (\<And>s. r = SROther s \<Longrightarrow> outcome (h s) Q E d t) \<Longrightarrow>
   outcome (case r of SRUnknown \<Rightarrow> a | SRConfirmed \<Rightarrow> b | SRPending \<Rightarrow> c | SRPermanent \<Rightarrow> f
     | SRRetryable \<Rightarrow> g | SROther s \<Rightarrow> h s) Q E d t"
  by (cases r) auto

lemma reconcile_inv:
  shows "\<And>d. ledger_inv d \<Longrightarrow> outcome (reconcile nw cfg i h) (\<lambda>_. ledger_inv) (\<lambda>_. ledger_inv) d t"
    and "\<And>d. ledger_inv d \<Longrightarrow> outcome (handle_submission nw cfg i h s) (\<lambda>_. ledger_inv) (\<lambda>_. ledger_inv) d t"
proof (induction nw cfg i h and nw cfg i h s rule: reconcile_handle_submission.induct)
  case (1 nw cfg i h)
  show ?case
    unfolding reconcile.simps [of nw]
    by (rule outcome_bind, rule outcome_try, rule outcome_from_network)
       (auto simp: 1 retry_after_inv)
next
  case (2 nw cfg i h s)
  show ?case
    unfolding handle_submission.simps [of nw]
    by (rule outcome_case_submission)
       (simp_all add: 2 settlement_confirm_inv fail_permanent_inv retry_after_inv outcome_fail
         outcome_seq [OF mark_unknown_inv])
qed

lemma submit_built_inv:
  assumes inv: "ledger_inv d"
  shows "outcome (submit_built nw cfg i b now) (\<lambda>_. ledger_inv) (\<lambda>_. ledger_inv) d t"
  unfolding submit_built_def
  by (rule outcome_seq [OF mark_submitted_inv [OF inv]], rule outcome_bind, rule outcome_try,
      rule outcome_from_network)
     (simp_all add: reconcile_inv outcome_try_seq [OF mark_unknown_inv] outcome_seq [OF reset_submitted_inv]
        retry_later_inv)

lemma settle_intent_inv:
  assumes inv: "ledger_inv d"
  shows "outcome (settle_intent nw cfg it now) (\<lambda>_. ledger_inv) (\<lambda>_. ledger_inv) d t"
proof (cases "in_hash it = []")
  case True
  show ?thesis
    unfolding settle_intent_def if_not_P [OF notI, of "in_hash it \<noteq> []"] using True
    by (simp, intro outcome_bind [of "act_try (from_network f)" for f] outcome_try outcome_from_network)
       (simp_all add: inv submit_built_inv outcome_try_seq [OF retry_later_inv [OF inv]] outcome_fail)
next
  case False
  then show ?thesis by (simp add: settle_intent_def reconcile_inv inv)
qed

lemma outcome_processed:
  "outcome m (\<lambda>_. I) (\<lambda>_. I) d t \<Longrightarrow> outcome (processed m) (\<lambda>_. I) (\<lambda>_. I) d t"
  unfolding processed_def
  by (rule outcome_try_seq [where I = I]) (auto split: sum.splits intro: outcome_ret)

lemma settlement_run_once_inv:
  assumes inv: "ledger_inv d"
  shows "outcome (settlement_run_once nw cfg worker) (\<lambda>_. ledger_inv) (\<lambda>_. ledger_inv) d t"
  unfolding settlement_run_once_def
  by (intro outcome_bind [of now_utc] outcome_now outcome_try_seq [OF settlement_lease_inv [OF inv]]
      outcome_case_sum outcome_ret outcome_processed outcome_bind [of "load_intent i" for i]
      outcome_reads [OF load_intent_reads] settle_intent_inv)

lemma release_expired_sweep_inv:
  "ledger_inv d \<Longrightarrow> outcome release_expired (\<lambda>_. ledger_inv) (\<lambda>_. ledger_inv) d t"
  unfolding release_expired_def by (intro outcome_bind [of now_utc] outcome_now release_expired_inv)

section \<open>What the worker asks of the network\<close>

lemma act_bind_cong:
  assumes "\<And>x s1. m s = (Inr x, s1) \<Longrightarrow> f x s1 = g x s1"
  shows "act_bind m f s = act_bind m g s"
  using assms by (auto simp: act_bind_def split: prod.splits sum.splits)

lemma act_try_bind_cong:
  assumes "m s = m' s" and "\<And>r s1. m s = (r, s1) \<Longrightarrow> f r s1 = g r s1"
  shows "act_bind (act_try m) f s = act_bind (act_try m') g s"
  using assms by (auto simp: act_bind_def act_try_def split: prod.splits)

text \<open>Reconciliation only looks a hash up.\<close>

lemma reconcile_only_finds:
  assumes "nw_find nw = nw_find nw'"
  shows "reconcile nw cfg i h = reconcile nw' cfg i h"
    and "handle_submission nw cfg i h s = handle_submission nw' cfg i h s"
  using assms
proof (induction nw cfg i h and nw cfg i h s arbitrary: nw' and nw' rule: reconcile_handle_submission.induct)
  case (1 nw cfg i h)
  have step: "handle_submission nw cfg i h s = handle_submission nw' cfg i h s"
    if "\<not> (sb_result s = SRUnknown \<or> sb_result s = SRPending \<or> sb_result s = SRRetryable)" for s
    using 1 that by blast
  show ?case
    unfolding reconcile.simps [of nw] reconcile.simps [of nw'] 1(2)
    by (rule arg_cong [where f = "act_bind (act_try (from_network (nw_find nw' h)))"], rule ext)
       (auto split: sum.splits simp: step)
next
  case (2 nw cfg i h s)
  have step: "reconcile nw cfg i h = reconcile nw' cfg i h" if "sb_result s = SRUnknown"
    using 2 that by blast
  show ?case
    unfolding handle_submission.simps [of nw] handle_submission.simps [of nw']
    by (auto split: submission_result.splits simp: step)
qed

definition hash_on_file :: "db \<Rightarrow> string \<Rightarrow> bool" where
  "hash_on_file d h \<longleftrightarrow> (\<exists>s \<in> set (stellar_txs d). st_hash s = Some h)"

text \<open>Two networks that may differ in how they answer a submission whose hash is not on file.\<close>

definition agree_when_filed :: "network \<Rightarrow> network \<Rightarrow> bool" where
  "agree_when_filed nw nw' \<longleftrightarrow>
     nw_build nw = nw_build nw' \<and> nw_find nw = nw_find nw' \<and>
     (\<forall>b d. hash_on_file d (bt_hash b) \<longrightarrow> nw_submit nw b d = nw_submit nw' b d)"

lemma mark_submitted_files:
  assumes "mark_submitted i h now w = (Inr u, w')" and "s \<in> set (stellar_txs (w_db w))" "st_intent s = i"
  shows "hash_on_file (w_db w') h"
proof -
  have "outcome (mark_submitted i h now) (\<lambda>_ d'. hash_on_file d' h) (\<lambda>_ _. True) (w_db w) (w_now w)"
    unfolding mark_submitted_def store_defs
    by (intro outcome_intro)
       (use assms(2,3) in \<open>auto simp: hash_on_file_def update_rows_def intro!: bexI [where x = "s\<lparr>st_hash := Some h,
          st_status := STSubmitted, st_attempts := st_attempts s + 1, st_updated := now\<rparr>"]\<close>)
  from outcome_Inr [OF this assms(1)] show ?thesis .
qed

lemma from_network_run: "from_network f w = (f (w_db w), w)"
  by (simp add: act_bind_def act_get_def act_lift_def)

lemma submit_built_agree:
  assumes a: "agree_when_filed nw nw'" and s: "s \<in> set (stellar_txs (w_db w))" "st_intent s = i"
  shows "submit_built nw cfg i b now w = submit_built nw' cfg i b now w"
proof -
  from a have f: "nw_find nw = nw_find nw'" by (simp add: agree_when_filed_def)
  note rec = reconcile_only_finds [OF f]
  show ?thesis
    unfolding submit_built_def
  proof (rule act_bind_cong)
    fix x w1 assume "mark_submitted i (bt_hash b) now w = (Inr x, w1)"
    from mark_submitted_files [OF this s] a
    have e: "nw_submit nw b (w_db w1) = nw_submit nw' b (w_db w1)" by (simp add: agree_when_filed_def)
    show "act_bind (act_try (from_network (nw_submit nw b))) (\<lambda>res. case res of
         Inl _ \<Rightarrow> act_bind (act_try (mark_unknown i ''submission outcome unknown''))
           (\<lambda>_. reconcile nw cfg i (bt_hash b))
       | Inr s \<Rightarrow> if sb_result s = SRRetryable
           then act_bind (reset_submitted i (sb_error s)) (\<lambda>_. retry_later i (now + sg_retry cfg) (sb_error s))
           else handle_submission nw cfg i (bt_hash b) s) w1 =
      act_bind (act_try (from_network (nw_submit nw' b))) (\<lambda>res. case res of
         Inl _ \<Rightarrow> act_bind (act_try (mark_unknown i ''submission outcome unknown''))
           (\<lambda>_. reconcile nw' cfg i (bt_hash b))
       | Inr s \<Rightarrow> if sb_result s = SRRetryable
           then act_bind (reset_submitted i (sb_error s)) (\<lambda>_. retry_later i (now + sg_retry cfg) (sb_error s))
           else handle_submission nw' cfg i (bt_hash b) s) w1"
      by (rule act_try_bind_cong) (simp_all add: from_network_run e rec split: sum.split)
  qed
qed

lemma load_intent_row:
  assumes "load_intent i w = (Inr it, w')"
  shows "\<exists>s \<in> set (stellar_txs (w_db w')). st_intent s = in_id it \<and> st_purpose s = ''transfer'' \<and>
    in_hash it = deref_str (st_hash s) \<and> parse_stroops (st_amount s) = Inr (tf_amount (in_transfer it))"
proof -
  have "outcome (load_intent i) (\<lambda>it d'. \<exists>s \<in> set (stellar_txs d'). st_intent s = in_id it \<and>
      st_purpose s = ''transfer'' \<and> in_hash it = deref_str (st_hash s) \<and>
      parse_stroops (st_amount s) = Inr (tf_amount (in_transfer it))) (\<lambda>_ _. True) (w_db w) (w_now w)"
    unfolding load_intent_def by (intro outcome_intro) (auto dest!: first_by_Some)
  from outcome_Inr [OF this assms] show ?thesis .
qed

lemma settle_intent_agree:
  assumes a: "agree_when_filed nw nw'" and s: "s \<in> set (stellar_txs (w_db w))" "st_intent s = in_id it"
  shows "settle_intent nw cfg it now w = settle_intent nw' cfg it now w"
proof (cases "in_hash it = []")
  case False
  with a show ?thesis
    by (simp add: settle_intent_def agree_when_filed_def reconcile_only_finds(1) [of nw nw'])
next
  case True
  from a have b: "nw_build nw = nw_build nw'" by (simp add: agree_when_filed_def)
  show ?thesis
    unfolding settle_intent_def b using True
    by (simp, intro act_try_bind_cong)
       (auto simp: from_network_run submit_built_agree [OF a s] split: sum.splits)
qed

lemma settlement_run_once_agree:
  assumes a: "agree_when_filed nw nw'"
  shows "settlement_run_once nw cfg worker w = settlement_run_once nw' cfg worker w"
proof -
  have step: "(\<lambda>i now. act_bind (load_intent i) (\<lambda>it. settle_intent nw cfg it now)) =
      (\<lambda>i now. act_bind (load_intent i) (\<lambda>it. settle_intent nw' cfg it now))"
    by (intro ext act_bind_cong) (auto dest!: load_intent_row intro: settle_intent_agree [OF a])
  have "act_bind (load_intent i) (\<lambda>it. settle_intent nw cfg it now) =
      act_bind (load_intent i) (\<lambda>it. settle_intent nw' cfg it now)" for i now
    using fun_cong [OF fun_cong [OF step]] .
  then show ?thesis unfolding settlement_run_once_def by presburger
qed

end
