(* ===== verification/Deposit_Memo.thy ===== *)
theory Deposit_Memo
  imports Encodings
begin

text \<open>
  \<open>internal/platform/id.go\<close> and \<open>OfframpDepositMemo\<close> of
  \<open>internal/usecase/offramp_usecase.go\<close>: identifiers are the hexadecimal text of sixteen
  random bytes, and the memo of a deposit is the unpadded URL-safe base64 of those bytes behind
  a prefix. A memo fits Stellar's 28 bytes, and the memos of two identifiers differ.
\<close>

section \<open>Identifiers and memos\<close>

text \<open>\<open>NewID\<close> on sixteen random bytes: version 4, variant 1, then five groups of hexadecimal.\<close>

definition stamp_uuid :: "byte list \<Rightarrow> byte list" where
  "stamp_uuid bs = bs[6 := (bs ! 6 AND 0x0f) OR 0x40, 8 := (bs ! 8 AND 0x3f) OR 0x80]"

definition uuid_text :: "byte list \<Rightarrow> string" where
  "uuid_text bs = hex_encode (take 4 bs) @ ''-'' @ hex_encode (take 2 (drop 4 bs)) @ ''-'' @
     hex_encode (take 2 (drop 6 bs)) @ ''-'' @ hex_encode (take 2 (drop 8 bs)) @ ''-'' @
     hex_encode (drop 10 bs)"

definition platform_new_id :: "byte list \<Rightarrow> string" where
  "platform_new_id random = uuid_text (stamp_uuid random)"

definition offramp_memo_prefix :: string where "offramp_memo_prefix = ''off''"
definition stellar_text_memo_max_bytes :: nat where "stellar_text_memo_max_bytes = 28"
definition offramp_memo_payload_bytes :: nat where "offramp_memo_payload_bytes = 16"

text \<open>The digest is a parameter.\<close>

definition offramp_deposit_memo :: "(string \<Rightarrow> byte list) \<Rightarrow> string \<Rightarrow> string" where
  "offramp_deposit_memo sha256 order_id =
     (let normalized = filter (\<lambda>c. c \<noteq> CHR ''-'') order_id;
          hashed = (let memo = offramp_memo_prefix @ normalized in
            if length memo \<le> stellar_text_memo_max_bytes then memo
            else offramp_memo_prefix @ b64_raw_url (take offramp_memo_payload_bytes (sha256 order_id)))
      in case hex_decode normalized of
           Some decoded \<Rightarrow> if length decoded = offramp_memo_payload_bytes
             then offramp_memo_prefix @ b64_raw_url decoded else hashed
         | None \<Rightarrow> hashed)"

section \<open>Round trips\<close>

lemma uuid_text_normalized:
  assumes "length bs = 16"
  shows "filter (\<lambda>c. c \<noteq> CHR ''-'') (uuid_text bs) = hex_encode bs"
proof -
  have "hex_encode (take 4 bs) @ hex_encode (take 2 (drop 4 bs)) @ hex_encode (take 2 (drop 6 bs)) @
      hex_encode (take 2 (drop 8 bs)) @ hex_encode (drop 10 bs)
    = hex_encode (take 4 bs @ take 2 (drop 4 bs) @ take 2 (drop 6 bs) @ take 2 (drop 8 bs) @ drop 10 bs)"
    by (simp only: hex_encode_append)
  also have "take 4 bs @ take 2 (drop 4 bs) @ take 2 (drop 6 bs) @ take 2 (drop 8 bs) @ drop 10 bs = bs"
  proof -
    have "take 2 (drop k bs) @ drop (k + 2) bs = drop k bs" for k
      by (metis append_take_drop_id drop_drop add.commute)
    from this [of 8] this [of 6] this [of 4] show ?thesis by simp
  qed
  finally show ?thesis by (simp add: uuid_text_def hex_encode_no_dash)
qed

section \<open>Memos\<close>

lemma deposit_memo_uuid:
  "length bs = 16 \<Longrightarrow> offramp_deposit_memo sha256 (uuid_text bs) = offramp_memo_prefix @ b64_raw_url bs"
  by (simp add: offramp_deposit_memo_def uuid_text_normalized hex_decode_encode offramp_memo_payload_bytes_def)

lemma deposit_memo_length: "length (offramp_deposit_memo sha256 order_id) \<le> stellar_text_memo_max_bytes"
proof -
  have "length (b64_raw_url (take offramp_memo_payload_bytes x)) \<le> 25" for x
    by (simp add: length_b64_raw_url offramp_memo_payload_bytes_def)
  moreover have "length (b64_raw_url x) \<le> 25" if "length x = offramp_memo_payload_bytes" for x
    using that by (simp add: length_b64_raw_url offramp_memo_payload_bytes_def)
  ultimately show ?thesis
    unfolding offramp_deposit_memo_def Let_def offramp_memo_prefix_def stellar_text_memo_max_bytes_def
    by (auto split: option.splits)
qed

lemma uuid_text_inj:
  assumes "length as = 16" "length bs = 16" "uuid_text as = uuid_text bs"
  shows "as = bs"
  using assms uuid_text_normalized [of as] uuid_text_normalized [of bs] hex_decode_encode [of as]
    hex_decode_encode [of bs] by simp

lemma length_stamp_uuid [simp]: "length (stamp_uuid bs) = length bs"
  by (simp add: stamp_uuid_def)

lemma deposit_memo_inj:
  assumes "length as = 16" "length bs = 16"
    and "offramp_deposit_memo sha256 (platform_new_id as) = offramp_deposit_memo sha256 (platform_new_id bs)"
  shows "platform_new_id as = platform_new_id bs"
proof -
  have "b64_raw_url (stamp_uuid as) = b64_raw_url (stamp_uuid bs)"
    using assms by (simp add: platform_new_id_def deposit_memo_uuid)
  then have "stamp_uuid as = stamp_uuid bs" by (rule b64_raw_url_inj [rotated]) (simp add: assms)
  then show ?thesis by (simp add: platform_new_id_def)
qed

end
