(* ===== verification/Offramp_Usecase.thy ===== *)
theory Offramp_Usecase
  imports Settlement_Usecase Deposit_Memo
begin

text \<open>
  The sell side: \<open>OfframpUsecase.Create\<close> (\<open>offramp_usecase.go\<close>), the quote preview
  (\<open>quote_preview_usecase.go\<close>), the deposit scanner and the retirement worker
  (\<open>offramp_worker_usecase.go\<close>) and the simulated payout (\<open>sandbox_payout_usecase.go\<close>), all
  under \<open>internal/usecase\<close>. The price feed, the KYC reader, the trust-line reader, SHA-256 and
  the Stellar network are parameters.
\<close>

definition retirement_sink_address :: string where
  "retirement_sink_address = ''GAAAAAAAAAAAAAAAAAAAAAAAAAAAAAAAAAAAAAAAAAAAAAAAAAAAAWHF''"

record offramp_deps =
  fd_price :: "err + market_price"
  fd_trustline :: "(string \<Rightarrow> string \<Rightarrow> string \<Rightarrow> bool) option"
  fd_kyc :: "string \<Rightarrow> err + bool"
  fd_digest :: "string \<Rightarrow> string"
  fd_sha256 :: "string \<Rightarrow> byte list"

record offramp_service_config =
  fg_policy :: quote_policy
  fg_min :: idr
  fg_max :: idr
  fg_deposit :: string
  fg_issuer :: string
  fg_deposit_expiry :: duration
  fg_repo :: offramp_config

record offramp_command =
  fm_principal :: order_principal
  fm_wallet :: string
  fm_quote_id :: string
  fm_key :: string
  fm_network :: string
  fm_asset_code :: string
  fm_currency :: string
  fm_amount :: string
  fm_method :: withdrawal_method
  fm_destination :: string

section \<open>Create\<close>

definition normalize_offramp :: "offramp_command \<Rightarrow> offramp_command" where
  "normalize_offramp c = c\<lparr>fm_key := trim_space (fm_key c), fm_network := trim_space (fm_network c),
     fm_asset_code := trim_space (fm_asset_code c), fm_currency := trim_space (fm_currency c),
     fm_amount := trim_space (fm_amount c), fm_destination := trim_space (fm_destination c)\<rparr>"

definition valid_offramp :: "offramp_command \<Rightarrow> bool" where
  "valid_offramp c \<longleftrightarrow>
     \<not> (fm_key c = [] \<or> 255 < length (fm_key c) \<or> fm_network c \<noteq> stellar_testnet_network \<or>
        fm_asset_code c \<noteq> kxlm_asset_code \<or> fm_currency c \<noteq> idr_currency \<or>
        fm_method c \<noteq> WMSandboxTransfer \<or> fm_destination c = [] \<or> 200 < length (fm_destination c))"

definition offramp_request_hash :: "(string \<Rightarrow> string) \<Rightarrow> offramp_command \<Rightarrow> stroops \<Rightarrow> string" where
  "offramp_request_hash digest c stroops = order_request_hash digest offramp_create_operation
     [fm_network c, fm_asset_code c, format_int stroops, fm_currency c,
      withdrawal_method_text (fm_method c), fm_destination c]"

definition make_offramp_record ::
  "offramp_deps \<Rightarrow> offramp_service_config \<Rightarrow> offramp_command \<Rightarrow> string \<Rightarrow> string \<Rightarrow> string \<Rightarrow> stroops \<Rightarrow>
   quote \<Rightarrow> time \<Rightarrow> offramp_create_record" where
  "make_offramp_record deps cfg c order_id key_hash request_hash stroops q now =
     \<lparr>fr_order = order_id, fr_principal = fm_principal c, fr_wallet = trim_space (fm_wallet c),
      fr_quote_id = trim_space (fm_quote_id c), fr_key_hash = key_hash, fr_request_hash = request_hash,
      fr_amount = stroops, fr_issuer = fg_issuer cfg, fr_quote = q, fr_destination = fm_destination c,
      fr_memo = offramp_deposit_memo (fd_sha256 deps) order_id, fr_expires = now + fg_deposit_expiry cfg,
      fr_created = now\<rparr>"

definition offramp_answer :: "order_view \<Rightarrow> (order_view \<times> bool) repo" where
  "offramp_answer v = act_ret (v, True)"

definition offramp_store ::
  "offramp_deps \<Rightarrow> offramp_service_config \<Rightarrow> offramp_command \<Rightarrow> string \<Rightarrow> string \<Rightarrow> stroops \<Rightarrow> time \<Rightarrow> quote \<Rightarrow>
   (order_view \<times> bool) repo" where
  "offramp_store deps cfg c key_hash request_hash stroops now q =
     act_bind new_id (\<lambda>order_id.
     act_bind (act_try (create_offramp (fg_repo cfg)
        (make_offramp_record deps cfg c order_id key_hash request_hash stroops q now))) (\<lambda>created.
     case created of
       Inl e \<Rightarrow> after_failed_create (offramp_find_replay (fm_principal c)) offramp_answer key_hash request_hash e
     | Inr _ \<Rightarrow> act_bind (offramp_get (fm_principal c) order_id) (\<lambda>v. act_ret (v, False))))"

definition offramp_price ::
  "offramp_deps \<Rightarrow> offramp_service_config \<Rightarrow> offramp_command \<Rightarrow> string \<Rightarrow> string \<Rightarrow> stroops \<Rightarrow>
   (order_view \<times> bool) repo" where
  "offramp_price deps cfg c key_hash request_hash stroops =
     act_bind (act_lift (fd_kyc deps (op_owner (fm_principal c)))) (\<lambda>approved.
     act_bind (act_guard approved ErrKYCRequired) (\<lambda>_.
     act_bind (act_guard (trim_space (fg_issuer cfg) \<noteq> []) ErrInvalidWithdrawal) (\<lambda>_.
     act_bind (act_guard (case fd_trustline deps of None \<Rightarrow> True
         | Some check \<Rightarrow> check (fg_deposit cfg) kxlm_asset_code (fg_issuer cfg)) ErrInvalidWithdrawal) (\<lambda>_.
     act_bind now_utc (\<lambda>now.
     act_bind (act_lift (fd_price deps)) (\<lambda>market.
     act_bind (act_lift (quote_create_reverse (fg_policy cfg) now stroops market)) (\<lambda>q.
     act_bind (act_guard (\<not> (fiat_amount q < fg_min cfg \<or> fg_max cfg < fiat_amount q)) ErrAmountOutOfRange) (\<lambda>_.
     offramp_store deps cfg c key_hash request_hash stroops now q))))))))"

definition offramp_create ::
  "offramp_deps \<Rightarrow> offramp_service_config \<Rightarrow> offramp_command \<Rightarrow> (order_view \<times> bool) repo" where
  "offramp_create deps cfg c0 =
     (if principal_validate (fm_principal c0) \<noteq> None then act_fail ErrInvalidWithdrawal
      else let c = normalize_offramp c0 in
      act_bind (act_guard (valid_offramp c) ErrInvalidWithdrawal) (\<lambda>_.
      case parse_decimal_stroops (fm_amount c) of
        Inl _ \<Rightarrow> act_fail ErrInvalidWithdrawal
      | Inr stroops \<Rightarrow>
          let key_hash = fd_digest deps (fm_key c);
              request_hash = offramp_request_hash (fd_digest deps) c stroops in
          act_bind (offramp_find_replay (fm_principal c) key_hash request_hash) (\<lambda>found. case found of
            Some v \<Rightarrow> offramp_answer v
          | None \<Rightarrow> offramp_price deps cfg c key_hash request_hash stroops)))"

section \<open>Quote preview\<close>

record preview_config =
  vc_policy :: quote_policy
  vc_min :: idr
  vc_max :: idr

record preview_command =
  vm_direction :: string
  vm_currency :: string
  vm_fiat :: idr
  vm_network :: string
  vm_asset_code :: string
  vm_asset_amount :: string

definition quote_preview ::
  "preview_config \<Rightarrow> (err + market_price) \<Rightarrow> time \<Rightarrow> preview_command \<Rightarrow> err + (string \<times> quote)" where
  "quote_preview cfg price now c =
     (let amount = trim_space (vm_asset_amount c); direction = trim_space (vm_direction c) in
      if trim_space (vm_currency c) \<noteq> idr_currency \<or> trim_space (vm_network c) \<noteq> stellar_testnet_network \<or>
         trim_space (vm_asset_code c) \<noteq> kxlm_asset_code then Inl ErrInvalidQuoteRequest
      else if direction = ''buy'' then
        (if amount_validate (vm_fiat c) \<noteq> Inr () \<or> amount \<noteq> [] then Inl ErrInvalidQuoteRequest
         else if vm_fiat c < vc_min cfg \<or> vc_max cfg < vm_fiat c then Inl ErrAmountOutOfRange
         else case price of Inl e \<Rightarrow> Inl e
         | Inr market \<Rightarrow> (case quote_create (vc_policy cfg) now (vm_fiat c) market of
             Inl e \<Rightarrow> Inl e | Inr q \<Rightarrow> Inr (direction, q)))
      else if direction = ''sell'' then
        (if vm_fiat c \<noteq> 0 then Inl ErrInvalidQuoteRequest
         else case parse_decimal_stroops amount of Inl _ \<Rightarrow> Inl ErrInvalidQuoteRequest
         | Inr stroops \<Rightarrow> (case price of Inl e \<Rightarrow> Inl e
           | Inr market \<Rightarrow> (case quote_create_reverse (vc_policy cfg) now stroops market of
               Inl e \<Rightarrow> Inl e
             | Inr q \<Rightarrow> if fiat_amount q < vc_min cfg \<or> vc_max cfg < fiat_amount q
                 then Inl ErrAmountOutOfRange else Inr (direction, q))))
      else Inl ErrInvalidQuoteRequest)"

section \<open>Deposits\<close>

definition expire_deposits :: "time \<Rightarrow> nat repo" where
  "expire_deposits now = expire_pending_deposits now 100"

definition usable_payment :: "string \<Rightarrow> observed_payment \<Rightarrow> bool" where
  "usable_payment account p \<longleftrightarrow> py_to p = account \<and> py_hash p \<noteq> [] \<and> py_ledger p \<noteq> 0 \<and> 0 < py_amount p"

datatype deposit_match = DepositMatch observed_payment | DepositMismatch string string | DepositNone

definition expected_memo :: "(string \<Rightarrow> byte list) \<Rightarrow> order_view \<Rightarrow> string" where
  "expected_memo sha256 v = (if ov_memo v = [] then offramp_deposit_memo sha256 (ov_id v) else ov_memo v)"

text \<open>The inner loop of \<open>ScanDeposits\<close>; the last argument is the mismatch recorded so far.\<close>

fun match_deposit ::
  "string \<Rightarrow> order_view \<Rightarrow> observed_payment list \<Rightarrow> (string \<times> string) option \<Rightarrow> deposit_match" where
  "match_deposit memo v [] None = DepositNone"
| "match_deposit memo v [] (Some (hash, reason)) = DepositMismatch hash reason"
| "match_deposit memo v (p # ps) mismatch =
     (if py_memo p \<noteq> memo then match_deposit memo v ps mismatch
      else if py_amount p \<noteq> ov_asset_amount v then
        match_deposit memo v ps (if mismatch = None
          then Some (py_hash p, ''deposit amount does not match the quoted amount'') else mismatch)
      else if py_asset_code p \<noteq> ov_asset_code v \<or> py_asset_issuer p \<noteq> ov_asset_issuer v then
        match_deposit memo v ps (if mismatch = None
          then Some (py_hash p, ''deposit asset does not match the configured KXLM issuer'') else mismatch)
      else DepositMatch p)"

definition scan_order :: "(string \<Rightarrow> byte list) \<Rightarrow> observed_payment list \<Rightarrow> order_view \<Rightarrow> nat \<Rightarrow> nat repo" where
  "scan_order sha256 pending v matched =
     (case match_deposit (expected_memo sha256 v) v pending None of
        DepositMatch p \<Rightarrow> act_bind (record_asset_received (ov_id v) p) (\<lambda>_. act_ret (matched + 1))
      | DepositMismatch hash reason \<Rightarrow>
          act_bind (record_asset_invalid (ov_id v) hash reason) (\<lambda>_. act_ret matched)
      | DepositNone \<Rightarrow> act_ret matched)"

definition scan_deposits ::
  "(string \<Rightarrow> byte list) \<Rightarrow> (db \<Rightarrow> err + observed_payment list) \<Rightarrow> string \<Rightarrow> nat repo" where
  "scan_deposits sha256 recent account =
     act_bind (find_deposit_candidates account 100) (\<lambda>candidates.
     if candidates = [] then act_ret 0
     else act_bind (from_network recent) (\<lambda>payments.
       act_fold (scan_order sha256 (filter (usable_payment account) payments)) candidates 0))"

section \<open>Retirement\<close>

record retire_worker =
  rw_network :: "network option"
  rw_legacy :: "network option"
  rw_simulate :: bool

definition network_for :: "retire_worker \<Rightarrow> retirement_intent \<Rightarrow> network option" where
  "network_for w it =
     (if ri_clawback_from it \<noteq> [] \<or> rw_legacy w = None then rw_network w else rw_legacy w)"

definition retire_reconcile :: "retire_worker \<Rightarrow> string \<Rightarrow> string \<Rightarrow> unit repo" where
  "retire_reconcile w intent_id hash =
     act_bind (load_retirement intent_id) (\<lambda>it.
     case network_for w it of
       None \<Rightarrow> act_fail (ErrText ''stellar network is required to reconcile a retirement hash'')
     | Some nw \<Rightarrow>
         act_bind (act_try (from_network (nw_find nw hash))) (\<lambda>found. case found of
           Inl _ \<Rightarrow> act_ret ()
         | Inr s \<Rightarrow>
             if sb_result s = SRConfirmed then confirm_retirement intent_id hash (sb_ledger s)
             else if sb_result s = SRPermanent then
               fail_retirement intent_id ''retirement transaction failed on chain''
             else act_ret ()))"

definition retire_transfer :: "retirement_intent \<Rightarrow> transfer" where
  "retire_transfer it =
     \<lparr>tf_order = ri_order it, tf_source = ri_source it,
      tf_destination = (if ri_destination it = [] \<and> ri_clawback_from it = [] then retirement_sink_address
        else ri_destination it),
      tf_asset_code = ri_asset_code it, tf_asset_issuer = ri_asset_issuer it,
      tf_clawback_from = ri_clawback_from it, tf_amount = ri_amount it, tf_memo = ri_memo it\<rparr>"

definition retire_submit ::
  "retire_worker \<Rightarrow> network \<Rightarrow> string \<Rightarrow> built_transaction \<Rightarrow> time \<Rightarrow> unit repo" where
  "retire_submit w nw intent_id built now =
     act_bind (act_try (from_network (nw_submit nw built))) (\<lambda>res. case res of
       Inl _ \<Rightarrow> retire_reconcile w intent_id (bt_hash built)
     | Inr s \<Rightarrow> (case sb_result s of
         SRConfirmed \<Rightarrow> confirm_retirement intent_id (bt_hash built) (sb_ledger s)
       | SRPermanent \<Rightarrow> fail_retirement intent_id ''retirement transaction rejected''
       | SRUnknown \<Rightarrow> retire_reconcile w intent_id (bt_hash built)
       | SRRetryable \<Rightarrow>
           act_bind (reset_retirement_hash intent_id (bt_hash built) (sb_error s) now) (\<lambda>_.
           act_fail (ErrText ''stellar retirement transaction was rejected before application and will be retried''))
       | SRPending \<Rightarrow> act_ret ()
       | SROther _ \<Rightarrow> act_fail (ErrText ''invalid retirement submission result'')))"

definition retire_claim ::
  "retire_worker \<Rightarrow> network \<Rightarrow> string \<Rightarrow> built_transaction \<Rightarrow> time \<Rightarrow> unit repo" where
  "retire_claim w nw intent_id built now =
     act_bind (act_try (save_retirement_hash intent_id (bt_hash built) now)) (\<lambda>saved. case saved of
       Inl e \<Rightarrow>
         if errors_is e ErrRetirementHashAlreadySaved then
           act_bind (load_retirement intent_id) (\<lambda>current.
           if ri_hash current = []
           then act_fail (ErrText ''retirement transaction hash changed before reconciliation'')
           else retire_reconcile w intent_id (ri_hash current))
         else act_fail e
     | Inr _ \<Rightarrow> retire_submit w nw intent_id built now)"

definition retire_run_once :: "retire_worker \<Rightarrow> string \<Rightarrow> unit repo" where
  "retire_run_once w intent_id =
     act_bind now_utc (\<lambda>now.
     act_bind (load_retirement intent_id) (\<lambda>it.
     if ri_hash it \<noteq> [] then
       (if network_for w it = None
        then act_fail (ErrText ''stellar network is required to reconcile a retirement hash'')
        else retire_reconcile w (ri_id it) (ri_hash it))
     else if rw_simulate w then simulate_retirement (ri_id it) now
     else (case network_for w it of
       None \<Rightarrow> act_fail (ErrText ''stellar network is required to submit a retirement'')
     | Some nw \<Rightarrow>
         act_bind (from_network (nw_build nw (retire_transfer it))) (\<lambda>built.
         act_bind (act_guard (\<not> (bt_hash built = [] \<or> bt_envelope built = []))
           (ErrText ''Stellar adapter returned incomplete retirement transaction'')) (\<lambda>_.
         retire_claim w nw (ri_id it) built now)))))"

section \<open>Simulated payout\<close>

datatype payout_mode = PayoutDisabled | PayoutSimulated

definition sandbox_payout_reference :: "string \<Rightarrow> string" where
  "sandbox_payout_reference order_id = ''sandbox-payout-'' @ trim_space order_id"

definition payout_run_once :: "payout_mode \<Rightarrow> job \<Rightarrow> unit repo" where
  "payout_run_once mode j =
     (if mode = PayoutDisabled then act_fail ErrSandboxPayoutDisabled
      else let order_id = trim_space (jb_intent j) in
      if order_id = [] \<or> trim_space (jb_outbox j) = [] then act_fail ErrSandboxPayoutInvalid
      else act_bind now_utc (\<lambda>now.
        complete_sandbox_payout order_id (jb_outbox j) (sandbox_payout_reference order_id) now))"

section \<open>The ledger invariant\<close>

lemma offramp_get_reads: "reads (offramp_get p i)"
  unfolding offramp_get_def by (rule get_order_reads) (rule offramp_order_view_reads)

lemma offramp_find_replay_reads: "reads (offramp_find_replay p k h)"
  unfolding offramp_find_replay_def by (rule find_replay_reads) (rule offramp_get_reads)

lemma offramp_answer_reads: "reads (offramp_answer v)"
  unfolding offramp_answer_def by (intro readsI outcome_intro) simp_all

lemma offramp_store_inv:
  assumes inv: "ledger_inv d"
  shows "outcome (offramp_store deps cfg c k h s now q) (\<lambda>_. ledger_inv) (\<lambda>_. ledger_inv) d t"
  unfolding offramp_store_def
  by (intro outcome_bind [of new_id] outcome_new_id outcome_try_seq [OF create_offramp_inv] outcome_case_sum
      after_failed_create_inv offramp_find_replay_reads offramp_answer_reads outcome_bind [of "offramp_get p i" for p i]
      outcome_reads [OF offramp_get_reads] outcome_ret inv)

lemma offramp_price_inv:
  assumes inv: "ledger_inv d"
  shows "outcome (offramp_price deps cfg c k h s) (\<lambda>_. ledger_inv) (\<lambda>_. ledger_inv) d t"
  unfolding offramp_price_def by (intro outcome_intro offramp_store_inv inv)

lemma offramp_create_inv:
  assumes inv: "ledger_inv d"
  shows "outcome (offramp_create deps cfg c) (\<lambda>_. ledger_inv) (\<lambda>_. ledger_inv) d t"
  unfolding offramp_create_def offramp_find_replay_def
  by (intro outcome_intro outcome_find_replay outcome_reads [OF offramp_answer_reads] offramp_get_reads
      offramp_price_inv inv)

lemma scan_order_inv:
  assumes inv: "ledger_inv d"
  shows "outcome (scan_order sha256 ps v n) (\<lambda>_. ledger_inv) (\<lambda>_. ledger_inv) d t"
  by (cases "match_deposit (expected_memo sha256 v) v ps None")
     (simp_all add: scan_order_def inv outcome_ret outcome_seq [OF record_asset_received_inv]
       outcome_seq [OF record_asset_invalid_inv])

lemma scan_deposits_inv:
  assumes inv: "ledger_inv d"
  shows "outcome (scan_deposits sha256 recent a) (\<lambda>_. ledger_inv) (\<lambda>_. ledger_inv) d t"
  unfolding scan_deposits_def
  by (intro outcome_bind [of "find_deposit_candidates a n" for n] outcome_reads [OF find_deposit_candidates_reads]
      outcome_if outcome_ret outcome_bind [of "from_network f" for f] outcome_from_network
      outcome_fold [where I = "\<lambda>_. ledger_inv"] scan_order_inv inv)

lemma expire_deposits_inv:
  "ledger_inv d \<Longrightarrow> outcome (expire_deposits now) (\<lambda>_. ledger_inv) (\<lambda>_. ledger_inv) d t"
  unfolding expire_deposits_def by (rule expire_pending_inv)

lemma retire_reconcile_inv:
  assumes inv: "ledger_inv d"
  shows "outcome (retire_reconcile w i h) (\<lambda>_. ledger_inv) (\<lambda>_. ledger_inv) d t"
  unfolding retire_reconcile_def
  by (intro outcome_bind [of "load_retirement i"] outcome_reads [OF load_retirement_reads] outcome_case_option
      outcome_fail outcome_bind [of "act_try m" for m] outcome_try outcome_from_network outcome_case_Inr
      outcome_case_Inl outcome_ret outcome_if confirm_retirement_inv fail_retirement_inv inv)

lemma retire_submit_inv:
  assumes inv: "ledger_inv d"
  shows "outcome (retire_submit w nw i b now) (\<lambda>_. ledger_inv) (\<lambda>_. ledger_inv) d t"
  unfolding retire_submit_def
  by (intro outcome_bind [of "act_try m" for m] outcome_try outcome_from_network outcome_case_Inr
      outcome_case_Inl outcome_case_submission outcome_ret outcome_fail retire_reconcile_inv
      confirm_retirement_inv fail_retirement_inv outcome_seq [OF reset_retirement_hash_inv] inv)

lemma retire_claim_inv:
  assumes inv: "ledger_inv d"
  shows "outcome (retire_claim w nw i b now) (\<lambda>_. ledger_inv) (\<lambda>_. ledger_inv) d t"
  unfolding retire_claim_def
  by (intro outcome_try_seq [OF save_retirement_hash_inv [OF inv]] outcome_case_sum outcome_if outcome_fail
      retire_submit_inv outcome_bind [of "load_retirement i"] outcome_reads [OF load_retirement_reads]
      retire_reconcile_inv)

lemma retire_run_once_inv:
  assumes inv: "ledger_inv d"
  shows "outcome (retire_run_once w i) (\<lambda>_. ledger_inv) (\<lambda>_. ledger_inv) d t"
  unfolding retire_run_once_def
  by (intro outcome_bind [of now_utc] outcome_now outcome_bind [of "load_retirement i"]
      outcome_reads [OF load_retirement_reads] outcome_if outcome_fail outcome_case_option
      outcome_bind [of "from_network f" for f] outcome_from_network outcome_bind [of "act_guard b e" for b e]
      outcome_guard retire_reconcile_inv simulate_retirement_inv retire_claim_inv inv)

lemma payout_run_once_inv:
  assumes inv: "ledger_inv d"
  shows "outcome (payout_run_once mode j) (\<lambda>_. ledger_inv) (\<lambda>_. ledger_inv) d t"
  unfolding payout_run_once_def Let_def
  by (intro outcome_if outcome_fail outcome_bind [of now_utc] outcome_now complete_payout_inv inv)

section \<open>Replay\<close>

lemma create_offramp_key_on_file:
  assumes k: "key_on_file d offramp_create_operation (fr_principal r) (fr_key_hash r)"
  shows "outcome (create_offramp c r) (\<lambda>_ _. False) (\<lambda>_ d'. d' = d) d t"
proof -
  from k obtain owned q where q: "apply_idempotency_ownership (fr_principal r) = Inr owned"
    "q \<in> set (idempotency d)" "owned q" "ir_operation q = offramp_create_operation"
    "ir_key q = fr_key_hash r" by (auto simp: key_on_file_def)
  show ?thesis
    unfolding create_offramp_def store_defs
  proof (intro outcome_intro, goal_cases)
    case (1 w ord now os fs f es1 i1 ws1 us1 ms1 ns1 es2 i2 ws2 us2 ms2 ns2 ii irs)
    from 1(1) idempotency_row_clash [OF q(1,3)]
    have c: "same_some (ow_client w) (ir_client q) \<or> same_some (ow_retail_user w) (ir_user q)" by blast
    with 1 q show ?case by fastforce
  qed simp_all
qed

lemma create_offramp_files_key:
  "outcome (create_offramp c r)
     (\<lambda>_ d'. key_on_file d' offramp_create_operation (fr_principal r) (fr_key_hash r)) (\<lambda>_ d'. d' = d) d t"
  unfolding create_offramp_def store_defs
  by (intro outcome_intro) (auto intro!: key_filed)

interpretation offramp_filed: filed_operation
  "\<lambda>(c, r). create_offramp c r"
  "\<lambda>(c, r) d. key_on_file d offramp_create_operation (fr_principal r) (fr_key_hash r)"
  by unfold_locales (auto intro: create_offramp_files_key create_offramp_key_on_file key_on_file_mono)

lemma offramp_create_key_on_file:
  assumes k: "key_on_file d offramp_create_operation (fm_principal c) (fd_digest deps (trim_space (fm_key c)))"
  shows "outcome (offramp_create deps cfg c) (\<lambda>_ d'. d' = d) (\<lambda>_ d'. d' = d) d t"
  unfolding offramp_create_def offramp_find_replay_def
  by (intro outcome_intro outcome_find_replay outcome_reads [OF offramp_answer_reads] offramp_get_reads)
     (use k in \<open>auto simp: normalize_offramp_def\<close>)

section \<open>The deposit loop against its specification\<close>

definition exact_deposit :: "string \<Rightarrow> order_view \<Rightarrow> observed_payment \<Rightarrow> bool" where
  "exact_deposit memo v p \<longleftrightarrow>
     py_memo p = memo \<and> py_amount p = ov_asset_amount v \<and> py_asset_code p = ov_asset_code v \<and>
     py_asset_issuer p = ov_asset_issuer v"

definition mismatch_reason :: "order_view \<Rightarrow> observed_payment \<Rightarrow> string" where
  "mismatch_reason v p =
     (if py_amount p \<noteq> ov_asset_amount v then ''deposit amount does not match the quoted amount''
      else ''deposit asset does not match the configured KXLM issuer'')"

text \<open>The first exact payment, else the first that only carries the memo, else nothing.\<close>

definition deposit_spec :: "string \<Rightarrow> order_view \<Rightarrow> observed_payment list \<Rightarrow> deposit_match" where
  "deposit_spec memo v ps =
     (case find (exact_deposit memo v) ps of
        Some p \<Rightarrow> DepositMatch p
      | None \<Rightarrow> (case find (\<lambda>p. py_memo p = memo) ps of
          Some p \<Rightarrow> DepositMismatch (py_hash p) (mismatch_reason v p)
        | None \<Rightarrow> DepositNone))"

lemma match_deposit_pending:
  "match_deposit memo v ps (Some (h, r)) = (case find (exact_deposit memo v) ps of
     Some p \<Rightarrow> DepositMatch p | None \<Rightarrow> DepositMismatch h r)"
  by (induction ps) (auto simp: exact_deposit_def)

lemma match_deposit_eq_spec: "match_deposit memo v ps None = deposit_spec memo v ps"
  by (induction ps)
     (auto simp: deposit_spec_def match_deposit_pending exact_deposit_def mismatch_reason_def split: option.splits)

lemma match_deposit_exact:
  "match_deposit memo v ps None = DepositMatch p \<Longrightarrow> p \<in> set ps \<and> exact_deposit memo v p"
  unfolding match_deposit_eq_spec deposit_spec_def
  by (auto split: option.splits simp: find_Some_iff)

section \<open>What the retirement worker asks of the network\<close>

definition workers_agree :: "retire_worker \<Rightarrow> retire_worker \<Rightarrow> bool" where
  "workers_agree w w' \<longleftrightarrow>
     rw_simulate w = rw_simulate w' \<and> rel_option agree_when_filed (rw_network w) (rw_network w') \<and>
     rel_option agree_when_filed (rw_legacy w) (rw_legacy w')"

lemma network_for_agree:
  "workers_agree w w' \<Longrightarrow> rel_option agree_when_filed (network_for w it) (network_for w' it)"
  by (auto simp: workers_agree_def network_for_def option_rel_Some1 option_rel_Some2 elim: option.rel_cases)

lemma retire_reconcile_agree:
  assumes a: "workers_agree w w'"
  shows "retire_reconcile w i h = retire_reconcile w' i h"
proof -
  have step: "(case network_for w it of None \<Rightarrow> n | Some nw \<Rightarrow> f (nw_find nw)) =
      (case network_for w' it of None \<Rightarrow> n | Some nw \<Rightarrow> f (nw_find nw))" for it n f
    using network_for_agree [OF a, of it]
    by (cases "network_for w it"; cases "network_for w' it") (auto simp: agree_when_filed_def)
  show ?thesis
    unfolding retire_reconcile_def
    by (rule arg_cong [where f = "act_bind (load_retirement i)"], rule ext) (rule step)
qed

lemma save_retirement_hash_files:
  assumes "save_retirement_hash i h now w = (Inr u, w')"
  shows "hash_on_file (w_db w') h"
proof -
  have "outcome (save_retirement_hash i h now) (\<lambda>_ d'. hash_on_file d' h) (\<lambda>_ _. True) (w_db w) (w_now w)"
    unfolding save_retirement_hash_def store_defs
  proof (intro outcome_intro, goal_cases)
    case (1 sts)
    then have "count_rows (unclaimed i) (stellar_txs (w_db w)) = Suc 0" by simp
    from count_rows_pos [OF this] obtain s where s: "s \<in> set (stellar_txs (w_db w))" "unclaimed i s" by blast
    then show ?case using 1
      by (auto simp: hash_on_file_def update_rows_def intro!: bexI [where x = "s\<lparr>st_hash := Some h,
        st_status := STSubmitted, st_attempts := st_attempts s + 1, st_updated := now\<rparr>"])
  qed auto
  from outcome_Inr [OF this assms] show ?thesis .
qed

text \<open>A second worker cannot claim an intent that carries a hash.\<close>

lemma save_retirement_hash_claimed:
  assumes "\<And>s. s \<in> set (stellar_txs d) \<Longrightarrow> \<not> unclaimed i s"
  shows "outcome (save_retirement_hash i h now) (\<lambda>_ _. False) (\<lambda>_ d'. d' = d) d t"
  unfolding save_retirement_hash_def store_defs
  by (intro outcome_intro) (use assms in \<open>auto simp: update_rows_def cong: map_cong dest: count_rows_pos\<close>)

lemma retire_submit_agree:
  assumes a: "workers_agree w w'" and n: "agree_when_filed nw nw'" and h: "hash_on_file (w_db s) (bt_hash b)"
  shows "retire_submit w nw i b now s = retire_submit w' nw' i b now s"
proof -
  from n h have e: "nw_submit nw b (w_db s) = nw_submit nw' b (w_db s)" by (simp add: agree_when_filed_def)
  show ?thesis
    unfolding retire_submit_def retire_reconcile_agree [OF a]
    by (rule act_try_bind_cong) (simp_all add: from_network_run e)
qed

lemma retire_claim_agree:
  assumes a: "workers_agree w w'" and n: "agree_when_filed nw nw'"
  shows "retire_claim w nw i b now s = retire_claim w' nw' i b now s"
  unfolding retire_claim_def retire_reconcile_agree [OF a]
proof (rule act_try_bind_cong, rule refl)
  fix r s1 assume r: "save_retirement_hash i (bt_hash b) now s = (r, s1)"
  have "retire_submit w nw i b now s1 = retire_submit w' nw' i b now s1" if "r = Inr u" for u
    using r that by (intro retire_submit_agree [OF a n]) (auto intro: save_retirement_hash_files)
  then show "(case r of
       Inl e \<Rightarrow> if errors_is e ErrRetirementHashAlreadySaved then act_bind (load_retirement i) (\<lambda>current.
         if ri_hash current = [] then act_fail (ErrText ''retirement transaction hash changed before reconciliation'')
         else retire_reconcile w' i (ri_hash current)) else act_fail e
     | Inr _ \<Rightarrow> retire_submit w nw i b now) s1 =
    (case r of
       Inl e \<Rightarrow> if errors_is e ErrRetirementHashAlreadySaved then act_bind (load_retirement i) (\<lambda>current.
         if ri_hash current = [] then act_fail (ErrText ''retirement transaction hash changed before reconciliation'')
         else retire_reconcile w' i (ri_hash current)) else act_fail e
     | Inr _ \<Rightarrow> retire_submit w' nw' i b now) s1"
    by (cases r) simp_all
qed

lemma retire_run_once_agree:
  assumes a: "workers_agree w w'"
  shows "retire_run_once w i s = retire_run_once w' i s"
proof -
  have sim: "rw_simulate w = rw_simulate w'" using a by (simp add: workers_agree_def)
  have step: "(case network_for w it of None \<Rightarrow> n
      | Some nw \<Rightarrow> act_bind (from_network (nw_build nw (retire_transfer it))) (\<lambda>b.
          act_bind (act_guard (P b) e) (\<lambda>_. retire_claim w nw (ri_id it) b now))) =
    (case network_for w' it of None \<Rightarrow> n
      | Some nw \<Rightarrow> act_bind (from_network (nw_build nw (retire_transfer it))) (\<lambda>b.
          act_bind (act_guard (P b) e) (\<lambda>_. retire_claim w' nw (ri_id it) b now)))" for it n P e now
  proof (cases "network_for w it")
    case None
    with network_for_agree [OF a, of it] show ?thesis by simp
  next
    case (Some nw)
    with network_for_agree [OF a, of it] obtain nw' where nw': "network_for w' it = Some nw'"
      "agree_when_filed nw nw'" by (auto simp: option_rel_Some1)
    have "retire_claim w nw (ri_id it) b now = retire_claim w' nw' (ri_id it) b now" for b
      by (rule ext) (rule retire_claim_agree [OF a nw'(2)])
    with Some nw' show ?thesis by (simp add: agree_when_filed_def)
  qed
  have none: "network_for w it = None \<longleftrightarrow> network_for w' it = None" for it
    using network_for_agree [OF a, of it] by (auto elim: option.rel_cases)
  show ?thesis unfolding retire_run_once_def retire_reconcile_agree [OF a] sim step none ..
qed

section \<open>Previews\<close>

lemma quote_preview_Inr:
  assumes "quote_preview cfg price now c = Inr (direction, q)"
  shows "vc_min cfg \<le> fiat_amount q \<and> fiat_amount q \<le> vc_max cfg \<and>
    (\<exists>m. price = Inr m \<and>
      (direction = ''buy'' \<and> quote_create (vc_policy cfg) now (vm_fiat c) m = Inr q \<or>
       direction = ''sell'' \<and> (\<exists>a. parse_decimal_stroops (trim_space (vm_asset_amount c)) = Inr a \<and>
          quote_create_reverse (vc_policy cfg) now a m = Inr q)))"
proof -
  have "fiat_amount q = vm_fiat c" if "quote_create (vc_policy cfg) now (vm_fiat c) m = Inr q" for m
    using that by (auto simp: quote_create_Inr Let_def)
  with assms show ?thesis
    by (auto simp: quote_preview_def Let_def split: if_splits sum.splits)
qed

end
