(* ===== verification/Scenario.thy ===== *)
theory Scenario
  imports Offramp_Usecase
begin

text \<open>
  Two complete runs on a concrete database, used by the witnesses: a buy order \<open>o1\<close> from its
  reservation to the confirmed transfer, and a sell order \<open>o2\<close> from its creation to the payout.
\<close>

definition demo_client :: order_principal where
  "demo_client = \<lparr>op_kind = OPApiClient, op_client = ''client'', op_owner = ''owner'', op_session = []\<rparr>"

definition demo_buy_quote :: quote where
  "demo_buy_quote = \<lparr>fiat_amount = 50000, asset_amount = 100000000, q_rate = ''5000'',
     adjusted_rate = ''5000'', q_spread_bps = 0, source_at = 900, q_expires_at = 5000\<rparr>"

definition demo_sell_quote :: quote where
  "demo_sell_quote = \<lparr>fiat_amount = 50000, asset_amount = 100000000, q_rate = ''5000'',
     adjusted_rate = ''5000'', q_spread_bps = 0, source_at = 900, q_expires_at = 5000\<rparr>"

definition demo_onramp_config :: onramp_config where
  "demo_onramp_config = \<lparr>oc_treasury = ''GT'', oc_network = ''stellar_testnet'', oc_buffer = 10\<rparr>"

definition demo_offramp_config :: offramp_config where
  "demo_offramp_config = \<lparr>fc_deposit = ''GD'', fc_network = ''stellar_testnet''\<rparr>"

definition demo_buy :: create_record where
  "demo_buy = \<lparr>cr_order = ''o1'', cr_principal = demo_client, cr_wallet = [], cr_quote_id = [],
     cr_key_hash = ''k1'', cr_request_hash = ''h1'', cr_method = PMQRIS, cr_destination = ''GX'',
     cr_memo = ''m1'', cr_quote = demo_buy_quote, cr_created = 1000\<rparr>"

definition demo_checkout :: checkout where
  "demo_checkout = \<lparr>co_provider_id = ''cs1'', co_request_id = ''pr1'', co_method = PMQRIS,
     co_status = ''ACTIVE'', co_presentation_type = ''qr'', co_presentation_value = ''QR'',
     co_link_url = [], co_expires = None\<rparr>"

definition demo_expected :: expected_payment where
  "demo_expected = \<lparr>xp_order = ''o1'', xp_provider = ''cs1'', xp_amount = 50000, xp_currency = ''IDR'',
     xp_channel = ''QRIS'', xp_asset = 100000000\<rparr>"

definition demo_sell :: offramp_create_record where
  "demo_sell = \<lparr>fr_order = ''o2'', fr_principal = demo_client, fr_wallet = [], fr_quote_id = [],
     fr_key_hash = ''k2'', fr_request_hash = ''h2'', fr_amount = 100000000, fr_issuer = ''GI'',
     fr_quote = demo_sell_quote, fr_destination = ''bank'', fr_memo = ''offo2'', fr_expires = 9000,
     fr_created = 1000\<rparr>"

definition demo_deposit :: observed_payment where
  "demo_deposit = \<lparr>py_hash = ''deposit1'', py_from = ''GU'', py_to = ''GD'', py_asset_code = ''KXLM'',
     py_asset_issuer = ''GI'', py_amount = 100000000, py_memo = ''offo2'', py_ledger = 1900\<rparr>"

definition demo_ids :: "string list" where
  "demo_ids =
     [''i0'', ''i1'', ''i2'', ''i3'', ''i4'', ''i5'', ''i6'', ''i7'', ''i8'', ''i9'', ''i10'', ''i11'',
      ''i12'', ''i13'', ''i14'', ''i15'', ''i16'', ''i17'', ''i18'', ''i19'', ''i20'', ''i21'', ''i22'', ''i23'',
      ''i24'', ''i25'', ''i26'', ''i27'', ''i28'', ''i29'', ''i30'', ''i31'', ''i32'', ''i33'', ''i34'', ''i35'',
      ''i36'', ''i37'', ''i38'', ''i39'', ''i40'', ''i41'', ''i42'', ''i43'', ''i44'', ''i45'', ''i46'', ''i47'',
      ''i48'', ''i49'', ''i50'', ''i51'', ''i52'', ''i53'', ''i54'', ''i55'', ''i56'', ''i57'', ''i58'', ''i59'']"

definition demo_world :: world where
  "demo_world = world0 empty_db demo_ids 2000"

definition demo_reserved_ops :: "operation list" where
  "demo_reserved_ops = [OpReserveAndCreate demo_onramp_config demo_buy 1000000]"

definition demo_buy_ops :: "operation list" where
  "demo_buy_ops = demo_reserved_ops @
     [OpAttachCheckout ''o1'' demo_checkout,
      OpConfirmPayment \<lparr>cf_event = ''e1'', cf_expected = demo_expected\<rparr>,
      OpMarkSubmitted ''stellar-onramp-o1'' ''hash1'' 2100,
      OpSettlementConfirm ''stellar-onramp-o1'' ''hash1'' 2200]"

definition demo_sell_ops :: "operation list" where
  "demo_sell_ops =
     [OpCreateOfframp demo_offramp_config demo_sell, OpAssetReceived ''o2'' demo_deposit,
      OpSimulateRetirement ''stellar-retire-o2'' 2300,
      OpCompletePayout ''o2'' ''i40'' ''sandbox-payout-o2'' 2400]"

definition demo_db_after :: "operation list \<Rightarrow> db" where
  "demo_db_after ops = w_db (snd (run_ops ops demo_world))"

definition demo_done :: db where
  "demo_done = demo_db_after (demo_buy_ops @ demo_sell_ops)"

lemma demo_db_after_reachable: "reachable (demo_db_after ops)"
proof -
  have "reachable (w_db demo_world)"
    by (rule reachable_fresh) (simp add: demo_world_def world0_def empty_db_def fresh_db_def)
  from reachable_run_ops [OF this, of ops "fst (run_ops ops demo_world)" "snd (run_ops ops demo_world)"]
  show ?thesis by (simp add: demo_db_after_def)
qed

lemma demo_done_reachable: "reachable demo_done"
  unfolding demo_done_def by (rule demo_db_after_reachable)

section \<open>The rows the runs leave\<close>

definition demo_orders :: "order_record list" where
  "demo_orders =
 [\<lparr>or_id = ''o1'', or_client_id = Some ''client'', or_created_by = None,
     or_retail_session = None, or_wallet_account = None, or_quote_id = None,
     or_direction = ''onramp'', or_status = OSCompleted, or_version = 5,
     or_currency = ''IDR'', or_fiat_minor = 50000, or_asset_code = ''KXLM'',
     or_asset_issuer = ''GT'', or_network = ''stellar_testnet'',
     or_asset_amount = ''10.0000000'', or_asset_stroops = 100000000,
     or_quote_provider = ''coinmarketcap'', or_quote_source_at = 900,
     or_quote_rate = ''5000'', or_quote_adjusted = ''5000'',
     or_quote_spread = 0, or_quote_expires = 5000,
     or_payment_method = Some PMQRIS, or_gateway = Some ''xendit'',
     or_stellar_source = Some ''GT'', or_stellar_dest = Some ''GX'',
     or_stellar_memo = Some ''m1'', or_withdrawal_method = None,
     or_withdrawal_dest = [], or_expires = None, or_failure_code = None,
     or_failure_stage = None, or_failure_retry = None, or_created = 1000,
     or_updated = 2000, or_completed = Some 2000\<rparr>,
  \<lparr>or_id = ''o2'', or_client_id = Some ''client'', or_created_by = None,
     or_retail_session = None, or_wallet_account = None, or_quote_id = None,
     or_direction = ''offramp'', or_status = OSCompleted, or_version = 6,
     or_currency = ''IDR'', or_fiat_minor = 50000, or_asset_code = ''KXLM'',
     or_asset_issuer = ''GI'', or_network = ''stellar_testnet'',
     or_asset_amount = ''10.0000000'', or_asset_stroops = 100000000,
     or_quote_provider = ''coinmarketcap'', or_quote_source_at = 900,
     or_quote_rate = ''5000'', or_quote_adjusted = ''5000'',
     or_quote_spread = 0, or_quote_expires = 5000, or_payment_method = None,
     or_gateway = None, or_stellar_source = Some ''GD'',
     or_stellar_dest = None, or_stellar_memo = Some ''offo2'',
     or_withdrawal_method = Some WMSandboxTransfer,
     or_withdrawal_dest = ''bank'', or_expires = Some 9000,
     or_failure_code = None, or_failure_stage = None,
     or_failure_retry = None, or_created = 1000, or_updated = 2400,
     or_completed = Some 2400\<rparr>]"

definition demo_payouts :: "offramp_payout list" where
  "demo_payouts =
 [\<lparr>po_id = ''i41'', po_order = ''o2'',
     po_method = ''sandbox_bank_transfer'', po_amount = 50000,
     po_reference = ''sandbox-payout-o2'', po_state = ''completed'',
     po_completed = Some 2400, po_created = 2400, po_updated = 2400\<rparr>]"

definition demo_idempotency :: "idempotency_record list" where
  "demo_idempotency =
 [\<lparr>ir_id = ''i6'', ir_client = Some ''client'', ir_user = None,
     ir_operation = ''onramp.create'', ir_key = ''k1'', ir_request = ''h1'',
     ir_response = Some 201, ir_resource = Some ''o1'',
     ir_state = ISCompleted, ir_expires = 86400000001000, ir_created = 1000,
     ir_updated = 2000\<rparr>,
  \<lparr>ir_id = ''i27'', ir_client = Some ''client'', ir_user = None,
     ir_operation = ''offramp.create'', ir_key = ''k2'',
     ir_request = ''h2'', ir_response = Some 201, ir_resource = Some ''o2'',
     ir_state = ISCompleted, ir_expires = 86400000001000, ir_created = 1000,
     ir_updated = 1000\<rparr>]"

lemma demo_done_orders [simp]: "orders demo_done = demo_orders"
  by code_simp

lemma demo_done_payouts [simp]: "payouts demo_done = demo_payouts"
  by code_simp

lemma demo_done_idempotency [simp]: "idempotency demo_done = demo_idempotency"
  by code_simp

definition demo_reserved :: db where
  "demo_reserved = demo_db_after demo_reserved_ops"

definition demo_treasuries :: "treasury_account list" where
  "demo_treasuries =
 [\<lparr>ta_id = ''i0'', ta_network = ''stellar_testnet'', ta_account = ''GT'',
     ta_observed = 1000000, ta_reserved = 10000, ta_buffer = 10,
     ta_reconciled = 1000, ta_created = 1000, ta_updated = 2000\<rparr>]"

lemma demo_reserved_rows [simp]: "treasuries demo_reserved = demo_treasuries"
  by code_simp

lemma demo_reserved_reachable: "reachable demo_reserved"
  unfolding demo_reserved_def by (rule demo_db_after_reachable)

lemma demo_done_first: "hd (orders demo_done) \<in> set (orders demo_done)"
  by (simp add: demo_orders_def)

lemma demo_done_second: "orders demo_done ! 1 \<in> set (orders demo_done)"
  by (simp add: demo_orders_def)

end
