(* ===== verification/Order_Lists.thy ===== *)
theory Order_Lists
  imports System
begin

text \<open>
  Order lists as a client reads them: it asks for a page (\<open>OnrampRepository.List\<close>,
  \<open>OfframpRepository.List\<close>) and follows the cursor of each page to the next one. The pages show
  every order of the caller once, newest first.
\<close>

fun walk_orders ::
  "(order_record \<Rightarrow> order_view repo) \<Rightarrow> order_principal \<Rightarrow> nat \<Rightarrow> nat \<Rightarrow> string \<Rightarrow> order_view list repo" where
  "walk_orders view p limit 0 cursor = act_ret []"
| "walk_orders view p limit (Suc n) cursor =
     act_bind (list_orders view p limit cursor) (\<lambda>(vs, nxt).
     if nxt = [] then act_ret vs
     else act_bind (walk_orders view p limit n nxt) (\<lambda>ws. act_ret (vs @ ws)))"

text \<open>A view reads the database and shows the order it is asked for.\<close>

definition shows_order :: "(order_record \<Rightarrow> order_view repo) \<Rightarrow> bool" where
  "shows_order view \<longleftrightarrow> (\<forall>r d t. outcome (view r) (\<lambda>v d'. d' = d \<and> ov_id v = or_id r) (\<lambda>_ d'. d' = d) d t)"

lemma onramp_view_shows: "shows_order onramp_order_view"
  unfolding shows_order_def onramp_order_view_def store_defs
  by (intro allI outcome_intro)
     (auto simp: base_order_view_def apply_retirement_evidence_def Let_def split: option.splits)

lemma offramp_view_shows: "shows_order offramp_order_view"
  unfolding shows_order_def offramp_order_view_def store_defs
  by (intro allI outcome_intro)
     (auto simp: base_order_view_def apply_retirement_evidence_def Let_def split: option.splits)

lemma outcome_views:
  assumes "shows_order view"
  shows "outcome (act_fold (\<lambda>r vs. act_bind (view r) (\<lambda>v. act_ret (vs @ [v]))) rows acc)
    (\<lambda>vs d'. d' = d \<and> List.map ov_id vs = List.map ov_id acc @ List.map or_id rows) (\<lambda>_ d'. d' = d) d t"
proof (induction rows arbitrary: acc)
  case Nil
  then show ?case by (simp add: outcome_ret)
next
  case (Cons r rows)
  have v: "outcome (view r) (\<lambda>v d'. d' = d \<and> ov_id v = or_id r) (\<lambda>_ d'. d' = d) d t"
    using assms by (simp add: shows_order_def)
  show ?case
    unfolding act_fold.simps
  proof (rule outcome_bind, rule outcome_bind, rule outcome_weaken [OF v])
    fix x :: order_view and d' assume x: "d' = d \<and> ov_id x = or_id r"
    show "outcome (act_ret (acc @ [x])) (\<lambda>vs d'. outcome (act_fold
        (\<lambda>r vs. act_bind (view r) (\<lambda>v. act_ret (vs @ [v]))) rows vs)
        (\<lambda>vs d'. d' = d \<and> List.map ov_id vs = List.map ov_id acc @ List.map or_id (r # rows))
        (\<lambda>_ d'. d' = d) d' t) (\<lambda>_ d'. d' = d) d' t"
      using Cons.IH [of "acc @ [x]"] x by (simp add: outcome_ret)
  qed
qed

lemma act_bind_lift: "act_bind (act_lift (Inr x)) f = f x"
  by (rule ext) (simp add: act_run)

lemma act_bind_ret: "act_bind (act_ret x) f = f x"
  by (rule ext) (simp add: act_run)

section \<open>One page\<close>

text \<open>\<open>rest\<close> is what a reader holding \<open>cursor\<close> has not seen of \<open>ys\<close>.\<close>

definition unseen :: "order_record list \<Rightarrow> string \<Rightarrow> order_record list \<Rightarrow> bool" where
  "unseen ys cursor rest \<longleftrightarrow> cursor = [] \<and> rest = ys \<or>
     (\<exists>k < length ys. cursor = or_id (ys ! k) \<and> cursor \<noteq> [] \<and> rest = drop (Suc k) ys)"

definition owned_orders :: "order_principal \<Rightarrow> db \<Rightarrow> order_record list" where
  "owned_orders p d = (case apply_order_ownership p of
     Inl _ \<Rightarrow> [] | Inr owned \<Rightarrow> order_pages.newest owned d)"

lemma orders_id_unique:
  "ledger_inv d \<Longrightarrow> r \<in> set (orders d) \<Longrightarrow> q \<in> set (orders d) \<Longrightarrow> or_id r = or_id q \<Longrightarrow> r = q"
  using ledger_inv_ok [of d] by (auto simp: ledger_ok_def orders_logged_def distinct_map dest: inj_onD)

lemma page_of_unseen:
  assumes inv: "ledger_inv d" and o: "apply_order_ownership p = Inr owned"
    and u: "unseen (owned_orders p d) cursor rest" and v: "shows_order view"
  shows "outcome (list_orders view p limit cursor)
    (\<lambda>(vs, nxt) d'. d' = d \<and> List.map ov_id vs = List.map or_id (take limit rest) \<and>
       nxt = (if limit < length rest then or_id (take (limit + 1) rest ! (limit - 1)) else []))
    (\<lambda>_ d'. d' = d) d t"
proof -
  let ?ys = "order_pages.newest owned d"
  have ys: "owned_orders p d = ?ys" by (simp add: owned_orders_def o)
  let ?Q = "\<lambda>(vs, nxt) d'. d' = d \<and> List.map ov_id vs = List.map or_id (take limit rest) \<and>
     nxt = (if limit < length rest then or_id (take (limit + 1) rest ! (limit - 1)) else [])"
  have page: "outcome (act_bind (select (\<lambda>d. page_rows owned key (limit + 1) (orders d))) (\<lambda>rows.
       case page_cut limit rows of (page, nxt) \<Rightarrow>
       act_bind (act_fold (\<lambda>r vs. act_bind (view r) (\<lambda>v. act_ret (vs @ [v]))) page []) (\<lambda>views.
       act_ret (views, nxt)))) ?Q (\<lambda>_ d'. d' = d) d t"
    if rows: "page_rows owned key (limit + 1) (orders d) = take (limit + 1) rest" for key
  proof (rule outcome_bind, rule outcome_select, unfold rows)
    obtain page nxt where c: "page_cut limit (take (limit + 1) rest) = (page, nxt)" by fastforce
    then have pn: "page = take limit rest"
      "nxt = (if limit < length rest then or_id (take (limit + 1) rest ! (limit - 1)) else [])"
      by (auto simp: page_cut_def split: if_splits)
    show "outcome (case page_cut limit (take (limit + 1) rest) of (page, nxt) \<Rightarrow>
       act_bind (act_fold (\<lambda>r vs. act_bind (view r) (\<lambda>v. act_ret (vs @ [v]))) page []) (\<lambda>views.
       act_ret (views, nxt))) ?Q (\<lambda>_ d'. d' = d) d t"
      unfolding c prod.case
      by (rule outcome_bind, rule outcome_weaken [OF outcome_views [OF v]]) (auto simp: pn intro!: outcome_ret)
  qed simp
  have start: "page_rows owned None (limit + 1) (orders d) = take (limit + 1) rest" if "cursor = []"
    using u that by (simp add: unseen_def ys page_rows_def order_pages.keyset_rows_first [OF inv])
  have after: "page_rows owned (Some (order_key r)) (limit + 1) (orders d) = take (limit + 1) rest"
    if "cursor \<noteq> []" and r: "first_by or_id (\<lambda>r. or_id r = cursor \<and> owned r) (orders d) = Some r" for r
  proof -
    from u ys that(1) obtain k where k: "k < length ?ys" "cursor = or_id (?ys ! k)" "rest = drop (Suc k) ?ys"
      by (auto simp: unseen_def)
    have m: "?ys ! k \<in> set (orders d)" using k(1) order_pages.newest_set [of owned d] nth_mem by blast
    have "r = ?ys ! k" using first_by_Some [OF r] orders_id_unique [OF inv _ m] k(2) by auto
    then show ?thesis by (simp add: page_rows_def k(3) order_pages.keyset_rows_after [OF inv k(1)])
  qed
  have key: "outcome (if cursor \<noteq> [] then
       act_bind (act_try (first_row orders or_id (\<lambda>r. or_id r = cursor \<and> owned r))) (\<lambda>res. case res of
         Inl e \<Rightarrow> act_fail ErrOrderNotFound
       | Inr r \<Rightarrow> act_ret (Some (order_key r)))
     else act_ret None)
     (\<lambda>key d'. d' = d \<and> page_rows owned key (limit + 1) (orders d) = take (limit + 1) rest) (\<lambda>_ d'. d' = d) d t"
    unfolding store_defs by (intro outcome_intro) (simp_all only: start after simp_thms)
  show ?thesis
    unfolding list_orders_def o act_bind_lift
    by (rule outcome_bind, rule outcome_weaken [OF key]) (erule conjE, simp only:, rule page, simp_all)
qed

section \<open>All pages\<close>

lemma unseen_next:
  assumes u: "unseen ys cursor rest" and l: "0 < limit" "limit < length rest"
    and ids: "\<forall>r \<in> set ys. or_id r \<noteq> []"
  shows "unseen ys (or_id (take (limit + 1) rest ! (limit - 1))) (drop limit rest) \<and>
    or_id (take (limit + 1) rest ! (limit - 1)) \<noteq> []"
proof -
  obtain j where j: "rest = drop j ys" using u by (auto simp: unseen_def intro: that [of 0])
  with l have k: "j + (limit - 1) < length ys" "take (limit + 1) rest ! (limit - 1) = ys ! (j + (limit - 1))"
    "drop limit rest = drop (Suc (j + (limit - 1))) ys"
    by (simp_all add: add.commute)
  with ids have "or_id (ys ! (j + (limit - 1))) \<noteq> []" by simp
  with k show ?thesis unfolding unseen_def by metis
qed

lemma walk_unseen:
  assumes inv: "ledger_inv d" and o: "apply_order_ownership p = Inr owned" and v: "shows_order view"
    and ids: "\<forall>r \<in> set (orders d). or_id r \<noteq> []" and l: "0 < limit"
  shows "unseen (owned_orders p d) cursor rest \<Longrightarrow> length rest < n \<Longrightarrow>
    outcome (walk_orders view p limit n cursor)
      (\<lambda>vs d'. d' = d \<and> List.map ov_id vs = List.map or_id rest) (\<lambda>_ d'. d' = d) d t"
proof (induction n arbitrary: cursor rest)
  case (Suc n)
  let ?nxt = "or_id (take (limit + 1) rest ! (limit - 1))"
  have own: "\<forall>r \<in> set (owned_orders p d). or_id r \<noteq> []"
    using ids by (simp add: owned_orders_def o order_pages.newest_set)
  show ?case
    unfolding walk_orders.simps
  proof (rule outcome_bind, rule outcome_weaken [OF page_of_unseen [OF inv o Suc.prems(1) v, of limit t]])
    fix x :: "order_view list \<times> string" and d'
    obtain vs nxt where x: "x = (vs, nxt)" by (cases x)
    assume "(case x of (vs, nxt) \<Rightarrow> \<lambda>d'. d' = d \<and> List.map ov_id vs = List.map or_id (take limit rest) \<and>
       nxt = (if limit < length rest then ?nxt else [])) d'"
    then have a: "d' = d" "List.map ov_id vs = List.map or_id (take limit rest)"
      "nxt = (if limit < length rest then ?nxt else [])" by (simp_all add: x)
    have halves: "List.map ov_id (vs @ ws) = List.map or_id rest"
      if "List.map ov_id ws = List.map or_id (drop limit rest)" for ws
      by (simp only: map_append a(2) that) (simp only: map_append [symmetric] append_take_drop_id)
    have more: "outcome (act_bind (walk_orders view p limit n nxt) (\<lambda>ws. act_ret (vs @ ws)))
      (\<lambda>vs d'. d' = d \<and> List.map ov_id vs = List.map or_id rest) (\<lambda>_ d'. d' = d) d t"
      if "limit < length rest"
    proof (rule outcome_bind, rule outcome_weaken [OF Suc.IH [of nxt "drop limit rest"]])
      show "unseen (owned_orders p d) nxt (drop limit rest)"
        using unseen_next [OF Suc.prems(1) l that own] a(3) that by simp
      show "length (drop limit rest) < n" using Suc.prems(2) l that by simp
    qed (auto simp: a(2) map_append [symmetric] simp del: map_append intro!: outcome_ret halves)
    have "?nxt \<noteq> []" if "limit < length rest" using unseen_next [OF Suc.prems(1) l that own] by simp
    with more a show "outcome (case x of (vs, nxt) \<Rightarrow> if nxt = [] then act_ret vs
        else act_bind (walk_orders view p limit n nxt) (\<lambda>ws. act_ret (vs @ ws)))
      (\<lambda>vs d'. d' = d \<and> List.map ov_id vs = List.map or_id rest) (\<lambda>_ d'. d' = d) d' t"
      by (cases "limit < length rest") (simp_all add: x outcome_ret)
  qed simp
qed simp

lemma walk_orders_all:
  assumes inv: "ledger_inv (w_db w)" and v: "shows_order view"
    and ids: "\<forall>r \<in> set (orders (w_db w)). or_id r \<noteq> []" and l: "0 < limit" "length (orders (w_db w)) < n"
    and run: "walk_orders view p limit n [] w = (Inr vs, w')"
  shows "\<exists>owned. apply_order_ownership p = Inr owned \<and> w_db w' = w_db w \<and>
    List.map ov_id vs = List.map or_id (rev (sort_key order_key (filter owned (orders (w_db w)))))"
proof (cases "apply_order_ownership p")
  case (Inl e)
  obtain m where n: "n = Suc m" using l(2) by (cases n) auto
  from run show ?thesis by (simp add: n list_orders_def Inl act_run)
next
  case (Inr owned)
  let ?ys = "owned_orders p (w_db w)"
  have ys: "?ys = rev (sort_key order_key (filter owned (orders (w_db w))))"
    by (simp add: owned_orders_def Inr order_pages.newest_def)
  have "length ?ys \<le> length (orders (w_db w))" by (simp add: ys)
  then have "outcome (walk_orders view p limit n []) (\<lambda>vs d'. d' = w_db w \<and> List.map ov_id vs = List.map or_id ?ys)
      (\<lambda>_ d'. d' = w_db w) (w_db w) (w_now w)"
    by (intro walk_unseen [OF inv Inr v ids l(1)]) (use l(2) in \<open>simp_all add: unseen_def\<close>)
  from outcome_Inr [OF this run] show ?thesis by (simp add: Inr ys)
qed

end
