(* ===== verification/Progress.thy ===== *)
theory Progress
  imports Settlement_Usecase
begin

text \<open>
  Progress in a calm world: no statement fails and no identifier is missing. \<open>runs m Q d is t\<close>
  says that \<open>m\<close>, started on database \<open>d\<close> with the identifiers \<open>is\<close> to come at time \<open>t\<close>, does
  return a value, one that satisfies \<open>Q\<close> with the database and the identifiers it leaves. The
  settlement of a paid order is carried through with these rules.
\<close>

definition calm :: "world \<Rightarrow> bool" where
  "calm w \<longleftrightarrow> w_faults w = [] \<and> w_tx w \<noteq> TxAborted"

definition runs ::
  "'a repo \<Rightarrow> ('a \<Rightarrow> db \<Rightarrow> string list \<Rightarrow> bool) \<Rightarrow> db \<Rightarrow> string list \<Rightarrow> time \<Rightarrow> bool" where
  "runs m Q d is t \<longleftrightarrow>
     (\<forall>w. calm w \<longrightarrow> w_db w = d \<longrightarrow> w_ids w = is \<longrightarrow> w_now w = t \<longrightarrow>
        (\<exists>x w'. m w = (Inr x, w') \<and> calm w' \<and> w_now w' = t \<and> Q x (w_db w') (w_ids w')))"

named_theorems runs_intro "forward execution rules"

lemma runsI:
  assumes "\<And>w. calm w \<Longrightarrow> w_db w = d \<Longrightarrow> w_ids w = is \<Longrightarrow> w_now w = t \<Longrightarrow>
     \<exists>x w'. m w = (Inr x, w') \<and> calm w' \<and> w_now w' = t \<and> Q x (w_db w') (w_ids w')"
  shows "runs m Q d is t"
  using assms by (simp add: runs_def)

lemma runsE:
  assumes "runs m Q d is t" "calm w" "w_db w = d" "w_ids w = is" "w_now w = t"
  obtains x w' where "m w = (Inr x, w')" "calm w'" "w_now w' = t" "Q x (w_db w') (w_ids w')"
  using assms unfolding runs_def by blast

lemma runs_weaken: "runs m Q d is t \<Longrightarrow> (\<And>x d' js. Q x d' js \<Longrightarrow> Q' x d' js) \<Longrightarrow> runs m Q' d is t"
  unfolding runs_def by blast

lemma runs_ret [runs_intro]: "Q x d is \<Longrightarrow> runs (act_ret x) Q d is t"
  by (rule runsI) (simp add: act_ret_def)

lemma runs_guard [runs_intro]: "b \<Longrightarrow> Q () d is \<Longrightarrow> runs (act_guard b e) Q d is t"
  by (simp add: act_guard_def runs_ret)

lemma runs_lift [runs_intro]: "r = Inr x \<Longrightarrow> Q x d is \<Longrightarrow> runs (act_lift r) Q d is t"
  by (rule runsI) (simp add: act_lift_def)

lemma runs_get_db [runs_intro]: "Q d d is \<Longrightarrow> runs (act_get w_db) Q d is t"
  by (rule runsI) (simp add: act_get_def)

lemma runs_bind [runs_intro]:
  assumes "runs m (\<lambda>x d' js. runs (f x) Q d' js t) d is t"
  shows "runs (act_bind m f) Q d is t"
proof (rule runsI)
  fix w assume w: "calm w" "w_db w = d" "w_ids w = is" "w_now w = t"
  from runsE [OF assms w] obtain x w1 where 1: "m w = (Inr x, w1)" "calm w1" "w_now w1 = t"
    "runs (f x) Q (w_db w1) (w_ids w1) t" .
  from runsE [OF 1(4,2) refl refl 1(3)] obtain y w2 where
    "f x w1 = (Inr y, w2)" "calm w2" "w_now w2 = t" "Q y (w_db w2) (w_ids w2)" .
  with 1 show "\<exists>x w'. act_bind m f w = (Inr x, w') \<and> calm w' \<and> w_now w' = t \<and>
      Q x (w_db w') (w_ids w')"
    by (simp add: act_bind_def)
qed

lemma runs_try [runs_intro]: "runs m (\<lambda>x. Q (Inr x)) d is t \<Longrightarrow> runs (act_try m) Q d is t"
  unfolding runs_def act_try_def by (fastforce split: prod.splits)

lemma runs_now [runs_intro]: "Q t d is \<Longrightarrow> runs now_utc Q d is t"
  by (rule runsI) (simp add: now_utc_def act_get_def)

lemma runs_new_id [runs_intro]: "Q i d js \<Longrightarrow> runs new_id Q d (i # js) t"
  by (rule runsI) (simp add: new_id_def calm_def)

lemma runs_sql: "f d = (Inr x, d') \<Longrightarrow> Q x d' is \<Longrightarrow> runs (sql f) Q d is t"
  by (rule runsI) (simp add: sql_def sql_run_def calm_def)

lemma runs_select [runs_intro]: "Q (f d) d is \<Longrightarrow> runs (select f) Q d is t"
  unfolding select_def by (rule runs_sql) simp_all

lemma runs_select_first [runs_intro]: "f d = Some x \<Longrightarrow> Q x d is \<Longrightarrow> runs (select_first f) Q d is t"
  unfolding select_first_def by (intro runs_intro) (simp add: runs_ret)

lemma runs_insert [runs_intro]:
  "(\<And>q. q \<in> set (tab d) \<Longrightarrow> \<not> clash r q) \<Longrightarrow> Q () (put (tab d @ [r]) d) is \<Longrightarrow>
   runs (insert_row clash tab put r) Q d is t"
  unfolding insert_row_def by (rule runs_sql) (auto simp: list_ex_iff)

lemma runs_update [runs_intro]:
  "chk (update_rows P f (tab d)) = None \<Longrightarrow> Q (count_rows P (tab d)) (put (update_rows P f (tab d)) d) is \<Longrightarrow>
   runs (update_table chk tab put P f) Q d is t"
  unfolding update_table_def by (rule runs_sql) (auto simp: Let_def)

lemma runs_case_Some [runs_intro]: "runs (g x) Q d is t \<Longrightarrow> runs (case Some x of None \<Rightarrow> f | Some x \<Rightarrow> g x) Q d is t"
  by simp

lemma runs_case_None [runs_intro]: "runs f Q d is t \<Longrightarrow> runs (case None of None \<Rightarrow> f | Some x \<Rightarrow> g x) Q d is t"
  by simp

lemma runs_case_Inr [runs_intro]: "runs (g x) Q d is t \<Longrightarrow> runs (case Inr x of Inl e \<Rightarrow> f e | Inr x \<Rightarrow> g x) Q d is t"
  by simp

lemma runs_optional [runs_intro]:
  assumes "f d = Some x" and "Q (Some x) d is"
  shows "runs (optional_row (select_first f)) Q d is t"
  unfolding optional_row_def by (intro runs_intro) (use assms in simp_all)

lemma runs_tx_body [runs_intro]:
  assumes "runs body Q d is t"
  shows "runs (tx_body body) Q d is t"
proof (rule runsI)
  fix w assume w: "calm w" "w_db w = d" "w_ids w = is" "w_now w = t"
  let ?w = "w\<lparr>w_tx := TxOpen\<rparr>"
  have "calm ?w" "w_db ?w = d" "w_ids ?w = is" "w_now ?w = t" using w by (simp_all add: calm_def)
  from runsE [OF assms this] obtain x w' where
    "body ?w = (Inr x, w')" "calm w'" "w_now w' = t" "Q x (w_db w') (w_ids w')" by auto
  then show "\<exists>x w'. tx_body body w = (Inr x, w') \<and> calm w' \<and> w_now w' = t \<and>
      Q x (w_db w') (w_ids w')"
    by (simp add: tx_body_def calm_def)
qed

lemma runs_tx [runs_intro]:
  assumes "runs body Q d is t"
  shows "runs (tx_do body) Q d is t"
proof -
  obtain n where n: "max_transaction_attempts = Suc n" by (simp add: max_transaction_attempts_def)
  show ?thesis
    unfolding tx_do_def n tx_attempts.simps by (intro runs_intro) (rule runs_weaken [OF assms], simp add: runs_ret)
qed

section \<open>A lease\<close>

definition leased_row :: "string \<Rightarrow> time \<Rightarrow> duration \<Rightarrow> outbox_message \<Rightarrow> db \<Rightarrow> db" where
  "leased_row worker now dur m d = d\<lparr>outbox := leased_to (ob_id m) worker (now + dur) (outbox d)\<rparr>"

lemma runs_lease_row [runs_intro]:
  assumes "first_by lease_key (leasable topic k now) (outbox d) = Some m" and "Q m (leased_row worker now dur m d) is"
  shows "runs (lease_row topic k worker now dur) Q d is t"
  unfolding lease_row_def store_defs
  by (intro runs_intro) (use assms in \<open>simp_all add: leased_row_def leased_to_def\<close>)

lemma first_by_exists:
  assumes "m \<in> set rows" "P m"
  shows "\<exists>r. first_by k P rows = Some r"
  using assms first_by_None [of k P rows] by (cases "first_by k P rows") auto

text \<open>When a message is due, the queue hands out a message.\<close>

lemma lease_outbox_progress:
  assumes "m \<in> set (outbox d)" "leasable topic k now m"
    and dec: "\<And>m. m \<in> set (outbox d) \<Longrightarrow> leasable topic k now m \<Longrightarrow> \<exists>j. decode (ob_payload m) = Inr j"
  shows "runs (lease_outbox k decode topic worker now dur)
    (\<lambda>j d' js. \<exists>m \<in> set (outbox d). leasable topic k now m \<and>
       (\<exists>j0. decode (ob_payload m) = Inr j0 \<and> j = normalize_outbox_job (ob_id m) j0) \<and>
       d' = leased_row worker now dur m d) d is t"
proof -
  from first_by_exists [where k = lease_key and P = "leasable topic k now", OF assms(1,2)] obtain r where
    r: "first_by lease_key (leasable topic k now) (outbox d) = Some r" by blast
  from first_by_Some [OF this] dec obtain j where j: "r \<in> set (outbox d)" "leasable topic k now r"
    "decode (ob_payload r) = Inr j" by blast
  show ?thesis
    unfolding lease_outbox_def by (intro runs_intro, rule r) (use j in \<open>auto intro!: runs_ret\<close>)
qed

section \<open>The settlement of a paid order\<close>

lemma first_by_unique:
  assumes "r \<in> set rows" "P r" "\<And>x. x \<in> set rows \<Longrightarrow> P x \<Longrightarrow> x = r"
  shows "first_by k P rows = Some r"
proof -
  from first_by_exists [where P = P, OF assms(1,2)] obtain x where x: "first_by k P rows = Some x" by blast
  with first_by_Some [OF x] assms(3) show ?thesis by blast
qed

text \<open>An order whose payment is confirmed, with the rows its confirmation wrote.\<close>

definition awaiting_settlement ::
  "order_record \<Rightarrow> stellar_transaction \<Rightarrow> treasury_reservation \<Rightarrow> stroops \<Rightarrow> db \<Rightarrow> bool" where
  "awaiting_settlement r s q a d \<longleftrightarrow>
     r \<in> set (orders d) \<and> or_status r = OSStellarProcessing \<and>
     s \<in> set (stellar_txs d) \<and> st_order s = or_id r \<and> st_purpose s = ''transfer'' \<and> st_hash s = None \<and>
     st_status s \<noteq> STConfirmed \<and> st_intent s \<noteq> [] \<and> parse_stroops (st_amount s) = Inr a \<and>
     distinct (List.map st_intent (stellar_txs d)) \<and> distinct (List.map st_id (stellar_txs d)) \<and>
     distinct_hashes (stellar_txs d) \<and>
     q \<in> set (reservations d) \<and> tr_order q = or_id r \<and> (\<forall>x \<in> set (reservations d). 0 \<le> tr_amount x)"

definition transfer_of :: "stellar_transaction \<Rightarrow> stroops \<Rightarrow> transfer" where
  "transfer_of s a =
     \<lparr>tf_order = st_order s, tf_source = deref_str (st_source s), tf_destination = deref_str (st_dest s),
      tf_asset_code = st_asset_code s, tf_asset_issuer = st_asset_issuer s, tf_clawback_from = [],
      tf_amount = a, tf_memo = deref_str (st_memo s)\<rparr>"

lemma distinct_key_eq: "distinct (List.map f xs) \<Longrightarrow> x \<in> set xs \<Longrightarrow> y \<in> set xs \<Longrightarrow> f x = f y \<Longrightarrow> x = y"
  by (auto simp: distinct_map dest: inj_onD)

lemma runs_load_intent:
  assumes a: "awaiting_settlement r s q a d"
    and Q: "Q \<lparr>in_id = st_intent s, in_hash = [], in_transfer = transfer_of s a\<rparr> d is"
  shows "runs (load_intent (st_intent s)) Q d is t"
proof -
  have "first_by st_id (\<lambda>x. st_intent x = st_intent s \<and> st_purpose x = ''transfer'') (stellar_txs d) = Some s"
    by (rule first_by_unique)
       (use a in \<open>auto simp: awaiting_settlement_def intro: distinct_key_eq [where f = st_intent]\<close>)
  then show ?thesis
    unfolding load_intent_def
    by (intro runs_intro) (use a Q in \<open>auto simp: awaiting_settlement_def transfer_of_def deref_str_def\<close>)
qed

text \<open>The hash can be filed: no other row has it.\<close>

lemma file_hash:
  assumes "distinct (List.map st_intent rows)" "distinct_hashes rows"
    and "\<forall>x \<in> set rows. st_hash x \<noteq> Some h"
    and f: "\<And>x. st_hash (f x) = Some h"
  shows "distinct_hashes (update_rows (\<lambda>x. st_intent x = i) f rows)"
  using assms(1-3)
proof (induction rows)
  case (Cons x rows)
  have none: "update_rows (\<lambda>x. st_intent x = i) f rows = rows" if "st_intent x = i"
    using Cons.prems(1) that by (intro update_rows_none) (auto, metis image_eqI)
  have tl: "distinct_hashes rows" using Cons.prems(2) by (auto simp: distinct_hashes_def split: if_splits)
  show ?case
  proof (cases "st_intent x = i")
    case True
    have "update_rows (\<lambda>x. st_intent x = i) f (x # rows) = f x # rows"
      using none True by (simp add: update_rows_def)
    with tl Cons.prems(3) f show ?thesis by (auto simp: distinct_hashes_def)
  next
    case False
    have "update_rows (\<lambda>x. st_intent x = i) f (x # rows) = x # update_rows (\<lambda>x. st_intent x = i) f rows"
      using False by (simp add: update_rows_def)
    moreover have "distinct_hashes (update_rows (\<lambda>x. st_intent x = i) f rows)"
      using Cons tl by simp
    moreover have "st_hash x \<notin> st_hash ` {y \<in> set (update_rows (\<lambda>x. st_intent x = i) f rows). \<exists>z. st_hash y = Some z}"
      if "st_hash x \<noteq> None"
    proof
      assume "st_hash x \<in> st_hash ` {y \<in> set (update_rows (\<lambda>x. st_intent x = i) f rows). \<exists>z. st_hash y = Some z}"
      then obtain y where y: "y \<in> set (update_rows (\<lambda>x. st_intent x = i) f rows)" "st_hash y = st_hash x" by auto
      from set_update_rows [OF y(1)] obtain z where z: "z \<in> set rows" "y = f z \<or> y = z" by blast
      from Cons.prems(2) that have "st_hash x \<notin> st_hash ` {y \<in> set rows. st_hash y \<noteq> None}"
        by (simp add: distinct_hashes_def)
      with that z(1) have "st_hash z \<noteq> st_hash x" by force
      with z(2) y(2) f Cons.prems(3) show False by auto
    qed
    ultimately show ?thesis by (auto simp: distinct_hashes_def)
  qed
qed (simp add: distinct_hashes_def update_rows_def)

lemma same_hashes:
  assumes "\<And>x. st_hash (f x) = st_hash x"
  shows "distinct_hashes (update_rows P f rows) = distinct_hashes rows"
proof -
  have "List.map st_hash (filter (\<lambda>x. st_hash x \<noteq> None) (update_rows P f rows)) =
      List.map st_hash (filter (\<lambda>x. st_hash x \<noteq> None) rows)"
    by (induction rows) (auto simp: update_rows_def assms)
  then show ?thesis by (simp only: distinct_hashes_def)
qed

definition submitted ::
  "order_record \<Rightarrow> stellar_transaction \<Rightarrow> treasury_reservation \<Rightarrow> string \<Rightarrow> db \<Rightarrow> bool" where
  "submitted r s q h d \<longleftrightarrow>
     r \<in> set (orders d) \<and> or_status r = OSStellarProcessing \<and>
     s \<in> set (stellar_txs d) \<and> st_order s = or_id r \<and> st_hash s = Some h \<and> st_status s \<noteq> STConfirmed \<and>
     distinct (List.map st_intent (stellar_txs d)) \<and> distinct_hashes (stellar_txs d) \<and>
     q \<in> set (reservations d) \<and> tr_order q = or_id r \<and> (\<forall>x \<in> set (reservations d). 0 \<le> tr_amount x)"

definition fresh_ids :: "db \<Rightarrow> string \<Rightarrow> string \<Rightarrow> string \<Rightarrow> bool" where
  "fresh_ids d i j k \<longleftrightarrow> i \<notin> ev_id ` set (order_events d) \<and> j \<notin> we_id ` set (webhook_events d) \<and>
     k \<notin> ob_id ` set (outbox d)"

lemma open_amount_ge:
  assumes "q \<in> set rs" "tr_status q = RSReserved" "\<forall>x \<in> set rs. 0 \<le> tr_amount x"
  shows "tr_amount q \<le> open_amount rs (tr_treasury q)"
proof -
  have nonneg: "0 \<le> open_amount xs i" if "\<forall>x \<in> set xs. 0 \<le> tr_amount x" for xs i
    using that by (induction xs) (auto simp: open_amount_def)
  obtain xs ys where rs: "rs = xs @ q # ys" using assms(1) by (auto dest: split_list)
  have "open_amount (q # ys) (tr_treasury q) = tr_amount q + open_amount ys (tr_treasury q)"
    using assms(2) by (simp add: open_amount_def)
  with nonneg [of xs "tr_treasury q"] nonneg [of ys "tr_treasury q"] assms(3) rs show ?thesis
    by (simp add: open_amount_append)
qed

lemma runs_consume:
  assumes inv: "ledger_inv d" and q: "q \<in> set (reservations d)" and nonneg: "\<forall>x \<in> set (reservations d). 0 \<le> tr_amount x"
    and Q: "\<And>ts rs. Q () (d\<lparr>reservations := rs, treasuries := ts\<rparr>) is"
  shows "runs (consume_reservation q now) Q d is t"
proof (cases "tr_status q = RSReserved")
  case False
  with Q [of "treasuries d" "reservations d"] show ?thesis by (simp add: consume_reservation_def runs_ret)
next
  case True
  have bal: "treasury_balanced (treasuries d) (reservations d)"
    using ledger_inv_ok [OF inv] by (simp add: ledger_ok_def)
  let ?f = "\<lambda>x::treasury_account. x\<lparr>ta_reserved := ta_reserved x + - tr_amount q, ta_updated := t\<rparr>"
  have "list_all treasury_ok (update_rows (\<lambda>x. ta_id x = tr_treasury q) ?f (treasuries d))"
    unfolding list_all_iff
  proof
    fix x assume "x \<in> set (update_rows (\<lambda>x. ta_id x = tr_treasury q) ?f (treasuries d))"
    then obtain y where y: "y \<in> set (treasuries d)" "ta_id y = tr_treasury q \<and> x = ?f y \<or> x = y"
      using set_update_rows by fastforce
    from bal y(1) have ok: "treasury_ok y" "ta_reserved y = open_amount (reservations d) (ta_id y)"
      by (simp_all add: treasury_balanced_def list_all_iff)
    show "treasury_ok x"
      using y(2) ok open_amount_ge [OF q True nonneg] nonneg q by (auto simp: treasury_ok_def)
  qed
  then show ?thesis
    unfolding consume_reservation_def add_reserved_def store_defs using True Q
    by (simp, intro runs_intro) (auto simp: check_treasuries_def)
qed

text \<open>The event of an order that is no sell order, with its public event and its message.\<close>

lemma next_version_free:
  assumes inv: "ledger_inv d" and r: "r \<in> set (orders d)" and e: "e \<in> set (order_events d)" "ev_order e = or_id r"
  shows "ev_version e \<noteq> or_version r + 1"
proof -
  let ?es = "order_log (order_events d) (or_id r)"
  have c: "log_conforms r ?es" using ledger_inv_ok [OF inv] r by (simp add: ledger_ok_def orders_logged_def)
  have "e \<in> set ?es" using e by (simp add: order_log_def)
  then have "ev_version e \<in> set (List.map ev_version ?es)" by simp
  also have "List.map ev_version ?es = List.map int [1..<Suc (length ?es)]" using c by (simp add: log_conforms_def Let_def)
  finally have "ev_version e \<le> int (length ?es)" by auto
  with c show ?thesis by (simp add: log_conforms_def Let_def)
qed

lemma runs_first: "first_by k P (tab d) = Some r \<Longrightarrow> Q r d is \<Longrightarrow> runs (first_row tab k P) Q d is t"
  by (rule runs_select_first) simp_all

lemma runs_public_event:
  assumes f: "j \<notin> we_id ` set (webhook_events d)" "k \<notin> ob_id ` set (outbox d)"
    and o: "first_by or_id (\<lambda>x. or_id x = or_id r) (orders d) = Some r"
    and dir: "or_direction r \<noteq> ''offramp''"
    and Q: "\<And>ws os. Q () (d\<lparr>webhook_events := ws, outbox := os\<rparr>) is"
  shows "runs (append_public_webhook_event source_id (or_id r) ty nxt now) Q d (j # k # is) t"
proof -
  have 2: "j \<noteq> we_id e" if "e \<in> set (webhook_events d)" for e using f that by auto
  have 3: "k \<noteq> ob_id m" if "m \<in> set (outbox d)" for m using f that by auto
  show ?thesis
    unfolding append_public_webhook_event_def find_order_def Let_def
    by (rule runs_bind, rule runs_first, rule o, unfold store_defs, simp only: dir simp_thms if_False,
        intro runs_intro)
       (simp_all add: 2 3 Q)
qed

lemma runs_append_event:
  assumes free: "\<forall>e \<in> set (order_events d). ev_order e = or_id r \<longrightarrow> ev_version e \<noteq> v"
    and f: "fresh_ids d i j k" and o: "first_by or_id (\<lambda>x. or_id x = or_id r) (orders d) = Some r"
    and dir: "or_direction r \<noteq> ''offramp''" and p: "public_webhook_event_type ty = Some p"
    and Q: "\<And>es ws os. Q () (d\<lparr>order_events := es, webhook_events := ws, outbox := os\<rparr>) is"
  shows "runs (append_order_event_from_source (or_id r) v ty prev nxt source now) Q d (i # j # k # is) t"
proof -
  have 1: "\<not> (i = ev_id e \<or> or_id r = ev_order e \<and> v = ev_version e)" if "e \<in> set (order_events d)" for e
    using free f that by (auto simp: fresh_ids_def)
  have pub: "runs (append_public_webhook_event i (or_id r) p nxt now) Q (d\<lparr>order_events := es\<rparr>) (j # k # is) t" for es
    by (rule runs_public_event [where r = r]) (use f o dir Q in \<open>simp_all add: fresh_ids_def\<close>)
  show ?thesis
    unfolding append_order_event_from_source_def insert_event_def p option.case
    by (intro runs_intro pub) (use 1 in simp_all)
qed

lemma runs_confirm:
  assumes inv: "ledger_inv d" and s: "submitted r s q h d" and f: "fresh_ids d i j k"
    and ids: "is = i # j # k # js"
  shows "runs (settlement_confirm (st_intent s) h l)
    (\<lambda>_ d' _. \<exists>r' \<in> set (orders d'). or_id r' = or_id r \<and> or_status r' = OSCompleted) d is t"
proof -
  have L: "ledger_ok (orders d) (order_events d) (treasuries d) (reservations d) (payouts d)"
    by (rule ledger_inv_ok [OF inv])
  have st: "first_by st_id (\<lambda>x. st_intent x = st_intent s) (stellar_txs d) = Some s"
    by (rule first_by_unique)
       (use s in \<open>auto simp: submitted_def intro: distinct_key_eq [where f = st_intent]\<close>)
  have rv: "first_by tr_id (\<lambda>x. tr_order x = st_order s) (reservations d) = Some q"
    by (rule first_by_unique)
       (use s L in \<open>auto simp: submitted_def ledger_ok_def treasury_balanced_def intro: distinct_key_eq [where f = tr_order]\<close>)
  have ru: "x = r" if "x \<in> set (orders d)" "or_id x = or_id r" for x
    using that s L by (auto simp: submitted_def ledger_ok_def orders_logged_def intro: distinct_key_eq [where f = or_id])
  have ro: "first_by or_id (\<lambda>x. or_id x = or_id r) (orders d) = Some r"
    by (rule first_by_unique) (use s ru in \<open>auto simp: submitted_def\<close>)
  have dir: "or_direction r \<noteq> ''offramp''"
    using ledger_ok_lane [OF L, of r] s by (auto simp: submitted_def)
  have free: "\<forall>e \<in> set (order_events d). ev_order e = or_id r \<longrightarrow> ev_version e \<noteq> or_version r + 1"
    using next_version_free [OF inv] s by (auto simp: submitted_def)
  let ?u = "\<lambda>x::order_record. x\<lparr>or_status := OSCompleted, or_version := or_version r + 1, or_completed := Some t, or_updated := t\<rparr>"
  have ro': "first_by or_id (\<lambda>x. or_id x = or_id r) (update_rows (\<lambda>x. or_id x = or_id r) ?u (orders d)) = Some (?u r)"
    by (rule first_by_unique) (use s ru in \<open>auto simp: submitted_def update_rows_def\<close>)
  have m: "?u r \<in> set (update_rows (\<lambda>x. or_id x = or_id r) ?u (orders d))"
    using s by (auto simp: submitted_def update_rows_def)
  have fin: "\<exists>r' \<in> set (update_rows (\<lambda>x. or_id x = or_id r) ?u (orders d)). or_id r' = or_id r \<and> or_status r' = OSCompleted"
    by (rule bexI [OF _ m]) simp
  let ?d1 = "d\<lparr>stellar_txs := update_rows (\<lambda>x. st_id x = st_id s)
      (\<lambda>x. x\<lparr>st_status := STConfirmed, st_ledger := Some l, st_updated := t\<rparr>) (stellar_txs d)\<rparr>"
  have inv1: "ledger_inv ?d1" using inv by (simp add: ledger_inv_def)
  have hs: "check_stellar (stellar_txs ?d1) = None" using s by (simp add: check_stellar_def same_hashes submitted_def)
  let ?done = "\<lambda>_ d' _. \<exists>r' \<in> set (orders d'). or_id r' = or_id r \<and> or_status r' = OSCompleted"
  have ev: "runs (append_settlement_event r t) (\<lambda>_ d' js. runs (close_outbox settle_topic (or_id r) t None) ?done d' js t)
      (?d1\<lparr>reservations := rs, treasuries := ts, orders := update_rows (\<lambda>x. or_id x = or_id r) ?u (orders d), sep24_txs := ss\<rparr>)
      (i # j # k # js) t" for rs ts ss
    unfolding append_settlement_event_def
    by (rule runs_append_event [where r = "?u r", simplified])
       (use free f ro' dir fin in \<open>auto simp: public_webhook_event_type_def fresh_ids_def close_outbox_def store_defs
          intro!: runs_bind runs_update runs_ret\<close>)
  from s have s1: "st_status s \<noteq> STConfirmed" "st_hash s = Some h" "st_order s = or_id r"
    "or_status r = OSStellarProcessing" "q \<in> set (reservations d)" "\<forall>x \<in> set (reservations d). 0 \<le> tr_amount x"
    by (simp_all add: submitted_def)
  have upd: "runs (update_orders (\<lambda>x. or_id x = or_id r) ?u) (\<lambda>_ d' js.
      runs (act_bind (update_sep24 P g) (\<lambda>_. act_bind (append_settlement_event r t) (\<lambda>_.
        close_outbox settle_topic (or_id r) t None))) ?done d' js t)
      (?d1\<lparr>reservations := rs, treasuries := ts\<rparr>) (i # j # k # js) t" for P g rs ts
    unfolding update_orders_def update_sep24_def
    by (rule runs_update, simp, rule runs_bind, rule runs_update, simp, rule runs_bind) (use ev in simp)
  have rest: "runs (act_bind (first_row reservations tr_id (\<lambda>x. tr_order x = or_id r)) (\<lambda>reservation.
         act_bind (consume_reservation reservation t) (\<lambda>_.
         act_bind (find_order (or_id r)) (\<lambda>ord.
         act_bind (act_guard (or_status ord = OSStellarProcessing) ErrInvalidOrderState) (\<lambda>_.
         act_bind (update_orders (\<lambda>r. or_id r = or_id ord)
           (\<lambda>r. r\<lparr>or_status := OSCompleted, or_version := or_version ord + 1, or_completed := Some t,
                 or_updated := t\<rparr>)) (\<lambda>_.
         act_bind (update_sep24 (\<lambda>sa. s24_order sa = or_id r) (\<lambda>s. s\<lparr>s24_stellar := Some h\<rparr>)) (\<lambda>_.
         act_bind (append_settlement_event ord t) (\<lambda>_.
         close_outbox settle_topic (or_id ord) t None))))))))
        ?done ?d1 (i # j # k # js) t"
    apply (rule runs_bind, rule runs_first, use rv s1 in simp, rule runs_bind, rule runs_consume, rule inv1)
      apply (simp_all add: s1)
    apply (unfold find_order_def, rule runs_bind, rule runs_first, use ro in simp,
        rule runs_bind, rule runs_guard, rule s1(4), rule runs_bind, rule upd)
    done
  show ?thesis
    unfolding settlement_confirm_def ids find_intent_def
    by (rule runs_tx, rule runs_bind, rule runs_first, rule st, unfold if_not_P [OF s1(1)],
        rule runs_bind, rule runs_guard, rule s1(2), rule runs_bind, rule runs_now, rule runs_bind,
        unfold update_stellar_def s1(3), rule runs_update, use hs in simp, rule rest)
qed

section \<open>One pass of the worker\<close>

text \<open>The network takes the transfer: it builds it, and confirms it when it is submitted.\<close>

definition network_settles :: "network \<Rightarrow> transfer \<Rightarrow> built_transaction \<Rightarrow> bool" where
  "network_settles nw tr b \<longleftrightarrow> bt_hash b \<noteq> [] \<and> bt_envelope b \<noteq> [] \<and>
     (\<forall>d. nw_build nw tr d = Inr b) \<and> (\<forall>d. \<exists>x. nw_submit nw b d = Inr x \<and> sb_result x = SRConfirmed)"

lemma runs_from_network: "f d = Inr x \<Longrightarrow> Q x d is \<Longrightarrow> runs (from_network f) Q d is t"
  by (intro runs_bind runs_get_db runs_lift)

lemma submitted_after_mark:
  assumes a: "awaiting_settlement r s q a d" and h: "\<forall>x \<in> set (stellar_txs d). st_hash x \<noteq> Some h"
    and f: "f = (\<lambda>x. x\<lparr>st_hash := Some h, st_status := STSubmitted, st_attempts := st_attempts x + 1, st_updated := t\<rparr>)"
  shows "distinct_hashes (update_rows (\<lambda>x. st_intent x = st_intent s) f (stellar_txs d)) \<and>
    submitted r (f s) q h (d\<lparr>stellar_txs := update_rows (\<lambda>x. st_intent x = st_intent s) f (stellar_txs d)\<rparr>)"
proof -
  let ?rows = "update_rows (\<lambda>x. st_intent x = st_intent s) f (stellar_txs d)"
  have dh: "distinct_hashes ?rows"
    by (rule file_hash [where h = h]) (use a h f in \<open>simp_all add: awaiting_settlement_def\<close>)
  have "List.map st_intent ?rows = List.map st_intent (stellar_txs d)" by (rule map_update_rows) (simp add: f)
  moreover have "f s \<in> set ?rows" using a by (auto simp: awaiting_settlement_def update_rows_def)
  ultimately show ?thesis
    using a dh by (simp add: awaiting_settlement_def submitted_def) (simp add: f)
qed

lemma settlement_progress:
  assumes inv: "ledger_inv d" and a: "awaiting_settlement r s q am d"
    and f: "fresh_ids d i j k" and ids: "is = i # j # k # js"
    and m: "first_by lease_key (leasable settle_topic (sg_max_attempts cfg) t) (outbox d) = Some m"
      "map_of (ob_payload m) ''intent_id'' = Some (st_intent s)"
    and nw: "network_settles nw (transfer_of s am) b" "\<forall>x \<in> set (stellar_txs d). st_hash x \<noteq> Some (bt_hash b)"
  shows "runs (settlement_run_once nw cfg worker) (\<lambda>res d' _. res = (True, None) \<and>
    (\<exists>r' \<in> set (orders d'). or_id r' = or_id r \<and> or_status r' = OSCompleted)) d is t"
proof -
  let ?d1 = "leased_row worker t (sg_lease cfg) m d"
  let ?g = "\<lambda>x::stellar_transaction. x\<lparr>st_hash := Some (bt_hash b), st_status := STSubmitted, st_attempts := st_attempts x + 1, st_updated := t\<rparr>"
  let ?d2 = "?d1\<lparr>stellar_txs := update_rows (\<lambda>x. st_intent x = st_intent s) ?g (stellar_txs ?d1)\<rparr>"
  let ?Q = "\<lambda>_ d' _. \<exists>r' \<in> set (orders d'). or_id r' = or_id r \<and> or_status r' = OSCompleted"
  have ne: "st_intent s \<noteq> []" using a by (simp add: awaiting_settlement_def)
  have a1: "awaiting_settlement r s q am ?d1" using a by (simp add: awaiting_settlement_def leased_row_def)
  have inv2: "ledger_inv ?d2" using inv by (simp add: ledger_inv_def leased_row_def)
  note sub = submitted_after_mark [OF a1, of "bt_hash b" ?g t]
  have s2: "submitted r (?g s) q (bt_hash b) ?d2" and dh: "distinct_hashes (stellar_txs ?d2)"
    using sub nw(2) by (simp_all add: leased_row_def)
  have f2: "fresh_ids ?d2 i j k"
  proof -
    have "ob_id ` set (leased_to x y z (outbox d)) = ob_id ` set (outbox d)" for x y z
      unfolding leased_to_def list.set_map [symmetric] by (simp add: map_update_rows)
    with f show ?thesis by (simp add: fresh_ids_def leased_row_def)
  qed
  obtain x where x: "nw_submit nw b ?d2 = Inr x" "sb_result x = SRConfirmed" using nw(1) by (auto simp: network_settles_def)
  have conf: "runs (settlement_confirm (st_intent s) (bt_hash b) l) ?Q ?d2 is t" for l
    using runs_confirm [OF inv2 s2 f2 ids, of l] by simp
  have built: "runs (submit_built nw cfg (st_intent s) b t) ?Q ?d1 is t"
    unfolding submit_built_def mark_submitted_def update_stellar_def
    by (rule runs_bind, rule runs_bind, rule runs_update, use dh in \<open>simp add: check_stellar_def\<close>,
        rule runs_ret, rule runs_bind, rule runs_try, rule runs_from_network, rule x(1))
       (use x(2) conf in \<open>simp add: handle_submission.simps\<close>)
  have settle: "runs (settle_intent nw cfg \<lparr>in_id = st_intent s, in_hash = [], in_transfer = transfer_of s am\<rparr> t) ?Q ?d1 is t"
    unfolding settle_intent_def
    by (simp, rule runs_bind, rule runs_try, rule runs_from_network [where x = b])
       (use nw(1) built in \<open>simp_all add: network_settles_def\<close>)
  have lease: "runs (settlement_lease (sg_max_attempts cfg) worker t (sg_lease cfg))
      (\<lambda>job d' js. jb_intent job = st_intent s \<and> d' = ?d1 \<and> js = is) d is t"
    unfolding settlement_lease_def
    by (rule runs_tx, rule runs_bind, rule runs_lease_row, rule m(1))
       (simp add: Let_def m(2) deref_str_def ne runs_ret)
  show ?thesis
    unfolding settlement_run_once_def
  proof (rule runs_bind, rule runs_now, rule runs_bind, rule runs_try, rule runs_weaken [OF lease])
    fix job d' js' assume j: "jb_intent job = st_intent s \<and> d' = ?d1 \<and> js' = is"
    have "runs (processed (act_bind (load_intent (st_intent s)) (\<lambda>it. settle_intent nw cfg it t)))
      (\<lambda>res d' _. res = (True, None) \<and> (\<exists>r' \<in> set (orders d'). or_id r' = or_id r \<and> or_status r' = OSCompleted)) ?d1 is t"
      unfolding processed_def
      by (rule runs_bind, rule runs_try, rule runs_bind, rule runs_load_intent [OF a1], rule runs_weaken [OF settle])
         (simp add: runs_ret)
    with j show "runs (case Inr job of Inl e \<Rightarrow> act_ret (False, if errors_is e ErrNoJob then None else Some e)
        | Inr j \<Rightarrow> processed (act_bind (load_intent (jb_intent j)) (\<lambda>it. settle_intent nw cfg it t)))
      (\<lambda>res d' _. res = (True, None) \<and> (\<exists>r' \<in> set (orders d'). or_id r' = or_id r \<and> or_status r' = OSCompleted)) d' js' t"
      by simp
  qed
qed

end
