(* ===== verification/Order_Properties.thy ===== *)
theory Order_Properties
  imports Scenario Order_Lists Progress
begin

text \<open>
  Properties of the order side beyond the ledger: replay of sell requests, create-once, payment
  evidence, what the workers ask of the network, deposits and their memos, order lists, and the
  progress of a paid order.
\<close>

section \<open>Idempotency\<close>

text \<open>
  With its idempotency key on file, a sell request changes nothing: it is answered from the
  record or refused, whatever the faults and the answers of the services.
\<close>
theorem offramp_create_idempotent:
  assumes "key_on_file (w_db w) offramp_create_operation (fm_principal c) (fd_digest deps (trim_space (fm_key c)))"
  shows "w_db (snd (offramp_create deps cfg c w)) = w_db w"
  using offramp_create_key_on_file [OF assms]
  by (rule outcome_state [where I = "\<lambda>d. d = w_db w"])

lemma demo_sell_key: "key_on_file demo_done offramp_create_operation demo_client ''k2''"
proof -
  have "apply_idempotency_ownership demo_client = Inr (\<lambda>r. ir_client r = Some ''client'' \<and> ir_user r = None)"
    by (simp add: apply_idempotency_ownership_def demo_client_def principal_validate.simps is_api_client_def)
  moreover have "list_ex (\<lambda>r. (ir_client r = Some ''client'' \<and> ir_user r = None) \<and>
      ir_operation r = offramp_create_operation \<and> ir_key r = ''k2'') (idempotency demo_done)"
    by (simp add: demo_idempotency_def offramp_create_operation_def)
  ultimately show ?thesis by (auto simp: key_on_file_def list_ex_iff)
qed

definition demo_sell_command :: offramp_command where
  "demo_sell_command = \<lparr>fm_principal = demo_client, fm_wallet = [], fm_quote_id = [], fm_key = '' k2 '',
     fm_network = ''stellar_testnet'', fm_asset_code = ''KXLM'', fm_currency = ''IDR'', fm_amount = ''10'',
     fm_method = WMSandboxTransfer, fm_destination = ''bank''\<rparr>"

theorem offramp_create_idempotent_witness:
  "\<forall>price cfg. w_db (snd (offramp_create \<lparr>fd_price = price, fd_trustline = None, fd_kyc = (\<lambda>_. Inr True),
      fd_digest = id, fd_sha256 = (\<lambda>_. [])\<rparr> cfg demo_sell_command (world0 demo_done demo_ids 4000))) = demo_done"
proof (intro allI)
  fix price cfg
  let ?deps = "\<lparr>fd_price = price, fd_trustline = None, fd_kyc = (\<lambda>_. Inr True), fd_digest = id,
    fd_sha256 = (\<lambda>_. [])\<rparr>"
  have "trim_space '' k2 '' = ''k2''" by code_simp
  with demo_sell_key have "key_on_file (w_db (world0 demo_done demo_ids 4000)) offramp_create_operation
      (fm_principal demo_sell_command) (fd_digest ?deps (trim_space (fm_key demo_sell_command)))"
    by (simp add: world0_def demo_sell_command_def)
  from offramp_create_idempotent [OF this, of cfg]
  show "w_db (snd (offramp_create ?deps cfg demo_sell_command (world0 demo_done demo_ids 4000))) = demo_done"
    by (simp add: world0_def)
qed

text \<open>
  C13: an order is written once per key: after a successful write, the same write fails and
  changes nothing in every later database that still has the keys on file.
\<close>
theorem order_created_once:
  assumes "idem_keys (w_db w1) \<subseteq> idem_keys (w_db u)"
  shows "(reserve_and_create c r b w = (Inr (), w1) \<longrightarrow>
      (\<exists>e u1. reserve_and_create c r b u = (Inl e, u1) \<and> w_db u1 = w_db u)) \<and>
    (create_offramp f s w = (Inr (), w1) \<longrightarrow>
      (\<exists>e u1. create_offramp f s u = (Inl e, u1) \<and> w_db u1 = w_db u))"
  using onramp_filed.create_once [of "(c, r, b)" w "()" w1 u] offramp_filed.create_once [of "(f, s)" w "()" w1 u] assms
  by simp

theorem order_created_once_witness:
  "\<exists>e u1. reserve_and_create demo_onramp_config demo_buy 1000000 (demo_world\<lparr>w_db := demo_reserved\<rparr>) = (Inl e, u1) \<and>
     w_db u1 = demo_reserved"
proof -
  have ok: "fst (reserve_and_create demo_onramp_config demo_buy 1000000 demo_world) = Inr ()" by code_simp
  obtain w1 where run: "reserve_and_create demo_onramp_config demo_buy 1000000 demo_world = (Inr (), w1)"
    using ok by (metis prod.collapse)
  have w1: "w_db w1 = demo_reserved"
    using run by (simp add: demo_reserved_def demo_db_after_def demo_reserved_ops_def act_run)
  have "idem_keys (w_db w1) \<subseteq> idem_keys (w_db (demo_world\<lparr>w_db := demo_reserved\<rparr>))" by (simp add: w1)
  from order_created_once [OF this, THEN conjunct1, rule_format, OF run] show ?thesis by simp
qed

section \<open>Payment evidence\<close>

text \<open>
  C14: an order that a callback moves was paid: the gateway verified the callback, and its own
  state of the checkout is a success whose provider id, reference, currency and amount agree with
  a checkout row of that order. The callback moves it to \<open>stellar_processing\<close> and nowhere else.
\<close>
theorem callback_needs_evidence:
  assumes "process_callback gw raw token w = (res, w')"
    and "r \<in> set (orders (w_db w'))" and "r \<notin> set (orders (w_db w))"
  shows "paid_by gw raw token (w_db w) (or_id r) \<and> or_status r = OSStellarProcessing"
proof -
  let ?P = "\<lambda>d'. orders d' = orders (w_db w) \<or> (\<exists>i. paid_by gw raw token (w_db w) i \<and>
     moved_by_payment i (orders (w_db w)) (orders d'))"
  have "?P (w_db (snd (process_callback gw raw token w)))"
    by (rule outcome_state) (rule process_callback_evidence)
  then obtain i where i: "paid_by gw raw token (w_db w) i" "moved_by_payment i (orders (w_db w)) (orders (w_db w'))"
    using assms by auto
  from assms(2) obtain k where k: "k < length (orders (w_db w'))" "r = orders (w_db w') ! k"
    by (auto simp: in_set_conv_nth)
  with i(2) have "length (orders (w_db w)) = length (orders (w_db w'))"
    "r = orders (w_db w) ! k \<or> or_id r = i \<and> or_status r = OSStellarProcessing"
    by (auto simp: moved_by_payment_def list_all2_conv_all_nth)
  with i(1) k(1) assms(3) show ?thesis by auto
qed

definition demo_pending :: db where
  "demo_pending = demo_db_after (demo_reserved_ops @ [OpAttachCheckout ''o1'' demo_checkout])"

definition demo_gateway :: callback_gateway where
  "demo_gateway = \<lparr>
     cg_verify = (\<lambda>raw token. if token = ''t'' then Inr \<lparr>cb_event = ''e1'', cb_type = ''payment_session.completed'',
        cb_checkout = ''cs1''\<rparr> else Inl ErrInvalidCallback),
     cg_state = (\<lambda>i d. Inr \<lparr>ps_provider = ''cs1'', ps_reference = ''o1'', ps_status = ''COMPLETED'',
        ps_currency = ''IDR'', ps_amount = 50000, ps_channel = ''QRIS''\<rparr>),
     cg_digest = id\<rparr>"

lemma demo_pending_rows: "List.map or_status (orders demo_pending) = [OSPaymentPending]"
  by code_simp

lemma demo_callback_moves:
  "List.map (\<lambda>r. (or_id r, or_status r))
     (orders (w_db (snd (process_callback demo_gateway ''body'' ''t'' (world0 demo_pending demo_ids 3000))))) =
   [(''o1'', OSStellarProcessing)]"
  by code_simp

theorem callback_needs_evidence_witness: "paid_by demo_gateway ''body'' ''t'' demo_pending ''o1''"
proof -
  obtain res w' where run: "process_callback demo_gateway ''body'' ''t'' (world0 demo_pending demo_ids 3000) = (res, w')"
    by fastforce
  from demo_callback_moves run obtain r where
    r: "r \<in> set (orders (w_db w'))" "or_id r = ''o1''" "or_status r = OSStellarProcessing"
    by (cases "orders (w_db w')") auto
  moreover have "or_status q = OSPaymentPending" if "q \<in> set (orders demo_pending)" for q
    using demo_pending_rows that by (cases "orders demo_pending") auto
  ultimately have "r \<notin> set (orders (w_db (world0 demo_pending demo_ids 3000)))" by (auto simp: world0_def)
  from callback_needs_evidence [OF run r(1) this] r(2) show ?thesis by (simp add: world0_def)
qed

section \<open>What the workers ask of the network\<close>

text \<open>
  C15: a settlement pass submits a transaction only after its hash is on file: how the network
  would answer the submission of a hash that is not on file makes no difference to the pass.
\<close>
theorem settlement_files_hash_first:
  assumes "agree_when_filed nw nw'"
  shows "settlement_run_once nw cfg worker w = settlement_run_once nw' cfg worker w"
  using assms by (rule settlement_run_once_agree)

definition demo_network :: network where
  "demo_network = \<lparr>
     nw_build = (\<lambda>tr d. Inr \<lparr>bt_hash = ''hash-'' @ tf_order tr, bt_envelope = ''xdr''\<rparr>),
     nw_submit = (\<lambda>b d. Inr \<lparr>sb_result = SRConfirmed, sb_ledger = 77, sb_error = []\<rparr>),
     nw_find = (\<lambda>h d. Inl ErrDatabase)\<rparr>"

text \<open>A network that answers only for hashes on file.\<close>

definition strict_network :: network where
  "strict_network = demo_network\<lparr>nw_submit := \<lambda>b d.
     if hash_on_file d (bt_hash b) then nw_submit demo_network b d else Inl ErrRandom\<rparr>"

lemma strict_agrees: "agree_when_filed demo_network strict_network"
  by (simp add: agree_when_filed_def strict_network_def)

theorem settlement_files_hash_first_witness:
  "\<forall>cfg worker w. settlement_run_once demo_network cfg worker w = settlement_run_once strict_network cfg worker w"
  using settlement_files_hash_first [OF strict_agrees] by blast

text \<open>
  The retirement worker submits a transaction only after its hash is on file, on either
  network.
\<close>
theorem retirement_files_hash_first:
  assumes "workers_agree rw rw'"
  shows "retire_run_once rw i w = retire_run_once rw' i w"
  using assms by (rule retire_run_once_agree)

definition demo_retirer :: "network \<Rightarrow> retire_worker" where
  "demo_retirer nw = \<lparr>rw_network = Some nw, rw_legacy = None, rw_simulate = False\<rparr>"

theorem retirement_files_hash_first_witness:
  "\<forall>i w. retire_run_once (demo_retirer demo_network) i w =
     retire_run_once (demo_retirer strict_network) i w"
proof -
  have "workers_agree (demo_retirer demo_network)
      (demo_retirer strict_network)"
    using strict_agrees by (simp add: workers_agree_def demo_retirer_def)
  from retirement_files_hash_first [OF this] show ?thesis by blast
qed

section \<open>Deposits\<close>

text \<open>
  The scanner's choice among the recent payments is the first payment with the memo, the
  amount and the asset of the order, else the first that only carries the memo, as a mismatch, else
  none.
\<close>
theorem deposit_choice:
  "match_deposit memo v ps None =
     (case find (\<lambda>p. py_memo p = memo \<and> py_amount p = ov_asset_amount v \<and> py_asset_code p = ov_asset_code v \<and>
          py_asset_issuer p = ov_asset_issuer v) ps of
        Some p \<Rightarrow> DepositMatch p
      | None \<Rightarrow> (case find (\<lambda>p. py_memo p = memo) ps of
          Some p \<Rightarrow> DepositMismatch (py_hash p)
            (if py_amount p \<noteq> ov_asset_amount v then ''deposit amount does not match the quoted amount''
             else ''deposit asset does not match the configured KXLM issuer'')
        | None \<Rightarrow> DepositNone))"
  unfolding match_deposit_eq_spec deposit_spec_def exact_deposit_def [abs_def] mismatch_reason_def ..

text \<open>
  The memo of a generated order id fits the 28 bytes of a Stellar text memo, and two orders
  have one memo only when they have one id.
\<close>
theorem deposit_memo_identifies:
  assumes "length as = 16" and "length bs = 16"
  shows "length (offramp_deposit_memo sha256 (platform_new_id as)) \<le> stellar_text_memo_max_bytes \<and>
    (offramp_deposit_memo sha256 (platform_new_id as) = offramp_deposit_memo sha256 (platform_new_id bs) \<longrightarrow>
     platform_new_id as = platform_new_id bs)"
  using assms deposit_memo_length deposit_memo_inj by blast

theorem deposit_memo_identifies_witness:
  "\<forall>sha256. length (offramp_deposit_memo sha256 (platform_new_id (replicate 16 7))) \<le> 28"
  using deposit_memo_identifies [of "replicate 16 7" "replicate 16 8"]
  by (simp add: stellar_text_memo_max_bytes_def)

section \<open>Order lists\<close>

text \<open>
  C16: following the cursors from the first page to the last shows the caller every order of its
  scope, once, newest first, and nothing else; the list reads only.
\<close>
theorem order_list_complete:
  assumes "reachable (w_db w)" and "view = onramp_order_view \<or> view = offramp_order_view"
    and "\<forall>r \<in> set (orders (w_db w)). or_id r \<noteq> []" and "0 < limit" "length (orders (w_db w)) < n"
    and "walk_orders view p limit n [] w = (Inr vs, w')"
  shows "\<exists>owned. apply_order_ownership p = Inr owned \<and> w_db w' = w_db w \<and>
    List.map ov_id vs = List.map or_id (rev (sort_key order_key (filter owned (orders (w_db w)))))"
proof (rule walk_orders_all [OF reachable_ledger_inv [OF assms(1)] _ assms(3-6)])
  show "shows_order view" using assms(2) onramp_view_shows offramp_view_shows by blast
qed

theorem order_list_complete_witness:
  "List.map ov_id (projr (fst (walk_orders onramp_order_view demo_client 1 3 [] (world0 demo_done [] 5000)))) =
    [''o2'', ''o1'']"
proof -
  let ?w = "world0 demo_done [] 5000" and ?walk = "walk_orders onramp_order_view demo_client 1 3 []"
  have "isl (fst (?walk ?w)) = False" by code_simp
  then obtain vs w' where run: "?walk ?w = (Inr vs, w')" by (metis isl_def sum.exhaust prod.collapse)
  have r: "reachable (w_db ?w)" by (simp add: world0_def demo_done_reachable)
  have "\<exists>owned. apply_order_ownership demo_client = Inr owned \<and> w_db w' = w_db ?w \<and>
      List.map ov_id vs = List.map or_id (rev (sort_key order_key (filter owned (orders (w_db ?w)))))"
    by (rule order_list_complete [OF r _ _ _ _ run]) (simp_all add: world0_def demo_orders_def)
  then have "List.map ov_id vs = List.map or_id (rev (sort_key order_key
      (filter (\<lambda>r. or_client_id r = Some ''client'' \<and> or_retail_session r = None) demo_orders)))"
    by (auto simp: apply_order_ownership_def demo_client_def principal_validate.simps is_api_client_def world0_def)
  also have "\<dots> = [''o2'', ''o1'']" by code_simp
  finally show ?thesis unfolding run by simp
qed

section \<open>Progress\<close>

text \<open>
  C17: the state machine ends: every step leads up the stages, so no order can take more than five,
  and the statuses without a next one are exactly the final ones.
\<close>
theorem order_machine_ends:
  "wf {(n, s). allowed_transition s n} \<and>
   \<not> (successively allowed_transition (s # ns) \<and> 5 < length ns) \<and>
   (terminal_status s \<longleftrightarrow> (\<forall>n. \<not> allowed_transition s n))"
proof (intro conjI notI)
  have "{(n, s). allowed_transition s n} \<subseteq> measure (\<lambda>s. 5 - status_rank s)"
  proof clarify
    fix n s assume "allowed_transition s n"
    from allowed_rank [OF this] rank_bound [of n] show "(n, s) \<in> measure (\<lambda>s. 5 - status_rank s)" by simp
  qed
  then show "wf {(n, s). allowed_transition s n}" by (rule wf_subset [OF wf_measure])
next
  assume s: "successively allowed_transition (s # ns) \<and> 5 < length ns"
  from chain_rank [OF conjunct1 [OF s]] rank_bound [of "last (s # ns)"] s show False by simp
next
  show "terminal_status s \<longleftrightarrow> (\<forall>n. \<not> allowed_transition s n)"
    by (cases s) (auto simp: terminal_status_def)
qed

text \<open>
  C18: a paid order gets its transfer: in a calm world, when the settlement message of the order is
  the next one due and the network takes the transfer, one pass of the settlement worker
  completes the order.
\<close>
theorem settlement_completes:
  assumes "reachable (w_db w)" and "calm w" and "awaiting_settlement r s q a (w_db w)"
    and "w_ids w = i # j # k # is" "fresh_ids (w_db w) i j k"
    and "first_by lease_key (leasable settle_topic (sg_max_attempts cfg) (w_now w)) (outbox (w_db w)) = Some m"
    and "map_of (ob_payload m) ''intent_id'' = Some (st_intent s)"
    and "network_settles nw (transfer_of s a) b" and "\<not> hash_on_file (w_db w) (bt_hash b)"
  shows "\<exists>w'. settlement_run_once nw cfg worker w = (Inr (True, None), w') \<and>
    (\<exists>r' \<in> set (orders (w_db w')). or_id r' = or_id r \<and> or_status r' = OSCompleted)"
proof -
  have "\<forall>x \<in> set (stellar_txs (w_db w)). st_hash x \<noteq> Some (bt_hash b)"
    using assms(9) by (auto simp: hash_on_file_def)
  from settlement_progress [OF reachable_ledger_inv [OF assms(1)] assms(3,5,4,6,7,8) this, of worker]
  show ?thesis by (rule runsE [OF _ assms(2) refl refl refl]) auto
qed

definition demo_paid :: db where
  "demo_paid = demo_db_after (demo_reserved_ops @ [OpAttachCheckout ''o1'' demo_checkout,
     OpConfirmPayment \<lparr>cf_event = ''e1'', cf_expected = demo_expected\<rparr>])"

definition demo_settlement :: settlement_config where
  "demo_settlement = \<lparr>sg_lease = minute, sg_retry = minute, sg_max_attempts = 5\<rparr>"

text \<open>The rows of the paid order.\<close>

definition demo_transfer_row :: stellar_transaction where
  "demo_transfer_row = \<lparr>st_id = ''i17'', st_order = ''o1'', st_intent = ''stellar-onramp-o1'',
     st_purpose = ''transfer'', st_network = ''stellar_testnet'', st_asset_code = ''KXLM'',
     st_asset_issuer = ''GT'', st_amount = ''10.0000000'', st_source = Some ''GT'',
     st_dest = Some ''GX'', st_memo = Some ''m1'', st_hash = None, st_status = STPending,
     st_attempts = 0, st_ledger = None, st_error = None, st_created = 2000, st_updated = 2000\<rparr>"

definition demo_reservation_row :: treasury_reservation where
  "demo_reservation_row = \<lparr>tr_id = ''i2'', tr_treasury = ''i0'', tr_order = ''o1'', tr_amount = 10000,
     tr_status = RSReserved, tr_expires = 5000, tr_consumed = None, tr_released = None,
     tr_created = 1000, tr_updated = 1000\<rparr>"

definition demo_settle_message :: outbox_message where
  "demo_settle_message = \<lparr>ob_id = ''i18'', ob_topic = ''stellar.settle_onramp'', ob_aggregate_type = ''order'',
     ob_aggregate = ''o1'', ob_payload = [(''intent_id'', ''stellar-onramp-o1''), (''order_id'', ''o1'')],
     ob_created = 2000, ob_available = 2000, ob_lease_owner = None, ob_lease_until = None,
     ob_attempts = 0, ob_processed = None, ob_error = None\<rparr>"

lemma demo_paid_transfer: "stellar_txs demo_paid = [demo_transfer_row]"
  by code_simp

lemma demo_paid_reservation: "reservations demo_paid = [demo_reservation_row]"
  by code_simp

lemma demo_paid_order: "List.map (\<lambda>r. (or_id r, or_status r)) (orders demo_paid) = [(''o1'', OSStellarProcessing)]"
  by code_simp

lemma demo_paid_message: "filter (leasable settle_topic 5 3000) (outbox demo_paid) = [demo_settle_message]"
  by code_simp

lemma demo_paid_fresh: "fresh_ids demo_paid ''x1'' ''x2'' ''x3''"
  by code_simp

lemmas demo_paid_simps = demo_paid_transfer demo_paid_reservation demo_paid_order demo_paid_message

lemma demo_message_intent: "map_of (ob_payload demo_settle_message) ''intent_id'' = Some (st_intent demo_transfer_row)"
  by code_simp

lemma demo_amount: "parse_stroops ''10.0000000'' = Inr 100000000"
proof -
  have "stroops_string 100000000 = ''10.0000000''" by code_simp
  with parse_stroops_of_string [of 100000000] show ?thesis by (simp add: int64_max_def)
qed

theorem settlement_completes_witness:
  "\<exists>w'. settlement_run_once demo_network demo_settlement ''worker'' (world0 demo_paid [''x1'', ''x2'', ''x3''] 3000) =
      (Inr (True, None), w') \<and>
    (\<exists>r' \<in> set (orders (w_db w')). or_id r' = ''o1'' \<and> or_status r' = OSCompleted)"
proof -
  let ?w = "world0 demo_paid [''x1'', ''x2'', ''x3''] 3000"
  let ?b = "\<lparr>bt_hash = ''hash-o1'', bt_envelope = ''xdr''\<rparr>"
  from demo_paid_simps obtain r where o: "r \<in> set (orders demo_paid)" "or_id r = ''o1''" "or_status r = OSStellarProcessing"
    by (cases "orders demo_paid") auto
  have ready: "awaiting_settlement r demo_transfer_row demo_reservation_row 100000000 demo_paid"
    using o demo_amount
    by (simp add: awaiting_settlement_def demo_paid_simps demo_transfer_row_def
        demo_reservation_row_def distinct_hashes_def)
  have m: "first_by lease_key (leasable settle_topic 5 3000) (outbox demo_paid) = Some demo_settle_message"
    by (simp add: first_by_def demo_paid_simps)
  have net: "network_settles demo_network (transfer_of demo_transfer_row 100000000) ?b"
    by (simp add: network_settles_def demo_network_def transfer_of_def demo_transfer_row_def)
  have r: "reachable (w_db ?w)" by (simp add: world0_def demo_paid_def demo_db_after_reachable)
  have "\<exists>w'. settlement_run_once demo_network demo_settlement ''worker'' ?w = (Inr (True, None), w') \<and>
    (\<exists>r' \<in> set (orders (w_db w')). or_id r' = or_id r \<and> or_status r' = OSCompleted)"
    by (rule settlement_completes [OF r _ _ _ _ _ demo_message_intent net, where r = r and q = demo_reservation_row])
       (use ready m demo_paid_fresh in \<open>simp_all add: world0_def calm_def demo_settlement_def hash_on_file_def
          demo_paid_simps demo_transfer_row_def\<close>)
  with o(2) show ?thesis by simp
qed

end
