(* ===== verification/Web_Address.thy ===== *)
theory Web_Address
  imports Encodings Kailo_Errors
begin

text \<open>
  The address policy of webhook destinations: \<open>isBlockedWebhookIP\<close> and
  \<open>ValidateWebhookDestination\<close> of \<open>internal/usecase/webhook_delivery_usecase.go\<close>,
  \<open>isDeliverableWebhookURL\<close> and \<open>atoiSafe\<close> of \<open>internal/usecase/webhook_usecase.go\<close>, on top
  of what they take from the standard library: \<open>net/url.Parse\<close>, \<open>URL.Hostname\<close>,
  \<open>net.ParseIP\<close>, the class predicates of \<open>net.IP\<close> and \<open>IPNet.Contains\<close>. The resolver is a
  parameter.
\<close>

section \<open>Strings\<close>

fun split_on :: "char \<Rightarrow> string \<Rightarrow> string list" where
  "split_on c [] = [[]]"
| "split_on c (x # xs) =
     (if x = c then [] # split_on c xs
      else case split_on c xs of [] \<Rightarrow> [[x]] | s # ss \<Rightarrow> (x # s) # ss)"

text \<open>\<open>strings.LastIndex\<close> at a one-byte separator: the parts, and whether it occurs.\<close>

definition cut_last :: "char \<Rightarrow> string \<Rightarrow> string \<times> string \<times> bool" where
  "cut_last c s = (case str_cut c (rev s) of (a, b, ok) \<Rightarrow>
     if ok then (rev b, rev a, True) else (s, [], False))"

definition has_suffix :: "string \<Rightarrow> string \<Rightarrow> bool" where
  "has_suffix p s \<longleftrightarrow> has_prefix (rev p) (rev s)"

definition trim_suffix :: "string \<Rightarrow> string \<Rightarrow> string" where
  "trim_suffix p s = (if has_suffix p s then take (length s - length p) s else s)"

definition ascii_lower :: "char \<Rightarrow> char" where
  "ascii_lower c = (if CHR ''A'' \<le> c \<and> c \<le> CHR ''Z'' then char_of (of_char c + 32 :: nat) else c)"

text \<open>
  \<open>strings.ToLower\<close> as far as an ASCII result depends on it: the ASCII letters, and the two
  other code points whose lower case is an ASCII letter (U+0130 and U+212A). Other letters are
  left as they are.
\<close>

fun to_lower :: "string \<Rightarrow> string" where
  "to_lower [] = []"
| "to_lower (c # s) =
     (if c = CHR 0xC4 \<and> s \<noteq> [] \<and> hd s = CHR 0xB0 then CHR ''i'' # to_lower (tl s)
      else if c = CHR 0xE2 \<and> has_prefix [CHR 0x84, CHR 0xAA] s then CHR ''k'' # to_lower (tl (tl s))
      else ascii_lower c # to_lower s)"

section \<open>Addresses\<close>

text \<open>A \<open>net.IP\<close> is its bytes, four or sixteen; nil is the empty list.\<close>

type_synonym ip = "byte list"

definition v4_prefix :: "byte list" where
  "v4_prefix = replicate 10 0 @ [0xff, 0xff]"

definition ip_to4 :: "ip \<Rightarrow> ip option" where
  "ip_to4 a =
     (if length a = 4 then Some a
      else if length a = 16 \<and> take 12 a = v4_prefix then Some (drop 12 a) else None)"

definition ip_equal :: "ip \<Rightarrow> ip \<Rightarrow> bool" where
  "ip_equal a b \<longleftrightarrow>
     (if length a = length b then a = b
      else if length a = 4 \<and> length b = 16 then b = v4_prefix @ a
      else if length a = 16 \<and> length b = 4 then a = v4_prefix @ b else False)"

definition ipv6_loopback :: ip where "ipv6_loopback = replicate 15 0 @ [1]"
definition ipv6_unspecified :: ip where "ipv6_unspecified = replicate 16 0"
definition ipv4_zero :: ip where "ipv4_zero = v4_prefix @ [0, 0, 0, 0]"

definition is_loopback :: "ip \<Rightarrow> bool" where
  "is_loopback a \<longleftrightarrow> (case ip_to4 a of Some b \<Rightarrow> b ! 0 = 127 | None \<Rightarrow> ip_equal a ipv6_loopback)"

definition is_private :: "ip \<Rightarrow> bool" where
  "is_private a \<longleftrightarrow> (case ip_to4 a of
     Some b \<Rightarrow> b ! 0 = 10 \<or> b ! 0 = 172 \<and> b ! 1 AND 0xf0 = 16 \<or> b ! 0 = 192 \<and> b ! 1 = 168
   | None \<Rightarrow> length a = 16 \<and> a ! 0 AND 0xfe = 0xfc)"

definition is_link_local_unicast :: "ip \<Rightarrow> bool" where
  "is_link_local_unicast a \<longleftrightarrow> (case ip_to4 a of
     Some b \<Rightarrow> b ! 0 = 169 \<and> b ! 1 = 254
   | None \<Rightarrow> length a = 16 \<and> a ! 0 = 0xfe \<and> a ! 1 AND 0xc0 = 0x80)"

definition is_link_local_multicast :: "ip \<Rightarrow> bool" where
  "is_link_local_multicast a \<longleftrightarrow> (case ip_to4 a of
     Some b \<Rightarrow> b ! 0 = 224 \<and> b ! 1 = 0 \<and> b ! 2 = 0
   | None \<Rightarrow> length a = 16 \<and> a ! 0 = 0xff \<and> a ! 1 AND 0x0f = 0x02)"

definition is_unspecified :: "ip \<Rightarrow> bool" where
  "is_unspecified a \<longleftrightarrow> ip_equal a ipv4_zero \<or> ip_equal a ipv6_unspecified"

definition is_multicast :: "ip \<Rightarrow> bool" where
  "is_multicast a \<longleftrightarrow> (case ip_to4 a of
     Some b \<Rightarrow> b ! 0 AND 0xf0 = 0xe0
   | None \<Rightarrow> length a = 16 \<and> a ! 0 = 0xff)"

text \<open>\<open>IPNet\<close>: the network's bytes and its prefix length.\<close>

definition mask_byte :: "nat \<Rightarrow> byte" where
  "mask_byte k = NOT (mask (8 - k))"

fun masked_equal :: "nat \<Rightarrow> byte list \<Rightarrow> byte list \<Rightarrow> bool" where
  "masked_equal ones (x # xs) (y # ys) \<longleftrightarrow>
     x AND mask_byte ones = y AND mask_byte ones \<and> masked_equal (ones - 8) xs ys"
| "masked_equal ones [] [] \<longleftrightarrow> True"
| "masked_equal ones _ _ \<longleftrightarrow> False"

definition net_contains :: "byte list \<times> nat \<Rightarrow> ip \<Rightarrow> bool" where
  "net_contains net a \<longleftrightarrow>
     masked_equal (snd net) (fst net) (case ip_to4 a of Some b \<Rightarrow> b | None \<Rightarrow> a)"

definition blocked_networks :: "(byte list \<times> nat) list" where
  "blocked_networks =
     [([0, 0, 0, 0], 8), ([100, 64, 0, 0], 10), ([192, 0, 0, 0], 24), ([198, 18, 0, 0], 15),
      ([198, 51, 100, 0], 24), ([203, 0, 113, 0], 24), ([240, 0, 0, 0], 4),
      (replicate 16 0, 128), (0xfc # replicate 15 0, 7)]"

definition is_blocked_webhook_ip :: "ip \<Rightarrow> bool" where
  "is_blocked_webhook_ip a \<longleftrightarrow>
     a = [] \<or> is_loopback a \<or> is_private a \<or> is_link_local_unicast a \<or> is_link_local_multicast a \<or>
     is_unspecified a \<or> is_multicast a \<or> list_ex (\<lambda>net. net_contains net a) blocked_networks"

section \<open>Address texts\<close>

definition parse_octet :: "string \<Rightarrow> byte option" where
  "parse_octet s =
     (if s = [] \<or> \<not> list_all is_digit s \<or> (1 < length s \<and> hd s = CHR ''0'') \<or> 255 < digits_val s
      then None else Some (of_nat (digits_val s)))"

definition parse_ipv4 :: "string \<Rightarrow> byte list option" where
  "parse_ipv4 s = (let fields = List.map parse_octet (split_on (CHR ''.'') s) in
     if length fields = 4 \<and> None \<notin> set fields then Some (List.map the fields) else None)"

text \<open>
  The groups of an IPv6 address from the current position: the rest of the text, the bytes so
  far and the place of the ellipsis. Each round adds two bytes, so eight rounds are enough.
\<close>

definition hex_group :: "string \<Rightarrow> byte list" where
  "hex_group h = (let v = foldl (\<lambda>a c. 16 * a + the (hex_value c)) 0 h
     in [of_nat (v div 256), of_nat (v mod 256)])"

fun ipv6_groups ::
  "nat \<Rightarrow> string \<Rightarrow> byte list \<Rightarrow> nat option \<Rightarrow> (string \<times> byte list \<times> nat option) option" where
  "ipv6_groups 0 s acc ell = Some (s, acc, ell)"
| "ipv6_groups (Suc n) s acc ell =
     (let h = takeWhile (\<lambda>c. hex_value c \<noteq> None) s; r = drop (length h) s in
      if h = [] \<or> 4 < length h then None
      else if r \<noteq> [] \<and> hd r = CHR ''.'' then
        if (ell = None \<and> length acc \<noteq> 12) \<or> 16 < length acc + 4 then None
        else map_option (\<lambda>f. ([], acc @ f, ell)) (parse_ipv4 s)
      else let acc = acc @ hex_group h in
        if r = [] then Some ([], acc, ell)
        else if hd r \<noteq> CHR '':'' \<or> tl r = [] then None
        else if hd (tl r) = CHR '':'' then
          if ell \<noteq> None then None
          else if tl (tl r) = [] then Some ([], acc, Some (length acc))
          else ipv6_groups n (tl (tl r)) acc (Some (length acc))
        else ipv6_groups n (tl r) acc ell)"

definition parse_ipv6 :: "string \<Rightarrow> byte list option" where
  "parse_ipv6 s =
     (let lead = has_prefix ''::'' s; s0 = (if lead then drop 2 s else s) in
      if lead \<and> s0 = [] then Some (replicate 16 0)
      else case ipv6_groups 8 s0 [] (if lead then Some 0 else None) of
        None \<Rightarrow> None
      | Some (rest, acc, ell) \<Rightarrow>
          if rest \<noteq> [] then None
          else if length acc < 16 then
            map_option (\<lambda>e. take e acc @ replicate (16 - length acc) 0 @ drop e acc) ell
          else if ell \<noteq> None then None else Some acc)"

text \<open>\<open>net.ParseIP\<close>: always sixteen bytes; an address with a zone is refused.\<close>

definition parse_ip :: "string \<Rightarrow> ip option" where
  "parse_ip s =
     (case dropWhile (\<lambda>c. c \<noteq> CHR ''.'' \<and> c \<noteq> CHR '':'' \<and> c \<noteq> CHR ''%'') s of
        [] \<Rightarrow> None
      | c # _ \<Rightarrow>
          if c = CHR ''.'' then map_option (\<lambda>b. v4_prefix @ b) (parse_ipv4 s)
          else if c = CHR ''%'' \<or> CHR ''%'' \<in> set s then None else parse_ipv6 s)"

section \<open>The blocked ranges\<close>

lemma masked_byte_eq:
  fixes x y :: byte
  shows "x AND NOT (mask j) = y AND NOT (mask j) \<longleftrightarrow> unat x div 2 ^ j = unat y div 2 ^ j"
proof -
  have "z AND NOT (mask j) = push_bit j (drop_bit j z)" for z :: byte
    by (rule bit_eqI) (auto simp: bit_simps)
  moreover have "drop_bit j (z AND NOT (mask j)) = drop_bit j z" for z :: byte
    by (rule bit_eqI) (auto simp: bit_simps dest: bit_imp_le_length)
  ultimately have "x AND NOT (mask j) = y AND NOT (mask j) \<longleftrightarrow> drop_bit j x = drop_bit j y"
    by metis
  also have "\<dots> \<longleftrightarrow> unat (drop_bit j x) = unat (drop_bit j y)" by (simp add: unsigned_word_eqI inj_eq)
  also have "\<dots> \<longleftrightarrow> unat x div 2 ^ j = unat y div 2 ^ j"
  proof -
    have "take_bit LENGTH(8) (unat z) = unat z" for z :: byte
      using unsigned_less [of z, where 'a = nat] by (simp add: take_bit_nat_eq_self_iff)
    then show ?thesis by (simp only: unsigned_drop_bit_eq) (simp only: drop_bit_eq_div)
  qed
  finally show ?thesis .
qed

lemma masked_byte_const:
  fixes x :: byte
  shows "x AND 0xf0 = 16 \<longleftrightarrow> 16 \<le> unat x \<and> unat x < 32"
    and "x AND 0xf0 = 0xe0 \<longleftrightarrow> 224 \<le> unat x \<and> unat x < 240"
    and "x AND 0xc0 = 0x80 \<longleftrightarrow> 128 \<le> unat x \<and> unat x < 192"
    and "x AND 0xfe = 0xfc \<longleftrightarrow> 252 \<le> unat x \<and> unat x < 254"
    and "x AND 0xf0 = 0xf0 \<longleftrightarrow> 240 \<le> unat x \<and> unat x < 256"
    and "x AND 0xc0 = 0x40 \<longleftrightarrow> 64 \<le> unat x \<and> unat x < 128"
    and "x AND 0xfe = 18 \<longleftrightarrow> 18 \<le> unat x \<and> unat x < 20"
proof -
  have f: "unat x div k = c \<longleftrightarrow> c * k \<le> unat x \<and> unat x < (c + 1) * k" if "0 < k" for k c
  proof -
    have "unat x div k = c \<longleftrightarrow> c \<le> unat x div k \<and> unat x div k < c + 1" by auto
    then show ?thesis using that by (simp only: less_eq_div_iff_mult_less_eq div_less_iff_less_mult)
  qed
  have m: "(0xf0 :: byte) = NOT (mask 4)" "(0xc0 :: byte) = NOT (mask 6)" "(0xfe :: byte) = NOT (mask 1)"
    by (simp_all add: mask_eq_exp_minus_1 not_eq_complement)
  show "x AND 0xf0 = 16 \<longleftrightarrow> 16 \<le> unat x \<and> unat x < 32"
    using masked_byte_eq [where x = x and j = 4 and y = 16] f [where k = 16 and c = 1] by (simp add: m(1) [symmetric])
  show "x AND 0xf0 = 0xe0 \<longleftrightarrow> 224 \<le> unat x \<and> unat x < 240"
    using masked_byte_eq [where x = x and j = 4 and y = "0xe0"] f [where k = 16 and c = 14] by (simp add: m(1) [symmetric])
  show "x AND 0xc0 = 0x80 \<longleftrightarrow> 128 \<le> unat x \<and> unat x < 192"
    using masked_byte_eq [where x = x and j = 6 and y = "0x80"] f [where k = 64 and c = 2] by (simp add: m(2) [symmetric])
  show "x AND 0xfe = 0xfc \<longleftrightarrow> 252 \<le> unat x \<and> unat x < 254"
    using masked_byte_eq [where x = x and j = 1 and y = "0xfc"] f [where k = 2 and c = 126] by (simp add: m(3))
  show "x AND 0xf0 = 0xf0 \<longleftrightarrow> 240 \<le> unat x \<and> unat x < 256"
    using masked_byte_eq [where x = x and j = 4 and y = "0xf0"] f [where k = 16 and c = 15] by (simp add: m(1) [symmetric])
  show "x AND 0xc0 = 0x40 \<longleftrightarrow> 64 \<le> unat x \<and> unat x < 128"
    using masked_byte_eq [where x = x and j = 6 and y = "0x40"] f [where k = 64 and c = 1] by (simp add: m(2) [symmetric])
  show "x AND 0xfe = 18 \<longleftrightarrow> 18 \<le> unat x \<and> unat x < 20"
    using masked_byte_eq [where x = x and j = 1 and y = 18] f [where k = 2 and c = 9] by (simp add: m(3))
qed

lemma mask_byte_cases:
  "mask_byte 0 = 0" "8 \<le> k \<Longrightarrow> mask_byte k = 0xff"
  "mask_byte 2 = 0xc0" "mask_byte 4 = 0xf0" "mask_byte 7 = 0xfe"
  by (simp_all add: mask_byte_def mask_eq_exp_minus_1 not_eq_complement)

text \<open>
  What the checks amount to, octet by octet: the addresses of the two families that are refused.
  An IPv4 address and its form mapped into IPv6 are treated alike.
\<close>

definition reserved_v4 :: "nat \<Rightarrow> nat \<Rightarrow> nat \<Rightarrow> bool" where
  "reserved_v4 a b c \<longleftrightarrow>
     a = 0 \<or> a = 10 \<or> a = 127 \<or> (a = 100 \<and> 64 \<le> b \<and> b < 128) \<or> (a = 169 \<and> b = 254) \<or>
     (a = 172 \<and> 16 \<le> b \<and> b < 32) \<or> (a = 192 \<and> b = 168) \<or> (a = 192 \<and> b = 0 \<and> c = 0) \<or>
     (a = 198 \<and> (b = 18 \<or> b = 19)) \<or> (a = 198 \<and> b = 51 \<and> c = 100) \<or>
     (a = 203 \<and> b = 0 \<and> c = 113) \<or> 224 \<le> a"

definition unlisted_v4 :: "byte list \<Rightarrow> bool" where
  "unlisted_v4 b \<longleftrightarrow> \<not> reserved_v4 (unat (b ! 0)) (unat (b ! 1)) (unat (b ! 2))"

definition unlisted_v6 :: "byte list \<Rightarrow> bool" where
  "unlisted_v6 a \<longleftrightarrow>
     a \<noteq> ipv6_unspecified \<and> a \<noteq> ipv6_loopback \<and>
     \<not> (252 \<le> unat (a ! 0) \<and> unat (a ! 0) < 254) \<and>
     \<not> (unat (a ! 0) = 254 \<and> 128 \<le> unat (a ! 1) \<and> unat (a ! 1) < 192) \<and> unat (a ! 0) \<noteq> 255"

definition unlisted_ip :: "ip \<Rightarrow> bool" where
  "unlisted_ip a \<longleftrightarrow> (case ip_to4 a of Some b \<Rightarrow> unlisted_v4 b | None \<Rightarrow> unlisted_v6 a)"

lemma byte_and_ff [simp]: "x AND 0xff = (x :: byte)"
proof -
  have "(0xff :: byte) = - 1" by simp
  then show ?thesis by (simp only: bit.conj_one_right)
qed

lemma unat_byte_less: "unat (x :: byte) < 256"
  using unsigned_less [of x, where 'a = nat] by simp

lemma ip_to4_cases:
  assumes "ip_to4 a = Some b"
  obtains w x y z where "b = [w, x, y, z]" "a = b \<or> a = v4_prefix @ b"
proof -
  have b: "length b = 4" "a = b \<or> a = v4_prefix @ b"
    using assms by (auto simp: ip_to4_def split: if_splits) (metis append_take_drop_id)
  then obtain w x y z where "b = [w, x, y, z]" by (auto simp: numeral_eq_Suc length_Suc_conv)
  with b that show thesis by blast
qed

lemma unspecified_v4:
  assumes "ip_to4 a = Some [w, x, y, z]"
  shows "is_unspecified a \<longleftrightarrow> w = 0 \<and> x = 0 \<and> y = 0 \<and> z = 0"
proof -
  from assms have "a = [w, x, y, z] \<or> a = v4_prefix @ [w, x, y, z]" by (auto elim: ip_to4_cases)
  then show ?thesis
    by (auto simp: is_unspecified_def ip_equal_def ipv4_zero_def ipv6_unspecified_def v4_prefix_def numeral_eq_Suc)
qed

lemma masked_equal_length: "masked_equal n xs ys \<Longrightarrow> length xs = length ys"
  by (induction n xs ys rule: masked_equal.induct) simp_all

lemma blocked_v4:
  assumes a: "ip_to4 a = Some [w, x, y, z]"
  shows "is_blocked_webhook_ip a \<longleftrightarrow> reserved_v4 (unat w) (unat x) (unat y)"
proof -
  have ne: "a \<noteq> []" using a by (auto simp: ip_to4_def)
  have nets: "list_ex (\<lambda>net. net_contains net a) blocked_networks \<longleftrightarrow>
      w = 0 \<or> (w = 100 \<and> x AND 0xc0 = 0x40) \<or> (w = 192 \<and> x = 0 \<and> y = 0) \<or> (w = 198 \<and> x AND 0xfe = 18) \<or>
      (w = 198 \<and> x = 51 \<and> y = 100) \<or> (w = 203 \<and> x = 0 \<and> y = 113) \<or> w AND 0xf0 = 0xf0"
  proof -
    have "\<not> net_contains (replicate 16 0, 128) a" "\<not> net_contains (0xfc # replicate 15 0, 7) a"
      using a by (auto simp: net_contains_def dest!: masked_equal_length)
    moreover have "net_contains ([0, 0, 0, 0], 8) a \<longleftrightarrow> w = 0"
      "net_contains ([100, 64, 0, 0], 10) a \<longleftrightarrow> w = 100 \<and> x AND 0xc0 = 0x40"
      "net_contains ([192, 0, 0, 0], 24) a \<longleftrightarrow> w = 192 \<and> x = 0 \<and> y = 0"
      "net_contains ([198, 18, 0, 0], 15) a \<longleftrightarrow> w = 198 \<and> x AND 0xfe = 18"
      "net_contains ([198, 51, 100, 0], 24) a \<longleftrightarrow> w = 198 \<and> x = 51 \<and> y = 100"
      "net_contains ([203, 0, 113, 0], 24) a \<longleftrightarrow> w = 203 \<and> x = 0 \<and> y = 113"
      "net_contains ([240, 0, 0, 0], 4) a \<longleftrightarrow> w AND 0xf0 = 0xf0"
      using a by (auto simp: net_contains_def mask_byte_cases)
    ultimately show ?thesis by (simp add: blocked_networks_def del: replicate.simps)
  qed
  have cls: "is_loopback a \<longleftrightarrow> unat w = 127"
    "is_private a \<longleftrightarrow> unat w = 10 \<or> unat w = 172 \<and> 16 \<le> unat x \<and> unat x < 32 \<or> unat w = 192 \<and> unat x = 168"
    "is_link_local_unicast a \<longleftrightarrow> unat w = 169 \<and> unat x = 254"
    "is_link_local_multicast a \<longleftrightarrow> unat w = 224 \<and> unat x = 0 \<and> unat y = 0"
    "is_multicast a \<longleftrightarrow> 224 \<le> unat w \<and> unat w < 240"
    "is_unspecified a \<longleftrightarrow> unat w = 0 \<and> unat x = 0 \<and> unat y = 0 \<and> unat z = 0"
    unfolding is_loopback_def is_private_def is_link_local_unicast_def is_link_local_multicast_def
      is_multicast_def unspecified_v4 [OF a] a masked_byte_const
    by (simp_all add: word_unat_eq_iff)
  have net: "list_ex (\<lambda>net. net_contains net a) blocked_networks \<longleftrightarrow>
      unat w = 0 \<or> (unat w = 100 \<and> 64 \<le> unat x \<and> unat x < 128) \<or> (unat w = 192 \<and> unat x = 0 \<and> unat y = 0) \<or>
      (unat w = 198 \<and> 18 \<le> unat x \<and> unat x < 20) \<or> (unat w = 198 \<and> unat x = 51 \<and> unat y = 100) \<or>
      (unat w = 203 \<and> unat x = 0 \<and> unat y = 113) \<or> 240 \<le> unat w \<and> unat w < 256"
    unfolding nets masked_byte_const by (simp add: word_unat_eq_iff)
  show ?thesis
  proof (cases "224 \<le> unat w")
    case True
    then show ?thesis
      unfolding is_blocked_webhook_ip_def net cls reserved_v4_def
      using unat_byte_less [of w] by (cases "unat w < 240") simp_all
  next
    case False
    then have "\<not> 224 \<le> unat w" "\<not> 240 \<le> unat w" "unat w \<noteq> 224" by simp_all
    moreover have "18 \<le> unat x \<and> unat x < 20 \<longleftrightarrow> unat x = 18 \<or> unat x = 19" by auto
    ultimately show ?thesis
      unfolding is_blocked_webhook_ip_def net cls reserved_v4_def using ne by argo
  qed
qed

lemma masked_equal_full: "8 * length xs \<le> n \<Longrightarrow> masked_equal n xs ys \<longleftrightarrow> xs = ys"
  by (induction n xs ys rule: masked_equal.induct) (auto simp: mask_byte_cases)

lemma masked_equal_none: "masked_equal 0 xs ys \<longleftrightarrow> length xs = length ys"
proof (induction "0 :: nat" xs ys rule: masked_equal.induct)
  case (1 x xs y ys)
  then show ?case by (simp add: mask_byte_cases)
qed simp_all

lemma blocked_v6:
  assumes n: "ip_to4 a = None" and l: "length a = 16"
  shows "is_blocked_webhook_ip a \<longleftrightarrow> \<not> unlisted_v6 a"
proof -
  obtain x xs where a: "a = x # xs" "length xs = 15" using l by (cases a) auto
  have e: "ip_equal a b \<longleftrightarrow> a = b" if "length b = 16" for b using l that by (simp add: ip_equal_def)
  have z: "a \<noteq> ipv4_zero" using n by (auto simp: ip_to4_def ipv4_zero_def v4_prefix_def numeral_eq_Suc)
  have "masked_equal 7 (0xfc # replicate 15 0) a \<longleftrightarrow> x AND 0xfe = 0xfc"
    using a by (auto simp: mask_byte_cases masked_equal_none)
  moreover have "masked_equal 128 (replicate 16 0) a \<longleftrightarrow> a = ipv6_unspecified"
    by (subst masked_equal_full) (auto simp: ipv6_unspecified_def)
  moreover have "\<not> masked_equal m [p, q, r, s] a" for m p q r s
    using l by (auto dest!: masked_equal_length)
  ultimately have nets: "list_ex (\<lambda>net. net_contains net a) blocked_networks \<longleftrightarrow>
      a = ipv6_unspecified \<or> x AND 0xfe = 0xfc"
    by (simp add: blocked_networks_def net_contains_def n del: replicate.simps)
  have len: "length ipv4_zero = 16" "length ipv6_loopback = 16" "length ipv6_unspecified = 16"
    by (simp_all add: ipv4_zero_def v4_prefix_def ipv6_loopback_def ipv6_unspecified_def)
  show ?thesis
    unfolding is_blocked_webhook_ip_def nets is_loopback_def is_private_def is_link_local_unicast_def
      is_link_local_multicast_def is_multicast_def is_unspecified_def n unlisted_v6_def masked_byte_const
      e [OF len(1)] e [OF len(2)] e [OF len(3)]
    using z l a by (auto simp: word_unat_eq_iff masked_byte_const)
qed

lemma blocked_ip_unlisted: "length a = 4 \<or> length a = 16 \<Longrightarrow> is_blocked_webhook_ip a \<longleftrightarrow> \<not> unlisted_ip a"
proof (cases "ip_to4 a")
  case None
  moreover assume "length a = 4 \<or> length a = 16"
  ultimately have "length a = 16" by (auto simp: ip_to4_def)
  with None blocked_v6 show ?thesis by (simp add: unlisted_ip_def)
next
  case (Some b)
  then obtain w x y z where "b = [w, x, y, z]" by (rule ip_to4_cases)
  with Some blocked_v4 show ?thesis by (simp add: unlisted_ip_def unlisted_v4_def)
qed

end
