(* ===== verification/Webhook_Policy.thy ===== *)
theory Webhook_Policy
  imports Web_Address
begin

text \<open>
  The URL policy of webhook endpoints: \<open>isDeliverableWebhookURL\<close> at registration
  (\<open>internal/usecase/webhook_usecase.go\<close>) and \<open>ValidateWebhookDestination\<close> at registration and
  at each delivery (\<open>internal/usecase/webhook_delivery_usecase.go\<close>), with what they read of
  \<open>net/url.Parse\<close>: whether it fails, the scheme, the host, whether there is a user, and
  \<open>Hostname\<close>. The resolver is a parameter.
\<close>

section \<open>Escapes\<close>

datatype enc_mode = EncPath | EncUser | EncHost | EncZone | EncFragment

definition is_alnum :: "char \<Rightarrow> bool" where
  "is_alnum c \<longleftrightarrow> (CHR ''a'' \<le> c \<and> c \<le> CHR ''z'') \<or> (CHR ''A'' \<le> c \<and> c \<le> CHR ''Z'') \<or> is_digit c"

text \<open>\<open>shouldEscape\<close> in the host modes, the only ones in which \<open>unescape\<close> consults it.\<close>

definition should_escape_host :: "char \<Rightarrow> bool" where
  "should_escape_host c \<longleftrightarrow> \<not> (is_alnum c \<or> List.member ''!$&()*+,;=:[]<>-_.~'' c \<or> c = CHR 0x27 \<or> c = CHR 0x22)"

definition hex_pair :: "char \<Rightarrow> char \<Rightarrow> nat option" where
  "hex_pair h l = (case (hex_value h, hex_value l) of (Some a, Some b) \<Rightarrow> Some (16 * a + b) | _ \<Rightarrow> None)"

fun unescape_url :: "enc_mode \<Rightarrow> string \<Rightarrow> string option" where
  "unescape_url m [] = Some []"
| "unescape_url m (c # s) =
     (if c = CHR ''%'' then
        (case s of h # l # r \<Rightarrow>
           (case hex_pair h l of None \<Rightarrow> None
            | Some v \<Rightarrow>
                if m = EncHost \<and> v < 128 \<and> v \<noteq> 37 then None
                else if m = EncZone \<and> v \<noteq> 37 \<and> v \<noteq> 32 \<and> should_escape_host (char_of v) then None
                else map_option (Cons (char_of v)) (unescape_url m r))
         | _ \<Rightarrow> None)
      else if (m = EncHost \<or> m = EncZone) \<and> c < CHR 0x80 \<and> should_escape_host c then None
      else map_option (Cons c) (unescape_url m s))"

section \<open>Parsing\<close>

record url =
  url_scheme :: string
  url_host :: string
  url_user :: bool

definition valid_optional_port :: "string \<Rightarrow> bool" where
  "valid_optional_port p \<longleftrightarrow> p = [] \<or> hd p = CHR '':'' \<and> list_all is_digit (tl p)"

definition find_zone :: "string \<Rightarrow> nat option" where
  "find_zone s = List.find (\<lambda>i. has_prefix ''%25'' (drop i s)) [0..<length s]"

definition parse_host :: "string \<Rightarrow> string option" where
  "parse_host host =
     (if has_prefix ''['' host then
        (case cut_last (CHR '']'') host of (inside, port, ok) \<Rightarrow>
           if \<not> ok \<or> \<not> valid_optional_port port then None
           else case find_zone inside of
               None \<Rightarrow> unescape_url EncHost host
             | Some z \<Rightarrow>
                 (case (unescape_url EncHost (take z inside), unescape_url EncZone (drop z inside),
                        unescape_url EncHost (CHR '']'' # port)) of
                    (Some a, Some b, Some c) \<Rightarrow> Some (a @ b @ c) | _ \<Rightarrow> None))
      else case cut_last (CHR '':'') host of (_, port, ok) \<Rightarrow>
        if ok \<and> \<not> valid_optional_port (CHR '':'' # port) then None else unescape_url EncHost host)"

definition valid_userinfo :: "string \<Rightarrow> bool" where
  "valid_userinfo s \<longleftrightarrow>
     list_all (\<lambda>c. is_alnum c \<or> List.member ''-._:~!$&()*+,;=%@'' c \<or> c = CHR 0x27) s"

text \<open>The host, and whether there is a user.\<close>

definition parse_authority :: "string \<Rightarrow> (string \<times> bool) option" where
  "parse_authority authority =
     (case cut_last (CHR ''@'') authority of (front, host_part, has_user) \<Rightarrow>
        if \<not> has_user then map_option (\<lambda>h. (h, False)) (parse_host authority)
        else case parse_host host_part of None \<Rightarrow> None
        | Some h \<Rightarrow>
            if \<not> valid_userinfo front then None
            else case str_cut (CHR '':'') front of (name, pass, _) \<Rightarrow>
              if unescape_url EncUser name = None \<or> unescape_url EncUser pass = None then None
              else Some (h, True))"

text \<open>\<open>getScheme\<close>: None is the missing-scheme error, an empty scheme means that there is none.\<close>

fun scheme_scan :: "string \<Rightarrow> string \<Rightarrow> string \<Rightarrow> (string \<times> string) option" where
  "scheme_scan raw seen [] = Some ([], raw)"
| "scheme_scan raw seen (c # s) =
     (if (CHR ''a'' \<le> c \<and> c \<le> CHR ''z'') \<or> (CHR ''A'' \<le> c \<and> c \<le> CHR ''Z'') then scheme_scan raw (seen @ [c]) s
      else if is_digit c \<or> c = CHR ''+'' \<or> c = CHR ''-'' \<or> c = CHR ''.'' then
        (if seen = [] then Some ([], raw) else scheme_scan raw (seen @ [c]) s)
      else if c = CHR '':'' then (if seen = [] then None else Some (seen, s))
      else Some ([], raw))"

text \<open>The query is cut at the first \<open>?\<close>; a single trailing \<open>?\<close> is the same cut.\<close>

definition url_parse :: "string \<Rightarrow> url option" where
  "url_parse raw =
     (case str_cut (CHR ''#'') raw of (u, frag, _) \<Rightarrow>
      if list_ex (\<lambda>c. c < CHR '' '' \<or> c = CHR 0x7F) u then None
      else if u = ''*'' then
        (if unescape_url EncFragment frag = None then None
         else Some \<lparr>url_scheme = [], url_host = [], url_user = False\<rparr>)
      else case scheme_scan u [] u of None \<Rightarrow> None
      | Some (scheme, rest0) \<Rightarrow>
          (case str_cut (CHR ''?'') rest0 of (rest, _, _) \<Rightarrow>
           let fragment_ok = (unescape_url EncFragment frag \<noteq> None);
               scheme = List.map ascii_lower scheme in
           if \<not> has_prefix ''/'' rest \<and> scheme \<noteq> [] then
             (if fragment_ok then Some \<lparr>url_scheme = scheme, url_host = [], url_user = False\<rparr> else None)
           else if \<not> has_prefix ''/'' rest \<and> CHR '':'' \<in> set (fst (str_cut (CHR ''/'') rest)) then None
           else if (scheme \<noteq> [] \<or> \<not> has_prefix ''///'' rest) \<and> has_prefix ''//'' rest then
             (case str_cut (CHR ''/'') (drop 2 rest) of (authority, path, slash) \<Rightarrow>
                case parse_authority authority of None \<Rightarrow> None
                | Some (host, user) \<Rightarrow>
                    if unescape_url EncPath (if slash then CHR ''/'' # path else path) = None \<or> \<not> fragment_ok
                    then None
                    else Some \<lparr>url_scheme = scheme, url_host = host, url_user = user\<rparr>)
           else if unescape_url EncPath rest = None \<or> \<not> fragment_ok then None
           else Some \<lparr>url_scheme = scheme, url_host = [], url_user = False\<rparr>))"

definition url_hostname :: "url \<Rightarrow> string" where
  "url_hostname u =
     (let host = (case cut_last (CHR '':'') (url_host u) of (front, port, ok) \<Rightarrow>
            if ok \<and> valid_optional_port (CHR '':'' # port) then front else url_host u)
      in if has_prefix ''['' host \<and> has_suffix '']'' host then butlast (tl host) else host)"

section \<open>The policy\<close>

text \<open>The resolver answers an error or a list of addresses.\<close>

type_synonym resolver = "string \<Rightarrow> err + ip list"

definition validate_webhook_destination :: "resolver \<Rightarrow> string \<Rightarrow> err + unit" where
  "validate_webhook_destination resolve raw =
     (case url_parse raw of None \<Rightarrow> Inl ErrInvalidWebhookURL
      | Some u \<Rightarrow>
          if url_scheme u \<noteq> ''https'' \<or> url_host u = [] \<or> url_user u \<or> url_hostname u = []
          then Inl ErrInvalidWebhookURL
          else let host = trim_suffix ''.'' (to_lower (url_hostname u)) in
            if host = ''localhost'' \<or> has_suffix ''.localhost'' host \<or>
               host = ''metadata.google.internal'' \<or> has_suffix ''.internal'' host
            then Inl ErrInvalidWebhookURL
            else case (case parse_ip host of Some literal \<Rightarrow> Inr [literal] | None \<Rightarrow> resolve host) of
                Inl e \<Rightarrow> Inl e
              | Inr ips \<Rightarrow>
                  if ips = [] \<or> list_ex is_blocked_webhook_ip ips then Inl ErrInvalidWebhookURL
                  else Inr ())"

text \<open>\<open>int\<close> is 64 bits wide and wraps around.\<close>

fun atoi_digits :: "int \<Rightarrow> string \<Rightarrow> int" where
  "atoi_digits result [] = result"
| "atoi_digits result (c # s) =
     (if c < CHR ''0'' \<or> CHR ''9'' < c then -1
      else atoi_digits (wrap64 (result * 10 + int (digit_val c))) s)"

definition atoi_safe :: "string \<Rightarrow> int" where
  "atoi_safe value = atoi_digits 0 value"

definition is_deliverable_webhook_url :: "string \<Rightarrow> bool" where
  "is_deliverable_webhook_url raw =
     (case url_parse raw of None \<Rightarrow> False
      | Some u \<Rightarrow>
          if url_scheme u \<noteq> ''https'' \<or> url_host u = [] \<or> url_user u \<or>
             list_ex (\<lambda>c. c = CHR '' '' \<or> c = CHR 0x09) (url_host u) then False
          else let host = url_hostname u in
            if host = ''localhost'' \<or> host = ''127.0.0.1'' \<or> host = ''::1'' \<or> host = ''0.0.0.0'' \<or>
               has_prefix ''10.'' host \<or> has_prefix ''192.168.'' host \<or> host = ''metadata.google.internal''
            then False
            else if has_prefix ''172.'' host then
              (let parts = split_on (CHR ''.'') host in
               \<not> (2 \<le> length parts \<and> 16 \<le> atoi_safe (parts ! 1) \<and> atoi_safe (parts ! 1) \<le> 31))
            else True)"

text \<open>
  \<open>safeWebhookHTTPClient.Do\<close> up to the dial: the URL is validated with one resolution, then the
  host is resolved again and the connection goes to the first address of that second answer. The
  two resolvers are the answers of the two lookups.
\<close>

definition webhook_dial :: "resolver \<Rightarrow> resolver \<Rightarrow> string \<Rightarrow> err + ip" where
  "webhook_dial resolve1 resolve2 raw =
     (case validate_webhook_destination resolve1 raw of Inl e \<Rightarrow> Inl e
      | Inr _ \<Rightarrow>
          (case url_parse raw of None \<Rightarrow> Inl ErrInvalidWebhookURL
           | Some u \<Rightarrow>
               (case resolve2 (url_hostname u) of Inl e \<Rightarrow> Inl ErrInvalidWebhookURL
                | Inr ips0 \<Rightarrow>
                    let ips = (case parse_ip (url_hostname u) of Some literal \<Rightarrow> [literal] | None \<Rightarrow> ips0) in
                    if ips = [] then Inl ErrInvalidWebhookURL else Inr (hd ips))))"

section \<open>What an accepted destination is\<close>

lemma ipv6_groups_length:
  "ipv6_groups n s acc ell = Some (rest, acc', ell') \<Longrightarrow> length acc + 2 * n = 16 \<Longrightarrow> length acc' \<le> 16"
proof (induction n s acc ell rule: ipv6_groups.induct)
  case (2 n s acc ell)
  have h: "length (hex_group x) = 2" for x by (simp add: hex_group_def Let_def)
  have q: "length f = 4" if "parse_ipv4 t = Some f" for t f
    using that by (auto simp: parse_ipv4_def Let_def split: if_splits)
  from 2 show ?case by (auto simp: Let_def h q split: if_splits)
qed simp

lemma parse_ip_length: "parse_ip s = Some a \<Longrightarrow> length a = 16"
proof -
  assume p: "parse_ip s = Some a"
  have q: "length f = 4" if "parse_ipv4 t = Some f" for t f
    using that by (auto simp: parse_ipv4_def Let_def split: if_splits)
  have "length b = 16" if "parse_ipv6 s = Some b" for b
    using that ipv6_groups_length
    by (fastforce simp: parse_ipv6_def Let_def split: if_splits option.splits prod.splits)
  with p q show ?thesis
    by (auto simp: parse_ip_def v4_prefix_def split: list.splits if_splits)
qed

definition ip_bytes :: "ip \<Rightarrow> bool" where
  "ip_bytes a \<longleftrightarrow> length a = 4 \<or> length a = 16"

definition local_host :: "string \<Rightarrow> bool" where
  "local_host host \<longleftrightarrow> host = ''localhost'' \<or> has_suffix ''.localhost'' host \<or> has_suffix ''.internal'' host"

text \<open>The addresses that stand behind a URL under a resolver.\<close>

definition destination_ips :: "resolver \<Rightarrow> string \<Rightarrow> err + ip list" where
  "destination_ips resolve host =
     (case parse_ip host of Some literal \<Rightarrow> Inr [literal] | None \<Rightarrow> resolve host)"

definition url_host_name :: "url \<Rightarrow> string" where
  "url_host_name u = trim_suffix ''.'' (to_lower (url_hostname u))"

lemma google_internal: "has_suffix ''.internal'' ''metadata.google.internal''"
  by (simp add: has_suffix_def has_prefix_def)

lemma validate_destination_iff:
  assumes "\<And>h ips. resolve h = Inr ips \<Longrightarrow> list_all ip_bytes ips"
  shows "validate_webhook_destination resolve raw = Inr () \<longleftrightarrow>
    (\<exists>u ips. url_parse raw = Some u \<and> url_scheme u = ''https'' \<and> url_host u \<noteq> [] \<and> \<not> url_user u \<and>
       url_hostname u \<noteq> [] \<and> \<not> local_host (url_host_name u) \<and>
       destination_ips resolve (url_host_name u) = Inr ips \<and> ips \<noteq> [] \<and> list_all unlisted_ip ips)"
proof -
  have b: "list_ex is_blocked_webhook_ip ips \<longleftrightarrow> \<not> list_all unlisted_ip ips"
    if "destination_ips resolve h = Inr ips" for h ips
  proof -
    from that have "list_all ip_bytes ips"
      using assms by (auto simp: destination_ips_def ip_bytes_def split: option.splits dest: parse_ip_length)
    then show ?thesis
      by (induction ips) (auto simp: ip_bytes_def blocked_ip_unlisted)
  qed
  have l: "host = ''localhost'' \<or> has_suffix ''.localhost'' host \<or> host = ''metadata.google.internal'' \<or>
      has_suffix ''.internal'' host \<longleftrightarrow> local_host host" for host
    using google_internal by (auto simp: local_host_def)
  show ?thesis
    unfolding validate_webhook_destination_def Let_def l url_host_name_def [symmetric]
      destination_ips_def [symmetric]
    by (auto split: option.splits sum.splits if_splits dest: b)
qed

text \<open>With one answer for both lookups the dialled address is outside the listed ranges.\<close>

lemma webhook_dial_public:
  assumes "webhook_dial resolve resolve raw = Inr a" and "\<And>h ips. resolve h = Inr ips \<Longrightarrow> list_all ip_bytes ips"
    and "\<And>u. url_parse raw = Some u \<Longrightarrow> url_host_name u = url_hostname u"
  shows "unlisted_ip a"
proof -
  from assms(1) obtain u ips where u: "validate_webhook_destination resolve raw = Inr ()" "url_parse raw = Some u"
      "resolve (url_hostname u) = Inr ips"
      "a = hd (case parse_ip (url_hostname u) of Some literal \<Rightarrow> [literal] | None \<Rightarrow> ips)"
    by (auto simp: webhook_dial_def Let_def split: sum.splits option.splits if_splits)
  from u(1,2) assms(3) validate_destination_iff [of resolve raw, OF assms(2)]
  obtain js where js: "destination_ips resolve (url_hostname u) = Inr js" "js \<noteq> []" "list_all unlisted_ip js"
    by auto
  then have "a = hd js" using u(3,4) by (auto simp: destination_ips_def split: option.splits)
  with js show ?thesis by (cases js) auto
qed

end
