(* ===== verification/Webhook_Repo.thy ===== *)
theory Webhook_Repo
  imports Settlement_Repo Webhook_Policy
begin

text \<open>
  The webhook repository: endpoints (\<open>internal/repository/webhook_repository.go\<close>), delivery
  attempts with their leases (\<open>webhook_delivery_repository.go\<close>), and the developer controls, test
  events and replays (\<open>webhook_control_repository.go\<close>). An endpoint's event types are the list
  that \<open>CreateEndpoint\<close> encodes; the JSON text of a page cursor is a parameter.
\<close>

definition webhook_topic :: string where "webhook_topic = ''webhook.deliver''"

section \<open>Endpoints\<close>

record endpoint_record =
  er_id :: string
  er_owner :: string
  er_url :: string
  er_types :: "string list"
  er_created :: time

record endpoint_view =
  nv_id :: string
  nv_url :: string
  nv_status :: string
  nv_types :: "string list"
  nv_created :: time
  nv_disabled :: "time option"

definition webhook_endpoint_view :: "webhook_endpoint \<Rightarrow> endpoint_view" where
  "webhook_endpoint_view r = \<lparr>nv_id = wp_id r, nv_url = wp_url r, nv_status = wp_status r,
     nv_types = wp_types r, nv_created = wp_created r, nv_disabled = wp_disabled r\<rparr>"

definition create_endpoint :: "endpoint_record \<Rightarrow> byte list \<Rightarrow> string repo" where
  "create_endpoint r secret_reference =
     act_bind (act_guard (\<not> (er_id r = [] \<or> er_owner r = [] \<or> er_created r = 0))
       (ErrText ''valid webhook endpoint record is required'')) (\<lambda>_.
     act_bind (tx_do (
       act_bind (first_row users us_id (\<lambda>u. us_id u = er_owner r \<and> us_status u = active_user_status \<and>
          us_developer u \<noteq> None)) (\<lambda>owner.
       act_bind (optional_row (first_row api_clients ac_id
          (\<lambda>c. ac_owner c = er_owner r \<and> ac_environment c = ''test''))) (\<lambda>found.
       act_bind (case found of
           None \<Rightarrow>
             act_bind new_id (\<lambda>client_id.
             let client = \<lparr>ac_id = client_id, ac_owner = er_owner r, ac_name = ''KailoPay Test Client'',
                  ac_environment = ''test'', ac_status = ''active'', ac_created = er_created r,
                  ac_updated = er_created r\<rparr> in
             act_bind (insert_api_client client) (\<lambda>_. act_ret client))
         | Some client \<Rightarrow> act_ret client) (\<lambda>client.
       act_bind (act_guard (ac_status client = ''active'') (ErrText ''developer api client is inactive'')) (\<lambda>_.
       insert_webhook_endpoint
         \<lparr>wp_id = er_id r, wp_client = ac_id client, wp_url = er_url r, wp_status = ''active'',
          wp_secret = b64_std_encode secret_reference, wp_types = er_types r, wp_created = er_created r,
          wp_updated = er_created r, wp_disabled = None\<rparr>)))))) (\<lambda>_.
     act_ret (er_id r)))"

text \<open>The owner of an endpoint is the owner of its API client.\<close>

definition endpoint_owned :: "db \<Rightarrow> string \<Rightarrow> webhook_endpoint \<Rightarrow> bool" where
  "endpoint_owned d owner e \<longleftrightarrow> list_ex (\<lambda>c. ac_id c = wp_client e \<and> ac_owner c = owner) (api_clients d)"

definition list_endpoints :: "string \<Rightarrow> endpoint_view list repo" where
  "list_endpoints owner =
     act_bind (select (\<lambda>d. sort_key (\<lambda>e. - wp_created e)
        (filter (endpoint_owned d owner) (webhook_endpoints d)))) (\<lambda>rows.
     act_ret (List.map webhook_endpoint_view rows))"

definition disable_endpoint :: "string \<Rightarrow> string \<Rightarrow> unit repo" where
  "disable_endpoint owner endpoint_id =
     act_bind now_utc (\<lambda>now.
     act_bind (sql (\<lambda>d.
        let P = (\<lambda>e. wp_id e = endpoint_id \<and> wp_disabled e = None \<and> endpoint_owned d owner e) in
        (Inr (count_rows P (webhook_endpoints d)),
         d\<lparr>webhook_endpoints := update_rows P
            (\<lambda>e. e\<lparr>wp_status := ''disabled'', wp_disabled := Some now, wp_updated := now\<rparr>)
            (webhook_endpoints d)\<rparr>))) (\<lambda>n.
     act_guard (n \<noteq> 0) ErrWebhookEndpointNotFound))"

section \<open>Deliveries\<close>

record webhook_event_record =
  wr_id :: string
  wr_type :: string
  wr_version :: string
  wr_payload :: event_envelope

record delivery_endpoint =
  de_id :: string
  de_url :: string
  de_secret :: "byte list"

record delivery_attempt =
  da_id :: string
  da_event :: string
  da_endpoint :: string
  da_number :: int

record delivery_result =
  dr_status :: attempt_status
  dr_http :: "int option"
  dr_duration :: int
  dr_body_hash :: "string option"
  dr_error :: "string option"
  dr_next :: "time option"

definition load_event :: "string \<Rightarrow> webhook_event_record repo" where
  "load_event event_id =
     act_bind (first_row webhook_events we_id (\<lambda>e. we_id e = event_id)) (\<lambda>row.
     act_ret \<lparr>wr_id = we_id row, wr_type = we_type row, wr_version = we_api_version row,
       wr_payload = we_payload row\<rparr>)"

text \<open>\<open>COALESCE(webhook_event.client_id, orders.client_id)\<close> over the left join.\<close>

definition event_client :: "db \<Rightarrow> string \<Rightarrow> string option" where
  "event_client d event_id =
     (case List.find (\<lambda>e. we_id e = event_id) (webhook_events d) of
        None \<Rightarrow> None
      | Some e \<Rightarrow>
          (case we_client e of Some c \<Rightarrow> Some c
           | None \<Rightarrow>
               (case we_order e of None \<Rightarrow> None
                | Some i \<Rightarrow>
                    (case List.find (\<lambda>r. or_id r = i) (orders d) of None \<Rightarrow> None
                     | Some r \<Rightarrow> or_client_id r))))"

definition contains_string :: "string list \<Rightarrow> string \<Rightarrow> bool" where
  "contains_string values want = list_ex (\<lambda>v. v = want) values"

definition delivery_rows :: "db \<Rightarrow> string \<Rightarrow> webhook_endpoint list" where
  "delivery_rows d client = sort_key (\<lambda>e. (wp_created e, wp_id e))
     (filter (\<lambda>e. wp_client e = client \<and> wp_status e = ''active'' \<and> wp_disabled e = None) (webhook_endpoints d))"

definition delivery_endpoint_of ::
  "string \<Rightarrow> webhook_endpoint \<Rightarrow> delivery_endpoint list \<Rightarrow> delivery_endpoint list repo" where
  "delivery_endpoint_of event_type row found =
     (if \<not> contains_string (wp_types row) event_type then act_ret found
      else case b64_std_decode (wp_secret row) of
          None \<Rightarrow> act_fail (ErrText ''webhook secret reference is invalid'')
        | Some secret \<Rightarrow>
            if secret = [] then act_fail (ErrText ''webhook secret reference is invalid'')
            else act_ret (found @ [\<lparr>de_id = wp_id row, de_url = wp_url row, de_secret = secret\<rparr>]))"

definition list_delivery_endpoints :: "string \<Rightarrow> string \<Rightarrow> delivery_endpoint list repo" where
  "list_delivery_endpoints event_id event_type =
     act_bind (select (\<lambda>d. event_client d event_id)) (\<lambda>client.
     if client = None \<or> client = Some [] then act_ret []
     else act_bind (select (\<lambda>d. delivery_rows d (the client))) (\<lambda>rows.
       act_fold (delivery_endpoint_of event_type) rows []))"

definition update_attempt :: "string \<Rightarrow> (webhook_attempt \<Rightarrow> webhook_attempt) \<Rightarrow> unit repo" where
  "update_attempt i f = act_bind (update_webhook_attempts (\<lambda>a. wa_id a = i) f) (\<lambda>_. act_ret ())"

text \<open>
  The switch of \<open>StartAttempt\<close> on the latest attempt: None ends the transaction without a new
  attempt, Some tells whether the new one is a manual replay.
\<close>

definition retire_latest :: "webhook_attempt \<Rightarrow> time \<Rightarrow> int \<Rightarrow> bool option repo" where
  "retire_latest latest now max_attempts =
     (case wa_status latest of
        WADelivered \<Rightarrow> act_ret None
      | WAFailed \<Rightarrow> act_ret None
      | WAExhausted \<Rightarrow> act_ret None
      | WAInFlight \<Rightarrow>
          if (case wa_lease_until latest of None \<Rightarrow> False | Some u \<Rightarrow> now < u) then act_ret None
          else if max_attempts \<le> wa_number latest then
            act_bind (update_attempt (wa_id latest)
              (\<lambda>a. a\<lparr>wa_status := WAExhausted, wa_completed := Some now,
                    wa_error := Some ''webhook delivery lease expired'', wa_lease_owner := None,
                    wa_lease_until := None\<rparr>)) (\<lambda>_. act_ret None)
          else
            act_bind (update_attempt (wa_id latest)
              (\<lambda>a. a\<lparr>wa_status := WASuperseded, wa_completed := Some now,
                    wa_error := Some ''webhook delivery lease expired'', wa_lease_owner := None,
                    wa_lease_until := None\<rparr>)) (\<lambda>_. act_ret (Some False))
      | WARetryScheduled \<Rightarrow>
          if (case wa_next latest of None \<Rightarrow> False | Some u \<Rightarrow> now < u) then act_ret None
          else act_bind (update_attempt (wa_id latest) (\<lambda>a. a\<lparr>wa_status := WASuperseded\<rparr>)) (\<lambda>_.
            act_ret (Some False))
      | WAReplayPending \<Rightarrow>
          act_bind (update_attempt (wa_id latest)
            (\<lambda>a. a\<lparr>wa_status := WASuperseded, wa_completed := Some now, wa_lease_owner := None,
                  wa_lease_until := None\<rparr>)) (\<lambda>_. act_ret (Some True))
      | WASuperseded \<Rightarrow> act_ret (Some False))"

definition new_attempt ::
  "string \<Rightarrow> string \<Rightarrow> string \<Rightarrow> time \<Rightarrow> duration \<Rightarrow> int \<Rightarrow> delivery_attempt option repo" where
  "new_attempt event_id endpoint_id worker now lease number =
     act_bind new_id (\<lambda>i.
     act_bind (insert_webhook_attempt
       \<lparr>wa_id = i, wa_event = event_id, wa_endpoint = endpoint_id, wa_number = number,
        wa_status = WAInFlight, wa_scheduled = now, wa_started = Some now, wa_completed = None,
        wa_http = None, wa_duration = None, wa_body_hash = None, wa_error = None, wa_next = None,
        wa_lease_owner = Some worker, wa_lease_until = Some (now + lease)\<rparr>) (\<lambda>_.
     act_ret (Some \<lparr>da_id = i, da_event = event_id, da_endpoint = endpoint_id, da_number = number\<rparr>)))"

definition start_attempt ::
  "string \<Rightarrow> string \<Rightarrow> string \<Rightarrow> time \<Rightarrow> duration \<Rightarrow> int \<Rightarrow> delivery_attempt option repo" where
  "start_attempt event_id endpoint_id worker now lease max_attempts =
     tx_do (
       act_bind (optional_row (first_row webhook_attempts (\<lambda>a. (- wa_number a, wa_id a))
          (\<lambda>a. wa_event a = event_id \<and> wa_endpoint a = endpoint_id))) (\<lambda>latest.
       let number = (case latest of None \<Rightarrow> 0 | Some a \<Rightarrow> wa_number a) in
       act_bind (case latest of
           None \<Rightarrow> act_ret (Some False)
         | Some a \<Rightarrow> if 0 < number then retire_latest a now max_attempts else act_ret (Some False)) (\<lambda>go.
       case go of
         None \<Rightarrow> act_ret None
       | Some manual_replay \<Rightarrow>
           if max_attempts < number + 1 \<and> \<not> manual_replay then act_ret None
           else new_attempt event_id endpoint_id worker now lease (number + 1))))"

definition complete_attempt :: "string \<Rightarrow> delivery_result \<Rightarrow> unit repo" where
  "complete_attempt attempt_id result =
     act_bind now_utc (\<lambda>now.
     act_bind (update_webhook_attempts (\<lambda>a. wa_id a = attempt_id \<and> wa_status a = WAInFlight)
       (\<lambda>a. a\<lparr>wa_status := dr_status result, wa_completed := Some now,
             wa_duration := Some (dr_duration result), wa_lease_owner := None, wa_lease_until := None,
             wa_next := dr_next result, wa_error := dr_error result, wa_body_hash := dr_body_hash result,
             wa_http := (case dr_http result of None \<Rightarrow> wa_http a | Some c \<Rightarrow> Some c)\<rparr>)) (\<lambda>n.
     act_guard (n \<noteq> 0) (ErrText ''webhook attempt is no longer leased'')))"

definition pending_outbox :: "string \<Rightarrow> (outbox_message \<Rightarrow> outbox_message) \<Rightarrow> unit repo" where
  "pending_outbox outbox_id f =
     act_bind (update_outbox (\<lambda>m. ob_id m = outbox_id \<and> ob_processed m = None) f) (\<lambda>_. act_ret ())"

definition finalize_event :: "string \<Rightarrow> string \<Rightarrow> time \<Rightarrow> unit repo" where
  "finalize_event outbox_id event_id now =
     tx_do (
       act_bind (optional_row (first_row webhook_attempts (\<lambda>a. (case wa_next a of None \<Rightarrow> 0 | Some t \<Rightarrow> t, wa_id a))
          (\<lambda>a. wa_event a = event_id \<and> wa_status a = WARetryScheduled \<and> wa_next a \<noteq> None))) (\<lambda>retry.
       case retry of
         Some a \<Rightarrow> pending_outbox outbox_id
           (\<lambda>m. m\<lparr>ob_available := the (wa_next a), ob_lease_owner := None, ob_lease_until := None,
                 ob_error := wa_error a\<rparr>)
       | None \<Rightarrow>
           act_bind (optional_row (first_row webhook_attempts
              (\<lambda>a. (wa_lease_until a = None, case wa_lease_until a of None \<Rightarrow> 0 | Some u \<Rightarrow> u, wa_id a))
              (\<lambda>a. wa_event a = event_id \<and> wa_status a = WAInFlight))) (\<lambda>active.
           case active of
             Some a \<Rightarrow> pending_outbox outbox_id
               (\<lambda>m. m\<lparr>ob_available := (case wa_lease_until a of None \<Rightarrow> now | Some u \<Rightarrow> max now u),
                     ob_lease_owner := None, ob_lease_until := None\<rparr>)
           | None \<Rightarrow> pending_outbox outbox_id
               (\<lambda>m. m\<lparr>ob_processed := Some now, ob_lease_owner := None, ob_lease_until := None,
                     ob_error := None\<rparr>))))"

section \<open>Controls\<close>

definition owned_endpoint :: "db \<Rightarrow> string \<Rightarrow> string \<Rightarrow> webhook_endpoint \<Rightarrow> bool" where
  "owned_endpoint d owner endpoint_id e \<longleftrightarrow> wp_id e = endpoint_id \<and>
     list_ex (\<lambda>c. ac_id c = wp_client e \<and> (wp_client e = owner \<or> ac_owner c = owner)) (api_clients d)"

definition find_owned_endpoint :: "string \<Rightarrow> string \<Rightarrow> err \<Rightarrow> webhook_endpoint repo" where
  "find_owned_endpoint owner endpoint_id missing =
     act_bind (optional_row (select_first (\<lambda>d.
        first_by wp_id (owned_endpoint d owner endpoint_id) (webhook_endpoints d)))) (\<lambda>row. case row of
       None \<Rightarrow> act_fail missing
     | Some e \<Rightarrow> act_ret e)"

definition get_endpoint :: "string \<Rightarrow> string \<Rightarrow> endpoint_view repo" where
  "get_endpoint owner endpoint_id =
     act_bind (find_owned_endpoint owner endpoint_id ErrWebhookEndpointNotFound) (\<lambda>row.
     act_ret (webhook_endpoint_view row))"

fun attempt_status_text :: "attempt_status \<Rightarrow> string" where
  "attempt_status_text WADelivered = ''delivered''"
| "attempt_status_text WARetryScheduled = ''retry_scheduled''"
| "attempt_status_text WAFailed = ''failed''"
| "attempt_status_text WAExhausted = ''exhausted''"
| "attempt_status_text WAInFlight = ''in_flight''"
| "attempt_status_text WASuperseded = ''superseded''"
| "attempt_status_text WAReplayPending = ''replay_pending''"

record delivery_query =
  dq_endpoint :: string
  dq_event :: string
  dq_status :: string
  dq_from :: "time option"
  dq_to :: "time option"
  dq_limit :: int
  dq_cursor :: string

record delivery_view =
  dv_id :: string
  dv_event :: string
  dv_endpoint :: string
  dv_type :: string
  dv_number :: int
  dv_status :: string
  dv_scheduled :: time
  dv_started :: "time option"
  dv_completed :: "time option"
  dv_http :: "int option"
  dv_duration :: "int option"
  dv_error :: "string option"
  dv_next :: "time option"
  dv_created :: time

text \<open>A page cursor, with the JSON text of the pair as a parameter.\<close>

record cursor_codec =
  cc_encode :: "time \<times> string \<Rightarrow> string"
  cc_decode :: "string \<Rightarrow> (time \<times> string) option"

definition valid_cursor :: "time \<times> string \<Rightarrow> bool" where
  "valid_cursor k \<longleftrightarrow> fst k \<noteq> 0 \<and> trim_space (snd k) \<noteq> []"

definition encode_developer_cursor :: "cursor_codec \<Rightarrow> time \<times> string \<Rightarrow> err + string" where
  "encode_developer_cursor cc k =
     (if \<not> valid_cursor k then Inl (ErrText ''invalid developer cursor'') else Inr (cc_encode cc k))"

definition decode_developer_cursor :: "cursor_codec \<Rightarrow> string \<Rightarrow> err + (time \<times> string)" where
  "decode_developer_cursor cc v =
     (if trim_space v = [] then Inl (ErrText ''invalid developer cursor'')
      else case cc_decode cc v of
          None \<Rightarrow> Inl (ErrText ''invalid developer cursor'')
        | Some k \<Rightarrow> if valid_cursor k then Inr k else Inl (ErrText ''invalid developer cursor''))"

definition attempt_key :: "webhook_attempt \<Rightarrow> time \<times> string" where
  "attempt_key a = (wa_scheduled a, wa_id a)"

text \<open>The \<open>WHERE\<close> clause without the cursor; the joins need the event, the endpoint and its client.\<close>

definition delivery_matches :: "db \<Rightarrow> string \<Rightarrow> delivery_query \<Rightarrow> webhook_attempt \<Rightarrow> bool" where
  "delivery_matches d owner q a \<longleftrightarrow>
     list_ex (\<lambda>e. we_id e = wa_event a) (webhook_events d) \<and>
     list_ex (\<lambda>p. wp_id p = wa_endpoint a \<and> endpoint_owned d owner p) (webhook_endpoints d) \<and>
     (dq_endpoint q = [] \<or> wa_endpoint a = dq_endpoint q) \<and>
     (dq_event q = [] \<or> wa_event a = dq_event q) \<and>
     (dq_status q = [] \<or> attempt_status_text (wa_status a) = dq_status q) \<and>
     (case dq_from q of None \<Rightarrow> True | Some t \<Rightarrow> t \<le> wa_scheduled a) \<and>
     (case dq_to q of None \<Rightarrow> True | Some t \<Rightarrow> wa_scheduled a < t)"

definition delivery_view_of :: "db \<Rightarrow> webhook_attempt \<Rightarrow> delivery_view" where
  "delivery_view_of d a = \<lparr>dv_id = wa_id a, dv_event = wa_event a, dv_endpoint = wa_endpoint a,
     dv_type = (case List.find (\<lambda>e. we_id e = wa_event a) (webhook_events d) of
        None \<Rightarrow> [] | Some e \<Rightarrow> we_type e),
     dv_number = wa_number a, dv_status = attempt_status_text (wa_status a),
     dv_scheduled = wa_scheduled a, dv_started = wa_started a, dv_completed = wa_completed a,
     dv_http = wa_http a, dv_duration = wa_duration a, dv_error = wa_error a, dv_next = wa_next a,
     dv_created = wa_scheduled a\<rparr>"

definition list_deliveries ::
  "cursor_codec \<Rightarrow> string \<Rightarrow> delivery_query \<Rightarrow> (delivery_view list \<times> string) repo" where
  "list_deliveries cc owner q =
     act_bind (if dq_cursor q = [] then act_ret None
        else act_bind (act_lift (decode_developer_cursor cc (dq_cursor q))) (\<lambda>k. act_ret (Some k))) (\<lambda>cursor.
     let limit = nat (if dq_limit q = 0 then 20 else dq_limit q) in
     act_bind (select (\<lambda>d. List.map (\<lambda>a. (attempt_key a, delivery_view_of d a))
        (keyset_rows attempt_key (delivery_matches d owner q) cursor (limit + 1) (webhook_attempts d)))) (\<lambda>rows.
     if limit < length rows then
       act_bind (act_lift (encode_developer_cursor cc (fst (rows ! (limit - 1))))) (\<lambda>nxt.
       act_ret (List.map snd (take limit rows), nxt))
     else act_ret (List.map snd rows, [])))"

record queued_event =
  qe_event :: string
  qe_outbox :: string

definition build_test_webhook_envelope ::
  "string \<Rightarrow> string \<Rightarrow> string \<Rightarrow> string \<Rightarrow> time \<Rightarrow> event_envelope" where
  "build_test_webhook_envelope event_id event_type environment endpoint_id created =
     \<lparr>en_id = ''evt_'' @ event_id, en_type = event_type, en_api_version = webhook_api_version,
      en_created = created, en_environment = environment,
      en_object = TestObject endpoint_id ''This is a signed KailoPay webhook test delivery.''\<rparr>"

definition webhook_message :: "string \<Rightarrow> string \<Rightarrow> time \<Rightarrow> outbox_message" where
  "webhook_message outbox_id event_id now =
     \<lparr>ob_id = outbox_id, ob_topic = webhook_topic, ob_aggregate_type = ''webhook_event'',
      ob_aggregate = event_id, ob_payload = [(''event_id'', event_id)], ob_created = now,
      ob_available = now, ob_lease_owner = None, ob_lease_until = None, ob_attempts = 0,
      ob_processed = None, ob_error = None\<rparr>"

definition enqueue_test :: "string \<Rightarrow> string \<Rightarrow> time \<Rightarrow> queued_event repo" where
  "enqueue_test owner endpoint_id now =
     tx_do (
       act_bind (find_owned_endpoint owner endpoint_id ErrWebhookEndpointNotFound) (\<lambda>e.
       act_bind (act_guard (\<not> (wp_status e \<noteq> ''active'' \<or> wp_disabled e \<noteq> None))
         ErrWebhookEndpointNotFound) (\<lambda>_.
       act_bind (act_guard (wp_types e \<noteq> []) (ErrText ''webhook endpoint subscriptions are invalid'')) (\<lambda>_.
       act_bind new_id (\<lambda>event_id.
       let event_type = hd (wp_types e) in
       act_bind (insert_webhook_event
         \<lparr>we_id = event_id, we_order = None, we_client = Some (wp_client e), we_type = event_type,
          we_api_version = webhook_api_version,
          we_payload = build_test_webhook_envelope event_id event_type ''sandbox'' (wp_id e) now,
          we_source_event = None, we_test = True, we_created = now\<rparr>) (\<lambda>_.
       act_bind new_id (\<lambda>outbox_id.
       act_bind (insert_outbox (webhook_message outbox_id event_id now)) (\<lambda>_.
       act_ret \<lparr>qe_event = event_id, qe_outbox = outbox_id\<rparr>))))))))"

definition replay_delivery :: "string \<Rightarrow> string \<Rightarrow> time \<Rightarrow> unit repo" where
  "replay_delivery owner delivery_id now =
     tx_do (
       act_bind (optional_row (first_row webhook_attempts wa_id (\<lambda>a. wa_id a = delivery_id))) (\<lambda>row.
       case row of None \<Rightarrow> act_fail ErrWebhookDeliveryNotFound
       | Some attempt \<Rightarrow>
       act_bind (find_owned_endpoint owner (wa_endpoint attempt) ErrWebhookDeliveryNotFound) (\<lambda>_.
       act_bind (act_try (first_row outbox ob_id (\<lambda>m. ob_topic m = webhook_topic \<and>
          ob_aggregate m = wa_event attempt \<and> ob_processed m = None))) (\<lambda>existing.
       if wa_status attempt = WAReplayPending \<and> \<not> isl existing then act_ret ()
       else if wa_status attempt \<noteq> WAExhausted then act_fail ErrWebhookReplayNotAllowed
       else case existing of
           Inr _ \<Rightarrow> act_ret ()
         | Inl e \<Rightarrow>
             act_bind (act_guard (errors_is e ErrRecordNotFound) e) (\<lambda>_.
             act_bind (update_attempt (wa_id attempt)
               (\<lambda>a. a\<lparr>wa_status := WAReplayPending, wa_next := Some now,
                     wa_error := Some ''manual webhook replay requested'', wa_lease_owner := None,
                     wa_lease_until := None\<rparr>)) (\<lambda>_.
             act_bind new_id (\<lambda>outbox_id.
             insert_outbox (webhook_message outbox_id (wa_event attempt) now))))))))"

end
