(* ===== verification/Webhook_Attempts.thy ===== *)
theory Webhook_Attempts
  imports Webhook_Repo
begin

text \<open>
  The delivery attempts of an event to an endpoint: they are numbered from one without a gap, and
  all but the latest are superseded, so that at most one of them is in flight or waiting. Every
  operation of the webhook repository keeps this discipline, and a live lease excludes a second
  attempt.
\<close>

section \<open>The discipline\<close>

definition pair_attempts :: "string \<Rightarrow> string \<Rightarrow> webhook_attempt list \<Rightarrow> webhook_attempt list" where
  "pair_attempts e p rows = filter (\<lambda>a. wa_event a = e \<and> wa_endpoint a = p) rows"

definition attempts_ok :: "webhook_attempt list \<Rightarrow> bool" where
  "attempts_ok rows \<longleftrightarrow> distinct (List.map wa_id rows) \<and>
     (\<forall>e p. List.map wa_number (pair_attempts e p rows) = [1..int (length (pair_attempts e p rows))] \<and>
        list_all (\<lambda>a. wa_status a = WASuperseded) (butlast (pair_attempts e p rows)))"

definition webhook_inv :: "db \<Rightarrow> bool" where
  "webhook_inv d \<longleftrightarrow> attempts_ok (webhook_attempts d)"

definition pair_closed :: "string \<Rightarrow> string \<Rightarrow> webhook_attempt list \<Rightarrow> bool" where
  "pair_closed e p rows \<longleftrightarrow> list_all (\<lambda>a. wa_status a = WASuperseded) (pair_attempts e p rows)"

definition attempt_update :: "(webhook_attempt \<Rightarrow> webhook_attempt) \<Rightarrow> bool" where
  "attempt_update f \<longleftrightarrow> (\<forall>a. wa_id (f a) = wa_id a \<and> wa_event (f a) = wa_event a \<and>
     wa_endpoint (f a) = wa_endpoint a \<and> wa_number (f a) = wa_number a)"

lemma pair_attempts_update:
  assumes "attempt_update f"
  shows "pair_attempts e p (update_rows P f rows) = update_rows P f (pair_attempts e p rows)"
  using assms unfolding pair_attempts_def update_rows_def attempt_update_def
  by (induction rows) auto

lemma update_rows_length [simp]: "length (update_rows P f rows) = length rows"
  by (simp add: update_rows_def)

lemma attempts_ok_update:
  assumes ok: "attempts_ok rows" and f: "attempt_update f"
    and s: "\<And>a. a \<in> set rows \<Longrightarrow> P a \<Longrightarrow> wa_status a = WASuperseded \<Longrightarrow> wa_status (f a) = WASuperseded"
  shows "attempts_ok (update_rows P f rows)"
  unfolding attempts_ok_def
proof (intro conjI allI)
  show "distinct (List.map wa_id (update_rows P f rows))"
    using ok f by (simp add: attempts_ok_def map_update_rows attempt_update_def)
next
  fix e p
  have "List.map wa_number (update_rows P f xs) = List.map wa_number xs" for xs
    using f by (simp add: map_update_rows attempt_update_def)
  then show "List.map wa_number (pair_attempts e p (update_rows P f rows)) =
      [1..int (length (pair_attempts e p (update_rows P f rows)))]"
    using ok by (simp add: attempts_ok_def pair_attempts_update [OF f])
  have b: "butlast (update_rows P f xs) = update_rows P f (butlast xs)" for xs
    by (simp add: update_rows_def map_butlast)
  have m: "a \<in> set rows" if "a \<in> set (butlast (pair_attempts e p rows))" for a
    using in_set_butlastD [OF that] by (simp add: pair_attempts_def)
  from ok have "list_all (\<lambda>a. wa_status a = WASuperseded) (butlast (pair_attempts e p rows))"
    by (simp add: attempts_ok_def)
  then show "list_all (\<lambda>a. wa_status a = WASuperseded) (butlast (pair_attempts e p (update_rows P f rows)))"
    unfolding pair_attempts_update [OF f] b by (auto simp: list_all_iff update_rows_def s m)
qed

lemma attempts_ok_append:
  assumes ok: "attempts_ok rows" and fresh: "wa_id a \<notin> set (List.map wa_id rows)"
    and n: "wa_number a = int (length (pair_attempts (wa_event a) (wa_endpoint a) rows)) + 1"
    and c: "pair_closed (wa_event a) (wa_endpoint a) rows"
  shows "attempts_ok (rows @ [a])"
  unfolding attempts_ok_def
proof (intro conjI allI)
  show "distinct (List.map wa_id (rows @ [a]))" using ok fresh by (auto simp: attempts_ok_def)
next
  fix e p
  from ok have o: "List.map wa_number (pair_attempts e p rows) = [1..int (length (pair_attempts e p rows))]"
    "list_all (\<lambda>a. wa_status a = WASuperseded) (butlast (pair_attempts e p rows))"
    by (simp_all add: attempts_ok_def)
  have q: "pair_attempts e p (rows @ [a]) =
      pair_attempts e p rows @ (if wa_event a = e \<and> wa_endpoint a = p then [a] else [])"
    by (simp add: pair_attempts_def)
  show "List.map wa_number (pair_attempts e p (rows @ [a])) = [1..int (length (pair_attempts e p (rows @ [a])))]"
    using o(1) n upto_rec2 [of 1 "int (length (pair_attempts e p rows)) + 1"] by (auto simp: q add.commute)
  show "list_all (\<lambda>a. wa_status a = WASuperseded) (butlast (pair_attempts e p (rows @ [a])))"
    using o(2) c by (auto simp: q pair_closed_def)
qed

text \<open>The row that \<open>StartAttempt\<close> finds is the last one of its pair.\<close>

lemma latest_attempt:
  assumes ok: "attempts_ok rows"
    and f: "first_by (\<lambda>a. (- wa_number a, wa_id a)) (\<lambda>a. wa_event a = e \<and> wa_endpoint a = p) rows = Some l"
  shows "l \<in> set rows" "wa_event l = e" "wa_endpoint l = p" "pair_attempts e p rows \<noteq> []"
    "last (pair_attempts e p rows) = l" "wa_number l = int (length (pair_attempts e p rows))"
proof -
  let ?xs = "pair_attempts e p rows"
  from first_by_Some [OF f] show l: "l \<in> set rows" "wa_event l = e" "wa_endpoint l = p" by simp_all
  then have lx: "l \<in> set ?xs" by (simp add: pair_attempts_def)
  then show ne: "?xs \<noteq> []" by auto
  then have z: "last ?xs \<in> set ?xs" by simp
  from ok have num: "List.map wa_number ?xs = [1..int (length ?xs)]" by (simp add: attempts_ok_def)
  then have "last (List.map wa_number ?xs) = int (length ?xs)"
    using ne upto_rec2 [of 1 "int (length ?xs)"] by (cases ?xs) simp_all
  then have zn: "wa_number (last ?xs) = int (length ?xs)" using ne by (simp add: last_map)
  have "wa_number l \<in> set (List.map wa_number ?xs)" using lx by simp
  then have ln: "wa_number l \<le> int (length ?xs)" unfolding num by simp
  have "(- wa_number l, wa_id l) \<le> (- wa_number (last ?xs), wa_id (last ?xs))"
    using first_by_least [OF f] z by (simp add: pair_attempts_def)
  then have "wa_number (last ?xs) \<le> wa_number l" by auto
  with ln zn show n: "wa_number l = int (length ?xs)" by simp
  have "distinct (List.map wa_number ?xs)" unfolding num by simp
  then have "inj_on wa_number (set ?xs)" by (simp add: distinct_map)
  from this _ z lx show "last ?xs = l" by (rule inj_onD) (simp only: n zn)
qed

lemma no_attempt:
  "first_by k (\<lambda>a. wa_event a = e \<and> wa_endpoint a = p) rows = None \<Longrightarrow> pair_attempts e p rows = []"
  by (simp add: first_by_None pair_attempts_def filter_empty_conv)

lemma attempt_id_unique:
  "attempts_ok rows \<Longrightarrow> a \<in> set rows \<Longrightarrow> b \<in> set rows \<Longrightarrow> wa_id a = wa_id b \<Longrightarrow> a = b"
  by (auto simp: attempts_ok_def distinct_map dest: inj_onD)

lemma pair_closed_update:
  assumes ok: "attempts_ok rows" and f: "attempt_update f" and l: "l = last (pair_attempts e p rows)"
    and ne: "pair_attempts e p rows \<noteq> []" and s: "\<And>a. wa_status (f a) = WASuperseded"
  shows "pair_closed e p (update_rows (\<lambda>a. wa_id a = wa_id l) f rows)"
proof -
  let ?xs = "pair_attempts e p rows"
  have "list_all (\<lambda>a. wa_status a = WASuperseded) (butlast ?xs)" using ok by (simp add: attempts_ok_def)
  moreover have "set ?xs = set (butlast ?xs) \<union> {l}"
    using arg_cong [OF append_butlast_last_id [OF ne], of set] l by simp
  ultimately have "\<forall>a \<in> set ?xs. a = l \<or> wa_status a = WASuperseded"
    by (auto simp: list_all_iff)
  then show ?thesis
    unfolding pair_closed_def pair_attempts_update [OF f]
    by (auto simp: list_all_iff update_rows_def s)
qed

section \<open>The operations keep it\<close>

lemma attempt_updateI:
  "(\<And>a. wa_id (f a) = wa_id a) \<Longrightarrow> (\<And>a. wa_event (f a) = wa_event a) \<Longrightarrow>
   (\<And>a. wa_endpoint (f a) = wa_endpoint a) \<Longrightarrow> (\<And>a. wa_number (f a) = wa_number a) \<Longrightarrow> attempt_update f"
  by (simp add: attempt_update_def)

text \<open>
  The transaction of \<open>StartAttempt\<close> on the row it found. \<open>closing\<close> is what holds of the attempts
  once the latest one has been put away.
\<close>

lemma outcome_retire_latest:
  assumes ok: "webhook_inv d"
    and l: "first_by (\<lambda>a. (- wa_number a, wa_id a)) (\<lambda>a. wa_event a = e \<and> wa_endpoint a = p)
      (webhook_attempts d) = Some l"
    and none: "\<And>rows. attempts_ok rows \<Longrightarrow> Q None (d\<lparr>webhook_attempts := rows\<rparr>)"
    and some: "\<And>rows m. attempts_ok rows \<Longrightarrow> pair_closed e p rows \<Longrightarrow>
      length (pair_attempts e p rows) = length (pair_attempts e p (webhook_attempts d)) \<Longrightarrow>
      Q (Some m) (d\<lparr>webhook_attempts := rows\<rparr>)"
    and err: "\<And>e d'. E e d'"
  shows "outcome (retire_latest l now maxa) Q E d t"
proof -
  let ?rows = "webhook_attempts d"
  have rows: "attempts_ok ?rows" using ok by (simp add: webhook_inv_def)
  note la = latest_attempt [OF rows l]
  have same: "d\<lparr>webhook_attempts := ?rows\<rparr> = d" by simp
  have upd: "attempts_ok (update_rows (\<lambda>a. wa_id a = wa_id l) f ?rows)"
    if "attempt_update f" "wa_status l \<noteq> WASuperseded" for f
    by (rule attempts_ok_update [OF rows that(1)])
       (use attempt_id_unique [OF rows _ la(1)] that(2) in auto)
  have cl: "pair_closed e p (update_rows (\<lambda>a. wa_id a = wa_id l) f ?rows)"
    "length (pair_attempts e p (update_rows (\<lambda>a. wa_id a = wa_id l) f ?rows)) = length (pair_attempts e p ?rows)"
    if "attempt_update f" "\<And>a. wa_status (f a) = WASuperseded" for f
    using pair_closed_update [OF rows that(1) la(5) [symmetric] la(4)] that
    by (simp_all add: pair_attempts_update)
  have sup: "pair_closed e p ?rows" if "wa_status l = WASuperseded"
  proof -
    have "butlast (pair_attempts e p ?rows) @ [l] = pair_attempts e p ?rows"
      using append_butlast_last_id [OF la(4)] by (simp only: la(5))
    moreover have "list_all (\<lambda>a. wa_status a = WASuperseded) (butlast (pair_attempts e p ?rows))"
      using rows by (simp add: attempts_ok_def)
    ultimately show ?thesis unfolding pair_closed_def using that by (metis list_all_append list.pred_inject)
  qed
  show ?thesis
  proof (cases "wa_status l")
    case WASuperseded
    then show ?thesis
      using some [OF rows sup] by (simp add: retire_latest_def same outcome_ret)
  qed (auto simp: retire_latest_def update_attempt_def store_defs
      intro!: outcome_intro err none some upd cl attempt_updateI none [OF rows, unfolded same])
qed

lemma webhook_inv_attempts [simp]: "webhook_inv (d\<lparr>webhook_attempts := rows\<rparr>) \<longleftrightarrow> attempts_ok rows"
  by (simp add: webhook_inv_def)

lemma outcome_new_attempt:
  assumes ok: "attempts_ok (webhook_attempts d)" and c: "pair_closed e p (webhook_attempts d)"
    and n: "n = int (length (pair_attempts e p (webhook_attempts d))) + 1"
    and Q: "\<And>a rows. attempts_ok rows \<Longrightarrow> rows = webhook_attempts d @ [a] \<Longrightarrow> wa_event a = e \<Longrightarrow>
      wa_endpoint a = p \<Longrightarrow> wa_number a = n \<Longrightarrow> wa_status a = WAInFlight \<Longrightarrow>
      wa_lease_until a = Some (now + lease) \<Longrightarrow>
      Q (Some \<lparr>da_id = wa_id a, da_event = e, da_endpoint = p, da_number = n\<rparr>) (d\<lparr>webhook_attempts := rows\<rparr>)"
    and E: "\<And>e d'. E e d'"
  shows "outcome (new_attempt e p worker now lease n) Q E d t"
  unfolding new_attempt_def store_defs
proof (intro outcome_intro E, goal_cases)
  case (1 i rows)
  let ?a = "\<lparr>wa_id = i, wa_event = e, wa_endpoint = p, wa_number = n, wa_status = WAInFlight,
     wa_scheduled = now, wa_started = Some now, wa_completed = None, wa_http = None, wa_duration = None,
     wa_body_hash = None, wa_error = None, wa_next = None, wa_lease_owner = Some worker,
     wa_lease_until = Some (now + lease)\<rparr>"
  have "attempts_ok rows"
    unfolding 1(1) by (rule attempts_ok_append [OF ok]) (use 1(2) c n in auto)
  from Q [OF this 1(1)] show ?case by simp
qed

lemma start_attempt_inv:
  assumes inv: "webhook_inv d"
  shows "outcome (start_attempt e p worker now lease maxa) (\<lambda>_. webhook_inv) (\<lambda>_. webhook_inv) d t"
  unfolding start_attempt_def Let_def
proof (rule outcome_tx, rule outcome_bind, rule outcome_optional)
  fix l assume l: "first_by (\<lambda>a. (- wa_number a, wa_id a)) (\<lambda>a. wa_event a = e \<and> wa_endpoint a = p)
      (webhook_attempts d) = Some l"
  have rows: "attempts_ok (webhook_attempts d)" using inv by (simp add: webhook_inv_def)
  note la = latest_attempt [OF rows l]
  then have pos: "0 < wa_number l" by simp
  show "outcome
     (act_bind (case Some l of None \<Rightarrow> act_ret (Some False)
        | Some a \<Rightarrow> if 0 < (case Some l of None \<Rightarrow> 0 | Some a \<Rightarrow> wa_number a) then retire_latest a now maxa
            else act_ret (Some False))
       (\<lambda>go. case go of None \<Rightarrow> act_ret None
        | Some manual_replay \<Rightarrow>
            if maxa < (case Some l of None \<Rightarrow> 0 | Some a \<Rightarrow> wa_number a) + 1 \<and> \<not> manual_replay then act_ret None
            else new_attempt e p worker now lease ((case Some l of None \<Rightarrow> 0 | Some a \<Rightarrow> wa_number a) + 1)))
     (\<lambda>_. webhook_inv) (\<lambda>_ _. True) d t"
    using pos
    by (simp only: option.case if_True)
       (auto intro!: outcome_bind outcome_retire_latest [OF inv l] outcome_ret outcome_if outcome_new_attempt
         simp: la(6))
next
  assume "first_by (\<lambda>a. (- wa_number a, wa_id a)) (\<lambda>a. wa_event a = e \<and> wa_endpoint a = p)
      (webhook_attempts d) = None"
  with inv show "outcome
     (act_bind (case None of None \<Rightarrow> act_ret (Some False)
        | Some a \<Rightarrow> if 0 < (case None of None \<Rightarrow> 0 | Some a \<Rightarrow> wa_number a) then retire_latest a now maxa
            else act_ret (Some False))
       (\<lambda>go. case go of None \<Rightarrow> act_ret None
        | Some manual_replay \<Rightarrow>
            if maxa < (case None of None \<Rightarrow> 0 | Some a \<Rightarrow> wa_number a) + 1 \<and> \<not> manual_replay then act_ret None
            else new_attempt e p worker now lease ((case None of None \<Rightarrow> 0 | Some a \<Rightarrow> wa_number a) + 1)))
     (\<lambda>_. webhook_inv) (\<lambda>_ _. True) d t"
    by (auto intro!: outcome_bind outcome_ret outcome_if outcome_new_attempt
         simp: webhook_inv_def pair_closed_def dest!: no_attempt)
qed (simp_all add: inv)

lemma complete_attempt_inv:
  assumes "webhook_inv d"
  shows "outcome (complete_attempt i r) (\<lambda>_. webhook_inv) (\<lambda>_. webhook_inv) d t"
  unfolding complete_attempt_def store_defs
  by (intro outcome_intro)
     (use assms in \<open>auto simp: webhook_inv_def intro!: attempts_ok_update attempt_updateI split: option.splits\<close>)

lemma finalize_event_inv:
  assumes "webhook_inv d"
  shows "outcome (finalize_event o_id e now) (\<lambda>_. webhook_inv) (\<lambda>_. webhook_inv) d t"
  unfolding finalize_event_def pending_outbox_def store_defs
  by (intro outcome_intro) (use assms in \<open>simp_all add: webhook_inv_def\<close>)

lemma outcome_find_owned [outcome_intro]:
  assumes "\<And>x. first_by wp_id (owned_endpoint d owner i) (webhook_endpoints d) = Some x \<Longrightarrow> Q x d"
    and "\<And>e. E e d"
  shows "outcome (find_owned_endpoint owner i missing) Q E d t"
  unfolding find_owned_endpoint_def
  by (intro outcome_intro) (auto intro!: outcome_intro assms)

lemma enqueue_test_inv:
  assumes "webhook_inv d"
  shows "outcome (enqueue_test owner i now) (\<lambda>_. webhook_inv) (\<lambda>_. webhook_inv) d t"
  unfolding enqueue_test_def store_defs
  by (intro outcome_intro) (use assms in \<open>simp_all add: webhook_inv_def\<close>)

lemma attempts_ok_reopen:
  assumes ok: "attempts_ok rows" and x: "x \<in> set rows" "wa_status x \<noteq> WASuperseded" and f: "attempt_update f"
  shows "attempts_ok (update_rows (\<lambda>a. wa_id a = wa_id x) f rows)"
  by (rule attempts_ok_update [OF ok f]) (use attempt_id_unique [OF ok _ x(1)] x(2) in auto)

lemma replay_delivery_inv:
  assumes inv: "webhook_inv d"
  shows "outcome (replay_delivery owner i now) (\<lambda>_. webhook_inv) (\<lambda>_. webhook_inv) d t"
  unfolding replay_delivery_def update_attempt_def store_defs
proof (intro outcome_intro, goal_cases)
qed (use inv in \<open>auto simp: webhook_inv_def intro!: attempts_ok_reopen attempt_updateI dest!: first_by_Some\<close>)

lemma webhook_inv_other: "webhook_attempts d' = webhook_attempts d \<Longrightarrow> webhook_inv d \<Longrightarrow> webhook_inv d'"
  by (simp add: webhook_inv_def)

section \<open>Leases\<close>

text \<open>
  The latest attempt of a pair is in flight under a live lease: a second worker gets no attempt
  and changes nothing.
\<close>

definition leased_attempt :: "string \<Rightarrow> string \<Rightarrow> time \<Rightarrow> db \<Rightarrow> bool" where
  "leased_attempt e p now d \<longleftrightarrow>
     (\<exists>a \<in> set (webhook_attempts d). wa_event a = e \<and> wa_endpoint a = p \<and> wa_status a = WAInFlight \<and>
        (\<exists>u. wa_lease_until a = Some u \<and> now < u))"

lemma in_flight_is_latest:
  assumes ok: "attempts_ok rows" and a: "a \<in> set rows" "wa_event a = e" "wa_endpoint a = p"
    and s: "wa_status a \<noteq> WASuperseded"
  shows "pair_attempts e p rows \<noteq> [] \<and> a = last (pair_attempts e p rows)"
proof -
  let ?xs = "pair_attempts e p rows"
  have m: "a \<in> set ?xs" using a by (simp add: pair_attempts_def)
  then have ne: "?xs \<noteq> []" by auto
  have "list_all (\<lambda>a. wa_status a = WASuperseded) (butlast ?xs)" using ok by (simp add: attempts_ok_def)
  then have "a \<notin> set (butlast ?xs)" using s by (auto simp: list_all_iff)
  moreover have "set ?xs = set (butlast ?xs) \<union> {last ?xs}"
    using arg_cong [OF append_butlast_last_id [OF ne], of set] by (simp only: set_append list.set)
  ultimately show ?thesis using m ne by auto
qed

text \<open>At most one attempt of a pair is open.\<close>

lemma one_open_attempt:
  assumes "webhook_inv d" and "a \<in> set (webhook_attempts d)" "b \<in> set (webhook_attempts d)"
    and "wa_event a = wa_event b" "wa_endpoint a = wa_endpoint b"
    and "wa_status a \<noteq> WASuperseded" "wa_status b \<noteq> WASuperseded"
  shows "a = b"
  using in_flight_is_latest [of "webhook_attempts d" a "wa_event b" "wa_endpoint b"]
    in_flight_is_latest [of "webhook_attempts d" b "wa_event b" "wa_endpoint b"] assms
  by (simp add: webhook_inv_def)

lemma latest_found:
  assumes ok: "attempts_ok rows" and a: "a \<in> set rows" "wa_event a = e" "wa_endpoint a = p"
    and s: "wa_status a \<noteq> WASuperseded"
  shows "first_by (\<lambda>a. (- wa_number a, wa_id a)) (\<lambda>a. wa_event a = e \<and> wa_endpoint a = p) rows = Some a"
proof -
  let ?f = "first_by (\<lambda>a. (- wa_number a, wa_id a)) (\<lambda>a. wa_event a = e \<and> wa_endpoint a = p) rows"
  show "?f = Some a"
  proof (cases ?f)
    case None
    with a show ?thesis by (simp add: first_by_None)
  next
    case (Some l)
    with latest_attempt(5) [OF ok Some] in_flight_is_latest [OF ok a s] show ?thesis by simp
  qed
qed

lemma start_attempt_leased:
  assumes inv: "webhook_inv d" and l: "leased_attempt e p now d"
  shows "outcome (start_attempt e p worker now lease maxa) (\<lambda>r d'. r = None \<and> d' = d) (\<lambda>_ d'. d' = d) d t"
proof -
  from l obtain a u where a: "a \<in> set (webhook_attempts d)" "wa_event a = e" "wa_endpoint a = p"
    "wa_status a = WAInFlight" "wa_lease_until a = Some u" "now < u" by (auto simp: leased_attempt_def)
  have ok: "attempts_ok (webhook_attempts d)" using inv by (simp add: webhook_inv_def)
  have f: "first_by (\<lambda>a. (- wa_number a, wa_id a)) (\<lambda>a. wa_event a = e \<and> wa_endpoint a = p)
      (webhook_attempts d) = Some a" by (rule latest_found [OF ok a(1-3)]) (simp add: a)
  have "wa_number a > 0" using latest_attempt(4,6) [OF ok f] by simp
  with a have "retire_latest a now maxa = act_ret None" "0 < wa_number a"
    by (simp_all add: retire_latest_def)
  then show ?thesis
    unfolding start_attempt_def Let_def
    by (intro outcome_tx outcome_bind outcome_optional) (auto simp: f intro!: outcome_intro)
qed

text \<open>A result is stored for an attempt that is still in flight, and for nothing else.\<close>

lemma complete_attempt_lost:
  assumes "\<not> list_ex (\<lambda>a. wa_id a = i \<and> wa_status a = WAInFlight) (webhook_attempts d)"
  shows "outcome (complete_attempt i r) (\<lambda>_ _. False) (\<lambda>_ d'. d' = d) d t"
proof -
  have "count_rows (\<lambda>a. wa_id a = i \<and> wa_status a = WAInFlight) (webhook_attempts d) = 0"
    using assms by (auto simp: count_rows_0 list_ex_iff)
  moreover have "update_rows (\<lambda>a. wa_id a = i \<and> wa_status a = WAInFlight) f (webhook_attempts d) =
      webhook_attempts d" for f
    using assms by (intro update_rows_none) (auto simp: list_ex_iff)
  ultimately show ?thesis
    unfolding complete_attempt_def store_defs by (intro outcome_intro) simp_all
qed

section \<open>The webhook system\<close>

datatype webhook_operation =
    OpStartAttempt string string string time duration int
  | OpCompleteAttempt string delivery_result
  | OpFinalizeEvent string string time
  | OpEnqueueTest string string time
  | OpReplayDelivery string string time

fun run_webhook_op :: "webhook_operation \<Rightarrow> unit repo" where
  "run_webhook_op (OpStartAttempt e p worker now lease k) =
     act_bind (start_attempt e p worker now lease k) (\<lambda>_. act_ret ())"
| "run_webhook_op (OpCompleteAttempt i r) = complete_attempt i r"
| "run_webhook_op (OpFinalizeEvent i e now) = finalize_event i e now"
| "run_webhook_op (OpEnqueueTest owner i now) = act_bind (enqueue_test owner i now) (\<lambda>_. act_ret ())"
| "run_webhook_op (OpReplayDelivery owner i now) = replay_delivery owner i now"

lemma run_webhook_op_inv:
  "webhook_inv d \<Longrightarrow> outcome (run_webhook_op op) (\<lambda>_. webhook_inv) (\<lambda>_. webhook_inv) d t"
  by (cases op)
     (auto intro!: complete_attempt_inv finalize_event_inv replay_delivery_inv outcome_ret
        outcome_seq [OF start_attempt_inv] outcome_seq [OF enqueue_test_inv])

interpretation webhook_system: invariant_system run_webhook_op webhook_inv
  by unfold_locales (rule run_webhook_op_inv)

interpretation attempt_pages: keyset webhook_inv webhook_attempts attempt_key
proof
  fix d assume "webhook_inv d"
  then have "distinct (List.map wa_id (webhook_attempts d))" by (simp add: webhook_inv_def attempts_ok_def)
  then show "distinct (List.map attempt_key (webhook_attempts d))"
    by (auto simp: distinct_map attempt_key_def inj_on_def)
qed

end
