(* ===== verification/Webhook_Usecase.thy ===== *)
theory Webhook_Usecase
  imports Webhook_Attempts
begin

text \<open>
  Webhook delivery (\<open>internal/usecase/webhook_delivery_usecase.go\<close>), registration
  (\<open>webhook_usecase.go\<close>) and controls (\<open>webhook_control_usecase.go\<close>). The resolver, the HTTP
  client, the digests and the secret box are parameters; the stored JSON text of a payload is one
  too. A duration measured with the wall clock is a parameter of the delivery.
\<close>

section \<open>Classification\<close>

text \<open>
  \<open>ClassifyWebhookDelivery\<close>: \<open>failed\<close> tells whether there was a network error. The shift is at
  most six, and the product wraps around like every \<open>Duration\<close>.
\<close>

definition retry_backoff :: "duration \<Rightarrow> int \<Rightarrow> duration" where
  "retry_backoff retry_delay attempt =
     (let base = (if retry_delay \<le> 0 then second else retry_delay);
          shift = (if attempt - 1 < 0 then 0 else if 6 < attempt - 1 then 6 else attempt - 1);
          delay = wrap64 (base * 2 ^ nat shift)
      in if hour < delay then hour else delay)"

definition retryable_status :: "int \<Rightarrow> bool" where
  "retryable_status status \<longleftrightarrow> status = 408 \<or> status = 409 \<or> status = 425 \<or> status = 429 \<or> 500 \<le> status"

definition classify_webhook_delivery ::
  "int \<Rightarrow> bool \<Rightarrow> int \<Rightarrow> int \<Rightarrow> time \<Rightarrow> duration \<Rightarrow> delivery_result" where
  "classify_webhook_delivery status failed attempt max_attempts now retry_delay =
     (let r = \<lparr>dr_status = WADelivered, dr_http = (if 0 < status then Some status else None),
            dr_duration = 0, dr_body_hash = None, dr_error = None, dr_next = None\<rparr> in
      if \<not> failed \<and> 200 \<le> status \<and> status < 300 then r
      else if \<not> (failed \<or> retryable_status status) then
        r\<lparr>dr_status := WAFailed, dr_error := Some ''webhook endpoint returned a terminal HTTP response''\<rparr>
      else if max_attempts \<le> attempt then
        r\<lparr>dr_status := WAExhausted, dr_error := Some ''webhook delivery retry limit reached''\<rparr>
      else
        r\<lparr>dr_status := WARetryScheduled, dr_error := Some ''webhook delivery will be retried'',
          dr_next := Some (now + retry_backoff retry_delay attempt)\<rparr>)"

section \<open>Delivery\<close>

record webhook_request =
  wq_url :: string
  wq_event :: string
  wq_timestamp :: string
  wq_signature :: string
  wq_type :: string
  wq_version :: string
  wq_body :: string

text \<open>A response: its status, the bytes of its body, and whether reading them ends in an error.\<close>

record webhook_response =
  wx_status :: int
  wx_body :: string
  wx_read_error :: bool

record webhook_deps =
  wd_lease :: duration
  wd_retry :: duration
  wd_max :: int
  wd_resolver :: resolver
  wd_unprotect :: "byte list \<Rightarrow> err + string"
  wd_send :: "webhook_request \<Rightarrow> err + webhook_response option"
  wd_text :: "event_envelope \<Rightarrow> string"
  wd_hmac :: "string \<Rightarrow> string \<Rightarrow> byte list"
  wd_sha256 :: "string \<Rightarrow> byte list"
  wd_elapsed :: "delivery_attempt \<Rightarrow> int"

record webhook_job =
  wj_outbox :: string
  wj_event :: string
  wj_worker :: string

text \<open>\<open>Time.Unix\<close>: seconds since 1970, rounded down.\<close>

definition unix_seconds :: "time \<Rightarrow> int" where
  "unix_seconds t = t div second - 62135596800"

definition build_webhook_signature :: "(string \<Rightarrow> string \<Rightarrow> byte list) \<Rightarrow> time \<Rightarrow> string \<Rightarrow> string \<Rightarrow> string" where
  "build_webhook_signature hmac timestamp payload secret =
     ''v1='' @ hex_encode (hmac secret (format_int (unix_seconds timestamp) @ ''.'' @ payload))"

definition public_webhook_event_id :: "string \<Rightarrow> string" where
  "public_webhook_event_id i = (if has_prefix ''evt_'' i then i else ''evt_'' @ i)"

definition webhook_response_body_limit :: nat where "webhook_response_body_limit = 65536"

definition terminal_webhook_result :: "attempt_status \<Rightarrow> string \<Rightarrow> int \<Rightarrow> delivery_result" where
  "terminal_webhook_result status message elapsed =
     \<lparr>dr_status = status, dr_http = None, dr_duration = elapsed, dr_body_hash = None,
      dr_error = Some message, dr_next = None\<rparr>"

definition webhook_request_of ::
  "webhook_deps \<Rightarrow> time \<Rightarrow> webhook_event_record \<Rightarrow> string \<Rightarrow> string \<Rightarrow> webhook_request" where
  "webhook_request_of deps now event url secret =
     \<lparr>wq_url = url, wq_event = public_webhook_event_id (wr_id event),
      wq_timestamp = format_int (unix_seconds now),
      wq_signature = build_webhook_signature (wd_hmac deps) now (wd_text deps (wr_payload event)) secret,
      wq_type = wr_type event, wq_version = wr_version event, wq_body = wd_text deps (wr_payload event)\<rparr>"

text \<open>\<open>NewRequestWithContext\<close> fails when the URL does not parse.\<close>

definition deliver ::
  "webhook_deps \<Rightarrow> time \<Rightarrow> webhook_event_record \<Rightarrow> delivery_endpoint \<Rightarrow> delivery_attempt \<Rightarrow> delivery_result" where
  "deliver deps now event endpoint attempt =
     (let elapsed = wd_elapsed deps attempt;
          classify = (\<lambda>status failed. classify_webhook_delivery status failed (da_number attempt)
             (wd_max deps) now (wd_retry deps)) in
      if validate_webhook_destination (wd_resolver deps) (de_url endpoint) \<noteq> Inr () then
        terminal_webhook_result WAFailed ''webhook destination rejected by policy'' elapsed
      else case wd_unprotect deps (de_secret endpoint) of
          Inl e \<Rightarrow> terminal_webhook_result WAFailed ''webhook signing secret is unavailable'' elapsed
        | Inr secret \<Rightarrow>
            if secret = [] then terminal_webhook_result WAFailed ''webhook signing secret is unavailable'' elapsed
            else if url_parse (de_url endpoint) = None then
              terminal_webhook_result WAFailed ''webhook request is invalid'' elapsed
            else (case wd_send deps (webhook_request_of deps now event (de_url endpoint) secret) of
                Inl e \<Rightarrow> (classify 0 True)\<lparr>dr_duration := elapsed\<rparr>
              | Inr None \<Rightarrow> (classify 0 True)\<lparr>dr_duration := elapsed\<rparr>
              | Inr (Some x) \<Rightarrow>
                  (let body = take webhook_response_body_limit (wx_body x);
                       read_error = wx_read_error x \<and> length (wx_body x) < webhook_response_body_limit
                   in (classify (wx_status x) read_error)
                        \<lparr>dr_body_hash := Some (b64_raw_std (wd_sha256 deps body)), dr_duration := elapsed\<rparr>)))"

definition deliver_to ::
  "webhook_deps \<Rightarrow> time \<Rightarrow> webhook_event_record \<Rightarrow> string \<Rightarrow> delivery_endpoint \<Rightarrow> unit \<Rightarrow> unit repo" where
  "deliver_to deps now event worker endpoint _ =
     act_bind (start_attempt (wr_id event) (de_id endpoint) worker now (wd_lease deps) (wd_max deps)) (\<lambda>started.
     case started of
       None \<Rightarrow> act_ret ()
     | Some attempt \<Rightarrow>
         act_bind now_utc (\<lambda>timestamp.
         complete_attempt (da_id attempt) (deliver deps timestamp event endpoint attempt)))"

definition webhook_run_once :: "webhook_deps \<Rightarrow> webhook_job \<Rightarrow> unit repo" where
  "webhook_run_once deps j =
     act_bind (act_guard (\<not> (wj_outbox j = [] \<or> wj_event j = [] \<or> wj_worker j = []))
       (ErrText ''webhook delivery job is incomplete'')) (\<lambda>_.
     act_bind (load_event (wj_event j)) (\<lambda>event.
     act_bind (list_delivery_endpoints (wr_id event) (wr_type event)) (\<lambda>endpoints.
     act_bind now_utc (\<lambda>now.
     act_bind (act_fold (deliver_to deps now event (wj_worker j)) endpoints ()) (\<lambda>_.
     act_bind now_utc (\<lambda>now.
     finalize_event (wj_outbox j) (wr_id event) now))))))"

section \<open>Registration\<close>

definition known_event_types :: "string list" where
  "known_event_types =
     [''order.created'', ''order.payment_pending'', ''order.payment_confirmed'', ''order.asset_received'',
      ''order.processing'', ''order.completed'', ''order.failed'', ''order.expired'']"

record register_deps =
  rd_resolver :: "resolver option"
  rd_random :: "err + byte list"
  rd_protect :: "(string \<Rightarrow> err + byte list) option"
  rd_hash :: "string \<Rightarrow> string \<Rightarrow> byte list"

definition webhook_register :: "register_deps \<Rightarrow> string \<Rightarrow> string \<Rightarrow> string list \<Rightarrow> (string \<times> string) repo" where
  "webhook_register deps owner raw event_types =
     act_bind (act_guard (\<not> (trim_space owner = [] \<or> 2048 < length raw \<or> \<not> is_deliverable_webhook_url raw))
       ErrInvalidWebhookURL) (\<lambda>_.
     act_bind (act_guard (case rd_resolver deps of None \<Rightarrow> True
         | Some resolve \<Rightarrow> validate_webhook_destination resolve raw = Inr ()) ErrInvalidWebhookURL) (\<lambda>_.
     let types = (if event_types = [] then known_event_types else event_types) in
     act_bind (act_guard (list_all is_known_event_type types) ErrInvalidWebhookEventType) (\<lambda>_.
     act_bind (act_lift (rd_random deps)) (\<lambda>secret_bytes.
     let secret = ''whsec_'' @ b64_raw_url secret_bytes in
     act_bind new_id (\<lambda>i.
     act_bind (act_lift (case rd_protect deps of
         None \<Rightarrow> Inr (rd_hash deps ''kailopay-webhooks'' secret)
       | Some protect \<Rightarrow> protect secret)) (\<lambda>secret_reference.
     act_bind now_utc (\<lambda>now.
     act_bind (create_endpoint \<lparr>er_id = i, er_owner = owner, er_url = raw, er_types = types, er_created = now\<rparr>
       secret_reference) (\<lambda>stored.
     act_ret (stored, secret)))))))))"

section \<open>Controls\<close>

definition control_get_endpoint :: "string \<Rightarrow> string \<Rightarrow> endpoint_view repo" where
  "control_get_endpoint owner endpoint_id =
     (if owner = [] \<or> endpoint_id = [] then act_fail ErrWebhookEndpointNotFound
      else get_endpoint owner endpoint_id)"

definition is_webhook_delivery_status :: "string \<Rightarrow> bool" where
  "is_webhook_delivery_status s \<longleftrightarrow> List.member
     [''delivered'', ''retry_scheduled'', ''failed'', ''exhausted'', ''in_flight'', ''superseded''] s"

definition control_list_deliveries ::
  "cursor_codec \<Rightarrow> string \<Rightarrow> delivery_query \<Rightarrow> (delivery_view list \<times> string) repo" where
  "control_list_deliveries cc owner q0 =
     act_bind (act_guard (owner \<noteq> []) (ErrText ''webhook owner is required'')) (\<lambda>_.
     let q = (if dq_limit q0 = 0 then q0\<lparr>dq_limit := 20\<rparr> else q0) in
     act_bind (act_guard (\<not> (dq_limit q < 1 \<or> 100 < dq_limit q)) (ErrText ''webhook delivery limit is invalid'')) (\<lambda>_.
     act_bind (act_guard (\<not> (dq_status q \<noteq> [] \<and> \<not> is_webhook_delivery_status (dq_status q)))
       (ErrText ''webhook delivery status is invalid'')) (\<lambda>_.
     act_bind (act_guard (case (dq_from q, dq_to q) of (Some a, Some b) \<Rightarrow> \<not> b < a | _ \<Rightarrow> True)
       (ErrText ''webhook delivery date range is invalid'')) (\<lambda>_.
     list_deliveries cc owner q))))"

definition control_enqueue_test :: "string \<Rightarrow> string \<Rightarrow> queued_event repo" where
  "control_enqueue_test owner endpoint_id =
     (if owner = [] \<or> endpoint_id = [] then act_fail ErrWebhookEndpointNotFound
      else act_bind now_utc (\<lambda>now. enqueue_test owner endpoint_id now))"

definition control_replay_delivery :: "string \<Rightarrow> string \<Rightarrow> unit repo" where
  "control_replay_delivery owner delivery_id =
     (if owner = [] \<or> delivery_id = [] then act_fail ErrWebhookDeliveryNotFound
      else act_bind now_utc (\<lambda>now. replay_delivery owner delivery_id now))"

section \<open>Back-off\<close>

definition backoff_shift :: "int \<Rightarrow> nat" where
  "backoff_shift attempt = nat (max 0 (min 6 (attempt - 1)))"

lemma pow_shift_le: "(2::int) ^ backoff_shift attempt \<le> 64"
proof -
  have "backoff_shift attempt \<le> 6" by (simp add: backoff_shift_def)
  then have "(2::int) ^ backoff_shift attempt \<le> 2 ^ 6" by (rule power_increasing) simp
  then show ?thesis by simp
qed

lemma retry_backoff_eq:
  assumes "0 < r" and "r * 64 \<le> int64_max"
  shows "retry_backoff r attempt = min hour (r * 2 ^ backoff_shift attempt)"
proof -
  have "r * 2 ^ backoff_shift attempt \<le> r * 64"
    using pow_shift_le assms(1) by (simp add: mult_left_mono)
  moreover have "0 \<le> r * 2 ^ backoff_shift attempt" using assms(1) by simp
  ultimately have "is_int64 (r * 2 ^ backoff_shift attempt)"
    using assms(2) unfolding is_int64_def int64_min_def by linarith
  then have w: "wrap64 (r * 2 ^ backoff_shift attempt) = r * 2 ^ backoff_shift attempt" by (rule wrap64_id)
  have "nat (if attempt - 1 < 0 then 0 else if 6 < attempt - 1 then 6 else attempt - 1) = backoff_shift attempt"
    by (auto simp: backoff_shift_def)
  with w assms show ?thesis by (simp add: retry_backoff_def Let_def)
qed

lemma retry_backoff_bounds:
  assumes "0 < r" and "r * 64 \<le> int64_max"
  shows "0 < retry_backoff r attempt" "retry_backoff r attempt \<le> hour" "min hour r \<le> retry_backoff r attempt"
proof -
  have "r * 1 \<le> r * 2 ^ backoff_shift attempt" using assms(1) by (intro mult_left_mono) simp_all
  then have "r \<le> r * 2 ^ backoff_shift attempt" by (simp only: mult_1_right)
  then show "min hour r \<le> retry_backoff r attempt"
    unfolding retry_backoff_eq [OF assms] by (rule min.mono [OF order_refl])
  show "0 < retry_backoff r attempt" "retry_backoff r attempt \<le> hour"
    using assms(1) by (simp_all add: retry_backoff_eq [OF assms])
qed

lemma retry_backoff_mono:
  assumes "0 < r" and "r * 64 \<le> int64_max" and "m \<le> n"
  shows "retry_backoff r m \<le> retry_backoff r n"
proof -
  have "backoff_shift m \<le> backoff_shift n" using assms(3) by (auto simp: backoff_shift_def)
  then have "(2::int) ^ backoff_shift m \<le> 2 ^ backoff_shift n" by (rule power_increasing) simp
  then have "r * 2 ^ backoff_shift m \<le> r * 2 ^ backoff_shift n" using assms(1) by simp
  then show ?thesis by (simp add: retry_backoff_eq [OF assms(1,2)])
qed

section \<open>What a run keeps\<close>

lemma load_event_reads: "reads (load_event i)"
  unfolding load_event_def by (intro readsI outcome_intro) simp_all

lemma list_delivery_reads: "reads (list_delivery_endpoints e ty)"
proof (rule readsI)
  fix d t
  have "outcome (act_fold (delivery_endpoint_of ty) rows []) (\<lambda>_ d'. d' = d) (\<lambda>_ d'. d' = d) d t" for rows
    by (rule outcome_fold [where I = "\<lambda>_ d'. d' = d"])
       (auto simp: delivery_endpoint_of_def intro!: outcome_intro)
  then show "outcome (list_delivery_endpoints e ty) (\<lambda>_ d'. d' = d) (\<lambda>_ d'. d' = d) d t"
    unfolding list_delivery_endpoints_def by (intro outcome_intro) simp_all
qed

text \<open>
  A predicate that the three writing operations of a run keep, the run keeps.
\<close>

lemma webhook_run_once_keeps:
  assumes I: "I d"
    and s: "\<And>d e p now. I d \<Longrightarrow> outcome (start_attempt e p (wj_worker j) now (wd_lease deps) (wd_max deps))
      (\<lambda>_. I) (\<lambda>_. I) d t"
    and c: "\<And>d i r. I d \<Longrightarrow> outcome (complete_attempt i r) (\<lambda>_. I) (\<lambda>_. I) d t"
    and f: "\<And>d now. I d \<Longrightarrow> outcome (finalize_event (wj_outbox j) (wj_event j) now) (\<lambda>_. J) (\<lambda>_. J) d t"
    and IJ: "\<And>d. I d \<Longrightarrow> J d"
  shows "outcome (webhook_run_once deps j) (\<lambda>_. J) (\<lambda>_. J) d t"
proof -
  have one: "outcome (deliver_to deps now event (wj_worker j) ep u) (\<lambda>_. I) (\<lambda>_. I) d t" if "I d" for now event ep u d
    unfolding deliver_to_def
    by (rule outcome_seq [OF s [OF that]]) (auto intro!: outcome_intro c)
  have rest: "outcome (act_bind (act_fold (deliver_to deps now event (wj_worker j)) eps ()) (\<lambda>_.
      act_bind now_utc (\<lambda>now. finalize_event (wj_outbox j) (wr_id event) now))) (\<lambda>_. J) (\<lambda>_. J) d t"
    if "I d" "wr_id event = wj_event j" for now event eps d
  proof (rule outcome_seq)
    show "outcome (act_fold (deliver_to deps now event (wj_worker j)) eps ()) (\<lambda>_. I) (\<lambda>_. I) d t"
      by (rule outcome_fold [where I = "\<lambda>_. I", OF one that(1)])
  qed (auto intro!: outcome_intro f IJ simp: that(2))
  show ?thesis
    unfolding webhook_run_once_def load_event_def
    by (intro outcome_bind outcome_guard outcome_now outcome_ret outcome_select_first
          outcome_reads [OF list_delivery_reads] rest)
       (auto simp: I IJ dest: first_by_Some)
qed

lemma webhook_run_once_inv:
  assumes "webhook_inv d"
  shows "outcome (webhook_run_once deps j) (\<lambda>_. webhook_inv) (\<lambda>_. webhook_inv) d t"
  by (rule webhook_run_once_keeps [where I = webhook_inv and J = webhook_inv])
     (simp_all add: assms start_attempt_inv complete_attempt_inv finalize_event_inv)

text \<open>Attempts leave every table but their own alone.\<close>

definition attempts_only :: "db \<Rightarrow> db \<Rightarrow> bool" where
  "attempts_only d0 d \<longleftrightarrow> d0\<lparr>webhook_attempts := webhook_attempts d\<rparr> = d"

lemma attempts_only_refl: "attempts_only d d"
  by (simp add: attempts_only_def)

lemma attempts_only_set: "attempts_only d0 d \<Longrightarrow> attempts_only d0 (d\<lparr>webhook_attempts := rows\<rparr>)"
  by (metis attempts_only_def db.surjective db.update_convs(16) db.select_convs(16))

lemma start_attempt_only:
  assumes "attempts_only d0 d"
  shows "outcome (start_attempt e p worker now lease maxa) (\<lambda>_. attempts_only d0) (\<lambda>_. attempts_only d0) d t"
  unfolding start_attempt_def retire_latest_def update_attempt_def new_attempt_def store_defs Let_def
  by (intro outcome_tx outcome_bind outcome_optional)
     (auto split: attempt_status.splits intro!: outcome_intro attempts_only_set simp: assms)

lemma complete_attempt_only:
  assumes "attempts_only d0 d"
  shows "outcome (complete_attempt i r) (\<lambda>_. attempts_only d0) (\<lambda>_. attempts_only d0) d t"
  unfolding complete_attempt_def store_defs
  by (intro outcome_intro) (auto intro: attempts_only_set simp: assms)

lemma attempts_only_ledger: "attempts_only d0 d \<Longrightarrow> ledger_inv d0 \<Longrightarrow> ledger_inv d"
proof -
  assume a: "attempts_only d0 d" and "ledger_inv d0"
  then have "ledger_inv (d0\<lparr>webhook_attempts := webhook_attempts d\<rparr>)" by (simp add: ledger_inv_def)
  with a show "ledger_inv d" by (simp add: attempts_only_def)
qed

lemma webhook_run_once_ledger:
  assumes "ledger_inv d"
  shows "outcome (webhook_run_once deps j) (\<lambda>_. ledger_inv) (\<lambda>_. ledger_inv) d t"
proof (rule webhook_run_once_keeps [where I = ledger_inv])
  fix d' assume i: "ledger_inv d'"
  show "outcome (start_attempt e p (wj_worker j) now (wd_lease deps) (wd_max deps)) (\<lambda>_. ledger_inv) (\<lambda>_. ledger_inv) d' t"
    for e p now
    by (rule outcome_weaken [OF start_attempt_only [OF attempts_only_refl]])
       (auto intro: attempts_only_ledger i)
  show "outcome (complete_attempt k r) (\<lambda>_. ledger_inv) (\<lambda>_. ledger_inv) d' t" for k r
    by (rule outcome_weaken [OF complete_attempt_only [OF attempts_only_refl]])
       (auto intro: attempts_only_ledger i)
  show "outcome (finalize_event (wj_outbox j) (wj_event j) now) (\<lambda>_. ledger_inv) (\<lambda>_. ledger_inv) d' t" for now
    unfolding finalize_event_def pending_outbox_def store_defs
    by (intro outcome_intro) (use i in \<open>simp_all add: ledger_inv_def\<close>)
qed (simp_all add: assms)

section \<open>No delivery is dropped\<close>

text \<open>
  An attempt of the event is still to be made or to be answered.
\<close>

definition delivery_open :: "string \<Rightarrow> db \<Rightarrow> bool" where
  "delivery_open e d \<longleftrightarrow> list_ex (\<lambda>a. wa_event a = e \<and>
     (wa_status a = WAInFlight \<or> wa_status a = WARetryScheduled \<and> wa_next a \<noteq> None)) (webhook_attempts d)"

definition message_done :: "string \<Rightarrow> db \<Rightarrow> bool" where
  "message_done i d \<longleftrightarrow> list_ex (\<lambda>m. ob_id m = i \<and> ob_processed m \<noteq> None) (outbox d)"

lemma message_done_update:
  assumes "\<not> message_done i d" and "\<And>m. ob_id (f m) = ob_id m" and "\<And>m. ob_processed (f m) = ob_processed m"
  shows "\<not> message_done i (d\<lparr>outbox := update_rows P f (outbox d)\<rparr>)"
  using assms by (auto simp: message_done_def list_ex_iff update_rows_def)

lemma delivery_open_outbox [simp]: "delivery_open e (d\<lparr>outbox := rows\<rparr>) = delivery_open e d"
  by (simp add: delivery_open_def)

lemma finalize_event_open:
  assumes n: "\<not> message_done i d"
  shows "outcome (finalize_event i e now) (\<lambda>_ d'. message_done i d' \<longrightarrow> \<not> delivery_open e d')
    (\<lambda>_ d'. \<not> message_done i d') d t"
  unfolding finalize_event_def pending_outbox_def store_defs
proof (intro outcome_intro, goal_cases)
  case (5 rs)
  then have "\<not> delivery_open e d"
    unfolding delivery_open_def list_ex_iff first_by_None by blast
  then show ?case by simp
qed (simp_all add: n message_done_update)

lemma webhook_run_once_open:
  assumes "\<not> message_done (wj_outbox j) d"
  shows "outcome (webhook_run_once deps j)
    (\<lambda>_ d'. message_done (wj_outbox j) d' \<longrightarrow> \<not> delivery_open (wj_event j) d')
    (\<lambda>_ d'. message_done (wj_outbox j) d' \<longrightarrow> \<not> delivery_open (wj_event j) d') d t"
proof (rule webhook_run_once_keeps [where I = "\<lambda>d. \<not> message_done (wj_outbox j) d"])
  fix d' assume n: "\<not> message_done (wj_outbox j) d'"
  have only: "\<not> message_done (wj_outbox j) d2" if "attempts_only d' d2" for d2
  proof -
    from that have "outbox d2 = outbox d'" unfolding attempts_only_def by (metis db.select_convs(9) db.surjective db.update_convs(16))
    with n show ?thesis by (simp add: message_done_def)
  qed
  show "outcome (start_attempt e p (wj_worker j) now (wd_lease deps) (wd_max deps))
      (\<lambda>_ d. \<not> message_done (wj_outbox j) d) (\<lambda>_ d. \<not> message_done (wj_outbox j) d) d' t" for e p now
    by (rule outcome_weaken [OF start_attempt_only [OF attempts_only_refl]]) (auto dest: only)
  show "outcome (complete_attempt k r)
      (\<lambda>_ d. \<not> message_done (wj_outbox j) d) (\<lambda>_ d. \<not> message_done (wj_outbox j) d) d' t" for k r
    by (rule outcome_weaken [OF complete_attempt_only [OF attempts_only_refl]]) (auto dest: only)
  show "outcome (finalize_event (wj_outbox j) (wj_event j) now)
      (\<lambda>_ d. message_done (wj_outbox j) d \<longrightarrow> \<not> delivery_open (wj_event j) d)
      (\<lambda>_ d. message_done (wj_outbox j) d \<longrightarrow> \<not> delivery_open (wj_event j) d) d' t" for now
    by (rule outcome_weaken [OF finalize_event_open [OF n]]) auto
qed (simp_all add: assms)

end
