(* ===== verification/Email.thy ===== *)
theory Email
  imports Settlement_Usecase Encodings
begin

text \<open>
  The email worker: its outbox (\<open>internal/repository/email_repository.go\<close>) and one pass of it
  (\<open>internal/usecase/email_worker_usecase.go\<close>). The mail provider is a parameter. AES-GCM and the
  JSON text inside it are the two functions \<open>seal\<close> and \<open>unseal\<close> on a nonce and bytes.
\<close>

definition email_verification_topic :: string where
  "email_verification_topic = ''auth.email_verification''"

definition password_reset_topic :: string where
  "password_reset_topic = ''auth.password_reset''"

definition email_topic :: "string \<Rightarrow> bool" where
  "email_topic t \<longleftrightarrow> t = email_verification_topic \<or> t = password_reset_topic"

record email_job =
  ej_id :: string
  ej_topic :: string
  ej_payload :: "(string \<times> string) list"
  ej_attempts :: int

record email_payload =
  ep_recipient :: string
  ep_link :: string

section \<open>The outbox\<close>

definition lease_email :: "int \<Rightarrow> string \<Rightarrow> time \<Rightarrow> duration \<Rightarrow> email_job repo" where
  "lease_email max_attempts worker now dur =
     tx_do (
       act_bind (optional_row (first_row outbox lease_key (\<lambda>m. email_topic (ob_topic m) \<and>
          ob_processed m = None \<and> ob_available m \<le> now \<and> ob_attempts m < max_attempts \<and>
          (case ob_lease_until m of None \<Rightarrow> True | Some u \<Rightarrow> u < now)))) (\<lambda>row.
       case row of None \<Rightarrow> act_fail ErrNoJob
       | Some m \<Rightarrow>
           act_bind (update_outbox (\<lambda>r. ob_id r = ob_id m)
             (\<lambda>r. r\<lparr>ob_lease_owner := Some worker, ob_lease_until := Some (now + dur),
                   ob_attempts := ob_attempts r + 1\<rparr>)) (\<lambda>_.
           act_ret \<lparr>ej_id = ob_id m, ej_topic = ob_topic m, ej_payload = ob_payload m,
             ej_attempts = ob_attempts m + 1\<rparr>)))"

definition update_active_email :: "string \<Rightarrow> (outbox_message \<Rightarrow> outbox_message) \<Rightarrow> unit repo" where
  "update_active_email i f =
     act_bind (update_outbox (\<lambda>m. ob_id m = i \<and> email_topic (ob_topic m) \<and> ob_processed m = None) f) (\<lambda>n.
     act_guard (n = 1) (ErrText ''email outbox message was not active''))"

definition complete_email :: "string \<Rightarrow> time \<Rightarrow> unit repo" where
  "complete_email i now = update_active_email i
     (\<lambda>m. m\<lparr>ob_processed := Some now, ob_lease_owner := None, ob_lease_until := None, ob_error := None\<rparr>)"

definition retry_email :: "string \<Rightarrow> time \<Rightarrow> string \<Rightarrow> unit repo" where
  "retry_email i available safe_error = update_active_email i
     (\<lambda>m. m\<lparr>ob_available := available, ob_lease_owner := None, ob_lease_until := None,
           ob_error := Some safe_error\<rparr>)"

definition fail_email :: "string \<Rightarrow> time \<Rightarrow> string \<Rightarrow> unit repo" where
  "fail_email i now safe_error = update_active_email i
     (\<lambda>m. m\<lparr>ob_processed := Some now, ob_lease_owner := None, ob_lease_until := None,
           ob_error := Some safe_error\<rparr>)"

section \<open>Payloads\<close>

text \<open>The key is part of \<open>seal\<close> and \<open>unseal\<close>; a nonce of GCM has twelve bytes.\<close>

definition gcm_nonce_size :: nat where "gcm_nonce_size = 12"

definition encrypt_email_payload ::
  "(byte list \<Rightarrow> (string \<times> string) list \<Rightarrow> byte list) \<Rightarrow> byte list \<Rightarrow> email_payload \<Rightarrow> (string \<times> string) list" where
  "encrypt_email_payload seal nonce p =
     [(''ciphertext'', b64_raw_std (nonce @
        seal nonce [(''recipient'', ep_recipient p), (''link'', ep_link p)]))]"

definition decrypt_email_payload ::
  "(byte list \<Rightarrow> byte list \<Rightarrow> (string \<times> string) list option) \<Rightarrow> (string \<times> string) list \<Rightarrow> err + email_payload" where
  "decrypt_email_payload unseal payload =
     (let text = deref_str (map_of payload ''ciphertext'') in
      if text = [] then Inl (ErrText ''invalid encrypted email delivery payload'')
      else case b64_raw_std_decode text of
          None \<Rightarrow> Inl (ErrText ''invalid encrypted email delivery payload'')
        | Some bytes \<Rightarrow>
            if length bytes < gcm_nonce_size then Inl (ErrText ''invalid encrypted email delivery payload'')
            else case unseal (take gcm_nonce_size bytes) (drop gcm_nonce_size bytes) of
                None \<Rightarrow> Inl (ErrText ''invalid encrypted email delivery payload'')
              | Some members \<Rightarrow>
                  let recipient = deref_str (map_of members ''recipient'');
                      link = deref_str (map_of members ''link'') in
                  if recipient = [] \<or> link = [] then Inl (ErrText ''invalid email delivery payload'')
                  else Inr \<lparr>ep_recipient = recipient, ep_link = link\<rparr>)"

section \<open>One pass\<close>

record email_deps =
  em_lease :: duration
  em_retry :: duration
  em_max :: int
  em_open :: "byte list \<Rightarrow> byte list \<Rightarrow> (string \<times> string) list option"
  em_send :: "string \<Rightarrow> string \<Rightarrow> string \<Rightarrow> err option"

text \<open>The error, joined with that of the bookkeeping when it fails too.\<close>

definition processed_with :: "err \<Rightarrow> unit repo \<Rightarrow> (bool \<times> err option) repo" where
  "processed_with e m = act_bind (act_try m) (\<lambda>r. case r of
     Inl e' \<Rightarrow> act_ret (True, Some (ErrJoined e e')) | Inr _ \<Rightarrow> act_ret (True, Some e))"

definition email_run_once :: "email_deps \<Rightarrow> string \<Rightarrow> (bool \<times> err option) repo" where
  "email_run_once deps worker =
     act_bind now_utc (\<lambda>now.
     act_bind (act_try (lease_email (em_max deps) worker now (em_lease deps))) (\<lambda>leased. case leased of
       Inl e \<Rightarrow> act_ret (False, if errors_is e ErrNoJob then None else Some e)
     | Inr j \<Rightarrow>
         (case decrypt_email_payload (em_open deps) (ej_payload j) of
            Inl e \<Rightarrow> processed_with e (fail_email (ej_id j) now ''invalid email delivery payload'')
          | Inr p \<Rightarrow>
              if \<not> email_topic (ej_topic j) then
                processed_with (ErrText ''unsupported email delivery topic'')
                  (fail_email (ej_id j) now ''unsupported email delivery topic'')
              else case em_send deps (ej_topic j) (ep_recipient p) (ep_link p) of
                  Some e \<Rightarrow>
                    if em_max deps \<le> ej_attempts j then
                      processed_with e (fail_email (ej_id j) now ''email delivery failed after maximum attempts'')
                    else processed_with e (retry_email (ej_id j) (now + em_retry deps) ''email delivery failed'')
                | None \<Rightarrow> processed (complete_email (ej_id j) now))))"

section \<open>Lemmas\<close>

lemma lease_email_picks:
  assumes "\<And>m os. m \<in> set (outbox d) \<Longrightarrow> email_topic (ob_topic m) \<Longrightarrow> ob_processed m = None \<Longrightarrow>
      ob_available m \<le> now \<Longrightarrow> ob_attempts m < k \<Longrightarrow> lease_over now m \<Longrightarrow>
      os = leased_to (ob_id m) worker (now + dur) (outbox d) \<Longrightarrow>
      Q \<lparr>ej_id = ob_id m, ej_topic = ob_topic m, ej_payload = ob_payload m, ej_attempts = ob_attempts m + 1\<rparr>
        (d\<lparr>outbox := os\<rparr>)"
    and "\<And>e. E e d"
  shows "outcome (lease_email k worker now dur) Q E d t"
  unfolding lease_email_def store_defs
proof (intro outcome_intro assms(2))
  fix m os
  assume f: "first_by lease_key (\<lambda>m. email_topic (ob_topic m) \<and> ob_processed m = None \<and> ob_available m \<le> now \<and>
      ob_attempts m < k \<and> (case ob_lease_until m of None \<Rightarrow> True | Some u \<Rightarrow> u < now)) (outbox d) = Some m"
    and os: "os = update_rows (\<lambda>r. ob_id r = ob_id m)
      (\<lambda>r. r\<lparr>ob_lease_owner := Some worker, ob_lease_until := Some (now + dur),
            ob_attempts := ob_attempts r + 1\<rparr>) (outbox d)"
  show "Q \<lparr>ej_id = ob_id m, ej_topic = ob_topic m, ej_payload = ob_payload m, ej_attempts = ob_attempts m + 1\<rparr>
      (d\<lparr>outbox := os\<rparr>)"
    by (rule assms(1)) (use first_by_Some [OF f] os in \<open>simp_all add: lease_over_def leased_to_def\<close>)
qed simp_all

interpretation email_queue: leased_queue "lease_email k" ej_id email_topic k for k
  by unfold_locales (rule lease_email_picks, auto)

lemma decrypt_encrypt:
  assumes "length nonce = gcm_nonce_size" 
    and "unseal nonce (seal nonce [(''recipient'', ep_recipient p), (''link'', ep_link p)]) =
      Some [(''recipient'', ep_recipient p), (''link'', ep_link p)]"
    and "ep_recipient p \<noteq> []" "ep_link p \<noteq> []"
  shows "decrypt_email_payload unseal (encrypt_email_payload seal nonce p) = Inr p"
proof -
  have "b64_raw_std (nonce @ seal nonce x) \<noteq> []" for x
    using b64_raw_std_decode_encode [of "nonce @ seal nonce x"] assms(1)
    by (auto simp: b64_raw_std_decode_def gcm_nonce_size_def)
  then show ?thesis
    using assms
    by (simp add: decrypt_email_payload_def encrypt_email_payload_def b64_raw_std_decode_encode Let_def deref_str_def)
qed

lemma outcome_processed_with:
  "outcome m (\<lambda>_. I) (\<lambda>_. I) d t \<Longrightarrow> outcome (processed_with e m) (\<lambda>_. I) (\<lambda>_. I) d t"
  unfolding processed_with_def
  by (rule outcome_try_seq [where I = I]) (auto intro!: outcome_case_sum outcome_ret)

lemma update_active_email_ledger:
  "ledger_inv d \<Longrightarrow> outcome (update_active_email i f) (\<lambda>_. ledger_inv) (\<lambda>_. ledger_inv) d t"
  unfolding update_active_email_def store_defs by (intro outcome_intro) (simp_all add: ledger_inv_def)

lemma email_run_once_inv:
  assumes "ledger_inv d"
  shows "outcome (email_run_once deps worker) (\<lambda>_. ledger_inv) (\<lambda>_. ledger_inv) d t"
proof -
  have l: "outcome (lease_email k worker now dur) (\<lambda>_. ledger_inv) (\<lambda>_. ledger_inv) d t" for k now dur
    by (rule lease_email_picks) (use assms in \<open>simp_all add: ledger_inv_def\<close>)
  show ?thesis
    unfolding email_run_once_def complete_email_def retry_email_def fail_email_def
    by (intro outcome_bind [of now_utc] outcome_now outcome_try_seq [OF l] outcome_case_sum outcome_ret
        outcome_if outcome_case_option outcome_processed_with outcome_processed update_active_email_ledger)
qed

end
