(* ===== verification/Worker.thy ===== *)
theory Worker
  imports Offramp_Usecase Webhook_Usecase Email
begin

text \<open>
  The worker process (\<open>cmd/worker/main.go\<close>): the payload decoders of the leased topics and one
  pass over a topic. A pass tells whether a job was taken.
\<close>

section \<open>Payloads\<close>

definition payload_decoder :: "string \<Rightarrow> string \<Rightarrow> (string \<times> string) list \<Rightarrow> err + job" where
  "payload_decoder field message payload =
     (let i = deref_str (map_of payload field) in
      if i = [] then Inl (ErrText message) else Inr \<lparr>jb_outbox = [], jb_intent = i\<rparr>)"

definition intent_payload_decoder :: "(string \<times> string) list \<Rightarrow> err + job" where
  "intent_payload_decoder = payload_decoder ''intent_id'' ''invalid intent payload''"

definition payout_payload_decoder :: "(string \<times> string) list \<Rightarrow> err + job" where
  "payout_payload_decoder = payload_decoder ''order_id'' ''invalid payout payload''"

definition webhook_payload_decoder :: "(string \<times> string) list \<Rightarrow> err + job" where
  "webhook_payload_decoder = payload_decoder ''event_id'' ''invalid webhook payload''"

lemma decoders_by_payload:
  "decoded_by_payload intent_payload_decoder" "decoded_by_payload payout_payload_decoder"
  "decoded_by_payload webhook_payload_decoder"
  by (auto simp: decoded_by_payload_def intent_payload_decoder_def payout_payload_decoder_def
      webhook_payload_decoder_def payload_decoder_def Let_def split: if_splits)

interpretation retire_queue:
  leased_queue "lease_outbox k intent_payload_decoder retire_topic" jb_outbox "\<lambda>topic. topic = retire_topic" k for k
  by unfold_locales (rule lease_outbox_picks [OF decoders_by_payload(1)])

interpretation payout_queue:
  leased_queue "lease_outbox k payout_payload_decoder payout_topic" jb_outbox "\<lambda>topic. topic = payout_topic" k for k
  by unfold_locales (rule lease_outbox_picks [OF decoders_by_payload(2)])

interpretation webhook_queue:
  leased_queue "lease_outbox k webhook_payload_decoder webhook_topic" jb_outbox "\<lambda>topic. topic = webhook_topic" k for k
  by unfold_locales (rule lease_outbox_picks [OF decoders_by_payload(3)])

section \<open>Passes\<close>

record worker_deps =
  wk_id :: string
  wk_max :: int
  wk_lease :: duration
  wk_network :: network
  wk_settlement :: settlement_config
  wk_retire :: retire_worker
  wk_payout :: payout_mode
  wk_webhook :: webhook_deps
  wk_email :: email_deps

text \<open>\<open>runRetirement\<close>, \<open>runPayout\<close> and \<open>runWebhook\<close> lease a job and run it.\<close>

definition run_leased :: "job repo \<Rightarrow> (job \<Rightarrow> unit repo) \<Rightarrow> (bool \<times> err option) repo" where
  "run_leased lease work =
     act_bind (act_try lease) (\<lambda>leased. case leased of
       Inl e \<Rightarrow> act_ret (False, if errors_is e ErrNoJob then None else Some e)
     | Inr j \<Rightarrow> processed (work j))"

definition run_settlement :: "worker_deps \<Rightarrow> (bool \<times> err option) repo" where
  "run_settlement deps = settlement_run_once (wk_network deps) (wk_settlement deps) (wk_id deps)"

definition run_email :: "worker_deps \<Rightarrow> (bool \<times> err option) repo" where
  "run_email deps = email_run_once (wk_email deps) (wk_id deps)"

definition run_retirement :: "worker_deps \<Rightarrow> (bool \<times> err option) repo" where
  "run_retirement deps =
     act_bind now_utc (\<lambda>now.
     run_leased (lease_outbox (wk_max deps) intent_payload_decoder retire_topic (wk_id deps) now (wk_lease deps))
       (\<lambda>j. retire_run_once (wk_retire deps) (jb_intent j)))"

definition run_payout :: "worker_deps \<Rightarrow> (bool \<times> err option) repo" where
  "run_payout deps =
     (if wk_payout deps = PayoutDisabled then act_ret (False, None)
      else act_bind now_utc (\<lambda>now.
        run_leased (lease_outbox (wk_max deps) payout_payload_decoder payout_topic (wk_id deps) now (wk_lease deps))
          (payout_run_once (wk_payout deps))))"

definition run_webhook :: "worker_deps \<Rightarrow> (bool \<times> err option) repo" where
  "run_webhook deps =
     act_bind now_utc (\<lambda>now.
     run_leased (lease_outbox (wk_max deps) webhook_payload_decoder webhook_topic (wk_id deps) now (wk_lease deps))
       (\<lambda>j. webhook_run_once (wk_webhook deps)
          \<lparr>wj_outbox = jb_outbox j, wj_event = jb_intent j, wj_worker = wk_id deps\<rparr>))"

text \<open>
  The topics are polled in order until one has work. Errors are logged by the loop; the result
  tells whether there was work.
\<close>

fun drain_topics :: "(bool \<times> err option) repo list \<Rightarrow> bool repo" where
  "drain_topics [] = act_ret False"
| "drain_topics (m # ms) = act_bind m (\<lambda>r. if fst r then act_ret True else drain_topics ms)"

text \<open>A failed email pass does not count as work, unless the context is done.\<close>

definition worker_tick :: "worker_deps \<Rightarrow> bool repo" where
  "worker_tick deps =
     act_bind (run_email deps) (\<lambda>r.
     act_bind (if snd r = None then act_ret True else ctx_done) (\<lambda>quiet.
     if quiet \<and> fst r then act_ret True
     else drain_topics [run_settlement deps, run_retirement deps, run_payout deps, run_webhook deps]))"

section \<open>The ledger invariant\<close>

lemma outcome_run_leased:
  assumes "outcome lease (\<lambda>_. I) (\<lambda>_. I) d t" and "\<And>j d. I d \<Longrightarrow> outcome (work j) (\<lambda>_. I) (\<lambda>_. I) d t"
  shows "outcome (run_leased lease work) (\<lambda>_. I) (\<lambda>_. I) d t"
  unfolding run_leased_def
  by (rule outcome_try_seq [OF assms(1)]) (auto intro!: outcome_case_sum outcome_ret outcome_processed assms(2))

lemma drain_topics_keeps:
  "(\<And>m d. m \<in> set ms \<Longrightarrow> I d \<Longrightarrow> outcome m (\<lambda>_. I) (\<lambda>_. I) d t) \<Longrightarrow> I d \<Longrightarrow>
   outcome (drain_topics ms) (\<lambda>_. I) (\<lambda>_. I) d t"
proof (induction ms arbitrary: d)
  case Nil
  then show ?case by (simp add: outcome_ret)
next
  case (Cons m ms)
  have m: "outcome m (\<lambda>_. I) (\<lambda>_. I) d t" by (rule Cons.prems(1)) (use Cons.prems in simp_all)
  show ?case
    unfolding drain_topics.simps
    by (rule outcome_seq [OF m]) (auto intro!: outcome_if outcome_ret Cons.IH Cons.prems(1))
qed

lemma worker_tick_inv:
  assumes "ledger_inv d"
  shows "outcome (worker_tick deps) (\<lambda>_. ledger_inv) (\<lambda>_. ledger_inv) d t"
proof -
  have topics: "outcome m (\<lambda>_. ledger_inv) (\<lambda>_. ledger_inv) d t"
    if "m \<in> set [run_settlement deps, run_retirement deps, run_payout deps, run_webhook deps]" "ledger_inv d" for m d
    using that
    by (auto simp: run_settlement_def run_retirement_def run_payout_def run_webhook_def
        intro!: settlement_run_once_inv outcome_bind [of now_utc] outcome_now outcome_if outcome_ret
          outcome_run_leased [OF lease_outbox_inv] retire_run_once_inv payout_run_once_inv webhook_run_once_ledger)
  show ?thesis
    unfolding worker_tick_def run_email_def
    by (rule outcome_seq [OF email_run_once_inv [OF assms]])
       (auto intro!: outcome_intro drain_topics_keeps topics)
qed

end
