(* ===== verification/Mail_Address.thy ===== *)
theory Mail_Address
  imports Web_Address
begin

text \<open>
  Email addresses and display names (\<open>normalizeEmail\<close>, \<open>emailLocalPart\<close> of
  \<open>internal/usecase/auth_usecase.go\<close>) with what they take from the standard library: UTF-8
  decoding, \<open>utf8.RuneCountInString\<close> and the part of \<open>mail.ParseAddress\<close> that matters. Lower
  case is that of \<open>to_lower\<close>: letters outside ASCII keep their case.
\<close>

section \<open>UTF-8\<close>

definition byte_in :: "nat \<Rightarrow> nat \<Rightarrow> char \<Rightarrow> bool" where
  "byte_in lo hi c \<longleftrightarrow> lo \<le> of_char c \<and> of_char c \<le> hi"

abbreviation continuation :: "char \<Rightarrow> bool" where
  "continuation \<equiv> byte_in 0x80 0xBF"

text \<open>The width of the encoding at the head of a text; \<open>None\<close> is \<open>RuneError\<close> with width one.\<close>

definition rune_width :: "string \<Rightarrow> nat option" where
  "rune_width s = (case s of
     [] \<Rightarrow> None
   | a # r \<Rightarrow>
       if byte_in 0 0x7F a then Some 1
       else case r of
         [] \<Rightarrow> None
       | b # r2 \<Rightarrow>
           if byte_in 0xC2 0xDF a \<and> continuation b then Some 2
           else case r2 of
             [] \<Rightarrow> None
           | c # r3 \<Rightarrow>
               if (byte_in 0xE0 0xE0 a \<and> byte_in 0xA0 0xBF b \<or> byte_in 0xED 0xED a \<and> byte_in 0x80 0x9F b \<or>
                   (byte_in 0xE1 0xEC a \<or> byte_in 0xEE 0xEF a) \<and> continuation b) \<and> continuation c then Some 3
               else case r3 of
                 [] \<Rightarrow> None
               | d # _ \<Rightarrow>
                   if (byte_in 0xF0 0xF0 a \<and> byte_in 0x90 0xBF b \<or> byte_in 0xF4 0xF4 a \<and> byte_in 0x80 0x8F b \<or>
                       byte_in 0xF1 0xF3 a \<and> continuation b) \<and> continuation c \<and> continuation d then Some 4
                   else None)"

fun rune_count :: "string \<Rightarrow> nat" where
  "rune_count [] = 0"
| "rune_count (c # s) =
     Suc (rune_count (drop ((case rune_width (c # s) of None \<Rightarrow> 1 | Some n \<Rightarrow> n) - 1) s))"

section \<open>Addresses\<close>

text \<open>
  \<open>mail.ParseAddress(s)\<close> succeeds with \<open>Address = s\<close> exactly when \<open>s\<close> is a bare
  \<open>addr-spec\<close> whose local part is a dot-atom and whose domain is a dot-atom or an address
  literal: in every other accepted form (quoted local part, display name, comment, group) the
  address is shorter than the text.
\<close>

definition is_atext :: "char \<Rightarrow> bool" where
  "is_atext c \<longleftrightarrow> byte_in 0x21 0x7E c \<and>
     c \<notin> {CHR ''('', CHR '')'', CHR ''['', CHR '']'', CHR '';'', CHR ''@'', CHR 0x5C, CHR '','',
          CHR ''<'', CHR ''>'', CHR 0x22, CHR '':''}"

fun atext_only :: "string \<Rightarrow> bool" where
  "atext_only [] = True"
| "atext_only (c # s) = (case rune_width (c # s) of
     None \<Rightarrow> False
   | Some n \<Rightarrow> (n = 1 \<longrightarrow> is_atext c) \<and> atext_only (drop (n - 1) s))"

fun double_dot :: "string \<Rightarrow> bool" where
  "double_dot (a # b # s) \<longleftrightarrow> a = CHR ''.'' \<and> b = CHR ''.'' \<or> double_dot (b # s)"
| "double_dot _ \<longleftrightarrow> False"

definition is_dot_atom :: "string \<Rightarrow> bool" where
  "is_dot_atom s \<longleftrightarrow> s \<noteq> [] \<and> atext_only s \<and> hd s \<noteq> CHR ''.'' \<and> last s \<noteq> CHR ''.'' \<and> \<not> double_dot s"

text \<open>Every text that \<open>net.ParseIP\<close> accepts consists of characters allowed in the literal.\<close>

definition is_domain_literal :: "string \<Rightarrow> bool" where
  "is_domain_literal s \<longleftrightarrow>
     2 \<le> length s \<and> hd s = CHR ''['' \<and> last s = CHR '']'' \<and> parse_ip (butlast (tl s)) \<noteq> None"

definition is_bare_address :: "string \<Rightarrow> bool" where
  "is_bare_address s = (case str_cut (CHR ''@'') s of (local_part, domain, ok) \<Rightarrow>
     ok \<and> is_dot_atom local_part \<and> (is_dot_atom domain \<or> is_domain_literal domain))"

definition normalize_email :: "string \<Rightarrow> err + string" where
  "normalize_email email =
     (let normalized = to_lower (trim_space email) in
      if \<not> is_bare_address normalized \<or> 254 < length normalized then Inl (ErrAuth InvalidCredentials)
      else Inr normalized)"

definition email_local_part :: "string \<Rightarrow> string" where
  "email_local_part email = (case str_cut (CHR ''@'') email of (local_part, _, ok) \<Rightarrow>
     if \<not> ok \<or> local_part = [] then email else local_part)"

lemma normalize_email_Inr:
  "normalize_email e = Inr s \<Longrightarrow> s = to_lower (trim_space e) \<and> is_bare_address s \<and> s \<noteq> []"
  by (auto simp: normalize_email_def Let_def is_bare_address_def split: if_splits)

section \<open>A normalised address needs no trimming\<close>

lemma trim_left_fuel_none:
  "find (\<lambda>p. has_prefix p s) seqs = None \<Longrightarrow> trim_left_fuel n seqs s = s"
  by (cases n) simp_all

lemma trim_left_fuel_done:
  assumes "\<And>p. p \<in> set seqs \<Longrightarrow> p \<noteq> []"
  shows "length s \<le> n \<Longrightarrow> find (\<lambda>p. has_prefix p (trim_left_fuel n seqs s)) seqs = None"
proof (induction n arbitrary: s)
  case 0
  then show ?case using assms by (auto simp: find_None_iff has_prefix_def)
next
  case (Suc n)
  show ?case
  proof (cases "find (\<lambda>p. has_prefix p s) seqs")
    case (Some p)
    then have "p \<in> set seqs" by (auto simp: find_Some_iff)
    then have "0 < length p" using assms [of p] by simp
    then have "length (drop (length p) s) \<le> n" using Suc.prems unfolding length_drop by linarith
    from Suc.IH [OF this] Some show ?thesis by simp
  qed simp
qed

lemma trim_left_fuel_suffix: "\<exists>x. s = x @ trim_left_fuel n seqs s"
proof (induction n arbitrary: s)
  case (Suc n)
  show ?case
  proof (cases "find (\<lambda>p. has_prefix p s) seqs")
    case (Some p)
    then have "has_prefix p s" by (auto simp: find_Some_iff)
    then have "s = p @ drop (length p) s" unfolding has_prefix_def by (metis append_take_drop_id)
    moreover from Suc.IH obtain x where "drop (length p) s = x @ trim_left_fuel n seqs (drop (length p) s)" by blast
    ultimately have "s = (p @ x) @ trim_left_fuel (Suc n) seqs s" using Some by simp
    then show ?thesis by blast
  qed simp
qed simp

definition untrimmed :: "string \<Rightarrow> bool" where
  "untrimmed s \<longleftrightarrow> (\<forall>p \<in> set space_seqs. \<not> has_prefix p s \<and> \<not> has_suffix p s)"

lemma space_seqs_nonempty: "p \<in> set space_seqs \<Longrightarrow> p \<noteq> []"
  by (auto simp: space_seqs_def)

lemma untrimmed_ends:
  assumes "s \<noteq> []" "hd s \<notin> hd ` set space_seqs" "last s \<notin> last ` set space_seqs"
  shows "untrimmed s"
  unfolding untrimmed_def
proof (intro ballI conjI notI)
  fix p assume p: "p \<in> set space_seqs"
  note ne = space_seqs_nonempty [OF p]
  { assume "has_prefix p s"
    then have "hd p = hd s" using ne assms(1) by (cases p; cases s) (auto simp: has_prefix_def)
    with p assms(2) show False by (metis imageI) }
  { assume "has_suffix p s"
    then have "hd (rev p) = hd (rev s)" using ne assms(1)
      by (cases "rev p"; cases "rev s") (auto simp: has_suffix_def has_prefix_def)
    with p assms(3) show False by (metis hd_rev imageI) }
qed

text \<open>A prefix of characters that no white space has.\<close>

lemma has_suffix_split: "has_suffix p s \<longleftrightarrow> (\<exists>u. s = u @ p)"
proof
  assume "has_suffix p s"
  then have "rev s = rev p @ drop (length p) (rev s)"
    unfolding has_suffix_def has_prefix_def by (metis append_take_drop_id length_rev)
  then have "s = rev (drop (length p) (rev s)) @ p" by (metis rev_append rev_rev_ident)
  then show "\<exists>u. s = u @ p" by blast
qed (auto simp: has_suffix_def has_prefix_def)

lemma untrimmed_prefix:
  assumes "untrimmed s" "x \<noteq> []" "\<And>c p. c \<in> set x \<Longrightarrow> p \<in> set space_seqs \<Longrightarrow> c \<notin> set p"
  shows "untrimmed (x @ s)"
  unfolding untrimmed_def
proof (intro ballI conjI notI)
  fix p assume p: "p \<in> set space_seqs"
  note ne = space_seqs_nonempty [OF p]
  { assume "has_prefix p (x @ s)"
    then have "hd p = hd x" using ne assms(2) by (cases p; cases x) (auto simp: has_prefix_def)
    then show False using assms(2) assms(3) [OF _ p] ne by (metis hd_in_set) }
  { assume "has_suffix p (x @ s)"
    then obtain u where "x @ s = u @ p" by (auto simp: has_suffix_split)
    then obtain v where "s = v @ p \<or> x = u @ v \<and> p = v @ s" unfolding append_eq_append_conv2 by auto
    moreover have "\<not> has_suffix p s" using assms(1) p by (simp add: untrimmed_def)
    ultimately have v: "x = u @ v" "p = v @ s" "v \<noteq> []" by (auto simp: has_suffix_split)
    then have "hd v \<in> set x" "hd v \<in> set p" by auto
    with assms(3) p show False by blast }
qed

lemma trim_space_untrimmed: "untrimmed s \<Longrightarrow> trim_space s = s"
  by (simp add: trim_space_def untrimmed_def trim_left_fuel_none find_None_iff has_suffix_def)

lemma untrimmed_trim_space: "untrimmed (trim_space s)"
proof -
  let ?l = "trim_left_fuel (length s) space_seqs s"
  let ?r = "trim_left_fuel (length ?l) (List.map rev space_seqs) (rev ?l)"
  have l: "\<not> has_prefix p ?l" if "p \<in> set space_seqs" for p
    using trim_left_fuel_done [of space_seqs s "length s"] space_seqs_nonempty that
    by (auto simp: find_None_iff)
  have r: "\<not> has_prefix (rev p) ?r" if "p \<in> set space_seqs" for p
    using trim_left_fuel_done [of "List.map rev space_seqs" "rev ?l" "length ?l"] space_seqs_nonempty that
    by (auto simp: find_None_iff)
  obtain x where x: "rev ?l = x @ ?r" using trim_left_fuel_suffix by blast
  then have "?l = rev ?r @ rev x" by (metis rev_append rev_rev_ident)
  then have "has_prefix p ?l" if "has_prefix p (rev ?r)" for p
    using that by (simp add: has_prefix_def) (metis append_take_drop_id append.assoc append_eq_conv_conj)
  then show ?thesis
    using l r by (auto simp: untrimmed_def trim_space_def Let_def has_suffix_def)
qed

text \<open>Lower case leaves white space where it is and brings about none.\<close>

definition is_lower :: "char \<Rightarrow> bool" where
  "is_lower c \<longleftrightarrow> CHR ''a'' \<le> c \<and> c \<le> CHR ''z''"

definition no_lower :: "string \<Rightarrow> bool" where
  "no_lower p \<longleftrightarrow> list_all (\<lambda>c. \<not> is_lower c) p"

lemma ascii_lower_fixed: "\<not> is_lower (ascii_lower c) \<Longrightarrow> ascii_lower c = c"
  by (auto simp: ascii_lower_def is_lower_def less_eq_char_nat of_char_of split: if_splits)

lemma is_lower_ik [simp]: "is_lower (CHR ''i'')" "is_lower (CHR ''k'')"
  by (simp_all add: is_lower_def less_eq_char_nat)

lemma no_lower_Cons [simp]: "no_lower (c # p) \<longleftrightarrow> \<not> is_lower c \<and> no_lower p"
  by (simp add: no_lower_def)

lemma no_lower_seqs: "p \<in> set space_seqs \<Longrightarrow> no_lower p"
  by (auto simp: space_seqs_def no_lower_def is_lower_def less_eq_char_nat)

lemma to_lower_fixed: "no_lower (to_lower t) \<Longrightarrow> to_lower t = t"
  by (induction t rule: to_lower.induct) (auto simp: ascii_lower_fixed split: if_splits)

lemma to_lower_prefix: "no_lower p \<Longrightarrow> to_lower t = p @ x \<Longrightarrow> \<exists>y. t = p @ y"
proof (induction t arbitrary: p rule: to_lower.induct)
  case (2 c s)
  show ?case
  proof (cases p)
    case (Cons d q)
    then have d: "\<not> is_lower d" "no_lower q" using 2(4) by simp_all
    have n: "\<not> (c = CHR 0xC4 \<and> s \<noteq> [] \<and> hd s = CHR 0xB0)"
      "\<not> (c = CHR 0xE2 \<and> has_prefix [CHR 0x84, CHR 0xAA] s)"
      using 2(5) Cons d(1) by (auto split: if_splits)
    then have "ascii_lower c = d" "to_lower s = q @ x"
      using 2(5) Cons by (auto split: if_splits)
    with 2(3) [OF n d(2)] d(1) ascii_lower_fixed [of c] show ?thesis by (auto simp: Cons)
  qed simp
qed simp

lemma to_lower_suffix: "no_lower p \<Longrightarrow> to_lower t = x @ p \<Longrightarrow> \<exists>y. t = y @ p"
proof (induction t arbitrary: x rule: to_lower.induct)
  case (2 c s)
  show ?case
  proof (cases x)
    case Nil
    with 2(4,5) to_lower_fixed [of "c # s"] show ?thesis by auto
  next
    case (Cons d x')
    consider (dot) "c = CHR 0xC4 \<and> s \<noteq> [] \<and> hd s = CHR 0xB0"
      | (kelvin) "\<not> (c = CHR 0xC4 \<and> s \<noteq> [] \<and> hd s = CHR 0xB0)"
          "c = CHR 0xE2 \<and> has_prefix [CHR 0x84, CHR 0xAA] s"
      | (plain) "\<not> (c = CHR 0xC4 \<and> s \<noteq> [] \<and> hd s = CHR 0xB0)"
          "\<not> (c = CHR 0xE2 \<and> has_prefix [CHR 0x84, CHR 0xAA] s)" by blast
    then show ?thesis
    proof cases
      case dot
      with 2(5) Cons have "to_lower (tl s) = x' @ p" by simp
      from 2(1) [OF dot 2(4) this] obtain y where "tl s = y @ p" by blast
      with dot have "c # s = (c # hd s # y) @ p" by (cases s) auto
      then show ?thesis by blast
    next
      case kelvin
      with 2(5) Cons have "to_lower (tl (tl s)) = x' @ p" by (simp split: if_splits)
      from 2(2) [OF kelvin 2(4) this] obtain y where y: "tl (tl s) = y @ p" by blast
      obtain a b r where "s = a # b # r"
        using kelvin(2) by (cases s; cases "tl s") (auto simp: has_prefix_def)
      with y have "c # s = (c # a # b # y) @ p" by simp
      then show ?thesis by blast
    next
      case plain
      with 2(5) Cons have "to_lower s = x' @ p" by (simp split: if_splits)
      from 2(3) [OF plain 2(4) this] obtain y where "s = y @ p" by blast
      then have "c # s = (c # y) @ p" by simp
      then show ?thesis by blast
    qed
  qed
qed simp

lemma untrimmed_to_lower:
  assumes "untrimmed s"
  shows "untrimmed (to_lower s)"
  unfolding untrimmed_def
proof (intro ballI conjI notI)
  fix p assume p: "p \<in> set space_seqs"
  { assume "has_prefix p (to_lower s)"
    then have "to_lower s = p @ drop (length p) (to_lower s)"
      unfolding has_prefix_def by (metis append_take_drop_id)
    from to_lower_prefix [OF no_lower_seqs [OF p] this] assms p show False
      by (auto simp: untrimmed_def has_prefix_def) }
  { assume "has_suffix p (to_lower s)"
    then have "rev (to_lower s) = rev p @ drop (length p) (rev (to_lower s))"
      unfolding has_suffix_def has_prefix_def by (metis append_take_drop_id length_rev)
    then have "to_lower s = rev (drop (length p) (rev (to_lower s))) @ p"
      by (metis rev_append rev_rev_ident)
    from to_lower_suffix [OF no_lower_seqs [OF p] this] assms p show False
      by (auto simp: untrimmed_def has_suffix_def has_prefix_def) }
qed

lemma trim_space_normalized: "normalize_email e = Inr s \<Longrightarrow> trim_space s = s"
  using untrimmed_to_lower [OF untrimmed_trim_space] by (auto dest!: normalize_email_Inr intro: trim_space_untrimmed)

end
