(* ===== verification/Passwords.thy ===== *)
theory Passwords
  imports Web_Address
begin

text \<open>
  Password hashes (\<open>hashPassword\<close>, \<open>verifyPassword\<close> of \<open>internal/usecase/auth_usecase.go\<close>): the
  text \<open>$argon2id$v=\<dots>$m=\<dots>,t=\<dots>,p=\<dots>$salt$hash\<close> and its parser. The function \<open>argon2.IDKey\<close> of
  \<open>golang.org/x/crypto\<close> is the parameter \<open>kdf\<close>: password, salt, time, memory, threads, key
  length. It panics on a zero time or zero threads.
\<close>

type_synonym kdf = "byte list \<Rightarrow> byte list \<Rightarrow> nat \<Rightarrow> nat \<Rightarrow> nat \<Rightarrow> nat \<Rightarrow> byte list"

definition argon_time :: int where "argon_time = 2"
definition argon_memory :: int where "argon_memory = 19 * 1024"
definition argon_threads :: int where "argon_threads = 1"
definition argon_salt_len :: nat where "argon_salt_len = 16"
definition argon_key_len :: nat where "argon_key_len = 32"
definition argon_version :: int where "argon_version = 19"

text \<open>The bytes of a text.\<close>

definition str_bytes :: "string \<Rightarrow> byte list" where
  "str_bytes s = List.map (\<lambda>c. of_nat (of_char c)) s"

definition bytes_str :: "byte list \<Rightarrow> string" where
  "bytes_str bs = List.map (\<lambda>b. char_of (unat b)) bs"

lemma bytes_str_bytes [simp]: "bytes_str (str_bytes s) = s"
proof -
  have "char_of (unat (of_nat (of_char c) :: byte)) = c" for c
    by (simp add: unsigned_of_nat take_bit_eq_mod)
  then show ?thesis by (simp add: bytes_str_def str_bytes_def comp_def)
qed

lemma str_bytes_inj: "str_bytes s = str_bytes t \<Longrightarrow> s = t"
  using bytes_str_bytes by metis

lemma length_str_bytes [simp]: "length (str_bytes s) = length s"
  by (simp add: str_bytes_def)

text \<open>\<open>strconv.Atoi\<close>.\<close>

definition atoi :: "string \<Rightarrow> int option" where
  "atoi s =
     (let neg = has_prefix ''-'' s; ds = (if neg \<or> has_prefix ''+'' s then tl s else s);
          v = (if neg then - int (digits_val ds) else int (digits_val ds)) in
      if ds = [] \<or> \<not> list_all is_digit ds \<or> \<not> is_int64 v then None else Some v)"

definition trim_prefix :: "string \<Rightarrow> string \<Rightarrow> string" where
  "trim_prefix p s = (if has_prefix p s then drop (length p) s else s)"

section \<open>Hashing and verifying\<close>

definition encode_password :: "byte list \<Rightarrow> byte list \<Rightarrow> string" where
  "encode_password salt key =
     ''$argon2id$v='' @ format_int argon_version @ ''$m='' @ format_int argon_memory @
     '',t='' @ format_int argon_time @ '',p='' @ format_int argon_threads @ ''$'' @
     b64_raw_std salt @ ''$'' @ b64_raw_std key"

text \<open>The salt is the one that \<open>rand.Read\<close> delivers.\<close>

definition hash_password :: "kdf \<Rightarrow> byte list \<Rightarrow> string \<Rightarrow> string" where
  "hash_password kdf salt password =
     encode_password salt (kdf (str_bytes password) salt (nat argon_time) (nat argon_memory)
       (nat argon_threads) argon_key_len)"

definition verify_password :: "kdf \<Rightarrow> string \<Rightarrow> string \<Rightarrow> err + bool \<times> bool" where
  "verify_password kdf encoded password =
     (let parts = split_on (CHR ''$'') encoded in
      if length parts \<noteq> 6 \<or> parts ! 1 \<noteq> ''argon2id'' then Inl (ErrText ''unsupported password hash format'')
      else case atoi (trim_prefix ''v='' (parts ! 2)) of
        None \<Rightarrow> Inl (ErrText ''invalid password hash version'')
      | Some version \<Rightarrow>
          let params = split_on (CHR '','') (parts ! 3) in
          if length params \<noteq> 3 then Inl (ErrText ''invalid password hash parameters'')
          else case atoi (trim_prefix ''m='' (params ! 0)) of
            None \<Rightarrow> Inl (ErrText ''invalid password hash memory'')
          | Some memory \<Rightarrow> (case atoi (trim_prefix ''t='' (params ! 1)) of
            None \<Rightarrow> Inl (ErrText ''invalid password hash time'')
          | Some rounds \<Rightarrow> (case atoi (trim_prefix ''p='' (params ! 2)) of
            None \<Rightarrow> Inl (ErrText ''invalid password hash threads'')
          | Some threads \<Rightarrow> (case b64_raw_std_decode (parts ! 4) of
            None \<Rightarrow> Inl (ErrText ''invalid password hash salt'')
          | Some salt \<Rightarrow> (case b64_raw_std_decode (parts ! 5) of
            None \<Rightarrow> Inl (ErrText ''invalid password hash digest'')
          | Some want \<Rightarrow>
              let t = nat (rounds mod 2 ^ 32); m = nat (memory mod 2 ^ 32); p = nat (threads mod 2 ^ 8) in
              if t = 0 \<or> p = 0 then Inl (ErrText ''panic: argon2'')
              else
                let got = kdf (str_bytes password) salt t m p (length want mod 2 ^ 32);
                    match = got = want in
                Inr (match, match \<and> (version \<noteq> argon_version \<or> memory \<noteq> argon_memory \<or>
                  rounds \<noteq> argon_time \<or> threads \<noteq> argon_threads)))))))"

section \<open>Round trip\<close>

lemma b64_raw_std_plain: "c \<in> set (b64_raw_std bs) \<Longrightarrow> c \<noteq> CHR ''$''"
proof -
  have "CHR ''$'' \<notin> set b64_std_alphabet" by (simp add: b64_std_alphabet_def)
  moreover have "length b64_std_alphabet = 64" by (simp add: b64_std_alphabet_def)
  moreover assume "c \<in> set (b64_raw_std bs)"
  ultimately show ?thesis
    using b64_sextets_less [OF unat_bytes [of bs]]
    by (auto simp: b64_raw_std_def list_all_iff) (metis nth_mem)
qed

lemma split_on_absent: "c \<notin> set s \<Longrightarrow> split_on c s = [s]"
  by (induction s) auto

lemma split_on_append: "c \<notin> set s \<Longrightarrow> split_on c (s @ c # t) = s # split_on c t"
  by (induction s) auto

lemma split_encoded:
  "split_on (CHR ''$'') (encode_password salt key) =
     [[], ''argon2id'', ''v=19'', ''m=19456,t=2,p=1'', b64_raw_std salt, b64_raw_std key]"
proof -
  have d: "CHR ''$'' \<notin> set (b64_raw_std bs)" for bs using b64_raw_std_plain by blast
  have "encode_password salt key = [] @ CHR ''$'' # ''argon2id'' @ CHR ''$'' # ''v=19'' @ CHR ''$'' #
      ''m=19456,t=2,p=1'' @ CHR ''$'' # b64_raw_std salt @ CHR ''$'' # b64_raw_std key"
    by (simp add: encode_password_def format_int_def argon_version_def argon_memory_def argon_time_def
        argon_threads_def nat_str.simps digit_char_def char_of_def bit_iff_odd)
  then show ?thesis
    by (simp only: split_on_append d split_on_absent) (simp add: split_on_append d split_on_absent)
qed

lemma verify_encoded:
  assumes "length key = argon_key_len"
  shows "verify_password kdf (encode_password salt key) password =
    Inr (kdf (str_bytes password) salt (nat argon_time) (nat argon_memory) (nat argon_threads) argon_key_len = key, False)"
  using assms
  by (simp add: verify_password_def split_encoded Let_def b64_raw_std_decode_encode atoi_def trim_prefix_def
      has_prefix_def is_digit_nat digits_val_def digit_val_def is_int64_def int64_min_def int64_max_def
      argon_version_def argon_memory_def argon_time_def argon_threads_def argon_key_len_def)

end
