(* ===== verification/Auth_Repo.thy ===== *)
theory Auth_Repo
  imports Email Mail_Address Passwords
begin

text \<open>
  The repository of accounts and sign-ins (\<open>internal/repository/auth_repository.go\<close>): login
  transactions, identities, sessions, profiles, password credentials and single-use challenges.
  Token hashes are byte strings; the email job of a challenge goes to the outbox of the email
  worker in the same transaction.
\<close>

section \<open>Data\<close>

record login_transaction =
  lt_id :: string
  lt_state :: "byte list"
  lt_nonce :: "byte list"
  lt_verifier :: "byte list"
  lt_expires :: time
  lt_consumed :: "time option"

record identity =
  id_provider :: string
  id_subject :: string
  id_email :: string
  id_verified :: bool
  id_name :: string

record session_record =
  se_token :: "byte list"
  se_expires :: time
  se_last_used :: "time option"

record challenge_record =
  cl_user :: string
  cl_token :: "byte list"
  cl_purpose :: string
  cl_expires :: time

record email_delivery =
  ed_id :: string
  ed_topic :: string
  ed_aggregate :: string
  ed_payload :: "(string \<times> string) list"
  ed_available :: time

record register_record =
  rr_user :: string
  rr_email :: string
  rr_name :: string
  rr_hash :: string
  rr_challenge :: challenge_record
  rr_job :: email_delivery

record credential_state =
  cs_user :: string
  cs_email :: string
  cs_name :: string
  cs_hash :: string
  cs_verified :: bool
  cs_active :: bool
  cs_failed :: int
  cs_locked :: "time option"

record user_profile =
  up_id :: string
  up_name :: string
  up_email :: string
  up_verified :: bool
  up_developer :: bool
  up_avatar_url :: string
  up_avatar_key :: string

record authenticated_user =
  au_user :: user_profile
  au_session :: string
  au_last_used :: time

definition provider_google :: string where "provider_google = ''google''"
definition provider_credentials :: string where "provider_credentials = ''email''"

definition user_profile_of :: "user \<Rightarrow> user_profile" where
  "user_profile_of u = \<lparr>up_id = us_id u, up_name = us_display u, up_email = deref_str (us_email u),
     up_verified = (us_verified u \<noteq> None), up_developer = (us_developer u \<noteq> None), up_avatar_url = [],
     up_avatar_key = deref_str (us_avatar u)\<rparr>"

definition is_unique_violation :: "err \<Rightarrow> bool" where
  "is_unique_violation e \<longleftrightarrow> errors_is e ErrDuplicateKey"

text \<open>\<open>if errors.Is(err, gorm.ErrRecordNotFound) \<dots>\<close>: a missing row becomes the error \<open>e\<close>.\<close>

definition or_missing :: "err \<Rightarrow> 'r repo \<Rightarrow> 'r repo" where
  "or_missing e m = act_bind (optional_row m) (\<lambda>r. case r of None \<Rightarrow> act_fail e | Some x \<Rightarrow> act_ret x)"

text \<open>\<open>RowsAffected\<close> of an update whose error is not looked at.\<close>

definition affected :: "nat repo \<Rightarrow> nat repo" where
  "affected m = act_bind (act_try m) (\<lambda>r. case r of Inl _ \<Rightarrow> act_ret 0 | Inr n \<Rightarrow> act_ret n)"

section \<open>Login transactions\<close>

text \<open>A \<open>uuid\<close> column refuses the empty text.\<close>

definition create_login_tx :: "login_transaction \<Rightarrow> unit repo" where
  "create_login_tx t = act_bind now_utc (\<lambda>now.
     act_bind (act_guard (lt_id t \<noteq> []) ErrDatabase) (\<lambda>_.
     insert_auth_tx \<lparr>at_id = lt_id t, at_state = lt_state t, at_nonce = lt_nonce t, at_verifier = lt_verifier t,
       at_expires = lt_expires t, at_consumed = lt_consumed t, at_created = now\<rparr>))"

definition consume_login_tx :: "byte list \<Rightarrow> time \<Rightarrow> login_transaction repo" where
  "consume_login_tx state now =
     tx_do (
       act_bind (or_missing (ErrAuth InvalidTransaction)
         (first_row (\<lambda>d. auth_txs (accts d)) at_id (\<lambda>r. at_state r = state \<and> at_consumed r = None \<and> now < at_expires r))) (\<lambda>row.
       act_bind (affected (update_auth_txs (\<lambda>r. at_id r = at_id row \<and> at_consumed r = None \<and> now < at_expires r)
         (\<lambda>r. r\<lparr>at_consumed := Some now\<rparr>))) (\<lambda>n.
       act_bind (act_guard (n = 1) (ErrAuth InvalidTransaction)) (\<lambda>_.
       act_ret \<lparr>lt_id = at_id row, lt_state = at_state row, lt_nonce = at_nonce row,
         lt_verifier = at_verifier row, lt_expires = at_expires row, lt_consumed = Some now\<rparr>))))"

section \<open>Identities and sessions\<close>

definition find_user :: "(user \<Rightarrow> bool) \<Rightarrow> user repo" where
  "find_user P = first_row users us_id P"

text \<open>The account of a new identity: a verified account with its email, or a new one.\<close>

definition linked_user :: "identity \<Rightarrow> time \<Rightarrow> string repo" where
  "linked_user ident now =
     act_bind (if trim_space (id_email ident) = [] then act_ret None
       else optional_row (find_user (\<lambda>u. us_email u = Some (id_email ident) \<and> us_verified u \<noteq> None \<and>
         us_status u = active_user_status))) (\<lambda>existing.
     let linked = (case existing of None \<Rightarrow> [] | Some u \<Rightarrow> us_id u) in
     if linked \<noteq> [] then act_ret linked
     else
       act_bind new_uuid (\<lambda>user_id.
       act_bind (act_guard (user_id \<noteq> []) (ErrText ''generating user id'')) (\<lambda>_.
       act_bind (insert_user
         \<lparr>us_id = user_id, us_status = active_user_status, us_display = id_name ident,
          us_email = (if trim_space (id_email ident) = [] then None else Some (trim_space (id_email ident))),
          us_avatar = None, us_verified = (if id_verified ident then Some now else None),
          us_developer = None, us_created = now, us_updated = now\<rparr>) (\<lambda>_.
       act_ret user_id))))"

definition upsert_identity :: "identity \<Rightarrow> time \<Rightarrow> user_identity option \<Rightarrow> user_identity repo" where
  "upsert_identity ident now found = (case found of
     None \<Rightarrow>
       act_bind (linked_user ident now) (\<lambda>user_id.
       act_bind new_uuid (\<lambda>i.
       let row = \<lparr>ui_id = i, ui_user = user_id, ui_provider = id_provider ident, ui_subject = id_subject ident,
         ui_created = now, ui_last_login = Some now\<rparr> in
       act_bind (act_guard (i \<noteq> []) (ErrText ''generating identity id'')) (\<lambda>_.
       act_bind (insert_identity row) (\<lambda>_. act_ret row))))
   | Some row \<Rightarrow>
       act_bind (update_identities (\<lambda>r. ui_id r = ui_id row) (\<lambda>r. r\<lparr>ui_last_login := Some now\<rparr>)) (\<lambda>_.
       act_ret row))"

text \<open>The profile fields that a sign-in refreshes.\<close>

definition refreshed_user :: "identity \<Rightarrow> time \<Rightarrow> user \<Rightarrow> user" where
  "refreshed_user ident now u = u\<lparr>
     us_display := (if trim_space (id_name ident) \<noteq> [] \<and> id_name ident \<noteq> us_display u
                    then id_name ident else us_display u),
     us_email := (if trim_space (id_email ident) \<noteq> [] then Some (trim_space (id_email ident)) else us_email u),
     us_verified := (if id_verified ident \<and> us_verified u = None then Some now else us_verified u),
     us_updated := now\<rparr>"

definition upsert_identity_and_create_session :: "identity \<Rightarrow> session_record \<Rightarrow> user_profile repo" where
  "upsert_identity_and_create_session ident session =
     tx_do (
       act_bind (optional_row (first_row (\<lambda>d. identities (accts d)) ui_id
         (\<lambda>r. ui_provider r = id_provider ident \<and> ui_subject r = id_subject ident))) (\<lambda>found.
       act_bind now_utc (\<lambda>now.
       act_bind (upsert_identity ident now found) (\<lambda>row.
       act_bind (find_user (\<lambda>u. us_id u = ui_user row)) (\<lambda>u.
       act_bind (act_guard (us_status u = active_user_status) (ErrAuth UserDisabled)) (\<lambda>_.
       let user' = refreshed_user ident now u in
       act_bind (update_users (\<lambda>r. us_id r = us_id u) (\<lambda>_. user')) (\<lambda>_.
       act_bind new_uuid (\<lambda>i.
       act_bind (act_guard (i \<noteq> []) (ErrText ''generating session id'')) (\<lambda>_.
       act_bind (insert_session \<lparr>rs_id = i, rs_user = us_id user', rs_token = se_token session,
         rs_expires = se_expires session, rs_last_used = se_last_used session, rs_revoked = None,
         rs_created = now, rs_updated = now\<rparr>) (\<lambda>_.
       act_ret (user_profile_of user')))))))))))"

definition revoke_session :: "byte list \<Rightarrow> time \<Rightarrow> unit repo" where
  "revoke_session token now =
     act_bind (update_sessions (\<lambda>s. rs_token s = token \<and> rs_revoked s = None)
       (\<lambda>s. s\<lparr>rs_revoked := Some (timestamptz now), rs_updated := timestamptz now\<rparr>)) (\<lambda>_. act_ret ())"

definition revoke_sessions_for_user :: "string \<Rightarrow> time \<Rightarrow> unit repo" where
  "revoke_sessions_for_user user_id now =
     act_bind (update_sessions (\<lambda>s. rs_user s = user_id \<and> rs_revoked s = None)
       (\<lambda>s. s\<lparr>rs_revoked := Some (timestamptz now), rs_updated := timestamptz now\<rparr>)) (\<lambda>_. act_ret ())"

text \<open>The instant from which a session counts as idle.\<close>

definition last_activity :: "retail_session \<Rightarrow> time" where
  "last_activity s = (case rs_last_used s of None \<Rightarrow> rs_created s | Some t \<Rightarrow> t)"

definition session_live :: "duration \<Rightarrow> time \<Rightarrow> retail_session \<Rightarrow> bool" where
  "session_live idle now s \<longleftrightarrow> rs_revoked s = None \<and> now < rs_expires s \<and> now < last_activity s + idle"

definition find_active_session :: "duration \<Rightarrow> byte list \<Rightarrow> time \<Rightarrow> authenticated_user repo" where
  "find_active_session idle token now =
     act_bind (or_missing (ErrAuth InvalidSession) (first_row sessions rs_id (\<lambda>s. rs_token s = token))) (\<lambda>s.
     act_bind (act_guard (0 < idle) (ErrText ''auth session idle lifetime is not configured'')) (\<lambda>_.
     act_bind (act_guard (session_live idle now s) (ErrAuth InvalidSession)) (\<lambda>_.
     act_bind (or_missing (ErrAuth InvalidSession) (find_user (\<lambda>u. us_id u = rs_user s))) (\<lambda>u.
     act_bind (act_guard (us_status u = active_user_status) (ErrAuth UserDisabled)) (\<lambda>_.
     act_bind (case rs_last_used s of
         None \<Rightarrow> act_ret now
       | Some used \<Rightarrow>
           if 5 * minute \<le> time_sub now used then
             act_bind (update_sessions (\<lambda>r. rs_id r = rs_id s) (\<lambda>r. r\<lparr>rs_last_used := Some (timestamptz now), rs_updated := timestamptz now\<rparr>))
               (\<lambda>_. act_ret now)
           else act_ret used) (\<lambda>used.
     act_ret \<lparr>au_user = user_profile_of u, au_session = rs_id s, au_last_used = used\<rparr>))))))"

section \<open>Profiles\<close>

abbreviation active_user :: "string \<Rightarrow> user \<Rightarrow> bool" where
  "active_user i u \<equiv> us_id u = i \<and> us_status u = active_user_status"

definition update_display_name :: "string \<Rightarrow> string \<Rightarrow> user_profile repo" where
  "update_display_name user_id name =
     tx_do (
       act_bind (or_missing (ErrAuth InvalidSession) (find_user (active_user user_id))) (\<lambda>u.
       act_bind now_utc (\<lambda>now.
       let user' = u\<lparr>us_display := name, us_updated := now\<rparr> in
       act_bind (update_users (\<lambda>r. us_id r = us_id u) (\<lambda>_. user')) (\<lambda>_.
       act_ret (user_profile_of user')))))"

definition find_profile :: "string \<Rightarrow> user_profile repo" where
  "find_profile user_id =
     act_bind (or_missing (ErrAuth InvalidSession) (find_user (active_user user_id))) (\<lambda>u.
     act_ret (user_profile_of u))"

definition set_developer_mode :: "string \<Rightarrow> bool \<Rightarrow> user_profile repo" where
  "set_developer_mode user_id enabled =
     act_bind now_utc (\<lambda>now.
     act_bind (update_users (active_user user_id)
       (\<lambda>u. u\<lparr>us_developer := (if enabled then Some now else None), us_updated := now\<rparr>)) (\<lambda>n.
     act_bind (act_guard (n \<noteq> 0) (ErrAuth InvalidSession)) (\<lambda>_.
     find_profile user_id)))"

text \<open>\<open>ReplaceAvatarObjectKey\<close> and \<open>ClearAvatarObjectKey\<close>: the new profile and the previous key.\<close>

definition update_avatar_key :: "string \<Rightarrow> string option \<Rightarrow> (user_profile \<times> string) repo" where
  "update_avatar_key user_id key =
     tx_do (
       act_bind (or_missing (ErrAuth InvalidSession) (find_user (active_user user_id))) (\<lambda>u.
       act_bind now_utc (\<lambda>now.
       act_bind (update_users (\<lambda>r. us_id r = us_id u) (\<lambda>r. r\<lparr>us_avatar := key, us_updated := now\<rparr>)) (\<lambda>_.
       act_ret (user_profile_of (u\<lparr>us_avatar := key, us_updated := now\<rparr>), deref_str (us_avatar u))))))"

section \<open>Credentials\<close>

definition create_email_outbox_message :: "email_delivery \<Rightarrow> time \<Rightarrow> unit repo" where
  "create_email_outbox_message job now =
     act_bind (act_guard (\<not> (ed_id job = [] \<or> ed_topic job = [] \<or> ed_aggregate job = [] \<or> ed_payload job = []))
       (ErrText ''email delivery record is incomplete'')) (\<lambda>_.
     insert_outbox \<lparr>ob_id = ed_id job, ob_topic = ed_topic job, ob_aggregate_type = ''user'',
       ob_aggregate = ed_aggregate job, ob_payload = ed_payload job, ob_created = now,
       ob_available = (if ed_available job = 0 then now else ed_available job), ob_lease_owner = None,
       ob_lease_until = None, ob_attempts = 0, ob_processed = None, ob_error = None\<rparr>)"

definition new_challenge :: "challenge_record \<Rightarrow> time \<Rightarrow> unit repo" where
  "new_challenge c now =
     act_bind new_uuid (\<lambda>i.
     act_bind (act_guard (i \<noteq> []) (ErrText ''generating challenge id'')) (\<lambda>_.
     insert_challenge \<lparr>ch_id = i, ch_user = cl_user c, ch_token = cl_token c, ch_purpose = cl_purpose c,
       ch_expires = cl_expires c, ch_consumed = None, ch_created = now\<rparr>))"

definition new_credential :: "string \<Rightarrow> string \<Rightarrow> time \<Rightarrow> unit repo" where
  "new_credential user_id hash now =
     act_bind new_uuid (\<lambda>i.
     act_bind (act_guard (i \<noteq> []) (ErrText ''generating credential id'')) (\<lambda>_.
     insert_credential \<lparr>cr_id = i, cr_user = user_id, cr_hash = hash, cr_failed = 0, cr_locked = None,
       cr_changed = now, cr_created = now, cr_updated = now\<rparr>))"

definition create_user_with_credential :: "register_record \<Rightarrow> unit repo" where
  "create_user_with_credential r =
     act_bind (act_try (tx_do (
       act_bind now_utc (\<lambda>now.
       act_bind (insert_user
         \<lparr>us_id = rr_user r, us_status = active_user_status, us_display = rr_name r,
          us_email = Some (rr_email r), us_avatar = None, us_verified = None, us_developer = None,
          us_created = now, us_updated = now\<rparr>) (\<lambda>_.
       act_bind (new_credential (rr_user r) (rr_hash r) now) (\<lambda>_.
       act_bind new_uuid (\<lambda>i.
       act_bind (act_guard (i \<noteq> []) (ErrText ''generating identity id'')) (\<lambda>_.
       act_bind (insert_identity
         \<lparr>ui_id = i, ui_user = rr_user r, ui_provider = provider_credentials, ui_subject = rr_email r,
          ui_created = now, ui_last_login = None\<rparr>) (\<lambda>_.
       act_bind (new_challenge (rr_challenge r) now) (\<lambda>_.
       create_email_outbox_message (rr_job r) now)))))))))) (\<lambda>res. case res of
       Inl e \<Rightarrow> act_fail (if is_unique_violation e then ErrAuth EmailTaken else e)
     | Inr _ \<Rightarrow> act_ret ())"

definition credential_for_user :: "user \<Rightarrow> credential_state option repo" where
  "credential_for_user u =
     act_bind (optional_row (first_row (\<lambda>d. credentials (accts d)) cr_id (\<lambda>c. cr_user c = us_id u))) (\<lambda>found.
     case found of None \<Rightarrow> act_ret None
     | Some c \<Rightarrow> act_ret (Some
         \<lparr>cs_user = us_id u, cs_email = deref_str (us_email u), cs_name = us_display u, cs_hash = cr_hash c,
          cs_verified = (us_verified u \<noteq> None), cs_active = (us_status u = active_user_status),
          cs_failed = cr_failed c, cs_locked = cr_locked c\<rparr>))"

definition find_credential :: "(user \<Rightarrow> bool) \<Rightarrow> credential_state option repo" where
  "find_credential P = act_bind (optional_row (find_user P)) (\<lambda>found.
     case found of None \<Rightarrow> act_ret None | Some u \<Rightarrow> credential_for_user u)"

definition find_credential_by_email :: "string \<Rightarrow> credential_state option repo" where
  "find_credential_by_email email = find_credential (\<lambda>u. us_email u = Some email)"

definition find_credential_by_user_id :: "string \<Rightarrow> credential_state option repo" where
  "find_credential_by_user_id user_id = find_credential (\<lambda>u. us_id u = user_id)"

definition find_user_by_email :: "string \<Rightarrow> user_profile option repo" where
  "find_user_by_email email =
     act_bind (optional_row (find_user (\<lambda>u. us_email u = Some email \<and> us_status u = active_user_status))) (\<lambda>found.
     act_ret (map_option user_profile_of found))"

definition increment_login_failures :: "string \<Rightarrow> int \<Rightarrow> duration \<Rightarrow> time \<Rightarrow> unit repo" where
  "increment_login_failures user_id max_failures lock now =
     act_bind (update_credentials (\<lambda>c. cr_user c = user_id)
       (\<lambda>c. c\<lparr>cr_failed := cr_failed c + 1,
             cr_locked := (if max_failures \<le> cr_failed c + 1 then Some (now + lock) else cr_locked c),
             cr_updated := now\<rparr>)) (\<lambda>_. act_ret ())"

definition reset_login_failures :: "string \<Rightarrow> time \<Rightarrow> unit repo" where
  "reset_login_failures user_id now =
     act_bind (update_credentials (\<lambda>c. cr_user c = user_id)
       (\<lambda>c. c\<lparr>cr_failed := 0, cr_locked := None, cr_updated := now\<rparr>)) (\<lambda>_. act_ret ())"

definition update_password_hash :: "string \<Rightarrow> string \<Rightarrow> time \<Rightarrow> unit repo" where
  "update_password_hash user_id hash now =
     tx_do (
       act_bind (update_credentials (\<lambda>c. cr_user c = user_id)
         (\<lambda>c. c\<lparr>cr_hash := hash, cr_changed := now, cr_failed := 0, cr_locked := None, cr_updated := now\<rparr>)) (\<lambda>n.
       if 0 < n then act_ret ()
       else act_bind (act_try (new_credential user_id hash now)) (\<lambda>r. case r of
           Inl e \<Rightarrow> if is_unique_violation e then act_ret () else act_fail e
         | Inr _ \<Rightarrow> act_ret ())))"

definition set_email_verified :: "string \<Rightarrow> time \<Rightarrow> user_profile repo" where
  "set_email_verified user_id now =
     act_bind (update_users (\<lambda>u. active_user user_id u \<and> us_verified u = None)
       (\<lambda>u. u\<lparr>us_verified := Some now, us_updated := now\<rparr>)) (\<lambda>_.
     find_profile user_id)"

section \<open>Challenges\<close>

definition create_challenge_with_email_job :: "challenge_record \<Rightarrow> email_delivery \<Rightarrow> unit repo" where
  "create_challenge_with_email_job c job =
     tx_do (
       act_bind now_utc (\<lambda>now.
       act_bind (new_challenge c now) (\<lambda>_.
       create_email_outbox_message job now)))"

definition consume_challenge :: "byte list \<Rightarrow> string \<Rightarrow> time \<Rightarrow> string repo" where
  "consume_challenge token purpose now =
     tx_do (
       act_bind (or_missing (ErrAuth InvalidChallenge)
         (first_row (\<lambda>d. challenges (accts d)) ch_id
           (\<lambda>c. ch_token c = token \<and> ch_purpose c = purpose \<and> ch_consumed c = None \<and> now < ch_expires c))) (\<lambda>row.
       act_bind (affected (update_challenges (\<lambda>c. ch_id c = ch_id row \<and> ch_consumed c = None \<and> now < ch_expires c)
         (\<lambda>c. c\<lparr>ch_consumed := Some now\<rparr>))) (\<lambda>n.
       act_bind (act_guard (n = 1) (ErrAuth InvalidChallenge)) (\<lambda>_.
       act_ret (ch_user row)))))"

end
