(* ===== verification/Table_Laws.thy ===== *)
theory Table_Laws
  imports Tables
begin

text \<open>
  Laws of the tables that several components use: rows that later states carry along
  (\<open>carried\<close>), and the unique keys that \<open>check_unique\<close> checks after an update.
\<close>

section \<open>Rows that are carried along\<close>

definition carried :: "('r \<Rightarrow> 'k) \<Rightarrow> ('r \<Rightarrow> 't option) \<Rightarrow> 'r list \<Rightarrow> 'r list \<Rightarrow> bool" where
  "carried k stamp old new \<longleftrightarrow>
     (\<forall>r \<in> set old. \<exists>q \<in> set new. k q = k r \<and> (stamp r \<noteq> None \<longrightarrow> stamp q = stamp r))"

lemma carried_refl [simp]: "carried k stamp rows rows"
  unfolding carried_def by blast

lemma carried_trans: "carried k stamp a b \<Longrightarrow> carried k stamp b c \<Longrightarrow> carried k stamp a c"
  unfolding carried_def by (metis (no_types))

lemma carried_append [simp]: "carried k stamp rows (rows @ new)"
  unfolding carried_def by auto

lemma in_update_rows: "r \<in> set rows \<Longrightarrow> (if P r then f r else r) \<in> set (update_rows P f rows)"
  by (auto simp: update_rows_def)

lemma carried_stamped: "carried k stamp a b \<Longrightarrow> r \<in> set a \<Longrightarrow> stamp r \<noteq> None \<Longrightarrow>
    \<exists>q \<in> set b. k q = k r \<and> stamp q = stamp r"
  by (auto simp: carried_def)

lemma carried_update:
  assumes "\<And>r. r \<in> set rows \<Longrightarrow> P r \<Longrightarrow> k (f r) = k r \<and> (stamp r \<noteq> None \<longrightarrow> stamp (f r) = stamp r)"
  shows "carried k stamp rows (update_rows P f rows)"
  unfolding carried_def
proof
  fix r assume r: "r \<in> set rows"
  then have "(if P r then f r else r) \<in> set (update_rows P f rows)" by (rule in_update_rows)
  with assms [OF r] show "\<exists>q \<in> set (update_rows P f rows). k q = k r \<and> (stamp r \<noteq> None \<longrightarrow> stamp q = stamp r)"
    by (auto split: if_splits)
qed

lemma carried_keys: "carried k stamp a b \<Longrightarrow> k ` set a \<subseteq> k ` set b"
  unfolding carried_def by (auto 0 3 intro: rev_image_eqI)

lemma map_update_rows_on:
  "(\<And>r. r \<in> set rows \<Longrightarrow> P r \<Longrightarrow> g (f r) = g r) \<Longrightarrow> List.map g (update_rows P f rows) = List.map g rows"
  by (simp add: update_rows_def)

lemma set_keys_update_rows:
  "(\<And>r. r \<in> set rows \<Longrightarrow> P r \<Longrightarrow> g (f r) = g r) \<Longrightarrow> g ` set (update_rows P f rows) = g ` set rows"
  using map_update_rows_on [of rows P g f] by (metis list.set_map)

lemma distinct_snoc:
  "distinct (List.map k rows) \<Longrightarrow> (\<And>q. q \<in> set rows \<Longrightarrow> k r \<noteq> k q) \<Longrightarrow> distinct (List.map k (rows @ [r]))"
  by auto

section \<open>Unique keys\<close>

lemma check_unique_snoc:
  "check_unique k rows = None \<Longrightarrow> (\<And>q. q \<in> set rows \<Longrightarrow> \<not> same_some (k r) (k q)) \<Longrightarrow>
   check_unique k (rows @ [r]) = None"
  by (auto simp: check_unique_def same_some_def split: if_splits) metis

lemma check_unique_inj:
  assumes "check_unique k rows = None" "a \<in> set rows" "b \<in> set rows" "k a = k b" "k a \<noteq> None"
  shows "a = b"
proof -
  have "inj_on k (set (filter (\<lambda>r. k r \<noteq> None) rows))"
    using assms(1) by (simp add: check_unique_def distinct_map split: if_splits)
  moreover have "a \<in> set (filter (\<lambda>r. k r \<noteq> None) rows)" "b \<in> set (filter (\<lambda>r. k r \<noteq> None) rows)"
    using assms by auto
  ultimately show ?thesis using assms(4) by (meson inj_onD)
qed

lemma check_unique_map: "List.map k rows = List.map k rows' \<Longrightarrow> check_unique k rows = check_unique k rows'"
proof -
  have "List.map k (filter (\<lambda>r. k r \<noteq> None) rs) = filter (\<lambda>x. x \<noteq> None) (List.map k rs)" for rs
    by (simp add: filter_map o_def)
  moreover assume "List.map k rows = List.map k rows'"
  ultimately show ?thesis by (simp add: check_unique_def)
qed

end
