(* ===== verification/Steady.thy ===== *)
theory Steady
  imports Auth_Repo Interfaces Table_Laws
begin

text \<open>
  Predicates on the database that an action keeps, whether it succeeds or fails: \<open>steady I m\<close>.
  The rules \<open>steady_intro\<close> walk through the body of an action; what is left are the statements
  that write the tables \<open>I\<close> speaks of. The components around the order ledger (API keys, identity
  verification, wallets) prove their invariants with them.
\<close>

named_theorems steady_intro "rules for predicates that an action keeps"

definition steady :: "(db \<Rightarrow> bool) \<Rightarrow> 'a repo \<Rightarrow> bool" where
  "steady I m \<longleftrightarrow> (\<forall>d t. I d \<longrightarrow> outcome m (\<lambda>_. I) (\<lambda>_. I) d t)"

lemma steadyI: "(\<And>d t. I d \<Longrightarrow> outcome m (\<lambda>_. I) (\<lambda>_. I) d t) \<Longrightarrow> steady I m"
  by (simp add: steady_def)

lemma steadyD: "steady I m \<Longrightarrow> I d \<Longrightarrow> outcome m (\<lambda>_. I) (\<lambda>_. I) d t"
  by (simp add: steady_def)

lemma steady_run: "steady I m \<Longrightarrow> I (w_db w) \<Longrightarrow> m w = (r, w') \<Longrightarrow> I (w_db w')"
  using outcome_state [OF steadyD, of I m w] by simp

lemma steady_bind [steady_intro]:
  assumes "steady I m" and "\<And>x. steady I (f x)"
  shows "steady I (act_bind m f)"
  by (rule steadyI, rule outcome_bind, rule outcome_weaken [OF steadyD [OF assms(1)]])
     (use steadyD [OF assms(2)] in auto)

lemma steady_ret [steady_intro]: "steady I (act_ret x)"
  by (rule steadyI) (simp add: outcome_ret)

lemma steady_fail [steady_intro]: "steady I (act_fail e)"
  by (rule steadyI) (simp add: outcome_fail)

lemma steady_guard [steady_intro]: "steady I (act_guard b e)"
  by (simp add: act_guard_def steady_ret steady_fail)

lemma steady_lift [steady_intro]: "steady I (act_lift r)"
  by (rule steadyI, rule outcome_lift) simp_all

lemma steady_reads: "reads m \<Longrightarrow> steady I m"
  by (rule steadyI, rule outcome_reads)

lemma steady_now [steady_intro]: "steady I now_utc"
  by (rule steadyI, rule outcome_now)

lemma steady_new_id [steady_intro]: "steady I new_id"
  by (rule steadyI, rule outcome_new_id) simp_all

lemma steady_random [steady_intro]: "steady I (random_bytes n)" "steady I (random_string n)"
  by (rule steadyI, rule outcome_random_bytes outcome_random_string; simp)+

lemma steady_try [steady_intro]: "steady I m \<Longrightarrow> steady I (act_try m)"
  by (rule steadyI, rule outcome_try) (rule steadyD)

lemma steady_tx_body [steady_intro]: "steady I m \<Longrightarrow> steady I (tx_body m)"
  by (rule steadyI, rule outcome_weaken [OF outcome_tx_body [OF outcome_weaken [OF steadyD]]]) simp_all

lemma steady_tx [steady_intro]: "steady I m \<Longrightarrow> steady I (tx_do m)"
  by (rule steadyI, rule outcome_tx, rule outcome_weaken [OF steadyD]) simp_all

lemma steady_if [steady_intro]: "(c \<Longrightarrow> steady I a) \<Longrightarrow> (\<not> c \<Longrightarrow> steady I b) \<Longrightarrow> steady I (if c then a else b)"
  by simp

lemma steady_let [steady_intro]: "(\<And>x. x = e \<Longrightarrow> steady I (f x)) \<Longrightarrow> steady I (let x = e in f x)"
  by simp

lemma steady_case_sum [steady_intro]:
  "(\<And>e. steady I (f e)) \<Longrightarrow> (\<And>x. steady I (g x)) \<Longrightarrow> steady I (case r of Inl e \<Rightarrow> f e | Inr x \<Rightarrow> g x)"
  by (cases r) auto

lemma steady_case_option [steady_intro]:
  "steady I f \<Longrightarrow> (\<And>x. steady I (g x)) \<Longrightarrow> steady I (case r of None \<Rightarrow> f | Some x \<Rightarrow> g x)"
  by (cases r) auto

lemma steady_case_prod [steady_intro]: "(\<And>x y. steady I (f x y)) \<Longrightarrow> steady I (case p of (x, y) \<Rightarrow> f x y)"
  by (cases p) auto

lemma steady_select [steady_intro]: "steady I (select f)"
  by (rule steadyI, rule outcome_select) simp_all

lemma steady_select_first [steady_intro]: "steady I (select_first f)"
  by (rule steadyI, rule outcome_select_first) simp_all

lemma steady_optional [steady_intro]: "steady I m \<Longrightarrow> steady I (optional_row m)"
  unfolding optional_row_def by (intro steady_intro)

lemma steady_or_missing [steady_intro]: "steady I m \<Longrightarrow> steady I (or_missing e m)"
  unfolding or_missing_def by (intro steady_intro)

lemma steady_affected [steady_intro]: "steady I m \<Longrightarrow> steady I (affected m)"
  unfolding affected_def by (intro steady_intro)

lemma steady_find_user [steady_intro]: "steady I (find_user P)"
  unfolding find_user_def by (intro steady_intro)

text \<open>The queries of the repositories.\<close>

lemma outcome_find_user:
  assumes "\<And>u. u \<in> set (users d) \<Longrightarrow> P u \<Longrightarrow> Q u d" and "\<And>e. E e d"
  shows "outcome (find_user P) Q E d t"
  unfolding find_user_def by (rule outcome_select_first) (use assms in \<open>auto dest: first_by_Some\<close>)

lemma outcome_or_missing [outcome_intro]:
  assumes "\<And>x. f d = Some x \<Longrightarrow> Q x d" and "\<And>e. E e d"
  shows "outcome (or_missing e (select_first f)) Q E d t"
  unfolding or_missing_def
  by (rule outcome_bind, rule outcome_optional) (auto intro!: outcome_ret outcome_fail assms)

lemma outcome_or_missing_user:
  assumes "\<And>u. u \<in> set (users d) \<Longrightarrow> P u \<Longrightarrow> Q u d" and "\<And>e. E e d"
  shows "outcome (or_missing e (find_user P)) Q E d t"
  unfolding find_user_def by (rule outcome_or_missing) (use assms in \<open>auto dest: first_by_Some\<close>)

text \<open>The statements.\<close>

lemma steady_insert:
  "(\<And>d. I d \<Longrightarrow> (\<And>q. q \<in> set (tab d) \<Longrightarrow> \<not> clash r q) \<Longrightarrow> I (put (tab d @ [r]) d)) \<Longrightarrow>
   steady I (insert_row clash tab put r)"
  by (rule steadyI, rule outcome_insert) auto

lemma steady_update:
  "(\<And>d. I d \<Longrightarrow> chk (update_rows P f (tab d)) = None \<Longrightarrow> I (put (update_rows P f (tab d)) d)) \<Longrightarrow>
   steady I (update_table chk tab put P f)"
  by (rule steadyI, rule outcome_update) auto

lemma steady_sql:
  "(\<And>d x d'. I d \<Longrightarrow> f d = (Inr x, d') \<Longrightarrow> I d') \<Longrightarrow> steady I (sql f)"
  by (rule steadyI, rule outcome_sql) auto

text \<open>What a steady tail adds to what its head has established.\<close>

lemma outcome_then_steady:
  assumes "outcome m (\<lambda>_. I) (\<lambda>_ _. True) d t" and "\<And>x. steady I (f x)"
  shows "outcome (act_bind m f) (\<lambda>_. I) (\<lambda>_ _. True) d t"
  by (rule outcome_bind, rule outcome_weaken [OF assms(1)])
     (auto intro: outcome_weaken [OF steadyD [OF assms(2)]])

text \<open>
  The databases that calls of a system lead to, each call with its own draws, faults and time.
\<close>

inductive history :: "('o \<Rightarrow> unit repo) \<Rightarrow> db \<Rightarrow> db \<Rightarrow> bool" for run d where
  history_now: "history run d d"
| history_call: "history run d (w_db w) \<Longrightarrow> run op w = (r, w') \<Longrightarrow> history run d (w_db w')"

lemma history_one: "history run (w_db w) (w_db (snd (run op w)))"
  by (rule history_call [OF history_now, of run op w "fst (run op w)"]) simp

lemma steady_history:
  assumes "\<And>op. steady I (run op)" and "history run d d'" and "I d"
  shows "I d'"
  using assms(2,3) by induction (auto intro: steady_run [OF assms(1)])

text \<open>Systems of steady operations keep their predicate along every schedule.\<close>

lemma steady_invariant_system: "(\<And>op. steady I (run op)) \<Longrightarrow> invariant_system run I"
  by unfold_locales (rule steadyD)

end
