(* ===== verification/Calm_Runs.thy ===== *)
theory Calm_Runs
  imports Progress Auth_Repo
begin

text \<open>
  Further forward rules for calm worlds: random draws, optional rows, attempts that end in an
  error, and the world of an example.
\<close>

lemma runs_random [runs_intro]:
  "(\<And>b. length b = n \<Longrightarrow> Q b d js) \<Longrightarrow> runs (random_bytes n) Q d (i # js) t"
  "(\<And>b. length b = n \<Longrightarrow> Q' (b64_raw_url b) d js) \<Longrightarrow> runs (random_string n) Q' d (i # js) t"
  unfolding random_string_def random_bytes_def by (intro runs_intro; simp)+

lemma runs_new_uuid [runs_intro]: "Q i d js \<Longrightarrow> runs new_uuid Q d (i # js) t"
  unfolding new_uuid_def by (intro runs_intro)

lemma runs_affected [runs_intro]: "runs m Q d is t \<Longrightarrow> runs (affected m) Q d is t"
  unfolding affected_def by (rule runs_bind, rule runs_try) (auto intro: runs_ret elim: runs_weaken)

lemma runs_or_missing: "f d = Some x \<Longrightarrow> Q x d is \<Longrightarrow> runs (or_missing e (select_first f)) Q d is t"
  unfolding or_missing_def by (intro runs_bind runs_optional runs_case_Some runs_ret)

lemma runs_try_fail: "Q (Inl e) d is \<Longrightarrow> runs (act_try (act_fail e)) Q d is t"
  by (rule runsI) (simp add: act_try_def act_fail_def)

lemma runs_try_bind:
  "runs m (\<lambda>x d' js. runs (act_try (f x)) Q d' js t) d is t \<Longrightarrow> runs (act_try (act_bind m f)) Q d is t"
proof (rule runsI)
  fix w assume m: "runs m (\<lambda>x d' js. runs (act_try (f x)) Q d' js t) d is t"
    and w: "calm w" "w_db w = d" "w_ids w = is" "w_now w = t"
  from runsE [OF m w] obtain x w1 where 1: "m w = (Inr x, w1)" "calm w1" "w_now w1 = t"
    "runs (act_try (f x)) Q (w_db w1) (w_ids w1) t" .
  from runsE [OF 1(4,2) refl refl 1(3)] obtain r w2 where
    "act_try (f x) w1 = (Inr r, w2)" "calm w2" "w_now w2 = t" "Q r (w_db w2) (w_ids w2)" .
  with 1 show "\<exists>r w'. act_try (act_bind m f) w = (Inr r, w') \<and> calm w' \<and> w_now w' = t \<and> Q r (w_db w') (w_ids w')"
    by (auto simp: act_try_def act_bind_def split: prod.splits)
qed

lemma runs_try_result:
  "runs (act_try m) (\<lambda>r d' _. Q r d') (w_db w) (w_ids w) (w_now w) \<Longrightarrow> calm w \<Longrightarrow> m w = (r, w') \<Longrightarrow> Q r (w_db w')"
  by (erule runsE [of _ _ _ _ _ w]) (auto simp: act_try_def)

text \<open>Calm runs in the world of an example.\<close>

lemma world0_facts: "w_db (world0 d is t) = d" "calm (world0 d is t)" "w_now (world0 d is t) = t"
  by (simp_all add: world0_def calm_def)

lemma runs_world0: "runs m Q d is t \<Longrightarrow> \<exists>x w'. m (world0 d is t) = (Inr x, w') \<and> Q x (w_db w') (w_ids w')"
  by (erule runsE [of _ _ _ _ _ "world0 d is t"]) (auto simp: world0_def calm_def)

end
