(* ===== verification/Order_Frame.thy ===== *)
theory Order_Frame
  imports Onramp_Usecase Offramp_Usecase Steady Calm_Runs
begin

text \<open>
  What the two order creations leave alone: the account tables, the users, the sessions and the
  protocol transactions; and what they keep of the orders on file: identity, direction and owner.
  The components that call them prove their own invariants with it.
\<close>

definition order_terms :: "order_record \<Rightarrow> string \<times> string \<times> string option \<times> string option \<times> string option \<times> string option" where
  "order_terms r = (or_id r, or_direction r, or_client_id r, or_created_by r, or_retail_session r, or_wallet_account r)"

definition kept_orders :: "order_record list \<Rightarrow> order_record list \<Rightarrow> bool" where
  "kept_orders old new \<longleftrightarrow> carried order_terms (\<lambda>_. None :: unit option) old new \<and> distinct (List.map or_id new)"

definition other_tables :: "db \<Rightarrow> account_db \<times> user list \<times> retail_session list \<times> sep24_transaction list" where
  "other_tables d = (accts d, users d, sessions d, sep24_txs d)"

definition orders_from :: "db \<Rightarrow> db \<Rightarrow> bool" where
  "orders_from d0 d \<longleftrightarrow> other_tables d = other_tables d0 \<and> kept_orders (orders d0) (orders d)"

lemma kept_orders_refl: "distinct (List.map or_id rs) \<Longrightarrow> kept_orders rs rs"
  by (simp add: kept_orders_def)

lemma kept_orders_trans: "kept_orders a b \<Longrightarrow> kept_orders b c \<Longrightarrow> kept_orders a c"
  unfolding kept_orders_def by (auto intro: carried_trans)

lemma orders_from_refl: "distinct (List.map or_id (orders d)) \<Longrightarrow> orders_from d d"
  by (simp add: orders_from_def kept_orders_refl)

lemma kept_order:
  "kept_orders old new \<Longrightarrow> r \<in> set old \<Longrightarrow> \<exists>q \<in> set new. order_terms q = order_terms r"
  unfolding kept_orders_def carried_def by auto

lemma kept_orders_insert:
  "kept_orders old rs \<Longrightarrow> (\<And>q. q \<in> set rs \<Longrightarrow> or_id r \<noteq> or_id q) \<Longrightarrow> kept_orders old (rs @ [r])"
  unfolding kept_orders_def by (intro conjI distinct_snoc) (auto intro: carried_trans)

lemma kept_orders_update:
  assumes "kept_orders old rs" and "\<And>r. P r \<Longrightarrow> order_terms (f r) = order_terms r"
  shows "kept_orders old (update_rows P f rs)"
proof -
  have "List.map or_id (update_rows P f rs) = List.map or_id rs"
    by (rule map_update_rows_on) (use assms(2) in \<open>simp add: order_terms_def\<close>)
  moreover have "carried order_terms (\<lambda>_. None :: unit option) rs (update_rows P f rs)"
    by (rule carried_update) (use assms(2) in simp)
  ultimately show ?thesis using assms(1) unfolding kept_orders_def by (auto intro: carried_trans)
qed

named_theorems order_frame "statements that keep orders_from"

lemma frame_insert_order [order_frame]: "steady (orders_from d0) (insert_order r)"
  unfolding insert_order_def
  by (rule steady_insert) (auto simp: orders_from_def other_tables_def intro!: kept_orders_insert)

lemma frame_update_orders [order_frame]:
  "(\<And>r. P r \<Longrightarrow> order_terms (f r) = order_terms r) \<Longrightarrow> steady (orders_from d0) (update_orders P f)"
  unfolding update_orders_def
  by (rule steady_update) (auto simp: orders_from_def other_tables_def intro: kept_orders_update)

lemma frame_inserts [order_frame]:
  "steady (orders_from d0) (insert_event e)" "steady (orders_from d0) (insert_treasury tr)"
  "steady (orders_from d0) (insert_reservation q)" "steady (orders_from d0) (insert_checkout c)"
  "steady (orders_from d0) (insert_idempotency i)" "steady (orders_from d0) (insert_outbox m)"
  "steady (orders_from d0) (insert_financial f)" "steady (orders_from d0) (insert_webhook_event w)"
  unfolding store_defs by (intro steady_intro steady_insert; simp add: orders_from_def other_tables_def)+

lemma frame_updates [order_frame]:
  "steady (orders_from d0) (update_treasuries P f)" "steady (orders_from d0) (update_reservations R g)"
  "steady (orders_from d0) (update_idempotency S h)"
  unfolding store_defs by (intro steady_update; simp add: orders_from_def other_tables_def)+

lemma frame_finds [order_frame]:
  "steady I (find_order i)" "steady I (find_stellar i s)" "steady I (find_payout i)"
  unfolding store_defs by (intro steady_intro)+

lemma steady_fold [steady_intro]: "(\<And>x a. steady I (f x a)) \<Longrightarrow> steady I (act_fold f xs a)"
  by (rule steadyI, rule outcome_fold) (rule steadyD)

lemma steady_get [steady_intro]: "steady I (act_get g)"
  by (rule steadyI, rule outcomeI) (auto simp: act_get_def)

lemma frame_events [order_frame]:
  "steady (orders_from d0) (append_order_event i v e p n t)"
  unfolding append_order_event_def append_order_event_from_source_def append_public_webhook_event_def
  by (intro steady_intro order_frame)

lemma frame_financial [order_frame]: "steady (orders_from d0) (create_sandbox_order_financial r)"
  unfolding create_sandbox_order_financial_def by (intro steady_intro order_frame)

lemma frame_retail [order_frame]: "steady I (validate_retail_session_ownership p)"
  unfolding validate_retail_session_ownership_def by (intro steady_intro)

lemma frame_add_reserved [order_frame]: "steady (orders_from d0) (add_reserved i n)"
  unfolding add_reserved_def by (intro steady_intro order_frame)

lemma frame_lock_treasury [order_frame]: "steady (orders_from d0) (lock_treasury c n t)"
  unfolding lock_treasury_def by (intro steady_intro order_frame)

lemma frame_views [order_frame]: "steady I (onramp_order_view r)" "steady I (offramp_order_view r)"
  unfolding onramp_order_view_def offramp_order_view_def by (intro steady_intro order_frame)+

lemma frame_gets [order_frame]: "steady I (onramp_get p i)" "steady I (offramp_get p i)"
  "steady I (onramp_usecase_get p i)" "steady I (onramp_get_by_wallet u i)"
  unfolding onramp_get_def offramp_get_def get_order_def onramp_usecase_get_def onramp_get_by_wallet_def
  by (intro steady_intro order_frame)+

lemma frame_replays [order_frame]: "steady I (onramp_find_replay p k h)" "steady I (offramp_find_replay p k h)"
  unfolding onramp_find_replay_def offramp_find_replay_def find_replay_of_def by (intro steady_intro order_frame)+

lemma frame_reserve [order_frame]: "steady (orders_from d0) (reserve_and_create c r n)"
  unfolding reserve_and_create_def Let_def by (intro steady_intro order_frame)

lemma frame_create_offramp [order_frame]: "steady (orders_from d0) (create_offramp c r)"
  unfolding create_offramp_def Let_def by (intro steady_intro order_frame)

lemma frame_checkouts [order_frame]:
  "steady (orders_from d0) (attach_checkout i co)" "steady (orders_from d0) (fail_checkout i s)"
  "steady (orders_from d0) (mark_checkout_unknown i s)"
  unfolding attach_checkout_def attach_checkout_tx_def fail_checkout_def release_failed_order_def mark_checkout_unknown_def
  by (intro steady_intro order_frame; simp add: order_terms_def)+

lemma frame_replayed [order_frame]: "steady I (replayed v)" "steady I (offramp_answer v)"
  unfolding replayed_def offramp_answer_def by (intro steady_intro)+

lemma frame_after_failed [order_frame]:
  "(\<And>k h. steady I (replay k h)) \<Longrightarrow> (\<And>v. steady I (answer v)) \<Longrightarrow> steady I (after_failed_create replay answer k h e)"
  unfolding after_failed_create_def by (intro steady_intro)

lemma steady_case_gateway [steady_intro]:
  "steady I a \<Longrightarrow> (\<And>e. steady I (b e)) \<Longrightarrow> steady I (case f of GatewayUnknown \<Rightarrow> a | GatewayRejected e \<Rightarrow> b e)"
  by (cases f) auto

lemma frame_open_checkout [order_frame]: "steady (orders_from d0) (open_checkout deps i c q)"
  unfolding open_checkout_def by (intro steady_intro order_frame)

lemma frame_onramp_create [order_frame]: "steady (orders_from d0) (onramp_create deps cfg c)"
  unfolding onramp_create_def onramp_reserve_def Let_def by (intro steady_intro order_frame)

lemma frame_offramp_create [order_frame]: "steady (orders_from d0) (offramp_create deps cfg c)"
  unfolding offramp_create_def offramp_price_def offramp_store_def Let_def by (intro steady_intro order_frame)

text \<open>A predicate that holds along with the frame holds of the two creations.\<close>

lemma frame_steady:
  assumes "\<And>d0. steady (orders_from d0) m" and "\<And>d d'. I d \<Longrightarrow> orders_from d d' \<Longrightarrow> I d'"
    and "\<And>d. I d \<Longrightarrow> distinct (List.map or_id (orders d))"
  shows "steady I m"
proof (rule steadyI)
  fix d t assume i: "I d"
  from steadyD [OF assms(1) orders_from_refl [OF assms(3) [OF i]]]
  show "outcome m (\<lambda>_. I) (\<lambda>_. I) d t" by (rule outcome_weaken) (use assms(2) [OF i] in blast)+
qed

end
