(* ===== verification/Leases.thy ===== *)
theory Leases
  imports Worker System Order_Frame
begin

text \<open>
  The five queues of the outbox over time: leases by any number of workers, interleaved with all
  operations of orders, webhooks and emails. None of the operations that give a message up compares
  the owner of the lease, so a lease is safe as long as nobody else gives up that very message.
\<close>

section \<open>Leases\<close>

datatype queue = SettlementQueue | RetirementQueue | PayoutQueue | WebhookQueue | EmailQueue

fun lease_message :: "int \<Rightarrow> queue \<Rightarrow> string \<Rightarrow> time \<Rightarrow> duration \<Rightarrow> string repo" where
  "lease_message k SettlementQueue worker now dur = act_bind (settlement_lease k worker now dur) (\<lambda>j. act_ret (jb_outbox j))"
| "lease_message k RetirementQueue worker now dur =
     act_bind (lease_outbox k intent_payload_decoder retire_topic worker now dur) (\<lambda>j. act_ret (jb_outbox j))"
| "lease_message k PayoutQueue worker now dur =
     act_bind (lease_outbox k payout_payload_decoder payout_topic worker now dur) (\<lambda>j. act_ret (jb_outbox j))"
| "lease_message k WebhookQueue worker now dur =
     act_bind (lease_outbox k webhook_payload_decoder webhook_topic worker now dur) (\<lambda>j. act_ret (jb_outbox j))"
| "lease_message k EmailQueue worker now dur = act_bind (lease_email k worker now dur) (\<lambda>j. act_ret (ej_id j))"

definition held :: "string \<Rightarrow> string \<Rightarrow> time \<Rightarrow> db \<Rightarrow> bool" where
  "held i worker until d \<longleftrightarrow> list_ex (\<lambda>m. ob_id m = i) (outbox d) \<and>
     list_all (\<lambda>m. ob_id m = i \<longrightarrow> ob_lease_owner m = Some worker \<and> ob_lease_until m = Some until) (outbox d)"

definition message_rows :: "string \<Rightarrow> db \<Rightarrow> outbox_message list" where
  "message_rows i d = filter (\<lambda>m. ob_id m = i) (outbox d)"

lemma held_rows: "held i worker until d \<longleftrightarrow> message_rows i d \<noteq> [] \<and>
    list_all (\<lambda>m. ob_lease_owner m = Some worker \<and> ob_lease_until m = Some until) (message_rows i d)"
  by (auto simp: held_def message_rows_def list_ex_iff list_all_iff filter_empty_conv)

lemma held_same: "message_rows i d' = message_rows i d \<Longrightarrow> held i worker until d \<Longrightarrow> held i worker until d'"
  by (simp add: held_rows)

lemma rows_update:
  "(\<And>m. m \<in> set rows \<Longrightarrow> P m \<Longrightarrow> ob_id m \<noteq> i \<and> ob_id (f m) = ob_id m) \<Longrightarrow>
   filter (\<lambda>m. ob_id m = i) (update_rows P f rows) = filter (\<lambda>m. ob_id m = i) rows"
  by (induction rows) (auto simp: update_rows_def)

lemma held_leased: "list_ex (\<lambda>m. ob_id m = i) rows \<Longrightarrow> held i worker until (d\<lparr>outbox := leased_to i worker until rows\<rparr>)"
proof -
  let ?f = "\<lambda>m. m\<lparr>ob_lease_owner := Some worker, ob_lease_until := Some until, ob_attempts := ob_attempts m + 1\<rparr>"
  assume "list_ex (\<lambda>m. ob_id m = i) rows"
  then obtain m where "m \<in> set rows" "ob_id m = i" by (auto simp: list_ex_iff)
  then have "?f m \<in> set (leased_to i worker until rows)" "ob_id (?f m) = i"
    using in_update_rows [of m rows "\<lambda>m. ob_id m = i" ?f] by (simp_all add: leased_to_def)
  then have "list_ex (\<lambda>m. ob_id m = i) (leased_to i worker until rows)" unfolding list_ex_iff by blast
  moreover have "list_all (\<lambda>m. ob_id m = i \<longrightarrow> ob_lease_owner m = Some worker \<and> ob_lease_until m = Some until)
      (leased_to i worker until rows)"
    by (induction rows) (auto simp: leased_to_def update_rows_def)
  ultimately show ?thesis by (simp add: held_def)
qed

lemma held_lease_other: "j \<noteq> i \<Longrightarrow> held i worker until d \<Longrightarrow> held i worker until (d\<lparr>outbox := leased_to j v u (outbox d)\<rparr>)"
proof (rule held_same)
  assume "j \<noteq> i"
  then show "message_rows i (d\<lparr>outbox := leased_to j v u (outbox d)\<rparr>) = message_rows i d"
    unfolding message_rows_def leased_to_def by (simp, intro rows_update) simp
qed

context leased_queue begin

text \<open>A lease takes its message; while another message is held, it takes neither that one nor its lease.\<close>

lemma lease_takes: "outcome (lease worker now dur) (\<lambda>j d'. held (message j) worker (now + dur) d') (\<lambda>_ d'. d' = d) d t"
  by (rule outcome_weaken [OF lease_picks]) (auto simp: list_ex_iff intro!: held_leased)

lemma lease_respects:
  assumes "held i v until d" and "now \<le> until"
  shows "outcome (lease worker now dur) (\<lambda>j d'. message j \<noteq> i \<and> held i v until d') (\<lambda>_ d'. d' = d) d t"
proof (rule outcome_weaken [OF lease_picks], elim conjE bexE)
  fix j d' m assume m: "m \<in> set (outbox d)" "ob_id m = message j" "lease_over now m"
    and d': "d' = d\<lparr>outbox := leased_to (message j) worker (now + dur) (outbox d)\<rparr>"
  have "message j \<noteq> i" using assms m by (auto simp: held_def list_all_iff lease_over_def)
  with d' assms(1) show "message j \<noteq> i \<and> held i v until d'" by (simp add: held_lease_other)
qed

end

lemma lease_message_takes: "outcome (lease_message k q worker now dur) (\<lambda>i d'. held i worker (now + dur) d') (\<lambda>_ d'. d' = d) d t"
  by (cases q; simp; rule outcome_bind)
     (rule outcome_weaken [OF settlement_queue.lease_takes] outcome_weaken [OF retire_queue.lease_takes]
        outcome_weaken [OF payout_queue.lease_takes] outcome_weaken [OF webhook_queue.lease_takes]
        outcome_weaken [OF email_queue.lease_takes], auto intro: outcome_ret)+

lemma lease_message_respects:
  assumes "held i v until d" and "now \<le> until"
  shows "outcome (lease_message k q worker now dur) (\<lambda>j d'. j \<noteq> i \<and> held i v until d') (\<lambda>_ d'. d' = d) d t"
  by (cases q; simp; rule outcome_bind)
     (rule outcome_weaken [OF settlement_queue.lease_respects [OF assms]] outcome_weaken [OF retire_queue.lease_respects [OF assms]]
        outcome_weaken [OF payout_queue.lease_respects [OF assms]] outcome_weaken [OF webhook_queue.lease_respects [OF assms]]
        outcome_weaken [OF email_queue.lease_respects [OF assms]], auto intro: outcome_ret)+

section \<open>What leaves a message alone\<close>

definition untouched :: "string \<Rightarrow> outbox_message list \<Rightarrow> db \<Rightarrow> bool" where
  "untouched i rows d \<longleftrightarrow> rows \<noteq> [] \<and> message_rows i d = rows"

named_theorems queue_frame "statements that leave a message alone"

lemma untouched_insert_outbox [queue_frame]: "steady (untouched i rows) (insert_outbox m)"
  unfolding insert_outbox_def
  by (rule steady_insert) (fastforce simp: untouched_def message_rows_def filter_empty_conv)

lemma untouched_update_outbox:
  assumes "\<And>m. m \<in> set rows \<Longrightarrow> \<not> P m" and "\<And>m. P m \<Longrightarrow> ob_id (f m) = ob_id m"
  shows "steady (untouched i rows) (update_outbox P f)"
  unfolding update_outbox_def
proof (rule steady_update)
  fix d assume "untouched i rows d"
  then have r: "rows \<noteq> []" "message_rows i d = rows" by (simp_all add: untouched_def)
  have "message_rows i (d\<lparr>outbox := update_rows P f (outbox d)\<rparr>) = message_rows i d"
    unfolding message_rows_def by (simp, rule rows_update) (use assms r(2) in \<open>auto simp: message_rows_def\<close>)
  with r show "untouched i rows (d\<lparr>outbox := update_rows P f (outbox d)\<rparr>)" by (simp add: untouched_def)
qed

lemma untouched_close:
  "(\<And>m. m \<in> set rows \<Longrightarrow> \<not> (ob_topic m = topic \<and> ob_aggregate m = a)) \<Longrightarrow> steady (untouched i rows) (close_outbox topic a now e)"
  unfolding close_outbox_def by (intro steady_intro untouched_update_outbox) auto

text \<open>The statements on the other tables.\<close>

lemma untouched_tables [queue_frame]:
  "steady (untouched i rows) (insert_order r)" "steady (untouched i rows) (insert_event e)"
  "steady (untouched i rows) (insert_treasury ta)" "steady (untouched i rows) (insert_reservation q)"
  "steady (untouched i rows) (insert_checkout c)" "steady (untouched i rows) (insert_idempotency k)"
  "steady (untouched i rows) (insert_financial f)" "steady (untouched i rows) (insert_webhook_event we)"
  "steady (untouched i rows) (insert_webhook_attempt wt)" "steady (untouched i rows) (insert_stellar st)"
  "steady (untouched i rows) (insert_payout p)"
  unfolding store_defs insert_webhook_attempt_def
  by (intro steady_intro steady_insert; simp add: untouched_def message_rows_def)+

lemma untouched_updates [queue_frame]:
  "steady (untouched i rows) (update_orders P1 f1)" "steady (untouched i rows) (update_treasuries P2 f2)"
  "steady (untouched i rows) (update_reservations P3 f3)" "steady (untouched i rows) (update_idempotency P4 f4)"
  "steady (untouched i rows) (update_stellar P5 f5)" "steady (untouched i rows) (update_gateway_events P6 f6)"
  "steady (untouched i rows) (update_sep24 P7 f7)" "steady (untouched i rows) (update_webhook_attempts P8 f8)"
  unfolding store_defs update_sep24_def update_webhook_attempts_def
  by (intro steady_update; simp add: untouched_def message_rows_def)+

lemma untouched_gateway_event [queue_frame]: "steady (untouched i rows) (insert_gateway_event e)"
  unfolding insert_gateway_event_def
  by (intro steady_intro steady_sql) (auto simp: untouched_def message_rows_def split: if_splits)

lemma untouched_reads [queue_frame]:
  "steady I (find_order j)" "steady I (find_stellar j s)" "steady I (find_payout j)" "steady I (find_intent j)"
  "steady I (find_gateway_event ge)" "steady I (validate_retail_session_ownership p)" "steady I (find_owned_endpoint ow ep er)"
  "steady I (onramp_order_view r)"
  unfolding find_intent_def find_gateway_event_def find_owned_endpoint_def by (intro order_frame steady_intro)+

section \<open>The operations\<close>

lemma untouched_parts [queue_frame]:
  "steady (untouched i rows) (append_order_event_from_source j v e p n src t)"
  "steady (untouched i rows) (append_order_event j v e p n t)"
  "steady (untouched i rows) (create_sandbox_order_financial r)" "steady (untouched i rows) (add_reserved j k)"
  "steady (untouched i rows) (consume_reservation q now)" "steady (untouched i rows) (enqueue_sandbox_payout j now)"
  "steady (untouched i rows) (ensure_payout ord ref now)" "steady (untouched i rows) (receipt_seen rc g)"
  unfolding append_order_event_def append_order_event_from_source_def append_public_webhook_event_def create_sandbox_order_financial_def
    add_reserved_def consume_reservation_def enqueue_sandbox_payout_def ensure_payout_def receipt_seen_def
  by (intro steady_intro queue_frame)+

lemma untouched_lock [queue_frame]: "steady (untouched i rows) (lock_treasury c n t)"
  unfolding lock_treasury_def by (intro steady_intro queue_frame)

lemma untouched_creates [queue_frame]:
  "steady (untouched i rows) (reserve_and_create c r n)" "steady (untouched i rows) (create_offramp fc fr)"
  unfolding reserve_and_create_def create_offramp_def Let_def by (intro steady_intro queue_frame)+

lemma untouched_checkouts [queue_frame]:
  "steady (untouched i rows) (attach_checkout j co)" "steady (untouched i rows) (fail_checkout j s)"
  "steady (untouched i rows) (mark_checkout_unknown j s)"
  unfolding attach_checkout_def attach_checkout_tx_def fail_checkout_def release_failed_order_def mark_checkout_unknown_def
  by (intro steady_intro queue_frame)+

lemma untouched_callbacks [queue_frame]:
  "steady (untouched i rows) (record_callback_receipt rc)" "steady (untouched i rows) (confirm_payment_and_enqueue cf)"
  "steady (untouched i rows) (complete_callback e r)"
  unfolding record_callback_receipt_def confirm_payment_and_enqueue_def complete_callback_def Let_def
  by (intro steady_intro queue_frame)+

lemma untouched_settlement [queue_frame]:
  "steady (untouched i rows) (mark_submitted j h n)" "steady (untouched i rows) (mark_unknown j e)"
  "steady (untouched i rows) (reset_submitted j e)" "steady (untouched i rows) (release_expired_reservations n' c)"
  unfolding mark_submitted_def mark_unknown_def reset_submitted_def release_expired_reservations_def release_one_def Let_def
  by (intro steady_intro queue_frame)+

lemma untouched_offramp [queue_frame]:
  "steady (untouched i rows) (expire_pending_deposits n k)" "steady (untouched i rows) (record_asset_received j p)"
  "steady (untouched i rows) (record_asset_invalid j h e)" "steady (untouched i rows) (save_retirement_hash j h n)"
  "steady (untouched i rows) (reset_retirement_hash j h e n)"
  unfolding expire_pending_deposits_def expire_one_def record_asset_received_def record_asset_invalid_def save_retirement_hash_def
    reset_retirement_hash_def
  by (intro steady_intro queue_frame)+

text \<open>The operations that write the outbox, on a message that they are not for.\<close>

lemma untouched_lease_row:
  assumes "\<And>m. m \<in> set rows \<Longrightarrow> \<not> lease_over now m"
  shows "steady (untouched i rows) (lease_row topic k worker now dur)"
proof (rule steadyI)
  fix d t assume u: "untouched i rows d"
  have "steady (untouched i rows) (update_outbox (\<lambda>r. ob_id r = ob_id m) f)"
    if m: "m \<in> set (outbox d)" "leasable topic k now m" and f: "\<And>m. ob_id (f m) = ob_id m" for m f
  proof (rule untouched_update_outbox)
    fix r assume r: "r \<in> set rows"
    from m(2) have "lease_over now m" by (auto simp: leasable_def lease_over_def split: option.splits)
    moreover from u r have "ob_id r = i" by (auto simp: untouched_def message_rows_def)
    ultimately show "\<not> ob_id r = ob_id m"
      using m(1) u assms [of m] by (auto simp: untouched_def message_rows_def)
  qed (rule f)
  then show "outcome (lease_row topic k worker now dur) (\<lambda>_. untouched i rows) (\<lambda>_. untouched i rows) d t"
    unfolding lease_row_def
    by (intro outcome_bind outcome_optional)
       (auto simp: u outcome_fail intro!: steadyD [OF steady_bind [OF _ steady_ret]] dest!: first_by_Some)
qed

lemma untouched_after_intent:
  assumes "rows \<noteq> []" and "message_rows i d = rows" and "\<And>s. P s \<Longrightarrow> st_intent s = j"
    and "\<And>s. s \<in> set (stellar_txs d) \<Longrightarrow> st_intent s = j \<Longrightarrow> steady (untouched i rows) (f s)"
  shows "outcome (act_bind (first_row stellar_txs st_id P) f) (\<lambda>_. untouched i rows) (\<lambda>_. untouched i rows) d t"
proof (rule outcome_bind, rule outcome_select_first)
  have u: "untouched i rows d" using assms(1,2) by (simp add: untouched_def)
  fix s assume "first_by st_id P (stellar_txs d) = Some s"
  then have "s \<in> set (stellar_txs d)" "st_intent s = j" using assms(3) by (auto dest!: first_by_Some)
  from steadyD [OF assms(4) [OF this] u] show "outcome (f s) (\<lambda>_. untouched i rows) (\<lambda>_. untouched i rows) d t" .
qed (use assms(1,2) in \<open>simp add: untouched_def\<close>)

lemma steady_found_order: "(\<And>r. or_id r = a \<Longrightarrow> steady I (f r)) \<Longrightarrow> steady I (act_bind (find_order a) f)"
  unfolding find_order_def
  by (rule steadyI, rule outcome_bind, rule outcome_select_first) (auto dest!: first_by_Some intro: steadyD)

section \<open>Giving a message up\<close>

abbreviation for_intent :: "string \<Rightarrow> string \<Rightarrow> db \<Rightarrow> outbox_message \<Rightarrow> bool" where
  "for_intent topic j d m \<equiv> ob_topic m = topic \<and> list_ex (\<lambda>s. st_intent s = j \<and> st_order s = ob_aggregate m) (stellar_txs d)"

text \<open>
  The messages that an operation of the orders is for: those of its intent or of its identifier. A lease
  and the return of unsubmitted retirements take any message whose lease is over.
\<close>

fun gives_up :: "operation \<Rightarrow> db \<Rightarrow> outbox_message \<Rightarrow> bool" where
  "gives_up (OpFinishOutbox topic a n) d m \<longleftrightarrow> ob_topic m = topic \<and> ob_aggregate m = a"
| "gives_up (OpSettlementConfirm j h l) d m \<longleftrightarrow> for_intent settle_topic j d m"
| "gives_up (OpFailPermanent j e) d m \<longleftrightarrow> for_intent settle_topic j d m"
| "gives_up (OpRetryLater j a e) d m \<longleftrightarrow> for_intent settle_topic j d m"
| "gives_up (OpSimulateRetirement j n) d m \<longleftrightarrow> for_intent retire_topic j d m"
| "gives_up (OpConfirmRetirement j h l) d m \<longleftrightarrow> for_intent retire_topic j d m"
| "gives_up (OpFailRetirement j e) d m \<longleftrightarrow> for_intent retire_topic j d m"
| "gives_up (OpCompletePayout j ob ref n) d m \<longleftrightarrow> ob_id m = ob"
| "gives_up (OpRequeueRetirements n k) d m \<longleftrightarrow> (case ob_lease_until m of None \<Rightarrow> True | Some u \<Rightarrow> u \<le> n)"
| "gives_up (OpSettlementLease k w n dur) d m \<longleftrightarrow> lease_over n m"
| "gives_up (OpLeaseOutbox k dec topic w n dur) d m \<longleftrightarrow> lease_over n m"
| "gives_up _ d m \<longleftrightarrow> False"

lemma run_op_intents:
  assumes "rows \<noteq> []" and "message_rows i d = rows" and "\<And>m. m \<in> set rows \<Longrightarrow> \<not> gives_up op d m"
    and "op \<in> {OpSettlementConfirm j h l, OpFailPermanent j e, OpRetryLater j a e, OpSimulateRetirement j a,
      OpConfirmRetirement j h l, OpFailRetirement j e}"
  shows "outcome (run_op op) (\<lambda>_. untouched i rows) (\<lambda>_. untouched i rows) d t"
proof -
  have u: "untouched i rows d" using assms(1,2) by (simp add: untouched_def)
  have n: "\<not> (ob_topic m = settle_topic \<and> ob_aggregate m = st_order s)" if "m \<in> set rows" "s \<in> set (stellar_txs d)" "st_intent s = j"
      "op \<in> {OpSettlementConfirm j h l, OpFailPermanent j e, OpRetryLater j a e}" for m s
    using assms(3) [OF that(1)] that(2-4) by (auto simp: list_ex_iff)
  have r: "\<not> (ob_topic m = retire_topic \<and> ob_aggregate m = st_order s)" if "m \<in> set rows" "s \<in> set (stellar_txs d)" "st_intent s = j"
      "op \<in> {OpSimulateRetirement j a, OpConfirmRetirement j h l, OpFailRetirement j e}" for m s
    using assms(3) [OF that(1)] that(2-4) by (auto simp: list_ex_iff)
  from assms(4) consider (confirm) "op = OpSettlementConfirm j h l" | (fail) "op = OpFailPermanent j e" | (retry) "op = OpRetryLater j a e"
    | (simulate) "op = OpSimulateRetirement j a" | (retired) "op = OpConfirmRetirement j h l" | (unretired) "op = OpFailRetirement j e"
    by auto
  then show ?thesis
  proof cases
    case confirm
    show ?thesis
      unfolding confirm run_op.simps settlement_confirm_def find_intent_def append_settlement_event_def
      by (rule outcome_tx, rule outcome_weaken [OF untouched_after_intent [OF assms(1,2)]], assumption,
          (rule steady_found_order | rule steady_intro queue_frame untouched_close)+)
         (use n confirm u in auto)
  next
    case fail
    show ?thesis
      unfolding fail run_op.simps fail_permanent_def find_intent_def
      by (rule outcome_tx, rule outcome_weaken [OF untouched_after_intent [OF assms(1,2)]], assumption,
          (rule steady_found_order | rule steady_intro queue_frame untouched_close)+)
         (use n fail u in auto)
  next
    case retry
    show ?thesis
      unfolding retry run_op.simps retry_later_def find_intent_def
      by (rule untouched_after_intent [OF assms(1,2)], assumption, (rule steady_intro untouched_update_outbox)+)
         (use n retry in \<open>auto intro: steady_ret\<close>)
  next
    case simulate
    show ?thesis
      unfolding simulate run_op.simps simulate_retirement_def
      by (rule outcome_tx, rule outcome_weaken [OF untouched_after_intent [OF assms(1,2)]], erule conjunct1,
          (rule steady_found_order | rule steady_intro queue_frame untouched_close)+)
         (use r simulate u in \<open>auto intro: queue_frame\<close>)
  next
    case retired
    show ?thesis
      unfolding retired run_op.simps confirm_retirement_def find_intent_def
      by (rule outcome_tx, rule outcome_weaken [OF untouched_after_intent [OF assms(1,2)]], assumption,
          (rule steady_found_order | rule steady_intro queue_frame untouched_close)+)
         (use r retired u in \<open>auto intro: queue_frame\<close>)
  next
    case unretired
    show ?thesis
      unfolding unretired run_op.simps fail_retirement_def find_intent_def
      by (rule outcome_tx, rule outcome_weaken [OF untouched_after_intent [OF assms(1,2)]], assumption,
          (rule steady_found_order | rule steady_intro queue_frame untouched_close)+)
         (use r unretired u in auto)
  qed
qed

lemma run_op_untouched:
  assumes "untouched i rows d" and "\<And>m. m \<in> set rows \<Longrightarrow> \<not> gives_up op d m"
  shows "outcome (run_op op) (\<lambda>_. untouched i rows) (\<lambda>_. untouched i rows) d t"
proof -
  from assms(1) have r: "rows \<noteq> []" "message_rows i d = rows" by (simp_all add: untouched_def)
  note intents = run_op_intents [OF r assms(2)]
  have keep: "steady (untouched i rows) m \<Longrightarrow> outcome m (\<lambda>_. untouched i rows) (\<lambda>_. untouched i rows) d t" for m :: "'x repo"
    by (rule steadyD [where I = "untouched i rows", OF _ assms(1)])
  show ?thesis
  proof (cases op)
    case (OpRequeueRetirements n k)
    have "\<not> requeueable d' n k m" if "m \<in> set rows" for m d'
      using assms(2) [OF that] by (auto simp: OpRequeueRetirements requeueable_def split: option.splits)
    then show ?thesis
      unfolding OpRequeueRetirements run_op.simps ignore_def requeue_unsubmitted_retirements_def Let_def
      by (intro keep steady_intro steady_sql) (auto simp: untouched_def message_rows_def intro!: rows_update)
  next
    case (OpCompletePayout j ob ref n)
    then show ?thesis
      unfolding OpCompletePayout run_op.simps complete_sandbox_payout_def
      by (intro keep steady_intro queue_frame untouched_update_outbox) (use assms(2) [unfolded OpCompletePayout] in auto)
  next
    case (OpFinishOutbox topic a n)
    then show ?thesis
      unfolding OpFinishOutbox run_op.simps finish_outbox_def
      by (intro keep steady_intro untouched_update_outbox) (use assms(2) [unfolded OpFinishOutbox] in auto)
  next
    case (OpSettlementLease k w n dur)
    then show ?thesis
      unfolding OpSettlementLease run_op.simps ignore_def settlement_lease_def Let_def
      by (intro keep steady_intro untouched_lease_row) (use assms(2) [unfolded OpSettlementLease] in auto)
  next
    case (OpLeaseOutbox k dec topic w n dur)
    then show ?thesis
      unfolding OpLeaseOutbox run_op.simps ignore_def lease_outbox_def
      by (intro keep steady_intro untouched_lease_row) (use assms(2) [unfolded OpLeaseOutbox] in auto)
  next
    case (OpSettlementConfirm j h l)
    show ?thesis by (rule intents [where j = j and h = h and l = l]) (simp_all add: OpSettlementConfirm)
  next
    case (OpFailPermanent j e)
    show ?thesis by (rule intents [where j = j and e = e]) (simp_all add: OpFailPermanent)
  next
    case (OpRetryLater j a e)
    show ?thesis by (rule intents [where j = j and e = e and a = a]) (simp_all add: OpRetryLater)
  next
    case (OpSimulateRetirement j n)
    show ?thesis by (rule intents [where j = j and a = n]) (simp_all add: OpSimulateRetirement)
  next
    case (OpConfirmRetirement j h l)
    show ?thesis by (rule intents [where j = j and h = h and l = l]) (simp_all add: OpConfirmRetirement)
  next
    case (OpFailRetirement j e)
    show ?thesis by (rule intents [where j = j and e = e]) (simp_all add: OpFailRetirement)
  qed (simp_all add: ignore_def, (intro keep steady_intro queue_frame)+)
qed

text \<open>The operations of webhook delivery and of the mail worker.\<close>

datatype queue_step =
    OrderStep operation
  | WebhookStep webhook_operation
  | EmailDone string time
  | EmailRetry string time string
  | EmailFail string time string

fun run_step :: "queue_step \<Rightarrow> unit repo" where
  "run_step (OrderStep op) = run_op op"
| "run_step (WebhookStep op) = run_webhook_op op"
| "run_step (EmailDone j now) = complete_email j now"
| "run_step (EmailRetry j later e) = retry_email j later e"
| "run_step (EmailFail j now e) = fail_email j now e"

fun frees :: "queue_step \<Rightarrow> db \<Rightarrow> outbox_message \<Rightarrow> bool" where
  "frees (OrderStep op) d m \<longleftrightarrow> gives_up op d m"
| "frees (WebhookStep (OpFinalizeEvent j e now)) d m \<longleftrightarrow> ob_id m = j"
| "frees (WebhookStep op) d m \<longleftrightarrow> False"
| "frees (EmailDone j now) d m \<longleftrightarrow> ob_id m = j"
| "frees (EmailRetry j later e) d m \<longleftrightarrow> ob_id m = j"
| "frees (EmailFail j now e) d m \<longleftrightarrow> ob_id m = j"

lemma untouched_webhooks [queue_frame]:
  "steady (untouched i rows) (update_attempt j f)" "steady (untouched i rows) (new_attempt e p w now dur n)"
  "steady (untouched i rows) (retire_latest a now k)"
  unfolding update_attempt_def new_attempt_def retire_latest_def
  by (intro steady_intro queue_frame | cases "wa_status a"; simp; intro conjI impI steady_intro queue_frame)+

lemma run_step_untouched:
  assumes "untouched i rows d" and "\<And>m. m \<in> set rows \<Longrightarrow> \<not> frees x d m"
  shows "outcome (run_step x) (\<lambda>_. untouched i rows) (\<lambda>_. untouched i rows) d t"
proof -
  have keep: "steady (untouched i rows) m \<Longrightarrow> outcome m (\<lambda>_. untouched i rows) (\<lambda>_. untouched i rows) d t" for m :: "'x repo"
    by (rule steadyD [where I = "untouched i rows", OF _ assms(1)])
  show ?thesis
  proof (cases x)
    case (OrderStep op)
    with run_op_untouched [OF assms(1)] assms(2) show ?thesis by simp
  next
    case (WebhookStep op)
    then show ?thesis
      using assms(2)
      by (cases op; simp add: start_attempt_def complete_attempt_def finalize_event_def pending_outbox_def enqueue_test_def replay_delivery_def Let_def)
         (intro keep steady_intro queue_frame untouched_update_outbox; auto)+
  qed (use assms(2) in \<open>auto simp: complete_email_def retry_email_def fail_email_def update_active_email_def
      intro!: keep steady_bind steady_guard untouched_update_outbox\<close>)
qed

section \<open>Over time\<close>

text \<open>
  What happens up to \<open>until\<close>: leases of any queue by any worker, operations of orders, webhooks and
  emails that are not for the message \<open>i\<close>, and calls of the rest of the program, which only add messages.
\<close>

inductive queue_run :: "string \<Rightarrow> time \<Rightarrow> db \<Rightarrow> db \<Rightarrow> bool" for i :: string and until :: time where
  run_start: "queue_run i until d d"
| run_lease: "queue_run i until d (w_db w) \<Longrightarrow> lease_message k q worker now dur w = (r, w') \<Longrightarrow> now \<le> until \<Longrightarrow>
    queue_run i until d (w_db w')"
| run_queue_step: "queue_run i until d (w_db w) \<Longrightarrow> run_step x w = (r', w') \<Longrightarrow>
    \<not> list_ex (frees x (w_db w)) (message_rows i (w_db w)) \<Longrightarrow> queue_run i until d (w_db w')"
| run_other: "queue_run i until d d' \<Longrightarrow> message_rows i d'' = message_rows i d' \<Longrightarrow> queue_run i until d d''"

lemma queue_run_held: "queue_run i until d d' \<Longrightarrow> held i v until d \<Longrightarrow> held i v until d'"
proof (induction rule: queue_run.induct)
  case (run_lease d w k q worker now dur r w')
  from outcomeD [OF lease_message_respects [OF run_lease.IH [OF run_lease.prems] run_lease.hyps(3)] refl refl run_lease.hyps(2)]
    run_lease.IH [OF run_lease.prems] show ?case by (auto split: sum.splits)
next
  case (run_queue_step d w x r' w')
  from run_queue_step.IH [OF run_queue_step.prems] have h: "held i v until (w_db w)" .
  then have u: "untouched i (message_rows i (w_db w)) (w_db w)" by (simp add: untouched_def held_rows)
  have "\<And>m. m \<in> set (message_rows i (w_db w)) \<Longrightarrow> \<not> frees x (w_db w) m"
    using run_queue_step.hyps(3) by (auto simp: list_ex_iff)
  from outcomeD [OF run_step_untouched [OF u this] refl refl run_queue_step.hyps(2)]
  have "message_rows i (w_db w') = message_rows i (w_db w)" by (auto simp: untouched_def split: sum.splits)
  from held_same [OF this h] show ?case .
next
  case (run_other d d' d'')
  from held_same [OF run_other.hyps(2) run_other.IH [OF run_other.prems]] show ?case .
qed

end
