(* ===== verification/Webhook_Properties.thy ===== *)
theory Webhook_Properties
  imports Leases Calm_Runs
begin

text \<open>
  Properties of the queues and of webhook delivery: leases, attempts, back-off, the destinations
  the policy admits, and the email payloads.
\<close>

section \<open>Queues\<close>

text \<open>
  C19: a message is leased to one worker at a time. Whatever leases other workers take from the five
  queues (settlements, retirements, payouts, webhooks, emails), and whatever operations of orders,
  webhooks and emails run that are not for the message, up to the end of the lease no lease gets the
  message, and it stays leased to its worker. The return of unsubmitted retirements counts as such an
  operation as long as its time is before the end of the lease.
\<close>
theorem leases_exclusive:
  assumes "lease_message k q worker now dur w = (Inr i, w1)" and "queue_run i (now + dur) (w_db w1) (w_db w2)"
    and "lease_message k' q' worker' now' dur' w2 = (Inr j, w3)" and "now' \<le> now + dur"
  shows "j \<noteq> i \<and> held i worker (now + dur) (w_db w3)"
proof -
  from outcome_Inr [OF lease_message_takes assms(1)] queue_run_held [OF assms(2)]
  have "held i worker (now + dur) (w_db w2)" by blast
  from outcome_Inr [OF lease_message_respects [OF this assms(4)] assms(3)] show ?thesis .
qed

definition demo_message :: "string \<Rightarrow> time \<Rightarrow> outbox_message" where
  "demo_message i t = \<lparr>ob_id = i, ob_topic = settle_topic, ob_aggregate_type = ''order'', ob_aggregate = i,
     ob_payload = [(''intent_id'', i)], ob_created = 0, ob_available = t, ob_lease_owner = None, ob_lease_until = None,
     ob_attempts = 0, ob_processed = None, ob_error = None\<rparr>"

definition demo_queue :: db where
  "demo_queue = empty_db\<lparr>outbox := [demo_message ''m1'' 1, demo_message ''m2'' 2]\<rparr>"

lemma demo_lease:
  assumes "first_by lease_key (leasable settle_topic 5 10) (outbox d) = Some (demo_message i t)" and "i \<noteq> []"
  shows "runs (lease_message 5 SettlementQueue worker 10 60)
    (\<lambda>j d' _. j = i \<and> d' = leased_row worker 10 60 (demo_message i t) d) d is 10"
  unfolding lease_message.simps settlement_lease_def Let_def
  by (rule runs_bind, rule runs_tx, rule runs_bind, rule runs_lease_row [OF assms(1)])
     (use assms(2) in \<open>simp_all add: demo_message_def deref_str_def runs_ret\<close>)

lemma demo_leases:
  obtains w1 w2 where "lease_message 5 SettlementQueue ''a'' 10 60 (world0 demo_queue [] 10) = (Inr ''m1'', w1)"
    "lease_message 5 SettlementQueue ''b'' 10 60 w1 = (Inr ''m2'', w2)"
proof -
  let ?d = "leased_row ''a'' 10 60 (demo_message ''m1'' 1) demo_queue"
  have f: "first_by lease_key (leasable settle_topic 5 10) (outbox demo_queue) = Some (demo_message ''m1'' 1)"
    "first_by lease_key (leasable settle_topic 5 10) (outbox ?d) = Some (demo_message ''m2'' 2)"
    by (simp_all add: first_by_def demo_queue_def demo_message_def leasable_def lease_key_def leased_row_def leased_to_def
        update_rows_def less_eq_prod_def)
  obtain x w1 where 1: "lease_message 5 SettlementQueue ''a'' 10 60 (world0 demo_queue [] 10) = (Inr x, w1)" "calm w1"
      "w_now w1 = 10" "x = ''m1'' \<and> w_db w1 = ?d"
    by (rule runsE [OF demo_lease [where worker = "''a''", OF f(1)] world0_facts(2,1) refl world0_facts(3)]) simp_all
  obtain y w2 where "lease_message 5 SettlementQueue ''b'' 10 60 w1 = (Inr y, w2)" "y = ''m2''"
    by (rule runsE [OF demo_lease [where worker = "''b''", OF f(2)] 1(2) conjunct2 [OF 1(4)] refl 1(3)]) simp_all
  with 1 that show thesis by simp
qed

text \<open>Two workers, one after the other at the same time, get the two messages.\<close>

theorem leases_exclusive_witness:
  "\<exists>w1 w2. lease_message 5 SettlementQueue ''a'' 10 60 (world0 demo_queue [] 10) = (Inr ''m1'', w1) \<and>
     lease_message 5 SettlementQueue ''b'' 10 60 w1 = (Inr ''m2'', w2) \<and> held ''m1'' ''a'' 70 (w_db w2)"
proof -
  obtain w1 w2 where l: "lease_message 5 SettlementQueue ''a'' 10 60 (world0 demo_queue [] 10) = (Inr ''m1'', w1)"
    "lease_message 5 SettlementQueue ''b'' 10 60 w1 = (Inr ''m2'', w2)"
    by (rule demo_leases)
  from leases_exclusive [OF l(1) run_start l(2)] l show ?thesis by auto
qed

section \<open>Attempts\<close>

text \<open>
  C20: after any schedule of the webhook operations, the attempts of an event at an endpoint are
  numbered from one without a gap, and at most one of them is not superseded.
\<close>
theorem attempts_disciplined:
  assumes "webhook_attempts d = []" and "list_all (\<lambda>p. \<forall>d. w_db (snd p d) = d) ops"
  shows "let rows = pair_attempts e p (webhook_attempts (webhook_system.schedule ops d)) in
    List.map wa_number rows = [1..int (length rows)] \<and>
    length (filter (\<lambda>a. wa_status a \<noteq> WASuperseded) rows) \<le> 1"
proof -
  have "webhook_inv d" using assms(1) by (simp add: webhook_inv_def attempts_ok_def pair_attempts_def)
  from webhook_system.schedule_keeps [OF this assms(2)]
  have ok: "attempts_ok (webhook_attempts (webhook_system.schedule ops d))" by (simp add: webhook_inv_def)
  let ?rows = "pair_attempts e p (webhook_attempts (webhook_system.schedule ops d))"
  from ok have n: "List.map wa_number ?rows = [1..int (length ?rows)]"
    and s: "list_all (\<lambda>a. wa_status a = WASuperseded) (butlast ?rows)"
    by (simp_all add: attempts_ok_def)
  have "length (filter (\<lambda>a. wa_status a \<noteq> WASuperseded) ?rows) \<le> 1"
  proof (cases "?rows = []")
    case False
    have "filter (\<lambda>a. wa_status a \<noteq> WASuperseded) (butlast ?rows) = []"
      using s by (simp add: filter_empty_conv list_all_iff)
    then have "filter (\<lambda>a. wa_status a \<noteq> WASuperseded) (butlast ?rows @ [last ?rows]) =
        filter (\<lambda>a. wa_status a \<noteq> WASuperseded) [last ?rows]" by (simp only: filter_append append_Nil)
    then show ?thesis using False by simp
  qed simp
  with n show ?thesis by (simp add: Let_def)
qed

definition demo_env :: "string list \<Rightarrow> time \<Rightarrow> db \<Rightarrow> world" where
  "demo_env ids now d = world0 d ids now"

definition demo_attempts :: "(webhook_operation \<times> (db \<Rightarrow> world)) list" where
  "demo_attempts = [(OpStartAttempt ''e1'' ''p1'' ''w'' 100 50 3, demo_env [''a1''] 100),
     (OpStartAttempt ''e1'' ''p1'' ''v'' 200 50 3, demo_env [''a2''] 200)]"

theorem attempts_disciplined_witness:
  "let rows = pair_attempts ''e1'' ''p1'' (webhook_attempts (webhook_system.schedule demo_attempts empty_db)) in
    List.map wa_number rows = [1..int (length rows)] \<and>
    length (filter (\<lambda>a. wa_status a \<noteq> WASuperseded) rows) \<le> 1"
  by (rule attempts_disciplined) (simp_all add: empty_db_def demo_attempts_def demo_env_def world0_def)

text \<open>
  While the lease of an attempt lasts, no worker gets another attempt for the same event and
  endpoint, and trying changes nothing.
\<close>
theorem live_attempt_excludes:
  assumes "webhook_inv (w_db w)" and "leased_attempt e p now (w_db w)"
  shows "case start_attempt e p worker now lease k w of
    (Inl _, w') \<Rightarrow> w_db w' = w_db w | (Inr x, w') \<Rightarrow> x = None \<and> w_db w' = w_db w"
proof -
  obtain r w' where s: "start_attempt e p worker now lease k w = (r, w')" by fastforce
  from outcomeD [OF start_attempt_leased [OF assms] refl refl s] show ?thesis
    by (simp add: s split: sum.splits)
qed

definition demo_in_flight :: webhook_attempt where
  "demo_in_flight = \<lparr>wa_id = ''a1'', wa_event = ''e1'', wa_endpoint = ''p1'', wa_number = 1,
     wa_status = WAInFlight, wa_scheduled = 100, wa_started = Some 100, wa_completed = None, wa_http = None,
     wa_duration = None, wa_body_hash = None, wa_error = None, wa_next = None, wa_lease_owner = Some ''w'',
     wa_lease_until = Some 150\<rparr>"

lemma demo_in_flight_inv: "webhook_inv (empty_db\<lparr>webhook_attempts := [demo_in_flight]\<rparr>)"
  by (simp add: webhook_inv_def attempts_ok_def pair_attempts_def demo_in_flight_def)

theorem live_attempt_excludes_witness:
  "\<forall>worker. case start_attempt ''e1'' ''p1'' worker 120 50 3
      (world0 (empty_db\<lparr>webhook_attempts := [demo_in_flight]\<rparr>) [''a2''] 120) of
    (Inl _, w') \<Rightarrow> w_db w' = empty_db\<lparr>webhook_attempts := [demo_in_flight]\<rparr>
  | (Inr x, w') \<Rightarrow> x = None \<and> w_db w' = empty_db\<lparr>webhook_attempts := [demo_in_flight]\<rparr>"
proof
  fix worker
  let ?w = "world0 (empty_db\<lparr>webhook_attempts := [demo_in_flight]\<rparr>) [''a2''] 120"
  have "webhook_inv (w_db ?w)" "leased_attempt ''e1'' ''p1'' 120 (w_db ?w)"
    using demo_in_flight_inv by (simp_all add: world0_def leased_attempt_def demo_in_flight_def)
  from live_attempt_excludes [OF this, of worker 50 3] have "case start_attempt ''e1'' ''p1'' worker 120 50 3 ?w of
      (Inl _, w') \<Rightarrow> w_db w' = w_db ?w | (Inr x, w') \<Rightarrow> x = None \<and> w_db w' = w_db ?w" .
  moreover have "w_db ?w = empty_db\<lparr>webhook_attempts := [demo_in_flight]\<rparr>" by (simp add: world0_def)
  ultimately
  show "case start_attempt ''e1'' ''p1'' worker 120 50 3 ?w of
      (Inl _, w') \<Rightarrow> w_db w' = empty_db\<lparr>webhook_attempts := [demo_in_flight]\<rparr>
    | (Inr x, w') \<Rightarrow> x = None \<and> w_db w' = empty_db\<lparr>webhook_attempts := [demo_in_flight]\<rparr>"
    by (simp only:)
qed

text \<open>
  C21: a delivery pass marks its message as processed only when no attempt of the event is in
  flight and none is scheduled for a retry, whatever fails in between.
\<close>
theorem processed_when_closed:
  assumes "\<not> message_done (wj_outbox j) (w_db w)"
    and "message_done (wj_outbox j) (w_db (snd (webhook_run_once deps j w)))"
  shows "\<not> delivery_open (wj_event j) (w_db (snd (webhook_run_once deps j w)))"
  using outcome_state [where I = "\<lambda>d'. message_done (wj_outbox j) d' \<longrightarrow> \<not> delivery_open (wj_event j) d'",
      OF webhook_run_once_open [OF assms(1)]] assms(2) by blast

definition demo_webhook_deps :: webhook_deps where
  "demo_webhook_deps = \<lparr>wd_lease = minute, wd_retry = second, wd_max = 5, wd_resolver = (\<lambda>_. Inr []),
     wd_unprotect = (\<lambda>_. Inl ErrRandom), wd_send = (\<lambda>_. Inr None), wd_text = (\<lambda>_. ''{}''),
     wd_hmac = (\<lambda>_ _. []), wd_sha256 = (\<lambda>_. []), wd_elapsed = (\<lambda>_. 0)\<rparr>"

definition demo_delivery_db :: db where
  "demo_delivery_db = empty_db\<lparr>
     webhook_events := [\<lparr>we_id = ''e1'', we_order = None, we_client = None, we_type = ''order.created'',
       we_api_version = webhook_api_version, we_payload = \<lparr>en_id = ''evt_e1'', en_type = ''order.created'',
         en_api_version = webhook_api_version, en_created = 1, en_environment = ''sandbox'',
         en_object = TestObject [] []\<rparr>, we_source_event = None, we_test = False, we_created = 1\<rparr>],
     outbox := [\<lparr>ob_id = ''m1'', ob_topic = ''webhook.deliver'', ob_aggregate_type = ''webhook_event'',
       ob_aggregate = ''e1'', ob_payload = [(''event_id'', ''e1'')], ob_created = 1, ob_available = 1,
       ob_lease_owner = Some ''w'', ob_lease_until = Some 500, ob_attempts = 1, ob_processed = None,
       ob_error = None\<rparr>]\<rparr>"

theorem processed_when_closed_witness:
  "\<not> delivery_open ''e1'' (w_db (snd (webhook_run_once demo_webhook_deps
      \<lparr>wj_outbox = ''m1'', wj_event = ''e1'', wj_worker = ''w''\<rparr> (world0 demo_delivery_db [] 100))))"
proof -
  let ?j = "\<lparr>wj_outbox = ''m1'', wj_event = ''e1'', wj_worker = ''w''\<rparr>" and ?w = "world0 demo_delivery_db [] 100"
  have "\<not> message_done (wj_outbox ?j) (w_db ?w)" by code_simp
  moreover have "message_done (wj_outbox ?j) (w_db (snd (webhook_run_once demo_webhook_deps ?j ?w)))" by code_simp
  ultimately show ?thesis using processed_when_closed [of ?j ?w demo_webhook_deps] by simp
qed

section \<open>Back-off\<close>

text \<open>
  The delay before the next attempt is the configured delay doubled at every attempt, at most
  six times, and never more than an hour; it is positive and does not shrink.
\<close>
theorem backoff_doubles:
  assumes "0 < r" and "r * 64 \<le> int64_max"
  shows "retry_backoff r n = min hour (r * 2 ^ nat (max 0 (min 6 (n - 1)))) \<and>
    0 < retry_backoff r n \<and> retry_backoff r n \<le> retry_backoff r (n + 1)"
  by (intro conjI retry_backoff_eq [OF assms, unfolded backoff_shift_def] retry_backoff_bounds(1) [OF assms]
      retry_backoff_mono [OF assms]) linarith

theorem backoff_doubles_witness: "\<forall>n. 0 < retry_backoff second n \<and> retry_backoff second n \<le> retry_backoff second (n + 1)"
proof
  fix n
  have "(0 :: int) < second" "second * 64 \<le> int64_max" by (simp_all add: int64_max_def)
  from backoff_doubles [OF this, of n] show "0 < retry_backoff second n \<and> retry_backoff second n \<le> retry_backoff second (n + 1)"
    by blast
qed

section \<open>Destinations\<close>

text \<open>
  The checks on an address refuse exactly the reserved ones: for IPv4, mapped or not, the
  listed ranges octet by octet, for IPv6 the unspecified, loopback, unique local, link local and
  multicast addresses.
\<close>
theorem blocked_addresses:
  assumes "length a = 4 \<or> length a = 16"
  shows "is_blocked_webhook_ip a \<longleftrightarrow>
    (case ip_to4 a of
       Some b \<Rightarrow> reserved_v4 (unat (b ! 0)) (unat (b ! 1)) (unat (b ! 2))
     | None \<Rightarrow> a = ipv6_unspecified \<or> a = ipv6_loopback \<or>
         252 \<le> unat (a ! 0) \<and> unat (a ! 0) < 254 \<or>
         unat (a ! 0) = 254 \<and> 128 \<le> unat (a ! 1) \<and> unat (a ! 1) < 192 \<or> unat (a ! 0) = 255)"
  using blocked_ip_unlisted [OF assms]
  by (auto simp: unlisted_ip_def unlisted_v4_def unlisted_v6_def split: option.splits)

theorem blocked_addresses_witness: "is_blocked_webhook_ip [169, 254, 169, 254] \<and> \<not> is_blocked_webhook_ip [93, 184, 216, 34]"
  using blocked_addresses [of "[169, 254, 169, 254]"] blocked_addresses [of "[93, 184, 216, 34]"]
  by (simp add: ip_to4_def reserved_v4_def)

text \<open>
  C22: a webhook URL is accepted exactly when it is an https URL with a host and no user, whatever its
  port, whose host name is not local, and no address behind it, of which there is at least one, is in the
  ranges that the code lists: loopback, private, link-local, multicast and unspecified addresses and the
  nine networks of \<open>isBlockedWebhookIP\<close>, octet by octet. Reserved ranges that the code does not list, and
  every port, pass (\<open>Findings.unlisted_reserved_accepted\<close>).
\<close>
theorem accepted_destination:
  assumes "\<And>h ips. resolve h = Inr ips \<Longrightarrow> list_all (\<lambda>a. length a = 4 \<or> length a = 16) ips"
  shows "validate_webhook_destination resolve raw = Inr () \<longleftrightarrow>
    (\<exists>u ips. url_parse raw = Some u \<and> url_scheme u = ''https'' \<and> url_host u \<noteq> [] \<and> \<not> url_user u \<and>
       url_hostname u \<noteq> [] \<and> \<not> local_host (url_host_name u) \<and>
       destination_ips resolve (url_host_name u) = Inr ips \<and> ips \<noteq> [] \<and> list_all unlisted_ip ips)"
  using validate_destination_iff [of resolve raw] assms by (simp add: ip_bytes_def [abs_def])

theorem accepted_destination_witness:
  "validate_webhook_destination (\<lambda>_. Inr [[10, 0, 0, 1]]) ''https://a.io/'' \<noteq> Inr ()"
proof
  assume "validate_webhook_destination (\<lambda>_. Inr [[10, 0, 0, 1]]) ''https://a.io/'' = Inr ()"
  then obtain u ips where u: "url_parse ''https://a.io/'' = Some u"
    "destination_ips (\<lambda>_. Inr [[10, 0, 0, 1]]) (url_host_name u) = Inr ips" "list_all unlisted_ip ips"
    using accepted_destination [of "\<lambda>_. Inr [[10, 0, 0, 1]]" "''https://a.io/''"] by auto
  have "map_option (\<lambda>u. parse_ip (url_host_name u)) (url_parse ''https://a.io/'') = Some None" by code_simp
  with u(1) have "parse_ip (url_host_name u) = None" by simp
  with u(2,3) have "unlisted_ip [10, 0, 0, 1]" by (auto simp: destination_ips_def)
  then show False by (simp add: unlisted_ip_def ip_to4_def unlisted_v4_def reserved_v4_def)
qed

section \<open>Emails\<close>

text \<open>
  An email payload survives its encryption, when the cipher opens what it sealed.
\<close>
theorem email_payload_round_trip:
  assumes "length nonce = gcm_nonce_size" and "ep_recipient p \<noteq> []" "ep_link p \<noteq> []"
    and "unseal nonce (seal nonce [(''recipient'', ep_recipient p), (''link'', ep_link p)]) =
      Some [(''recipient'', ep_recipient p), (''link'', ep_link p)]"
  shows "decrypt_email_payload unseal (encrypt_email_payload seal nonce p) = Inr p"
  by (rule decrypt_encrypt) (use assms in simp_all)

theorem email_payload_round_trip_witness:
  "decrypt_email_payload (\<lambda>n b. if n = replicate 12 7 \<and> b = [1] then Some [(''recipient'', ''a@b.c''), (''link'', ''l'')] else None)
    (encrypt_email_payload (\<lambda>n ms. if ms = [(''recipient'', ''a@b.c''), (''link'', ''l'')] then [1] else []) (replicate 12 7)
      \<lparr>ep_recipient = ''a@b.c'', ep_link = ''l''\<rparr>) = Inr \<lparr>ep_recipient = ''a@b.c'', ep_link = ''l''\<rparr>"
  by (rule email_payload_round_trip) (simp_all add: gcm_nonce_size_def)

end
