(* ===== verification/Auth_Usecase.thy ===== *)
theory Auth_Usecase
  imports Auth_Repo
begin

text \<open>
  The authentication use cases (\<open>internal/usecase/auth_usecase.go\<close>). Parameters in
  \<open>auth_deps\<close>: the Google provider, the object store of avatars, the digests and the cipher of
  the standard library under their keys, and \<open>argon2.IDKey\<close>. Random values are drawn in the
  order of the code.
\<close>

section \<open>Dependencies\<close>

record google_provider =
  go_url :: "string \<Rightarrow> string \<Rightarrow> string \<Rightarrow> err + string"
  go_exchange :: "string \<Rightarrow> string \<Rightarrow> string \<Rightarrow> err + identity"

record avatar_file =
  af_body :: "byte list"
  af_size :: int
  af_type :: string
  af_etag :: string

record auth_deps =
  ad_google :: "google_provider option"
  ad_tx_key :: "byte list"
  ad_session_key :: "byte list"
  ad_hmac :: "byte list \<Rightarrow> string \<Rightarrow> byte list"
  ad_sha256 :: "byte list \<Rightarrow> byte list"
  ad_seal :: "byte list \<Rightarrow> byte list \<Rightarrow> byte list \<Rightarrow> byte list"
  ad_open :: "byte list \<Rightarrow> byte list \<Rightarrow> byte list \<Rightarrow> byte list option"
  ad_seal_email :: "byte list \<Rightarrow> byte list \<Rightarrow> (string \<times> string) list \<Rightarrow> byte list"
  ad_kdf :: kdf
  ad_absolute :: duration
  ad_idle :: duration
  ad_tx_lifetime :: duration
  ad_avatar_max :: int
  ad_link_base :: string
  ad_put :: "string \<Rightarrow> byte list \<Rightarrow> int \<Rightarrow> string \<Rightarrow> err option"
  ad_open_file :: "string \<Rightarrow> err + avatar_file"
  ad_delete :: "string \<Rightarrow> err option"

definition email_verification_lifetime :: duration where "email_verification_lifetime = 24 * hour"
definition password_reset_lifetime :: duration where "password_reset_lifetime = hour"
definition max_failed_logins :: int where "max_failed_logins = 10"
definition login_lock_duration :: duration where "login_lock_duration = 15 * minute"
definition min_password_length :: nat where "min_password_length = 10"
definition max_password_length :: nat where "max_password_length = 128"
definition random_value_bytes :: nat where "random_value_bytes = 32"

definition challenge_email_verification :: string where
  "challenge_email_verification = ''email_verification''"

definition challenge_password_reset :: string where
  "challenge_password_reset = ''password_reset''"

text \<open>\<open>NewAuthUsecase\<close>: the error with which it refuses a configuration.\<close>

definition auth_config_error :: "auth_deps \<Rightarrow> err option" where
  "auth_config_error deps =
     (if length (ad_tx_key deps) \<noteq> 32 \<or> length (ad_session_key deps) \<noteq> 32 then
        Some (ErrText ''auth keys must be 32 bytes'')
      else if ad_absolute deps \<le> 0 \<or> ad_idle deps \<le> 0 \<or> ad_tx_lifetime deps \<le> 0 then
        Some (ErrText ''auth durations must be positive'')
      else if ad_absolute deps < ad_idle deps then
        Some (ErrText ''auth session idle lifetime cannot exceed absolute lifetime'')
      else if ad_avatar_max deps \<le> 0 then Some (ErrText ''auth avatar maximum bytes must be positive'')
      else if trim_space (ad_link_base deps) = [] then Some (ErrText ''auth email link base URL is required'')
      else None)"

record session_result =
  sr_token :: string
  sr_user :: user_profile
  sr_expires :: time

record register_input =
  ri_email :: string
  ri_password :: string
  ri_name :: string

record avatar_upload =
  av_body :: "byte list option"
  av_size :: int
  av_type :: string

section \<open>Helpers\<close>

definition hash_value :: "auth_deps \<Rightarrow> string \<Rightarrow> byte list" where
  "hash_value deps value = ad_hmac deps (ad_session_key deps) value"

definition pkce_challenge :: "auth_deps \<Rightarrow> string \<Rightarrow> string" where
  "pkce_challenge deps verifier = b64_raw_url (ad_sha256 deps (str_bytes verifier))"

definition callback_separator :: char where "callback_separator = CHR 0x00"

definition encrypt_callback_data :: "auth_deps \<Rightarrow> byte list \<Rightarrow> string \<Rightarrow> string \<Rightarrow> byte list" where
  "encrypt_callback_data deps iv nonce verifier =
     iv @ ad_seal deps (ad_tx_key deps) iv (str_bytes (nonce @ callback_separator # verifier))"

definition decrypt_callback_data :: "auth_deps \<Rightarrow> byte list \<Rightarrow> err + string \<times> string" where
  "decrypt_callback_data deps ciphertext =
     (if length ciphertext < gcm_nonce_size then Inl (ErrAuth InvalidTransaction)
      else case ad_open deps (ad_tx_key deps) (take gcm_nonce_size ciphertext) (drop gcm_nonce_size ciphertext) of
        None \<Rightarrow> Inl (ErrAuth InvalidTransaction)
      | Some plaintext \<Rightarrow>
          (case str_cut callback_separator (bytes_str plaintext) of (nonce, verifier, ok) \<Rightarrow>
             if \<not> ok \<or> nonce = [] \<or> verifier = [] then Inl (ErrAuth InvalidTransaction)
             else Inr (nonce, verifier)))"

definition validate_identity :: "identity \<Rightarrow> err option" where
  "validate_identity i =
     (if id_provider i \<noteq> provider_google \<or> trim_space (id_subject i) = [] \<or> trim_space (id_email i) = [] \<or>
         \<not> id_verified i then Some (ErrAuth InvalidIdentity) else None)"

definition with_avatar_url :: "user_profile \<Rightarrow> user_profile" where
  "with_avatar_url p = p\<lparr>up_avatar_url := (if up_avatar_key p \<noteq> [] then ''/auth/me/avatar'' else [])\<rparr>"

definition avatar_extension :: "string \<Rightarrow> string option" where
  "avatar_extension content_type =
     (let t = to_lower (trim_space content_type) in
      if t = ''image/jpeg'' then Some ''jpg'' else if t = ''image/png'' then Some ''png''
      else if t = ''image/webp'' then Some ''webp'' else None)"

definition verification_link :: "auth_deps \<Rightarrow> string \<Rightarrow> string" where
  "verification_link deps token = trim_right_char (CHR ''/'') (ad_link_base deps) @ ''/auth/verify-email?token='' @ token"

definition reset_link :: "auth_deps \<Rightarrow> string \<Rightarrow> string" where
  "reset_link deps token = trim_right_char (CHR ''/'') (ad_link_base deps) @ ''/auth/reset-password?token='' @ token"

definition hash_new_password :: "auth_deps \<Rightarrow> string \<Rightarrow> string repo" where
  "hash_new_password deps password =
     act_bind (random_bytes argon_salt_len) (\<lambda>salt. act_ret (hash_password (ad_kdf deps) salt password))"

definition must_hash_password :: "auth_deps \<Rightarrow> string \<Rightarrow> string repo" where
  "must_hash_password deps password =
     act_bind (act_try (hash_new_password deps password)) (\<lambda>r. case r of Inl _ \<Rightarrow> act_ret [] | Inr h \<Rightarrow> act_ret h)"

definition password_length_ok :: "string \<Rightarrow> bool" where
  "password_length_ok p \<longleftrightarrow> \<not> (length p < min_password_length \<or> max_password_length < length p)"

definition new_email_delivery ::
  "auth_deps \<Rightarrow> string \<Rightarrow> string \<Rightarrow> string \<Rightarrow> string \<Rightarrow> time \<Rightarrow> email_delivery repo" where
  "new_email_delivery deps topic aggregate recipient link now =
     act_bind (random_bytes gcm_nonce_size) (\<lambda>nonce.
     act_bind new_uuid (\<lambda>job.
     act_bind (act_guard (job \<noteq> []) (ErrText ''generating email job id'')) (\<lambda>_.
     act_ret \<lparr>ed_id = job, ed_topic = topic, ed_aggregate = aggregate,
       ed_payload = encrypt_email_payload (ad_seal_email deps (ad_tx_key deps)) nonce
         \<lparr>ep_recipient = recipient, ep_link = link\<rparr>,
       ed_available = now\<rparr>)))"

definition create_session :: "auth_deps \<Rightarrow> identity \<Rightarrow> time \<Rightarrow> session_result repo" where
  "create_session deps ident now =
     act_bind (random_string random_value_bytes) (\<lambda>raw.
     let expires = now + ad_absolute deps in
     act_bind (upsert_identity_and_create_session ident
       \<lparr>se_token = hash_value deps raw, se_expires = expires, se_last_used = Some now\<rparr>) (\<lambda>profile.
     act_ret \<lparr>sr_token = raw, sr_user = with_avatar_url profile, sr_expires = expires\<rparr>))"

section \<open>Google sign-in\<close>

definition begin_google_login :: "auth_deps \<Rightarrow> string repo" where
  "begin_google_login deps = (case ad_google deps of
     None \<Rightarrow> act_fail (ErrAuth GoogleNotConfigured)
   | Some provider \<Rightarrow>
       act_bind (random_string random_value_bytes) (\<lambda>state.
       act_bind (random_string random_value_bytes) (\<lambda>nonce.
       act_bind (random_string random_value_bytes) (\<lambda>verifier.
       act_bind (random_bytes gcm_nonce_size) (\<lambda>iv.
       act_bind now_utc (\<lambda>now.
       act_bind new_uuid (\<lambda>i.
       act_bind (create_login_tx \<lparr>lt_id = i, lt_state = hash_value deps state, lt_nonce = hash_value deps nonce,
         lt_verifier = encrypt_callback_data deps iv nonce verifier, lt_expires = now + ad_tx_lifetime deps,
         lt_consumed = None\<rparr>) (\<lambda>_.
       case go_url provider state nonce (pkce_challenge deps verifier) of
         Inl e \<Rightarrow> act_fail (ErrJoined (ErrAuth ProviderFailed) e)
       | Inr url \<Rightarrow> act_ret url))))))))"

definition complete_google_login :: "auth_deps \<Rightarrow> string \<Rightarrow> string \<Rightarrow> session_result repo" where
  "complete_google_login deps code state = (case ad_google deps of
     None \<Rightarrow> act_fail (ErrAuth GoogleNotConfigured)
   | Some provider \<Rightarrow>
       act_bind (act_guard (\<not> (trim_space code = [] \<or> trim_space state = [])) (ErrAuth InvalidTransaction)) (\<lambda>_.
       act_bind now_utc (\<lambda>now.
       act_bind (consume_login_tx (hash_value deps state) now) (\<lambda>tx.
       case decrypt_callback_data deps (lt_verifier tx) of
         Inl _ \<Rightarrow> act_fail (ErrAuth InvalidTransaction)
       | Inr (nonce, verifier) \<Rightarrow>
           act_bind (act_guard (hash_value deps nonce = lt_nonce tx) (ErrAuth InvalidTransaction)) (\<lambda>_.
           act_bind (act_lift (go_exchange provider code verifier nonce)) (\<lambda>ident.
           case validate_identity ident of Some e \<Rightarrow> act_fail e
           | None \<Rightarrow> create_session deps ident now))))))"

section \<open>Password accounts\<close>

definition register :: "auth_deps \<Rightarrow> register_input \<Rightarrow> user_profile repo" where
  "register deps input =
     act_bind (act_lift (normalize_email (ri_email input))) (\<lambda>email.
     act_bind (act_guard (password_length_ok (ri_password input)) (ErrAuth WeakPassword)) (\<lambda>_.
     let name = (if trim_space (ri_name input) = [] then email_local_part email else trim_space (ri_name input)) in
     act_bind (act_guard (rune_count name \<le> 100) (ErrAuth InvalidProfile)) (\<lambda>_.
     act_bind now_utc (\<lambda>now.
     act_bind (hash_new_password deps (ri_password input)) (\<lambda>hash.
     act_bind (random_string random_value_bytes) (\<lambda>token.
     act_bind new_uuid (\<lambda>user_id.
     act_bind (act_guard (user_id \<noteq> []) (ErrText ''generating user id'')) (\<lambda>_.
     act_bind (new_email_delivery deps email_verification_topic user_id email (verification_link deps token) now) (\<lambda>job.
     act_bind (create_user_with_credential
       \<lparr>rr_user = user_id, rr_email = email, rr_name = name, rr_hash = hash,
        rr_challenge = \<lparr>cl_user = user_id, cl_token = hash_value deps token,
          cl_purpose = challenge_email_verification, cl_expires = now + email_verification_lifetime\<rparr>,
        rr_job = job\<rparr>) (\<lambda>_.
     act_ret \<lparr>up_id = user_id, up_name = name, up_email = email, up_verified = False, up_developer = False,
       up_avatar_url = [], up_avatar_key = []\<rparr>))))))))))"

definition password_identity :: "string \<Rightarrow> credential_state \<Rightarrow> identity" where
  "password_identity email st = \<lparr>id_provider = provider_credentials, id_subject = email, id_email = email,
     id_verified = True, id_name = cs_name st\<rparr>"

definition login_with_password :: "auth_deps \<Rightarrow> string \<Rightarrow> string \<Rightarrow> session_result repo" where
  "login_with_password deps email password = (case normalize_email email of
     Inl _ \<Rightarrow> act_fail (ErrAuth InvalidCredentials)
   | Inr normalized \<Rightarrow>
       act_bind now_utc (\<lambda>now.
       act_bind (find_credential_by_email normalized) (\<lambda>found.
       case found of
         None \<Rightarrow> act_fail (ErrAuth InvalidCredentials)
       | Some st \<Rightarrow>
           if (case cs_locked st of None \<Rightarrow> False | Some u \<Rightarrow> now < u) then act_fail (ErrAuth InvalidCredentials)
           else act_bind (act_lift (verify_password (ad_kdf deps) (cs_hash st) password)) (\<lambda>(match, rehash).
             if \<not> match then
               act_bind (act_try (increment_login_failures (cs_user st) max_failed_logins login_lock_duration now)) (\<lambda>r.
               case r of Inl e \<Rightarrow> act_fail (ErrJoined (ErrAuth InvalidCredentials) e)
               | Inr _ \<Rightarrow> act_fail (ErrAuth InvalidCredentials))
             else
               act_bind (act_guard (cs_active st) (ErrAuth UserDisabled)) (\<lambda>_.
               act_bind (act_guard (cs_verified st) (ErrAuth EmailNotVerified)) (\<lambda>_.
               act_bind (if rehash then act_bind (must_hash_password deps password) (\<lambda>h.
                   update_password_hash (cs_user st) h now) else act_ret ()) (\<lambda>_.
               act_bind (create_session deps (password_identity normalized st) now) (\<lambda>result.
               act_bind (reset_login_failures (cs_user st) now) (\<lambda>_.
               act_ret result)))))))))"

definition verify_email :: "auth_deps \<Rightarrow> string \<Rightarrow> user_profile repo" where
  "verify_email deps token0 =
     (let token = trim_space token0 in
      act_bind (act_guard (token \<noteq> []) (ErrAuth InvalidChallenge)) (\<lambda>_.
      act_bind now_utc (\<lambda>now.
      act_bind (consume_challenge (hash_value deps token) challenge_email_verification now) (\<lambda>user_id.
      act_bind (set_email_verified user_id now) (\<lambda>profile.
      act_ret (with_avatar_url profile))))))"

definition issue_challenge ::
  "auth_deps \<Rightarrow> string \<Rightarrow> string \<Rightarrow> (auth_deps \<Rightarrow> string \<Rightarrow> string) \<Rightarrow> duration \<Rightarrow> string \<Rightarrow> string \<Rightarrow> unit repo" where
  "issue_challenge deps topic purpose link lifetime user_id email =
     act_bind (random_string random_value_bytes) (\<lambda>token.
     act_bind now_utc (\<lambda>now.
     act_bind (new_email_delivery deps topic user_id email (link deps token) now) (\<lambda>job.
     create_challenge_with_email_job \<lparr>cl_user = user_id, cl_token = hash_value deps token,
       cl_purpose = purpose, cl_expires = now + lifetime\<rparr> job)))"

definition resend_verification :: "auth_deps \<Rightarrow> string \<Rightarrow> unit repo" where
  "resend_verification deps email = (case normalize_email email of
     Inl _ \<Rightarrow> act_fail (ErrAuth InvalidChallenge)
   | Inr normalized \<Rightarrow>
       act_bind (find_credential_by_email normalized) (\<lambda>found. case found of
         None \<Rightarrow> act_ret ()
       | Some st \<Rightarrow>
           if cs_verified st then act_ret ()
           else issue_challenge deps email_verification_topic challenge_email_verification verification_link
             email_verification_lifetime (cs_user st) normalized))"

definition request_password_reset :: "auth_deps \<Rightarrow> string \<Rightarrow> unit repo" where
  "request_password_reset deps email = (case normalize_email email of
     Inl _ \<Rightarrow> act_fail (ErrAuth InvalidPasswordReset)
   | Inr normalized \<Rightarrow>
       act_bind (find_user_by_email normalized) (\<lambda>found. case found of
         None \<Rightarrow> act_ret ()
       | Some profile \<Rightarrow>
           issue_challenge deps password_reset_topic challenge_password_reset reset_link
             password_reset_lifetime (up_id profile) normalized))"

definition reset_password :: "auth_deps \<Rightarrow> string \<Rightarrow> string \<Rightarrow> unit repo" where
  "reset_password deps token0 new_password =
     act_bind (act_guard (password_length_ok new_password) (ErrAuth WeakPassword)) (\<lambda>_.
     let token = trim_space token0 in
     act_bind (act_guard (token \<noteq> []) (ErrAuth InvalidChallenge)) (\<lambda>_.
     act_bind now_utc (\<lambda>now.
     act_bind (consume_challenge (hash_value deps token) challenge_password_reset now) (\<lambda>user_id.
     act_bind (hash_new_password deps new_password) (\<lambda>hash.
     act_bind (update_password_hash user_id hash now) (\<lambda>_.
     revoke_sessions_for_user user_id now))))))"

definition change_password :: "auth_deps \<Rightarrow> string \<Rightarrow> string \<Rightarrow> string \<Rightarrow> unit repo" where
  "change_password deps user_id current new_password =
     act_bind (act_guard (password_length_ok new_password) (ErrAuth WeakPassword)) (\<lambda>_.
     act_bind (find_credential_by_user_id user_id) (\<lambda>found. case found of
       None \<Rightarrow> act_fail (ErrAuth InvalidCredentials)
     | Some st \<Rightarrow>
         act_bind (act_lift (verify_password (ad_kdf deps) (cs_hash st) current)) (\<lambda>(match, rehash).
         act_bind (act_guard match (ErrAuth InvalidCredentials)) (\<lambda>_.
         act_bind (hash_new_password deps new_password) (\<lambda>hash.
         act_bind now_utc (\<lambda>now.
         act_bind (update_password_hash user_id hash now) (\<lambda>_.
         revoke_sessions_for_user user_id now)))))))"

section \<open>Sessions\<close>

definition logout :: "auth_deps \<Rightarrow> string \<Rightarrow> unit repo" where
  "logout deps raw =
     (if trim_space raw = [] then act_ret ()
      else act_bind now_utc (\<lambda>now. revoke_session (hash_value deps raw) now))"

definition authenticate :: "auth_deps \<Rightarrow> string \<Rightarrow> authenticated_user repo" where
  "authenticate deps raw =
     act_bind (act_guard (trim_space raw \<noteq> []) (ErrAuth InvalidSession)) (\<lambda>_.
     act_bind now_utc (\<lambda>now.
     act_bind (find_active_session (ad_idle deps) (hash_value deps raw) now) (\<lambda>u.
     act_ret (u\<lparr>au_user := with_avatar_url (au_user u)\<rparr>))))"

section \<open>Profiles and avatars\<close>

definition update_profile :: "string \<Rightarrow> string \<Rightarrow> bool option \<Rightarrow> user_profile repo" where
  "update_profile user_id name0 developer =
     (let name = trim_space name0 in
      act_bind (act_guard (\<not> (trim_space user_id = [] \<or> (name = [] \<and> developer = None) \<or> 100 < rune_count name))
        (ErrAuth InvalidProfile)) (\<lambda>_.
      act_bind (if name \<noteq> [] then act_bind (update_display_name user_id name) (\<lambda>p. act_ret (Some p))
                else act_ret None) (\<lambda>first.
      act_bind (case developer of
          None \<Rightarrow> act_ret first
        | Some enabled \<Rightarrow> act_bind (set_developer_mode user_id enabled) (\<lambda>p. act_ret (Some p))) (\<lambda>second.
      case second of
        None \<Rightarrow> act_fail (ErrAuth InvalidProfile)
      | Some p \<Rightarrow> act_ret (with_avatar_url p)))))"

definition update_avatar :: "auth_deps \<Rightarrow> string \<Rightarrow> avatar_upload \<Rightarrow> user_profile repo" where
  "update_avatar deps user_id upload = (case (avatar_extension (av_type upload), av_body upload) of
     (Some extension, Some body) \<Rightarrow>
       act_bind (act_guard (\<not> (trim_space user_id = [] \<or> av_size upload \<le> 0 \<or> ad_avatar_max deps < av_size upload))
         (ErrAuth InvalidAvatar)) (\<lambda>_.
       act_bind new_uuid (\<lambda>object_id.
       act_bind (act_guard (object_id \<noteq> []) (ErrText ''generating avatar object id'')) (\<lambda>_.
       let key = ''avatars/'' @ user_id @ ''/'' @ object_id @ ''.'' @ extension in
       case ad_put deps key body (av_size upload) (av_type upload) of
         Some e \<Rightarrow> act_fail e
       | None \<Rightarrow>
           act_bind (act_try (update_avatar_key user_id (Some key))) (\<lambda>r. case r of
             Inl e \<Rightarrow> act_fail (case ad_delete deps key of None \<Rightarrow> e | Some c \<Rightarrow> ErrJoined e c)
           | Inr (profile, previous) \<Rightarrow>
               if previous \<noteq> [] \<and> previous \<noteq> key then
                 (case ad_delete deps previous of Some e \<Rightarrow> act_fail e
                  | None \<Rightarrow> act_ret (with_avatar_url profile))
               else act_ret (with_avatar_url profile)))))
   | _ \<Rightarrow> act_fail (ErrAuth InvalidAvatar))"

definition open_avatar :: "auth_deps \<Rightarrow> string \<Rightarrow> avatar_file repo" where
  "open_avatar deps user_id =
     act_bind (act_guard (trim_space user_id \<noteq> []) (ErrAuth AvatarNotFound)) (\<lambda>_.
     act_bind (find_profile user_id) (\<lambda>profile.
     act_bind (act_guard (up_avatar_key profile \<noteq> []) (ErrAuth AvatarNotFound)) (\<lambda>_.
     act_lift (ad_open_file deps (up_avatar_key profile)))))"

definition delete_avatar :: "auth_deps \<Rightarrow> string \<Rightarrow> user_profile repo" where
  "delete_avatar deps user_id =
     act_bind (act_guard (trim_space user_id \<noteq> []) (ErrAuth InvalidProfile)) (\<lambda>_.
     act_bind (update_avatar_key user_id None) (\<lambda>(profile, key).
     if key \<noteq> [] then
       (case ad_delete deps key of Some e \<Rightarrow> act_fail e | None \<Rightarrow> act_ret (with_avatar_url profile))
     else act_ret (with_avatar_url profile)))"

end
