(* ===== verification/Auth_Invariants.thy ===== *)
theory Auth_Invariants
  imports Auth_Usecase Table_Laws
begin

text \<open>
  What the account tables promise at all times (\<open>accounts_inv\<close>), and how they evolve (\<open>grows\<close>): a
  session that is revoked, a challenge or login transaction that is consumed and an email that is
  verified stay so. \<open>safe K m\<close> says that \<open>m\<close> keeps the first and does the second wherever \<open>K\<close>
  holds; the rules \<open>safe_intro\<close> derive it for every use case.
\<close>

named_theorems safe_intro "rules for operations that respect the account tables"

section \<open>The account tables\<close>

definition known_to :: "user list \<Rightarrow> string list \<Rightarrow> bool" where
  "known_to us owners \<longleftrightarrow> set owners \<subseteq> us_id ` set us"

definition accounts_ok ::
  "user list \<Rightarrow> user_identity list \<Rightarrow> auth_credential list \<Rightarrow> auth_challenge list \<Rightarrow>
   auth_transaction list \<Rightarrow> retail_session list \<Rightarrow> bool" where
  "accounts_ok us ids crs chs txs ss \<longleftrightarrow>
     distinct (List.map us_id us) \<and> check_unique us_email us = None \<and>
     distinct (List.map (\<lambda>i. (ui_provider i, ui_subject i)) ids) \<and> distinct (List.map cr_user crs) \<and>
     distinct (List.map ch_id chs) \<and> distinct (List.map ch_token chs) \<and>
     distinct (List.map at_id txs) \<and> distinct (List.map at_state txs) \<and>
     distinct (List.map rs_id ss) \<and> distinct (List.map rs_token ss) \<and>
     known_to us (List.map ui_user ids) \<and> known_to us (List.map cr_user crs) \<and>
     known_to us (List.map ch_user chs) \<and> known_to us (List.map rs_user ss)"

definition accounts_inv :: "db \<Rightarrow> bool" where
  "accounts_inv d \<longleftrightarrow> accounts_ok (users d) (identities (accts d)) (credentials (accts d)) (challenges (accts d))
     (auth_txs (accts d)) (sessions d)"

definition grows :: "db \<Rightarrow> db \<Rightarrow> bool" where
  "grows d d' \<longleftrightarrow> carried us_id us_verified (users d) (users d') \<and>
     carried (\<lambda>s. (rs_id s, rs_user s, rs_token s)) rs_revoked (sessions d) (sessions d') \<and>
     carried (\<lambda>c. (ch_id c, ch_user c, ch_token c, ch_purpose c)) ch_consumed
       (challenges (accts d)) (challenges (accts d')) \<and>
     carried (\<lambda>r. (at_id r, at_state r)) at_consumed (auth_txs (accts d)) (auth_txs (accts d'))"

lemma grows_refl [simp]: "grows d d"
  by (simp add: grows_def)

lemma grows_trans: "grows a b \<Longrightarrow> grows b c \<Longrightarrow> grows a c"
  unfolding grows_def
  by (elim conjE, intro conjI; (rule carried_trans, assumption, assumption))

definition known :: "string \<Rightarrow> db \<Rightarrow> bool" where
  "known i d \<longleftrightarrow> i \<in> us_id ` set (users d)"

lemma known_grows: "known i d \<Longrightarrow> grows d d' \<Longrightarrow> known i d'"
  using carried_keys [of us_id us_verified "users d" "users d'"] by (auto simp: known_def grows_def)

lemma known_to_grows: "carried us_id us_verified us us' \<Longrightarrow> known_to us owners \<Longrightarrow> known_to us' owners"
  unfolding known_to_def using carried_keys by blast

definition acct :: "db \<Rightarrow> db \<Rightarrow> bool" where
  "acct d d' \<longleftrightarrow> accounts_inv d' \<and> grows d d'"

definition safe :: "(db \<Rightarrow> bool) \<Rightarrow> 'a repo \<Rightarrow> bool" where
  "safe K m \<longleftrightarrow> (\<forall>d t. accounts_inv d \<longrightarrow> K d \<longrightarrow> outcome m (\<lambda>_. acct d) (\<lambda>_. acct d) d t)"

definition stable :: "(db \<Rightarrow> bool) \<Rightarrow> bool" where
  "stable K \<longleftrightarrow> (\<forall>d d'. K d \<longrightarrow> grows d d' \<longrightarrow> K d')"

lemma safeI: "(\<And>d t. accounts_inv d \<Longrightarrow> K d \<Longrightarrow> outcome m (\<lambda>_. acct d) (\<lambda>_. acct d) d t) \<Longrightarrow> safe K m"
  by (simp add: safe_def)

lemma safeD: "safe K m \<Longrightarrow> accounts_inv d \<Longrightarrow> K d \<Longrightarrow> outcome m (\<lambda>_. acct d) (\<lambda>_. acct d) d t"
  by (simp add: safe_def)

lemma stable_True [safe_intro]: "stable (\<lambda>_. True)"
  by (simp add: stable_def)

lemma stable_known [safe_intro]: "stable (known i)"
  unfolding stable_def using known_grows by blast

lemma acct_refl: "accounts_inv d \<Longrightarrow> acct d d"
  by (simp add: acct_def)

lemma safe_reads: "reads m \<Longrightarrow> safe K m"
  by (rule safeI, rule outcome_reads) (auto intro: acct_refl)

lemma safe_bind [safe_intro]:
  assumes "stable K" and "safe K m" and "\<And>x. safe K (f x)"
  shows "safe K (act_bind m f)"
proof (rule safeI)
  fix d t assume d: "accounts_inv d" "K d"
  show "outcome (act_bind m f) (\<lambda>_. acct d) (\<lambda>_. acct d) d t"
  proof (rule outcome_seq [OF safeD [OF assms(2) d]])
    fix x d' assume a: "acct d d'"
    then have "accounts_inv d'" "K d'" using assms(1) d by (auto simp: acct_def stable_def)
    from safeD [OF assms(3) this] show "outcome (f x) (\<lambda>_. acct d) (\<lambda>_. acct d) d' t"
      by (rule outcome_weaken) (use a in \<open>auto simp: acct_def intro: grows_trans\<close>)
  qed
qed

text \<open>A query that establishes what the rest relies on.\<close>

lemma safe_query:
  assumes "\<And>d t. accounts_inv d \<Longrightarrow> K d \<Longrightarrow> outcome m (\<lambda>x d'. d' = d \<and> G x d) (\<lambda>_ d'. d' = d) d t"
    and "\<And>x. safe (G x) (f x)"
  shows "safe K (act_bind m f)"
proof (rule safeI)
  fix d t assume d: "accounts_inv d" "K d"
  show "outcome (act_bind m f) (\<lambda>_. acct d) (\<lambda>_. acct d) d t"
    by (rule outcome_bind, rule outcome_weaken [OF assms(1) [OF d]])
       (use d acct_refl safeD [OF assms(2)] in auto)
qed

lemma safe_ret [safe_intro]: "safe K (act_ret x)"
  by (rule safeI) (simp add: outcome_ret acct_refl)

lemma safe_fail [safe_intro]: "safe K (act_fail e)"
  by (rule safeI) (simp add: outcome_fail acct_refl)

lemma safe_guard [safe_intro]: "safe K (act_guard b e)"
  by (simp add: act_guard_def safe_ret safe_fail)

lemma safe_lift [safe_intro]: "safe K (act_lift r)"
  by (rule safeI, rule outcome_lift) (simp_all add: acct_refl)

lemma safe_now [safe_intro]: "safe K now_utc"
  by (rule safeI, rule outcome_now) (simp add: acct_refl)

lemma safe_new_uuid [safe_intro]: "safe K new_uuid"
  by (rule safeI, rule outcome_new_uuid) (simp add: acct_refl)

lemma safe_random [safe_intro]: "safe K (random_bytes n)" "safe K (random_string n)"
  by (rule safeI, rule outcome_random_bytes outcome_random_string; simp add: acct_refl)+

lemma safe_try [safe_intro]: "safe K m \<Longrightarrow> safe K (act_try m)"
  by (rule safeI, rule outcome_try) (rule safeD)

lemma safe_tx [safe_intro]: "safe K m \<Longrightarrow> safe K (tx_do m)"
proof (rule safeI)
  fix d t assume m: "safe K m" and d: "accounts_inv d" "K d"
  show "outcome (tx_do m) (\<lambda>_. acct d) (\<lambda>_. acct d) d t"
    by (rule outcome_tx, rule outcome_weaken [OF safeD [OF m d]]) (use d in \<open>simp_all add: acct_refl\<close>)
qed

lemma safe_if [safe_intro]: "(c \<Longrightarrow> safe K a) \<Longrightarrow> (\<not> c \<Longrightarrow> safe K b) \<Longrightarrow> safe K (if c then a else b)"
  by simp

lemma safe_let [safe_intro]: "(\<And>x. x = e \<Longrightarrow> safe K (f x)) \<Longrightarrow> safe K (let x = e in f x)"
  by simp

lemma safe_case_sum [safe_intro]:
  "(\<And>e. safe K (f e)) \<Longrightarrow> (\<And>x. safe K (g x)) \<Longrightarrow> safe K (case r of Inl e \<Rightarrow> f e | Inr x \<Rightarrow> g x)"
  by (cases r) auto

lemma safe_case_option [safe_intro]:
  "safe K f \<Longrightarrow> (\<And>x. safe K (g x)) \<Longrightarrow> safe K (case r of None \<Rightarrow> f | Some x \<Rightarrow> g x)"
  by (cases r) auto

lemma safe_case_prod [safe_intro]: "(\<And>x y. safe K (f x y)) \<Longrightarrow> safe K (case p of (x, y) \<Rightarrow> f x y)"
  by (cases p) auto

lemma safe_select [safe_intro]: "safe K (select f)"
  by (rule safeI, rule outcome_select) (simp_all add: acct_refl)

lemma safe_select_first [safe_intro]: "safe K (select_first f)"
  by (rule safeI, rule outcome_select_first) (simp_all add: acct_refl)

lemma safe_optional [safe_intro]: "safe K (optional_row (select_first f))"
  by (rule safeI, rule outcome_optional) (simp_all add: acct_refl)

lemma safe_or_missing [safe_intro]: "safe K (or_missing e (select_first f))"
  unfolding or_missing_def
  by (rule safeI, rule outcome_bind, rule outcome_optional) (auto intro!: outcome_ret outcome_fail acct_refl)

lemma safe_weaken: "safe K m \<Longrightarrow> (\<And>d. K' d \<Longrightarrow> K d) \<Longrightarrow> safe K' m"
  by (simp add: safe_def)

end
