(* ===== verification/Auth_Safety.thy ===== *)
theory Auth_Safety
  imports Auth_Invariants Steady
begin

text \<open>
  Every authentication use case keeps \<open>accounts_inv\<close> and lets the tables only grow: first the
  statements, then the operations of the repository, then the use cases.
\<close>

section \<open>Statements\<close>

lemma known_to_mono: "known_to us owners \<Longrightarrow> us_id ` set us \<subseteq> us_id ` set us' \<Longrightarrow> known_to us' owners"
  by (auto simp: known_to_def)

lemma safe_insert_user: "safe K (insert_user u)"
  unfolding insert_user_def
proof (rule safeI, rule outcome_insert)
  fix d rs assume d: "accounts_inv d" and rs: "rs = users d @ [u]"
    and c: "\<And>q. q \<in> set (users d) \<Longrightarrow> \<not> (us_id u = us_id q \<or> same_some (us_email u) (us_email q))"
  have "us_id ` set (users d) \<subseteq> us_id ` set rs" by (auto simp: rs)
  moreover have "check_unique us_email rs = None"
    unfolding rs by (rule check_unique_snoc) (use d c in \<open>auto simp: accounts_inv_def accounts_ok_def\<close>)
  ultimately show "acct d (d\<lparr>users := rs\<rparr>)"
    using d c by (auto simp: acct_def accounts_inv_def accounts_ok_def grows_def rs intro: known_to_mono)
qed (simp add: acct_refl)

lemma known_inserted: "outcome (insert_user u) (\<lambda>_ d'. known (us_id u) d') (\<lambda>_ _. True) d t"
  unfolding insert_user_def by (rule outcome_insert) (simp_all add: known_def)

lemma safe_insert_identity: "safe (known (ui_user i)) (insert_identity i)"
  unfolding insert_identity_def
  by (rule safeI, rule outcome_insert)
     (auto simp: acct_def accounts_inv_def accounts_ok_def grows_def known_def known_to_def)

lemma safe_insert_credential: "safe (known (cr_user c)) (insert_credential c)"
  unfolding insert_credential_def
  by (rule safeI, rule outcome_insert)
     (auto simp: acct_def accounts_inv_def accounts_ok_def grows_def known_def known_to_def)

lemma safe_insert_challenge: "safe (known (ch_user c)) (insert_challenge c)"
  unfolding insert_challenge_def
  by (rule safeI, rule outcome_insert)
     (auto simp: acct_def accounts_inv_def accounts_ok_def grows_def known_def known_to_def)

lemma safe_insert_session: "safe (known (rs_user s)) (insert_session s)"
  unfolding insert_session_def
  by (rule safeI, rule outcome_insert)
     (auto simp: acct_def accounts_inv_def accounts_ok_def grows_def known_def known_to_def)

lemma safe_insert_auth_tx [safe_intro]: "safe K (insert_auth_tx x)"
  unfolding insert_auth_tx_def
  by (rule safeI, rule outcome_insert)
     (auto simp: acct_def accounts_inv_def accounts_ok_def grows_def known_def known_to_def)

lemma safe_insert_outbox [safe_intro]: "safe K (insert_outbox m)"
  unfolding insert_outbox_def
  by (rule safeI, rule outcome_insert) (auto simp: acct_def accounts_inv_def grows_def)

lemma safe_update_users:
  assumes "\<And>d u. accounts_inv d \<Longrightarrow> K d \<Longrightarrow> u \<in> set (users d) \<Longrightarrow> P u \<Longrightarrow>
      us_id (f u) = us_id u \<and> (us_verified u \<noteq> None \<longrightarrow> us_verified (f u) = us_verified u)"
  shows "safe K (update_users P f)"
  unfolding update_users_def
proof (rule safeI, rule outcome_update)
  fix d rs assume d: "accounts_inv d" "K d" and rs: "rs = update_rows P f (users d)"
    and c: "check_unique us_email rs = None"
  note a = assms [OF d]
  have i: "us_id ` set rs = us_id ` set (users d)" unfolding rs by (rule set_keys_update_rows) (simp add: a)
  have "List.map us_id rs = List.map us_id (users d)" unfolding rs by (rule map_update_rows_on) (simp add: a)
  moreover have "carried us_id us_verified (users d) rs" unfolding rs by (rule carried_update) (simp add: a)
  ultimately show "acct d (d\<lparr>users := rs\<rparr>)"
    using d(1) c i by (simp add: acct_def accounts_inv_def accounts_ok_def grows_def known_to_def)
qed (simp add: acct_refl)

lemma safe_update_sessions:
  assumes "\<And>s. P s \<Longrightarrow> rs_id (f s) = rs_id s \<and> rs_user (f s) = rs_user s \<and> rs_token (f s) = rs_token s \<and>
      (rs_revoked s \<noteq> None \<longrightarrow> rs_revoked (f s) = rs_revoked s)"
  shows "safe K (update_sessions P f)"
  unfolding update_sessions_def
proof (rule safeI, rule outcome_update)
  fix d rs assume d: "accounts_inv d" and rs: "rs = update_rows P f (sessions d)"
  have "List.map rs_id rs = List.map rs_id (sessions d)" "List.map rs_token rs = List.map rs_token (sessions d)"
    "List.map rs_user rs = List.map rs_user (sessions d)"
    unfolding rs by (rule map_update_rows_on; simp add: assms)+
  moreover have "carried (\<lambda>s. (rs_id s, rs_user s, rs_token s)) rs_revoked (sessions d) rs"
    unfolding rs by (rule carried_update) (simp add: assms)
  ultimately show "acct d (d\<lparr>sessions := rs\<rparr>)"
    using d by (simp add: acct_def accounts_inv_def accounts_ok_def grows_def)
qed (simp add: acct_refl)

lemma safe_update_challenges:
  assumes "\<And>c. P c \<Longrightarrow> ch_id (f c) = ch_id c \<and> ch_user (f c) = ch_user c \<and> ch_token (f c) = ch_token c \<and>
      ch_purpose (f c) = ch_purpose c \<and> (ch_consumed c \<noteq> None \<longrightarrow> ch_consumed (f c) = ch_consumed c)"
  shows "safe K (update_challenges P f)"
  unfolding update_challenges_def
proof (rule safeI, rule outcome_update)
  fix d rs assume d: "accounts_inv d" and rs: "rs = update_rows P f (challenges (accts d))"
  have "List.map ch_id rs = List.map ch_id (challenges (accts d))"
    "List.map ch_token rs = List.map ch_token (challenges (accts d))"
    "List.map ch_user rs = List.map ch_user (challenges (accts d))"
    unfolding rs by (rule map_update_rows_on; simp add: assms)+
  moreover have "carried (\<lambda>c. (ch_id c, ch_user c, ch_token c, ch_purpose c)) ch_consumed (challenges (accts d)) rs"
    unfolding rs by (rule carried_update) (simp add: assms)
  ultimately show "acct d (put_acc challenges_update rs d)"
    using d by (simp add: acct_def accounts_inv_def accounts_ok_def grows_def)
qed (simp add: acct_refl)

lemma safe_update_auth_txs:
  assumes "\<And>r. P r \<Longrightarrow> at_id (f r) = at_id r \<and> at_state (f r) = at_state r \<and>
      (at_consumed r \<noteq> None \<longrightarrow> at_consumed (f r) = at_consumed r)"
  shows "safe K (update_auth_txs P f)"
  unfolding update_auth_txs_def
proof (rule safeI, rule outcome_update)
  fix d rs assume d: "accounts_inv d" and rs: "rs = update_rows P f (auth_txs (accts d))"
  have "List.map at_id rs = List.map at_id (auth_txs (accts d))"
    "List.map at_state rs = List.map at_state (auth_txs (accts d))"
    unfolding rs by (rule map_update_rows_on; simp add: assms)+
  moreover have "carried (\<lambda>r. (at_id r, at_state r)) at_consumed (auth_txs (accts d)) rs"
    unfolding rs by (rule carried_update) (simp add: assms)
  ultimately show "acct d (put_acc auth_txs_update rs d)"
    using d by (simp add: acct_def accounts_inv_def accounts_ok_def grows_def)
qed (simp add: acct_refl)

lemma safe_update_credentials:
  assumes "\<And>c. P c \<Longrightarrow> cr_user (f c) = cr_user c"
  shows "safe K (update_credentials P f)"
  unfolding update_credentials_def
proof (rule safeI, rule outcome_update)
  fix d rs assume d: "accounts_inv d" and rs: "rs = update_rows P f (credentials (accts d))"
  have "List.map cr_user rs = List.map cr_user (credentials (accts d))"
    unfolding rs by (rule map_update_rows_on) (simp add: assms)
  then show "acct d (put_acc credentials_update rs d)"
    using d by (simp add: acct_def accounts_inv_def accounts_ok_def grows_def)
qed (simp add: acct_refl)

lemma safe_update_identities:
  assumes "\<And>i. P i \<Longrightarrow> ui_user (f i) = ui_user i \<and> ui_provider (f i) = ui_provider i \<and> ui_subject (f i) = ui_subject i"
  shows "safe K (update_identities P f)"
  unfolding update_identities_def
proof (rule safeI, rule outcome_update)
  fix d rs assume d: "accounts_inv d" and rs: "rs = update_rows P f (identities (accts d))"
  have "List.map (\<lambda>i. (ui_provider i, ui_subject i)) rs =
      List.map (\<lambda>i. (ui_provider i, ui_subject i)) (identities (accts d))"
    "List.map ui_user rs = List.map ui_user (identities (accts d))"
    unfolding rs by (rule map_update_rows_on; simp add: assms)+
  then show "acct d (put_acc identities_update rs d)"
    using d by (simp add: acct_def accounts_inv_def accounts_ok_def grows_def)
qed (simp add: acct_refl)

section \<open>The repository\<close>

lemma safe_bind_weaken:
  assumes "\<And>d. K d \<Longrightarrow> K' d" and "stable K'" and "safe K m" and "\<And>x. safe K' (f x)"
  shows "safe K (act_bind m f)"
proof (rule safeI)
  fix d t assume d: "accounts_inv d" "K d"
  show "outcome (act_bind m f) (\<lambda>_. acct d) (\<lambda>_. acct d) d t"
  proof (rule outcome_seq [OF safeD [OF assms(3) d]])
    fix x d' assume a: "acct d d'"
    then have "accounts_inv d'" "K' d'" using assms(1,2) d by (auto simp: acct_def stable_def)
    from safeD [OF assms(4) this] show "outcome (f x) (\<lambda>_. acct d) (\<lambda>_. acct d) d' t"
      by (rule outcome_weaken) (use a in \<open>auto simp: acct_def intro: grows_trans\<close>)
  qed
qed

text \<open>An operation that also establishes a fact about its result.\<close>

lemma safe_bind_fact:
  assumes "\<And>d t. accounts_inv d \<Longrightarrow> K d \<Longrightarrow> outcome m (\<lambda>x d'. acct d d' \<and> G x d') (\<lambda>_. acct d) d t"
    and "\<And>x. safe (G x) (f x)"
  shows "safe K (act_bind m f)"
proof (rule safeI)
  fix d t assume d: "accounts_inv d" "K d"
  show "outcome (act_bind m f) (\<lambda>_. acct d) (\<lambda>_. acct d) d t"
  proof (rule outcome_bind, rule outcome_weaken [OF assms(1) [OF d]])
    fix x d' assume a: "acct d d' \<and> G x d'"
    then have "accounts_inv d'" by (simp add: acct_def)
    from safeD [OF assms(2) this] a have "outcome (f x) (\<lambda>_. acct d') (\<lambda>_. acct d') d' t" by simp
    then show "outcome (f x) (\<lambda>_. acct d) (\<lambda>_. acct d) d' t"
      by (rule outcome_weaken) (use a in \<open>auto simp: acct_def intro: grows_trans\<close>)
  qed
qed

lemma safe_guard_bind: "(b \<Longrightarrow> safe K (f ())) \<Longrightarrow> safe K (act_bind (act_guard b e) f)"
  by (rule safeI, rule outcome_bind, rule outcome_guard) (auto intro: safeD acct_refl)

lemma safe_now_bind: "(\<And>t. safe K (f t)) \<Longrightarrow> safe K (act_bind now_utc f)"
  by (rule safeI, rule outcome_bind, rule outcome_now) (auto intro: safeD)

lemma safe_affected [safe_intro]: "safe K m \<Longrightarrow> safe K (affected m)"
  unfolding affected_def
  by (rule safeI, rule outcome_bind, rule outcome_try)
     (auto intro!: outcome_ret elim!: outcome_weaken [OF safeD])

lemma safe_find_user [safe_intro]: "safe K (find_user P)" "safe K (or_missing e (find_user P))"
  "safe K (optional_row (find_user P))"
  unfolding find_user_def by (rule safe_intro)+

lemma safe_create_login_tx [safe_intro]: "safe (\<lambda>_. True) (create_login_tx x)"
  unfolding create_login_tx_def by (intro safe_intro)

lemma safe_consume_login_tx [safe_intro]: "safe (\<lambda>_. True) (consume_login_tx h now)"
  unfolding consume_login_tx_def by (intro safe_intro safe_update_auth_txs) simp

lemma linked_user_known:
  assumes inv: "accounts_inv d"
  shows "outcome (linked_user ident now) (\<lambda>i d'. acct d d' \<and> known i d') (\<lambda>_. acct d) d t"
proof -
  have q: "outcome (if trim_space (id_email ident) = [] then act_ret None
       else optional_row (find_user (\<lambda>u. us_email u = Some (id_email ident) \<and> us_verified u \<noteq> None \<and>
         us_status u = active_user_status)))
      (\<lambda>x d'. d' = d \<and> (\<forall>u. x = Some u \<longrightarrow> u \<in> set (users d))) (\<lambda>_ d'. d' = d) d t"
    unfolding find_user_def
    by (intro outcome_if outcome_ret outcome_optional) (auto dest: first_by_Some)
  have n: "outcome (act_bind (insert_user u) (\<lambda>_. act_ret (us_id u))) (\<lambda>i d'. acct d d' \<and> known i d') (\<lambda>_. acct d) d t" for u
    by (rule outcome_bind, rule outcome_weaken [OF outcome_both [OF safeD [OF safe_insert_user inv] known_inserted]])
       (auto intro: outcome_ret)
  show ?thesis
    unfolding linked_user_def
  proof (rule outcome_bind, rule outcome_weaken [OF q])
    fix x d' assume x: "d' = d \<and> (\<forall>u. x = Some u \<longrightarrow> u \<in> set (users d))"
    show "outcome (let linked = case x of None \<Rightarrow> [] | Some u \<Rightarrow> us_id u in
        if linked \<noteq> [] then act_ret linked
        else act_bind new_uuid (\<lambda>user_id.
          act_bind (act_guard (user_id \<noteq> []) (ErrText ''generating user id'')) (\<lambda>_.
          act_bind (insert_user
            \<lparr>us_id = user_id, us_status = active_user_status, us_display = id_name ident,
             us_email = (if trim_space (id_email ident) = [] then None else Some (trim_space (id_email ident))),
             us_avatar = None, us_verified = (if id_verified ident then Some now else None),
             us_developer = None, us_created = now, us_updated = now\<rparr>) (\<lambda>_. act_ret user_id))))
        (\<lambda>i d'. acct d d' \<and> known i d') (\<lambda>_. acct d) d' t"
      unfolding Let_def
      using x inv n [of "\<lparr>us_id = i, us_status = active_user_status, us_display = id_name ident,
             us_email = (if trim_space (id_email ident) = [] then None else Some (trim_space (id_email ident))),
             us_avatar = None, us_verified = (if id_verified ident then Some now else None),
             us_developer = None, us_created = now, us_updated = now\<rparr>" for i]
      by (intro outcome_if outcome_ret outcome_bind [of new_uuid] outcome_new_uuid
            outcome_bind [of "act_guard b e" for b e] outcome_guard)
         (auto simp: acct_refl known_def split: option.splits)
  qed (simp add: inv acct_refl)
qed

lemma upsert_identity_known:
  assumes inv: "accounts_inv d" and f: "\<And>row. found = Some row \<Longrightarrow> row \<in> set (identities (accts d))"
  shows "outcome (upsert_identity ident now found) (\<lambda>row d'. acct d d' \<and> known (ui_user row) d') (\<lambda>_. acct d) d t"
proof (cases found)
  case (Some row)
  then have k: "known (ui_user row) d"
    using inv f by (auto simp: known_def known_to_def accounts_inv_def accounts_ok_def)
  have u: "safe (known (ui_user row)) (update_identities P (\<lambda>r. r\<lparr>ui_last_login := Some now\<rparr>))" for P
    by (rule safe_update_identities) simp
  show ?thesis
    unfolding upsert_identity_def Some option.case
    by (rule outcome_bind, rule outcome_weaken [OF safeD [OF u inv k]])
       (use k known_grows in \<open>auto simp: acct_def intro!: outcome_ret\<close>)
next
  case None
  have "outcome (act_bind new_uuid (\<lambda>i.
       let row = \<lparr>ui_id = i, ui_user = user_id, ui_provider = id_provider ident, ui_subject = id_subject ident,
         ui_created = now, ui_last_login = Some now\<rparr> in
       act_bind (act_guard (i \<noteq> []) (ErrText ''generating identity id'')) (\<lambda>_.
       act_bind (insert_identity row) (\<lambda>_. act_ret row))))
      (\<lambda>row d'. acct d d' \<and> known (ui_user row) d') (\<lambda>_. acct d) d' t" if a: "acct d d' \<and> known user_id d'" for user_id d'
  proof -
    have i: "accounts_inv d'" using a by (simp add: acct_def)
    have n: "outcome (act_bind (insert_identity row) (\<lambda>_. act_ret row))
        (\<lambda>row d'. acct d d' \<and> known (ui_user row) d') (\<lambda>_. acct d) d' t" if "ui_user row = user_id" for row
      by (rule outcome_bind, rule outcome_weaken [OF safeD [OF safe_insert_identity i]])
         (use a that in \<open>auto simp: acct_def intro!: outcome_ret intro: grows_trans known_grows\<close>)
    show ?thesis
      unfolding Let_def using a
      by (intro outcome_bind [of new_uuid] outcome_new_uuid outcome_bind [of "act_guard b e" for b e] outcome_guard n)
         simp_all
  qed
  then show ?thesis
    unfolding upsert_identity_def None option.case
    by (intro outcome_bind [of "linked_user ident now"] outcome_weaken [OF linked_user_known [OF inv]])
qed

text \<open>A row that is read, changed and saved: the identifier names that row alone.\<close>

lemma unique_user: "accounts_inv d \<Longrightarrow> u \<in> set (users d) \<Longrightarrow> v \<in> set (users d) \<Longrightarrow> us_id u = us_id v \<Longrightarrow> u = v"
  by (auto simp: accounts_inv_def accounts_ok_def distinct_map inj_on_def)

lemma safe_save_user:
  assumes "us_id v = us_id u" and "us_verified u \<noteq> None \<longrightarrow> us_verified v = us_verified u"
  shows "safe (\<lambda>d. u \<in> set (users d)) (update_users (\<lambda>r. us_id r = us_id u) (\<lambda>_. v))"
  by (rule safe_update_users) (use assms unique_user in metis)

lemma member_known: "u \<in> set (users d) \<Longrightarrow> known (us_id u) d"
  by (simp add: known_def)

lemma safe_upsert_identity_and_create_session [safe_intro]:
  "safe (\<lambda>_. True) (upsert_identity_and_create_session ident session)"
proof -
  have tail: "safe (\<lambda>d. u \<in> set (users d))
      (act_bind (act_guard (us_status u = active_user_status) (ErrAuth UserDisabled)) (\<lambda>_.
       let user' = refreshed_user ident now u in
       act_bind (update_users (\<lambda>r. us_id r = us_id u) (\<lambda>_. user')) (\<lambda>_.
       act_bind new_uuid (\<lambda>i.
       act_bind (act_guard (i \<noteq> []) (ErrText ''generating session id'')) (\<lambda>_.
       act_bind (insert_session \<lparr>rs_id = i, rs_user = us_id user', rs_token = se_token session,
         rs_expires = se_expires session, rs_last_used = se_last_used session, rs_revoked = None,
         rs_created = now, rs_updated = now\<rparr>) (\<lambda>_.
       act_ret (user_profile_of user')))))))" for u now
    by (intro safe_guard_bind safe_let safe_bind_weaken [where K' = "known (us_id u)", OF member_known]
          safe_save_user safe_intro)
       (auto simp: refreshed_user_def intro!: safe_weaken [OF safe_insert_session])
  show ?thesis
    unfolding upsert_identity_and_create_session_def
    by (intro safe_tx safe_query [where G = "\<lambda>x d. \<forall>row. x = Some row \<longrightarrow> row \<in> set (identities (accts d))"]
          safe_now_bind safe_bind_fact [where G = "\<lambda>row. known (ui_user row)", OF upsert_identity_known]
          safe_query [where G = "\<lambda>u d. u \<in> set (users d)"] tail outcome_optional outcome_find_user)
       (auto dest: first_by_Some)
qed

lemma safe_revoke_session [safe_intro]:
  "safe (\<lambda>_. True) (revoke_session h now)" "safe (\<lambda>_. True) (revoke_sessions_for_user i now)"
  unfolding revoke_session_def revoke_sessions_for_user_def
  by (intro safe_intro safe_update_sessions; simp)+

lemma safe_find_active_session [safe_intro]: "safe (\<lambda>_. True) (find_active_session idle h now)"
  unfolding find_active_session_def by (intro safe_intro safe_update_sessions) simp

lemma safe_find_profile [safe_intro]: "safe (\<lambda>_. True) (find_profile i)"
  unfolding find_profile_def by (intro safe_intro)

lemma safe_set_developer_mode [safe_intro]: "safe (\<lambda>_. True) (set_developer_mode i b)"
  unfolding set_developer_mode_def by (intro safe_intro safe_update_users) simp

lemma safe_set_email_verified [safe_intro]: "safe (\<lambda>_. True) (set_email_verified i now)"
  unfolding set_email_verified_def by (intro safe_intro safe_update_users) simp

lemma safe_update_display_name [safe_intro]: "safe (\<lambda>_. True) (update_display_name i name)"
  unfolding update_display_name_def
  by (intro safe_tx safe_query [where G = "\<lambda>u d. u \<in> set (users d)"] safe_now_bind safe_let outcome_or_missing_user
        safe_bind_weaken [where K' = "\<lambda>_. True"] safe_save_user safe_intro) simp_all

lemma safe_update_avatar_key [safe_intro]: "safe (\<lambda>_. True) (update_avatar_key i key)"
  unfolding update_avatar_key_def by (intro safe_intro safe_update_users) simp

text \<open>Credentials and challenges.\<close>

lemma safe_create_email_outbox_message [safe_intro]: "stable K \<Longrightarrow> safe K (create_email_outbox_message job now)"
  unfolding create_email_outbox_message_def by (intro safe_intro)

lemma safe_new_challenge [safe_intro]: "safe (known (cl_user c)) (new_challenge c now)"
  unfolding new_challenge_def
  by (intro safe_intro) (auto intro: safe_weaken [OF safe_insert_challenge])

lemma safe_new_credential [safe_intro]: "safe (known i) (new_credential i h now)"
  unfolding new_credential_def
  by (intro safe_intro) (auto intro: safe_weaken [OF safe_insert_credential])

lemma safe_create_challenge [safe_intro]: "safe (known (cl_user c)) (create_challenge_with_email_job c job)"
  unfolding create_challenge_with_email_job_def by (intro safe_intro)

lemma safe_create_user_with_credential:
  assumes "cl_user (rr_challenge r) = rr_user r"
  shows "safe (\<lambda>_. True) (create_user_with_credential r)"
proof -
  have i: "safe (known (rr_user r)) (insert_identity \<lparr>ui_id = i, ui_user = rr_user r, ui_provider = provider_credentials,
      ui_subject = rr_email r, ui_created = now, ui_last_login = None\<rparr>)" for i now
    by (rule safe_weaken [OF safe_insert_identity]) simp
  have u: "outcome (insert_user u) (\<lambda>x d'. acct d d' \<and> known (us_id u) d') (\<lambda>_. acct d) d t"
    if "accounts_inv d" for u d t
    by (rule outcome_weaken [OF outcome_both [OF safeD [OF safe_insert_user that] known_inserted]]) simp_all
  show ?thesis
    unfolding create_user_with_credential_def
    by (rule safe_bind [OF stable_True safe_try [OF safe_tx]], rule safe_now_bind,
        rule safe_bind_fact [where G = "\<lambda>_. known (rr_user r)"])
       ((rule outcome_weaken, erule u; simp), (intro safe_intro i safe_new_challenge [of "rr_challenge r", unfolded assms])+)
qed

lemma find_credential_known:
  "accounts_inv d \<Longrightarrow>
   outcome (find_credential P)
     (\<lambda>x d'. d' = d \<and> (\<forall>st. x = Some st \<longrightarrow> known (cs_user st) d \<and>
        (\<exists>u c. u \<in> set (users d) \<and> P u \<and> c \<in> set (credentials (accts d)) \<and> cr_user c = us_id u \<and>
           st = \<lparr>cs_user = us_id u, cs_email = deref_str (us_email u), cs_name = us_display u, cs_hash = cr_hash c,
             cs_verified = (us_verified u \<noteq> None), cs_active = (us_status u = active_user_status),
             cs_failed = cr_failed c, cs_locked = cr_locked c\<rparr>)))
     (\<lambda>_ d'. d' = d) d t"
  unfolding find_credential_def credential_for_user_def find_user_def
  by (intro outcome_bind outcome_optional outcome_case_option outcome_ret)
     (auto dest!: first_by_Some intro!: outcome_bind outcome_optional outcome_ret simp: known_def)

lemma safe_increment [safe_intro]: "safe K (increment_login_failures i n k now)" if "stable K"
  unfolding increment_login_failures_def by (intro safe_intro safe_update_credentials that) simp

lemma safe_reset_failures [safe_intro]: "safe K (reset_login_failures i now)" if "stable K"
  unfolding reset_login_failures_def by (intro safe_intro safe_update_credentials that) simp

lemma safe_update_password_hash [safe_intro]: "safe (known i) (update_password_hash i h now)"
  unfolding update_password_hash_def by (intro safe_intro safe_update_credentials) simp

lemma consume_challenge_known:
  assumes inv: "accounts_inv d"
  shows "outcome (consume_challenge h p now) (\<lambda>i d'. acct d d' \<and> known i d') (\<lambda>_. acct d) d t"
proof -
  have tail: "safe (known (ch_user row))
      (act_bind (affected (update_challenges (\<lambda>c. ch_id c = ch_id row \<and> ch_consumed c = None \<and> now < ch_expires c)
         (\<lambda>c. c\<lparr>ch_consumed := Some now\<rparr>))) (\<lambda>n.
       act_bind (act_guard (n = 1) (ErrAuth InvalidChallenge)) (\<lambda>_. act_ret (ch_user row))))" for row
    by (intro safe_intro safe_update_challenges) simp
  have k: "known (ch_user row) d" if "row \<in> set (challenges (accts d))" for row
    using inv that by (auto simp: known_def known_to_def accounts_inv_def accounts_ok_def)
  have r: "outcome (act_bind (affected (update_challenges (\<lambda>c. ch_id c = ch_id row \<and> ch_consumed c = None \<and> now < ch_expires c)
         (\<lambda>c. c\<lparr>ch_consumed := Some now\<rparr>))) (\<lambda>n.
       act_bind (act_guard (n = 1) (ErrAuth InvalidChallenge)) (\<lambda>_. act_ret (ch_user row))))
      (\<lambda>i d'. i = ch_user row) (\<lambda>_ _. True) d t" for row
    unfolding affected_def update_challenges_def
    by (intro outcome_intro) simp_all
  show ?thesis
    unfolding consume_challenge_def
    by (intro outcome_tx outcome_bind [of "or_missing e m" for e m] outcome_or_missing
          outcome_weaken [OF outcome_both [OF safeD [OF tail inv] r]])
       (auto dest!: first_by_Some simp: acct_def inv intro: known_grows [OF k])
qed

section \<open>The use cases\<close>

lemma safe_hash_new_password [safe_intro]: "stable K \<Longrightarrow> safe K (hash_new_password deps p)"
  unfolding hash_new_password_def by (intro safe_intro)

lemma safe_must_hash_password [safe_intro]: "stable K \<Longrightarrow> safe K (must_hash_password deps p)"
  unfolding must_hash_password_def by (intro safe_intro)

lemma safe_new_email_delivery [safe_intro]: "stable K \<Longrightarrow> safe K (new_email_delivery deps tp a r l now)"
  unfolding new_email_delivery_def by (intro safe_intro)

lemma safe_anywhere: "safe (\<lambda>_. True) m \<Longrightarrow> safe K m"
  by (erule safe_weaken) simp

lemma safe_create_session [safe_intro]: "safe (\<lambda>_. True) (create_session deps ident now)"
  unfolding create_session_def by (intro safe_intro)

lemma safe_begin_google_login: "safe (\<lambda>_. True) (begin_google_login deps)"
  unfolding begin_google_login_def by (intro safe_intro)

lemma safe_complete_google_login: "safe (\<lambda>_. True) (complete_google_login deps code state)"
  unfolding complete_google_login_def by (intro safe_intro)

lemma safe_register: "safe (\<lambda>_. True) (register deps input)"
  unfolding register_def by (intro safe_intro safe_create_user_with_credential) simp

lemma safe_issue_challenge [safe_intro]: "safe (known i) (issue_challenge deps tp p l k i e)"
  unfolding issue_challenge_def
  by (intro safe_intro) (auto intro: safe_weaken [OF safe_create_challenge])

lemma find_by_email_known:
  "accounts_inv d \<Longrightarrow>
   outcome (find_credential_by_email e) (\<lambda>x d'. d' = d \<and> (\<forall>st. x = Some st \<longrightarrow> known (cs_user st) d)) (\<lambda>_ d'. d' = d) d t"
  unfolding find_credential_by_email_def by (rule outcome_weaken [OF find_credential_known]) auto

lemma safe_resend_verification: "safe (\<lambda>_. True) (resend_verification deps email)"
proof -
  have i: "safe (\<lambda>d. \<forall>st'. Some st = Some st' \<longrightarrow> known (cs_user st') d)
     (issue_challenge deps tp p l k (cs_user st) e)" for st tp p l k e
    by (rule safe_weaken [OF safe_issue_challenge]) simp
  show ?thesis
    unfolding resend_verification_def
    by (intro safe_case_sum safe_fail
          safe_query [where G = "\<lambda>x d. \<forall>st. x = Some st \<longrightarrow> known (cs_user st) d", OF find_by_email_known])
       (auto split: option.splits intro!: safe_ret i [simplified])
qed

lemma find_user_by_email_known:
  "accounts_inv d \<Longrightarrow>
   outcome (find_user_by_email e) (\<lambda>x d'. d' = d \<and> (\<forall>p. x = Some p \<longrightarrow> known (up_id p) d)) (\<lambda>_ d'. d' = d) d t"
  unfolding find_user_by_email_def find_user_def
  by (intro outcome_bind outcome_optional outcome_ret)
     (auto dest!: first_by_Some simp: known_def user_profile_of_def)

lemma safe_request_password_reset: "safe (\<lambda>_. True) (request_password_reset deps email)"
proof -
  have i: "safe (\<lambda>d. \<forall>q. Some p = Some q \<longrightarrow> known (up_id q) d)
     (issue_challenge deps tp pu l k (up_id p) e)" for p tp pu l k e
    by (rule safe_weaken [OF safe_issue_challenge]) simp
  show ?thesis
    unfolding request_password_reset_def
    by (intro safe_case_sum safe_fail
          safe_query [where G = "\<lambda>x d. \<forall>p. x = Some p \<longrightarrow> known (up_id p) d", OF find_user_by_email_known])
       (auto split: option.splits intro!: safe_ret i [simplified])
qed

lemma safe_verify_email: "safe (\<lambda>_. True) (verify_email deps token)"
  unfolding verify_email_def Let_def
  by (intro safe_intro safe_bind_fact [where G = known, OF consume_challenge_known]
        safe_anywhere [OF safe_set_email_verified])

lemma safe_reset_password: "safe (\<lambda>_. True) (reset_password deps token new)"
  unfolding reset_password_def Let_def
  by (intro safe_guard_bind safe_now_bind safe_bind_fact [where G = known, OF consume_challenge_known]
        safe_intro safe_anywhere [OF safe_revoke_session(2)])

lemma safe_change_password: "safe (\<lambda>_. True) (change_password deps i old new)"
proof -
  have q: "outcome (find_credential_by_user_id i) (\<lambda>x d'. d' = d \<and> (\<forall>st. x = Some st \<longrightarrow> known i d)) (\<lambda>_ d'. d' = d) d t"
    if "accounts_inv d" for d t
    unfolding find_credential_by_user_id_def
    by (rule outcome_weaken [OF find_credential_known [OF that]]) auto
  have s: "safe (known i) (revoke_sessions_for_user i now)" for now
    by (rule safe_anywhere [OF safe_revoke_session(2)])
  show ?thesis
    unfolding change_password_def
    by (intro safe_guard_bind
          safe_query [where G = "\<lambda>x d. \<forall>st. x = Some st \<longrightarrow> known i d", OF q])
       (auto split: option.splits intro!: safe_intro s)
qed

lemma safe_login_with_password: "safe (\<lambda>_. True) (login_with_password deps email password)"
proof -
  have s: "safe (known (cs_user st))
      (act_bind (act_lift (verify_password (ad_kdf deps) (cs_hash st) password)) (\<lambda>(match, rehash).
             if \<not> match then
               act_bind (act_try (increment_login_failures (cs_user st) max_failed_logins login_lock_duration now)) (\<lambda>r.
               case r of Inl e \<Rightarrow> act_fail (ErrJoined (ErrAuth InvalidCredentials) e)
               | Inr _ \<Rightarrow> act_fail (ErrAuth InvalidCredentials))
             else
               act_bind (act_guard (cs_active st) (ErrAuth UserDisabled)) (\<lambda>_.
               act_bind (act_guard (cs_verified st) (ErrAuth EmailNotVerified)) (\<lambda>_.
               act_bind (if rehash then act_bind (must_hash_password deps password) (\<lambda>h.
                   update_password_hash (cs_user st) h now) else act_ret ()) (\<lambda>_.
               act_bind (create_session deps (password_identity e st) now) (\<lambda>result.
               act_bind (reset_login_failures (cs_user st) now) (\<lambda>_.
               act_ret result)))))))" for st now e
    by (intro safe_intro safe_anywhere [OF safe_create_session])
  show ?thesis
    unfolding login_with_password_def
    by (intro safe_case_sum safe_fail safe_now_bind
          safe_query [where G = "\<lambda>x d. \<forall>st. x = Some st \<longrightarrow> known (cs_user st) d", OF find_by_email_known])
       (auto split: option.splits intro!: safe_fail s)
qed

lemma safe_logout: "safe (\<lambda>_. True) (logout deps raw)"
  unfolding logout_def by (intro safe_intro)

lemma safe_authenticate: "safe (\<lambda>_. True) (authenticate deps raw)"
  unfolding authenticate_def by (intro safe_intro)

lemma safe_update_profile: "safe (\<lambda>_. True) (update_profile i name b)"
  unfolding update_profile_def Let_def by (intro safe_intro)

lemma safe_update_avatar: "safe (\<lambda>_. True) (update_avatar deps i upload)"
  unfolding update_avatar_def Let_def by (intro safe_intro)

lemma safe_open_avatar: "safe (\<lambda>_. True) (open_avatar deps i)"
  unfolding open_avatar_def by (intro safe_intro)

lemma safe_delete_avatar: "safe (\<lambda>_. True) (delete_avatar deps i)"
  unfolding delete_avatar_def by (intro safe_intro)

end
