(* ===== verification/Auth_System.thy ===== *)
theory Auth_System
  imports Auth_Safety System
begin

text \<open>
  The authentication calls as one system (\<open>auth_call\<close>), what a run of any of them leaves
  (\<open>later\<close>), and the exact effects of redeeming a token and of ending sessions.
\<close>

datatype auth_call =
    CallBeginGoogle
  | CallCompleteGoogle string string
  | CallRegister register_input
  | CallLogin string string
  | CallVerifyEmail string
  | CallResend string
  | CallRequestReset string
  | CallReset string string
  | CallChangePassword string string string
  | CallLogout string
  | CallAuthenticate string
  | CallUpdateProfile string string "bool option"
  | CallUpdateAvatar string avatar_upload
  | CallOpenAvatar string
  | CallDeleteAvatar string

fun run_call :: "auth_deps \<Rightarrow> auth_call \<Rightarrow> unit repo" where
  "run_call deps CallBeginGoogle = ignore (begin_google_login deps)"
| "run_call deps (CallCompleteGoogle code state) = ignore (complete_google_login deps code state)"
| "run_call deps (CallRegister input) = ignore (register deps input)"
| "run_call deps (CallLogin email password) = ignore (login_with_password deps email password)"
| "run_call deps (CallVerifyEmail token) = ignore (verify_email deps token)"
| "run_call deps (CallResend email) = resend_verification deps email"
| "run_call deps (CallRequestReset email) = request_password_reset deps email"
| "run_call deps (CallReset token password) = reset_password deps token password"
| "run_call deps (CallChangePassword i old new) = change_password deps i old new"
| "run_call deps (CallLogout raw) = logout deps raw"
| "run_call deps (CallAuthenticate raw) = ignore (authenticate deps raw)"
| "run_call deps (CallUpdateProfile i name b) = ignore (update_profile i name b)"
| "run_call deps (CallUpdateAvatar i upload) = ignore (update_avatar deps i upload)"
| "run_call deps (CallOpenAvatar i) = ignore (open_avatar deps i)"
| "run_call deps (CallDeleteAvatar i) = ignore (delete_avatar deps i)"

lemma safe_ignore: "safe (\<lambda>_. True) m \<Longrightarrow> safe (\<lambda>_. True) (ignore m)"
  unfolding ignore_def by (intro safe_intro)

lemma safe_run_call: "safe (\<lambda>_. True) (run_call deps c)"
  by (cases c)
     (auto intro!: safe_ignore safe_begin_google_login safe_complete_google_login safe_register
        safe_login_with_password safe_verify_email safe_resend_verification safe_request_password_reset
        safe_reset_password safe_change_password safe_logout safe_authenticate safe_update_profile
        safe_update_avatar safe_open_avatar safe_delete_avatar)

interpretation auth_system: invariant_system "run_call deps" accounts_inv for deps
  by unfold_locales
     (rule outcome_weaken [OF safeD [OF safe_run_call]], auto simp: acct_def)

text \<open>\<open>later deps d d'\<close>: some calls, each with its own draws, faults and time, lead from \<open>d\<close> to \<open>d'\<close>.\<close>

inductive later :: "auth_deps \<Rightarrow> db \<Rightarrow> db \<Rightarrow> bool" for deps d where
  later_now: "later deps d d"
| later_call: "later deps d (w_db w) \<Longrightarrow> run_call deps c w = (r, w') \<Longrightarrow> later deps d (w_db w')"

lemma safe_run:
  "safe (\<lambda>_. True) m \<Longrightarrow> accounts_inv (w_db w) \<Longrightarrow> m w = (r, w') \<Longrightarrow> acct (w_db w) (w_db w')"
proof -
  assume s: "safe (\<lambda>_. True) m" "accounts_inv (w_db w)" and r: "m w = (r, w')"
  from outcomeD [OF safeD [OF s TrueI] refl refl r] show ?thesis by (cases r) simp_all
qed

lemma later_acct: "later deps d d' \<Longrightarrow> accounts_inv d \<Longrightarrow> acct d d'"
proof (induction rule: later.induct)
  case later_now
  then show ?case by (rule acct_refl)
next
  case (later_call w c r w')
  then have "acct (w_db w) (w_db w')" by (intro safe_run [OF safe_run_call]) (auto simp: acct_def)
  with later_call show ?case by (auto simp: acct_def intro: grows_trans)
qed

section \<open>Redeeming tokens\<close>

definition challenge_spent :: "byte list \<Rightarrow> db \<Rightarrow> bool" where
  "challenge_spent token d \<longleftrightarrow> (\<exists>c \<in> set (challenges (accts d)). ch_token c = token \<and> ch_consumed c \<noteq> None)"

definition login_spent :: "byte list \<Rightarrow> db \<Rightarrow> bool" where
  "login_spent state d \<longleftrightarrow> (\<exists>r \<in> set (auth_txs (accts d)). at_state r = state \<and> at_consumed r \<noteq> None)"

definition challenge_live :: "byte list \<Rightarrow> string \<Rightarrow> time \<Rightarrow> auth_challenge \<Rightarrow> bool" where
  "challenge_live token purpose now c \<longleftrightarrow>
     ch_token c = token \<and> ch_purpose c = purpose \<and> ch_consumed c = None \<and> now < ch_expires c"

lemma spent_grows:
  "challenge_spent token d \<Longrightarrow> grows d d' \<Longrightarrow> challenge_spent token d'"
  "login_spent state d \<Longrightarrow> grows d d' \<Longrightarrow> login_spent state d'"
proof -
  assume g: "grows d d'"
  { assume "challenge_spent token d"
    then obtain c where c: "c \<in> set (challenges (accts d))" "ch_token c = token" "ch_consumed c \<noteq> None"
      by (auto simp: challenge_spent_def)
    from g have "carried (\<lambda>c. (ch_id c, ch_user c, ch_token c, ch_purpose c)) ch_consumed
       (challenges (accts d)) (challenges (accts d'))" by (simp add: grows_def)
    from carried_stamped [OF this c(1,3)] c(2,3) show "challenge_spent token d'"
      by (auto simp: challenge_spent_def) }
  { assume "login_spent state d"
    then obtain r where r: "r \<in> set (auth_txs (accts d))" "at_state r = state" "at_consumed r \<noteq> None"
      by (auto simp: login_spent_def)
    from g have "carried (\<lambda>r. (at_id r, at_state r)) at_consumed (auth_txs (accts d)) (auth_txs (accts d'))"
      by (simp add: grows_def)
    from carried_stamped [OF this r(1,3)] r(2,3) show "login_spent state d'"
      by (auto simp: login_spent_def) }
qed

lemma consume_challenge_outcome:
  "outcome (consume_challenge token purpose now)
     (\<lambda>i d'. \<exists>c \<in> set (challenges (accts d)). challenge_live token purpose now c \<and> i = ch_user c \<and>
        d' = d\<lparr>accts := (accts d)\<lparr>challenges :=
          update_rows (\<lambda>r. ch_id r = ch_id c \<and> ch_consumed r = None \<and> now < ch_expires r)
            (\<lambda>r. r\<lparr>ch_consumed := Some now\<rparr>) (challenges (accts d))\<rparr>\<rparr>)
     (\<lambda>_ d'. d' = d) d t"
  unfolding consume_challenge_def affected_def store_defs
  apply (intro outcome_intro)
  subgoal for c by (drule first_by_Some, rule bexI [of _ c]) (simp_all add: challenge_live_def)
  by simp_all

lemma consume_challenge_spends:
  "outcome (consume_challenge token purpose now) (\<lambda>_. challenge_spent token) (\<lambda>_ d'. d' = d) d t"
proof (rule outcome_weaken [OF consume_challenge_outcome], elim bexE conjE)
  fix i d' c assume c: "c \<in> set (challenges (accts d))" "challenge_live token purpose now c"
    and d': "d' = d\<lparr>accts := (accts d)\<lparr>challenges :=
          update_rows (\<lambda>r. ch_id r = ch_id c \<and> ch_consumed r = None \<and> now < ch_expires r)
            (\<lambda>r. r\<lparr>ch_consumed := Some now\<rparr>) (challenges (accts d))\<rparr>\<rparr>"
  from in_update_rows [OF c(1), of "\<lambda>r. ch_id r = ch_id c \<and> ch_consumed r = None \<and> now < ch_expires r"
      "\<lambda>r. r\<lparr>ch_consumed := Some now\<rparr>"] c(2)
  show "challenge_spent token d'"
    unfolding challenge_spent_def d' by (intro bexI) (auto simp: challenge_live_def)
qed simp

lemma consume_challenge_refuses:
  assumes "accounts_inv d" "challenge_spent token d"
  shows "outcome (consume_challenge token purpose now) (\<lambda>_ _. False) (\<lambda>_ d'. d' = d) d t"
proof (rule outcome_weaken [OF consume_challenge_outcome])
  fix i d' assume "\<exists>c \<in> set (challenges (accts d)). challenge_live token purpose now c \<and> i = ch_user c \<and>
        d' = d\<lparr>accts := (accts d)\<lparr>challenges :=
          update_rows (\<lambda>r. ch_id r = ch_id c \<and> ch_consumed r = None \<and> now < ch_expires r)
            (\<lambda>r. r\<lparr>ch_consumed := Some now\<rparr>) (challenges (accts d))\<rparr>\<rparr>"
  then obtain c where c: "c \<in> set (challenges (accts d))" "ch_token c = token" "ch_consumed c = None"
    by (auto simp: challenge_live_def)
  from assms(2) obtain c' where c': "c' \<in> set (challenges (accts d))" "ch_token c' = token" "ch_consumed c' \<noteq> None"
    by (auto simp: challenge_spent_def)
  from assms(1) have "distinct (List.map ch_token (challenges (accts d)))"
    by (simp add: accounts_inv_def accounts_ok_def)
  with c c' have "c = c'" by (auto simp: distinct_map inj_on_def)
  with c c' show False by simp
qed

interpretation challenge_tokens: single_use "\<lambda>(token, purpose). consume_challenge token purpose"
    "\<lambda>(token, purpose). challenge_spent token" accounts_inv
  by unfold_locales (auto split: prod.splits intro: consume_challenge_spends consume_challenge_refuses)

lemma consume_login_tx_outcome:
  "outcome (consume_login_tx state now)
     (\<lambda>x d'. \<exists>r \<in> set (auth_txs (accts d)). at_state r = state \<and> at_consumed r = None \<and> now < at_expires r \<and>
        x = \<lparr>lt_id = at_id r, lt_state = at_state r, lt_nonce = at_nonce r, lt_verifier = at_verifier r,
          lt_expires = at_expires r, lt_consumed = Some now\<rparr> \<and>
        d' = d\<lparr>accts := (accts d)\<lparr>auth_txs :=
          update_rows (\<lambda>q. at_id q = at_id r \<and> at_consumed q = None \<and> now < at_expires q)
            (\<lambda>q. q\<lparr>at_consumed := Some now\<rparr>) (auth_txs (accts d))\<rparr>\<rparr>)
     (\<lambda>_ d'. d' = d) d t"
  unfolding consume_login_tx_def affected_def store_defs
  apply (intro outcome_intro)
  subgoal for r by (drule first_by_Some, rule bexI [of _ r]) simp_all
  by simp_all

lemma consume_login_spends:
  "outcome (consume_login_tx state now) (\<lambda>_. login_spent state) (\<lambda>_ d'. d' = d) d t"
proof (rule outcome_weaken [OF consume_login_tx_outcome], elim bexE conjE)
  fix x d' r assume r: "r \<in> set (auth_txs (accts d))" "at_state r = state" "at_consumed r = None" "now < at_expires r"
    and d': "d' = d\<lparr>accts := (accts d)\<lparr>auth_txs :=
          update_rows (\<lambda>q. at_id q = at_id r \<and> at_consumed q = None \<and> now < at_expires q)
            (\<lambda>q. q\<lparr>at_consumed := Some now\<rparr>) (auth_txs (accts d))\<rparr>\<rparr>"
  from in_update_rows [OF r(1), of "\<lambda>q. at_id q = at_id r \<and> at_consumed q = None \<and> now < at_expires q"
      "\<lambda>q. q\<lparr>at_consumed := Some now\<rparr>"] r(2-)
  show "login_spent state d'"
    unfolding login_spent_def d' by (intro bexI) auto
qed simp

lemma consume_login_refuses:
  assumes "accounts_inv d" "login_spent state d"
  shows "outcome (consume_login_tx state now) (\<lambda>_ _. False) (\<lambda>_ d'. d' = d) d t"
proof (rule outcome_weaken [OF consume_login_tx_outcome], elim bexE conjE)
  fix r assume r: "r \<in> set (auth_txs (accts d))" "at_state r = state" "at_consumed r = None"
  from assms(2) obtain r' where r': "r' \<in> set (auth_txs (accts d))" "at_state r' = state" "at_consumed r' \<noteq> None"
    by (auto simp: login_spent_def)
  from assms(1) have "distinct (List.map at_state (auth_txs (accts d)))"
    by (simp add: accounts_inv_def accounts_ok_def)
  with r r' have "r = r'" by (auto simp: distinct_map inj_on_def)
  with r r' show False by simp
qed simp

interpretation login_states: single_use consume_login_tx login_spent accounts_inv
  by unfold_locales (auto intro: consume_login_spends consume_login_refuses)

section \<open>Ending sessions\<close>

definition session_ended :: "byte list \<Rightarrow> db \<Rightarrow> bool" where
  "session_ended token d \<longleftrightarrow> (\<exists>s \<in> set (sessions d). rs_token s = token \<and> rs_revoked s \<noteq> None)"

lemma session_ended_grows: "session_ended token d \<Longrightarrow> grows d d' \<Longrightarrow> session_ended token d'"
proof -
  assume "session_ended token d" and g: "grows d d'"
  then obtain s where s: "s \<in> set (sessions d)" "rs_token s = token" "rs_revoked s \<noteq> None"
    by (auto simp: session_ended_def)
  from g have "carried (\<lambda>s. (rs_id s, rs_user s, rs_token s)) rs_revoked (sessions d) (sessions d')"
    by (simp add: grows_def)
  from carried_stamped [OF this s(1,3)] s(2,3) show ?thesis by (auto simp: session_ended_def)
qed

lemma revoked_rows_ended:
  assumes "s \<in> set (sessions d)" "rs_token s = token" "rs_revoked s = None \<Longrightarrow> P s"
  shows "session_ended token (d\<lparr>sessions :=
     update_rows P (\<lambda>s. s\<lparr>rs_revoked := Some now, rs_updated := now\<rparr>) (sessions d)\<rparr>)"
  using in_update_rows [OF assms(1), of P "\<lambda>s. s\<lparr>rs_revoked := Some now, rs_updated := now\<rparr>"] assms(2,3)
  unfolding session_ended_def by (intro bexI) (auto split: if_splits)

lemma revoke_session_ends:
  "\<exists>s \<in> set (sessions d). rs_token s = token \<Longrightarrow>
   outcome (revoke_session token now) (\<lambda>_. session_ended token) (\<lambda>_ _. True) d t"
  unfolding revoke_session_def store_defs
  by (intro outcome_intro) (auto intro: revoked_rows_ended)

lemma revoke_user_sessions_ends:
  "\<exists>s \<in> set (sessions d). rs_token s = token \<and> rs_user s = i \<Longrightarrow>
   outcome (revoke_sessions_for_user i now) (\<lambda>_. session_ended token) (\<lambda>_ _. True) d t"
  unfolding revoke_sessions_for_user_def store_defs
  by (intro outcome_intro) (auto intro: revoked_rows_ended)

text \<open>What a successful authentication has found.\<close>

lemma authenticate_finds:
  "outcome (authenticate deps raw)
     (\<lambda>a _. \<exists>s \<in> set (sessions d). \<exists>u \<in> set (users d). rs_token s = hash_value deps raw \<and>
        session_live (ad_idle deps) t s \<and> us_id u = rs_user s \<and> us_status u = active_user_status \<and>
        au_session a = rs_id s \<and> au_user a = with_avatar_url (user_profile_of u))
     (\<lambda>_ _. True) d t"
  unfolding authenticate_def find_active_session_def find_user_def store_defs
  by (intro outcome_intro) (auto dest!: first_by_Some)

lemma authenticate_given: "authenticate deps raw w = (Inr a, w') \<Longrightarrow> trim_space raw \<noteq> []"
  unfolding authenticate_def by (auto simp: act_bind_def act_guard_def act_fail_def)

lemma authenticate_ended:
  assumes "accounts_inv (w_db w)" "session_ended (hash_value deps raw) (w_db w)"
  shows "\<exists>e w'. authenticate deps raw w = (Inl e, w')"
proof -
  obtain r w' where r: "authenticate deps raw w = (r, w')" by fastforce
  have "r \<noteq> Inr a" for a
  proof
    assume "r = Inr a"
    with outcome_Inr [OF authenticate_finds] r obtain s where
      s: "s \<in> set (sessions (w_db w))" "rs_token s = hash_value deps raw" "rs_revoked s = None"
      by (force simp: session_live_def)
    from assms(2) obtain s' where
      s': "s' \<in> set (sessions (w_db w))" "rs_token s' = hash_value deps raw" "rs_revoked s' \<noteq> None"
      by (auto simp: session_ended_def)
    from assms(1) have "distinct (List.map rs_token (sessions (w_db w)))"
      by (simp add: accounts_inv_def accounts_ok_def)
    with s s' have "s = s'" by (auto simp: distinct_map inj_on_def)
    with s s' show False by simp
  qed
  with r show ?thesis by (cases r) auto
qed

section \<open>Resets and sign-outs\<close>

text \<open>A safe continuation keeps what only grows.\<close>

lemma outcome_keep:
  assumes "outcome m (\<lambda>x d'. acct d d' \<and> G x d') (\<lambda>_ _. True) d t"
    and "\<And>x. safe (G x) (f x)" and "\<And>x. stable (G x)"
  shows "outcome (act_bind m f) (\<lambda>_ d'. acct d d' \<and> (\<exists>x. G x d')) (\<lambda>_ _. True) d t"
proof (rule outcome_bind, rule outcome_weaken [OF assms(1)])
  fix x d1 assume a: "acct d d1 \<and> G x d1"
  then have "accounts_inv d1" "G x d1" by (simp_all add: acct_def)
  from safeD [OF assms(2) this] show "outcome (f x) (\<lambda>_ d'. acct d d' \<and> (\<exists>x. G x d')) (\<lambda>_ _. True) d1 t"
    by (rule outcome_weaken)
       (use a assms(3) in \<open>auto simp: acct_def stable_def intro: grows_trans\<close>)
qed simp

lemma reset_password_spends:
  assumes inv: "accounts_inv d"
  shows "outcome (reset_password deps token new)
    (\<lambda>_ d'. challenge_spent (hash_value deps (trim_space token)) d' \<and> acct d d') (\<lambda>_ _. True) d t"
proof -
  let ?G = "\<lambda>i d'. known i d' \<and> challenge_spent (hash_value deps (trim_space token)) d'"
  have "outcome (consume_challenge (hash_value deps (trim_space token)) challenge_password_reset t)
      (\<lambda>i d'. acct d d' \<and> ?G i d') (\<lambda>_ _. True) d t"
    by (rule outcome_weaken [OF outcome_both [OF consume_challenge_known [OF inv] consume_challenge_spends]]) simp_all
  then have "outcome (act_bind (consume_challenge (hash_value deps (trim_space token)) challenge_password_reset t)
      (\<lambda>user_id. act_bind (hash_new_password deps new) (\<lambda>hash.
       act_bind (update_password_hash user_id hash t) (\<lambda>_. revoke_sessions_for_user user_id t))))
      (\<lambda>_ d'. acct d d' \<and> (\<exists>i. ?G i d')) (\<lambda>_ _. True) d t"
  proof (rule outcome_keep)
    show "safe (?G i) (act_bind (hash_new_password deps new) (\<lambda>hash.
       act_bind (update_password_hash i hash t) (\<lambda>_. revoke_sessions_for_user i t)))" for i
      by (rule safe_weaken [where K = "known i"])
         (auto intro!: safe_intro safe_anywhere [OF safe_revoke_session(2)])
    show "stable (?G i)" for i
      unfolding stable_def using known_grows spent_grows(1) by blast
  qed
  then show ?thesis
    unfolding reset_password_def Let_def
    by (intro outcome_bind [of "act_guard b e" for b e] outcome_guard outcome_bind [of now_utc] outcome_now)
       (auto elim: outcome_weaken)
qed

lemma reset_password_refused:
  assumes "accounts_inv d" "challenge_spent (hash_value deps (trim_space token)) d"
  shows "outcome (reset_password deps token new) (\<lambda>_ _. False) (\<lambda>_ d'. d' = d) d t"
  unfolding reset_password_def Let_def
  by (intro outcome_bind [of "act_guard b e" for b e] outcome_guard outcome_bind [of now_utc] outcome_now
        outcome_bind [of "consume_challenge a b c" for a b c] outcome_weaken [OF consume_challenge_refuses [OF assms]]) simp_all

lemma verify_email_refused:
  assumes "accounts_inv d" "challenge_spent (hash_value deps (trim_space token)) d"
  shows "outcome (verify_email deps token) (\<lambda>_ _. False) (\<lambda>_ d'. d' = d) d t"
  unfolding verify_email_def Let_def
  by (intro outcome_bind [of "act_guard b e" for b e] outcome_guard outcome_bind [of now_utc] outcome_now
        outcome_bind [of "consume_challenge a b c" for a b c] outcome_weaken [OF consume_challenge_refuses [OF assms]]) simp_all

section \<open>Sign-outs\<close>

definition session_of :: "byte list \<Rightarrow> string \<Rightarrow> db \<Rightarrow> bool" where
  "session_of token i d \<longleftrightarrow> (\<exists>s \<in> set (sessions d). rs_token s = token \<and> rs_user s = i)"

lemma session_of_grows: "session_of token i d \<Longrightarrow> grows d d' \<Longrightarrow> session_of token i d'"
  unfolding session_of_def grows_def carried_def by (auto 0 3)

lemma session_of_eq: "session_of token i d \<Longrightarrow> sessions d' = sessions d \<Longrightarrow> session_of token i d'"
  by (simp add: session_of_def)

lemma revoke_all_ends: "session_of token i d \<Longrightarrow>
   outcome (revoke_sessions_for_user i now) (\<lambda>_. session_ended token) (\<lambda>_ _. True) d t"
  by (rule revoke_user_sessions_ends) (simp add: session_of_def)

lemma new_password_ends:
  assumes "session_of token i d"
  shows "outcome (act_bind (update_password_hash i h now) (\<lambda>_. revoke_sessions_for_user i now))
    (\<lambda>_. session_ended token) (\<lambda>_ _. True) d t"
proof -
  have "outcome (update_password_hash i h now) (\<lambda>_ d'. sessions d' = sessions d) (\<lambda>_ _. True) d t"
    unfolding update_password_hash_def new_credential_def store_defs by (intro outcome_intro) simp_all
  then show ?thesis
    by (intro outcome_bind) (erule outcome_weaken, auto intro: revoke_all_ends session_of_eq [OF assms])
qed

lemma hashed_ends: "(\<And>h. outcome (f h) Q (\<lambda>_ _. True) d t) \<Longrightarrow>
    outcome (act_bind (hash_new_password deps new) f) Q (\<lambda>_ _. True) d t"
  unfolding hash_new_password_def by (intro outcome_bind outcome_random_bytes outcome_ret) simp_all

lemma logout_ends:
  "trim_space raw \<noteq> [] \<Longrightarrow> session_of (hash_value deps raw) i d \<Longrightarrow>
   outcome (logout deps raw) (\<lambda>_. session_ended (hash_value deps raw)) (\<lambda>_ _. True) d t"
  unfolding logout_def session_of_def
  by (simp, rule outcome_bind, rule outcome_now, rule revoke_session_ends) blast

lemma change_password_ends:
  assumes "session_of token i d"
  shows "outcome (change_password deps i old new) (\<lambda>_. session_ended token) (\<lambda>_ _. True) d t"
  unfolding change_password_def find_credential_by_user_id_def find_credential_def find_user_def
    credential_for_user_def
  by (intro outcome_bind [of "act_guard b e" for b e] outcome_guard outcome_bind [of "optional_row m" for m]
        outcome_optional outcome_bind [of now_utc] outcome_now outcome_bind [of "act_lift r" for r] outcome_lift
        outcome_bind [of "act_bind m f" for m f] outcome_case_option outcome_case_prod outcome_ret outcome_fail
        hashed_ends new_password_ends assms) simp_all

lemma reset_password_ends:
  assumes inv: "accounts_inv d" and s: "session_of token i d"
    and c: "c \<in> set (challenges (accts d))" "ch_token c = hash_value deps (trim_space raw)" "ch_user c = i"
  shows "outcome (reset_password deps raw new) (\<lambda>_. session_ended token) (\<lambda>_ _. True) d t"
proof -
  have "outcome (consume_challenge (hash_value deps (trim_space raw)) challenge_password_reset t)
      (\<lambda>j d'. j = i \<and> sessions d' = sessions d) (\<lambda>_ _. True) d t"
  proof (rule outcome_weaken [OF consume_challenge_outcome], elim bexE conjE)
    fix j d' c' assume c': "c' \<in> set (challenges (accts d))"
      "challenge_live (hash_value deps (trim_space raw)) challenge_password_reset t c'" "j = ch_user c'"
      "d' = d\<lparr>accts := (accts d)\<lparr>challenges :=
          update_rows (\<lambda>r. ch_id r = ch_id c' \<and> ch_consumed r = None \<and> t < ch_expires r)
            (\<lambda>r. r\<lparr>ch_consumed := Some t\<rparr>) (challenges (accts d))\<rparr>\<rparr>"
    have "distinct (List.map ch_token (challenges (accts d)))"
      using inv by (simp add: accounts_inv_def accounts_ok_def)
    with c c' have "c' = c" by (auto simp: challenge_live_def distinct_map inj_on_def)
    with c c' show "j = i \<and> sessions d' = sessions d" by simp
  qed simp
  then show ?thesis
    unfolding reset_password_def Let_def
    by (intro outcome_bind [of "act_guard b e" for b e] outcome_guard outcome_bind [of now_utc] outcome_now
          outcome_bind [of "consume_challenge a b c" for a b c])
       (erule outcome_weaken, auto intro!: hashed_ends intro: new_password_ends session_of_eq [OF s])
qed

end
