(* ===== verification/Auth_Signin.thy ===== *)
theory Auth_Signin
  imports Auth_System Calm_Runs
begin

text \<open>
  Which account a sign-in reaches, when a session authenticates, and how failed logins lock a
  credential.
\<close>

section \<open>The account of an email\<close>

lemma email_owner:
  "accounts_inv d \<Longrightarrow> u \<in> set (users d) \<Longrightarrow> v \<in> set (users d) \<Longrightarrow> us_email u = Some e \<Longrightarrow>
   us_email v = Some e \<Longrightarrow> u = v"
  by (rule check_unique_inj [of us_email "users d"]) (auto simp: accounts_inv_def accounts_ok_def)

text \<open>An email held by a verified, active account never gives rise to a second account.\<close>

definition holds_email :: "user \<Rightarrow> string \<Rightarrow> db \<Rightarrow> bool" where
  "holds_email u e d \<longleftrightarrow> u \<in> set (users d) \<and> us_email u = Some e \<and> us_verified u \<noteq> None \<and>
     us_status u = active_user_status"

lemma linked_user_users:
  assumes "holds_email u (id_email ident) d" "trim_space (id_email ident) = id_email ident" "id_email ident \<noteq> []"
  shows "outcome (linked_user ident now) (\<lambda>_ d'. users d' = users d) (\<lambda>_ _. True) d t"
  unfolding linked_user_def find_user_def Let_def store_defs
  by (intro outcome_intro; (simp; fail)?)
     ((use assms in \<open>auto simp: holds_email_def same_some_def\<close>), metis+)

lemma upsert_identity_users:
  assumes "holds_email u (id_email ident) d" "trim_space (id_email ident) = id_email ident" "id_email ident \<noteq> []"
  shows "outcome (upsert_identity ident now found) (\<lambda>_ d'. users d' = users d) (\<lambda>_ _. True) d t"
proof (cases found)
  case (Some row)
  then show ?thesis
    unfolding upsert_identity_def store_defs by (simp, intro outcome_intro) simp_all
next
  case None
  show ?thesis
    unfolding upsert_identity_def None option.case
    by (rule outcome_bind, rule outcome_weaken [OF linked_user_users [OF assms]])
       (auto simp: Let_def store_defs intro!: outcome_intro)
qed

text \<open>A sign-in with such an email opens a session of the account that holds it, and of no other.\<close>

lemma signin_account:
  assumes inv: "accounts_inv d" and h: "holds_email u (id_email ident) d"
    and e: "trim_space (id_email ident) = id_email ident" "id_email ident \<noteq> []"
  shows "outcome (upsert_identity_and_create_session ident session)
    (\<lambda>p d'. up_id p = us_id u \<and> up_email p = id_email ident \<and>
       (\<exists>s \<in> set (sessions d'). rs_user s = us_id u \<and> rs_token s = se_token session \<and> rs_revoked s = None \<and>
          rs_expires s = timestamptz (se_expires session))) (\<lambda>_ _. True) d t"
proof -
  have tail: "outcome (act_bind (find_user (\<lambda>v. us_id v = ui_user row)) (\<lambda>v.
       act_bind (act_guard (us_status v = active_user_status) (ErrAuth UserDisabled)) (\<lambda>_.
       let user' = refreshed_user ident now v in
       act_bind (update_users (\<lambda>r. us_id r = us_id v) (\<lambda>_. user')) (\<lambda>_.
       act_bind new_uuid (\<lambda>i.
       act_bind (act_guard (i \<noteq> []) (ErrText ''generating session id'')) (\<lambda>_.
       act_bind (insert_session \<lparr>rs_id = i, rs_user = us_id user', rs_token = se_token session,
         rs_expires = se_expires session, rs_last_used = se_last_used session, rs_revoked = None,
         rs_created = now, rs_updated = now\<rparr>) (\<lambda>_.
       act_ret (user_profile_of user'))))))))
    (\<lambda>p d'. up_id p = us_id u \<and> up_email p = id_email ident \<and>
       (\<exists>s \<in> set (sessions d'). rs_user s = us_id u \<and> rs_token s = se_token session \<and> rs_revoked s = None \<and>
          rs_expires s = timestamptz (se_expires session))) (\<lambda>_ _. True) d1 t"
    if d1: "users d1 = users d" for row d1 now
  proof -
    have same: "us_id v = us_id u"
      if v: "v \<in> set (users d)" and c: "check_unique us_email
          (update_rows (\<lambda>r. us_id r = us_id v) (\<lambda>_. refreshed_user ident now v) (users d)) = None" for v
    proof (rule ccontr)
      assume n: "us_id v \<noteq> us_id u"
      let ?rs = "update_rows (\<lambda>r. us_id r = us_id v) (\<lambda>_. refreshed_user ident now v) (users d)"
      have "u \<in> set ?rs" using h n in_update_rows [of u "users d" "\<lambda>r. us_id r = us_id v"]
        by (auto simp: holds_email_def split: if_splits)
      moreover have "refreshed_user ident now v \<in> set ?rs"
        using v in_update_rows [of v "users d" "\<lambda>r. us_id r = us_id v" "\<lambda>_. refreshed_user ident now v"] by simp
      moreover have "us_email (refreshed_user ident now v) = us_email u" "us_email u \<noteq> None"
        using h e by (simp_all add: refreshed_user_def holds_email_def)
      ultimately have "u = refreshed_user ident now v" using check_unique_inj [OF c] by metis
      with n show False by (simp add: refreshed_user_def)
    qed
    show ?thesis
      unfolding find_user_def store_defs Let_def
      using d1 e
      by (intro outcome_intro)
         (auto dest!: first_by_Some simp: user_profile_of_def refreshed_user_def deref_str_def
           intro!: same [unfolded refreshed_user_def])
  qed
  show ?thesis
    unfolding upsert_identity_and_create_session_def
    by (intro outcome_tx outcome_bind [of "optional_row m" for m] outcome_optional
          outcome_bind [of now_utc] outcome_now outcome_bind [of "upsert_identity a b c" for a b c]
          outcome_weaken [OF upsert_identity_users [OF h e]] tail) simp_all
qed

text \<open>What a successful password login has checked, and the session it opens.\<close>

definition credential_opens :: "auth_deps \<Rightarrow> db \<Rightarrow> time \<Rightarrow> string \<Rightarrow> string \<Rightarrow> user \<Rightarrow> bool" where
  "credential_opens deps d t email password u \<longleftrightarrow>
     holds_email u email d \<and>
     (\<exists>c \<in> set (credentials (accts d)). cr_user c = us_id u \<and>
        (case cr_locked c of None \<Rightarrow> True | Some l \<Rightarrow> l \<le> t) \<and>
        (\<exists>rehash. verify_password (ad_kdf deps) (cr_hash c) password = Inr (True, rehash)))"

definition session_open :: "auth_deps \<Rightarrow> db \<Rightarrow> string \<Rightarrow> string \<Rightarrow> time \<Rightarrow> bool" where
  "session_open deps d user_id raw expires \<longleftrightarrow>
     (\<exists>s \<in> set (sessions d). rs_user s = user_id \<and> rs_token s = hash_value deps raw \<and> rs_revoked s = None \<and>
        rs_expires s = timestamptz expires)"

lemma password_hash_users:
  "outcome (update_password_hash i h now) (\<lambda>_ d'. users d' = users d) (\<lambda>_ _. True) d t"
  unfolding update_password_hash_def new_credential_def store_defs
  by (intro outcome_intro) simp_all

lemma create_session_account:
  assumes "accounts_inv d" "holds_email u (id_email ident) d" "trim_space (id_email ident) = id_email ident"
    "id_email ident \<noteq> []"
  shows "outcome (create_session deps ident now)
    (\<lambda>r d'. up_id (sr_user r) = us_id u \<and> sr_expires r = now + ad_absolute deps \<and>
       session_open deps d' (us_id u) (sr_token r) (sr_expires r)) (\<lambda>_ _. True) d t"
  unfolding create_session_def Let_def
  by (intro outcome_bind [of "random_string n" for n] outcome_random_string,
      rule outcome_bind, rule outcome_weaken [OF signin_account [OF assms]])
     (auto intro!: outcome_ret simp: with_avatar_url_def session_open_def)

lemma reset_failures_sessions:
  "outcome (reset_login_failures i now) (\<lambda>_ d'. sessions d' = sessions d) (\<lambda>_ _. True) d t"
  unfolding reset_login_failures_def store_defs by (intro outcome_intro) simp_all

lemma login_outcome:
  assumes inv: "accounts_inv d"
  shows "outcome (login_with_password deps email password)
    (\<lambda>r d'. \<exists>n u. normalize_email email = Inr n \<and> credential_opens deps d t n password u \<and>
       up_id (sr_user r) = us_id u \<and> sr_expires r = t + ad_absolute deps \<and>
       session_open deps d' (us_id u) (sr_token r) (sr_expires r)) (\<lambda>_ _. True) d t"
proof (cases "normalize_email email")
  case (Inl e)
  then show ?thesis by (simp add: login_with_password_def outcome_fail)
next
  case (Inr n)
  have n: "trim_space n = n" "n \<noteq> []"
    using trim_space_normalized [OF Inr] normalize_email_Inr [OF Inr] by auto
  let ?Q = "\<lambda>r d'. \<exists>u. credential_opens deps d t n password u \<and>
       up_id (sr_user r) = us_id u \<and> sr_expires r = t + ad_absolute deps \<and>
       session_open deps d' (us_id u) (sr_token r) (sr_expires r)"
  have final: "outcome (act_bind (create_session deps (password_identity n st) t) (\<lambda>result.
        act_bind (reset_login_failures (cs_user st) t) (\<lambda>_. act_ret result))) ?Q (\<lambda>_ _. True) d1 t"
    if i: "accounts_inv d1" "users d1 = users d" and o: "credential_opens deps d t n password u" for d1 st u
  proof -
    have h: "holds_email u (id_email (password_identity n st)) d1"
      using o i(2) by (simp add: password_identity_def credential_opens_def holds_email_def)
    have "outcome (create_session deps (password_identity n st) t)
      (\<lambda>r d'. up_id (sr_user r) = us_id u \<and> sr_expires r = t + ad_absolute deps \<and>
         session_open deps d' (us_id u) (sr_token r) (sr_expires r)) (\<lambda>_ _. True) d1 t"
      by (rule create_session_account [OF i(1) h]) (simp_all add: password_identity_def n)
    then show ?thesis
    proof (rule outcome_bind [OF outcome_weaken])
      fix r d2
      assume r: "up_id (sr_user r) = us_id u \<and> sr_expires r = t + ad_absolute deps \<and>
         session_open deps d2 (us_id u) (sr_token r) (sr_expires r)"
      show "outcome (act_bind (reset_login_failures (cs_user st) t) (\<lambda>_. act_ret r)) ?Q (\<lambda>_ _. True) d2 t"
        by (rule outcome_bind, rule outcome_weaken [OF reset_failures_sessions])
           (use r o in \<open>auto intro!: outcome_ret exI [of _ u] simp: session_open_def\<close>)
    qed simp
  qed
  have rehashed: "outcome (if rehash then act_bind (must_hash_password deps password) (\<lambda>h.
          update_password_hash (cs_user st) h t) else act_ret ())
      (\<lambda>_ d'. accounts_inv d' \<and> users d' = users d) (\<lambda>_ _. True) d t" if "known (cs_user st) d" for rehash st
  proof -
    have "outcome (update_password_hash (cs_user st) h t) (\<lambda>_ d'. accounts_inv d' \<and> users d' = users d) (\<lambda>_ _. True) d t" for h
      by (rule outcome_weaken [OF outcome_both [OF safeD [OF safe_update_password_hash inv that] password_hash_users]])
         (simp_all add: acct_def)
    then show ?thesis
      unfolding must_hash_password_def hash_new_password_def
      using inv by (intro outcome_if outcome_ret outcome_bind outcome_try outcome_random_bytes) (auto intro: outcome_ret)
  qed
  have checked: "outcome (act_bind (act_lift (verify_password (ad_kdf deps) (cs_hash st) password)) (\<lambda>(match, rehash).
             if \<not> match then
               act_bind (act_try (increment_login_failures (cs_user st) max_failed_logins login_lock_duration t)) (\<lambda>r.
               case r of Inl e \<Rightarrow> act_fail (ErrJoined (ErrAuth InvalidCredentials) e)
               | Inr _ \<Rightarrow> act_fail (ErrAuth InvalidCredentials))
             else
               act_bind (act_guard (cs_active st) (ErrAuth UserDisabled)) (\<lambda>_.
               act_bind (act_guard (cs_verified st) (ErrAuth EmailNotVerified)) (\<lambda>_.
               act_bind (if rehash then act_bind (must_hash_password deps password) (\<lambda>h.
                   update_password_hash (cs_user st) h t) else act_ret ()) (\<lambda>_.
               act_bind (create_session deps (password_identity n st) t) (\<lambda>result.
               act_bind (reset_login_failures (cs_user st) t) (\<lambda>_.
               act_ret result))))))) ?Q (\<lambda>_ _. True) d t"
    if k: "known (cs_user st) d"
      and o: "\<And>rehash. cs_active st \<Longrightarrow> cs_verified st \<Longrightarrow>
        verify_password (ad_kdf deps) (cs_hash st) password = Inr (True, rehash) \<Longrightarrow>
        credential_opens deps d t n password u" for st u
    apply (intro outcome_bind [of "act_lift m" for m] outcome_lift outcome_case_prod outcome_if)
    subgoal by (rule outcome_seq [where I = "\<lambda>_. True"])
        (auto intro!: outcome_fail outcome_try outcome_intro simp: increment_login_failures_def store_defs split: sum.splits)
    subgoal for x match rehash
      by (intro outcome_bind [of "act_guard b e" for b e] outcome_guard,
          rule outcome_bind, rule outcome_weaken [OF rehashed [OF k]])
         (auto intro: final o)
    by simp
  have "outcome (login_with_password deps email password) ?Q (\<lambda>_ _. True) d t"
    unfolding login_with_password_def find_credential_by_email_def Inr sum.case
  proof (intro outcome_bind [of now_utc] outcome_now, rule outcome_bind,
      rule outcome_weaken [OF find_credential_known [OF inv]], goal_cases)
    case (1 x d')
    show ?case
    proof (cases x)
      case None
      then show ?thesis by (simp add: outcome_fail)
    next
      case (Some st)
      with 1 obtain u c where st: "known (cs_user st) d" "u \<in> set (users d)" "us_email u = Some n"
        "c \<in> set (credentials (accts d))" "cr_user c = us_id u"
        "cs_hash st = cr_hash c" "cs_verified st \<longleftrightarrow> us_verified u \<noteq> None"
        "cs_active st \<longleftrightarrow> us_status u = active_user_status" "cs_locked st = cr_locked c" and d': "d' = d"
        by auto
      show ?thesis
      proof (cases "case cs_locked st of None \<Rightarrow> False | Some l \<Rightarrow> t < l")
        case True
        with Some show ?thesis by (simp add: outcome_fail)
      next
        case False
        then have l: "case cr_locked c of None \<Rightarrow> True | Some l \<Rightarrow> l \<le> t" using st(9) by (auto split: option.splits)
        show ?thesis
          unfolding Some option.case if_not_P [OF False] d'
          by (rule checked [OF st(1)]) (use st l in \<open>auto simp: credential_opens_def holds_email_def\<close>)
      qed
    qed
  qed simp
  then show ?thesis by (rule outcome_weaken) (use Inr in auto)
qed

section \<open>When a session authenticates\<close>

definition authenticates :: "auth_deps \<Rightarrow> db \<Rightarrow> time \<Rightarrow> string \<Rightarrow> bool" where
  "authenticates deps d t raw \<longleftrightarrow>
     (\<exists>s \<in> set (sessions d). \<exists>u \<in> set (users d). rs_token s = hash_value deps raw \<and>
        session_live (ad_idle deps) t s \<and> us_id u = rs_user s \<and> us_status u = active_user_status)"

lemma authenticate_runs:
  assumes inv: "accounts_inv d" and idle: "0 < ad_idle deps" and raw: "trim_space raw \<noteq> []"
    and a: "authenticates deps d t raw"
  shows "runs (authenticate deps raw) (\<lambda>_ _ _. True) d is t"
proof -
  from a obtain s u where s: "s \<in> set (sessions d)" "rs_token s = hash_value deps raw"
    "session_live (ad_idle deps) t s" and u: "u \<in> set (users d)" "us_id u = rs_user s" "us_status u = active_user_status"
    by (auto simp: authenticates_def)
  have fs: "first_by rs_id (\<lambda>s. rs_token s = hash_value deps raw) (sessions d) = Some s"
    by (rule first_by_unique) (use s inv in \<open>auto simp: accounts_inv_def accounts_ok_def distinct_map inj_on_def\<close>)
  have fu: "first_by us_id (\<lambda>v. us_id v = rs_user s) (users d) = Some u"
    by (rule first_by_unique) (use u inv in \<open>auto simp: accounts_inv_def accounts_ok_def distinct_map inj_on_def\<close>)
  have last: "runs (case rs_last_used s of
         None \<Rightarrow> act_ret t
       | Some used \<Rightarrow>
           if 5 * minute \<le> time_sub t used then
             act_bind (update_sessions (\<lambda>r. rs_id r = rs_id s) (\<lambda>r. r\<lparr>rs_last_used := Some (timestamptz t), rs_updated := timestamptz t\<rparr>))
               (\<lambda>_. act_ret t)
           else act_ret used) (\<lambda>_ _ _. True) d is t"
    by (auto simp: update_sessions_def intro!: runs_ret runs_bind runs_update split: option.splits)
  show ?thesis
    unfolding authenticate_def find_active_session_def find_user_def
    by (insert raw idle s u, rule runs_bind, rule runs_guard, simp, rule runs_bind, rule runs_now, rule runs_bind,
        rule runs_bind, rule runs_or_missing, rule fs, rule runs_bind, rule runs_guard, simp,
        rule runs_bind, rule runs_guard, simp, rule runs_bind, rule runs_or_missing, rule fu,
        rule runs_bind, rule runs_guard, simp, rule runs_bind, rule runs_weaken [OF last])
       (auto intro!: runs_ret)
qed

section \<open>Failed logins\<close>

definition credential_of :: "db \<Rightarrow> user \<Rightarrow> string \<Rightarrow> string \<Rightarrow> int \<Rightarrow> time option \<Rightarrow> bool" where
  "credential_of d u email hash failed locked \<longleftrightarrow>
     u \<in> set (users d) \<and> us_email u = Some email \<and>
     (\<exists>c \<in> set (credentials (accts d)). cr_user c = us_id u \<and> cr_hash c = hash \<and> cr_failed c = failed \<and>
        cr_locked c = locked)"

lemma find_credential_of:
  assumes inv: "accounts_inv d" and c: "credential_of d u e hash failed locked"
  shows "runs (find_credential_by_email e)
    (\<lambda>x d' js. d' = d \<and> js = is \<and> (\<exists>st. x = Some st \<and> cs_user st = us_id u \<and> cs_hash st = hash \<and>
       cs_locked st = locked \<and> cs_active st = (us_status u = active_user_status) \<and>
       cs_verified st = (us_verified u \<noteq> None))) d is t"
proof -
  from c obtain cr where u: "u \<in> set (users d)" "us_email u = Some e"
    and cr: "cr \<in> set (credentials (accts d))" "cr_user cr = us_id u" "cr_hash cr = hash" "cr_locked cr = locked"
    by (auto simp: credential_of_def)
  have fu: "first_by us_id (\<lambda>v. us_email v = Some e) (users d) = Some u"
    by (rule first_by_unique) (use u email_owner [OF inv] in auto)
  have fc: "first_by cr_id (\<lambda>c. cr_user c = us_id u) (credentials (accts d)) = Some cr"
    by (rule first_by_unique) (use cr inv in \<open>auto simp: accounts_inv_def accounts_ok_def distinct_map inj_on_def\<close>)
  show ?thesis
    unfolding find_credential_by_email_def find_credential_def find_user_def credential_for_user_def
    by (rule runs_bind, rule runs_optional, rule fu, simp, rule runs_bind, rule runs_optional, rule fc)
       (use cr in \<open>auto intro: runs_ret\<close>)
qed

lemma locked_attempt:
  assumes "accounts_inv d" "credential_of d u n hash failed (Some l)" "t < l" "normalize_email email = Inr n"
  shows "runs (act_try (login_with_password deps email password))
    (\<lambda>r d' _. r = Inl (ErrAuth InvalidCredentials) \<and> d' = d) d is t"
  unfolding login_with_password_def assms(4) sum.case
  by (rule runs_try_bind, rule runs_now, rule runs_try_bind, rule runs_weaken [OF find_credential_of [OF assms(1,2)]])
     (use assms(3) in \<open>auto intro!: runs_try_fail\<close>)

lemma incremented:
  assumes inv: "accounts_inv d" and c: "credential_of d u n hash k None"
  shows "runs (increment_login_failures (us_id u) m lock t)
    (\<lambda>_ d' _. accounts_inv d' \<and> credential_of d' u n hash (k + 1) (if m \<le> k + 1 then Some (t + lock) else None)) d is t"
proof -
  let ?f = "\<lambda>c. c\<lparr>cr_failed := cr_failed c + 1,
             cr_locked := (if m \<le> cr_failed c + 1 then Some (t + lock) else cr_locked c), cr_updated := t\<rparr>"
  let ?d = "put_acc credentials_update (update_rows (\<lambda>c. cr_user c = us_id u) ?f (credentials (accts d))) d"
  have "List.map cr_user (credentials (accts ?d)) = List.map cr_user (credentials (accts d))"
    by (simp add: map_update_rows)
  then have "accounts_inv ?d" using inv by (simp add: accounts_inv_def accounts_ok_def)
  moreover have "credential_of ?d u n hash (k + 1) (if m \<le> k + 1 then Some (t + lock) else None)"
  proof -
    from c obtain cr where cr: "cr \<in> set (credentials (accts d))" "cr_user cr = us_id u" "cr_hash cr = hash"
      "cr_failed cr = k" "cr_locked cr = None" by (auto simp: credential_of_def)
    from in_update_rows [OF cr(1), of "\<lambda>c. cr_user c = us_id u" ?f] cr(2)
    have "?f cr \<in> set (credentials (accts ?d))" by simp
    moreover have "u \<in> set (users ?d)" "us_email u = Some n" using c by (simp_all add: credential_of_def)
    ultimately show ?thesis unfolding credential_of_def using cr(2-) by (intro conjI bexI [of _ "?f cr"]) auto
  qed
  ultimately show ?thesis
    unfolding increment_login_failures_def update_credentials_def
    by (intro runs_bind runs_update) (simp_all add: runs_ret)
qed

lemma wrong_attempt:
  assumes "accounts_inv d" "credential_of d u n hash k None" "normalize_email email = Inr n"
    and "verify_password (ad_kdf deps) hash password = Inr (False, r)"
  shows "runs (act_try (login_with_password deps email password))
    (\<lambda>r d' _. r = Inl (ErrAuth InvalidCredentials) \<and> accounts_inv d' \<and>
       credential_of d' u n hash (k + 1) (if max_failed_logins \<le> k + 1 then Some (t + login_lock_duration) else None)) d is t"
  unfolding login_with_password_def assms(3) sum.case
proof (rule runs_try_bind, rule runs_now, rule runs_try_bind, rule runs_weaken [OF find_credential_of [OF assms(1,2)]],
    elim conjE exE, goal_cases)
  case (1 x d' js st)
  show ?case
    unfolding 1 option.case if_False
    by (rule runs_try_bind, rule runs_lift, rule assms(4), unfold prod.case not_False_eq_True if_True,
        rule runs_try_bind, rule runs_try, rule runs_weaken [OF incremented [OF assms(1,2)]])
       (simp add: runs_try_fail)
qed

text \<open>A series of logins on a sound connection, each with its password and its time.\<close>

fun tried :: "auth_deps \<Rightarrow> string \<Rightarrow> (string \<times> time) list \<Rightarrow> db \<Rightarrow> db \<Rightarrow> bool" where
  "tried deps email [] d d' \<longleftrightarrow> d' = d"
| "tried deps email ((password, t) # tries) d d' \<longleftrightarrow>
     (\<exists>w r w1. calm w \<and> w_db w = d \<and> w_now w = t \<and> login_with_password deps email password w = (r, w1) \<and>
        tried deps email tries (w_db w1) d')"

lemma tried_locks:
  assumes "accounts_inv d" "credential_of d u n hash k None" "normalize_email email = Inr n"
    and "tried deps email tries d d'" "k + int (length tries) = max_failed_logins" "tries \<noteq> []"
    and "\<forall>(p, t) \<in> set tries. \<exists>r. verify_password (ad_kdf deps) hash p = Inr (False, r)"
  shows "accounts_inv d' \<and> credential_of d' u n hash max_failed_logins (Some (snd (last tries) + login_lock_duration))"
  using assms
proof (induction tries arbitrary: d k)
  case (Cons x tries)
  obtain p t where x: "x = (p, t)" by fastforce
  with Cons.prems obtain w r w1 where w: "calm w" "w_db w = d" "w_now w = t"
    "login_with_password deps email p w = (r, w1)" and rest: "tried deps email tries (w_db w1) d'" by auto
  from Cons.prems x obtain q where "verify_password (ad_kdf deps) hash p = Inr (False, q)" by auto
  from runs_try_result [OF wrong_attempt [OF Cons.prems(1-3) this, of "w_now w" "w_ids w", folded w(2)] w(1,4)]
  have 1: "accounts_inv (w_db w1)"
    "credential_of (w_db w1) u n hash (k + 1) (if max_failed_logins \<le> k + 1 then Some (t + login_lock_duration) else None)"
    unfolding w(3) by blast+
  show ?case
  proof (cases "tries = []")
    case True
    then have "k + 1 = max_failed_logins" "d' = w_db w1" using Cons.prems(5) rest by simp_all
    with 1 True x show ?thesis by simp
  next
    case False
    then have p: "0 < int (length tries)" by simp
    have l: "(k + 1) + int (length tries) = max_failed_logins" using Cons.prems(5) by simp
    with p have "\<not> max_failed_logins \<le> k + 1" by linarith
    with l Cons.IH [OF 1(1) _ Cons.prems(3) rest _ False] 1(2) Cons.prems(7) False x show ?thesis by simp
  qed
qed simp

lemma tried_some: "\<exists>d'. tried deps email tries d d'"
proof (induction tries arbitrary: d)
  case (Cons x tries)
  obtain p t where x: "x = (p, t)" by fastforce
  let ?w = "world0 d [] t"
  obtain r w1 where "login_with_password deps email p ?w = (r, w1)" by fastforce
  moreover obtain d' where "tried deps email tries (w_db w1) d'" using Cons.IH by blast
  ultimately show ?case unfolding x tried.simps by (intro exI [of _ d'] exI [of _ ?w]) (auto simp: calm_def world0_def)
qed auto

section \<open>A password reset takes effect\<close>

lemma filter_unique:
  assumes "distinct (List.map k rows)" "c \<in> set rows" "P c" "\<And>r. P r \<Longrightarrow> k r = k c"
  shows "filter P rows = [c]"
proof -
  have "set (filter P rows) = {c}" using assms by (auto simp: distinct_map inj_on_def)
  moreover have "distinct (filter P rows)" using assms(1) by (simp add: distinct_map)
  ultimately show ?thesis by (cases "filter P rows"; cases "tl (filter P rows)") auto
qed

lemma consume_challenge_runs:
  assumes inv: "accounts_inv d" and c: "c \<in> set (challenges (accts d))" "challenge_live token purpose now c"
  shows "runs (consume_challenge token purpose now)
    (\<lambda>i d' js. i = ch_user c \<and> js = is \<and> sessions d' = sessions d \<and> credentials (accts d') = credentials (accts d)) d is t"
proof -
  have f: "first_by ch_id (\<lambda>c. ch_token c = token \<and> ch_purpose c = purpose \<and> ch_consumed c = None \<and> now < ch_expires c)
      (challenges (accts d)) = Some c"
    by (rule first_by_unique)
       (use c inv in \<open>auto simp: challenge_live_def accounts_inv_def accounts_ok_def distinct_map inj_on_def\<close>)
  let ?P = "\<lambda>r. ch_id r = ch_id c \<and> ch_consumed r = None \<and> now < ch_expires r"
  have "filter ?P (challenges (accts d)) = [c]"
    by (rule filter_unique [where k = ch_id])
       (use c inv in \<open>auto simp: challenge_live_def accounts_inv_def accounts_ok_def\<close>)
  then have n: "count_rows ?P (challenges (accts d)) = 1" by (simp add: count_rows_def)
  show ?thesis
    unfolding consume_challenge_def update_challenges_def
    by (intro runs_tx, rule runs_bind, rule runs_or_missing, rule f, intro runs_bind runs_affected runs_update)
       (simp_all add: n [simplified] runs_guard runs_bind runs_ret)
qed

lemma reset_password_runs:
  assumes inv: "accounts_inv d" and len: "password_length_ok new" and tok: "trim_space token \<noteq> []"
    and c: "c \<in> set (challenges (accts d))"
      "challenge_live (hash_value deps (trim_space token)) challenge_password_reset t c"
    and cr: "cr \<in> set (credentials (accts d))" "cr_user cr = ch_user c"
    and kdf: "\<And>p s. length (ad_kdf deps p s (nat argon_time) (nat argon_memory) (nat argon_threads) argon_key_len) = argon_key_len"
  shows "runs (reset_password deps token new)
    (\<lambda>_ d' _. (\<forall>s \<in> set (sessions d'). rs_user s = ch_user c \<longrightarrow> rs_revoked s \<noteq> None) \<and>
       (\<exists>cr \<in> set (credentials (accts d')). cr_user cr = ch_user c \<and> cr_failed cr = 0 \<and> cr_locked cr = None \<and>
          verify_password (ad_kdf deps) (cr_hash cr) new = Inr (True, False))) d (i # is) t"
proof -
  let ?U = "\<lambda>c'. cr_user c' = ch_user c"
  let ?f = "\<lambda>h c. c\<lparr>cr_hash := h, cr_changed := t, cr_failed := 0, cr_locked := None, cr_updated := t\<rparr>"
  have n: "0 < count_rows ?U (credentials (accts d))"
    using cr count_rows_0 [of ?U "credentials (accts d)"] by auto
  have up: "runs (update_password_hash (ch_user c) h t)
      (\<lambda>_ d' _. credentials (accts d') = update_rows ?U (?f h) (credentials (accts d))) d1 js t"
    if d1: "credentials (accts d1) = credentials (accts d)" for h d1 js
    unfolding update_password_hash_def update_credentials_def
    by (intro runs_tx runs_bind runs_update) (use n d1 in \<open>simp_all add: runs_ret\<close>)
  have rv: "runs (revoke_sessions_for_user (ch_user c) t)
      (\<lambda>_ d' _. (\<forall>s \<in> set (sessions d'). rs_user s = ch_user c \<longrightarrow> rs_revoked s \<noteq> None) \<and>
         accts d' = accts d1) d1 js t" for d1 js
    unfolding revoke_sessions_for_user_def update_sessions_def
    by (intro runs_bind runs_update) (auto intro!: runs_ret simp: update_rows_def)
  have v: "verify_password (ad_kdf deps) (hash_password (ad_kdf deps) salt new) new = Inr (True, False)" for salt
    unfolding hash_password_def by (simp add: verify_encoded kdf)
  have m: "?f h cr \<in> set (update_rows ?U (?f h) (credentials (accts d)))" for h
    using in_update_rows [OF cr(1), of ?U "?f h"] cr(2) by simp
  let ?Q = "\<lambda>(_::unit) d' (_::string list). (\<forall>s \<in> set (sessions d'). rs_user s = ch_user c \<longrightarrow> rs_revoked s \<noteq> None) \<and>
       (\<exists>cr \<in> set (credentials (accts d')). cr_user cr = ch_user c \<and> cr_failed cr = 0 \<and> cr_locked cr = None \<and>
          verify_password (ad_kdf deps) (cr_hash cr) new = Inr (True, False))"
  have rest: "runs (act_bind (hash_new_password deps new) (\<lambda>hash. act_bind (update_password_hash (ch_user c) hash t)
      (\<lambda>_. revoke_sessions_for_user (ch_user c) t))) ?Q d1 (i # is) t"
    if d1: "credentials (accts d1) = credentials (accts d)" for d1
    unfolding hash_new_password_def
  proof (rule runs_bind, rule runs_bind, rule runs_random(1), rule runs_ret, rule runs_bind,
      rule runs_weaken [OF up [OF d1]], rule runs_weaken [OF rv], goal_cases)
    case (1 b x d2 js y d3 js')
    from m [of "hash_password (ad_kdf deps) b new"] 1 v [of b] cr(2) show ?case
      by (intro conjI bexI [of _ "?f (hash_password (ad_kdf deps) b new) cr"]) auto
  qed
  show ?thesis
    unfolding reset_password_def Let_def
    by (rule runs_bind, rule runs_guard, rule len, rule runs_bind, rule runs_guard, rule tok,
        rule runs_bind, rule runs_now, rule runs_bind, rule runs_weaken [OF consume_challenge_runs [OF inv c]])
       (elim conjE, simp only: rest)
qed

section \<open>A first sign-in with a verified email\<close>

text \<open>
  What a sign-in needs besides the credential: draws that are not in use yet, accounts with an
  identifier, and password identities that belong to the account of their email.
\<close>

definition drawn :: "nat \<Rightarrow> string \<Rightarrow> byte list" where
  "drawn n s = take n (List.map (\<lambda>c. of_nat (of_char c)) s @ replicate n 0)"

definition unused_draw :: "auth_deps \<Rightarrow> db \<Rightarrow> string \<Rightarrow> bool" where
  "unused_draw deps d i \<longleftrightarrow> i \<noteq> [] \<and> list_all (\<lambda>r. ui_id r \<noteq> i) (identities (accts d)) \<and>
     list_all (\<lambda>s. rs_id s \<noteq> i \<and> rs_token s \<noteq> hash_value deps (b64_raw_url (drawn random_value_bytes i))) (sessions d)"

definition signin_ready :: "auth_deps \<Rightarrow> db \<Rightarrow> string list \<Rightarrow> bool" where
  "signin_ready deps d is \<longleftrightarrow> 4 \<le> length is \<and> list_all (unused_draw deps d) is \<and> list_all (\<lambda>u. us_id u \<noteq> []) (users d) \<and>
     list_all (\<lambda>r. ui_provider r = provider_credentials \<longrightarrow>
       list_ex (\<lambda>u. us_id u = ui_user r \<and> us_email u = Some (ui_subject r)) (users d)) (identities (accts d))"

lemma runs_drawn: "Q (b64_raw_url (drawn n i)) d js \<Longrightarrow> runs (random_string n) Q d (i # js) t"
  unfolding random_string_def random_bytes_def drawn_def by (intro runs_intro)

lemma runs_optional_first:
  "Q (first_by k P (tab d)) d is \<Longrightarrow> runs (optional_row (first_row tab k P)) Q d is t"
proof (cases "first_by k P (tab d)")
  case None
  moreover assume "Q (first_by k P (tab d)) d is"
  ultimately show ?thesis
    unfolding optional_row_def select_first_def
    by (rule_tac runs_bind, rule_tac runs_try_bind, rule_tac runs_select) (simp add: runs_try_fail runs_ret)
qed (auto intro: runs_optional)

text \<open>The session of a sign-in, once its identity is known.\<close>

lemma signed_in_runs:
  assumes inv: "accounts_inv d" and h: "holds_email u (id_email ident) d"
    and e: "trim_space (id_email ident) = id_email ident" "id_email ident \<noteq> []"
    and d1: "users d1 = users d" "sessions d1 = sessions d"
    and fresh: "s1 \<noteq> []" "list_all (\<lambda>s. rs_id s \<noteq> s1 \<and> rs_token s \<noteq> se_token session) (sessions d)"
  shows "runs (act_bind (find_user (\<lambda>v. us_id v = us_id u)) (\<lambda>v.
       act_bind (act_guard (us_status v = active_user_status) (ErrAuth UserDisabled)) (\<lambda>_.
       let user' = refreshed_user ident t v in
       act_bind (update_users (\<lambda>r. us_id r = us_id v) (\<lambda>_. user')) (\<lambda>_.
       act_bind new_uuid (\<lambda>i.
       act_bind (act_guard (i \<noteq> []) (ErrText ''generating session id'')) (\<lambda>_.
       act_bind (insert_session \<lparr>rs_id = i, rs_user = us_id user', rs_token = se_token session,
         rs_expires = se_expires session, rs_last_used = se_last_used session, rs_revoked = None,
         rs_created = t, rs_updated = t\<rparr>) (\<lambda>_.
       act_ret (user_profile_of user')))))))) (\<lambda>_ _ _. True) d1 (s1 # is) t"
proof -
  have uu: "u \<in> set (users d)" "us_email u = Some (id_email ident)" "us_status u = active_user_status"
    using h by (simp_all add: holds_email_def)
  have "List.map us_email (update_rows (\<lambda>r. us_id r = us_id u) (\<lambda>_. refreshed_user ident t u) (users d)) =
      List.map us_email (users d)"
  proof (rule map_update_rows_on)
    fix r assume "r \<in> set (users d)" "us_id r = us_id u"
    then have "r = u" using unique_user [OF inv _ uu(1)] by blast
    then show "us_email (refreshed_user ident t u) = us_email r" using uu(2) e by (simp add: refreshed_user_def)
  qed
  from check_unique_map [OF this] inv
  have chk: "check_unique us_email (update_rows (\<lambda>r. us_id r = us_id u) (\<lambda>_. refreshed_user ident t u) (users d1)) = None"
    by (simp add: accounts_inv_def accounts_ok_def d1)
  have fu: "first_by us_id (\<lambda>v. us_id v = us_id u) (users d1) = Some u"
    by (rule first_by_unique) (use uu unique_user [OF inv] d1 in auto)
  show ?thesis
    unfolding find_user_def Let_def update_users_def insert_session_def
    by (rule runs_bind, rule runs_select_first, rule fu, rule runs_bind, rule runs_guard, rule uu,
        rule runs_bind, rule runs_update, rule chk, rule runs_bind, rule runs_new_uuid, rule runs_bind, rule runs_guard, rule fresh,
        rule runs_bind, rule runs_insert)
       (use fresh(2) in \<open>auto simp: d1 list_all_iff intro: runs_ret\<close>)
qed

lemma signin_runs:
  assumes inv: "accounts_inv d" and h: "holds_email u (id_email ident) d" and u: "us_id u \<noteq> []"
    and e: "trim_space (id_email ident) = id_email ident" "id_email ident \<noteq> []"
    and own: "\<And>r. r \<in> set (identities (accts d)) \<Longrightarrow> ui_provider r = id_provider ident \<Longrightarrow> ui_subject r = id_subject ident \<Longrightarrow>
      ui_user r = us_id u"
    and i1: "i1 \<noteq> []" "list_all (\<lambda>r. ui_id r \<noteq> i1) (identities (accts d))"
    and fresh: "\<And>s1. s1 = i1 \<or> s1 = i2 \<Longrightarrow> s1 \<noteq> [] \<and> list_all (\<lambda>s. rs_id s \<noteq> s1 \<and> rs_token s \<noteq> se_token session) (sessions d)"
  shows "runs (upsert_identity_and_create_session ident session) (\<lambda>_ _ _. True) d (i1 # i2 # is) t"
proof -
  let ?P = "\<lambda>r. ui_provider r = id_provider ident \<and> ui_subject r = id_subject ident"
  have linked: "runs (linked_user ident t) (\<lambda>x d' js. x = us_id u \<and> d' = d \<and> js = ks) d ks t" for ks
  proof -
    have f: "first_by us_id (\<lambda>v. us_email v = Some (id_email ident) \<and> us_verified v \<noteq> None \<and>
         us_status v = active_user_status) (users d) = Some u"
      by (rule first_by_unique) (use h email_owner [OF inv] in \<open>auto simp: holds_email_def\<close>)
    have n: "trim_space (id_email ident) \<noteq> []" using e by simp
    show ?thesis
      unfolding linked_user_def find_user_def Let_def
      by (subst if_not_P [OF n], rule runs_bind, rule runs_optional, rule f, simp add: u runs_ret)
  qed
  have up: "runs (upsert_identity ident t (first_by ui_id ?P (identities (accts d))))
      (\<lambda>row d' js. ui_user row = us_id u \<and> users d' = users d \<and> sessions d' = sessions d \<and>
         (js = i2 # is \<or> js = i1 # i2 # is)) d (i1 # i2 # is) t"
  proof (cases "first_by ui_id ?P (identities (accts d))")
    case (Some row)
    with own [of row] first_by_Some [OF Some] have "ui_user row = us_id u" by blast
    then show ?thesis
      unfolding Some upsert_identity_def option.case update_identities_def
      by (intro runs_bind runs_update runs_ret) simp_all
  next
    case None
    then have "list_all (\<lambda>r. \<not> ?P r) (identities (accts d))" by (auto simp: first_by_None list_all_iff)
    then show ?thesis
      unfolding None upsert_identity_def option.case Let_def insert_identity_def
      by (rule_tac runs_bind, rule_tac runs_weaken [OF linked], elim conjE, hypsubst, rule_tac runs_bind,
          rule_tac runs_new_uuid, rule_tac runs_bind, rule_tac runs_guard, rule_tac i1, rule_tac runs_bind, rule_tac runs_insert)
         (use i1 in \<open>auto simp: list_all_iff intro!: runs_ret\<close>)
  qed
  show ?thesis
    unfolding upsert_identity_and_create_session_def
  proof (intro runs_tx, rule runs_bind, rule runs_optional_first, rule runs_bind, rule runs_now, rule runs_bind,
      rule runs_weaken [OF up], goal_cases)
    case (1 row d' js)
    then show ?case
      by (elim conjE disjE; hypsubst?; simp only:) (rule signed_in_runs [OF inv h e]; use fresh in blast)+
  qed
qed

text \<open>The new hash of a login whose parameters have changed.\<close>

lemma rehash_runs:
  assumes inv: "accounts_inv d" and c: "credential_of d u n hash failed locked"
  shows "runs (act_bind (must_hash_password deps password) (\<lambda>h. update_password_hash (us_id u) h t))
    (\<lambda>_ d' js. js = is \<and> accounts_inv d' \<and> users d' = users d \<and> sessions d' = sessions d \<and>
       identities (accts d') = identities (accts d)) d (i # is) t"
proof -
  from c have n: "0 < count_rows (\<lambda>c. cr_user c = us_id u) (credentials (accts d))"
    using count_rows_0 [of "\<lambda>c. cr_user c = us_id u" "credentials (accts d)"] by (auto simp: credential_of_def)
  have inv': "accounts_inv (put_acc credentials_update (update_rows (\<lambda>c. cr_user c = us_id u) (\<lambda>c. c\<lparr>cr_hash := h, cr_changed := t,
      cr_failed := 0, cr_locked := None, cr_updated := t\<rparr>) (credentials (accts d))) d)" for h
    using inv by (simp add: accounts_inv_def accounts_ok_def map_update_rows)
  show ?thesis
    unfolding must_hash_password_def hash_new_password_def update_password_hash_def update_credentials_def
    by (rule runs_bind, rule runs_bind, rule runs_try, rule runs_bind, rule runs_random(1), rule runs_ret, unfold sum.case, rule runs_ret,
        rule runs_tx, rule runs_bind, rule runs_update)
       (use n inv' in \<open>simp_all add: runs_ret\<close>)
qed

lemma login_runs:
  assumes inv: "accounts_inv d" and n: "normalize_email email = Inr n" and o: "credential_opens deps d t n password u"
    and ready: "signin_ready deps d is"
  shows "runs (login_with_password deps email password) (\<lambda>_ _ _. True) d is t"
proof -
  have ne: "n \<noteq> []" using normalize_email_Inr [OF n] by blast
  from o obtain c rehash where h: "holds_email u n d" and c: "c \<in> set (credentials (accts d))" "cr_user c = us_id u"
      "case cr_locked c of None \<Rightarrow> True | Some l \<Rightarrow> l \<le> t"
    and v: "verify_password (ad_kdf deps) (cr_hash c) password = Inr (True, rehash)"
    by (auto simp: credential_opens_def)
  have of: "credential_of d u n (cr_hash c) (cr_failed c) (cr_locked c)"
    using h c by (auto simp: credential_of_def holds_email_def)
  have id: "us_id u \<noteq> []" using ready h by (auto simp: signin_ready_def holds_email_def list_all_iff)
  have own: "ui_user r = us_id u"
    if "r \<in> set (identities (accts d))" "ui_provider r = provider_credentials" "ui_subject r = n" for r
  proof -
    from ready that obtain v where "v \<in> set (users d)" "us_id v = ui_user r" "us_email v = Some n"
      by (auto simp: signin_ready_def list_all_iff list_ex_iff)
    with email_owner [OF inv] h show ?thesis by (metis holds_email_def)
  qed
  from ready obtain i0 i1 i2 i3 ks where draws: "is = i0 # i1 # i2 # i3 # ks"
    by (auto simp: signin_ready_def numeral_eq_Suc Suc_le_length_iff)
  have unused: "unused_draw deps d i" if "i \<in> set is" for i using ready that by (simp add: signin_ready_def list_all_iff)
  have s: "runs (act_bind (create_session deps (password_identity n st) t) (\<lambda>result. act_bind (reset_login_failures k t)
      (\<lambda>_. act_ret result))) (\<lambda>_ _ _. True) d1 (j0 # j1 # j2 # js) t"
    if d1: "accounts_inv d1" "users d1 = users d" "sessions d1 = sessions d" "identities (accts d1) = identities (accts d)"
      and j: "j0 \<in> set is" "j1 \<in> set is" "j2 \<in> set is" for st k d1 j0 j1 j2 js
  proof -
    have "runs (upsert_identity_and_create_session (password_identity n st)
        \<lparr>se_token = hash_value deps (b64_raw_url (drawn random_value_bytes j0)), se_expires = t + ad_absolute deps, se_last_used = Some t\<rparr>)
        (\<lambda>_ _ _. True) d1 (j1 # j2 # js) t"
    proof (rule signin_runs [OF d1(1), of u])
      show "holds_email u (id_email (password_identity n st)) d1"
        using h d1(2) by (simp add: password_identity_def holds_email_def)
      show "trim_space (id_email (password_identity n st)) = id_email (password_identity n st)" "id_email (password_identity n st) \<noteq> []"
        using trim_space_normalized [OF n] ne by (simp_all add: password_identity_def)
    qed (use id own unused [OF j(1)] unused [OF j(2)] unused [OF j(3)] d1 in
        \<open>auto simp: password_identity_def unused_draw_def list_all_iff\<close>)
    then show ?thesis
      unfolding create_session_def Let_def reset_login_failures_def update_credentials_def
      by (intro runs_bind runs_drawn) (erule runs_weaken, intro runs_bind runs_ret runs_update TrueI, simp)
  qed
  have b: "us_status u = active_user_status" "us_verified u \<noteq> None" using h by (simp_all add: holds_email_def)
  show ?thesis
    unfolding login_with_password_def n sum.case
  proof (rule runs_bind, rule runs_now, rule runs_bind, rule runs_weaken [OF find_credential_of [OF inv of]],
      elim conjE exE, goal_cases)
    case (1 x d' js st)
    have l: "\<not> (case cs_locked st of None \<Rightarrow> False | Some l \<Rightarrow> t < l)" using 1 c(3) by (auto split: option.splits)
    show ?case
      unfolding 1(3) option.case if_not_P [OF l]
    proof (rule runs_bind, rule runs_lift, unfold 1(5), rule v, unfold prod.case not_True_eq_False if_False 1(1,2),
        rule runs_bind, rule runs_guard, goal_cases)
      case 2
      show ?case
      proof (rule runs_bind, rule runs_guard, goal_cases)
        case 2
        show ?case
        proof (cases rehash)
          case True
          show ?thesis
            unfolding 1(4) draws if_P [OF True]
            by (rule runs_bind, rule runs_weaken [OF rehash_runs [OF inv of]], elim conjE, hypsubst, rule s) (simp_all add: draws)
        next
          case False
          show ?thesis
            unfolding draws if_not_P [OF False]
            by (rule runs_bind, rule runs_ret, rule s) (simp_all add: draws inv)
        qed
      qed (use 1 b in simp)
    qed (use 1 b in simp)
  qed
qed

end
