(* ===== verification/Auth_Properties.thy ===== *)
theory Auth_Properties
  imports Auth_Signin
begin

text \<open>
  The properties of the accounts and sessions, each with its witness on a small database: one
  verified account with a password, a session and a pending password reset.
\<close>

section \<open>An example\<close>

definition demo_auth :: auth_deps where
  "demo_auth = \<lparr>ad_google = None, ad_tx_key = replicate 32 1, ad_session_key = replicate 32 2,
     ad_hmac = (\<lambda>k v. str_bytes v), ad_sha256 = (\<lambda>b. b), ad_seal = (\<lambda>k n p. p), ad_open = (\<lambda>k n c. Some c),
     ad_seal_email = (\<lambda>k n m. [1]), ad_kdf = (\<lambda>p s t m r n. take n (p @ replicate n 0)),
     ad_absolute = 24 * hour, ad_idle = hour, ad_tx_lifetime = 10 * minute, ad_avatar_max = 1000,
     ad_link_base = ''https://kailo.id'', ad_put = (\<lambda>_ _ _ _. None), ad_open_file = (\<lambda>_. Inl ErrDatabase),
     ad_delete = (\<lambda>_. None)\<rparr>"

definition demo_user :: user where
  "demo_user = \<lparr>us_id = ''u1'', us_status = ''active'', us_display = ''Ana'', us_email = Some ''ana@kailo.id'',
     us_avatar = None, us_verified = Some 1, us_developer = None, us_created = 1, us_updated = 1\<rparr>"

definition demo_hash :: string where
  "demo_hash = encode_password (replicate 16 7) (take 32 (str_bytes ''correct horse'' @ replicate 32 0))"

definition demo_credential :: auth_credential where
  "demo_credential = \<lparr>cr_id = ''c1'', cr_user = ''u1'', cr_hash = demo_hash, cr_failed = 0, cr_locked = None,
     cr_changed = 1, cr_created = 1, cr_updated = 1\<rparr>"

definition demo_session :: retail_session where
  "demo_session = \<lparr>rs_id = ''s1'', rs_user = ''u1'', rs_token = str_bytes ''token'', rs_expires = 24 * hour,
     rs_last_used = Some 100, rs_revoked = None, rs_created = 100, rs_updated = 100\<rparr>"

definition demo_challenge :: auth_challenge where
  "demo_challenge = \<lparr>ch_id = ''h1'', ch_user = ''u1'', ch_token = str_bytes ''reset'',
     ch_purpose = challenge_password_reset, ch_expires = hour, ch_consumed = None, ch_created = 1\<rparr>"

definition demo_accounts :: db where
  "demo_accounts = empty_db\<lparr>users := [demo_user], sessions := [demo_session],
     accts := (accts empty_db)\<lparr>credentials := [demo_credential], challenges := [demo_challenge]\<rparr>\<rparr>"

lemmas demo_rows = demo_user_def demo_credential_def demo_session_def demo_challenge_def demo_accounts_def
  empty_db_def

lemma demo_accounts_inv: "accounts_inv demo_accounts"
  by (simp add: accounts_inv_def accounts_ok_def known_to_def check_unique_def demo_rows)

lemma demo_email: "normalize_email ''ana@kailo.id'' = Inr ''ana@kailo.id''"
  by code_simp

lemma demo_trim: "trim_space ''reset'' = ''reset''" "trim_space ''token'' = ''token''" "trim_space ''ana@kailo.id'' = ''ana@kailo.id''"
    "trim_space ''Ana'' = ''Ana''"
  by code_simp+

lemma demo_kdf: "length (ad_kdf demo_auth p s (nat argon_time) (nat argon_memory) (nat argon_threads) argon_key_len) = argon_key_len"
  by (simp add: demo_auth_def argon_key_len_def)

lemma demo_hash_value: "hash_value demo_auth v = str_bytes v"
  by (simp add: hash_value_def demo_auth_def)

lemma demo_idle: "ad_idle demo_auth = hour" "ad_absolute demo_auth = 24 * hour"
  by (simp_all add: demo_auth_def)

lemma demo_live: "demo_challenge \<in> set (challenges (accts demo_accounts))"
    "challenge_live (hash_value demo_auth (trim_space ''reset'')) challenge_password_reset minute demo_challenge"
    "demo_credential \<in> set (credentials (accts demo_accounts))" "cr_user demo_credential = ch_user demo_challenge"
  by (simp_all add: demo_trim demo_hash_value challenge_live_def demo_accounts_def demo_challenge_def demo_credential_def)

lemma demo_verify: "verify_password (ad_kdf demo_auth) demo_hash p =
    Inr (take 32 (str_bytes p @ replicate 32 0) = take 32 (str_bytes ''correct horse'' @ replicate 32 0), False)"
  unfolding demo_hash_def
  by (subst verify_encoded) (simp_all add: argon_key_len_def demo_auth_def)





lemma demo_reset: "runs (reset_password demo_auth ''reset'' ''new password'') 
    (\<lambda>_ d' _. \<forall>s \<in> set (sessions d'). rs_user s = ''u1'' \<longrightarrow> rs_revoked s \<noteq> None) demo_accounts (i # is) minute"
  by (rule runs_weaken, rule reset_password_runs [OF demo_accounts_inv _ _ demo_live demo_kdf])
     (simp_all add: password_length_ok_def min_password_length_def max_password_length_def demo_trim demo_challenge_def)

lemma demo_authenticates: "authenticates demo_auth demo_accounts minute ''token''"
  by (simp add: authenticates_def demo_hash_value session_live_def last_activity_def demo_idle,
      simp add: demo_rows active_user_status_def)

lemma demo_authenticate: "runs (authenticate demo_auth ''token'') (\<lambda>_ _ _. True) demo_accounts is minute"
  by (rule authenticate_runs [OF demo_accounts_inv]) (simp_all add: demo_authenticates demo_trim demo_idle)

lemma demo_logout: "runs (logout demo_auth ''token'') (\<lambda>_ _ _. True) d is t"
  unfolding logout_def revoke_session_def update_sessions_def
  by (auto simp: demo_trim intro!: runs_bind runs_now runs_update runs_ret)

lemma demo_wrong: "verify_password (ad_kdf demo_auth) demo_hash ''wrong'' = Inr (False, False)"
proof -
  have "take 32 (str_bytes ''wrong'' @ replicate 32 0) \<noteq> take 32 (str_bytes ''correct horse'' @ replicate 32 0)"
    by code_simp
  then show ?thesis by (simp only: demo_verify)
qed

section \<open>Accounts\<close>

text \<open>C23: whatever authentication calls are made, in whatever order, at whatever times and with whatever
  database faults, the account tables stay consistent: no two users share an identifier or an email, no two
  identities a provider and subject, no user has two passwords, tokens of sessions, challenges and login
  transactions are unique, and every row belongs to a user.\<close>

theorem accounts_stay_consistent:
  assumes "accounts_inv d" and "later deps d d'"
  shows "accounts_inv d'"
  using later_acct [OF assms(2,1)] by (simp add: acct_def)

theorem accounts_stay_consistent_witness:
  "\<exists>d'. later demo_auth demo_accounts d' \<and> accounts_inv d' \<and>
     (\<forall>s \<in> set (sessions d'). rs_user s = ''u1'' \<longrightarrow> rs_revoked s \<noteq> None)"
proof -
  from runs_world0 [OF demo_reset, of "''i''" "[]"] obtain w' where
    r: "reset_password demo_auth ''reset'' ''new password'' (world0 demo_accounts [''i''] minute) = (Inr (), w')"
    and s: "\<forall>s \<in> set (sessions (w_db w')). rs_user s = ''u1'' \<longrightarrow> rs_revoked s \<noteq> None" by auto
  have "later demo_auth demo_accounts (w_db w')"
    by (rule later_call [of _ _ "world0 demo_accounts [''i''] minute" "CallReset ''reset'' ''new password''"])
       (simp_all add: r, simp add: world0_def later_now)
  from accounts_stay_consistent [OF demo_accounts_inv this] s this show ?thesis by blast
qed

text \<open>C24: a password-reset or verification token works once: after a successful reset, no later call with the
  same token, at any time and after any other authentication calls, resets the password again or verifies an
  email; it fails and changes nothing.\<close>

theorem challenge_single_use:
  assumes "accounts_inv (w_db w)" and "reset_password deps token password w = (Inr (), w1)"
    and "later deps (w_db w1) (w_db u)"
  shows "(\<exists>e u'. reset_password deps token again u = (Inl e, u') \<and> w_db u' = w_db u) \<and>
    (\<exists>e u'. verify_email deps token u = (Inl e, u') \<and> w_db u' = w_db u)"
proof -
  have "challenge_spent (hash_value deps (trim_space token)) (w_db w1) \<and> acct (w_db w) (w_db w1)"
    by (rule outcome_Inr [OF reset_password_spends [OF assms(1)] assms(2)])
  with later_acct [OF assms(3)] have u: "accounts_inv (w_db u)" "challenge_spent (hash_value deps (trim_space token)) (w_db u)"
    by (auto simp: acct_def intro: spent_grows)
  show ?thesis
    using outcome_refused [OF reset_password_refused [OF u]] outcome_refused [OF verify_email_refused [OF u]] by blast
qed

theorem challenge_single_use_witness:
  "\<exists>w1 e u'. reset_password demo_auth ''reset'' ''new password'' (world0 demo_accounts [''i''] minute) = (Inr (), w1) \<and>
     reset_password demo_auth ''reset'' ''another password'' w1 = (Inl e, u') \<and> w_db u' = w_db w1"
proof -
  have w: "w_db (world0 demo_accounts is t) = demo_accounts" for "is" t by (simp add: world0_def)
  from runs_world0 [OF demo_reset, of "''i''" "[]"] obtain w1 where
    r: "reset_password demo_auth ''reset'' ''new password'' (world0 demo_accounts [''i''] minute) = (Inr (), w1)" by auto
  from challenge_single_use [OF _ r later_now, unfolded w, OF demo_accounts_inv] r show ?thesis by blast
qed

text \<open>C25: signing out is final: once a session that authenticated is ended, by a logout, a password change of
  its account or a password reset of its account, its token never authenticates again, whatever
  authentication calls come between.\<close>

theorem sign_out_is_final:
  assumes "accounts_inv (w_db w)" and "authenticate deps raw w = (Inr a, w1)" and "w_db v = w_db w1"
    and "m = logout deps raw \<or> m = change_password deps (up_id (au_user a)) old password \<or>
       m = reset_password deps token password \<and>
       (\<exists>c \<in> set (challenges (accts (w_db v))). ch_token c = hash_value deps (trim_space token) \<and> ch_user c = up_id (au_user a))"
    and "m v = (Inr (), v1)" and "later deps (w_db v1) (w_db u)"
  shows "\<exists>e u'. authenticate deps raw u = (Inl e, u')"
proof -
  let ?t = "hash_value deps raw" and ?i = "up_id (au_user a)"
  have "acct (w_db w) (w_db w1)" by (rule safe_run [OF safe_authenticate assms(1,2)])
  moreover have "session_of ?t ?i (w_db w)" "trim_space raw \<noteq> []"
    using outcome_Inr [OF authenticate_finds assms(2)] authenticate_given [OF assms(2)]
    by (auto simp: session_of_def with_avatar_url_def user_profile_of_def)
  ultimately have v: "accounts_inv (w_db v)" "session_of ?t ?i (w_db v)" "trim_space raw \<noteq> []"
    using assms(3) by (auto simp: acct_def intro: session_of_grows)
  have "outcome m (\<lambda>_. session_ended ?t) (\<lambda>_ _. True) (w_db v) (w_now v)"
    using assms(4) logout_ends [OF v(3,2)] change_password_ends [OF v(2)] reset_password_ends [OF v(1,2)] by blast
  from outcome_Inr [OF this assms(5)] have e: "session_ended ?t (w_db v1)" .
  have "safe (\<lambda>_. True) m"
    using assms(4) safe_logout safe_change_password safe_reset_password by blast
  from safe_run [OF this v(1) assms(5)] have "accounts_inv (w_db v1)" by (simp add: acct_def)
  from later_acct [OF assms(6) this] e show ?thesis
    by (intro authenticate_ended) (auto simp: acct_def intro: session_ended_grows)
qed

theorem sign_out_is_final_witness:
  "\<exists>a w1 v1 e u'. authenticate demo_auth ''token'' (world0 demo_accounts [] minute) = (Inr a, w1) \<and>
     logout demo_auth ''token'' (world0 (w_db w1) [] minute) = (Inr (), v1) \<and>
     authenticate demo_auth ''token'' v1 = (Inl e, u')"
proof -
  have w: "w_db (world0 d is t) = d" for d "is" t by (simp add: world0_def)
  from runs_world0 [OF demo_authenticate, of "[]"] obtain a w1 where
    a: "authenticate demo_auth ''token'' (world0 demo_accounts [] minute) = (Inr a, w1)" by auto
  from runs_world0 [OF demo_logout, of "w_db w1" "[]" minute] obtain v1 where
    l: "logout demo_auth ''token'' (world0 (w_db w1) [] minute) = (Inr (), v1)" by auto
  have "\<exists>e u'. authenticate demo_auth ''token'' v1 = (Inl e, u')"
    by (rule sign_out_is_final [where w = "world0 demo_accounts [] minute" and token = "[]" and password = "[]" and old = "[]"],
        simp add: w demo_accounts_inv, rule a)
       (rule w, rule disjI1, rule refl, rule l, rule later_now)
  with a l show ?thesis by blast
qed



text \<open>C27: in a calm world a token authenticates exactly when it belongs to a session that is not revoked, not
  expired and not idle, of an account that is active.\<close>

theorem session_authenticates:
  assumes "calm w" and "accounts_inv (w_db w)" and "0 < ad_idle deps" and "trim_space raw \<noteq> []"
  shows "(\<exists>a w'. authenticate deps raw w = (Inr a, w')) \<longleftrightarrow>
    (\<exists>s \<in> set (sessions (w_db w)). \<exists>u \<in> set (users (w_db w)). rs_token s = hash_value deps raw \<and>
       session_live (ad_idle deps) (w_now w) s \<and> us_id u = rs_user s \<and> us_status u = active_user_status)"
proof
  assume "\<exists>a w'. authenticate deps raw w = (Inr a, w')"
  then obtain a w' where "authenticate deps raw w = (Inr a, w')" by blast
  from outcome_Inr [OF authenticate_finds this]
  show "\<exists>s \<in> set (sessions (w_db w)). \<exists>u \<in> set (users (w_db w)). rs_token s = hash_value deps raw \<and>
       session_live (ad_idle deps) (w_now w) s \<and> us_id u = rs_user s \<and> us_status u = active_user_status" by blast
next
  assume "\<exists>s \<in> set (sessions (w_db w)). \<exists>u \<in> set (users (w_db w)). rs_token s = hash_value deps raw \<and>
       session_live (ad_idle deps) (w_now w) s \<and> us_id u = rs_user s \<and> us_status u = active_user_status"
  then have "authenticates deps (w_db w) (w_now w) raw" by (simp add: authenticates_def)
  from authenticate_runs [OF assms(2-4) this] show "\<exists>a w'. authenticate deps raw w = (Inr a, w')"
    by (rule runsE [OF _ assms(1) refl refl refl]) blast
qed

theorem session_authenticates_witness:
  "\<exists>a w'. authenticate demo_auth ''token'' (world0 demo_accounts [] minute) = (Inr a, w')"
proof -
  have w: "calm (world0 demo_accounts [] minute)" "w_db (world0 demo_accounts [] minute) = demo_accounts"
    "w_now (world0 demo_accounts [] minute) = minute" by (simp_all add: world0_def calm_def)
  show ?thesis
    by (rule iffD2 [OF session_authenticates [OF w(1), unfolded w(2,3), OF demo_accounts_inv]])
       (use demo_authenticates in \<open>simp_all add: demo_idle demo_trim authenticates_def\<close>)
qed

text \<open>C28: ten wrong passwords in a row lock the credential: for fifteen minutes after the tenth, every login,
  with the right password too, is refused and changes nothing.\<close>

theorem login_lockout:
  assumes "accounts_inv d" and "normalize_email email = Inr n" and "credential_of d u n hash 0 None"
    and "tried deps email tries d (w_db w)" and "length tries = 10"
    and "\<forall>(p, t) \<in> set tries. \<exists>r. verify_password (ad_kdf deps) hash p = Inr (False, r)"
    and "calm w" and "w_now w < snd (last tries) + 15 * minute"
  shows "\<exists>w'. login_with_password deps email password w = (Inl (ErrAuth InvalidCredentials), w') \<and> w_db w' = w_db w"
proof -
  have "accounts_inv (w_db w) \<and>
      credential_of (w_db w) u n hash max_failed_logins (Some (snd (last tries) + login_lock_duration))"
    by (rule tried_locks [OF assms(1,3,2,4) _ _ assms(6)]) (use assms(5) in \<open>auto simp: max_failed_logins_def\<close>)
  moreover have "w_now w < snd (last tries) + login_lock_duration"
    using assms(8) by (simp add: login_lock_duration_def)
  ultimately have l: "runs (act_try (login_with_password deps email password))
      (\<lambda>r d' _. r = Inl (ErrAuth InvalidCredentials) \<and> d' = w_db w) (w_db w) (w_ids w) (w_now w)"
    by (intro locked_attempt) (auto simp: assms(2))
  obtain r w' where "login_with_password deps email password w = (r, w')" by fastforce
  with runs_try_result [OF l assms(7) this] show ?thesis by blast
qed

theorem login_lockout_witness:
  "\<exists>d w'. tried demo_auth ''ana@kailo.id'' (replicate 10 (''wrong'', minute)) demo_accounts d \<and>
     login_with_password demo_auth ''ana@kailo.id'' ''correct horse'' (world0 d [] (2 * minute)) =
       (Inl (ErrAuth InvalidCredentials), w')"
proof -
  obtain d where d: "tried demo_auth ''ana@kailo.id'' (replicate 10 (''wrong'', minute)) demo_accounts d"
    using tried_some by blast
  have w: "calm (world0 d [] t)" "w_db (world0 d [] t) = d" "w_now (world0 d [] t) = t" for t
    by (simp_all add: world0_def calm_def)
  have ex_not: "Ex Not" by (rule exI [of _ False]) simp
  have c: "credential_of demo_accounts demo_user ''ana@kailo.id'' demo_hash 0 None"
    by (simp add: credential_of_def demo_rows)
  have "\<exists>w'. login_with_password demo_auth ''ana@kailo.id'' ''correct horse'' (world0 d [] (2 * minute)) =
      (Inl (ErrAuth InvalidCredentials), w') \<and> w_db w' = w_db (world0 d [] (2 * minute))"
    by (rule login_lockout [OF demo_accounts_inv demo_email c, where tries = "replicate 10 (''wrong'', minute)"])
       (use d in \<open>simp_all add: w demo_wrong ex_not\<close>)
  with d show ?thesis by blast
qed

text \<open>A stored password hash verifies the password it was made from, without asking for a new hash, and
  another password only if the key derivation maps both to one key.\<close>

theorem password_round_trip:
  assumes "length (kdf (str_bytes password) salt 2 19456 1 32) = 32"
  shows "verify_password kdf (hash_password kdf salt password) other =
    Inr (kdf (str_bytes other) salt 2 19456 1 32 = kdf (str_bytes password) salt 2 19456 1 32, False)"
  using verify_encoded [of "kdf (str_bytes password) salt 2 19456 1 32" kdf salt other] assms
  by (simp add: hash_password_def argon_time_def argon_memory_def argon_threads_def argon_key_len_def)

theorem password_round_trip_witness:
  "verify_password (ad_kdf demo_auth) (hash_password (ad_kdf demo_auth) (replicate 16 7) ''correct horse'') ''correct horse'' =
     Inr (True, False)"
  by (subst password_round_trip) (simp_all add: demo_auth_def)

text \<open>The login transaction of a Google sign-in returns the nonce and the PKCE verifier that were protected in it.\<close>

theorem callback_round_trip:
  assumes "length iv = gcm_nonce_size" and "ad_open deps (ad_tx_key deps) iv (ad_seal deps (ad_tx_key deps) iv plain) = Some plain"
    and "plain = str_bytes (nonce @ callback_separator # verifier)"
    and "nonce \<noteq> []" and "verifier \<noteq> []" and "callback_separator \<notin> set nonce"
  shows "decrypt_callback_data deps (encrypt_callback_data deps iv nonce verifier) = Inr (nonce, verifier)"
  using assms by (simp add: decrypt_callback_data_def encrypt_callback_data_def str_cut_append)

theorem callback_round_trip_witness:
  "decrypt_callback_data demo_auth (encrypt_callback_data demo_auth (replicate 12 5) ''nonce'' ''verifier'') =
     Inr (''nonce'', ''verifier'')"
  by (rule callback_round_trip [OF _ _ refl]) (simp_all add: gcm_nonce_size_def demo_auth_def callback_separator_def)

end
