(* ===== verification/Findings.thy ===== *)
theory Findings
  imports Order_Properties Webhook_Properties Auth_Properties
begin

text \<open>
  Behaviours of the code that its comments or its purpose do not intend, each proved of the model:
  the second lookup of the webhook client, a callback lost to a database error, expired
  reservations that stop the sweep, and a payload that blocks its queue.
\<close>

section \<open>The dialled address is not the one that was checked\<close>

text \<open>
  \<open>safeWebhookHTTPClient.Do\<close> validates one answer of the resolver and dials the first address of
  a second answer, which may be the loopback address.
\<close>

lemma webhook_dns_rebinding:
  "webhook_dial (\<lambda>_. Inr [[93, 184, 216, 34]]) (\<lambda>_. Inr [[127, 0, 0, 1]]) ''https://a.io/'' = Inr [127, 0, 0, 1]"
  by code_simp

section \<open>Reserved addresses and ports that the policy accepts\<close>

text \<open>
  Documentation and relay addresses (192.0.2.0/24, 192.88.99.0/24, 2001:db8::/32) are in none of the listed
  ranges, and no port is compared: a URL of the SSH port of such a host is accepted.
\<close>

lemma unlisted_reserved_accepted:
  "List.map is_blocked_webhook_ip [[192, 0, 2, 1], [192, 88, 99, 1], [0x20, 1, 0x0d, 0xb8, 0, 0, 0, 0, 0, 0, 0, 0, 0, 0, 0, 1]] =
     [False, False, False]"
  "validate_webhook_destination (\<lambda>_. Inr [[192, 0, 2, 1]]) ''https://a.io:22/'' = Inr ()"
  by code_simp+

section \<open>A callback lost to a database error\<close>

text \<open>
  The lookup of the expected payment fails once: the callback is completed as unmatched, its
  redelivery by the gateway is acknowledged as processed, and the paid order stays pending.
\<close>

definition callback_then_redelivery :: "db \<Rightarrow> bool \<times> order_status list" where
  "callback_then_redelivery d =
     (let w = (world0 d demo_ids 3000)\<lparr>w_faults := [NoFault, NoFault, HardFault]\<rparr>;
          first = process_callback demo_gateway ''body'' ''t'' w;
          second = process_callback demo_gateway ''body'' ''t'' (snd first)
      in (isl (fst first) \<and> fst second = Inr (), List.map or_status (orders (w_db (snd second)))))"

lemma callback_lost: "callback_then_redelivery demo_pending = (True, [OSPaymentPending])"
  by code_simp

section \<open>Expired reservations of failed orders\<close>

text \<open>A permanently failed transfer keeps its reservation.\<close>

lemma failed_transfer_keeps_reservation:
  "outcome (fail_permanent i e) (\<lambda>_ d'. reservations d' = reservations d) (\<lambda>_ d'. d' = d) d t"
  unfolding fail_permanent_def store_defs close_outbox_def
  by (intro outcome_intro) simp_all

text \<open>
  A sweep whose first expired reservations belong to orders that are not waiting for a payment
  releases nothing, however many others have expired; the next sweep selects the same ones.
\<close>

lemma release_starved:
  assumes "\<forall>q \<in> set (select_by tr_expires (expired_reservation now) limit (reservations d)).
      \<forall>r \<in> set (orders d). or_id r = tr_order q \<longrightarrow> or_status r \<noteq> OSPaymentPending"
  shows "outcome (release_expired_reservations now limit) (\<lambda>n d'. n = 0 \<and> d' = d) (\<lambda>_ d'. d' = d) d t"
proof -
  have one: "outcome (release_one now q n) (\<lambda>n' d'. n' = n \<and> d' = d) (\<lambda>_ _. True) d t"
    if "\<forall>r \<in> set (orders d). or_id r = tr_order q \<longrightarrow> or_status r \<noteq> OSPaymentPending" for q n
    unfolding release_one_def store_defs
    by (intro outcome_bind outcome_select_first outcome_if outcome_ret)
       (use that in \<open>auto dest!: first_by_Some\<close>)
  show ?thesis
    unfolding release_expired_reservations_def
  proof (rule outcome_tx, rule outcome_bind, rule outcome_select,
      rule outcome_fold [where I = "\<lambda>n d'. n = 0 \<and> d' = d"])
    fix q and n :: nat and d'
    assume "q \<in> set (select_by tr_expires (expired_reservation now) limit (reservations d))" and "n = 0 \<and> d' = d"
    with one [of q 0] assms show "outcome (release_one now q n) (\<lambda>n d'. n = 0 \<and> d' = d) (\<lambda>_ _. True) d' t" by simp
  qed simp_all
qed

section \<open>A payload that blocks its queue\<close>

text \<open>
  A message that does not decode is not marked in any way: every lease selects it first and fails,
  and the messages behind it wait.
\<close>

lemma poison_blocks:
  assumes "first_by lease_key (leasable topic k now) (outbox d) = Some m" and "decode (ob_payload m) = Inl e"
  shows "outcome (lease_outbox k decode topic worker now dur) (\<lambda>_ _. False) (\<lambda>_ d'. d' = d) d t"
  unfolding lease_outbox_def
  by (rule outcome_tx_body, rule outcome_bind, rule outcome_lease_row)
     (use assms in \<open>auto intro: outcome_fail\<close>)

end
