(* ===== verification/Kyc.thy ===== *)
theory Kyc
  imports Steady Web_Address Passwords
begin

text \<open>
  Identity verification: \<open>internal/repository/kyc_repository.go\<close> and \<open>internal/usecase/kyc_usecase.go\<close>.
  The provider (Persona) is a parameter: creating and resuming an inquiry, whether one of its errors
  says that it may be retried, and the verification of a webhook. So are SHA-256 and the rewriting of
  the hosted-flow URL (\<open>net/url\<close>), which only the view uses.
\<close>

record kyc_record =
  kr_id :: string
  kr_user :: string
  kr_provider :: string
  kr_request :: string
  kr_provider_id :: string
  kr_provider_status :: string
  kr_status :: kyc_status
  kr_created :: time
  kr_updated :: time
  kr_event_at :: "time option"
  kr_event_id :: "string option"
  kr_approved :: "time option"
  kr_expires :: "time option"

record persona_inquiry =
  pi_id :: string
  pi_status :: string
  pi_expires :: "time option"

record persona_event =
  pe_id :: string
  pe_type :: string
  pe_inquiry :: string
  pe_status :: string
  pe_created :: time

record kyc_status_view =
  ks_provider :: string
  ks_status :: kyc_status
  ks_provider_status :: string
  ks_inquiry :: string
  ks_created :: "time option"
  ks_updated :: "time option"
  ks_expires :: "time option"
  ks_approved :: "time option"

record kyc_inquiry_view =
  kv_status :: kyc_status
  kv_provider_status :: string
  kv_inquiry :: string
  kv_url :: string
  kv_environment :: string
  kv_session :: string
  kv_expires :: "time option"

record kyc_deps =
  kp_create :: "string \<Rightarrow> string \<Rightarrow> err + persona_inquiry"
  kp_resume :: "string \<Rightarrow> err + string"
  kp_classified :: "err \<Rightarrow> bool option"
  kp_verify :: "string \<Rightarrow> string \<Rightarrow> time \<Rightarrow> err + persona_event"
  kp_sha256 :: "byte list \<Rightarrow> byte list"
  kp_flow_url :: "string \<Rightarrow> string \<Rightarrow> string option"
  kp_environment :: string
  kp_base_url :: string

definition kyc_provider :: string where "kyc_provider = ''persona''"

section \<open>Repository\<close>

definition kyc_record_of :: "kyc_inquiry \<Rightarrow> kyc_record" where
  "kyc_record_of r = \<lparr>kr_id = ky_id r, kr_user = ky_user r, kr_provider = ky_provider r, kr_request = ky_request r,
     kr_provider_id = deref_str (ky_provider_id r), kr_provider_status = ky_provider_status r,
     kr_status = ky_status r, kr_created = ky_created r, kr_updated = ky_updated r, kr_event_at = ky_event_at r,
     kr_event_id = ky_event_id r, kr_approved = ky_approved r, kr_expires = ky_expires r\<rparr>"

text \<open>\<open>ORDER BY created_at DESC, id DESC LIMIT 1\<close>.\<close>

definition last_by :: "('r \<Rightarrow> 'k::linorder) \<Rightarrow> ('r \<Rightarrow> bool) \<Rightarrow> 'r list \<Rightarrow> 'r option" where
  "last_by k P rows = (case sort_key k (filter P rows) of [] \<Rightarrow> None | r # rs \<Rightarrow> Some (last (r # rs)))"

definition newest_inquiry :: "(kyc_inquiry \<Rightarrow> bool) \<Rightarrow> kyc_inquiry option repo" where
  "newest_inquiry P = optional_row (select_first (\<lambda>d.
     last_by (\<lambda>r. (ky_created r, ky_id r)) P (kyc_inquiries (accts d))))"

definition find_current :: "string \<Rightarrow> kyc_record option repo" where
  "find_current user_id =
     act_bind (newest_inquiry (\<lambda>r. ky_user r = trim_space user_id)) (\<lambda>r. act_ret (map_option kyc_record_of r))"

definition find_by_provider_inquiry :: "string \<Rightarrow> string \<Rightarrow> kyc_record option repo" where
  "find_by_provider_inquiry provider inquiry =
     act_bind (optional_row (first_row (\<lambda>d. kyc_inquiries (accts d)) ky_id
       (\<lambda>r. ky_provider r = trim_space provider \<and> ky_provider_id r = Some (trim_space inquiry)))) (\<lambda>r.
     act_ret (map_option kyc_record_of r))"

definition past_expiry :: "kyc_inquiry \<Rightarrow> time \<Rightarrow> bool" where
  "past_expiry r now \<longleftrightarrow> (case ky_expires r of None \<Rightarrow> False | Some u \<Rightarrow> u \<le> now)"

definition retain_inquiry :: "kyc_inquiry \<Rightarrow> time \<Rightarrow> bool" where
  "retain_inquiry r now \<longleftrightarrow> kyc_open (ky_status r) \<and> \<not> past_expiry r now"

definition new_inquiry :: "string \<Rightarrow> string \<Rightarrow> string \<Rightarrow> time \<Rightarrow> kyc_inquiry" where
  "new_inquiry internal_id user_id request now =
     \<lparr>ky_id = internal_id, ky_user = user_id, ky_provider = kyc_provider, ky_provider_id = None,
      ky_request = request, ky_provider_status = [], ky_status = KSCreating, ky_event_at = None,
      ky_event_id = None, ky_started = None, ky_completed = None, ky_approved = None, ky_expires = None,
      ky_created = now, ky_updated = now\<rparr>"

text \<open>A new row, or the open inquiry that a concurrent request has created.\<close>

definition insert_reservation_row :: "string \<Rightarrow> kyc_inquiry \<Rightarrow> (kyc_record \<times> bool) repo" where
  "insert_reservation_row user_id row =
     act_bind (insert_kyc_inquiry row) (\<lambda>n.
     if n = 0 then
       act_bind (newest_inquiry (\<lambda>r. ky_user r = user_id \<and> kyc_open (ky_status r))) (\<lambda>found. case found of
         Some r \<Rightarrow> act_ret (kyc_record_of r, False)
       | None \<Rightarrow> act_fail (ErrText ''kyc inquiry reservation conflicts with an existing record''))
     else act_ret (kyc_record_of row, True))"

definition kyc_reserve :: "string \<Rightarrow> string \<Rightarrow> string \<Rightarrow> time \<Rightarrow> (kyc_record \<times> bool) repo" where
  "kyc_reserve user_id0 internal_id request now =
     (let user_id = trim_space user_id0;
          create = insert_reservation_row user_id
            (new_inquiry (trim_space internal_id) user_id (trim_space request) now) in
      tx_do (
      act_bind (or_missing (ErrKYC KycInquiryNotFound)
        (find_user (\<lambda>u. us_id u = user_id \<and> us_status u = active_user_status))) (\<lambda>_.
      act_bind (newest_inquiry (\<lambda>r. ky_user r = user_id)) (\<lambda>existing.
      case existing of
        None \<Rightarrow> create
      | Some r \<Rightarrow>
          if ky_status r = KSApproved \<or> retain_inquiry r now then act_ret (kyc_record_of r, False)
          else act_bind (if kyc_open (ky_status r) \<and> past_expiry r now
              then act_bind (update_kyc_inquiries (\<lambda>q. ky_id q = ky_id r)
                (\<lambda>q. q\<lparr>ky_status := KSExpired, ky_updated := now\<rparr>)) (\<lambda>_. act_ret ())
              else act_ret ()) (\<lambda>_. create)))))"

definition attach_provider_inquiry :: "string \<Rightarrow> string \<Rightarrow> string \<Rightarrow> time option \<Rightarrow> time \<Rightarrow> unit repo" where
  "attach_provider_inquiry internal_id0 provider_id0 provider_status expires now =
     (let internal_id = trim_space internal_id0; provider_id = trim_space provider_id0 in
      act_bind (act_guard (\<not> (internal_id = [] \<or> provider_id = []))
        (ErrText ''kyc inquiry and provider inquiry ids are required'')) (\<lambda>_.
      tx_do (
      act_bind (or_missing (ErrKYC KycInquiryNotFound)
        (first_row (\<lambda>d. kyc_inquiries (accts d)) ky_id (\<lambda>r. ky_id r = internal_id))) (\<lambda>row.
      case ky_provider_id row of
        Some p \<Rightarrow> act_guard (p = provider_id) (ErrText ''kyc inquiry is already attached to another provider inquiry'')
      | None \<Rightarrow>
          act_bind (act_guard (ky_status row = KSCreating) (ErrText ''kyc inquiry is not awaiting provider attachment'')) (\<lambda>_.
          act_bind (update_kyc_inquiries
            (\<lambda>r. ky_id r = internal_id \<and> ky_status r = KSCreating \<and> ky_provider_id r = None)
            (\<lambda>r. r\<lparr>ky_provider_id := Some provider_id, ky_provider_status := trim_space provider_status,
               ky_status := KSCreated, ky_expires := expires, ky_updated := now\<rparr>)) (\<lambda>_.
          act_ret ()))))))"

definition kyc_mark_failed :: "string \<Rightarrow> time \<Rightarrow> unit repo" where
  "kyc_mark_failed internal_id0 now =
     (let internal_id = trim_space internal_id0 in
      act_bind (act_guard (internal_id \<noteq> []) (ErrText ''kyc inquiry id is required'')) (\<lambda>_.
      tx_do (
      act_bind (update_kyc_inquiries
        (\<lambda>r. ky_id r = internal_id \<and> ky_status r = KSCreating \<and> ky_provider_id r = None)
        (\<lambda>r. r\<lparr>ky_status := KSFailed, ky_provider_status := ''request_failed'', ky_updated := now\<rparr>)) (\<lambda>_.
      act_ret ()))))"

text \<open>Events are ordered by the provider's time, then by their identifier.\<close>

definition is_provider_event_newer :: "time option \<Rightarrow> string option \<Rightarrow> time \<Rightarrow> string \<Rightarrow> bool" where
  "is_provider_event_newer current_at current_id event_at event_id =
     (case current_at of None \<Rightarrow> True
      | Some c \<Rightarrow>
          if c < event_at then True
          else if event_at < c then False
          else case current_id of None \<Rightarrow> True
            | Some i \<Rightarrow> trim_space i = [] \<or> i < event_id)"

fun valid_kyc_event_status :: "kyc_status \<Rightarrow> bool" where
  "valid_kyc_event_status KSNotStarted = False"
| "valid_kyc_event_status KSCreating = False"
| "valid_kyc_event_status _ = True"

definition apply_provider_event :: "kyc_event \<Rightarrow> kyc_status \<Rightarrow> string \<Rightarrow> time \<Rightarrow> kyc_inquiry \<Rightarrow> kyc_inquiry" where
  "apply_provider_event e status provider_status now r =
     r\<lparr>ky_event_at := Some (ke_at e), ky_event_id := Some (ke_event e),
       ky_provider_status := trim_space provider_status, ky_status := status,
       ky_started := (if status = KSPending \<and> ky_started r = None then Some (ke_at e) else ky_started r),
       ky_completed := (if status = KSCompleted \<and> ky_completed r = None then Some (ke_at e) else ky_completed r),
       ky_approved := (if status = KSApproved then Some (ke_at e) else None),
       ky_updated := now\<rparr>"

definition trimmed_event :: "kyc_event \<Rightarrow> kyc_event" where
  "trimmed_event e = e\<lparr>ke_provider := trim_space (ke_provider e), ke_event := trim_space (ke_event e),
     ke_type := trim_space (ke_type e)\<rparr>"

definition kyc_event_complete :: "kyc_event \<Rightarrow> kyc_status \<Rightarrow> bool" where
  "kyc_event_complete e status \<longleftrightarrow>
     \<not> (trim_space (ke_id e) = [] \<or> trim_space (ke_provider e) = [] \<or> trim_space (ke_event e) = [] \<or>
        trim_space (ke_inquiry e) = [] \<or> trim_space (ke_type e) = [] \<or> trim_space (ke_hash e) = [] \<or>
        ke_at e = 0 \<or> ke_received e = 0 \<or> \<not> valid_kyc_event_status status)"

definition find_provider_event :: "string \<Rightarrow> string \<Rightarrow> kyc_event option repo" where
  "find_provider_event provider event_id =
     optional_row (first_row (\<lambda>d. kyc_events (accts d)) ke_id (\<lambda>q. ke_provider q = provider \<and> ke_event q = event_id))"

text \<open>An event that is already on file must be the same delivery.\<close>

definition same_delivery :: "kyc_event \<Rightarrow> kyc_event \<Rightarrow> unit repo" where
  "same_delivery e q = act_guard (ke_hash q = ke_hash e \<and> ke_inquiry q = ke_inquiry e) (ErrKYC KycProviderEventConflict)"

definition record_provider_event :: "kyc_event \<Rightarrow> kyc_status \<Rightarrow> string \<Rightarrow> time \<Rightarrow> unit repo" where
  "record_provider_event e0 status provider_status now =
     act_bind (act_guard (kyc_event_complete e0 status) (ErrText ''invalid kyc provider event'')) (\<lambda>_.
     let e = trimmed_event e0 in
     tx_do (
     act_bind (or_missing (ErrKYC KycInquiryNotFound) (first_row (\<lambda>d. kyc_inquiries (accts d)) ky_id
       (\<lambda>r. ky_id r = ke_inquiry e \<and> ky_provider r = ke_provider e))) (\<lambda>inquiry.
     act_bind (find_provider_event (ke_provider e) (ke_event e)) (\<lambda>existing.
     case existing of
       Some q \<Rightarrow> same_delivery e q
     | None \<Rightarrow>
         act_bind (insert_kyc_event e) (\<lambda>n.
         if n = 0 then
           act_bind (find_provider_event (ke_provider e) (ke_event e)) (\<lambda>concurrent. case concurrent of
             None \<Rightarrow> act_fail (ErrText ''kyc provider event conflicts with an existing record'')
           | Some q \<Rightarrow> same_delivery e q)
         else if \<not> is_provider_event_newer (ky_event_at inquiry) (ky_event_id inquiry) (ke_at e) (ke_event e)
         then act_ret ()
         else act_bind (update_kyc_inquiries (\<lambda>r. ky_id r = ky_id inquiry)
             (apply_provider_event e status provider_status now)) (\<lambda>_. act_ret ()))))))"

section \<open>The status of a verification\<close>

definition status_expired :: "kyc_record \<Rightarrow> time \<Rightarrow> bool" where
  "status_expired r now \<longleftrightarrow> kyc_open (kr_status r) \<and> (case kr_expires r of None \<Rightarrow> False | Some u \<Rightarrow> u \<le> now)"

definition time_pointer :: "time \<Rightarrow> time option" where
  "time_pointer t = (if t = 0 then None else Some t)"

definition kyc_view_of :: "kyc_record \<Rightarrow> time \<Rightarrow> kyc_status_view" where
  "kyc_view_of r now =
     \<lparr>ks_provider = kyc_provider, ks_status = (if status_expired r now then KSExpired else kr_status r),
      ks_provider_status = kr_provider_status r, ks_inquiry = kr_provider_id r,
      ks_created = time_pointer (kr_created r), ks_updated = time_pointer (kr_updated r),
      ks_expires = kr_expires r, ks_approved = kr_approved r\<rparr>"

definition kyc_status_of :: "string \<Rightarrow> kyc_status_view repo" where
  "kyc_status_of user_id0 =
     (let user_id = trim_space user_id0 in
      act_bind (act_guard (user_id \<noteq> []) (ErrKYC KycInvalidRequest)) (\<lambda>_.
      act_bind (find_current user_id) (\<lambda>found. case found of
        None \<Rightarrow> act_ret \<lparr>ks_provider = kyc_provider, ks_status = KSNotStarted, ks_provider_status = [],
          ks_inquiry = [], ks_created = None, ks_updated = None, ks_expires = None, ks_approved = None\<rparr>
      | Some r \<Rightarrow> act_bind now_utc (\<lambda>now. act_ret (kyc_view_of r now)))))"

definition is_approved :: "string \<Rightarrow> bool repo" where
  "is_approved user_id = act_bind (kyc_status_of user_id) (\<lambda>v. act_ret (ks_status v = KSApproved))"

definition normalize_persona_value :: "string \<Rightarrow> string" where
  "normalize_persona_value v = List.map (\<lambda>c. if c = CHR ''-'' then CHR ''_'' else c) (to_lower (trim_space v))"

definition map_persona_transition :: "string \<Rightarrow> kyc_status option" where
  "map_persona_transition v =
     (let s = normalize_persona_value v in
      if s = ''created'' then Some KSCreated
      else if s = ''pending'' \<or> s = ''started'' then Some KSPending
      else if s = ''completed'' then Some KSCompleted
      else if s = ''marked_for_review'' \<or> s = ''review'' then Some KSPendingReview
      else if s = ''approved'' then Some KSApproved
      else if s = ''declined'' then Some KSDeclined
      else if s = ''failed'' then Some KSFailed
      else if s = ''expired'' then Some KSExpired
      else None)"

definition map_persona_status :: "string \<Rightarrow> kyc_status" where
  "map_persona_status v = (case map_persona_transition v of None \<Rightarrow> KSCreated | Some s \<Rightarrow> s)"

definition map_persona_event :: "persona_event \<Rightarrow> kyc_status option" where
  "map_persona_event e =
     (let s = normalize_persona_value (pe_type e) in
      if s = ''inquiry.created'' then Some KSCreated
      else if s = ''inquiry.started'' then Some KSPending
      else if s = ''inquiry.completed'' then Some KSCompleted
      else if s = ''inquiry.marked_for_review'' then Some KSPendingReview
      else if s = ''inquiry.approved'' then Some KSApproved
      else if s = ''inquiry.declined'' then Some KSDeclined
      else if s = ''inquiry.failed'' then Some KSFailed
      else if s = ''inquiry.expired'' then Some KSExpired
      else if s = ''inquiry.transitioned'' then map_persona_transition (pe_status e)
      else None)"

section \<open>Use cases\<close>

definition kyc_config_error :: "kyc_deps \<Rightarrow> err option" where
  "kyc_config_error deps =
     (if trim_space (kp_environment deps) = [] \<or> trim_space (kp_base_url deps) = []
      then Some (ErrText ''valid kyc dependencies and configuration are required'') else None)"

definition build_hosted_flow_url :: "kyc_deps \<Rightarrow> string \<Rightarrow> string" where
  "build_hosted_flow_url deps inquiry0 =
     (let base = trim_space (kp_base_url deps); inquiry = trim_space inquiry0 in
      if base = [] \<or> inquiry = [] then []
      else case kp_flow_url deps base inquiry of None \<Rightarrow> [] | Some u \<Rightarrow> u)"

definition kyc_inquiry_view_of :: "kyc_deps \<Rightarrow> kyc_record \<Rightarrow> string \<Rightarrow> kyc_inquiry_view" where
  "kyc_inquiry_view_of deps r session =
     \<lparr>kv_status = kr_status r, kv_provider_status = kr_provider_status r, kv_inquiry = kr_provider_id r,
      kv_url = build_hosted_flow_url deps (kr_provider_id r), kv_environment = kp_environment deps,
      kv_session = session, kv_expires = kr_expires r\<rparr>"

definition is_retryable_kyc_error :: "kyc_deps \<Rightarrow> err \<Rightarrow> bool" where
  "is_retryable_kyc_error deps e = (case kp_classified deps e of None \<Rightarrow> True | Some b \<Rightarrow> b)"

definition provider_failed :: "kyc_deps \<Rightarrow> string \<Rightarrow> err \<Rightarrow> time \<Rightarrow> 'a repo" where
  "provider_failed deps internal_id e now =
     (if is_retryable_kyc_error deps e then act_fail (KYCProviderUnavailableError e)
      else act_bind (act_try (kyc_mark_failed internal_id now)) (\<lambda>r. case r of
        Inl m \<Rightarrow> act_fail (KYCProviderUnavailableError (ErrJoined e m))
      | Inr _ \<Rightarrow> act_fail (KYCProviderUnavailableError e)))"

definition start_inquiry :: "kyc_deps \<Rightarrow> string \<Rightarrow> kyc_inquiry_view repo" where
  "start_inquiry deps user_id0 =
     (let user_id = trim_space user_id0 in
      act_bind (act_guard (user_id \<noteq> []) (ErrKYC KycInvalidRequest)) (\<lambda>_.
      act_bind now_utc (\<lambda>now.
      act_bind new_id (\<lambda>internal_id.
      act_bind (kyc_reserve user_id internal_id (''kyc_'' @ internal_id) now) (\<lambda>(r, _).
      if ks_status (kyc_view_of r now) = KSApproved then act_ret (kyc_inquiry_view_of deps r [])
      else if trim_space (kr_provider_id r) = [] then
        (case kp_create deps user_id (kr_request r) of
           Inl e \<Rightarrow> provider_failed deps (kr_id r) e now
         | Inr q \<Rightarrow>
             act_bind (act_guard (trim_space (pi_id q) \<noteq> [])
               (KYCProviderUnavailableError (ErrText ''persona returned an empty inquiry id''))) (\<lambda>_.
             act_bind (attach_provider_inquiry (kr_id r) (pi_id q) (pi_status q) (pi_expires q) now) (\<lambda>_.
             act_ret (kyc_inquiry_view_of deps
               (r\<lparr>kr_provider_id := pi_id q, kr_provider_status := pi_status q, kr_expires := pi_expires q,
                  kr_status := map_persona_status (pi_status q)\<rparr>) []))))
      else (case kp_resume deps (kr_provider_id r) of
          Inl e \<Rightarrow> act_fail (KYCProviderUnavailableError e)
        | Inr session \<Rightarrow> act_ret (kyc_inquiry_view_of deps r session)))))))"

definition process_persona_webhook :: "kyc_deps \<Rightarrow> string \<Rightarrow> string \<Rightarrow> time \<Rightarrow> unit repo" where
  "process_persona_webhook deps body signature received0 =
     act_bind (act_guard (\<not> (body = [] \<or> trim_space signature = [])) (ErrKYC KycInvalidWebhook)) (\<lambda>_.
     act_bind (if received0 = 0 then now_utc else act_ret received0) (\<lambda>received.
     case kp_verify deps body signature received of
       Inl _ \<Rightarrow> act_fail (ErrKYC KycInvalidWebhook)
     | Inr e \<Rightarrow>
         act_bind (act_guard (\<not> (trim_space (pe_id e) = [] \<or> trim_space (pe_inquiry e) = [] \<or> pe_created e = 0))
           (ErrKYC KycInvalidWebhook)) (\<lambda>_.
         case map_persona_event e of
           None \<Rightarrow> act_ret ()
         | Some status \<Rightarrow>
             act_bind (find_by_provider_inquiry kyc_provider (pe_inquiry e)) (\<lambda>found. case found of
               None \<Rightarrow> act_fail (ErrKYC KycInquiryNotFound)
             | Some r \<Rightarrow>
                 act_bind new_id (\<lambda>event_id.
                 let provider_status = (if trim_space (pe_status e) = []
                       then trim_prefix ''inquiry.'' (to_lower (pe_type e)) else trim_space (pe_status e)) in
                 record_provider_event
                   \<lparr>ke_id = event_id, ke_provider = kyc_provider, ke_event = pe_id e, ke_inquiry = kr_id r,
                    ke_type = pe_type e, ke_at = pe_created e,
                    ke_hash = hex_encode (kp_sha256 deps (str_bytes body)), ke_received = received\<rparr>
                   status provider_status received)))))"

end
