(* ===== verification/Api_Keys.thy ===== *)
theory Api_Keys
  imports Kyc
begin

text \<open>
  API keys: \<open>internal/usecase/apikey_usecase.go\<close> over \<open>internal/repository/apikey_repository.go\<close>. A
  key is shown once, as \<open>pk_test_<public id>_<secret>\<close>; the table stores the public id and the keyed
  hash of the secret. HMAC-SHA256 is the parameter \<open>kd_hmac\<close>; the reader of the identity
  verification is \<open>is_approved\<close>. \<open>Key\<close> of the use case has the fields of the row, \<open>api_key\<close>.
\<close>

record api_principal =
  ap_client :: string
  ap_owner :: string

record created_key =
  ck_id :: string
  ck_client :: string
  ck_prefix :: string
  ck_plaintext :: string
  ck_created :: time

record key_metadata =
  km_id :: string
  km_client :: string
  km_name :: string
  km_environment :: string
  km_client_status :: string
  km_prefix :: string
  km_created :: time
  km_last_used :: "time option"
  km_revoked :: "time option"

record api_key_deps =
  kd_pepper :: "byte list"
  kd_hmac :: "byte list \<Rightarrow> byte list \<Rightarrow> byte list"

section \<open>Repository\<close>

definition developer_mode_enabled :: "string \<Rightarrow> bool repo" where
  "developer_mode_enabled user_id =
     act_bind (find_user (\<lambda>u. us_id u = user_id \<and> us_status u = active_user_status)) (\<lambda>u.
     act_ret (us_developer u \<noteq> None))"

definition create_for_owner :: "string \<Rightarrow> string \<Rightarrow> string \<Rightarrow> api_key \<Rightarrow> string repo" where
  "create_for_owner owner suggested name key = tx_do (
     act_bind (find_user (\<lambda>u. us_id u = owner \<and> us_status u = active_user_status \<and> us_developer u \<noteq> None)) (\<lambda>_.
     act_bind (optional_row (first_row api_clients ac_id (\<lambda>c. ac_owner c = owner \<and> ac_environment c = ''test''))) (\<lambda>found.
     act_bind (case found of
         Some c \<Rightarrow> act_ret c
       | None \<Rightarrow>
           let c = \<lparr>ac_id = suggested, ac_owner = owner, ac_name = name, ac_environment = ''test'',
             ac_status = ''active'', ac_created = ak_created key, ac_updated = ak_created key\<rparr> in
           act_bind (insert_api_client c) (\<lambda>_. act_ret c)) (\<lambda>client.
     act_bind (act_guard (ac_status client = ''active'') (ErrAuth InvalidKey)) (\<lambda>_.
     act_bind (insert_api_key \<lparr>ak_id = ak_id key, ak_client = ac_id client, ak_public = ak_public key,
       ak_prefix = ak_prefix key, ak_secret = ak_secret key, ak_created = ak_created key,
       ak_last_used = None, ak_revoked = None\<rparr>) (\<lambda>_.
     act_ret (ac_id client)))))))"

text \<open>The rows of \<open>api_keys JOIN api_clients\<close>.\<close>

definition key_rows :: "db \<Rightarrow> (api_key \<times> api_client) list" where
  "key_rows d = [(k, c). k \<leftarrow> api_keys (accts d), c \<leftarrow> api_clients d, ac_id c = ak_client k]"

definition find_active_by_public_id :: "string \<Rightarrow> (api_key \<times> api_principal) repo" where
  "find_active_by_public_id public_id =
     act_bind (or_missing (ErrAuth InvalidKey) (select_first (\<lambda>d.
       List.find (\<lambda>(k, c). ak_public k = public_id \<and> ak_revoked k = None \<and> ac_status c = ''active'') (key_rows d))))
       (\<lambda>(k, c). act_ret (k, \<lparr>ap_client = ak_client k, ap_owner = ac_owner c\<rparr>))"

definition touch_last_used :: "string \<Rightarrow> time \<Rightarrow> unit repo" where
  "touch_last_used key_id now =
     act_bind (update_api_keys (\<lambda>k. ak_id k = key_id \<and> ak_revoked k = None) (\<lambda>k. k\<lparr>ak_last_used := Some now\<rparr>)) (\<lambda>n.
     act_guard (n \<noteq> 0) (ErrAuth InvalidKey))"

definition list_for_owner :: "string \<Rightarrow> key_metadata list repo" where
  "list_for_owner owner =
     act_bind (select (\<lambda>d. sort_key (\<lambda>(k, c). - ak_created k) (filter (\<lambda>(k, c). ac_owner c = owner) (key_rows d)))) (\<lambda>rows.
     act_ret (List.map (\<lambda>(k, c). \<lparr>km_id = ak_id k, km_client = ak_client k, km_name = ac_name c,
       km_environment = ac_environment c, km_client_status = ac_status c, km_prefix = ak_prefix k,
       km_created = ak_created k, km_last_used = ak_last_used k, km_revoked = ak_revoked k\<rparr>) rows))"

text \<open>The owner is looked up by a subquery of the update.\<close>

definition revocable :: "string \<Rightarrow> string \<Rightarrow> db \<Rightarrow> api_key \<Rightarrow> bool" where
  "revocable owner key_id d k \<longleftrightarrow> ak_id k = key_id \<and> ak_revoked k = None \<and>
     list_ex (\<lambda>c. ac_id c = ak_client k \<and> ac_owner c = owner) (api_clients d)"

definition revoke_for_owner :: "string \<Rightarrow> string \<Rightarrow> time \<Rightarrow> unit repo" where
  "revoke_for_owner owner key_id now =
     act_bind (sql (\<lambda>d. (Inr (count_rows (revocable owner key_id d) (api_keys (accts d))),
       put_acc api_keys_update (update_rows (revocable owner key_id d) (\<lambda>k. k\<lparr>ak_revoked := Some now\<rparr>)
         (api_keys (accts d))) d))) (\<lambda>n.
     act_guard (n \<noteq> 0) (ErrAuth InvalidKey))"

section \<open>Use case\<close>

definition test_key_prefix :: string where "test_key_prefix = ''pk_test_''"

definition hash_secret :: "api_key_deps \<Rightarrow> string \<Rightarrow> byte list" where
  "hash_secret deps secret = kd_hmac deps (kd_pepper deps) (str_bytes secret)"

definition parse_key :: "string \<Rightarrow> (string \<times> string) option" where
  "parse_key raw =
     (let s = trim_space raw in
      if \<not> has_prefix test_key_prefix s then None
      else case str_cut (CHR ''_'') (drop (length test_key_prefix) s) of (public_id, secret, ok) \<Rightarrow>
        if \<not> ok \<or> length public_id \<noteq> 24 \<or> secret = [] then None
        else if hex_decode public_id = None then None
        else Some (public_id, secret))"

definition api_key_config_error :: "api_key_deps \<Rightarrow> err option" where
  "api_key_config_error deps =
     (if length (kd_pepper deps) < 32 then Some (ErrText ''valid api key configuration is required'') else None)"

definition owner_developer_mode :: "string \<Rightarrow> bool repo" where
  "owner_developer_mode owner =
     act_bind (act_guard (trim_space owner \<noteq> []) (ErrAuth DeveloperModeRequired)) (\<lambda>_.
     developer_mode_enabled (trim_space owner))"

definition require_developer_mode :: "string \<Rightarrow> unit repo" where
  "require_developer_mode owner =
     act_bind (act_guard (trim_space owner \<noteq> []) (ErrAuth DeveloperModeRequired)) (\<lambda>_.
     act_bind (developer_mode_enabled owner) (\<lambda>enabled.
     act_guard enabled (ErrAuth DeveloperModeRequired)))"

definition list_api_keys :: "string \<Rightarrow> key_metadata list repo" where
  "list_api_keys owner = act_bind (require_developer_mode owner) (\<lambda>_. list_for_owner owner)"

definition revoke_api_key :: "string \<Rightarrow> string \<Rightarrow> unit repo" where
  "revoke_api_key owner key_id =
     act_bind (act_guard (trim_space key_id \<noteq> []) (ErrAuth InvalidKey)) (\<lambda>_.
     act_bind (require_developer_mode owner) (\<lambda>_.
     act_bind now_utc (\<lambda>now.
     revoke_for_owner owner key_id now)))"

definition key_text :: "string \<Rightarrow> string \<Rightarrow> string" where
  "key_text public_id secret = test_key_prefix @ public_id @ ''_'' @ secret"

definition create_api_key :: "api_key_deps \<Rightarrow> string \<Rightarrow> string \<Rightarrow> created_key repo" where
  "create_api_key deps owner0 name0 =
     (let owner = trim_space owner0; name = trim_space name0 in
      act_bind (act_guard (\<not> (owner = [] \<or> name = [] \<or> 100 < length name)) (ErrAuth InvalidKeyName)) (\<lambda>_.
      act_bind (developer_mode_enabled owner) (\<lambda>enabled.
      act_bind (act_guard enabled (ErrAuth DeveloperModeRequired)) (\<lambda>_.
      act_bind (is_approved owner) (\<lambda>approved.
      act_bind (act_guard approved ErrKYCRequired) (\<lambda>_.
      act_bind new_id (\<lambda>suggested.
      act_bind new_id (\<lambda>key_id.
      act_bind (random_bytes 12) (\<lambda>public_bytes.
      act_bind (random_string 32) (\<lambda>secret.
      let public_id = hex_encode public_bytes;
          prefix = test_key_prefix @ public_id @ ''_...'' @ drop (length secret - 4) secret in
      act_bind now_utc (\<lambda>now.
      act_bind (create_for_owner owner suggested name
        \<lparr>ak_id = key_id, ak_client = suggested, ak_public = public_id, ak_prefix = prefix,
         ak_secret = hash_secret deps secret, ak_created = now, ak_last_used = None, ak_revoked = None\<rparr>) (\<lambda>client.
      act_ret \<lparr>ck_id = key_id, ck_client = client, ck_prefix = prefix,
        ck_plaintext = key_text public_id secret, ck_created = now\<rparr>))))))))))))"

definition authenticate_key :: "api_key_deps \<Rightarrow> string \<Rightarrow> api_principal repo" where
  "authenticate_key deps raw = (case parse_key raw of
     None \<Rightarrow> act_fail (ErrAuth InvalidKey)
   | Some (public_id, secret) \<Rightarrow>
       act_bind (act_try (find_active_by_public_id public_id)) (\<lambda>r. case r of
         Inl _ \<Rightarrow> act_fail (ErrAuth InvalidKey)
       | Inr (key, who) \<Rightarrow>
           act_bind (act_guard (ak_secret key = hash_secret deps secret) (ErrAuth InvalidKey)) (\<lambda>_.
           act_bind now_utc (\<lambda>now.
           act_bind (touch_last_used (ak_id key) now) (\<lambda>_.
           act_ret who)))))"

end
