(* ===== verification/Kyc_Laws.thy ===== *)
theory Kyc_Laws
  imports Kyc Mail_Address
begin

text \<open>
  What the tables of the identity verification promise: unique rows, and one open inquiry of a user
  (\<open>kyc_ok\<close>), kept by every call; and what one webhook does to them.
\<close>

definition kyc_ok :: "db \<Rightarrow> bool" where
  "kyc_ok d \<longleftrightarrow> distinct (List.map ky_id (kyc_inquiries (accts d))) \<and>
     kyc_conflict (kyc_inquiries (accts d)) = None \<and>
     distinct (List.map (\<lambda>e. (ke_provider e, ke_event e)) (kyc_events (accts d)))"

definition open_user :: "kyc_inquiry \<Rightarrow> string option" where
  "open_user r = (if kyc_open (ky_status r) then Some (ky_user r) else None)"

lemma kyc_conflict_None: "kyc_conflict rows = None \<longleftrightarrow>
    check_unique ky_provider_id rows = None \<and> check_unique open_user rows = None"
  unfolding kyc_conflict_def open_user_def [abs_def] by (auto split: option.splits)

lemma open_inquiry_unique:
  assumes "kyc_ok d" "r \<in> set (kyc_inquiries (accts d))" "q \<in> set (kyc_inquiries (accts d))"
    and "ky_user r = ky_user q" "kyc_open (ky_status r)" "kyc_open (ky_status q)"
  shows "r = q"
  by (rule check_unique_inj [where k = open_user])
     (use assms in \<open>simp_all add: kyc_ok_def kyc_conflict_None open_user_def\<close>)

lemma inquiry_by_id: "kyc_ok d \<Longrightarrow> r \<in> set (kyc_inquiries (accts d)) \<Longrightarrow> q \<in> set (kyc_inquiries (accts d)) \<Longrightarrow>
    ky_id r = ky_id q \<Longrightarrow> r = q"
  by (auto simp: kyc_ok_def distinct_map inj_on_def)

section \<open>The calls keep the tables\<close>

lemma steady_insert_inquiry [steady_intro]: "steady kyc_ok (insert_kyc_inquiry r)"
proof (rule steadyI, rule outcome_insert_kyc_inquiry)
  fix d assume d: "kyc_ok d" and c: "\<not> list_ex (kyc_clash r) (kyc_inquiries (accts d))"
  have "\<not> kyc_clash r q" if "q \<in> set (kyc_inquiries (accts d))" for q
    using c that by (auto simp: list_ex_iff)
  then have "kyc_conflict (kyc_inquiries (accts d) @ [r]) = None"
    using d unfolding kyc_conflict_None
    by (intro conjI check_unique_snoc) (auto simp: kyc_ok_def kyc_conflict_None kyc_clash_def open_user_def same_some_def)
  moreover have "ky_id r \<noteq> ky_id q" if "q \<in> set (kyc_inquiries (accts d))" for q
    using c that by (auto simp: list_ex_iff kyc_clash_def)
  ultimately show "kyc_ok (put_acc kyc_inquiries_update (kyc_inquiries (accts d) @ [r]) d)"
    using d by (auto simp: kyc_ok_def)
qed simp_all

lemma steady_insert_kyc_event [steady_intro]: "steady kyc_ok (insert_kyc_event e)"
  by (rule steadyI, rule outcome_insert_kyc_event) (auto simp: kyc_ok_def list_ex_iff)

lemma steady_update_inquiries: "(\<And>r. ky_id (f r) = ky_id r) \<Longrightarrow> steady kyc_ok (update_kyc_inquiries P f)"
  unfolding update_kyc_inquiries_def
  by (rule steady_update) (simp add: kyc_ok_def map_update_rows)

lemma steady_newest_inquiry [steady_intro]: "steady I (newest_inquiry P)"
  unfolding newest_inquiry_def by (intro steady_intro)

lemma steady_find_provider_event [steady_intro]: "steady I (find_provider_event p i)"
  unfolding find_provider_event_def by (intro steady_intro)

lemma steady_same_delivery [steady_intro]: "steady I (same_delivery e q)"
  unfolding same_delivery_def by (intro steady_intro)

lemma steady_find_inquiry [steady_intro]: "steady I (find_current u)" "steady I (find_by_provider_inquiry p i)"
  unfolding find_current_def find_by_provider_inquiry_def by (intro steady_intro)+

lemma steady_reservation_row [steady_intro]: "steady kyc_ok (insert_reservation_row u r)"
  unfolding insert_reservation_row_def by (intro steady_intro)

lemma steady_reserve [steady_intro]: "steady kyc_ok (kyc_reserve u i k now)"
  unfolding kyc_reserve_def Let_def by (intro steady_intro steady_update_inquiries) simp

lemma steady_attach [steady_intro]: "steady kyc_ok (attach_provider_inquiry i p s x now)"
  unfolding attach_provider_inquiry_def Let_def by (intro steady_intro steady_update_inquiries) simp

lemma steady_mark_failed [steady_intro]: "steady kyc_ok (kyc_mark_failed i now)"
  unfolding kyc_mark_failed_def Let_def by (intro steady_intro steady_update_inquiries) simp

lemma steady_record_event [steady_intro]: "steady kyc_ok (record_provider_event e s p now)"
  unfolding record_provider_event_def Let_def
  by (intro steady_intro steady_update_inquiries) (simp add: apply_provider_event_def)

lemma steady_start_inquiry [steady_intro]: "steady kyc_ok (start_inquiry deps u)"
  unfolding start_inquiry_def Let_def provider_failed_def by (intro steady_intro)

lemma steady_webhook [steady_intro]: "steady kyc_ok (process_persona_webhook deps b s t)"
  unfolding process_persona_webhook_def by (intro steady_intro)

lemma steady_kyc_status [steady_intro]: "steady I (kyc_status_of u)" "steady I (is_approved u)"
  unfolding is_approved_def kyc_status_of_def Let_def by (intro steady_intro)+

datatype kyc_call = KycStart string | KycStatus string | KycWebhook string string time

fun run_kyc :: "kyc_deps \<Rightarrow> kyc_call \<Rightarrow> unit repo" where
  "run_kyc deps (KycStart u) = act_bind (start_inquiry deps u) (\<lambda>_. act_ret ())"
| "run_kyc deps (KycStatus u) = act_bind (kyc_status_of u) (\<lambda>_. act_ret ())"
| "run_kyc deps (KycWebhook body signature received) = process_persona_webhook deps body signature received"

lemma steady_run_kyc: "steady kyc_ok (run_kyc deps c)"
  by (cases c) (auto intro!: steady_intro)

interpretation kyc_system: invariant_system "run_kyc deps" kyc_ok for deps
  by (rule steady_invariant_system) (rule steady_run_kyc)

section \<open>One webhook\<close>

text \<open>The event row that a notice of the provider leaves, as far as its order matters.\<close>

definition event_row :: "persona_event \<Rightarrow> kyc_event \<Rightarrow> bool" where
  "event_row e q \<longleftrightarrow> ke_provider q = kyc_provider \<and> ke_event q = trim_space (pe_id e) \<and> ke_at q = pe_created e"

lemma trim_trim [simp]: "trim_space (trim_space s) = trim_space s"
  by (rule trim_space_untrimmed) (rule untrimmed_trim_space)

lemma trim_provider: "trim_space kyc_provider = kyc_provider"
  by code_simp

text \<open>The part of \<open>RecordProviderEvent\<close> after the inquiry is found.\<close>

definition filed :: "kyc_event \<Rightarrow> kyc_status \<Rightarrow> string \<Rightarrow> time \<Rightarrow> kyc_inquiry \<Rightarrow> db \<Rightarrow> db \<Rightarrow> bool" where
  "filed e s p now r d d' \<longleftrightarrow>
     ((\<exists>q \<in> set (kyc_events (accts d)). ke_provider q = ke_provider e \<and> ke_event q = ke_event e) \<and> d' = d) \<or>
     kyc_events (accts d') = kyc_events (accts d) @ [e] \<and>
     kyc_inquiries (accts d') =
       (if is_provider_event_newer (ky_event_at r) (ky_event_id r) (ke_at e) (ke_event e)
        then update_rows (\<lambda>x. ky_id x = ky_id r) (apply_provider_event e s p now) (kyc_inquiries (accts d))
        else kyc_inquiries (accts d))"

lemma find_provider_event_outcome:
  assumes "\<And>q. q \<in> set (kyc_events (accts d)) \<Longrightarrow> ke_provider q = p \<Longrightarrow> ke_event q = i \<Longrightarrow> Q (Some q) d"
    and "Q None d" and "\<And>e. E e d"
  shows "outcome (find_provider_event p i) Q E d t"
  unfolding find_provider_event_def
  by (rule outcome_optional) (use assms in \<open>auto dest: first_by_Some\<close>)

lemma same_delivery_outcome:
  "q \<in> set (kyc_events (accts d)) \<Longrightarrow> ke_provider q = ke_provider e \<Longrightarrow> ke_event q = ke_event e \<Longrightarrow>
   outcome (same_delivery e q) (\<lambda>_. filed e s p now r d) (\<lambda>_ _. True) d t"
  unfolding same_delivery_def by (rule outcome_guard) (auto simp: filed_def)

lemma apply_event_outcome:
  assumes "d1 = put_acc kyc_events_update (kyc_events (accts d) @ [e]) d"
    and "is_provider_event_newer (ky_event_at r) (ky_event_id r) (ke_at e) (ke_event e)"
  shows "outcome (act_bind (update_kyc_inquiries (\<lambda>x. ky_id x = ky_id r) (apply_provider_event e s p now)) (\<lambda>_. act_ret ()))
    (\<lambda>_. filed e s p now r d) (\<lambda>_ _. True) d1 t"
  unfolding update_kyc_inquiries_def assms(1)
  by (rule outcome_bind, rule outcome_update) (auto intro!: outcome_ret simp: filed_def assms(2))

lemma filing_outcome:
  "outcome (act_bind (insert_kyc_event e) (\<lambda>n.
      if n = 0 then
        act_bind (find_provider_event (ke_provider e) (ke_event e)) (\<lambda>concurrent. case concurrent of
          None \<Rightarrow> act_fail (ErrText ''kyc provider event conflicts with an existing record'')
        | Some q \<Rightarrow> same_delivery e q)
      else if \<not> is_provider_event_newer (ky_event_at r) (ky_event_id r) (ke_at e) (ke_event e) then act_ret ()
      else act_bind (update_kyc_inquiries (\<lambda>x. ky_id x = ky_id r) (apply_provider_event e s p now)) (\<lambda>_. act_ret ())))
    (\<lambda>_. filed e s p now r d) (\<lambda>_ _. True) d t"
proof (rule outcome_bind, rule outcome_insert_kyc_event, goal_cases)
  case 1
  show ?case
    by (simp, rule outcome_bind, rule find_provider_event_outcome)
       (auto intro: same_delivery_outcome outcome_fail)
next
  case 2
  show ?case
  proof (cases "is_provider_event_newer (ky_event_at r) (ky_event_id r) (ke_at e) (ke_event e)")
    case True
    then show ?thesis using apply_event_outcome [OF refl True, of s p now d t] by simp
  next
    case False
    then show ?thesis by (auto intro!: outcome_ret simp: filed_def)
  qed
qed simp

lemma record_outcome:
  "outcome (record_provider_event e s p now)
    (\<lambda>_ d'. \<exists>r \<in> set (kyc_inquiries (accts d)). ky_id r = ke_inquiry e \<and> filed (trimmed_event e) s p now r d d')
    (\<lambda>_ d'. d' = d) d t"
  unfolding record_provider_event_def Let_def
proof (rule outcome_bind, rule outcome_guard, rule outcome_tx, rule outcome_bind, rule outcome_or_missing, goal_cases)
  case (1 r)
  then have r: "r \<in> set (kyc_inquiries (accts d))" "ky_id r = ke_inquiry e"
    by (auto dest!: first_by_Some simp: trimmed_event_def)
  have w: "outcome m (\<lambda>_. filed (trimmed_event e) s p now r d) (\<lambda>_ _. True) d t \<Longrightarrow>
      outcome m (\<lambda>_ d'. \<exists>r \<in> set (kyc_inquiries (accts d)). ky_id r = ke_inquiry e \<and>
        filed (trimmed_event e) s p now r d d') (\<lambda>_ _. True) d t" for m :: "unit repo"
    by (erule outcome_weaken) (use r in auto)
  show ?case
  proof (rule outcome_bind, rule find_provider_event_outcome, goal_cases)
    case (1 q)
    show ?case by (simp only: option.case, rule w, rule same_delivery_outcome) (use 1 in simp_all)
  next
    case 2
    show ?case by (simp only: option.case, rule w, rule filing_outcome)
  qed simp
qed simp_all

definition noted :: "persona_event \<Rightarrow> db \<Rightarrow> db \<Rightarrow> bool" where
  "noted e d d' \<longleftrightarrow> (case map_persona_event e of None \<Rightarrow> d' = d
     | Some s \<Rightarrow> trim_space (pe_id e) \<noteq> [] \<and>
         (\<exists>r \<in> set (kyc_inquiries (accts d)). ky_provider_id r = Some (trim_space (pe_inquiry e)) \<and>
           (\<exists>q p now. event_row e q \<and> filed q s p now r d d')))"

lemma webhook_outcome:
  assumes ok: "kyc_ok d" and v: "kp_verify deps body signature received = Inr e" "received \<noteq> 0"
  shows "outcome (process_persona_webhook deps body signature received) (\<lambda>_. noted e d) (\<lambda>_ d'. d' = d) d t"
proof -
  have f: "outcome (find_by_provider_inquiry kyc_provider i) 
      (\<lambda>x d'. d' = d \<and> (\<forall>k. x = Some k \<longrightarrow> (\<exists>r \<in> set (kyc_inquiries (accts d)). kr_id k = ky_id r \<and>
         ky_provider_id r = Some (trim_space i)))) (\<lambda>_ d'. d' = d) d t" for i
    unfolding find_by_provider_inquiry_def
    by (rule outcome_bind, rule outcome_optional) (auto dest!: first_by_Some intro!: outcome_ret simp: kyc_record_of_def)
  show ?thesis
  proof (cases "map_persona_event e")
    case None
    then show ?thesis
      unfolding process_persona_webhook_def using v
      by (auto intro!: outcome_bind [of "act_guard b x" for b x] outcome_guard outcome_bind [of "act_ret x" for x]
          outcome_ret simp: noted_def)
  next
    case (Some s)
    have n: "noted e d d'" if "trim_space (pe_id e) \<noteq> []" "r \<in> set (kyc_inquiries (accts d))"
      "ky_provider_id r = Some (trim_space (pe_inquiry e))" "filed (trimmed_event q) s p now r' d d'"
      "ke_provider q = kyc_provider" "ke_event q = pe_id e" "ke_at q = pe_created e"
      "ky_id r' = ky_id r" "r' \<in> set (kyc_inquiries (accts d))" for r r' q p now d'
    proof -
      have "r' = r" by (rule inquiry_by_id [OF ok that(9,2,8)])
      moreover have "event_row e (trimmed_event q)" using that(5-7) by (simp add: event_row_def trimmed_event_def trim_provider)
      ultimately show ?thesis
        unfolding noted_def Some option.case using that(1-4) by blast
    qed
    show ?thesis
      unfolding process_persona_webhook_def if_not_P [OF v(2)]
    proof (rule outcome_bind, rule outcome_guard, rule outcome_bind, rule outcome_ret,
        simp only: v(1) sum.case, rule outcome_bind, rule outcome_guard, simp only: Some option.case,
        rule outcome_bind, rule outcome_weaken [OF f], goal_cases)
      case (1 x d1)
      show ?case
      proof (cases x)
        case None
        with 1 show ?thesis by (simp add: outcome_fail)
      next
        case (Some k)
        with 1 obtain r where r: "r \<in> set (kyc_inquiries (accts d))" "kr_id k = ky_id r"
          "ky_provider_id r = Some (trim_space (pe_inquiry e))" and d1: "d1 = d" by auto
        show ?thesis
          unfolding d1 Some option.case Let_def
          by (rule outcome_bind, rule outcome_new_id, rule outcome_weaken [OF record_outcome])
             (use 1 r in \<open>auto intro: n [OF _ r(1,3)]\<close>)
      qed
    qed simp_all
  qed
qed

end
