(* ===== verification/Kyc_Properties.thy ===== *)
theory Kyc_Properties
  imports Kyc_Laws Progress
begin

text \<open>
  The properties of the identity verification: one open inquiry of a user, the newest notice of the
  provider decides, and one idempotency key for the requests of an inquiry.
\<close>

section \<open>Notices in any order\<close>

text \<open>Accepted webhooks, each in its own world, whose verification yields the events of the list.\<close>

fun notified :: "kyc_deps \<Rightarrow> persona_event list \<Rightarrow> db \<Rightarrow> db \<Rightarrow> bool" where
  "notified deps [] d d' \<longleftrightarrow> d' = d"
| "notified deps (e # es) d d' \<longleftrightarrow>
     (\<exists>body signature received w w1. w_db w = d \<and> received \<noteq> 0 \<and> kp_verify deps body signature received = Inr e \<and>
        process_persona_webhook deps body signature received w = (Inr (), w1) \<and> notified deps es (w_db w1) d')"

definition newer_event :: "persona_event \<Rightarrow> persona_event \<Rightarrow> bool" where
  "newer_event e f \<longleftrightarrow> pe_created f < pe_created e \<or>
     pe_created f = pe_created e \<and> trim_space (pe_id f) < trim_space (pe_id e)"

lemma newer_event_trans: "newer_event e f \<Longrightarrow> newer_event f g \<Longrightarrow> newer_event e g"
  by (auto simp: newer_event_def)

lemma newer_event_asym: "newer_event e f \<Longrightarrow> \<not> newer_event f e"
  by (auto simp: newer_event_def)

lemma newer_event_total: "newer_event e f \<or> newer_event f e \<or> trim_space (pe_id e) = trim_space (pe_id f)"
  by (auto simp: newer_event_def)

definition shows_event :: "kyc_inquiry \<Rightarrow> persona_event \<Rightarrow> bool" where
  "shows_event r e \<longleftrightarrow> map_persona_event e = Some (ky_status r) \<and> trim_space (pe_id e) \<noteq> [] \<and>
     ky_event_at r = Some (pe_created e) \<and> ky_event_id r = Some (trim_space (pe_id e)) \<and>
     ky_approved r = (if ky_status r = KSApproved then Some (pe_created e) else None)"

lemma newer_than_shown:
  "shows_event r c \<Longrightarrow> is_provider_event_newer (ky_event_at r) (ky_event_id r) (pe_created e) (trim_space (pe_id e))
     \<longleftrightarrow> newer_event e c"
  by (auto simp: shows_event_def is_provider_event_newer_def newer_event_def)

text \<open>The row of the inquiry after the notices \<open>D\<close>.\<close>

definition up_to_date :: "kyc_inquiry \<Rightarrow> persona_event set \<Rightarrow> bool" where
  "up_to_date r D \<longleftrightarrow> (\<forall>e \<in> D. map_persona_event e = None) \<and> ky_event_at r = None \<or>
     (\<exists>c \<in> D. shows_event r c \<and> (\<forall>f \<in> D. map_persona_event f \<noteq> None \<longrightarrow> f = c \<or> newer_event c f))"

definition followed :: "db \<Rightarrow> string \<Rightarrow> string \<Rightarrow> persona_event set \<Rightarrow> db \<Rightarrow> bool" where
  "followed d0 i p D d \<longleftrightarrow> kyc_ok d \<and>
     (\<exists>r \<in> set (kyc_inquiries (accts d)). ky_id r = i \<and> ky_provider_id r = Some p \<and> up_to_date r D) \<and>
     (\<forall>q \<in> set (kyc_events (accts d)). q \<in> set (kyc_events (accts d0)) \<or> (\<exists>e \<in> D. ke_event q = trim_space (pe_id e)))"

definition well_told :: "db \<Rightarrow> string \<Rightarrow> persona_event list \<Rightarrow> bool" where
  "well_told d0 p es \<longleftrightarrow> (\<forall>e \<in> set es. trim_space (pe_inquiry e) = p \<and>
     (\<forall>f \<in> set es. trim_space (pe_id f) = trim_space (pe_id e) \<longrightarrow> f = e) \<and>
     (\<forall>q \<in> set (kyc_events (accts d0)). ke_event q \<noteq> trim_space (pe_id e)))"

lemma provider_inquiry_unique:
  assumes "kyc_ok d" "r \<in> set (kyc_inquiries (accts d))" "q \<in> set (kyc_inquiries (accts d))"
    and "ky_provider_id r = Some p" "ky_provider_id q = Some p"
  shows "r = q"
  by (rule check_unique_inj [where k = ky_provider_id])
     (use assms in \<open>simp_all add: kyc_ok_def kyc_conflict_None\<close>)

text \<open>The row after an event that is on file for the first time.\<close>

lemma up_to_date_step:
  assumes u: "up_to_date r D" and e: "map_persona_event e = Some s" "trim_space (pe_id e) \<noteq> []" "event_row e q"
    and same: "\<And>f. f \<in> D \<Longrightarrow> trim_space (pe_id f) = trim_space (pe_id e) \<Longrightarrow> f = e"
  shows "up_to_date (if is_provider_event_newer (ky_event_at r) (ky_event_id r) (ke_at q) (ke_event q)
     then apply_provider_event q s p now r else r) (insert e D)"
proof -
  have q: "ke_at q = pe_created e" "ke_event q = trim_space (pe_id e)" using e(3) by (simp_all add: event_row_def)
  have new: "shows_event (apply_provider_event q s p now r) e"
    using e(1,2) q by (auto simp: shows_event_def apply_provider_event_def)
  show ?thesis
  proof (cases "ky_event_at r")
    case None
    with u have "\<forall>f \<in> D. map_persona_event f = None" by (auto simp: up_to_date_def shows_event_def)
    with new None show ?thesis by (auto simp: up_to_date_def is_provider_event_newer_def)
  next
    case (Some t)
    with u obtain c where c: "c \<in> D" "shows_event r c"
      "\<forall>f \<in> D. map_persona_event f \<noteq> None \<longrightarrow> f = c \<or> newer_event c f" by (auto simp: up_to_date_def)
    note n = newer_than_shown [OF c(2), of e]
    show ?thesis
    proof (cases "newer_event e c")
      case True
      then have "\<forall>f \<in> D. map_persona_event f \<noteq> None \<longrightarrow> newer_event e f"
        using c(3) newer_event_trans by blast
      with True new show ?thesis unfolding q n by (auto simp: up_to_date_def)
    next
      case False
      then have "e = c \<or> newer_event c e" using newer_event_total [of e c] same [OF c(1)] by metis
      with False c show ?thesis unfolding q n by (auto simp: up_to_date_def)
    qed
  qed
qed

lemma followed_step:
  assumes f: "followed d0 i p D d" and es: "well_told d0 p es" and e: "e \<in> set es" and D: "D \<subseteq> set es"
    and n: "noted e d d'" and ok: "kyc_ok d'"
  shows "followed d0 i p (insert e D) d'"
proof (cases "map_persona_event e")
  case None
  with n have d': "d' = d" by (simp add: noted_def)
  have "up_to_date r (insert e D)" if "up_to_date r D" for r
    using that None unfolding up_to_date_def by (simp add: ball_simps) blast
  with f show ?thesis unfolding d' followed_def by blast
next
  case (Some s)
  from f obtain r where r: "r \<in> set (kyc_inquiries (accts d))" "ky_id r = i" "ky_provider_id r = Some p" "up_to_date r D"
    and files: "\<forall>q \<in> set (kyc_events (accts d)). q \<in> set (kyc_events (accts d0)) \<or> (\<exists>e \<in> D. ke_event q = trim_space (pe_id e))"
    and ok0: "kyc_ok d" by (auto simp: followed_def)
  have p: "trim_space (pe_inquiry e) = p" using es e by (simp add: well_told_def)
  have same: "f = e" if "f \<in> D" "trim_space (pe_id f) = trim_space (pe_id e)" for f
    using es e D that by (auto simp: well_told_def)
  from n Some p obtain r' q ps now where r': "r' \<in> set (kyc_inquiries (accts d))" "ky_provider_id r' = Some p"
    and q: "event_row e q" "filed q s ps now r' d d'" and i: "trim_space (pe_id e) \<noteq> []" by (auto simp: noted_def)
  have "r' = r" by (rule provider_inquiry_unique [OF ok0 r'(1) r(1) r'(2) r(3)])
  with q have q': "filed q s ps now r d d'" by simp
  show ?thesis
  proof (cases "d' = d \<and> (\<exists>x \<in> set (kyc_events (accts d)). ke_event x = ke_event q)")
    case True
    then obtain x where x: "x \<in> set (kyc_events (accts d))" "ke_event x = trim_space (pe_id e)" and d': "d' = d"
      using q(1) by (auto simp: event_row_def)
    then have "x \<notin> set (kyc_events (accts d0))" using es e by (auto simp: well_told_def)
    with files x obtain f where "f \<in> D" "trim_space (pe_id f) = trim_space (pe_id e)" by auto
    with same have "insert e D = D" by auto
    with f d' show ?thesis by simp
  next
    case False
    let ?r = "if is_provider_event_newer (ky_event_at r) (ky_event_id r) (ke_at q) (ke_event q)
      then apply_provider_event q s ps now r else r"
    from False q' have ev: "kyc_events (accts d') = kyc_events (accts d) @ [q]"
      and rows: "kyc_inquiries (accts d') =
        (if is_provider_event_newer (ky_event_at r) (ky_event_id r) (ke_at q) (ke_event q)
         then update_rows (\<lambda>x. ky_id x = ky_id r) (apply_provider_event q s ps now) (kyc_inquiries (accts d))
         else kyc_inquiries (accts d))"
      by (auto simp: filed_def)
    have "?r \<in> set (kyc_inquiries (accts d'))"
      unfolding rows using in_update_rows [OF r(1), of "\<lambda>x. ky_id x = ky_id r" "apply_provider_event q s ps now"] r(1)
      by (simp split: if_splits)
    moreover have "ky_id ?r = i" "ky_provider_id ?r = Some p" using r(2,3) by (simp_all add: apply_provider_event_def)
    moreover have "up_to_date ?r (insert e D)" by (rule up_to_date_step [OF r(4) Some i q(1) same])
    ultimately show ?thesis
      unfolding followed_def ev using ok files q(1) by (auto simp: event_row_def)
  qed
qed

lemma notified_followed:
  assumes "notified deps es d d'" and "followed d0 i p D d" and "well_told d0 p all" and "set es \<union> D \<subseteq> set all"
  shows "followed d0 i p (set es \<union> D) d'"
  using assms
proof (induction es arbitrary: d D)
  case (Cons e es)
  then obtain body signature received w w1 where w: "w_db w = d" "received \<noteq> 0"
    "kp_verify deps body signature received = Inr e"
    "process_persona_webhook deps body signature received w = (Inr (), w1)" and rest: "notified deps es (w_db w1) d'" by auto
  have ok: "kyc_ok (w_db w)" using Cons.prems(2) w(1) by (simp add: followed_def)
  from outcome_Inr [OF webhook_outcome [OF ok w(3,2)] w(4)] w(1) have n: "noted e d (w_db w1)" by simp
  have "kyc_ok (w_db w1)" by (rule steady_run [OF steady_webhook ok w(4)])
  from followed_step [OF Cons.prems(2,3) _ _ n this] Cons.prems(4) have "followed d0 i p (insert e D) (w_db w1)" by auto
  from Cons.IH [OF rest this Cons.prems(3)] Cons.prems(4) show ?case by simp
qed simp

text \<open>C29: whatever the order in which the provider's webhooks about an inquiry arrive, and however often each
  is repeated, once they are accepted the inquiry has the status of the newest notice (by the provider's
  time, then by identifier) and an approval time exactly when that notice approves.\<close>

theorem newest_event_wins:
  assumes "kyc_ok d" and "r \<in> set (kyc_inquiries (accts d))" and "ky_provider_id r = Some p" and "ky_event_at r = None"
    and "notified deps es d d'" and "well_told d p es"
    and "e \<in> set es" and "map_persona_event e = Some s"
    and "\<forall>f \<in> set es. f \<noteq> e \<longrightarrow> map_persona_event f \<noteq> None \<longrightarrow> newer_event e f"
  shows "\<exists>q \<in> set (kyc_inquiries (accts d')). ky_id q = ky_id r \<and> ky_status q = s \<and>
    ky_approved q = (if s = KSApproved then Some (pe_created e) else None)"
proof -
  have "followed d (ky_id r) p {} d" using assms(1-4) by (auto simp: followed_def up_to_date_def)
  from notified_followed [OF assms(5) this assms(6)] obtain q where q: "q \<in> set (kyc_inquiries (accts d'))"
    "ky_id q = ky_id r" "up_to_date q (set es)" by (auto simp: followed_def)
  with assms(7,8) obtain c where c: "c \<in> set es" "shows_event q c"
    "\<forall>f \<in> set es. map_persona_event f \<noteq> None \<longrightarrow> f = c \<or> newer_event c f" by (auto simp: up_to_date_def)
  have "c = e"
  proof (rule ccontr)
    assume "c \<noteq> e"
    with c assms(7,8) have "newer_event c e" by auto
    moreover have "newer_event e c" using \<open>c \<noteq> e\<close> c(1,2) assms(9) by (auto simp: shows_event_def)
    ultimately show False using newer_event_asym by blast
  qed
  with c(2) assms(8) q show ?thesis by (auto simp: shows_event_def)
qed

text \<open>A provider whose approval arrives before the notice that the inquiry has started.\<close>

definition demo_approved :: persona_event where
  "demo_approved = \<lparr>pe_id = ''evt2'', pe_type = ''inquiry.approved'', pe_inquiry = ''inq'', pe_status = [], pe_created = 20\<rparr>"

definition demo_started :: persona_event where
  "demo_started = \<lparr>pe_id = ''evt1'', pe_type = ''inquiry.started'', pe_inquiry = ''inq'', pe_status = [], pe_created = 10\<rparr>"

definition demo_persona :: kyc_deps where
  "demo_persona = \<lparr>kp_create = (\<lambda>u k. Inr \<lparr>pi_id = ''inq'', pi_status = ''created'', pi_expires = None\<rparr>),
     kp_resume = (\<lambda>i. Inr ''session''), kp_classified = (\<lambda>e. None),
     kp_verify = (\<lambda>body signature t. Inr (if body = ''a'' then demo_approved else demo_started)),
     kp_sha256 = (\<lambda>b. b), kp_flow_url = (\<lambda>base i. Some (base @ i)), kp_environment = ''env'', kp_base_url = ''https://p''\<rparr>"

definition demo_inquiry :: kyc_inquiry where
  "demo_inquiry = (new_inquiry ''k1'' ''u1'' ''kyc_k1'' 1)\<lparr>ky_provider_id := Some ''inq'', ky_status := KSCreated\<rparr>"

definition demo_kyc :: db where
  "demo_kyc = empty_db\<lparr>accts := (accts empty_db)\<lparr>kyc_inquiries := [demo_inquiry]\<rparr>\<rparr>"

lemmas demo_kyc_rows = demo_kyc_def demo_inquiry_def new_inquiry_def empty_db_def

lemma demo_kyc_ok: "kyc_ok demo_kyc"
  by (simp add: kyc_ok_def kyc_conflict_None check_unique_def demo_kyc_rows)

definition demo_first :: db where
  "demo_first = w_db (snd (process_persona_webhook demo_persona ''a'' ''s'' 30 (world0 demo_kyc [''e1''] 30)))"

definition demo_last :: db where
  "demo_last = w_db (snd (process_persona_webhook demo_persona ''b'' ''s'' 31 (world0 demo_first [''e2''] 31)))"

lemma demo_accepted:
  "fst (process_persona_webhook demo_persona ''a'' ''s'' 30 (world0 demo_kyc [''e1''] 30)) = Inr ()"
  "fst (process_persona_webhook demo_persona ''b'' ''s'' 31 (world0 demo_first [''e2''] 31)) = Inr ()"
  by code_simp+

lemma notified_step:
  assumes "fst (process_persona_webhook deps body signature received w) = Inr ()"
    and "kp_verify deps body signature received = Inr e" "received \<noteq> 0" "w_db w = d"
    and "notified deps es (w_db (snd (process_persona_webhook deps body signature received w))) d'"
  shows "notified deps (e # es) d d'"
proof -
  obtain w1 where "process_persona_webhook deps body signature received w = (Inr (), w1)"
    using assms(1) by (cases "process_persona_webhook deps body signature received w") auto
  with assms show ?thesis
    unfolding notified.simps
    by (intro exI [of _ body] exI [of _ signature] exI [of _ received] exI [of _ w] exI [of _ w1]) simp
qed

lemma demo_notified: "notified demo_persona [demo_approved, demo_started] demo_kyc demo_last"
proof -
  have v: "kp_verify demo_persona ''a'' ''s'' 30 = Inr demo_approved" "kp_verify demo_persona ''b'' ''s'' 31 = Inr demo_started"
    by (simp_all add: demo_persona_def)
  have w: "w_db (world0 d is t) = d" for d "is" t by (simp add: world0_def)
  have "notified demo_persona [demo_started] demo_first demo_last"
    by (rule notified_step [OF demo_accepted(2) v(2) _ w]) (simp_all add: demo_last_def)
  then show ?thesis
    by (intro notified_step [OF demo_accepted(1) v(1) _ w]) (simp_all add: demo_first_def)
qed

lemma demo_events: "map_persona_event demo_approved = Some KSApproved" "map_persona_event demo_started = Some KSPending"
    "trim_space ''inq'' = ''inq''" "trim_space ''evt1'' = ''evt1''" "trim_space ''evt2'' = ''evt2''"
  by code_simp+

theorem newest_event_wins_witness:
  "\<exists>q \<in> set (kyc_inquiries (accts demo_last)). ky_id q = ''k1'' \<and> ky_status q = KSApproved \<and> ky_approved q = Some 20"
proof -
  have "well_told demo_kyc ''inq'' [demo_approved, demo_started]"
    unfolding well_told_def demo_approved_def demo_started_def by (simp add: demo_events(3-5)) (simp add: demo_kyc_rows)
  from newest_event_wins [OF demo_kyc_ok _ _ _ demo_notified this, of demo_inquiry demo_approved KSApproved]
  show ?thesis
    by (simp add: demo_events(1)) (simp add: demo_kyc_rows demo_approved_def demo_started_def newer_event_def)
qed

section \<open>One open inquiry\<close>

text \<open>Whatever calls are made, with whatever faults, no user ever has two open inquiries.\<close>

theorem one_open_inquiry:
  assumes "kyc_ok d" and "history (run_kyc deps) d d'"
    and "r \<in> set (kyc_inquiries (accts d'))" and "q \<in> set (kyc_inquiries (accts d'))"
    and "ky_user r = ky_user q" and "kyc_open (ky_status r)" and "kyc_open (ky_status q)"
  shows "r = q"
  by (rule open_inquiry_unique [OF steady_history [OF steady_run_kyc assms(2,1)] assms(3-7)])

definition demo_pending :: db where
  "demo_pending = w_db (snd (process_persona_webhook demo_persona ''b'' ''s'' 31 (world0 demo_kyc [''e2''] 31)))"

theorem one_open_inquiry_witness:
  "hd (kyc_inquiries (accts demo_pending)) = last (kyc_inquiries (accts demo_pending))"
proof -
  let ?rows = "kyc_inquiries (accts demo_pending)"
  have rows: "?rows \<noteq> []" "List.map ky_status ?rows = [KSPending]" "List.map ky_user ?rows = [''u1'']"
    by code_simp+
  have "ky_status (hd ?rows) = KSPending" "ky_status (last ?rows) = KSPending" "ky_user (hd ?rows) = ky_user (last ?rows)"
    using rows by (cases ?rows; simp)+
  moreover have w: "w_db (world0 d is t) = d" for d "is" t by (simp add: world0_def)
  have "history (run_kyc demo_persona) demo_kyc (w_db (snd (run_kyc demo_persona (KycWebhook ''b'' ''s'' 31) (world0 demo_kyc [''e2''] 31))))"
    by (rule history_one [where w = "world0 demo_kyc [''e2''] 31", unfolded w])
  then have "history (run_kyc demo_persona) demo_kyc demo_pending" by (simp add: demo_pending_def)
  ultimately show ?thesis
    using one_open_inquiry [OF demo_kyc_ok, of demo_persona demo_pending "hd ?rows" "last ?rows"] rows(1) by simp
qed

section \<open>One request at the provider\<close>

lemma reserve_retains:
  assumes "last_by (\<lambda>r. (ky_created r, ky_id r)) (\<lambda>r. ky_user r = trim_space u) (kyc_inquiries (accts d)) = Some r"
    and "retain_inquiry r t"
  shows "outcome (kyc_reserve u i k t) (\<lambda>x _. x = (kyc_record_of r, False)) (\<lambda>_ _. True) d t"
  unfolding kyc_reserve_def Let_def newest_inquiry_def
  by (rule outcome_tx, rule outcome_bind, rule outcome_or_missing_user, rule outcome_bind, rule outcome_optional)
     (use assms in \<open>auto intro!: outcome_ret\<close>)

text \<open>While the request for an inquiry has not been answered, a new start of the verification repeats it
  under the idempotency key on file: providers that answer this one request alike cannot be told apart.\<close>

theorem start_inquiry_one_key:
  assumes "last_by (\<lambda>r. (ky_created r, ky_id r)) (\<lambda>r. ky_user r = trim_space u) (kyc_inquiries (accts (w_db w))) = Some r"
    and "ky_status r = KSCreating" and "ky_provider_id r = None" and "ky_expires r = None"
    and "create (trim_space u) (ky_request r) = kp_create deps (trim_space u) (ky_request r)"
  shows "start_inquiry (deps\<lparr>kp_create := create\<rparr>) u w = start_inquiry deps u w"
proof -
  have k: "retain_inquiry r t" for t using assms(2,4) by (simp add: retain_inquiry_def past_expiry_def)
  have res: "outcome (kyc_reserve (trim_space u) i x (w_now w)) (\<lambda>x _. x = (kyc_record_of r, False)) (\<lambda>_ _. True) (w_db w) (w_now w)" for i x
    by (rule reserve_retains) (simp_all add: assms(1) k)
  have v: "ks_status (kyc_view_of (kyc_record_of r) t) \<noteq> KSApproved" "trim_space (kr_provider_id (kyc_record_of r)) = []" for t
    using assms(2-4) by (simp_all add: kyc_view_of_def status_expired_def kyc_record_of_def deref_str_def trim_space_def)
  have deps: "kyc_inquiry_view_of (deps\<lparr>kp_create := create\<rparr>) = kyc_inquiry_view_of deps"
    "provider_failed (deps\<lparr>kp_create := create\<rparr>) = (provider_failed deps :: string \<Rightarrow> err \<Rightarrow> time \<Rightarrow> kyc_inquiry_view repo)"
    by (intro ext, simp add: kyc_inquiry_view_of_def build_hosted_flow_url_def Let_def,
        intro ext, simp add: provider_failed_def is_retryable_kyc_error_def)
  show ?thesis
    unfolding start_inquiry_def Let_def
  proof (rule act_bind_cong, rule act_bind_cong, rule act_bind_cong, rule act_bind_cong, goal_cases)
    case (1 x w1 now w2 i w3 y w4)
    then have "w1 = w" "w2 = w" "now = w_now w" "w_db w3 = w_db w" "w_now w3 = w_now w"
      by (simp_all add: act_inv new_id_db)
    with 1(4) outcome_Inr [OF res [folded \<open>w_db w3 = w_db w\<close> \<open>w_now w3 = w_now w\<close>]]
    have "y = (kyc_record_of r, False)" by simp
    moreover have "kr_request (kyc_record_of r) = ky_request r" by (simp add: kyc_record_of_def)
    ultimately show ?case
      by (cases "kp_create deps (trim_space u) (ky_request r)") (simp_all add: v deps assms(5))
  qed
qed

definition demo_asked :: db where
  "demo_asked = empty_db\<lparr>accts := (accts empty_db)\<lparr>kyc_inquiries := [new_inquiry ''k1'' ''u1'' ''kyc_k1'' 1]\<rparr>\<rparr>"

theorem start_inquiry_one_key_witness:
  "start_inquiry (demo_persona\<lparr>kp_create := (\<lambda>u k. if k = ''kyc_k1'' then kp_create demo_persona u k else Inl ErrDatabase)\<rparr>)
     ''u1'' (world0 demo_asked [''k2''] 50) = start_inquiry demo_persona ''u1'' (world0 demo_asked [''k2''] 50)"
proof -
  have t: "trim_space ''u1'' = ''u1''" by code_simp
  show ?thesis
    by (rule start_inquiry_one_key [of _ _ "new_inquiry ''k1'' ''u1'' ''kyc_k1'' 1"])
       (simp_all add: t world0_def demo_asked_def empty_db_def new_inquiry_def last_by_def)
qed

end
