(* ===== verification/Api_Key_Properties.thy ===== *)
theory Api_Key_Properties
  imports Api_Keys Kyc_Properties Calm_Runs
begin

text \<open>
  The properties of API keys: what a key authenticates as, that a created key does until it is
  revoked, and that a revocation is final.
\<close>

section \<open>The tables\<close>

definition keys_ok :: "db \<Rightarrow> bool" where
  "keys_ok d \<longleftrightarrow> distinct (List.map ac_id (api_clients d)) \<and>
     distinct (List.map ak_id (api_keys (accts d))) \<and> distinct (List.map ak_public (api_keys (accts d)))"

text \<open>Keys are never removed or changed but for their stamps, a revocation is never undone.\<close>

definition keys_from :: "db \<Rightarrow> db \<Rightarrow> bool" where
  "keys_from d0 d \<longleftrightarrow> keys_ok d \<and> set (api_clients d0) \<subseteq> set (api_clients d) \<and>
     carried (\<lambda>k. (ak_id k, ak_client k, ak_public k, ak_secret k)) ak_revoked (api_keys (accts d0)) (api_keys (accts d))"

lemma keys_from_refl: "keys_ok d \<Longrightarrow> keys_from d d"
  by (simp add: keys_from_def)

lemma keys_from_trans: "keys_from a b \<Longrightarrow> keys_from b c \<Longrightarrow> keys_from a c"
  unfolding keys_from_def by (auto intro: carried_trans)

lemma steady_insert_client [steady_intro]: "steady (keys_from d0) (insert_api_client c)"
  unfolding insert_api_client_def
  by (rule steady_insert) (auto simp: keys_from_def keys_ok_def)

lemma steady_insert_key [steady_intro]: "steady (keys_from d0) (insert_api_key k)"
  unfolding insert_api_key_def
  by (rule steady_insert) (auto simp: keys_from_def keys_ok_def intro: carried_trans)

lemma keys_from_update:
  assumes "keys_from d0 d" and "\<And>k. P k \<Longrightarrow> (ak_id (f k), ak_client (f k), ak_public (f k), ak_secret (f k)) =
      (ak_id k, ak_client k, ak_public k, ak_secret k) \<and> (ak_revoked k \<noteq> None \<longrightarrow> ak_revoked (f k) = ak_revoked k)"
  shows "keys_from d0 (put_acc api_keys_update (update_rows P f (api_keys (accts d))) d)"
proof -
  have "List.map ak_id (update_rows P f (api_keys (accts d))) = List.map ak_id (api_keys (accts d))"
    "List.map ak_public (update_rows P f (api_keys (accts d))) = List.map ak_public (api_keys (accts d))"
    by (rule map_update_rows_on, use assms(2) in auto)+
  moreover have "carried (\<lambda>k. (ak_id k, ak_client k, ak_public k, ak_secret k)) ak_revoked
      (api_keys (accts d)) (update_rows P f (api_keys (accts d)))"
    by (rule carried_update) (use assms(2) in auto)
  ultimately show ?thesis using assms(1) by (auto simp: keys_from_def keys_ok_def intro: carried_trans)
qed

lemma steady_touch [steady_intro]: "steady (keys_from d0) (touch_last_used i now)"
  unfolding touch_last_used_def update_api_keys_def
  by (intro steady_intro steady_update) (rule keys_from_update, auto)

lemma steady_revoke_for_owner [steady_intro]: "steady (keys_from d0) (revoke_for_owner u i now)"
  unfolding revoke_for_owner_def
  by (intro steady_intro steady_sql) (auto intro!: keys_from_update [unfolded put_acc_def] simp: revocable_def)

lemma steady_create_for_owner [steady_intro]: "steady (keys_from d0) (create_for_owner u i n k)"
  unfolding create_for_owner_def Let_def by (intro steady_intro)

lemma steady_key_queries [steady_intro]:
  "steady I (developer_mode_enabled u)" "steady I (find_active_by_public_id p)" "steady I (list_for_owner u)"
  "steady I (require_developer_mode u)" "steady I (owner_developer_mode u)"
proof -
  show d: "steady I (developer_mode_enabled u)" for u
    unfolding developer_mode_enabled_def by (intro steady_intro)
  show "steady I (find_active_by_public_id p)"
    unfolding find_active_by_public_id_def by (intro steady_intro)
  show "steady I (list_for_owner u)"
    unfolding list_for_owner_def by (intro steady_intro)
  show "steady I (require_developer_mode u)" "steady I (owner_developer_mode u)"
    unfolding require_developer_mode_def owner_developer_mode_def by (intro steady_intro d)+
qed

lemma steady_create_key: "steady (keys_from d0) (create_api_key deps u n)"
  unfolding create_api_key_def Let_def by (intro steady_intro)

lemma steady_authenticate_key: "steady (keys_from d0) (authenticate_key deps raw)"
  unfolding authenticate_key_def by (intro steady_intro)

lemma steady_revoke_key: "steady (keys_from d0) (revoke_api_key u i)"
  unfolding revoke_api_key_def by (intro steady_intro)

lemma steady_list_keys: "steady (keys_from d0) (list_api_keys u)"
  unfolding list_api_keys_def by (intro steady_intro)

datatype key_call = KeyCreate string string | KeyAuthenticate string | KeyList string | KeyRevoke string string

fun run_key :: "api_key_deps \<Rightarrow> key_call \<Rightarrow> unit repo" where
  "run_key deps (KeyCreate u n) = act_bind (create_api_key deps u n) (\<lambda>_. act_ret ())"
| "run_key deps (KeyAuthenticate raw) = act_bind (authenticate_key deps raw) (\<lambda>_. act_ret ())"
| "run_key deps (KeyList u) = act_bind (list_api_keys u) (\<lambda>_. act_ret ())"
| "run_key deps (KeyRevoke u i) = revoke_api_key u i"

lemma steady_run_key: "steady (keys_from d0) (run_key deps c)"
  by (cases c) (auto intro!: steady_intro steady_create_key steady_authenticate_key steady_revoke_key steady_list_keys)

interpretation key_system: invariant_system "run_key deps" "keys_from d0" for deps d0
  by (rule steady_invariant_system) (rule steady_run_key)

lemma keys_later: "history (run_key deps) d d' \<Longrightarrow> keys_ok d \<Longrightarrow> keys_from d d'"
  by (rule steady_history [OF steady_run_key]) (auto intro: keys_from_refl)

section \<open>Authentication\<close>

text \<open>A key of the tables that a text opens.\<close>

definition opens_key :: "api_key_deps \<Rightarrow> db \<Rightarrow> string \<Rightarrow> api_key \<Rightarrow> api_client \<Rightarrow> bool" where
  "opens_key deps d raw k c \<longleftrightarrow> k \<in> set (api_keys (accts d)) \<and> c \<in> set (api_clients d) \<and> ac_id c = ak_client k \<and>
     ak_revoked k = None \<and> ac_status c = ''active'' \<and>
     (\<exists>secret. parse_key raw = Some (ak_public k, secret) \<and> ak_secret k = hash_secret deps secret)"

lemma key_rows_set: "(k, c) \<in> set (key_rows d) \<longleftrightarrow>
    k \<in> set (api_keys (accts d)) \<and> c \<in> set (api_clients d) \<and> ac_id c = ak_client k"
  by (auto simp: key_rows_def)

lemma find_key_outcome:
  "outcome (find_active_by_public_id p)
    (\<lambda>(k, who) d'. d' = d \<and> ak_public k = p \<and> ak_revoked k = None \<and> k \<in> set (api_keys (accts d)) \<and>
       (\<exists>c \<in> set (api_clients d). ac_id c = ak_client k \<and> ac_status c = ''active'' \<and>
          who = \<lparr>ap_client = ak_client k, ap_owner = ac_owner c\<rparr>)) (\<lambda>_ d'. d' = d) d t"
  unfolding find_active_by_public_id_def
  by (rule outcome_bind, rule outcome_or_missing)
     (auto dest!: find_row_Some simp: key_rows_set intro!: outcome_ret)

lemma touch_outcome: "outcome (touch_last_used i now) (\<lambda>_ _. True) (\<lambda>_ _. True) d t"
  unfolding touch_last_used_def update_api_keys_def
  by (rule outcome_bind, rule outcome_update) (auto intro: outcome_guard)

lemma touch_runs:
  assumes "k \<in> set (api_keys (accts d))" "ak_revoked k = None"
  shows "runs (touch_last_used (ak_id k) now) (\<lambda>_ _ _. True) d is t"
proof -
  have "count_rows (\<lambda>q. ak_id q = ak_id k \<and> ak_revoked q = None) (api_keys (accts d)) \<noteq> 0"
    using assms unfolding count_rows_0 by auto
  then show ?thesis
    unfolding touch_last_used_def update_api_keys_def by (intro runs_bind runs_update) (simp_all add: runs_guard)
qed

lemma authenticate_key_outcome:
  "outcome (authenticate_key deps raw)
    (\<lambda>who _. \<exists>k c. opens_key deps d raw k c \<and> who = \<lparr>ap_client = ak_client k, ap_owner = ac_owner c\<rparr>) (\<lambda>_ _. True) d t"
proof (cases "parse_key raw")
  case (Some x)
  obtain p secret where x: "x = (p, secret)" by fastforce
  show ?thesis
    unfolding authenticate_key_def Some x option.case prod.case
  proof (rule outcome_bind, rule outcome_try, rule outcome_weaken [OF find_key_outcome], goal_cases)
    case (1 r d1)
    then obtain k who c where r: "r = (k, who)" and d1: "d1 = d" and k: "ak_public k = p" "ak_revoked k = None"
      "k \<in> set (api_keys (accts d))" "c \<in> set (api_clients d)" "ac_id c = ak_client k" "ac_status c = ''active''"
      "who = \<lparr>ap_client = ak_client k, ap_owner = ac_owner c\<rparr>" by auto
    have o: "opens_key deps d raw k c" if "ak_secret k = hash_secret deps secret"
      using k that by (simp add: opens_key_def Some x)
    show ?case
      unfolding r d1 sum.case prod.case
      by (rule outcome_bind, rule outcome_guard, rule outcome_bind, rule outcome_now, rule outcome_bind,
          rule outcome_weaken [OF touch_outcome], rule outcome_ret) (use k(7) o in blast)+
  next
    case (2 e d1)
    then show ?case by (simp add: outcome_fail)
  qed
qed (simp add: authenticate_key_def outcome_fail)

lemma opens_key_unique:
  assumes "keys_ok d" "opens_key deps d raw k c" "opens_key deps d raw k' c'"
  shows "k' = k \<and> c' = c"
proof
  from assms show k: "k' = k"
    by (intro distinct_key_eq [where f = ak_public and xs = "api_keys (accts d)"]) (auto simp: opens_key_def keys_ok_def)
  from assms show "c' = c"
    by (intro distinct_key_eq [where f = ac_id and xs = "api_clients d"]) (auto simp: opens_key_def keys_ok_def k)
qed

lemma find_exists: "x \<in> set xs \<Longrightarrow> P x \<Longrightarrow> \<exists>y. List.find P xs = Some y \<and> y \<in> set xs \<and> P y"
  by (induction xs) auto

lemma authenticate_key_runs:
  assumes ok: "keys_ok d" and o: "opens_key deps d raw k c"
  shows "runs (authenticate_key deps raw) (\<lambda>who _ _. who = \<lparr>ap_client = ak_client k, ap_owner = ac_owner c\<rparr>) d is t"
proof -
  from o obtain secret where p: "parse_key raw = Some (ak_public k, secret)" "ak_secret k = hash_secret deps secret"
    and k: "k \<in> set (api_keys (accts d))" "ak_revoked k = None" and c: "c \<in> set (api_clients d)" "ac_id c = ak_client k"
      "ac_status c = ''active''" by (auto simp: opens_key_def)
  let ?P = "\<lambda>(q, c). ak_public q = ak_public k \<and> ak_revoked q = None \<and> ac_status c = ''active''"
  have fnd: "List.find ?P (key_rows d) = Some (k, c)"
  proof -
    have "(k, c) \<in> set (key_rows d)" "?P (k, c)" using k c by (simp_all add: key_rows_set)
    from find_exists [of "(k, c)" _ ?P, OF this] obtain y where y: "List.find ?P (key_rows d) = Some y" "y \<in> set (key_rows d)" "?P y"
      by blast
    obtain k' c' where y': "y = (k', c')" by fastforce
    have k': "k' \<in> set (api_keys (accts d))" "c' \<in> set (api_clients d)" "ac_id c' = ak_client k'" "ak_public k' = ak_public k"
      using y y' by (auto simp: key_rows_set)
    from k' have "k' = k"
      by (intro distinct_key_eq [where f = ak_public and xs = "api_keys (accts d)"]) (use ok k(1) in \<open>auto simp: keys_ok_def\<close>)
    from k' have "c' = c"
      by (intro distinct_key_eq [where f = ac_id and xs = "api_clients d"]) (use ok c \<open>k' = k\<close> in \<open>auto simp: keys_ok_def\<close>)
    with \<open>k' = k\<close> y(1) y' show ?thesis by simp
  qed
  have f: "runs (find_active_by_public_id (ak_public k))
      (\<lambda>x d' js. x = (k, \<lparr>ap_client = ak_client k, ap_owner = ac_owner c\<rparr>) \<and> d' = d) d is t"
    unfolding find_active_by_public_id_def
    by (rule runs_bind, rule runs_or_missing, rule fnd) (simp add: runs_ret)
  show ?thesis
    unfolding authenticate_key_def p(1) option.case prod.case
  proof (rule runs_bind, rule runs_try, rule runs_weaken [OF f], goal_cases)
    case (1 x d' js)
    then show ?case
      by (simp add: p(2), intro runs_bind runs_guard runs_now runs_weaken [OF touch_runs [OF k]]) (simp_all add: runs_ret)
  qed
qed

section \<open>Created and revoked keys\<close>

definition key_revoked :: "string \<Rightarrow> db \<Rightarrow> bool" where
  "key_revoked i d \<longleftrightarrow> (\<exists>k \<in> set (api_keys (accts d)). ak_id k = i \<and> ak_revoked k \<noteq> None)"

lemma create_for_owner_outcome:
  "outcome (create_for_owner owner suggested name key)
    (\<lambda>i d'. \<exists>c \<in> set (api_clients d'). ac_id c = i \<and> ac_owner c = owner \<and> ac_status c = ''active'' \<and>
       (\<exists>k \<in> set (api_keys (accts d')). ak_id k = ak_id key \<and> ak_client k = i \<and> ak_public k = ak_public key \<and>
          ak_secret k = ak_secret key \<and> ak_revoked k = None))
    (\<lambda>_ d'. d' = d) d t"
  unfolding create_for_owner_def Let_def insert_api_client_def insert_api_key_def
proof (rule outcome_tx, rule outcome_bind, rule outcome_find_user, rule outcome_bind, rule outcome_optional, goal_cases)
  case (1 u c)
  then have "c \<in> set (api_clients d)" "ac_owner c = owner" by (auto dest: first_by_Some)
  then show ?case
    by (simp only: option.case, intro outcome_bind outcome_ret outcome_guard outcome_insert) auto
next
  case (2 u)
  show ?case
    by (simp only: option.case, intro outcome_bind outcome_insert outcome_ret outcome_guard outcome_insert) auto
qed simp_all

section \<open>The text of a key\<close>

lemma hex_encode_chars: "set (hex_encode bs) \<subseteq> hex_char ` {..<16}"
proof (induction bs)
  case (Cons b bs)
  have "unat b < 256" using unsigned_less [of b, where 'a = nat] by simp
  with Cons show ?case by auto
qed simp

lemma length_hex_encode: "length (hex_encode bs) = 2 * length bs"
  by (induction bs) simp_all

lemma b64_chars: "set (b64_raw_url bs) \<subseteq> set b64_alphabet"
proof -
  have "b64_char x \<in> set b64_alphabet" if "x < 64" for x
    unfolding b64_char_def by (rule nth_mem) (use that in \<open>simp add: b64_alphabet_def\<close>)
  then show ?thesis
    using b64_sextets_less [OF unat_bytes [of bs]] by (auto simp: b64_raw_url_def list_all_iff)
qed

lemma no_space_chars: "set b64_alphabet \<inter> last ` set space_seqs = {}" "CHR ''p'' \<notin> hd ` set space_seqs"
  by (simp_all add: b64_alphabet_def space_seqs_def)

lemma hex_char_not_underscore: "CHR ''_'' \<notin> hex_char ` {..<16}"
proof
  assume "CHR ''_'' \<in> hex_char ` {..<16}"
  then obtain n where "n < 16" "hex_char n = CHR ''_''" by auto
  with hex_value_char [of n] have "hex_value (CHR ''_'') = Some n" by simp
  then show False by (simp add: hex_value_def)
qed

lemma parse_key_text:
  assumes "length public_bytes = 12" and "secret_text = b64_raw_url secret_bytes" "length secret_bytes = 32"
  shows "parse_key (key_text (hex_encode public_bytes) secret_text) = Some (hex_encode public_bytes, secret_text)"
proof -
  let ?p = "hex_encode public_bytes" and ?k = "key_text (hex_encode public_bytes) secret_text"
  have ne: "secret_text \<noteq> []" using length_b64_raw_url [of secret_bytes] assms(2,3) by auto
  then have "last secret_text \<in> set b64_alphabet" using b64_chars assms(2) by (metis last_in_set subsetD)
  with ne have "last ?k \<in> set b64_alphabet" by (simp add: key_text_def)
  then have "last ?k \<notin> last ` set space_seqs" using no_space_chars(1) by blast
  moreover have "hd ?k = CHR ''p''" "?k \<noteq> []" by (simp_all add: key_text_def test_key_prefix_def)
  ultimately have t: "trim_space ?k = ?k" using no_space_chars(2) by (intro trim_space_untrimmed untrimmed_ends) simp_all
  have cut: "str_cut (CHR ''_'') (?p @ CHR ''_'' # secret_text) = (?p, secret_text, True)"
    by (rule str_cut_append) (use hex_encode_chars hex_char_not_underscore in blast)
  have "has_prefix test_key_prefix ?k" "drop (length test_key_prefix) ?k = ?p @ CHR ''_'' # secret_text"
    by (simp_all add: has_prefix_def key_text_def)
  then show ?thesis
    unfolding parse_key_def Let_def t by (simp add: cut length_hex_encode assms(1) hex_decode_encode ne)
qed

section \<open>What a key authenticates as\<close>

text \<open>C30: where the database answers, a text authenticates exactly if it is the text of an unrevoked key of
  an active client, and then as that client and its owner.\<close>

theorem api_key_authenticates:
  assumes "keys_ok (w_db w)" and "calm w"
  shows "(\<exists>w'. authenticate_key deps raw w = (Inr who, w')) \<longleftrightarrow>
    (\<exists>k c. opens_key deps (w_db w) raw k c \<and> who = \<lparr>ap_client = ak_client k, ap_owner = ac_owner c\<rparr>)"
proof
  assume "\<exists>w'. authenticate_key deps raw w = (Inr who, w')"
  then obtain w' where "authenticate_key deps raw w = (Inr who, w')" by blast
  from outcome_Inr [OF authenticate_key_outcome this]
  show "\<exists>k c. opens_key deps (w_db w) raw k c \<and> who = \<lparr>ap_client = ak_client k, ap_owner = ac_owner c\<rparr>" .
next
  assume "\<exists>k c. opens_key deps (w_db w) raw k c \<and> who = \<lparr>ap_client = ak_client k, ap_owner = ac_owner c\<rparr>"
  then obtain k c where o: "opens_key deps (w_db w) raw k c" and who: "who = \<lparr>ap_client = ak_client k, ap_owner = ac_owner c\<rparr>"
    by blast
  from runsE [OF authenticate_key_runs [OF assms(1) o] assms(2) refl refl refl] who
  show "\<exists>w'. authenticate_key deps raw w = (Inr who, w')" by metis
qed

lemma outcome_any: "(\<And>I. steady I m) \<Longrightarrow> (\<And>x d'. Q x d') \<Longrightarrow> (\<And>e d'. E e d') \<Longrightarrow> outcome m Q E d t"
  by (rule outcome_weaken [OF steadyD [of "\<lambda>_. True"]]) auto

lemma create_key_outcome:
  "outcome (create_api_key deps owner name)
    (\<lambda>ck d'. \<exists>k c. ak_id k = ck_id ck \<and> opens_key deps d' (ck_plaintext ck) k c \<and>
       ak_client k = ck_client ck \<and> ac_owner c = trim_space owner) (\<lambda>_ _. True) d t"
  unfolding create_api_key_def Let_def
proof (rule outcome_bind, rule outcome_guard, rule outcome_bind, rule outcome_any, rule steady_key_queries,
    rule outcome_bind, rule outcome_guard, rule outcome_bind, rule outcome_any, rule steady_kyc_status,
    rule outcome_bind, rule outcome_guard, rule outcome_bind, rule outcome_new_id, rule outcome_bind,
    rule outcome_new_id, rule outcome_bind, rule outcome_random_bytes, rule outcome_bind, rule outcome_random_string,
    rule outcome_bind, rule outcome_now, rule outcome_bind, rule outcome_weaken [OF create_for_owner_outcome], goal_cases)
  case (1 _ d1 _ d2 i j public_bytes secret_bytes client d3)
  then obtain k c where "ak_id k = j" "opens_key deps d3 (key_text (hex_encode public_bytes) (b64_raw_url secret_bytes)) k c"
    "ak_client k = client" "ac_owner c = trim_space owner"
    using parse_key_text [OF 1(4) refl 1(5)] by (auto simp: opens_key_def)
  then show ?case by (intro outcome_ret) auto
qed simp_all

text \<open>C31: the text of a created key authenticates as its client and owner from then on, whatever calls are
  made in between and with whatever faults, until the key is revoked, and never again after that.\<close>

theorem created_key_authenticates:
  assumes "keys_ok (w_db w)" and "create_api_key deps owner name w = (Inr ck, w1)"
    and "history (run_key deps) (w_db w1) (w_db w2)" and "calm w2"
  shows "(\<exists>w3. authenticate_key deps (ck_plaintext ck) w2 =
      (Inr \<lparr>ap_client = ck_client ck, ap_owner = trim_space owner\<rparr>, w3)) \<longleftrightarrow> \<not> key_revoked (ck_id ck) (w_db w2)"
proof -
  from outcome_Inr [OF create_key_outcome assms(2)] obtain k c where k: "ak_id k = ck_id ck"
    "opens_key deps (w_db w1) (ck_plaintext ck) k c" "ak_client k = ck_client ck" "ac_owner c = trim_space owner" by auto
  have "keys_from (w_db w) (w_db w1)"
    by (rule steady_run [OF steady_create_key keys_from_refl [OF assms(1)] assms(2)])
  then have "keys_ok (w_db w1)" by (simp add: keys_from_def)
  from keys_later [OF assms(3) this] have later: "keys_from (w_db w1) (w_db w2)" .
  then have ok: "keys_ok (w_db w2)" by (simp add: keys_from_def)
  from later k(2) obtain k2 where k2: "k2 \<in> set (api_keys (accts (w_db w2)))"
    "(ak_id k2, ak_client k2, ak_public k2, ak_secret k2) = (ak_id k, ak_client k, ak_public k, ak_secret k)"
    by (auto simp: keys_from_def carried_def opens_key_def)
  have opens: "opens_key deps (w_db w2) (ck_plaintext ck) k2 c \<longleftrightarrow> ak_revoked k2 = None"
    using later k(2) k2 by (auto simp: keys_from_def opens_key_def)
  have only: "x = k2 \<and> y = c" if "opens_key deps (w_db w2) (ck_plaintext ck) x y" for x y
  proof -
    from that k(2) k2 have "x = k2"
      by (intro distinct_key_eq [where f = ak_public and xs = "api_keys (accts (w_db w2))"])
         (use ok in \<open>auto simp: opens_key_def keys_ok_def\<close>)
    with that opens ok show ?thesis using opens_key_unique [OF ok, of deps "ck_plaintext ck" k2 c x y]
      by (auto simp: opens_key_def)
  qed
  have "key_revoked (ck_id ck) (w_db w2) \<longleftrightarrow> ak_revoked k2 \<noteq> None"
  proof
    assume "key_revoked (ck_id ck) (w_db w2)"
    then obtain x where x: "x \<in> set (api_keys (accts (w_db w2)))" "ak_id x = ck_id ck" "ak_revoked x \<noteq> None"
      by (auto simp: key_revoked_def)
    have "x = k2" by (rule distinct_key_eq [where f = ak_id and xs = "api_keys (accts (w_db w2))"])
      (use x k k2 ok in \<open>auto simp: keys_ok_def\<close>)
    with x show "ak_revoked k2 \<noteq> None" by simp
  qed (use k k2 in \<open>auto simp: key_revoked_def\<close>)
  moreover have "ak_client k2 = ck_client ck" using k2(2) k(3) by simp
  ultimately show ?thesis
    unfolding api_key_authenticates [OF ok assms(4)] using opens only k(4) by metis
qed

lemma revoke_for_owner_outcome:
  "outcome (revoke_for_owner u i now) (\<lambda>_ d'. key_revoked i d') (\<lambda>_ _. True) d t"
  unfolding revoke_for_owner_def
proof (rule outcome_bind, rule outcome_sql)
  fix x d' assume "(Inr (count_rows (revocable u i d) (api_keys (accts d))),
      put_acc api_keys_update (update_rows (revocable u i d) (\<lambda>k. k\<lparr>ak_revoked := Some now\<rparr>) (api_keys (accts d))) d) = (Inr x, d')"
  then have d': "d' = put_acc api_keys_update (update_rows (revocable u i d) (\<lambda>k. k\<lparr>ak_revoked := Some now\<rparr>) (api_keys (accts d))) d"
    and x: "x = count_rows (revocable u i d) (api_keys (accts d))" by auto
  have "key_revoked i d'" if "x \<noteq> 0"
  proof -
    from that obtain k where k: "k \<in> set (api_keys (accts d))" "revocable u i d k" unfolding x count_rows_0 by auto
    from in_update_rows [OF k(1), of "revocable u i d" "\<lambda>k. k\<lparr>ak_revoked := Some now\<rparr>"] k(2)
    show ?thesis unfolding key_revoked_def d' by (intro bexI) (auto simp: revocable_def)
  qed
  then show "outcome (act_guard (x \<noteq> 0) (ErrAuth InvalidKey)) (\<lambda>_. key_revoked i) (\<lambda>_ _. True) d' t"
    by (intro outcome_guard) simp_all
qed simp_all

text \<open>C32: a revocation is final: once an owner has revoked a key, no text authenticates by it, whatever calls
  are made in between.\<close>

theorem revocation_is_final:
  assumes "keys_ok (w_db w)" and "revoke_api_key owner i w = (Inr (), w1)"
    and "history (run_key deps) (w_db w1) (w_db w2)" and "authenticate_key deps raw w2 = (Inr who, w3)"
  shows "key_revoked i (w_db w2) \<and> (\<exists>k c. opens_key deps (w_db w2) raw k c \<and> ak_id k \<noteq> i \<and>
    who = \<lparr>ap_client = ak_client k, ap_owner = ac_owner c\<rparr>)"
proof -
  have "outcome (revoke_api_key owner i) (\<lambda>_ d'. key_revoked i d') (\<lambda>_ _. True) (w_db w) (w_now w)"
    unfolding revoke_api_key_def
    by (rule outcome_bind, rule outcome_guard, rule outcome_bind, rule outcome_any, rule steady_key_queries,
        rule outcome_bind, rule outcome_now, rule revoke_for_owner_outcome) simp_all
  from outcome_Inr [OF this assms(2)] have r: "key_revoked i (w_db w1)" .
  have "keys_from (w_db w) (w_db w1)"
    by (rule steady_run [OF steady_revoke_key keys_from_refl [OF assms(1)] assms(2)])
  then have "keys_ok (w_db w1)" by (simp add: keys_from_def)
  from keys_later [OF assms(3) this] have later: "keys_from (w_db w1) (w_db w2)" .
  with r obtain k where k: "k \<in> set (api_keys (accts (w_db w2)))" "ak_id k = i" "ak_revoked k \<noteq> None"
    by (auto simp: key_revoked_def keys_from_def dest!: carried_stamped)
  from outcome_Inr [OF authenticate_key_outcome assms(4)] obtain x c where x: "opens_key deps (w_db w2) raw x c"
    "who = \<lparr>ap_client = ak_client x, ap_owner = ac_owner c\<rparr>" by auto
  have "ak_id x \<noteq> i"
  proof
    assume "ak_id x = i"
    then have "x = k" using k x(1) later
      by (intro distinct_key_eq [where f = ak_id and xs = "api_keys (accts (w_db w2))"])
         (auto simp: keys_from_def keys_ok_def opens_key_def)
    with k x(1) show False by (simp add: opens_key_def)
  qed
  with x k show ?thesis by (auto simp: key_revoked_def)
qed

section \<open>An example\<close>

definition demo_keys :: api_key_deps where
  "demo_keys = \<lparr>kd_pepper = [], kd_hmac = (\<lambda>pepper b. b)\<rparr>"

definition demo_developer :: db where
  "demo_developer = empty_db
     \<lparr>accts := (accts empty_db)\<lparr>kyc_inquiries := [demo_inquiry\<lparr>ky_status := KSApproved, ky_approved := Some 5\<rparr>]\<rparr>,
      users := [\<lparr>us_id = ''u1'', us_status = ''active'', us_display = ''Ana'', us_email = None, us_avatar = None,
        us_verified = None, us_developer = Some 2, us_created = 1, us_updated = 1\<rparr>]\<rparr>"

definition demo_create :: "(err + created_key) \<times> world" where
  "demo_create = create_api_key demo_keys ''u1'' ''shop'' (world0 demo_developer [''c1'', ''k1'', ''r1'', ''r2''] 50)"

definition demo_key_db :: db where "demo_key_db = w_db (snd demo_create)"

definition demo_key_text :: string where
  "demo_key_text = (case fst demo_create of Inr ck \<Rightarrow> ck_plaintext ck | _ \<Rightarrow> [])"

definition demo_revoke :: "(err + unit) \<times> world" where
  "demo_revoke = revoke_api_key ''u1'' ''k1'' (world0 demo_key_db [] 60)"

lemma demo_key_facts:
  "(case fst demo_create of Inr ck \<Rightarrow> ck_id ck = ''k1'' \<and> ck_client ck = ''c1'' | _ \<Rightarrow> False)"
  "fst demo_revoke = Inr ()" "trim_space ''u1'' = ''u1''"
  "List.map ak_revoked (api_keys (accts demo_key_db)) = [None]"
  "List.map ak_id (api_keys (accts demo_key_db)) = [''k1'']"
  by code_simp+

lemma demo_created:
  obtains ck where "create_api_key demo_keys ''u1'' ''shop'' (world0 demo_developer [''c1'', ''k1'', ''r1'', ''r2''] 50) = (Inr ck, snd demo_create)"
    "ck_id ck = ''k1''" "ck_client ck = ''c1''" "ck_plaintext ck = demo_key_text"
proof -
  obtain r w where "demo_create = (r, w)" by fastforce
  with demo_key_facts(1) that show ?thesis by (auto simp: demo_key_text_def demo_create_def split: sum.splits)
qed

lemma demo_developer_ok: "keys_ok demo_developer"
  by (simp add: keys_ok_def demo_developer_def empty_db_def)

declare world0_facts [simp]

lemma demo_key_db_ok: "keys_ok demo_key_db"
proof -
  obtain ck where "create_api_key demo_keys ''u1'' ''shop'' (world0 demo_developer [''c1'', ''k1'', ''r1'', ''r2''] 50) = (Inr ck, snd demo_create)"
    by (rule demo_created)
  from steady_run [OF steady_create_key _ this, of demo_developer] keys_from_refl [OF demo_developer_ok]
  show ?thesis by (simp add: demo_key_db_def keys_from_def)
qed

lemma demo_not_revoked: "\<not> key_revoked ''k1'' demo_key_db"
  using demo_key_facts(4) by (auto simp: key_revoked_def dest: map_eq_imp_length_eq)

theorem created_key_authenticates_witness:
  "\<exists>w3. authenticate_key demo_keys demo_key_text (world0 demo_key_db [] 60) = (Inr \<lparr>ap_client = ''c1'', ap_owner = ''u1''\<rparr>, w3)"
proof -
  obtain ck where ck: "create_api_key demo_keys ''u1'' ''shop'' (world0 demo_developer [''c1'', ''k1'', ''r1'', ''r2''] 50) = (Inr ck, snd demo_create)"
    "ck_id ck = ''k1''" "ck_client ck = ''c1''" "ck_plaintext ck = demo_key_text" by (rule demo_created)
  have "history (run_key demo_keys) (w_db (snd demo_create)) (w_db (world0 demo_key_db [] 60))"
    by (simp add: demo_key_db_def history_now)
  from created_key_authenticates [OF _ ck(1) this] demo_developer_ok
  show ?thesis by (simp add: ck(2-4) demo_key_facts(3) demo_not_revoked)
qed

text \<open>A second key, made after the first one has been revoked.\<close>

definition demo_again :: "(err + created_key) \<times> world" where
  "demo_again = create_api_key demo_keys ''u1'' ''shop'' (world0 (w_db (snd demo_revoke)) [''c2'', ''k2'', ''r3'', ''r4''] 65)"

definition demo_login :: "(err + api_principal) \<times> world" where
  "demo_login = (case fst demo_again of
     Inr ck \<Rightarrow> authenticate_key demo_keys (ck_plaintext ck) (world0 (w_db (snd demo_again)) [] 70)
   | Inl e \<Rightarrow> (Inl e, snd demo_again))"

lemma demo_login_facts: "fst demo_login = Inr \<lparr>ap_client = ''c1'', ap_owner = ''u1''\<rparr>"
  by code_simp

lemma run_key_create: "snd (run_key deps (KeyCreate u n) w) = snd (create_api_key deps u n w)"
  by (auto simp: act_bind_def act_ret_def split: prod.splits sum.splits)

theorem revocation_is_final_witness:
  "\<exists>text. key_revoked ''k1'' (w_db (snd demo_again)) \<and>
     (\<exists>k c. opens_key demo_keys (w_db (snd demo_again)) text k c \<and> ak_id k \<noteq> ''k1'' \<and>
        \<lparr>ap_client = ''c1'', ap_owner = ''u1''\<rparr> = \<lparr>ap_client = ak_client k, ap_owner = ac_owner c\<rparr>)"
proof -
  obtain ck where ck: "fst demo_again = Inr ck"
    using demo_login_facts by (auto simp: demo_login_def split: sum.splits)
  let ?w = "world0 (w_db (snd demo_again)) [] 70"
  have a: "authenticate_key demo_keys (ck_plaintext ck) ?w = (Inr \<lparr>ap_client = ''c1'', ap_owner = ''u1''\<rparr>, snd demo_login)"
    using demo_login_facts ck by (auto simp: demo_login_def intro: prod_eqI)
  have r: "revoke_api_key ''u1'' ''k1'' (world0 demo_key_db [] 60) = (Inr (), snd demo_revoke)"
    using demo_key_facts(2) unfolding demo_revoke_def by (metis prod.collapse)
  have "history (run_key demo_keys) (w_db (snd demo_revoke)) (w_db (snd (run_key demo_keys (KeyCreate ''u1'' ''shop'')
      (world0 (w_db (snd demo_revoke)) [''c2'', ''k2'', ''r3'', ''r4''] 65))))"
    by (rule history_one [where w = "world0 (w_db (snd demo_revoke)) [''c2'', ''k2'', ''r3'', ''r4''] 65", unfolded world0_facts])
  then have h: "history (run_key demo_keys) (w_db (snd demo_revoke)) (w_db ?w)"
    by (simp only: run_key_create world0_facts flip: demo_again_def)
  from revocation_is_final [OF _ r h a] demo_key_db_ok show ?thesis by auto
qed

lemma demo_opens:
  "list_ex (\<lambda>k. list_ex (\<lambda>c. ac_id c = ak_client k \<and> ak_revoked k = None \<and> ac_status c = ''active'' \<and> ac_owner c = ''u1'' \<and>
     ak_client k = ''c1'' \<and> (case parse_key demo_key_text of Some (p, s) \<Rightarrow> p = ak_public k \<and> ak_secret k = hash_secret demo_keys s
       | None \<Rightarrow> False)) (api_clients demo_key_db)) (api_keys (accts demo_key_db))"
  by code_simp

theorem api_key_authenticates_witness:
  "\<exists>w'. authenticate_key demo_keys demo_key_text (world0 demo_key_db [] 60) = (Inr \<lparr>ap_client = ''c1'', ap_owner = ''u1''\<rparr>, w')"
proof -
  from demo_opens obtain k c where "opens_key demo_keys demo_key_db demo_key_text k c" "ak_client k = ''c1''" "ac_owner c = ''u1''"
    by (auto simp: list_ex_iff opens_key_def split: option.splits prod.splits)
  with demo_key_db_ok show ?thesis by (subst api_key_authenticates) (simp, simp, metis world0_facts(1))
qed

end
