(* ===== verification/Sep38.thy ===== *)
theory Sep38
  imports Quote Steady
begin

text \<open>
  SEP-38, prices for wallets: \<open>internal/usecase/sep38_usecase.go\<close> (indicative prices),
  \<open>internal/usecase/sep38_quote_usecase.go\<close> and \<open>internal/repository/sep38_quote_repository.go\<close> (firm
  quotes). The answer of the price reader is an argument, as in \<open>quote_preview\<close>.
\<close>

record sep10_principal =
  wp_account :: string
  wp_token :: string

record sep38_price_request =
  pr_sell_asset :: string
  pr_buy_asset :: string
  pr_sell_amount :: string
  pr_buy_amount :: string

record sep38_price =
  sp_total :: string
  sp_price :: string
  sp_sell_asset :: string
  sp_sell_amount :: string
  sp_buy_asset :: string
  sp_buy_amount :: string

record sep38_indicative_price =
  si_price :: string
  si_sell_asset :: string
  si_buy_asset :: string
  si_buy_decimals :: int
  si_sell_decimals :: int

record sep38_config =
  s38_policy :: quote_policy
  s38_min :: idr
  s38_max :: idr
  s38_issuer :: string

abbreviation sep38_invalid :: err where "sep38_invalid \<equiv> ErrWallet Sep38InvalidRequest"

section \<open>Assets and amounts\<close>

definition sep38_idr_asset :: string where "sep38_idr_asset = ''iso4217:IDR''"
definition sep38_xlm_asset :: string where "sep38_xlm_asset = ''stellar:native''"

definition sep38_asset_identifier :: "string \<Rightarrow> string" where
  "sep38_asset_identifier issuer =
     (if trim_space issuer = [] then sep38_xlm_asset else ''stellar:'' @ ''KXLM'' @ '':'' @ trim_space issuer)"

definition valid_sep38_pair_for :: "string \<Rightarrow> string \<Rightarrow> string \<Rightarrow> bool" where
  "valid_sep38_pair_for sell buy asset \<longleftrightarrow>
     sell = sep38_idr_asset \<and> buy = asset \<or> sell = asset \<and> buy = sep38_idr_asset"

definition sep38_decimals :: "string \<Rightarrow> string \<Rightarrow> int" where
  "sep38_decimals asset asset_id = (if asset = asset_id then 7 else 0)"

text \<open>\<open>strconv.ParseInt(s, 10, 64)\<close>: an optional sign and digits, within 64 bits.\<close>

definition parse_int64 :: "string \<Rightarrow> int option" where
  "parse_int64 s =
     (let (neg, ds) = (case s of [] \<Rightarrow> (False, [])
                       | c # r \<Rightarrow> if c = CHR ''-'' then (True, r) else if c = CHR ''+'' then (False, r)
                                 else (False, c # r));
          n = (if neg then - int (digits_val ds) else int (digits_val ds))
      in if ds = [] \<or> \<not> list_all is_digit ds \<or> \<not> is_int64 n then None else Some n)"

definition parse_sep38_idr :: "string \<Rightarrow> err + int" where
  "parse_sep38_idr value = (case parse_int64 (trim_space value) of
     None \<Rightarrow> Inl sep38_invalid
   | Some a \<Rightarrow> if a \<le> 0 then Inl sep38_invalid else Inr a)"

definition sep38_config_error :: "sep38_config \<Rightarrow> err option" where
  "sep38_config_error cfg =
     (if ttl (s38_policy cfg) \<le> 0 \<or> max_age (s38_policy cfg) \<le> 0 \<or> spread_bps (s38_policy cfg) < 0 \<or>
         spread_bps (s38_policy cfg) > 10000 \<or> s38_min cfg \<le> 0 \<or> s38_max cfg < s38_min cfg
      then Some (ErrText ''valid sep-38 dependencies and configuration are required'') else None)"

section \<open>Indicative prices\<close>

definition sep38_indicative :: "sep38_config \<Rightarrow> err + market_price \<Rightarrow> time \<Rightarrow> string \<Rightarrow> string \<Rightarrow> err + sep38_indicative_price" where
  "sep38_indicative cfg price now sell0 buy0 =
     (let sell = trim_space sell0; buy = trim_space buy0; asset = sep38_asset_identifier (s38_issuer cfg) in
      if \<not> valid_sep38_pair_for sell buy asset then Inl sep38_invalid
      else case price of Inl e \<Rightarrow> Inl e | Inr m \<Rightarrow>
      case quote_create (s38_policy cfg) now (s38_min cfg) m of Inl e \<Rightarrow> Inl e | Inr _ \<Rightarrow>
      case rat_set_string (trim_space (idr_per_xlm m)) of None \<Rightarrow> Inl ErrInvalidPrice | Some rate \<Rightarrow>
      if rate \<le> 0 then Inl ErrInvalidPrice
      else let adjusted = rate * spread_multiplier (s38_policy cfg) in
        Inr \<lparr>si_price = decimal (if sell = asset then 1 / adjusted else adjusted), si_sell_asset = sell,
          si_buy_asset = buy, si_buy_decimals = sep38_decimals buy asset,
          si_sell_decimals = sep38_decimals sell asset\<rparr>)"

text \<open>The quote of the policy behind a price, and its range.\<close>

definition fiat_in_range :: "sep38_config \<Rightarrow> idr \<Rightarrow> bool" where
  "fiat_in_range cfg a \<longleftrightarrow> \<not> (a < s38_min cfg \<or> a > s38_max cfg)"

definition quote_fiat :: "sep38_config \<Rightarrow> time \<Rightarrow> string \<Rightarrow> market_price \<Rightarrow> err + quote" where
  "quote_fiat cfg now amount m = (case parse_sep38_idr amount of
     Inl _ \<Rightarrow> Inl sep38_invalid
   | Inr a \<Rightarrow> if \<not> fiat_in_range cfg a then Inl sep38_invalid else quote_create (s38_policy cfg) now a m)"

definition quote_asset :: "sep38_config \<Rightarrow> time \<Rightarrow> string \<Rightarrow> market_price \<Rightarrow> err + quote" where
  "quote_asset cfg now amount m = (case parse_decimal_stroops amount of
     Inl _ \<Rightarrow> Inl sep38_invalid
   | Inr a \<Rightarrow> quote_create_reverse (s38_policy cfg) now a m)"

definition in_range :: "sep38_config \<Rightarrow> err + quote \<Rightarrow> err + quote" where
  "in_range cfg r = (case r of Inl e \<Rightarrow> Inl e
     | Inr q \<Rightarrow> if fiat_in_range cfg (fiat_amount q) then Inr q else Inl ErrAmountOutOfRange)"

definition price_idr_to_xlm :: "sep38_config \<Rightarrow> time \<Rightarrow> sep38_price_request \<Rightarrow> market_price \<Rightarrow> err + sep38_price" where
  "price_idr_to_xlm cfg now r m =
     (case (if pr_sell_amount r \<noteq> [] then quote_fiat cfg now (pr_sell_amount r) m
            else in_range cfg (quote_asset cfg now (pr_buy_amount r) m)) of
        Inl e \<Rightarrow> Inl e
      | Inr q \<Rightarrow> Inr \<lparr>sp_total = adjusted_rate q, sp_price = q_rate q,
          sp_sell_asset = pr_sell_asset r, sp_sell_amount = format_int (fiat_amount q),
          sp_buy_asset = pr_buy_asset r, sp_buy_amount = stroops_string (asset_amount q)\<rparr>)"

text \<open>\<open>Rat.Inv\<close> panics at zero.\<close>

definition zero_rate :: err where "zero_rate = ErrText ''panic: division by zero''"

definition price_xlm_to_idr :: "sep38_config \<Rightarrow> time \<Rightarrow> sep38_price_request \<Rightarrow> market_price \<Rightarrow> err + sep38_price" where
  "price_xlm_to_idr cfg now r m =
     (case in_range cfg (if pr_sell_amount r \<noteq> [] then quote_asset cfg now (pr_sell_amount r) m
                         else quote_fiat cfg now (pr_buy_amount r) m) of
        Inl e \<Rightarrow> Inl e
      | Inr q \<Rightarrow>
          case rat_set_string (q_rate q) of None \<Rightarrow> Inl ErrInvalidPrice | Some rate \<Rightarrow>
          case rat_set_string (adjusted_rate q) of None \<Rightarrow> Inl ErrInvalidPrice | Some adjusted \<Rightarrow>
          if adjusted = 0 \<or> rate = 0 then Inl zero_rate
          else Inr \<lparr>sp_total = decimal (1 / adjusted), sp_price = decimal (1 / rate),
            sp_sell_asset = pr_sell_asset r, sp_sell_amount = stroops_string (asset_amount q),
            sp_buy_asset = pr_buy_asset r, sp_buy_amount = format_int (fiat_amount q)\<rparr>)"

definition sep38_price_of :: "sep38_config \<Rightarrow> err + market_price \<Rightarrow> time \<Rightarrow> sep38_price_request \<Rightarrow> err + sep38_price" where
  "sep38_price_of cfg price now r0 =
     (let r = \<lparr>pr_sell_asset = trim_space (pr_sell_asset r0), pr_buy_asset = trim_space (pr_buy_asset r0),
            pr_sell_amount = trim_space (pr_sell_amount r0), pr_buy_amount = trim_space (pr_buy_amount r0)\<rparr> in
      if \<not> valid_sep38_pair_for (pr_sell_asset r) (pr_buy_asset r) (sep38_asset_identifier (s38_issuer cfg)) \<or>
         pr_sell_amount r = [] \<and> pr_buy_amount r = [] \<or> pr_sell_amount r \<noteq> [] \<and> pr_buy_amount r \<noteq> []
      then Inl sep38_invalid
      else case price of Inl e \<Rightarrow> Inl e
      | Inr m \<Rightarrow> if pr_sell_asset r = sep38_idr_asset then price_idr_to_xlm cfg now r m else price_xlm_to_idr cfg now r m)"

section \<open>Firm quotes\<close>

record sep38_quote_request =
  qr_sell_asset :: string
  qr_buy_asset :: string
  qr_sell_amount :: string
  qr_buy_amount :: string
  qr_sell_delivery :: string
  qr_buy_delivery :: string

record sep38_quote_view =
  qv_quote :: string
  qv_sell_asset :: string
  qv_buy_asset :: string
  qv_sell_amount :: string
  qv_buy_amount :: string
  qv_price :: string
  qv_spread :: int
  qv_delivery :: string
  qv_sell_delivery :: string
  qv_buy_delivery :: string
  qv_expires :: time

text \<open>\<open>validClassicAccount\<close> of \<open>sep24_interactive_usecase.go\<close>.\<close>

definition valid_classic_account :: "string \<Rightarrow> bool" where
  "valid_classic_account account \<longleftrightarrow> 2 \<le> length account \<and> has_prefix ''G'' account \<and>
     list_all (\<lambda>c. CHR ''A'' \<le> c \<and> c \<le> CHR ''Z'' \<or> CHR ''2'' \<le> c \<and> c \<le> CHR ''7'') account"

definition sep38_quote_config_error :: "sep38_config \<Rightarrow> err option" where
  "sep38_quote_config_error cfg =
     (if ttl (s38_policy cfg) \<le> 0 \<or> max_age (s38_policy cfg) \<le> 0 \<or> s38_min cfg \<le> 0 \<or> s38_max cfg < s38_min cfg
      then Some (ErrText ''valid SEP-38 quote dependencies and configuration are required'') else None)"

text \<open>Repository.\<close>

definition sep38_insert_quote :: "sep38_quote \<Rightarrow> unit repo" where
  "sep38_insert_quote q = act_bind (act_try (insert_sep38 q)) (\<lambda>r. case r of
     Inr _ \<Rightarrow> act_ret ()
   | Inl e \<Rightarrow> act_fail (if is_unique_violation e then ErrWallet Sep38QuoteConflict else e))"

definition sep38_find :: "string \<Rightarrow> string \<Rightarrow> sep38_quote repo" where
  "sep38_find wallet quote_id = or_missing (ErrWallet Sep38QuoteNotFound)
     (first_row (\<lambda>d. sep38_quotes (accts d)) sq_id (\<lambda>q. sq_wallet q = wallet \<and> sq_quote q = quote_id))"

definition sep38_consume :: "string \<Rightarrow> string \<Rightarrow> time \<Rightarrow> unit repo" where
  "sep38_consume wallet quote_id now =
     act_bind (update_sep38 (\<lambda>q. sq_wallet q = wallet \<and> sq_quote q = quote_id \<and> sq_consumed q = None \<and>
           timestamptz now < sq_expires q)
         (\<lambda>q. q\<lparr>sq_consumed := Some (timestamptz now), sq_updated := timestamptz now\<rparr>)) (\<lambda>n.
     if n = 1 then act_ret ()
     else act_bind (sep38_find wallet quote_id) (\<lambda>q.
       act_fail (ErrWallet (if sq_consumed q \<noteq> None then Sep38QuoteConsumed
         else if \<not> now < sq_expires q then Sep38QuoteExpired else Sep38QuoteConflict))))"

text \<open>Use case.\<close>

definition quote_sell_amount :: "sep38_quote_request \<Rightarrow> quote \<Rightarrow> string \<Rightarrow> string" where
  "quote_sell_amount r q asset =
     (if qr_sell_amount r \<noteq> [] then
        (if qr_sell_asset r = asset then
           (case parse_decimal_stroops (qr_sell_amount r) of Inr a \<Rightarrow> stroops_string a | Inl _ \<Rightarrow> qr_sell_amount r)
         else qr_sell_amount r)
      else if qr_sell_asset r = asset then stroops_string (asset_amount q)
      else format_int (fiat_amount q))"

definition quote_buy_amount :: "sep38_quote_request \<Rightarrow> quote \<Rightarrow> string \<Rightarrow> string" where
  "quote_buy_amount r q asset =
     (if qr_buy_amount r \<noteq> [] then
        (if qr_buy_asset r = asset then
           (case parse_decimal_stroops (qr_buy_amount r) of Inr a \<Rightarrow> stroops_string a | Inl _ \<Rightarrow> qr_buy_amount r)
         else qr_buy_amount r)
      else if qr_buy_asset r = sep38_idr_asset then format_int (fiat_amount q)
      else stroops_string (asset_amount q))"

definition quote_delivery_method :: "sep38_quote_request \<Rightarrow> string" where
  "quote_delivery_method r = (if qr_sell_asset r = sep38_idr_asset then qr_sell_delivery r else qr_buy_delivery r)"

definition sep38_quote_view_of :: "sep38_quote \<Rightarrow> sep38_quote_view" where
  "sep38_quote_view_of q =
     \<lparr>qv_quote = sq_quote q, qv_sell_asset = sq_sell_asset q, qv_buy_asset = sq_buy_asset q,
      qv_sell_amount = sq_sell_amount q, qv_buy_amount = sq_buy_amount q, qv_price = sq_price q,
      qv_spread = sq_spread q, qv_delivery = sq_delivery q,
      qv_sell_delivery = (if sq_sell_asset q = sep38_idr_asset then sq_delivery q else []),
      qv_buy_delivery = (if sq_buy_asset q = sep38_idr_asset then sq_delivery q else []),
      qv_expires = sq_expires q\<rparr>"

definition sep38_quote_of :: "sep38_config \<Rightarrow> time \<Rightarrow> sep38_quote_request \<Rightarrow> market_price \<Rightarrow> err + quote" where
  "sep38_quote_of cfg now r m =
     (if qr_sell_asset r = sep38_idr_asset then
        (if qr_sell_amount r \<noteq> [] then quote_fiat cfg now (qr_sell_amount r) m
         else in_range cfg (quote_asset cfg now (qr_buy_amount r) m))
      else
        (if qr_sell_amount r \<noteq> [] then in_range cfg (quote_asset cfg now (qr_sell_amount r) m)
         else quote_fiat cfg now (qr_buy_amount r) m))"

definition trimmed_quote_request :: "sep38_quote_request \<Rightarrow> sep38_quote_request" where
  "trimmed_quote_request r =
     \<lparr>qr_sell_asset = trim_space (qr_sell_asset r), qr_buy_asset = trim_space (qr_buy_asset r),
      qr_sell_amount = trim_space (qr_sell_amount r), qr_buy_amount = trim_space (qr_buy_amount r),
      qr_sell_delivery = trim_space (qr_sell_delivery r), qr_buy_delivery = trim_space (qr_buy_delivery r)\<rparr>"

definition default_delivery :: "sep38_quote_request \<Rightarrow> sep38_quote_request" where
  "default_delivery r =
     (if qr_sell_asset r = sep38_idr_asset
      then (if qr_sell_delivery r = [] then r\<lparr>qr_sell_delivery := ''xendit''\<rparr> else r)
      else (if qr_buy_delivery r = [] then r\<lparr>qr_buy_delivery := ''sandbox_bank_transfer''\<rparr> else r))"

definition sep38_quote_row :: "sep38_config \<Rightarrow> string \<Rightarrow> time \<Rightarrow> string \<Rightarrow> sep38_quote_request \<Rightarrow> quote \<Rightarrow> sep38_quote" where
  "sep38_quote_row cfg account now i r q =
     (let asset = sep38_asset_identifier (s38_issuer cfg) in
      \<lparr>sq_id = i, sq_quote = ''quote-'' @ i, sq_wallet = account, sq_sell_asset = qr_sell_asset r,
       sq_buy_asset = qr_buy_asset r, sq_sell_amount = quote_sell_amount r q asset,
       sq_buy_amount = quote_buy_amount r q asset, sq_price = q_rate q, sq_spread = q_spread_bps q,
       sq_delivery = quote_delivery_method r, sq_expires = q_expires_at q, sq_consumed = None,
       sq_created = now, sq_updated = now\<rparr>)"

definition sep38_quote_create ::
  "sep38_config \<Rightarrow> err + market_price \<Rightarrow> sep10_principal \<Rightarrow> sep38_quote_request \<Rightarrow> sep38_quote_view repo" where
  "sep38_quote_create cfg price who request =
     act_bind (act_guard (valid_classic_account (trim_space (wp_account who))) (ErrWallet Sep10InvalidAccount)) (\<lambda>_.
     let r = trimmed_quote_request request; asset = sep38_asset_identifier (s38_issuer cfg) in
     act_bind (act_guard (valid_sep38_pair_for (qr_sell_asset r) (qr_buy_asset r) asset \<and>
         (qr_sell_amount r = []) \<noteq> (qr_buy_amount r = [])) sep38_invalid) (\<lambda>_.
     act_bind (act_lift price) (\<lambda>m.
     act_bind now_utc (\<lambda>now.
     act_bind (act_lift (sep38_quote_of cfg now (default_delivery r) m)) (\<lambda>q.
     act_bind new_id (\<lambda>i.
     act_bind (act_guard (trim_space i \<noteq> []) sep38_invalid) (\<lambda>_.
     let row = sep38_quote_row cfg (trim_space (wp_account who)) now (trim_space i) (default_delivery r) q in
     act_bind (sep38_insert_quote row) (\<lambda>_.
     act_ret (sep38_quote_view_of row)))))))))"

definition sep38_quote_get :: "sep10_principal \<Rightarrow> string \<Rightarrow> sep38_quote_view repo" where
  "sep38_quote_get who quote_id =
     act_bind (act_guard (valid_classic_account (trim_space (wp_account who))) (ErrWallet Sep10InvalidAccount)) (\<lambda>_.
     act_bind (sep38_find (trim_space (wp_account who)) (trim_space quote_id)) (\<lambda>q.
     act_bind now_utc (\<lambda>now.
     act_bind (act_guard (now < sq_expires q) (ErrWallet Sep38QuoteExpired)) (\<lambda>_.
     act_bind (act_guard (sq_consumed q = None) (ErrWallet Sep38QuoteConsumed)) (\<lambda>_.
     act_ret (sep38_quote_view_of q))))))"

definition sep38_quote_consume :: "sep10_principal \<Rightarrow> string \<Rightarrow> unit repo" where
  "sep38_quote_consume who quote_id =
     act_bind (act_guard (valid_classic_account (trim_space (wp_account who))) (ErrWallet Sep10InvalidAccount)) (\<lambda>_.
     act_bind now_utc (\<lambda>now.
     sep38_consume (trim_space (wp_account who)) (trim_space quote_id) now))"

end
