(* ===== verification/Sep10.thy ===== *)
theory Sep10
  imports Sep38 Webhook_Usecase
begin

text \<open>
  SEP-10, the proof that a caller controls a Stellar account: \<open>internal/usecase/sep10_usecase.go\<close> over
  \<open>internal/repository/sep10_repository.go\<close> and the signer of \<open>internal/adapter/stellar/sep10_signer.go\<close>.
  The Stellar SDK (building, reading and verifying challenge transactions), the JSON web tokens of
  go-jose and SHA-256 are the parameters \<open>sep10_sdk\<close>; a transaction is its envelope text.
\<close>

record sep10_claims =
  jc_issuer :: string
  jc_subject :: string
  jc_audience :: "string list"
  jc_expiry :: int
  jc_issued :: int
  jc_id :: string
  jc_account :: string

record sep10_sdk =
  sk_address :: "string \<Rightarrow> bool"
  sk_build :: "string \<Rightarrow> err + string"
  sk_hash :: "string \<Rightarrow> err + byte list"
  sk_base64 :: "string \<Rightarrow> err + string"
  sk_read :: "string \<Rightarrow> err + string \<times> string \<times> string"
  sk_signers :: "string \<Rightarrow> string \<Rightarrow> bool"
  sk_sign :: "byte list \<Rightarrow> sep10_claims \<Rightarrow> err + string"
  sk_parse :: "byte list \<Rightarrow> string \<Rightarrow> sep10_claims option"
  sk_validate :: "sep10_claims \<Rightarrow> string \<Rightarrow> string \<Rightarrow> time \<Rightarrow> bool"
  sk_sha256 :: "byte list \<Rightarrow> byte list"

record sep10_config =
  s10_network :: string
  s10_home :: string
  s10_challenge_ttl :: duration
  s10_token_ttl :: duration
  s10_issuer :: string
  s10_audience :: string
  s10_secret :: string

definition sep10_config_error :: "sep10_config \<Rightarrow> err option" where
  "sep10_config_error cfg =
     (if trim_space (s10_network cfg) = [] \<or> trim_space (s10_home cfg) = [] \<or> s10_challenge_ttl cfg \<le> 0 \<or>
         s10_token_ttl cfg \<le> 0 \<or> trim_space (s10_issuer cfg) = [] \<or> trim_space (s10_audience cfg) = [] \<or>
         trim_space (s10_secret cfg) = []
      then Some (ErrText ''valid SEP-10 dependencies and configuration are required'') else None)"

section \<open>Signer\<close>

definition validate_account :: "sep10_sdk \<Rightarrow> string \<Rightarrow> bool" where
  "validate_account sdk account0 \<longleftrightarrow>
     (let account = trim_space account0 in account \<noteq> [] \<and> has_prefix ''G'' account \<and> sk_address sdk account)"

definition build_challenge :: "sep10_sdk \<Rightarrow> string \<Rightarrow> err + string \<times> byte list" where
  "build_challenge sdk account =
     (if \<not> validate_account sdk account then Inl (ErrText ''invalid Stellar account'')
      else case sk_build sdk account of Inl e \<Rightarrow> Inl e
      | Inr tx \<Rightarrow> case sk_hash sdk tx of Inl e \<Rightarrow> Inl e
      | Inr h \<Rightarrow> case sk_base64 sdk tx of Inl e \<Rightarrow> Inl e
      | Inr text \<Rightarrow> Inr (text, h))"

definition verify_challenge :: "sep10_sdk \<Rightarrow> string \<Rightarrow> string \<Rightarrow> err + string \<times> byte list" where
  "verify_challenge sdk home challenge = (case sk_read sdk challenge of Inl e \<Rightarrow> Inl e
   | Inr (tx, account, matched) \<Rightarrow>
       if matched \<noteq> home then Inl (ErrText ''SEP-10 home domain mismatch'')
       else if \<not> validate_account sdk account then Inl (ErrText ''invalid Stellar account'')
       else if \<not> sk_signers sdk challenge account then Inl (ErrText ''verifying SEP-10 wallet signature'')
       else case sk_hash sdk tx of Inl e \<Rightarrow> Inl e | Inr h \<Rightarrow> Inr (account, h))"

section \<open>Repository\<close>

definition sep10_find_by_hash :: "byte list \<Rightarrow> sep10_challenge repo" where
  "sep10_find_by_hash h = or_missing (ErrWallet Sep10ChallengeNotFound)
     (first_row (\<lambda>d. sep10_challenges (accts d)) sc_id (\<lambda>c. sc_hash c = h))"

definition sep10_consume :: "string \<Rightarrow> time \<Rightarrow> unit repo" where
  "sep10_consume challenge_id now =
     act_bind (update_sep10 (\<lambda>c. sc_id c = challenge_id \<and> sc_consumed c = None) (\<lambda>c. c\<lparr>sc_consumed := Some now\<rparr>)) (\<lambda>n.
     if n = 1 then act_ret ()
     else act_bind (act_try (first_row (\<lambda>d. sep10_challenges (accts d)) sc_id (\<lambda>c. sc_id c = challenge_id))) (\<lambda>r.
       act_fail (ErrWallet (case r of
         Inl e \<Rightarrow> if errors_is e ErrRecordNotFound then Sep10ChallengeNotFound else Sep10ChallengeConsumed
       | Inr _ \<Rightarrow> Sep10ChallengeConsumed))))"

section \<open>Use case\<close>

definition sep10_token_key :: "sep10_sdk \<Rightarrow> string \<Rightarrow> byte list" where
  "sep10_token_key sdk secret = sk_sha256 sdk (str_bytes (''kailopay/sep10/jwt/'' @ secret))"

definition sep10_start :: "sep10_sdk \<Rightarrow> sep10_config \<Rightarrow> string \<Rightarrow> (string \<times> time) repo" where
  "sep10_start sdk cfg account0 =
     (let account = trim_space account0 in
      act_bind (act_guard (account \<noteq> [] \<and> validate_account sdk account) (ErrWallet Sep10InvalidAccount)) (\<lambda>_.
      case build_challenge sdk account of Inl _ \<Rightarrow> act_fail (ErrWallet Sep10InvalidChallenge)
      | Inr (tx, h) \<Rightarrow>
          act_bind (act_guard (trim_space tx \<noteq> [] \<and> h \<noteq> []) (ErrWallet Sep10InvalidChallenge)) (\<lambda>_.
          act_bind now_utc (\<lambda>now.
          act_bind new_id (\<lambda>i.
          act_bind (insert_sep10 \<lparr>sc_id = i, sc_hash = h, sc_account = account, sc_domain = s10_home cfg,
            sc_network = s10_network cfg, sc_expires = now + s10_challenge_ttl cfg, sc_consumed = None, sc_created = now\<rparr>) (\<lambda>_.
          act_ret (tx, now + s10_challenge_ttl cfg)))))))"

definition sep10_claims_of :: "sep10_config \<Rightarrow> string \<Rightarrow> time \<Rightarrow> string \<Rightarrow> sep10_claims" where
  "sep10_claims_of cfg account now token_id =
     \<lparr>jc_issuer = s10_issuer cfg, jc_subject = account, jc_audience = [s10_audience cfg],
      jc_expiry = unix_seconds (now + s10_token_ttl cfg), jc_issued = unix_seconds now, jc_id = token_id,
      jc_account = account\<rparr>"

definition sep10_exchange :: "sep10_sdk \<Rightarrow> sep10_config \<Rightarrow> string \<Rightarrow> (string \<times> time) repo" where
  "sep10_exchange sdk cfg signed0 =
     (let signed = trim_space signed0 in
      act_bind (act_guard (\<not> (signed = [] \<or> 2 ^ 20 < length signed)) (ErrWallet Sep10InvalidChallenge)) (\<lambda>_.
      case verify_challenge sdk (s10_home cfg) signed of Inl _ \<Rightarrow> act_fail (ErrWallet Sep10InvalidChallenge)
      | Inr (account, h) \<Rightarrow>
          act_bind (act_try (sep10_find_by_hash h)) (\<lambda>r. case r of
            Inl e \<Rightarrow> act_fail (if errors_is e (ErrWallet Sep10ChallengeNotFound) then ErrWallet Sep10InvalidChallenge else e)
          | Inr c \<Rightarrow>
              act_bind (act_guard (sc_hash c = h) (ErrWallet Sep10InvalidChallenge)) (\<lambda>_.
              act_bind now_utc (\<lambda>now.
              act_bind (act_guard (sc_consumed c = None) (ErrWallet Sep10ChallengeConsumed)) (\<lambda>_.
              act_bind (act_guard (now < sc_expires c) (ErrWallet Sep10ChallengeExpired)) (\<lambda>_.
              act_bind (act_guard (account = sc_account c) (ErrWallet Sep10AccountMismatch)) (\<lambda>_.
              act_bind (sep10_consume (sc_id c) now) (\<lambda>_.
              act_bind new_id (\<lambda>token_id.
              act_bind (act_lift (sk_sign sdk (sep10_token_key sdk (s10_secret cfg)) (sep10_claims_of cfg account now token_id))) (\<lambda>token.
              act_ret (token, now + s10_token_ttl cfg))))))))))))"

definition sep10_authenticate :: "sep10_sdk \<Rightarrow> sep10_config \<Rightarrow> time \<Rightarrow> string \<Rightarrow> err + sep10_principal" where
  "sep10_authenticate sdk cfg now token0 =
     (let token = trim_space token0 in
      if token = [] \<or> 8192 < length token then Inl (ErrWallet Sep10InvalidToken)
      else case sk_parse sdk (sep10_token_key sdk (s10_secret cfg)) token of None \<Rightarrow> Inl (ErrWallet Sep10InvalidToken)
      | Some c \<Rightarrow>
          if \<not> sk_validate sdk c (s10_issuer cfg) (s10_audience cfg) now then Inl (ErrWallet Sep10InvalidToken)
          else if jc_account c = [] \<or> jc_account c \<noteq> jc_subject c \<or> jc_id c = [] \<or> \<not> validate_account sdk (jc_account c)
          then Inl (ErrWallet Sep10InvalidToken)
          else Inr \<lparr>wp_account = jc_account c, wp_token = jc_id c\<rparr>)"

end
