(* ===== verification/Wallets.thy ===== *)
theory Wallets
  imports Sep10
begin

text \<open>
  Wallets of developers: \<open>internal/usecase/developer_wallet_usecase.go\<close> over
  \<open>internal/repository/developer_wallet_repository.go\<close>. A wallet is registered under a SEP-10 token of
  its account; of the active wallets of a user on a network at most one is the primary one.
  The view of a wallet has the fields of its row.
\<close>

record wallet_input =
  wi_client :: string
  wi_network :: string
  wi_account :: string
  wi_label :: string
  wi_primary :: bool
  wi_token :: string

record wallet_update =
  wu_label :: "string option"
  wu_primary :: "bool option"

record wallet_view =
  wv_id :: string
  wv_user :: string
  wv_client :: string
  wv_network :: string
  wv_account :: string
  wv_label :: string
  wv_primary :: bool
  wv_method :: string
  wv_verified :: time
  wv_status :: string
  wv_revoked :: "time option"
  wv_created :: time
  wv_updated :: time

abbreviation wallet_missing :: err where "wallet_missing \<equiv> ErrWallet DeveloperWalletNotFound"
abbreviation wallet_invalid :: err where "wallet_invalid \<equiv> ErrWallet InvalidDeveloperWallet"

section \<open>The table\<close>

text \<open>The checks and unique indexes of migration 000013.\<close>

definition is_primary_of :: "developer_wallet \<Rightarrow> (string \<times> string) option" where
  "is_primary_of r = (if dw_primary r \<and> dw_status r = ''active'' then Some (dw_user r, dw_network r) else None)"

definition wallet_clash :: "developer_wallet \<Rightarrow> developer_wallet \<Rightarrow> bool" where
  "wallet_clash a b \<longleftrightarrow> dw_id a = dw_id b \<or>
     dw_user a = dw_user b \<and> dw_network a = dw_network b \<and> dw_account a = dw_account b \<or>
     same_some (is_primary_of a) (is_primary_of b)"

definition wallet_checked :: "developer_wallet \<Rightarrow> bool" where
  "wallet_checked r \<longleftrightarrow> dw_network r = ''stellar_testnet'' \<and> dw_method r = ''sep10'' \<and>
     (dw_status r = ''active'' \<or> dw_status r = ''revoked'') \<and> (dw_status r = ''revoked'' \<longleftrightarrow> dw_revoked r \<noteq> None)"

definition insert_wallet :: "developer_wallet \<Rightarrow> unit repo" where
  "insert_wallet r = act_bind (act_guard (wallet_checked r) ErrCheckViolation) (\<lambda>_.
     insert_row wallet_clash (\<lambda>d. developer_wallets (accts d)) (put_acc developer_wallets_update) r)"

section \<open>Repository\<close>

definition developer_wallet_view :: "developer_wallet \<Rightarrow> wallet_view" where
  "developer_wallet_view r =
     \<lparr>wv_id = dw_id r, wv_user = dw_user r, wv_client = (case dw_client r of None \<Rightarrow> [] | Some c \<Rightarrow> c),
      wv_network = dw_network r, wv_account = dw_account r, wv_label = dw_label r, wv_primary = dw_primary r,
      wv_method = dw_method r, wv_verified = dw_verified r, wv_status = dw_status r, wv_revoked = dw_revoked r,
      wv_created = dw_created r, wv_updated = dw_updated r\<rparr>"

text \<open>gorm's \<open>Update\<close> of one column sets \<open>updated_at\<close> as well, to its own clock.\<close>

definition demote_primary :: "string \<Rightarrow> string \<Rightarrow> string \<Rightarrow> unit repo" where
  "demote_primary user_id network except_id =
     act_bind now_utc (\<lambda>now.
     act_bind (update_wallets (\<lambda>r. dw_user r = user_id \<and> dw_network r = network \<and> dw_status r = ''active'' \<and>
         dw_primary r \<and> (except_id = [] \<or> dw_id r \<noteq> except_id)) (\<lambda>r. r\<lparr>dw_primary := False, dw_updated := now\<rparr>)) (\<lambda>_.
     act_ret ()))"

definition client_active :: "developer_wallet \<Rightarrow> unit repo" where
  "client_active wallet = (case dw_client wallet of
     None \<Rightarrow> act_ret ()
   | Some client \<Rightarrow>
       act_bind (or_missing wallet_missing (first_row api_clients ac_id (\<lambda>c. ac_id c = client \<and> ac_owner c = dw_user wallet))) (\<lambda>c.
       act_guard (ac_status c = ''active'') wallet_missing))"

definition renewed :: "developer_wallet \<Rightarrow> developer_wallet \<Rightarrow> developer_wallet" where
  "renewed wallet r = r\<lparr>dw_client := dw_client wallet, dw_label := dw_label wallet, dw_primary := dw_primary wallet,
     dw_method := dw_method wallet, dw_verified := dw_verified wallet, dw_status := ''active'', dw_revoked := None,
     dw_updated := dw_updated wallet\<rparr>"

definition wallet_upsert :: "developer_wallet \<Rightarrow> wallet_view repo" where
  "wallet_upsert wallet = tx_body (
     act_bind (client_active wallet) (\<lambda>_.
     act_bind (optional_row (first_row (\<lambda>d. developer_wallets (accts d)) dw_id (\<lambda>r. dw_user r = dw_user wallet \<and>
         dw_network r = dw_network wallet \<and> dw_account r = dw_account wallet))) (\<lambda>found.
     case found of
       None \<Rightarrow>
         act_bind (if dw_primary wallet then demote_primary (dw_user wallet) (dw_network wallet) [] else act_ret ()) (\<lambda>_.
         act_bind (insert_wallet wallet) (\<lambda>_.
         act_ret (developer_wallet_view wallet)))
     | Some r \<Rightarrow>
         act_bind (if dw_primary wallet then demote_primary (dw_user wallet) (dw_network wallet) (dw_id r) else act_ret ()) (\<lambda>_.
         act_bind (update_wallets (\<lambda>q. dw_id q = dw_id r) (renewed wallet)) (\<lambda>_.
         act_ret (developer_wallet_view (renewed wallet r)))))))"

definition wallet_list :: "string \<Rightarrow> wallet_view list repo" where
  "wallet_list user_id = act_bind (select (\<lambda>d. rev (sort_key (\<lambda>r. (dw_updated r, dw_id r))
       (filter (\<lambda>r. dw_user r = user_id) (developer_wallets (accts d)))))) (\<lambda>rows.
     act_ret (List.map developer_wallet_view rows))"

definition settings :: "wallet_update \<Rightarrow> time \<Rightarrow> developer_wallet \<Rightarrow> developer_wallet" where
  "settings u now r = r\<lparr>dw_updated := now, dw_label := (case wu_label u of None \<Rightarrow> dw_label r | Some l \<Rightarrow> l),
     dw_primary := (case wu_primary u of None \<Rightarrow> dw_primary r | Some p \<Rightarrow> p)\<rparr>"

definition wallet_repo_update :: "string \<Rightarrow> string \<Rightarrow> wallet_update \<Rightarrow> time \<Rightarrow> wallet_view repo" where
  "wallet_repo_update user_id wallet_id u now = tx_body (
     act_bind (or_missing wallet_missing (first_row (\<lambda>d. developer_wallets (accts d)) dw_id
         (\<lambda>r. dw_id r = wallet_id \<and> dw_user r = user_id))) (\<lambda>r.
     act_bind (act_guard (dw_status r = ''active'') wallet_missing) (\<lambda>_.
     act_bind (if wu_primary u = Some True then demote_primary user_id (dw_network r) (dw_id r) else act_ret ()) (\<lambda>_.
     act_bind (update_wallets (\<lambda>q. dw_id q = dw_id r) (settings u now)) (\<lambda>_.
     act_ret (developer_wallet_view (settings u now r)))))))"

definition wallet_revoke :: "string \<Rightarrow> string \<Rightarrow> time \<Rightarrow> unit repo" where
  "wallet_revoke user_id wallet_id now =
     act_bind (update_wallets (\<lambda>r. dw_id r = wallet_id \<and> dw_user r = user_id \<and> dw_status r = ''active'')
       (\<lambda>r. r\<lparr>dw_status := ''revoked'', dw_primary := False, dw_revoked := Some now, dw_updated := now\<rparr>)) (\<lambda>n.
     if n = 1 then act_ret ()
     else act_bind (act_try (first_row (\<lambda>d. developer_wallets (accts d)) dw_id
         (\<lambda>r. dw_id r = wallet_id \<and> dw_user r = user_id))) (\<lambda>r. case r of
       Inl e \<Rightarrow> if errors_is e ErrRecordNotFound then act_fail wallet_missing else act_ret ()
     | Inr _ \<Rightarrow> act_ret ()))"

section \<open>Use case\<close>

text \<open>\<open>proof\<close> is the verifier of tokens at a time, \<open>sep10_authenticate\<close> in the program.\<close>

definition register_wallet ::
  "string \<Rightarrow> (time \<Rightarrow> string \<Rightarrow> err + sep10_principal) \<Rightarrow> string \<Rightarrow> wallet_input \<Rightarrow> wallet_view repo" where
  "register_wallet network prf user0 input =
     (let user_id = trim_space user0; client = trim_space (wi_client input); net = trim_space (wi_network input);
          account = trim_space (wi_account input); label = trim_space (wi_label input); token = trim_space (wi_token input) in
      act_bind (act_guard (\<not> (user_id = [] \<or> net \<noteq> network \<or> account = [] \<or> 100 < length account \<or> label = [] \<or>
          100 < length label \<or> token = [] \<or> 8192 < length token)) wallet_invalid) (\<lambda>_.
      act_bind now_utc (\<lambda>checked.
      case prf checked token of Inl _ \<Rightarrow> act_fail (ErrWallet DeveloperWalletProofRequired)
      | Inr who \<Rightarrow>
          act_bind (act_guard (wp_account who = account) (ErrWallet DeveloperWalletAccountMismatch)) (\<lambda>_.
          act_bind new_id (\<lambda>i.
          act_bind now_utc (\<lambda>now.
          wallet_upsert \<lparr>dw_id = i, dw_user = user_id, dw_client = (if client = [] then None else Some client),
            dw_network = net, dw_account = account, dw_label = label, dw_primary = wi_primary input,
            dw_method = ''sep10'', dw_verified = now, dw_status = ''active'', dw_revoked = None,
            dw_created = now, dw_updated = now\<rparr>))))))"

definition list_wallets :: "string \<Rightarrow> wallet_view list repo" where
  "list_wallets user_id =
     act_bind (act_guard (trim_space user_id \<noteq> []) wallet_invalid) (\<lambda>_. wallet_list (trim_space user_id))"

definition update_wallet :: "string \<Rightarrow> string \<Rightarrow> wallet_update \<Rightarrow> wallet_view repo" where
  "update_wallet user_id wallet_id u =
     act_bind (act_guard (\<not> (trim_space user_id = [] \<or> trim_space wallet_id = [] \<or>
         (case wu_label u of None \<Rightarrow> False | Some l \<Rightarrow> trim_space l = [] \<or> 100 < length (trim_space l)))) wallet_invalid) (\<lambda>_.
     act_bind (act_guard (\<not> (wu_label u = None \<and> wu_primary u = None)) wallet_invalid) (\<lambda>_.
     act_bind now_utc (\<lambda>now.
     wallet_repo_update (trim_space user_id) (trim_space wallet_id) (u\<lparr>wu_label := map_option trim_space (wu_label u)\<rparr>) now)))"

definition revoke_wallet :: "string \<Rightarrow> string \<Rightarrow> unit repo" where
  "revoke_wallet user_id wallet_id =
     act_bind (act_guard (\<not> (trim_space user_id = [] \<or> trim_space wallet_id = [])) wallet_invalid) (\<lambda>_.
     act_bind now_utc (\<lambda>now.
     wallet_revoke (trim_space user_id) (trim_space wallet_id) now))"

end
