(* ===== verification/Sep38_Prices.thy ===== *)
theory Sep38_Prices
  imports Sep38 Amount_Formats
begin

text \<open>
  The prices of SEP-38: what the decimal text of a rate denotes, that a rate behind a price is never
  zero, and the amounts of a price and of a firm quote.
\<close>

section \<open>Rounding to eighteen decimals\<close>

definition round18 :: "rat \<Rightarrow> rat" where
  "round18 x = of_int \<lfloor>x * 10 ^ 18 + 1 / 2\<rfloor> / 10 ^ 18"

lemma floor_halves:
  fixes n :: int and b c :: int
  assumes "0 < b" "0 \<le> c" "c < b"
  shows "\<lfloor>of_int n + of_int c / of_int b + 1 / (2::rat)\<rfloor> = (if b \<le> c + c then n + 1 else n)"
proof -
  let ?q = "of_int c / of_int b :: rat"
  have c: "(of_int c :: rat) < of_int b" "(0::rat) \<le> of_int c" "(0::rat) < of_int b" using assms by simp_all
  then have q: "0 \<le> ?q" "?q < 1" by simp_all
  have h: "b \<le> c + c \<longleftrightarrow> 1 / 2 \<le> ?q"
  proof -
    have "1 / 2 \<le> ?q \<longleftrightarrow> (of_int b :: rat) \<le> of_int c + of_int c"
      using c by (simp add: pos_le_divide_eq mult.commute)
    also have "\<dots> \<longleftrightarrow> b \<le> c + c" by (simp only: of_int_le_iff flip: of_int_add)
    finally show ?thesis by simp
  qed
  have fl: "\<lfloor>of_int n + y + 1 / 2\<rfloor> = (if 1 / 2 \<le> y then n + 1 else n)" if "0 \<le> y" "y < 1" for y :: rat
    using that by (cases "1 / 2 \<le> y") (auto intro!: floor_unique)
  show ?thesis using fl [OF q] h by simp
qed

text \<open>The text of a rate is the text of the rounded rate.\<close>

lemma float_parts_rounded:
  fixes a b :: int and p :: nat
  assumes b: "0 < b" and a: "0 \<le> a"
  defines "k \<equiv> \<lfloor>(of_int a / of_int b) * 10 ^ p + 1 / (2::rat)\<rfloor>"
  shows "float_parts p a b = (k div 10 ^ p, k mod 10 ^ p)"
proof -
  define q r0 where q: "q = a div b" and r0: "r0 = (a mod b) * 10 ^ p"
  define r r2 where r: "r = r0 div b" and r2: "r2 = r0 mod b"
  have r2b: "0 \<le> r2" "r2 < b" using b by (simp_all add: r2)
  have "(a mod b) * 10 ^ p < b * 10 ^ p" using b pos_mod_bound [OF b, of a] by simp
  then have "r0 < 10 ^ p * b" by (simp add: r0 mult.commute)
  moreover have "r0 = r * b + r2" by (simp add: r r2)
  ultimately have "r * b < 10 ^ p * b" using r2b(1) by linarith
  then have rb: "r < 10 ^ p" using b by simp
  have r1: "0 \<le> r" using b a by (simp add: r r0 pos_imp_zdiv_nonneg_iff)
  have "a * 10 ^ p = (q * 10 ^ p + r) * b + r2"
  proof -
    have "a = q * b + a mod b" by (simp add: q)
    then have "a * 10 ^ p = q * b * 10 ^ p + r0" by (metis distrib_right r0)
    moreover have "r0 = r * b + r2" by (simp add: r r2)
    ultimately show ?thesis by (simp add: algebra_simps)
  qed
  then have "(of_int a * 10 ^ p :: rat) = of_int ((q * 10 ^ p + r) * b + r2)"
    by (metis of_int_mult of_int_numeral of_int_power)
  then have "(of_int a / of_int b) * 10 ^ p = (of_int (q * 10 ^ p + r) + of_int r2 / of_int b :: rat)"
    using b by (simp add: field_simps)
  then have k: "k = (if b \<le> r2 + r2 then q * 10 ^ p + r + 1 else q * 10 ^ p + r)"
    unfolding k_def using floor_halves [OF b r2b, of "q * 10 ^ p + r"] by simp
  have fp: "float_parts p a b = (if b \<le> r2 + r2 then (if 10 ^ p \<le> r + 1 then (q + 1, r + 1 - 10 ^ p) else (q, r + 1)) else (q, r))"
    unfolding float_parts_def Let_def q r r2 r0 ..
  have dm: "(q * 10 ^ p + s) div 10 ^ p = q \<and> (q * 10 ^ p + s) mod 10 ^ p = s" if "0 \<le> s" "s < 10 ^ p" for s :: int
    using that by simp
  show ?thesis
  proof (cases "b \<le> r2 + r2")
    case True
    show ?thesis
    proof (cases "10 ^ p \<le> r + 1")
      case full: True
      with rb have e: "r + 1 = 10 ^ p" by simp
      then have "k = (q + 1) * 10 ^ p" using True k by (simp add: algebra_simps)
      then show ?thesis unfolding fp using True full e by simp
    next
      case False
      then show ?thesis unfolding fp k using True dm [of "r + 1"] r1 by (simp add: add.assoc)
    qed
  next
    case False
    then show ?thesis unfolding fp k using dm [of r] r1 rb by simp
  qed
qed

lemma decimal_round18:
  assumes "0 \<le> x"
  shows "decimal x = decimal (round18 x)"
proof -
  let ?k = "\<lfloor>x * 10 ^ 18 + 1 / 2\<rfloor>"
  obtain a b where q: "quotient_of x = (a, b)" by (cases "quotient_of x")
  then have v: "x = of_int a / of_int b" "0 < b" using quotient_of_value by auto
  with assms have a0: "0 \<le> a" by (simp add: zero_le_divide_iff)
  have k0: "0 \<le> ?k" using assms by simp
  obtain a' b' where q': "quotient_of (round18 x) = (a', b')" by (cases "quotient_of (round18 x)")
  then have v': "round18 x = of_int a' / of_int b'" "0 < b'" using quotient_of_value by auto
  have "0 \<le> round18 x" using k0 by (simp add: round18_def)
  with v' have a0': "0 \<le> a'" by (simp add: zero_le_divide_iff)
  have "round18 x * 10 ^ 18 + 1 / 2 = of_int ?k + 1 / (2::rat)" by (simp add: round18_def)
  then have "\<lfloor>round18 x * 10 ^ 18 + 1 / 2\<rfloor> = ?k" by (simp add: floor_unique)
  with float_parts_rounded [OF v'(2) a0', of 18] float_parts_rounded [OF v(2) a0, of 18] v v'
  have "float_parts 18 a' b' = float_parts 18 a b" by simp
  then have "float_string 18 (round18 x) = float_string 18 x"
    using a0 a0' by (simp add: float_string_def q q')
  then show ?thesis by (simp add: decimal_def)
qed

lemma decimal_value:
  assumes "0 \<le> x"
  shows "rat_set_string (decimal x) = Some (round18 x)"
  unfolding decimal_round18 [OF assms]
  by (rule decimal_set_string [where k = "\<lfloor>x * 10 ^ 18 + 1 / 2\<rfloor>"]) (use assms in \<open>simp_all add: round18_def\<close>)

lemma round18_pos: "1 / 10 ^ 18 \<le> x \<Longrightarrow> 0 < round18 x"
proof -
  assume "1 / 10 ^ 18 \<le> x"
  then have "1 \<le> x * 10 ^ 18 + 1 / 2" by (simp add: field_simps)
  then have "1 \<le> \<lfloor>x * 10 ^ 18 + 1 / 2\<rfloor>" by simp
  then show ?thesis by (simp add: round18_def)
qed

section \<open>Prices\<close>

text \<open>A quote of the policy: the rate is far from zero, since an amount of at most 64 bits is worth a rupiah.\<close>

lemma quoted_rate:
  assumes "0 < adj" and "0 < f" and "0 < s" "s \<le> int64_max"
    and "s = buy_floor adj f \<or> f = sell_floor adj s"
  shows "1 / 10 ^ 13 \<le> adj"
proof -
  have "of_int f * 10 ^ 7 < (2::rat) ^ 63 * adj"
  proof -
    have m: "(of_int s :: rat) + 1 \<le> 2 ^ 63"
    proof -
      have "s + 1 \<le> 2 ^ 63" using assms(4) by (simp add: int64_max_def)
      then show ?thesis by (metis of_int_1 of_int_add of_int_le_iff of_int_numeral of_int_power)
    qed
    from assms(5) have "of_int f * 10 ^ 7 < (of_int s + 1) * adj"
    proof
      assume "s = buy_floor adj f"
      with buy_floor_bounds(2) [OF assms(1), of f] show ?thesis by (simp add: stroops_per_xlm_def)
    next
      assume "f = sell_floor adj s"
      with sell_floor_bounds(1) [of adj s] have "of_int f * 10 ^ 7 \<le> of_int s * adj" by (simp add: stroops_per_xlm_def)
      with assms(1) show ?thesis by (simp add: distrib_right)
    qed
    also have "\<dots> \<le> 2 ^ 63 * adj" using m assms(1) by (intro mult_right_mono) simp_all
    finally show ?thesis .
  qed
  moreover have "(10::rat) ^ 7 \<le> of_int f * 10 ^ 7" using assms(2) by simp
  ultimately have "(10::rat) ^ 7 < 2 ^ 63 * adj" by linarith
  then show ?thesis by simp
qed

definition quoted :: "sep38_config \<Rightarrow> time \<Rightarrow> market_price \<Rightarrow> quote \<Rightarrow> bool" where
  "quoted cfg now m q \<longleftrightarrow>
     quote_create (s38_policy cfg) now (fiat_amount q) m = Inr q \<or>
     (\<exists>s. 0 < s \<and> s \<le> int64_max \<and> asset_amount q = s \<and> quote_create_reverse (s38_policy cfg) now s m = Inr q)"

lemma quote_fiat_Inr:
  "quote_fiat cfg now amount m = Inr q \<longleftrightarrow> parse_sep38_idr amount = Inr (fiat_amount q) \<and>
     fiat_in_range cfg (fiat_amount q) \<and> quote_create (s38_policy cfg) now (fiat_amount q) m = Inr q"
proof
  assume "quote_fiat cfg now amount m = Inr q"
  then obtain a where a: "parse_sep38_idr amount = Inr a" "fiat_in_range cfg a" "quote_create (s38_policy cfg) now a m = Inr q"
    by (auto simp: quote_fiat_def split: sum.splits if_splits)
  then have "fiat_amount q = a" by (auto simp: quote_create_Inr Let_def)
  with a show "parse_sep38_idr amount = Inr (fiat_amount q) \<and>
     fiat_in_range cfg (fiat_amount q) \<and> quote_create (s38_policy cfg) now (fiat_amount q) m = Inr q" by simp
qed (simp add: quote_fiat_def)

lemma quote_asset_Inr:
  "quote_asset cfg now amount m = Inr q \<longleftrightarrow> parse_decimal_stroops amount = Inr (asset_amount q) \<and>
     quote_create_reverse (s38_policy cfg) now (asset_amount q) m = Inr q"
proof
  assume "quote_asset cfg now amount m = Inr q"
  then obtain a where a: "parse_decimal_stroops amount = Inr a" "quote_create_reverse (s38_policy cfg) now a m = Inr q"
    by (auto simp: quote_asset_def split: sum.splits)
  then have "asset_amount q = a" by (auto simp: quote_create_reverse_Inr Let_def)
  with a show "parse_decimal_stroops amount = Inr (asset_amount q) \<and>
     quote_create_reverse (s38_policy cfg) now (asset_amount q) m = Inr q" by simp
qed (simp add: quote_asset_def)

lemma in_range_Inr [simp]: "in_range cfg r = Inr q \<longleftrightarrow> r = Inr q \<and> fiat_in_range cfg (fiat_amount q)"
  by (auto simp: in_range_def split: sum.splits)

lemma quoted_fiat: "quote_fiat cfg now amount m = Inr q \<Longrightarrow> quoted cfg now m q"
  by (simp add: quote_fiat_Inr quoted_def)

lemma quoted_asset: "quote_asset cfg now amount m = Inr q \<Longrightarrow> quoted cfg now m q"
  using parse_decimal_stroops_bounds by (auto simp: quote_asset_Inr quoted_def)

definition priced_at :: "quote_policy \<Rightarrow> market_price \<Rightarrow> rat \<Rightarrow> quote \<Rightarrow> bool" where
  "priced_at p m rate q \<longleftrightarrow> market_rate m = Some rate \<and> 0 < rate \<and> \<not> policy_invalid p \<and> q_rate q = decimal rate \<and>
     adjusted_rate q = decimal (rate * spread_multiplier p) \<and> 0 < fiat_amount q \<and> 0 < asset_amount q \<and>
     (asset_amount q = buy_floor (rate * spread_multiplier p) (fiat_amount q) \<and> asset_amount q \<le> int64_max \<or>
      fiat_amount q = sell_floor (rate * spread_multiplier p) (asset_amount q))"

lemma quote_create_le: "quote_create p now a m = Inr q \<Longrightarrow> asset_amount q \<le> int64_max"
  by (auto simp: quote_create_Inr Let_def is_int64_def)

lemma quote_reverse_le: "quote_create_reverse p now a m = Inr q \<Longrightarrow> fiat_amount q \<le> int64_max"
  by (auto simp: quote_create_reverse_Inr Let_def is_int64_def)

lemma priced_at_create: "quote_create p now a m = Inr q \<Longrightarrow> \<exists>rate. priced_at p m rate q"
  by (auto simp: quote_create_Inr Let_def is_int64_def priced_at_def)

lemma priced_at_reverse: "quote_create_reverse p now a m = Inr q \<Longrightarrow> \<exists>rate. priced_at p m rate q"
  by (auto simp: quote_create_reverse_Inr Let_def is_int64_def priced_at_def)

text \<open>The rates of a quote, as their texts denote them.\<close>

lemma quoted_rates:
  assumes "quoted cfg now m q"
  obtains rate where "market_rate m = Some rate" "q_rate q = decimal rate"
    "adjusted_rate q = decimal (rate * spread_multiplier (s38_policy cfg))" "0 < round18 rate"
    "0 < round18 (rate * spread_multiplier (s38_policy cfg))" "0 < rate" "0 < rate * spread_multiplier (s38_policy cfg)"
proof -
  let ?p = "s38_policy cfg"
  from assms obtain rate where p: "priced_at ?p m rate q"
    unfolding quoted_def using priced_at_create priced_at_reverse by blast
  then have r: "market_rate m = Some rate" "0 < rate" "\<not> policy_invalid ?p" "q_rate q = decimal rate"
    "adjusted_rate q = decimal (rate * spread_multiplier ?p)" "0 < fiat_amount q" "0 < asset_amount q"
    "asset_amount q = buy_floor (rate * spread_multiplier ?p) (fiat_amount q) \<or>
     fiat_amount q = sell_floor (rate * spread_multiplier ?p) (asset_amount q)" by (auto simp: priced_at_def)
  have m: "asset_amount q \<le> int64_max"
    using assms p priced_at_def quoted_def by (metis quote_create_le)
  have adj: "0 < rate * spread_multiplier ?p" by (rule adjusted_pos [OF r(3,2)])
  have big: "1 / 10 ^ 13 \<le> rate * spread_multiplier ?p" by (rule quoted_rate [OF adj r(6,7) m r(8)])
  have "rate * spread_multiplier ?p \<le> rate * 2"
    using r(2,3) by (intro mult_left_mono) (simp_all add: spread_multiplier_def policy_invalid_def field_simps)
  with big have "1 / 10 ^ 18 \<le> rate" by simp
  moreover from big have "1 / 10 ^ 18 \<le> rate * spread_multiplier ?p" by simp
  ultimately show thesis using that [OF r(1,4,5) round18_pos round18_pos r(2) adj] by blast
qed

lemma price_xlm_to_idr_eq:
  "price_xlm_to_idr cfg now r m =
     (case in_range cfg (if pr_sell_amount r \<noteq> [] then quote_asset cfg now (pr_sell_amount r) m
                         else quote_fiat cfg now (pr_buy_amount r) m) of
        Inl e \<Rightarrow> Inl e
      | Inr q \<Rightarrow> let rate = the (market_rate m) in
          Inr \<lparr>sp_total = decimal (1 / round18 (rate * spread_multiplier (s38_policy cfg))),
            sp_price = decimal (1 / round18 rate),
            sp_sell_asset = pr_sell_asset r, sp_sell_amount = stroops_string (asset_amount q),
            sp_buy_asset = pr_buy_asset r, sp_buy_amount = format_int (fiat_amount q)\<rparr>)"
proof (cases "in_range cfg (if pr_sell_amount r \<noteq> [] then quote_asset cfg now (pr_sell_amount r) m
    else quote_fiat cfg now (pr_buy_amount r) m)")
  case (Inr q)
  then have "quoted cfg now m q" using quoted_fiat quoted_asset by (auto split: if_splits)
  then obtain rate where r: "market_rate m = Some rate" "q_rate q = decimal rate"
    "adjusted_rate q = decimal (rate * spread_multiplier (s38_policy cfg))" "0 < round18 rate"
    "0 < round18 (rate * spread_multiplier (s38_policy cfg))" "0 < rate" "0 < rate * spread_multiplier (s38_policy cfg)"
    by (rule quoted_rates)
  have "rat_set_string (q_rate q) = Some (round18 rate)"
    "rat_set_string (adjusted_rate q) = Some (round18 (rate * spread_multiplier (s38_policy cfg)))"
    unfolding r(2,3) using r(6,7) by (simp_all only: decimal_value less_imp_le)
  then show ?thesis unfolding price_xlm_to_idr_def Inr using r by (simp add: Let_def)
qed (simp add: price_xlm_to_idr_def)

section \<open>Errors\<close>

lemma quote_errors:
  "quote_create p now a m = Inl e \<Longrightarrow> e \<in> {ErrInvalidQuote, ErrStalePrice, ErrInvalidPrice}"
  "quote_create_reverse p now a m = Inl e \<Longrightarrow> e \<in> {ErrInvalidQuote, ErrStalePrice, ErrInvalidPrice}"
  by (auto simp: quote_create_spec quote_create_reverse_spec Let_def split: if_splits option.splits)

definition price_errors :: "err set" where
  "price_errors = {sep38_invalid, ErrInvalidQuote, ErrStalePrice, ErrInvalidPrice, ErrAmountOutOfRange}"

lemma quote_side_errors:
  "quote_fiat cfg now amount m = Inl e \<Longrightarrow> e \<in> price_errors"
  "quote_asset cfg now amount m = Inl e \<Longrightarrow> e \<in> price_errors"
  by (auto simp: quote_fiat_def quote_asset_def price_errors_def split: sum.splits if_splits dest: quote_errors)

lemma in_range_errors: "in_range cfg r = Inl e \<Longrightarrow> (\<And>e. r = Inl e \<Longrightarrow> e \<in> price_errors) \<Longrightarrow> e \<in> price_errors"
  by (auto simp: in_range_def price_errors_def split: sum.splits if_splits)

text \<open>A price request fails with the error of the price reader or one of five documented errors; the inverse
  rates of a sale never divide by zero, although the stored rates are rounded.\<close>

theorem sep38_price_errors:
  assumes "sep38_price_of cfg price now r = Inl e"
  shows "price = Inl e \<or> e \<in> {sep38_invalid, ErrInvalidQuote, ErrStalePrice, ErrInvalidPrice, ErrAmountOutOfRange}"
proof -
  have 1: "price_idr_to_xlm cfg now r m = Inl e \<Longrightarrow> e \<in> price_errors" for r m
    unfolding price_idr_to_xlm_def
    by (auto split: sum.splits if_splits dest: quote_side_errors in_range_errors)
  have 2: "price_xlm_to_idr cfg now r m = Inl e \<Longrightarrow> e \<in> price_errors" for r m
    unfolding price_xlm_to_idr_eq Let_def
    by (auto split: sum.splits if_splits dest: quote_side_errors in_range_errors)
  have "price = Inl e \<or> e \<in> price_errors"
    using assms 1 2 by (auto simp: sep38_price_of_def Let_def price_errors_def split: sum.splits if_splits)
  then show ?thesis by (simp add: price_errors_def)
qed

section \<open>Amounts\<close>

lemma asset_not_idr [simp]: "sep38_asset_identifier issuer \<noteq> sep38_idr_asset"
  by (simp add: sep38_asset_identifier_def sep38_idr_asset_def sep38_xlm_asset_def)

lemma digit_not_space: "is_digit c \<Longrightarrow> c \<notin> hd ` set space_seqs \<and> c \<notin> last ` set space_seqs"
  by (auto simp: is_digit_nat space_seqs_def)

lemma parse_int64_digits:
  assumes "list_all is_digit s" "s \<noteq> []" "int (digits_val s) \<le> int64_max"
  shows "parse_int64 s = Some (int (digits_val s))"
  using assms digits_hd [OF assms(1,2)]
  by (cases s) (auto simp: parse_int64_def is_int64_def int64_min_def)

lemma trim_digits:
  assumes "list_all is_digit s"
  shows "trim_space s = s"
proof (cases "s = []")
  case False
  have "is_digit (hd s)" "is_digit (last s)" using assms False by (auto simp: list_all_iff)
  then show ?thesis using False digit_not_space by (intro trim_space_untrimmed untrimmed_ends) auto
qed (simp add: trim_space_def)

lemma parse_sep38_format:
  assumes "0 < a" "a \<le> int64_max"
  shows "parse_sep38_idr (format_int a) = Inr a"
proof -
  let ?s = "nat_str (nat a)"
  have "digits_val ?s = nat a" by simp
  then have "parse_int64 ?s = Some a" using parse_int64_digits [of ?s] assms by simp
  then show ?thesis using assms trim_digits [of ?s] by (simp add: parse_sep38_idr_def format_int_def)
qed

text \<open>The amount a text denotes, by the asset it is of.\<close>

definition amount_of :: "string \<Rightarrow> string \<Rightarrow> err + int" where
  "amount_of asset s = (if asset = sep38_idr_asset then parse_sep38_idr s else parse_decimal_stroops s)"

lemma amount_of_formats:
  "0 < a \<Longrightarrow> a \<le> int64_max \<Longrightarrow> amount_of sep38_idr_asset (format_int a) = Inr a"
  "0 < a \<Longrightarrow> a \<le> int64_max \<Longrightarrow> asset \<noteq> sep38_idr_asset \<Longrightarrow> amount_of asset (stroops_string a) = Inr a"
  by (simp_all add: amount_of_def parse_sep38_format parse_decimal_of_string)

lemma quoted_amounts: "quoted cfg now m q \<Longrightarrow> 0 < fiat_amount q \<and> fiat_amount q \<le> int64_max \<or> \<not> is_int64 (fiat_amount q)"
  by (metis is_int64_def linorder_not_less priced_at_def priced_at_create priced_at_reverse quoted_def)

definition priced_request :: "sep38_quote_request \<Rightarrow> sep38_price_request" where
  "priced_request r = \<lparr>pr_sell_asset = qr_sell_asset r, pr_buy_asset = qr_buy_asset r,
     pr_sell_amount = qr_sell_amount r, pr_buy_amount = qr_buy_amount r\<rparr>"

text \<open>A price, and the amounts it shows.\<close>

definition shows_quote :: "sep38_config \<Rightarrow> time \<Rightarrow> market_price \<Rightarrow> quote \<Rightarrow> bool" where
  "shows_quote cfg now m q \<longleftrightarrow> quoted cfg now m q \<and> fiat_in_range cfg (fiat_amount q) \<and>
     0 < fiat_amount q \<and> fiat_amount q \<le> int64_max \<and> 0 < asset_amount q \<and> asset_amount q \<le> int64_max"

lemma shows_fiat:
  assumes "quote_fiat cfg now amount m = Inr q"
  shows "shows_quote cfg now m q"
proof -
  from assms have q: "parse_sep38_idr amount = Inr (fiat_amount q)" "fiat_in_range cfg (fiat_amount q)"
    "quote_create (s38_policy cfg) now (fiat_amount q) m = Inr q" by (simp_all add: quote_fiat_Inr)
  have "fiat_amount q \<le> int64_max"
    using q(1) by (auto simp: parse_sep38_idr_def parse_int64_def Let_def is_int64_def split: option.splits if_splits prod.splits)
  with priced_at_create [OF q(3)] quote_create_le [OF q(3)] quoted_fiat [OF assms] q(2) show ?thesis
    by (auto simp: shows_quote_def priced_at_def)
qed

lemma shows_asset:
  assumes "in_range cfg (quote_asset cfg now amount m) = Inr q"
  shows "shows_quote cfg now m q"
proof -
  from assms have q: "parse_decimal_stroops amount = Inr (asset_amount q)" "fiat_in_range cfg (fiat_amount q)"
    "quote_create_reverse (s38_policy cfg) now (asset_amount q) m = Inr q" "quote_asset cfg now amount m = Inr q"
    by (simp_all add: quote_asset_Inr)
  have "fiat_amount q \<le> int64_max" by (rule quote_reverse_le [OF q(3)])
  with priced_at_reverse [OF q(3)] parse_decimal_stroops_bounds [OF q(1)] quoted_asset [OF q(4)] q(2) show ?thesis
    by (auto simp: shows_quote_def priced_at_def)
qed

text \<open>What a firm quote records is what the price of the same request shows.\<close>

lemma firm_price:
  assumes r: "valid_sep38_pair_for (qr_sell_asset r) (qr_buy_asset r) (sep38_asset_identifier (s38_issuer cfg))"
      "(qr_sell_amount r = []) \<noteq> (qr_buy_amount r = [])"
    and tr: "trim_space (qr_sell_asset r) = qr_sell_asset r" "trim_space (qr_buy_asset r) = qr_buy_asset r"
      "trim_space (qr_sell_amount r) = qr_sell_amount r" "trim_space (qr_buy_amount r) = qr_buy_amount r"
    and q: "sep38_quote_of cfg now r m = Inr q"
  shows "\<exists>p. sep38_price_of cfg (Inr m) now (priced_request r) = Inr p \<and> shows_quote cfg now m q \<and>
    sp_sell_asset p = qr_sell_asset r \<and> sp_buy_asset p = qr_buy_asset r \<and>
    amount_of (qr_sell_asset r) (quote_sell_amount r q (sep38_asset_identifier (s38_issuer cfg))) = amount_of (qr_sell_asset r) (sp_sell_amount p) \<and>
    amount_of (qr_buy_asset r) (quote_buy_amount r q (sep38_asset_identifier (s38_issuer cfg))) = amount_of (qr_buy_asset r) (sp_buy_amount p)"
proof -
  let ?asset = "sep38_asset_identifier (s38_issuer cfg)"
  have price: "sep38_price_of cfg (Inr m) now (priced_request r) =
      (if qr_sell_asset r = sep38_idr_asset then price_idr_to_xlm cfg now (priced_request r) m
       else price_xlm_to_idr cfg now (priced_request r) m)"
    using r tr by (auto simp: sep38_price_of_def priced_request_def Let_def)
  have q': "shows_quote cfg now m q"
    using q r(2) shows_fiat shows_asset by (auto simp: sep38_quote_of_def simp del: in_range_Inr split: if_splits)
  then have b: "0 < fiat_amount q" "fiat_amount q \<le> int64_max" "0 < asset_amount q" "asset_amount q \<le> int64_max"
    "fiat_in_range cfg (fiat_amount q)" by (auto simp: shows_quote_def)
  note fm = amount_of_formats(1) [OF b(1,2)] amount_of_formats(2) [OF b(3,4)]
  consider (buy) "qr_sell_asset r = sep38_idr_asset" "qr_buy_asset r = ?asset"
    | (sell) "qr_sell_asset r = ?asset" "qr_buy_asset r = sep38_idr_asset" "qr_sell_asset r \<noteq> sep38_idr_asset"
    using r(1) by (auto simp: valid_sep38_pair_for_def)
  then show ?thesis
  proof cases
    case buy
    show ?thesis
    proof (cases "qr_sell_amount r = []")
      case True
      with q buy have f: "in_range cfg (quote_asset cfg now (qr_buy_amount r) m) = Inr q"
        by (simp add: sep38_quote_of_def del: in_range_Inr)
      then have a: "parse_decimal_stroops (qr_buy_amount r) = Inr (asset_amount q)" by (simp add: quote_asset_Inr)
      have "price_idr_to_xlm cfg now (priced_request r) m = Inr \<lparr>sp_total = adjusted_rate q, sp_price = q_rate q,
          sp_sell_asset = sep38_idr_asset, sp_sell_amount = format_int (fiat_amount q),
          sp_buy_asset = ?asset, sp_buy_amount = stroops_string (asset_amount q)\<rparr>"
        using f buy True by (simp add: price_idr_to_xlm_def priced_request_def del: in_range_Inr)
      then have p: "sep38_price_of cfg (Inr m) now (priced_request r) = Inr \<lparr>sp_total = adjusted_rate q, sp_price = q_rate q,
          sp_sell_asset = sep38_idr_asset, sp_sell_amount = format_int (fiat_amount q),
          sp_buy_asset = ?asset, sp_buy_amount = stroops_string (asset_amount q)\<rparr>"
        using price buy by simp
      show ?thesis
        by (intro exI conjI, rule p)
           (use True buy r(2) a q' in \<open>auto simp: quote_sell_amount_def quote_buy_amount_def amount_of_def asset_not_idr [symmetric]\<close>)
    next
      case False
      with q buy have f: "quote_fiat cfg now (qr_sell_amount r) m = Inr q" by (simp add: sep38_quote_of_def)
      then have a: "parse_sep38_idr (qr_sell_amount r) = Inr (fiat_amount q)" by (simp add: quote_fiat_Inr)
      have "price_idr_to_xlm cfg now (priced_request r) m = Inr \<lparr>sp_total = adjusted_rate q, sp_price = q_rate q,
          sp_sell_asset = sep38_idr_asset, sp_sell_amount = format_int (fiat_amount q),
          sp_buy_asset = ?asset, sp_buy_amount = stroops_string (asset_amount q)\<rparr>"
        using f buy False by (simp add: price_idr_to_xlm_def priced_request_def)
      then have p: "sep38_price_of cfg (Inr m) now (priced_request r) = Inr \<lparr>sp_total = adjusted_rate q, sp_price = q_rate q,
          sp_sell_asset = sep38_idr_asset, sp_sell_amount = format_int (fiat_amount q),
          sp_buy_asset = ?asset, sp_buy_amount = stroops_string (asset_amount q)\<rparr>"
        using price buy by simp
      show ?thesis
        by (intro exI conjI, rule p)
           (use False buy r(2) a fm q' in \<open>auto simp: quote_sell_amount_def quote_buy_amount_def amount_of_def asset_not_idr [symmetric]\<close>)
    qed
  next
    case sell
    let ?price = "Inr \<lparr>sp_total = decimal (1 / round18 (the (market_rate m) * spread_multiplier (s38_policy cfg))),
            sp_price = decimal (1 / round18 (the (market_rate m))), sp_sell_asset = ?asset,
            sp_sell_amount = stroops_string (asset_amount q), sp_buy_asset = sep38_idr_asset,
            sp_buy_amount = format_int (fiat_amount q)\<rparr> :: err + sep38_price"
    show ?thesis
    proof (cases "qr_sell_amount r = []")
      case True
      with q sell have f: "quote_fiat cfg now (qr_buy_amount r) m = Inr q" by (simp add: sep38_quote_of_def)
      then have a: "parse_sep38_idr (qr_buy_amount r) = Inr (fiat_amount q)" by (simp add: quote_fiat_Inr)
      have "in_range cfg (quote_fiat cfg now (qr_buy_amount r) m) = Inr q" using f b(5) by simp
      then have "price_xlm_to_idr cfg now (priced_request r) m = ?price"
        using sell True by (simp add: price_xlm_to_idr_eq priced_request_def Let_def del: in_range_Inr)
      then have p: "sep38_price_of cfg (Inr m) now (priced_request r) = ?price" using price sell(3) by simp
      show ?thesis
        by (intro exI conjI, rule p)
           (use True sell r(2) a fm q' in \<open>auto simp: quote_sell_amount_def quote_buy_amount_def amount_of_def asset_not_idr [symmetric]\<close>)
    next
      case False
      with q sell have f: "in_range cfg (quote_asset cfg now (qr_sell_amount r) m) = Inr q"
        by (simp add: sep38_quote_of_def del: in_range_Inr)
      then have a: "parse_decimal_stroops (qr_sell_amount r) = Inr (asset_amount q)" by (simp add: quote_asset_Inr)
      have "price_xlm_to_idr cfg now (priced_request r) m = ?price"
        using f sell False by (simp add: price_xlm_to_idr_eq priced_request_def Let_def del: in_range_Inr)
      then have p: "sep38_price_of cfg (Inr m) now (priced_request r) = ?price" using price sell(3) by simp
      show ?thesis
        by (intro exI conjI, rule p)
           (use False sell r(2) a fm q' in \<open>auto simp: quote_sell_amount_def quote_buy_amount_def amount_of_def\<close>)
    qed
  qed
qed

section \<open>Firm quotes\<close>

lemma default_delivery_keeps [simp]:
  "qr_sell_asset (default_delivery r) = qr_sell_asset r" "qr_buy_asset (default_delivery r) = qr_buy_asset r"
  "qr_sell_amount (default_delivery r) = qr_sell_amount r" "qr_buy_amount (default_delivery r) = qr_buy_amount r"
  by (simp_all add: default_delivery_def)

definition new_firm_quote ::
  "sep38_config \<Rightarrow> err + market_price \<Rightarrow> sep10_principal \<Rightarrow> sep38_quote_request \<Rightarrow> time \<Rightarrow> sep38_quote \<Rightarrow> bool" where
  "new_firm_quote cfg price who request t row \<longleftrightarrow>
     (let r = trimmed_quote_request request in
      valid_classic_account (trim_space (wp_account who)) \<and>
      valid_sep38_pair_for (qr_sell_asset r) (qr_buy_asset r) (sep38_asset_identifier (s38_issuer cfg)) \<and>
      (qr_sell_amount r = []) \<noteq> (qr_buy_amount r = []) \<and>
      (\<exists>m q i. price = Inr m \<and> sep38_quote_of cfg t (default_delivery r) m = Inr q \<and> trim_space i \<noteq> [] \<and>
         row = sep38_quote_row cfg (trim_space (wp_account who)) t (trim_space i) (default_delivery r) q))"

lemma new_firm_quoteI:
  assumes "valid_classic_account (trim_space (wp_account who))"
    and "valid_sep38_pair_for (qr_sell_asset (trimmed_quote_request request)) (qr_buy_asset (trimmed_quote_request request))
      (sep38_asset_identifier (s38_issuer cfg))"
    and "(qr_sell_amount (trimmed_quote_request request) = []) \<noteq> (qr_buy_amount (trimmed_quote_request request) = [])"
    and "price = Inr m" "sep38_quote_of cfg t (default_delivery (trimmed_quote_request request)) m = Inr q" "trim_space i \<noteq> []"
  shows "new_firm_quote cfg price who request t (sep38_quote_row cfg (trim_space (wp_account who)) t (trim_space i)
    (default_delivery (trimmed_quote_request request)) q)"
  unfolding new_firm_quote_def Let_def using assms by blast

lemma sep38_quote_create_outcome:
  "outcome (sep38_quote_create cfg price who request)
    (\<lambda>v d'. \<exists>row. new_firm_quote cfg price who request t row \<and> v = sep38_quote_view_of row \<and>
       (\<forall>x \<in> set (sep38_quotes (accts d)). sq_quote x \<noteq> sq_quote row) \<and>
       d' = put_acc sep38_quotes_update (sep38_quotes (accts d) @ [stored_quote row]) d) (\<lambda>_ d'. d' = d) d t"
  unfolding sep38_quote_create_def Let_def sep38_insert_quote_def insert_sep38_def
proof (rule outcome_bind, rule outcome_guard, rule outcome_bind, rule outcome_guard, rule outcome_bind, rule outcome_lift,
      rule outcome_bind, rule outcome_now, rule outcome_bind, rule outcome_lift, rule outcome_bind, rule outcome_new_id,
      rule outcome_bind, rule outcome_guard, rule outcome_bind, rule outcome_bind, rule outcome_try, rule outcome_bind,
      rule outcome_guard, rule outcome_insert, goal_cases)
  case (1 m q i rs)
  let ?row = "sep38_quote_row cfg (trim_space (wp_account who)) t (trim_space i) (default_delivery (trimmed_quote_request request)) q"
  from 1 have "new_firm_quote cfg price who request t ?row" by (intro new_firm_quoteI) auto
  moreover have "\<forall>x \<in> set (sep38_quotes (accts d)). sq_quote x \<noteq> sq_quote ?row"
    using 1(8) by (metis (no_types, lifting) stored_quote_simps(2))
  ultimately show ?case unfolding 1(7) sum.case by (intro outcome_ret exI conjI) (assumption, rule refl, assumption, rule refl)
qed (auto intro: outcome_fail)

lemma trimmed_twice: "trim_space (trim_space s) = trim_space s"
  by (rule trim_space_untrimmed) (rule untrimmed_trim_space)

text \<open>C35: a firm quote fixes the price the price endpoint shows for the same request at that time: the same
  assets, the same amounts on both sides, from one quote of the policy within the configured limits.\<close>

theorem firm_quote_is_price:
  assumes "sep38_quote_create cfg price who request w = (Inr v, w1)"
  shows "\<exists>m q p. price = Inr m \<and> quoted cfg (w_now w) m q \<and> s38_min cfg \<le> fiat_amount q \<and> fiat_amount q \<le> s38_max cfg \<and>
    sep38_price_of cfg price (w_now w) (priced_request request) = Inr p \<and>
    qv_sell_asset v = sp_sell_asset p \<and> qv_buy_asset v = sp_buy_asset p \<and> qv_price v = q_rate q \<and>
    amount_of (qv_sell_asset v) (qv_sell_amount v) = amount_of (sp_sell_asset p) (sp_sell_amount p) \<and>
    amount_of (qv_buy_asset v) (qv_buy_amount v) = amount_of (sp_buy_asset p) (sp_buy_amount p)"
proof -
  let ?r = "trimmed_quote_request request"
  from outcome_Inr [OF sep38_quote_create_outcome assms] obtain m q i where
    r: "valid_sep38_pair_for (qr_sell_asset ?r) (qr_buy_asset ?r) (sep38_asset_identifier (s38_issuer cfg))"
      "(qr_sell_amount ?r = []) \<noteq> (qr_buy_amount ?r = [])" "price = Inr m"
      "sep38_quote_of cfg (w_now w) (default_delivery ?r) m = Inr q"
    and v: "v = sep38_quote_view_of (sep38_quote_row cfg (trim_space (wp_account who)) (w_now w) (trim_space i) (default_delivery ?r) q)"
    by (auto simp: new_firm_quote_def Let_def)
  have "sep38_price_of cfg price (w_now w) (priced_request (default_delivery ?r)) = sep38_price_of cfg price (w_now w) (priced_request request)"
    by (simp add: sep38_price_of_def priced_request_def trimmed_quote_request_def trimmed_twice)
  with firm_price [of "default_delivery ?r" cfg "w_now w" m q] r v show ?thesis
    by (auto simp: sep38_quote_view_of_def sep38_quote_row_def Let_def trimmed_quote_request_def trimmed_twice
        shows_quote_def fiat_in_range_def not_less)
qed

end
