(* ===== verification/Sep38_Quotes.thy ===== *)
theory Sep38_Quotes
  imports Sep38_Prices Calm_Runs
begin

text \<open>
  Firm quotes in the table: a quote keeps its terms, its account reads it until it expires or is
  consumed, and it is consumed once.
\<close>

section \<open>The table\<close>

definition quotes_ok :: "db \<Rightarrow> bool" where
  "quotes_ok d \<longleftrightarrow> distinct (List.map sq_quote (sep38_quotes (accts d))) \<and>
     list_all (\<lambda>q. timestamptz (sq_expires q) = sq_expires q) (sep38_quotes (accts d))"

definition quote_terms :: "sep38_quote \<Rightarrow> sep38_quote" where
  "quote_terms q = q\<lparr>sq_consumed := None, sq_updated := 0\<rparr>"

definition quotes_from :: "db \<Rightarrow> db \<Rightarrow> bool" where
  "quotes_from d0 d \<longleftrightarrow> quotes_ok d \<and> carried quote_terms sq_consumed (sep38_quotes (accts d0)) (sep38_quotes (accts d))"

lemma quotes_from_refl: "quotes_ok d \<Longrightarrow> quotes_from d d"
  by (simp add: quotes_from_def)

lemma quotes_from_trans: "quotes_from a b \<Longrightarrow> quotes_from b c \<Longrightarrow> quotes_from a c"
  unfolding quotes_from_def by (auto intro: carried_trans)

lemma steady_insert_quote [steady_intro]: "steady (quotes_from d0) (sep38_insert_quote q)"
  unfolding sep38_insert_quote_def insert_sep38_def
  by (intro steady_intro steady_insert) (auto simp: quotes_from_def quotes_ok_def intro: carried_trans)

lemma steady_find_quote [steady_intro]: "steady I (sep38_find u i)"
  unfolding sep38_find_def by (intro steady_intro)

lemma steady_consume_quote [steady_intro]: "steady (quotes_from d0) (sep38_consume u i now)"
  unfolding sep38_consume_def update_sep38_def
proof (intro steady_intro steady_update)
  fix d assume d: "quotes_from d0 d"
  let ?P = "\<lambda>q. sq_wallet q = u \<and> sq_quote q = i \<and> sq_consumed q = None \<and> timestamptz now < sq_expires q"
  let ?f = "\<lambda>q. q\<lparr>sq_consumed := Some (timestamptz now), sq_updated := timestamptz now\<rparr>"
  have "List.map sq_quote (update_rows ?P ?f (sep38_quotes (accts d))) = List.map sq_quote (sep38_quotes (accts d))"
    by (rule map_update_rows_on) simp
  moreover have "carried quote_terms sq_consumed (sep38_quotes (accts d)) (update_rows ?P ?f (sep38_quotes (accts d)))"
    by (rule carried_update) (simp add: quote_terms_def)
  moreover have "list_all (\<lambda>q. timestamptz (sq_expires q) = sq_expires q) (update_rows ?P ?f (sep38_quotes (accts d)))"
    using d by (auto simp: quotes_from_def quotes_ok_def update_rows_def list_all_iff)
  ultimately show "quotes_from d0 (put_acc sep38_quotes_update (update_rows ?P ?f (sep38_quotes (accts d))) d)"
    using d by (auto simp: quotes_from_def quotes_ok_def intro: carried_trans)
qed

datatype quote_call =
    QuoteCreate sep38_config "err + market_price" sep10_principal sep38_quote_request
  | QuoteGet sep10_principal string
  | QuoteConsume sep10_principal string

fun run_quote :: "quote_call \<Rightarrow> unit repo" where
  "run_quote (QuoteCreate cfg price who request) = act_bind (sep38_quote_create cfg price who request) (\<lambda>_. act_ret ())"
| "run_quote (QuoteGet who i) = act_bind (sep38_quote_get who i) (\<lambda>_. act_ret ())"
| "run_quote (QuoteConsume who i) = sep38_quote_consume who i"

lemma steady_quote_create: "steady (quotes_from d0) (sep38_quote_create cfg price who request)"
  unfolding sep38_quote_create_def Let_def by (intro steady_intro)

lemma steady_quote_consume: "steady (quotes_from d0) (sep38_quote_consume who i)"
  unfolding sep38_quote_consume_def by (intro steady_intro)

lemma steady_run_quote: "steady (quotes_from d0) (run_quote c)"
proof (cases c)
  case (QuoteGet who i)
  then show ?thesis by (simp add: sep38_quote_get_def) (intro steady_intro)
qed (auto intro!: steady_intro steady_quote_create steady_quote_consume)

interpretation quote_system: invariant_system run_quote "quotes_from d0" for d0
  by (rule steady_invariant_system) (rule steady_run_quote)

lemma quotes_later: "history run_quote d d' \<Longrightarrow> quotes_ok d \<Longrightarrow> quotes_from d d'"
  by (rule steady_history [OF steady_run_quote]) (auto intro: quotes_from_refl)

section \<open>Consumption\<close>

definition quote_spent :: "string \<Rightarrow> string \<Rightarrow> db \<Rightarrow> bool" where
  "quote_spent u i d \<longleftrightarrow> (\<exists>q \<in> set (sep38_quotes (accts d)). sq_wallet q = u \<and> sq_quote q = i \<and> sq_consumed q \<noteq> None)"

definition quote_open :: "string \<Rightarrow> string \<Rightarrow> time \<Rightarrow> sep38_quote \<Rightarrow> bool" where
  "quote_open u i now q \<longleftrightarrow> sq_wallet q = u \<and> sq_quote q = i \<and> sq_consumed q = None \<and> now < sq_expires q"

lemma quote_unique: "quotes_ok d \<Longrightarrow> q \<in> set (sep38_quotes (accts d)) \<Longrightarrow> r \<in> set (sep38_quotes (accts d)) \<Longrightarrow>
    sq_quote q = sq_quote r \<Longrightarrow> q = r"
  unfolding quotes_ok_def by (elim conjE) (rule distinct_key_eq)

lemma open_now: "quotes_ok d \<Longrightarrow> q \<in> set (sep38_quotes (accts d)) \<Longrightarrow> timestamptz now < sq_expires q \<longleftrightarrow> now < sq_expires q"
  using timestamptz_before [of now "sq_expires q"] by (simp add: quotes_ok_def list_all_iff)

lemma find_quote_outcome:
  "outcome (sep38_find u i) (\<lambda>q d'. d' = d \<and> q \<in> set (sep38_quotes (accts d)) \<and> sq_wallet q = u \<and> sq_quote q = i)
    (\<lambda>_ d'. d' = d) d t"
  unfolding sep38_find_def by (rule outcome_or_missing) (auto dest: first_by_Some)

lemma consume_quote_outcome:
  assumes "quotes_ok d"
  shows "outcome (sep38_consume u i now)
    (\<lambda>_ d'. \<exists>q \<in> set (sep38_quotes (accts d)). quote_open u i now q \<and> quote_spent u i d')
    (\<lambda>_ d'. d' = d) d t"
  unfolding sep38_consume_def update_sep38_def
proof (rule outcome_bind, rule outcome_update, goal_cases)
  case (1 rs)
  let ?P = "\<lambda>q. sq_wallet q = u \<and> sq_quote q = i \<and> sq_consumed q = None \<and> timestamptz now < sq_expires q"
  let ?f = "\<lambda>q. q\<lparr>sq_consumed := Some (timestamptz now), sq_updated := timestamptz now\<rparr>"
  let ?d = "put_acc sep38_quotes_update rs d"
  have le: "count_rows ?P (sep38_quotes (accts d)) \<le> 1"
    using assms unfolding quotes_ok_def by (elim conjE) (rule count_rows_key [where k = sq_quote], simp_all)
  show ?case
  proof (cases "count_rows ?P (sep38_quotes (accts d)) = 1")
    case True
    then obtain q where q: "q \<in> set (sep38_quotes (accts d))" "?P q" using count_rows_one by blast
    have "quote_spent u i ?d"
      using in_update_rows [OF q(1), of ?P ?f] q(2) 1(1) unfolding quote_spent_def by (intro bexI) auto
    moreover have "quote_open u i now q" using q open_now [OF assms q(1)] by (simp add: quote_open_def)
    ultimately show ?thesis using q(1) True by simp (rule outcome_ret, blast)
  next
    case False
    with le have "count_rows ?P (sep38_quotes (accts d)) = 0" by simp
    then have "rs = sep38_quotes (accts d)" unfolding 1(1) by (rule update_rows_unmet)
    then have d: "?d = d" by simp
    show ?thesis
      using False unfolding d by (simp, intro outcome_bind outcome_weaken [OF find_quote_outcome] outcome_fail) auto
  qed
qed simp

lemma consume_quote_refuses:
  assumes "quotes_ok d" "quote_spent u i d"
  shows "outcome (sep38_consume u i now) (\<lambda>_ _. False) (\<lambda>_ d'. d' = d) d t"
proof (rule outcome_weaken [OF consume_quote_outcome [OF assms(1)]])
  fix x d' assume "\<exists>q \<in> set (sep38_quotes (accts d)). quote_open u i now q \<and> quote_spent u i d'"
  then obtain q where q: "q \<in> set (sep38_quotes (accts d))" "sq_quote q = i" "sq_consumed q = None" by (auto simp: quote_open_def)
  from assms(2) obtain r where r: "r \<in> set (sep38_quotes (accts d))" "sq_quote r = i" "sq_consumed r \<noteq> None"
    by (auto simp: quote_spent_def)
  from quote_unique [OF assms(1) q(1) r(1)] q r show False by simp
qed simp

interpretation firm_quotes: single_use "\<lambda>(u, i). sep38_consume u i" "\<lambda>(u, i). quote_spent u i" quotes_ok
  by unfold_locales
     (auto intro!: consume_quote_refuses outcome_weaken [OF consume_quote_outcome])

section \<open>A firm quote\<close>

lemma view_of_terms: "quote_terms q = quote_terms r \<Longrightarrow> sep38_quote_view_of q = sep38_quote_view_of r \<and>
    sq_wallet q = sq_wallet r \<and> sq_quote q = sq_quote r \<and> sq_expires q = sq_expires r"
proof -
  assume e: "quote_terms q = quote_terms r"
  have v: "sep38_quote_view_of (quote_terms x) = sep38_quote_view_of x" "sq_wallet (quote_terms x) = sq_wallet x"
    "sq_quote (quote_terms x) = sq_quote x" "sq_expires (quote_terms x) = sq_expires x" for x
    by (simp_all add: quote_terms_def sep38_quote_view_of_def)
  show ?thesis using e v by metis
qed

lemma trim_quote_id: "trim_space i \<noteq> [] \<Longrightarrow> trim_space (''quote-'' @ trim_space i) = ''quote-'' @ trim_space i"
  by (rule trim_space_untrimmed, rule untrimmed_prefix [OF untrimmed_trim_space]) (auto simp: space_seqs_def)

lemma get_quote_outcome:
  "outcome (sep38_quote_get who i)
    (\<lambda>v d'. \<exists>q \<in> set (sep38_quotes (accts d)). quote_open (trim_space (wp_account who)) (trim_space i) t q \<and>
       v = sep38_quote_view_of q) (\<lambda>_ d'. d' = d) d t"
  unfolding sep38_quote_get_def
  by (rule outcome_bind, rule outcome_guard, rule outcome_bind, rule outcome_weaken [OF find_quote_outcome], rule outcome_bind,
      rule outcome_now, rule outcome_bind, rule outcome_guard, rule outcome_bind, rule outcome_guard)
     (auto intro!: outcome_ret simp: quote_open_def)

lemma get_quote_runs:
  assumes ok: "quotes_ok d" and a: "valid_classic_account (trim_space (wp_account who))"
    and q: "q \<in> set (sep38_quotes (accts d))" "quote_open (trim_space (wp_account who)) (trim_space i) t q"
  shows "runs (sep38_quote_get who i) (\<lambda>v d' _. v = sep38_quote_view_of q \<and> d' = d) d is t"
proof -
  have f: "first_by sq_id (\<lambda>x. sq_wallet x = trim_space (wp_account who) \<and> sq_quote x = trim_space i) (sep38_quotes (accts d)) = Some q"
  proof (rule first_by_unique)
    fix x assume "x \<in> set (sep38_quotes (accts d))" "sq_wallet x = trim_space (wp_account who) \<and> sq_quote x = trim_space i"
    with quote_unique [OF ok _ q(1)] q(2) show "x = q" by (simp add: quote_open_def)
  qed (use q in \<open>simp_all add: quote_open_def\<close>)
  show ?thesis
    unfolding sep38_quote_get_def sep38_find_def
    by (rule runs_bind, rule runs_guard, rule a, rule runs_bind, rule runs_or_missing, rule f, rule runs_bind, rule runs_now,
        rule runs_bind, rule runs_guard, use q(2) in \<open>simp add: quote_open_def\<close>, rule runs_bind, rule runs_guard,
        use q(2) in \<open>simp add: quote_open_def\<close>, rule runs_ret) simp
qed

lemma new_firm_quote_row:
  assumes "new_firm_quote cfg price who request t row"
  obtains i where "sq_quote row = ''quote-'' @ trim_space i" "trim_space i \<noteq> []" "sq_wallet row = trim_space (wp_account who)"
    "sq_consumed row = None" "valid_classic_account (trim_space (wp_account who))"
proof -
  from assms obtain m q i where a: "valid_classic_account (trim_space (wp_account who))" "trim_space i \<noteq> []"
    "row = sep38_quote_row cfg (trim_space (wp_account who)) t (trim_space i) (default_delivery (trimmed_quote_request request)) q"
    unfolding new_firm_quote_def Let_def by blast
  show thesis by (rule that [OF _ a(2) _ _ a(1)]) (simp_all add: a(3) sep38_quote_row_def Let_def)
qed

text \<open>C36: a firm quote keeps its terms: whatever calls follow its creation, with whatever faults, its account
  reads it back unchanged, but for the fraction of a microsecond that the table drops from its expiry, exactly
  until it expires or is consumed, and no other account reads it.\<close>

theorem firm_quote_kept:
  assumes "quotes_ok (w_db w)" and "sep38_quote_create cfg price who request w = (Inr v, w1)"
    and "history run_quote (w_db w1) (w_db w2)" and "calm w2"
  shows "((\<exists>w3. sep38_quote_get who (qv_quote v) w2 = (Inr (v\<lparr>qv_expires := timestamptz (qv_expires v)\<rparr>), w3)) \<longleftrightarrow>
      w_now w2 < timestamptz (qv_expires v) \<and> \<not> quote_spent (trim_space (wp_account who)) (qv_quote v) (w_db w2)) \<and>
    (\<forall>other v' w3. sep38_quote_get other (qv_quote v) w2 = (Inr v', w3) \<longrightarrow>
      trim_space (wp_account other) = trim_space (wp_account who))"
proof -
  from outcome_Inr [OF sep38_quote_create_outcome assms(2)] obtain row where
    row: "new_firm_quote cfg price who request (w_now w) row" "v = sep38_quote_view_of row"
    and d1: "w_db w1 = put_acc sep38_quotes_update (sep38_quotes (accts (w_db w)) @ [stored_quote row]) (w_db w)" by blast
  let ?v = "v\<lparr>qv_expires := timestamptz (qv_expires v)\<rparr>"
  have shown: "sep38_quote_view_of (stored_quote row) = ?v" by (simp add: row(2) sep38_quote_view_of_def stored_quote_def)
  from row(1) obtain i where i: "sq_quote row = ''quote-'' @ trim_space i" "trim_space i \<noteq> []" "sq_wallet row = trim_space (wp_account who)"
      "sq_consumed row = None" "valid_classic_account (trim_space (wp_account who))" by (rule new_firm_quote_row)
  have v: "qv_quote v = sq_quote row" "qv_expires v = sq_expires row" "trim_space (qv_quote v) = qv_quote v"
    using trim_quote_id [OF i(2)] i(1) by (simp_all add: row(2) sep38_quote_view_of_def)
  have "quotes_from (w_db w) (w_db w1)"
    by (rule steady_run [OF steady_quote_create quotes_from_refl [OF assms(1)] assms(2)])
  then have "quotes_ok (w_db w1)" by (simp add: quotes_from_def)
  from quotes_later [OF assms(3) this] have later: "quotes_from (w_db w1) (w_db w2)" .
  then have ok: "quotes_ok (w_db w2)" by (simp add: quotes_from_def)
  have "stored_quote row \<in> set (sep38_quotes (accts (w_db w1)))" by (simp add: d1)
  with later obtain q where q: "q \<in> set (sep38_quotes (accts (w_db w2)))" "quote_terms q = quote_terms (stored_quote row)"
    by (auto simp: quotes_from_def carried_def)
  note same = view_of_terms [OF q(2)]
  have only: "x = q" if "x \<in> set (sep38_quotes (accts (w_db w2)))" "sq_quote x = qv_quote v" for x
    using quote_unique [OF ok that(1) q(1)] that(2) same v(1) by simp
  have spent: "quote_spent (trim_space (wp_account who)) (qv_quote v) (w_db w2) \<longleftrightarrow> sq_consumed q \<noteq> None"
  proof
    assume "quote_spent (trim_space (wp_account who)) (qv_quote v) (w_db w2)"
    then obtain x where x: "x \<in> set (sep38_quotes (accts (w_db w2)))" "sq_quote x = qv_quote v" "sq_consumed x \<noteq> None"
      by (auto simp: quote_spent_def)
    with only [OF x(1,2)] show "sq_consumed q \<noteq> None" by simp
  next
    assume "sq_consumed q \<noteq> None"
    then show "quote_spent (trim_space (wp_account who)) (qv_quote v) (w_db w2)"
      unfolding quote_spent_def by (intro bexI [OF _ q(1)]) (simp add: same i(3) v(1))
  qed
  have get: "\<exists>w3. sep38_quote_get who (qv_quote v) w2 = (Inr ?v, w3)"
    if "w_now w2 < timestamptz (qv_expires v)" "sq_consumed q = None"
  proof -
    have "quote_open (trim_space (wp_account who)) (trim_space (qv_quote v)) (w_now w2) q"
      using that same i(3) v by (simp add: quote_open_def)
    from runsE [OF get_quote_runs [OF ok i(5) q(1) this] assms(4) refl refl refl] same shown show ?thesis by metis
  qed
  have got: "trim_space (wp_account other) = trim_space (wp_account who) \<and> w_now w2 < timestamptz (qv_expires v) \<and> sq_consumed q = None"
    if "sep38_quote_get other (qv_quote v) w2 = (Inr v', w3)" for other v' w3
  proof -
    from outcome_Inr [OF get_quote_outcome that] obtain x where x: "x \<in> set (sep38_quotes (accts (w_db w2)))"
      "quote_open (trim_space (wp_account other)) (trim_space (qv_quote v)) (w_now w2) x" by blast
    then have "x = q" using only v(3) by (simp add: quote_open_def)
    with x(2) same i(3) v show ?thesis by (simp add: quote_open_def)
  qed
  show ?thesis
  proof (intro conjI iffI allI impI)
    assume "\<exists>w3. sep38_quote_get who (qv_quote v) w2 = (Inr ?v, w3)"
    then obtain w3 where "sep38_quote_get who (qv_quote v) w2 = (Inr ?v, w3)" by blast
    from got [OF this] spent
    show "w_now w2 < timestamptz (qv_expires v)" "\<not> quote_spent (trim_space (wp_account who)) (qv_quote v) (w_db w2)" by simp_all
  qed (use get got spent in blast)+
qed

text \<open>C37: a firm quote is consumed once: a consumption takes an unexpired, unconsumed quote of the caller's own
  account, and after it, whatever calls come between, a second one fails and changes nothing.\<close>

theorem firm_quote_consumed_once:
  assumes "quotes_ok (w_db w)" and "sep38_quote_consume who i w = (Inr (), w1)"
    and "history run_quote (w_db w1) (w_db w2)"
  shows "(\<exists>q \<in> set (sep38_quotes (accts (w_db w))). quote_open (trim_space (wp_account who)) (trim_space i) (w_now w) q) \<and>
    (\<exists>e w3. sep38_quote_consume who i w2 = (Inl e, w3) \<and> w_db w3 = w_db w2)"
proof -
  let ?u = "trim_space (wp_account who)" and ?i = "trim_space i"
  have "outcome (sep38_quote_consume who i)
      (\<lambda>_ d'. \<exists>q \<in> set (sep38_quotes (accts (w_db w))). quote_open ?u ?i (w_now w) q \<and> quote_spent ?u ?i d')
      (\<lambda>_ _. True) (w_db w) (w_now w)"
    unfolding sep38_quote_consume_def
    by (rule outcome_bind, rule outcome_guard, rule outcome_bind, rule outcome_now,
        rule outcome_weaken [OF consume_quote_outcome [OF assms(1)]]) simp_all
  from outcome_Inr [OF this assms(2)] have spent: "quote_spent ?u ?i (w_db w1)"
    and live: "\<exists>q \<in> set (sep38_quotes (accts (w_db w))). quote_open ?u ?i (w_now w) q" by auto
  have "quotes_from (w_db w) (w_db w1)"
    by (rule steady_run [OF steady_quote_consume quotes_from_refl [OF assms(1)] assms(2)])
  then have "quotes_ok (w_db w1)" by (simp add: quotes_from_def)
  from quotes_later [OF assms(3) this] have later: "quotes_from (w_db w1) (w_db w2)" .
  from spent obtain q where q: "q \<in> set (sep38_quotes (accts (w_db w1)))" "sq_wallet q = ?u" "sq_quote q = ?i" "sq_consumed q \<noteq> None"
    by (auto simp: quote_spent_def)
  from later have "carried quote_terms sq_consumed (sep38_quotes (accts (w_db w1))) (sep38_quotes (accts (w_db w2)))"
    by (simp add: quotes_from_def)
  from carried_stamped [OF this q(1,4)] obtain r where r: "r \<in> set (sep38_quotes (accts (w_db w2)))"
    "quote_terms r = quote_terms q" "sq_consumed r = sq_consumed q" by blast
  have s: "quote_spent ?u ?i (w_db w2)"
    unfolding quote_spent_def by (intro bexI [OF _ r(1)]) (use view_of_terms [OF r(2)] r(3) q in simp)
  have "quotes_ok (w_db w2)" using later by (simp add: quotes_from_def)
  from consume_quote_refuses [OF this s] have "outcome (sep38_quote_consume who i) (\<lambda>_ _. False) (\<lambda>_ d'. d' = w_db w2) (w_db w2) (w_now w2)"
    unfolding sep38_quote_consume_def by (intro outcome_bind outcome_guard outcome_now) simp_all
  from outcome_refused [OF this] live show ?thesis by blast
qed

end
