(* ===== verification/Sep10_Laws.thy ===== *)
theory Sep10_Laws
  imports Sep10 Sep38_Quotes
begin

text \<open>
  The challenges of SEP-10: each is exchanged once, for a token of the account it was made for; and the
  token authenticates that account.
\<close>

section \<open>The table\<close>

definition challenges_ok :: "db \<Rightarrow> bool" where
  "challenges_ok d \<longleftrightarrow> distinct (List.map sc_id (sep10_challenges (accts d))) \<and>
     distinct (List.map sc_hash (sep10_challenges (accts d)))"

definition challenge_terms :: "sep10_challenge \<Rightarrow> sep10_challenge" where
  "challenge_terms c = c\<lparr>sc_consumed := None\<rparr>"

definition challenges_from :: "db \<Rightarrow> db \<Rightarrow> bool" where
  "challenges_from d0 d \<longleftrightarrow> challenges_ok d \<and>
     carried challenge_terms sc_consumed (sep10_challenges (accts d0)) (sep10_challenges (accts d))"

lemma challenges_from_refl: "challenges_ok d \<Longrightarrow> challenges_from d d"
  by (simp add: challenges_from_def)

lemma steady_insert_sep10 [steady_intro]: "steady (challenges_from d0) (insert_sep10 c)"
  unfolding insert_sep10_def
  by (rule steady_insert) (auto simp: challenges_from_def challenges_ok_def intro: carried_trans)

lemma steady_find_challenge [steady_intro]: "steady I (sep10_find_by_hash h)"
  unfolding sep10_find_by_hash_def by (intro steady_intro)

lemma steady_consume_challenge [steady_intro]: "steady (challenges_from d0) (sep10_consume i now)"
  unfolding sep10_consume_def update_sep10_def
proof (intro steady_intro steady_update)
  fix d assume d: "challenges_from d0 d"
  let ?P = "\<lambda>c. sc_id c = i \<and> sc_consumed c = None" and ?f = "\<lambda>c. c\<lparr>sc_consumed := Some now\<rparr>"
  have "List.map sc_id (update_rows ?P ?f (sep10_challenges (accts d))) = List.map sc_id (sep10_challenges (accts d))"
    "List.map sc_hash (update_rows ?P ?f (sep10_challenges (accts d))) = List.map sc_hash (sep10_challenges (accts d))"
    by (rule map_update_rows_on, simp)+
  moreover have "carried challenge_terms sc_consumed (sep10_challenges (accts d)) (update_rows ?P ?f (sep10_challenges (accts d)))"
    by (rule carried_update) (simp add: challenge_terms_def)
  ultimately show "challenges_from d0 (put_acc sep10_challenges_update (update_rows ?P ?f (sep10_challenges (accts d))) d)"
    using d by (auto simp: challenges_from_def challenges_ok_def intro: carried_trans)
qed

datatype sep10_call = Sep10Start sep10_sdk sep10_config string | Sep10Exchange sep10_sdk sep10_config string

fun run_sep10 :: "sep10_call \<Rightarrow> unit repo" where
  "run_sep10 (Sep10Start sdk cfg account) = act_bind (sep10_start sdk cfg account) (\<lambda>_. act_ret ())"
| "run_sep10 (Sep10Exchange sdk cfg envelope) = act_bind (sep10_exchange sdk cfg envelope) (\<lambda>_. act_ret ())"

lemma steady_sep10_start: "steady (challenges_from d0) (sep10_start sdk cfg account)"
  unfolding sep10_start_def Let_def by (intro steady_intro)

lemma steady_sep10_exchange: "steady (challenges_from d0) (sep10_exchange sdk cfg envelope)"
  unfolding sep10_exchange_def Let_def by (intro steady_intro)

lemma steady_run_sep10: "steady (challenges_from d0) (run_sep10 c)"
  by (cases c) (auto intro!: steady_intro steady_sep10_start steady_sep10_exchange)

interpretation sep10_system: invariant_system run_sep10 "challenges_from d0" for d0
  by (rule steady_invariant_system) (rule steady_run_sep10)

lemma challenges_later: "history run_sep10 d d' \<Longrightarrow> challenges_ok d \<Longrightarrow> challenges_from d d'"
  by (rule steady_history [OF steady_run_sep10]) (auto intro: challenges_from_refl)

section \<open>Exchange\<close>

definition sep10_spent :: "string \<Rightarrow> db \<Rightarrow> bool" where
  "sep10_spent i d \<longleftrightarrow> (\<exists>c \<in> set (sep10_challenges (accts d)). sc_id c = i \<and> sc_consumed c \<noteq> None)"

lemma consume_challenge_outcome10:
  assumes "challenges_ok d"
  shows "outcome (sep10_consume i now)
    (\<lambda>_ d'. (\<exists>c \<in> set (sep10_challenges (accts d)). sc_id c = i \<and> sc_consumed c = None) \<and> sep10_spent i d' \<and>
       challenges_from d d') (\<lambda>_ d'. d' = d) d t"
proof -
  have "outcome (sep10_consume i now)
    (\<lambda>_ d'. (\<exists>c \<in> set (sep10_challenges (accts d)). sc_id c = i \<and> sc_consumed c = None) \<and> sep10_spent i d') (\<lambda>_ d'. d' = d) d t"
    unfolding sep10_consume_def update_sep10_def
  proof (rule outcome_bind, rule outcome_update, goal_cases)
    case (1 rs)
    let ?P = "\<lambda>c. sc_id c = i \<and> sc_consumed c = None" and ?f = "\<lambda>c. c\<lparr>sc_consumed := Some now\<rparr>"
    let ?d = "put_acc sep10_challenges_update rs d"
    have le: "count_rows ?P (sep10_challenges (accts d)) \<le> 1"
      by (rule count_rows_key [where k = sc_id and x = i]) (use assms in \<open>simp_all add: challenges_ok_def\<close>)
    show ?case
    proof (cases "count_rows ?P (sep10_challenges (accts d)) = 1")
      case True
      then obtain c where c: "c \<in> set (sep10_challenges (accts d))" "?P c" using count_rows_one by blast
      have "sep10_spent i ?d"
        using in_update_rows [OF c(1), of ?P ?f] c(2) 1(1) unfolding sep10_spent_def by (intro bexI) auto
      with c show ?thesis using True by simp (rule outcome_ret, blast)
    next
      case False
      with le have "count_rows ?P (sep10_challenges (accts d)) = 0" by simp
      then have "rs = sep10_challenges (accts d)" unfolding 1(1) by (rule update_rows_unmet)
      then have d: "?d = d" by simp
      show ?thesis
        using False unfolding d
        by simp (rule outcome_bind, rule outcome_try, rule outcome_select_first, rule outcome_fail, simp_all add: outcome_fail)
    qed
  qed simp
  from outcome_both [OF this steadyD [OF steady_consume_challenge challenges_from_refl [OF assms]]] show ?thesis
    by (rule outcome_weaken) auto
qed

lemma consume_challenge_refuses10:
  assumes "challenges_ok d" "sep10_spent i d"
  shows "outcome (sep10_consume i now) (\<lambda>_ _. False) (\<lambda>_ d'. d' = d) d t"
proof (rule outcome_weaken [OF consume_challenge_outcome10 [OF assms(1)]])
  fix x d' assume "(\<exists>c \<in> set (sep10_challenges (accts d)). sc_id c = i \<and> sc_consumed c = None) \<and> sep10_spent i d' \<and> challenges_from d d'"
  then obtain c where c: "c \<in> set (sep10_challenges (accts d))" "sc_id c = i" "sc_consumed c = None" by auto
  from assms(2) obtain r where r: "r \<in> set (sep10_challenges (accts d))" "sc_id r = i" "sc_consumed r \<noteq> None"
    by (auto simp: sep10_spent_def)
  have "c = r" by (rule distinct_key_eq [where f = sc_id and xs = "sep10_challenges (accts d)"])
    (use assms(1) c r in \<open>auto simp: challenges_ok_def\<close>)
  with c r show False by simp
qed simp

interpretation sep10_challenges: single_use sep10_consume sep10_spent challenges_ok
  by unfold_locales (auto intro!: consume_challenge_refuses10 outcome_weaken [OF consume_challenge_outcome10])

lemma find_challenge_outcome:
  "outcome (sep10_find_by_hash h) (\<lambda>c d'. d' = d \<and> c \<in> set (sep10_challenges (accts d)) \<and> sc_hash c = h) (\<lambda>_ d'. d' = d) d t"
  unfolding sep10_find_by_hash_def by (rule outcome_or_missing) (auto dest: first_by_Some)

text \<open>A successful exchange.\<close>

definition exchanged ::
  "sep10_sdk \<Rightarrow> sep10_config \<Rightarrow> string \<Rightarrow> time \<Rightarrow> db \<Rightarrow> string \<times> time \<Rightarrow> db \<Rightarrow> sep10_challenge \<Rightarrow> string \<Rightarrow> bool" where
  "exchanged sdk cfg envelope t d x d' c token_id \<longleftrightarrow>
     verify_challenge sdk (s10_home cfg) (trim_space envelope) = Inr (sc_account c, sc_hash c) \<and>
     c \<in> set (sep10_challenges (accts d)) \<and> sc_consumed c = None \<and> t < sc_expires c \<and> sep10_spent (sc_id c) d' \<and>
     sk_sign sdk (sep10_token_key sdk (s10_secret cfg)) (sep10_claims_of cfg (sc_account c) t token_id) = Inr (fst x) \<and>
     snd x = t + s10_token_ttl cfg"

lemma sep10_exchange_outcome:
  assumes "challenges_ok d"
  shows "outcome (sep10_exchange sdk cfg envelope) (\<lambda>x d'. \<exists>c i. exchanged sdk cfg envelope t d x d' c i) (\<lambda>_ _. True) d t"
proof (cases "verify_challenge sdk (s10_home cfg) (trim_space envelope)")
  case (Inr p)
  obtain account h where p: "p = (account, h)" by fastforce
  show ?thesis
    unfolding sep10_exchange_def Let_def Inr p sum.case prod.case
  proof (rule outcome_bind, rule outcome_guard, rule outcome_bind, rule outcome_try,
      rule outcome_weaken [OF find_challenge_outcome], goal_cases)
    case (1 c d')
    then have d': "d' = d" and c: "c \<in> set (sep10_challenges (accts d))" "sc_hash c = h" by auto
    show ?case
      unfolding d' sum.case
    proof (rule outcome_bind, rule outcome_guard, rule outcome_bind, rule outcome_now, rule outcome_bind, rule outcome_guard,
        rule outcome_bind, rule outcome_guard, rule outcome_bind, rule outcome_guard, rule outcome_bind,
        rule outcome_weaken [OF consume_challenge_outcome10 [OF assms]], rule outcome_bind, rule outcome_new_id,
        rule outcome_bind, rule outcome_lift, rule outcome_ret, goal_cases)
      case (1 x d1 i token)
      then have "exchanged sdk cfg envelope t d (token, t + s10_token_ttl cfg) d1 c i"
        using Inr p c by (auto simp: exchanged_def)
      then show ?case by blast
    qed simp_all
  qed (simp_all add: outcome_fail)
qed (simp add: sep10_exchange_def Let_def outcome_bind outcome_guard outcome_fail)

lemma sep10_exchange_refused:
  assumes ok: "challenges_ok d" and v: "verify_challenge sdk (s10_home cfg) (trim_space envelope) = Inr (account, h)"
    and c: "c \<in> set (sep10_challenges (accts d))" "sc_hash c = h" "sc_consumed c \<noteq> None"
  shows "outcome (sep10_exchange sdk cfg envelope) (\<lambda>_ _. False) (\<lambda>_ d'. d' = d) d t"
  unfolding sep10_exchange_def Let_def v sum.case prod.case
proof (rule outcome_bind, rule outcome_guard, rule outcome_bind, rule outcome_try,
    rule outcome_weaken [OF find_challenge_outcome], goal_cases)
  case (1 x d')
  have "x = c" by (rule distinct_key_eq [where f = sc_hash and xs = "sep10_challenges (accts d)"])
    (use ok c 1 in \<open>auto simp: challenges_ok_def\<close>)
  with 1 c(3) show ?case
    by (simp only: sum.case) (rule outcome_bind, rule outcome_guard, rule outcome_bind, rule outcome_now,
      rule outcome_bind, rule outcome_guard, simp_all)
qed (simp_all add: outcome_fail)

text \<open>C33: a challenge is exchanged for a token once: after an exchange, whatever calls come between, no envelope
  of the same challenge transaction is exchanged again; the attempt fails and changes nothing.\<close>

theorem challenge_exchanged_once:
  assumes "challenges_ok (w_db w)" and "sep10_exchange sdk cfg envelope w = (Inr x, w1)"
    and "verify_challenge sdk (s10_home cfg) (trim_space envelope) = Inr (account, h)"
    and "history run_sep10 (w_db w1) (w_db w2)"
    and "verify_challenge sdk' (s10_home cfg') (trim_space again) = Inr (account', h)"
  shows "\<exists>e w3. sep10_exchange sdk' cfg' again w2 = (Inl e, w3) \<and> w_db w3 = w_db w2"
proof -
  from outcome_Inr [OF sep10_exchange_outcome [OF assms(1)] assms(2)] assms(3) obtain c where
    c: "c \<in> set (sep10_challenges (accts (w_db w)))" "sc_hash c = h" "sep10_spent (sc_id c) (w_db w1)"
    by (auto simp: exchanged_def)
  have 1: "challenges_from (w_db w) (w_db w1)"
    by (rule steady_run [OF steady_sep10_exchange challenges_from_refl [OF assms(1)] assms(2)])
  then have ok1: "challenges_ok (w_db w1)" by (simp add: challenges_from_def)
  have terms: "sc_id a = sc_id b \<and> sc_hash a = sc_hash b" if "challenge_terms a = challenge_terms b" for a b
    using arg_cong [OF that, of sc_id] arg_cong [OF that, of sc_hash] by (simp add: challenge_terms_def)
  from 1 c(1) obtain c1 where c1: "c1 \<in> set (sep10_challenges (accts (w_db w1)))" "challenge_terms c1 = challenge_terms c"
    by (auto simp: challenges_from_def carried_def)
  from c(3) obtain s where s: "s \<in> set (sep10_challenges (accts (w_db w1)))" "sc_id s = sc_id c" "sc_consumed s \<noteq> None"
    by (auto simp: sep10_spent_def)
  have "s = c1" by (rule distinct_key_eq [where f = sc_id and xs = "sep10_challenges (accts (w_db w1))"])
    (use ok1 s c1(1) terms [OF c1(2)] in \<open>simp_all add: challenges_ok_def\<close>)
  with s terms [OF c1(2)] c(2) have s': "sc_hash s = h" by simp
  from challenges_later [OF assms(4) ok1] have 2: "challenges_ok (w_db w2)"
    "carried challenge_terms sc_consumed (sep10_challenges (accts (w_db w1))) (sep10_challenges (accts (w_db w2)))"
    by (simp_all add: challenges_from_def)
  from carried_stamped [OF 2(2) s(1,3)] obtain r where r: "r \<in> set (sep10_challenges (accts (w_db w2)))"
    "challenge_terms r = challenge_terms s" "sc_consumed r = sc_consumed s" by blast
  from terms [OF r(2)] s' s(3) r(3) have "sc_hash r = h" "sc_consumed r \<noteq> None" by simp_all
  from outcome_refused [OF sep10_exchange_refused [OF 2(1) assms(5) r(1) this]] show ?thesis .
qed

section \<open>Tokens\<close>

text \<open>
  What the program relies on of the tokens: a signed token parses, under its key, to its claims, and
  claims are valid for their issuer and audience from their issue to their expiry.
\<close>

definition jwt_laws :: "sep10_sdk \<Rightarrow> bool" where
  "jwt_laws sdk \<longleftrightarrow> (\<forall>k c s. sk_sign sdk k c = Inr s \<longrightarrow> sk_parse sdk k s = Some c) \<and>
     (\<forall>c now. jc_issued c \<le> unix_seconds now \<and> unix_seconds now < jc_expiry c \<longrightarrow>
        (\<forall>a \<in> set (jc_audience c). sk_validate sdk c (jc_issuer c) a now))"

text \<open>C34: an exchange consumes an open, unexpired challenge whose envelope the account has signed, and the token
  carries its account and, unless its drawn identifier is empty, authenticates exactly that account until it expires.\<close>

theorem wallet_token_authenticates:
  assumes "challenges_ok (w_db w)" and "sep10_exchange sdk cfg envelope w = (Inr (token, expires), w1)"
    and "jwt_laws sdk" and "trim_space token = token" and "token \<noteq> []" and "length token \<le> 8192"
    and "w_now w \<le> now" and "unix_seconds now < unix_seconds expires"
  shows "\<exists>c token_id. c \<in> set (sep10_challenges (accts (w_db w))) \<and> sc_consumed c = None \<and> w_now w < sc_expires c \<and>
    sep10_spent (sc_id c) (w_db w1) \<and>
    verify_challenge sdk (s10_home cfg) (trim_space envelope) = Inr (sc_account c, sc_hash c) \<and>
    sk_parse sdk (sep10_token_key sdk (s10_secret cfg)) token = Some (sep10_claims_of cfg (sc_account c) (w_now w) token_id) \<and>
    (token_id = [] \<or> sep10_authenticate sdk cfg now token = Inr \<lparr>wp_account = sc_account c, wp_token = token_id\<rparr>)"
proof -
  from outcome_Inr [OF sep10_exchange_outcome [OF assms(1)] assms(2)] obtain c i where
    x: "exchanged sdk cfg envelope (w_now w) (w_db w) (token, expires) (w_db w1) c i" by blast
  then have v: "verify_challenge sdk (s10_home cfg) (trim_space envelope) = Inr (sc_account c, sc_hash c)"
    and sg: "sk_sign sdk (sep10_token_key sdk (s10_secret cfg)) (sep10_claims_of cfg (sc_account c) (w_now w) i) = Inr token"
    and ex: "expires = w_now w + s10_token_ttl cfg" by (simp_all add: exchanged_def)
  let ?c = "sep10_claims_of cfg (sc_account c) (w_now w) i"
  have parse: "sk_parse sdk (sep10_token_key sdk (s10_secret cfg)) token = Some ?c"
    using assms(3) sg by (simp add: jwt_laws_def)
  have "unix_seconds (w_now w) \<le> unix_seconds now" using assms(7) by (simp add: unix_seconds_def zdiv_mono1)
  then have "jc_issued ?c \<le> unix_seconds now" "unix_seconds now < jc_expiry ?c" "s10_audience cfg \<in> set (jc_audience ?c)"
    using assms(8) ex by (simp_all add: sep10_claims_of_def)
  moreover have "jc_issuer ?c = s10_issuer cfg" by (simp add: sep10_claims_of_def)
  ultimately have valid: "sk_validate sdk ?c (s10_issuer cfg) (s10_audience cfg) now"
    using assms(3) by (metis jwt_laws_def)
  have acct: "validate_account sdk (sc_account c)" using v by (auto simp: verify_challenge_def split: sum.splits prod.splits if_splits)
  then have "sc_account c \<noteq> []" by (auto simp: validate_account_def Let_def trim_space_def)
  then have "i = [] \<or> sep10_authenticate sdk cfg now token = Inr \<lparr>wp_account = sc_account c, wp_token = i\<rparr>"
    using assms(4-6) parse valid acct by (simp add: sep10_authenticate_def Let_def) (simp add: sep10_claims_of_def)
  with x v parse show ?thesis by (auto simp: exchanged_def)
qed

end
