(* ===== verification/Wallet_Laws.thy ===== *)
theory Wallet_Laws
  imports Wallets Sep10_Laws
begin

text \<open>
  The wallets of developers: unique accounts and one primary wallet of a user on a network, what a
  registration proves, and that calls of one user leave the wallets of the others alone.
\<close>

section \<open>The table\<close>

definition wallet_key :: "developer_wallet \<Rightarrow> string \<times> string \<times> string" where
  "wallet_key r = (dw_user r, dw_network r, dw_account r)"

abbreviation wallet_rows :: "db \<Rightarrow> developer_wallet list" where
  "wallet_rows d \<equiv> developer_wallets (accts d)"

definition wallets_ok :: "db \<Rightarrow> bool" where
  "wallets_ok d \<longleftrightarrow> distinct (List.map dw_id (wallet_rows d)) \<and> distinct (List.map wallet_key (wallet_rows d)) \<and>
     check_unique is_primary_of (wallet_rows d) = None"

lemma check_wallets_eq: "check_wallets rows = check_unique is_primary_of rows"
proof -
  have "is_primary_of = (\<lambda>r. if dw_primary r \<and> dw_status r = ''active'' then Some (dw_user r, dw_network r) else None)"
    by (rule ext) (simp add: is_primary_of_def)
  then show ?thesis by (simp add: check_wallets_def)
qed

lemma wallets_ok_update:
  assumes "wallets_ok d" and "\<And>r. P r \<Longrightarrow> dw_id (f r) = dw_id r \<and> wallet_key (f r) = wallet_key r"
    and "check_wallets (update_rows P f (wallet_rows d)) = None"
  shows "wallets_ok (put_acc developer_wallets_update (update_rows P f (wallet_rows d)) d)"
proof -
  have "List.map dw_id (update_rows P f (wallet_rows d)) = List.map dw_id (wallet_rows d)"
    "List.map wallet_key (update_rows P f (wallet_rows d)) = List.map wallet_key (wallet_rows d)"
    by (rule map_update_rows_on, use assms(2) in blast)+
  with assms show ?thesis by (simp add: wallets_ok_def check_wallets_eq)
qed

lemma steady_update_wallets:
  assumes "\<And>r. P r \<Longrightarrow> dw_id (f r) = dw_id r \<and> wallet_key (f r) = wallet_key r"
  shows "steady wallets_ok (update_wallets P f)"
  unfolding update_wallets_def by (rule steady_update) (rule wallets_ok_update [OF _ assms])

lemma wallets_ok_insert:
  assumes "wallets_ok d" "\<And>q. q \<in> set (wallet_rows d) \<Longrightarrow> \<not> wallet_clash r q"
  shows "wallets_ok (put_acc developer_wallets_update (wallet_rows d @ [r]) d)"
proof -
  have "distinct (List.map dw_id (wallet_rows d @ [r]))" "distinct (List.map wallet_key (wallet_rows d @ [r]))"
    by (rule distinct_snoc, use assms in \<open>auto simp: wallets_ok_def wallet_clash_def wallet_key_def\<close>)+
  moreover have "check_unique is_primary_of (wallet_rows d @ [r]) = None"
    by (rule check_unique_snoc) (use assms in \<open>auto simp: wallets_ok_def wallet_clash_def\<close>)
  ultimately show ?thesis by (simp add: wallets_ok_def)
qed

lemma steady_insert_wallet [steady_intro]: "steady wallets_ok (insert_wallet r)"
  unfolding insert_wallet_def by (intro steady_intro steady_insert) (rule wallets_ok_insert)

lemma steady_demote [steady_intro]: "steady wallets_ok (demote_primary u n x)"
  unfolding demote_primary_def by (intro steady_intro steady_update_wallets) (simp add: wallet_key_def)

lemma steady_client_active [steady_intro]: "steady I (client_active w)"
  unfolding client_active_def by (intro steady_intro)

lemma steady_upsert [steady_intro]: "steady wallets_ok (wallet_upsert w)"
  unfolding wallet_upsert_def by (intro steady_intro steady_update_wallets) (simp add: renewed_def wallet_key_def)

lemma steady_wallet_update [steady_intro]: "steady wallets_ok (wallet_repo_update u i x now)"
  unfolding wallet_repo_update_def by (intro steady_intro steady_update_wallets) (simp add: settings_def wallet_key_def)

lemma steady_wallet_revoke [steady_intro]: "steady wallets_ok (wallet_revoke u i now)"
  unfolding wallet_revoke_def by (intro steady_intro steady_update_wallets) (simp add: wallet_key_def)

datatype wallet_call =
    WalletRegister string "time \<Rightarrow> string \<Rightarrow> err + sep10_principal" string wallet_input
  | WalletList string
  | WalletUpdate string string wallet_update
  | WalletRevoke string string

fun run_wallet :: "wallet_call \<Rightarrow> unit repo" where
  "run_wallet (WalletRegister net ver u input) = act_bind (register_wallet net ver u input) (\<lambda>_. act_ret ())"
| "run_wallet (WalletList u) = act_bind (list_wallets u) (\<lambda>_. act_ret ())"
| "run_wallet (WalletUpdate u i x) = act_bind (update_wallet u i x) (\<lambda>_. act_ret ())"
| "run_wallet (WalletRevoke u i) = revoke_wallet u i"

fun wallet_caller :: "wallet_call \<Rightarrow> string" where
  "wallet_caller (WalletRegister net ver u input) = u"
| "wallet_caller (WalletList u) = u"
| "wallet_caller (WalletUpdate u i x) = u"
| "wallet_caller (WalletRevoke u i) = u"

lemma steady_register: "steady wallets_ok (register_wallet net ver u input)"
  unfolding register_wallet_def Let_def by (intro steady_intro)

lemma steady_run_wallet: "steady wallets_ok (run_wallet c)"
proof (cases c)
  case (WalletList u)
  then show ?thesis by (simp add: list_wallets_def wallet_list_def) (intro steady_intro)
next
  case (WalletUpdate u i x)
  then show ?thesis by (simp add: update_wallet_def) (intro steady_intro)
next
  case (WalletRevoke u i)
  then show ?thesis by (simp add: revoke_wallet_def) (intro steady_intro)
qed (auto intro!: steady_intro steady_register)

interpretation wallet_system: invariant_system run_wallet wallets_ok
  by (rule steady_invariant_system) (rule steady_run_wallet)

text \<open>Whatever wallet calls are made, with whatever faults, a user never has two active primary wallets on a
  network, nor one account registered twice.\<close>

theorem one_primary_wallet:
  assumes "wallets_ok d" and "history run_wallet d d'"
    and "a \<in> set (wallet_rows d')" and "b \<in> set (wallet_rows d')"
    and "dw_user a = dw_user b" and "dw_network a = dw_network b"
    and "dw_account a = dw_account b \<or> dw_primary a \<and> dw_status a = ''active'' \<and> dw_primary b \<and> dw_status b = ''active''"
  shows "a = b"
proof -
  have ok: "wallets_ok d'" by (rule steady_history [OF steady_run_wallet assms(2,1)])
  from assms(7) show ?thesis
  proof
    assume "dw_account a = dw_account b"
    with ok assms(3-6) show ?thesis
      by (intro distinct_key_eq [where f = wallet_key and xs = "wallet_rows d'"]) (auto simp: wallets_ok_def wallet_key_def)
  next
    assume "dw_primary a \<and> dw_status a = ''active'' \<and> dw_primary b \<and> dw_status b = ''active''"
    with ok assms(3-6) show ?thesis
      by (intro check_unique_inj [where k = is_primary_of and rows = "wallet_rows d'"]) (auto simp: wallets_ok_def is_primary_of_def)
  qed
qed

section \<open>Other users' wallets\<close>

definition wallets_of :: "string \<Rightarrow> db \<Rightarrow> developer_wallet list" where
  "wallets_of u d = filter (\<lambda>r. dw_user r = u) (wallet_rows d)"

text \<open>The wallets of \<open>u\<close> are \<open>W\<close>.\<close>

definition wallets_kept :: "string \<Rightarrow> developer_wallet list \<Rightarrow> db \<Rightarrow> bool" where
  "wallets_kept u W d \<longleftrightarrow> wallets_ok d \<and> wallets_of u d = W"

lemma kept_update:
  assumes "wallets_kept u W d" and "\<And>r. P r \<Longrightarrow> dw_id (f r) = dw_id r \<and> wallet_key (f r) = wallet_key r"
    and "check_wallets (update_rows P f (wallet_rows d)) = None"
    and "\<And>r. r \<in> set (wallet_rows d) \<Longrightarrow> P r \<Longrightarrow> dw_user r \<noteq> u"
  shows "wallets_kept u W (put_acc developer_wallets_update (update_rows P f (wallet_rows d)) d)"
proof -
  have user: "dw_user (f r) = dw_user r" if "P r" for r
    using assms(2) [OF that] by (simp add: wallet_key_def)
  have "filter (\<lambda>r. dw_user r = u) (update_rows P f rows) = filter (\<lambda>r. dw_user r = u) rows"
    if "\<And>r. r \<in> set rows \<Longrightarrow> P r \<Longrightarrow> dw_user r \<noteq> u" for rows
    using that user by (induction rows) (auto simp: update_rows_def)
  from this [OF assms(4)] assms(1) wallets_ok_update [OF _ assms(2,3)] show ?thesis
    by (simp add: wallets_kept_def wallets_of_def)
qed

lemma steady_kept_update:
  assumes "\<And>r. P r \<Longrightarrow> dw_id (f r) = dw_id r \<and> wallet_key (f r) = wallet_key r" and "\<And>r. P r \<Longrightarrow> dw_user r \<noteq> u"
  shows "steady (wallets_kept u W) (update_wallets P f)"
  unfolding update_wallets_def by (rule steady_update) (rule kept_update [OF _ assms(1)], use assms(2) in auto)

lemma steady_kept_demote: "v \<noteq> u \<Longrightarrow> steady (wallets_kept u W) (demote_primary v n x)"
  unfolding demote_primary_def by (intro steady_intro steady_kept_update) (auto simp: wallet_key_def)

text \<open>An update by the identifier of a row of another user.\<close>

lemma outcome_kept_by_id:
  assumes "wallets_kept u W d" and "r \<in> dw_id ` set (filter (\<lambda>q. dw_user q \<noteq> u) (wallet_rows d))"
    and "\<And>q. dw_id (f q) = dw_id q \<and> wallet_key (f q) = wallet_key q"
  shows "outcome (update_wallets (\<lambda>q. dw_id q = r) f) (\<lambda>_. wallets_kept u W) (\<lambda>_. wallets_kept u W) d t"
  unfolding update_wallets_def
proof (rule outcome_update)
  fix rs assume rs: "rs = update_rows (\<lambda>q. dw_id q = r) f (wallet_rows d)" "check_wallets rs = None"
  show "wallets_kept u W (put_acc developer_wallets_update rs d)"
    unfolding rs(1)
  proof (rule kept_update [OF assms(1) assms(3) rs(2) [unfolded rs(1)]])
    fix q assume q: "q \<in> set (wallet_rows d)" "dw_id q = r"
    from assms(2) obtain x where x: "x \<in> set (wallet_rows d)" "dw_id x = r" "dw_user x \<noteq> u" by auto
    have "q = x" by (rule distinct_key_eq [where f = dw_id and xs = "wallet_rows d"])
      (use assms(1) q x in \<open>auto simp: wallets_kept_def wallets_ok_def\<close>)
    with x show "dw_user q \<noteq> u" by simp
  qed
qed (rule assms(1))

definition foreign_id :: "string \<Rightarrow> string \<Rightarrow> db \<Rightarrow> bool" where
  "foreign_id u i d \<longleftrightarrow> i \<in> dw_id ` set (filter (\<lambda>q. dw_user q \<noteq> u) (wallet_rows d))"

lemma steady_foreign_demote:
  "v \<noteq> u \<Longrightarrow> steady (\<lambda>d. wallets_kept u W d \<and> foreign_id u i d) (demote_primary v n x)"
  unfolding demote_primary_def update_wallets_def
proof (intro steady_intro steady_update conjI)
  fix now d assume v: "v \<noteq> u" and d: "wallets_kept u W d \<and> foreign_id u i d"
  let ?P = "\<lambda>r. dw_user r = v \<and> dw_network r = n \<and> dw_status r = ''active'' \<and> dw_primary r \<and> (x = [] \<or> dw_id r \<noteq> x)"
  let ?f = "\<lambda>r. r\<lparr>dw_primary := False, dw_updated := now\<rparr>"
  assume c: "check_wallets (update_rows ?P ?f (wallet_rows d)) = None"
  show "wallets_kept u W (put_acc developer_wallets_update (update_rows ?P ?f (wallet_rows d)) d)"
    by (rule kept_update [OF _ _ c]) (use d v in \<open>auto simp: wallet_key_def\<close>)
  from d obtain r where r: "r \<in> set (wallet_rows d)" "dw_user r \<noteq> u" "dw_id r = i" by (auto simp: foreign_id_def)
  show "foreign_id u i (put_acc developer_wallets_update (update_rows ?P ?f (wallet_rows d)) d)"
    unfolding foreign_id_def using in_update_rows [OF r(1), of ?P ?f] r(2,3)
    by (intro image_eqI [where x = "if ?P r then ?f r else r"]) auto
qed

lemma foreign_update_outcome:
  assumes "v \<noteq> u" "wallets_kept u W d" "foreign_id u i d" "\<And>q. dw_id (f q) = dw_id q \<and> wallet_key (f q) = wallet_key q"
  shows "outcome (act_bind (if b then demote_primary v n x else act_ret ()) (\<lambda>_.
      act_bind (update_wallets (\<lambda>q. dw_id q = i) f) (\<lambda>_. act_ret z)))
    (\<lambda>_. wallets_kept u W) (\<lambda>_. wallets_kept u W) d t"
proof (rule outcome_bind, rule outcome_weaken [OF steadyD [where I = "\<lambda>d. wallets_kept u W d \<and> foreign_id u i d"]])
  show "steady (\<lambda>d. wallets_kept u W d \<and> foreign_id u i d) (if b then demote_primary v n x else act_ret ())"
    by (intro steady_intro steady_foreign_demote assms(1))
  fix y d' assume d': "wallets_kept u W d' \<and> foreign_id u i d'"
  show "outcome (act_bind (update_wallets (\<lambda>q. dw_id q = i) f) (\<lambda>_. act_ret z)) (\<lambda>_. wallets_kept u W) (\<lambda>_. wallets_kept u W) d' t"
    by (rule outcome_bind, rule outcome_weaken [OF outcome_kept_by_id [OF _ _ assms(4)]])
       (use d' in \<open>auto simp: foreign_id_def intro: outcome_ret\<close>)
qed (use assms in auto)

lemma upsert_kept:
  assumes v: "dw_user w \<noteq> u"
  shows "steady (wallets_kept u W) (wallet_upsert w)"
  unfolding wallet_upsert_def
proof (rule steady_tx_body, rule steady_bind, rule steady_client_active, rule steadyI, rule outcome_bind, rule outcome_optional, goal_cases)
  case (1 a d t r)
  then have r: "r \<in> set (wallet_rows d)" "dw_user r = dw_user w" by (auto dest: first_by_Some)
  have "foreign_id u (dw_id r) d" unfolding foreign_id_def using r v by (intro image_eqI [of _ _ r]) auto
  then show ?case
    unfolding option.case
    by (intro foreign_update_outcome) (use v 1(1) in \<open>auto simp: renewed_def wallet_key_def\<close>)
next
  case (2 a d t)
  have "steady (wallets_kept u W) (insert_wallet w)"
    unfolding insert_wallet_def
    by (intro steady_intro steady_insert)
       (use v wallets_ok_insert in \<open>auto simp: wallets_kept_def wallets_of_def simp del: put_acc_def\<close>, simp)
  then have "steady (wallets_kept u W) (act_bind (if dw_primary w then demote_primary (dw_user w) (dw_network w) [] else act_ret ())
      (\<lambda>_. act_bind (insert_wallet w) (\<lambda>_. act_ret (developer_wallet_view w))))"
    by (intro steady_intro steady_kept_demote v)
  from steadyD [OF this 2(1)] show ?case by simp
qed simp_all

lemma repo_update_kept:
  assumes v: "v \<noteq> u"
  shows "steady (wallets_kept u W) (wallet_repo_update v i x now)"
  unfolding wallet_repo_update_def
proof (rule steady_tx_body, rule steadyI, rule outcome_bind, rule outcome_or_missing, goal_cases)
  case (1 d t r)
  then have r: "r \<in> set (wallet_rows d)" "dw_user r = v" by (auto dest: first_by_Some)
  have f: "foreign_id u (dw_id r) d" unfolding foreign_id_def using r v by (intro image_eqI [of _ _ r]) auto
  show ?case
    by (rule outcome_bind, rule outcome_guard, rule foreign_update_outcome)
       (use v 1(1) f in \<open>auto simp: settings_def wallet_key_def\<close>)
qed simp

lemma run_wallet_kept:
  assumes v: "trim_space (wallet_caller c) \<noteq> u"
  shows "steady (wallets_kept u W) (run_wallet c)"
proof (cases c)
  case (WalletRegister net ver user input)
  with v have "steady (wallets_kept u W) (register_wallet net ver user input)"
    unfolding register_wallet_def Let_def by (intro steady_intro upsert_kept) simp
  with WalletRegister show ?thesis by (auto intro!: steady_intro)
next
  case (WalletList user)
  then show ?thesis by (simp add: list_wallets_def wallet_list_def) (intro steady_intro)
next
  case (WalletUpdate user i x)
  with v show ?thesis by (simp add: update_wallet_def) (intro steady_intro repo_update_kept, simp)
next
  case (WalletRevoke user i)
  with v show ?thesis
    by (simp add: revoke_wallet_def wallet_revoke_def) (intro steady_intro steady_kept_update, auto simp: wallet_key_def)
qed

text \<open>A call changes no wallet of another user, whatever the faults.\<close>

theorem wallets_isolated:
  assumes "wallets_ok (w_db w)" and "trim_space (wallet_caller c) \<noteq> u"
  shows "wallets_of u (w_db (snd (run_wallet c w))) = wallets_of u (w_db w)"
proof -
  have "wallets_kept u (wallets_of u (w_db w)) (w_db w)" using assms(1) by (simp add: wallets_kept_def)
  from steady_run [OF run_wallet_kept [OF assms(2)] this, of "fst (run_wallet c w)" "snd (run_wallet c w)"]
  show ?thesis by (simp add: wallets_kept_def)
qed

section \<open>Registration\<close>

lemma steady_demote_keeps:
  "steady (\<lambda>d. wallets_ok d \<and> (\<exists>q \<in> set (wallet_rows d). dw_id q = dw_id r \<and> renewed w q = renewed w r)) (demote_primary v n x)"
  unfolding demote_primary_def update_wallets_def
proof (intro steady_intro steady_update conjI)
  fix now d assume d: "wallets_ok d \<and> (\<exists>q \<in> set (wallet_rows d). dw_id q = dw_id r \<and> renewed w q = renewed w r)"
  let ?P = "\<lambda>r. dw_user r = v \<and> dw_network r = n \<and> dw_status r = ''active'' \<and> dw_primary r \<and> (x = [] \<or> dw_id r \<noteq> x)"
  let ?f = "\<lambda>r. r\<lparr>dw_primary := False, dw_updated := now\<rparr>"
  assume c: "check_wallets (update_rows ?P ?f (wallet_rows d)) = None"
  show "wallets_ok (put_acc developer_wallets_update (update_rows ?P ?f (wallet_rows d)) d)"
    by (rule wallets_ok_update [OF _ _ c]) (use d in \<open>auto simp: wallet_key_def\<close>)
  from d obtain q where q: "q \<in> set (wallet_rows d)" "dw_id q = dw_id r" "renewed w q = renewed w r" by auto
  have "renewed w (?f q) = renewed w q" by (simp add: renewed_def)
  with q in_update_rows [OF q(1), of ?P ?f]
  show "\<exists>q \<in> set (wallet_rows (put_acc developer_wallets_update (update_rows ?P ?f (wallet_rows d)) d)).
      dw_id q = dw_id r \<and> renewed w q = renewed w r"
    by (intro bexI [where x = "if ?P q then ?f q else q"]) auto
qed

definition registered :: "developer_wallet \<Rightarrow> wallet_view \<Rightarrow> db \<Rightarrow> bool" where
  "registered w v d \<longleftrightarrow> (\<exists>r \<in> set (wallet_rows d). v = developer_wallet_view r \<and> wallet_key r = wallet_key w \<and>
     dw_status r = ''active'' \<and> dw_primary r = dw_primary w)"

lemma renew_outcome:
  assumes "wallets_ok d" "r \<in> set (wallet_rows d)" "wallet_key r = wallet_key w"
  shows "outcome (act_bind (if b then demote_primary v n x else act_ret ()) (\<lambda>_.
      act_bind (update_wallets (\<lambda>q. dw_id q = dw_id r) (renewed w)) (\<lambda>_. act_ret (developer_wallet_view (renewed w r)))))
    (\<lambda>v. registered w v) (\<lambda>_ _. True) d t"
proof (rule outcome_bind, rule outcome_weaken [OF steadyD [where I = "\<lambda>d. wallets_ok d \<and>
    (\<exists>q \<in> set (wallet_rows d). dw_id q = dw_id r \<and> renewed w q = renewed w r)"]])
  show "steady (\<lambda>d. wallets_ok d \<and> (\<exists>q \<in> set (wallet_rows d). dw_id q = dw_id r \<and> renewed w q = renewed w r))
      (if b then demote_primary v n x else act_ret ())"
    by (rule steady_if) (rule steady_demote_keeps steady_ret)+
  fix y d' assume "wallets_ok d' \<and> (\<exists>q \<in> set (wallet_rows d'). dw_id q = dw_id r \<and> renewed w q = renewed w r)"
  then obtain q where q: "q \<in> set (wallet_rows d')" "dw_id q = dw_id r" "renewed w q = renewed w r" by blast
  show "outcome (act_bind (update_wallets (\<lambda>q. dw_id q = dw_id r) (renewed w)) (\<lambda>_. act_ret (developer_wallet_view (renewed w r))))
      (\<lambda>v. registered w v) (\<lambda>_ _. True) d' t"
    unfolding update_wallets_def
  proof (rule outcome_bind, rule outcome_update, rule outcome_ret)
    fix rs assume "rs = update_rows (\<lambda>q. dw_id q = dw_id r) (renewed w) (wallet_rows d')"
    with in_update_rows [OF q(1), of "\<lambda>q. dw_id q = dw_id r" "renewed w"] q(2,3) have "renewed w r \<in> set rs" by simp
    then show "registered w (developer_wallet_view (renewed w r)) (put_acc developer_wallets_update rs d')"
      using assms(3) unfolding registered_def by (intro bexI) (auto simp: renewed_def wallet_key_def)
  qed simp
qed (use assms in auto)

lemma upsert_outcome:
  assumes "wallets_ok d" and a: "dw_status w = ''active''"
  shows "outcome (wallet_upsert w) (\<lambda>v. registered w v) (\<lambda>_ _. True) d t"
  unfolding wallet_upsert_def
proof (rule outcome_weaken [OF outcome_tx_body [where Q = "\<lambda>v. registered w v"]], rule outcome_bind,
    rule outcome_weaken [OF steadyD [where I = wallets_ok]],
    rule steady_client_active, rule assms(1), rule outcome_bind, rule outcome_optional, goal_cases)
  case (1 x d1 r)
  then have r: "r \<in> set (wallet_rows d1)" "wallet_key r = wallet_key w" by (auto dest!: first_by_Some simp: wallet_key_def)
  show ?case unfolding option.case by (rule renew_outcome [OF 1(1) r])
next
  case (2 x d1)
  show ?case
    unfolding option.case insert_wallet_def
    by (rule outcome_bind, rule outcome_weaken [OF steadyD [where I = wallets_ok]], intro steady_intro, rule 2(1),
        rule outcome_bind, rule outcome_bind, rule outcome_guard, rule outcome_insert, rule outcome_ret)
       (auto simp: registered_def a)
qed simp_all

text \<open>C40: a registration succeeds only with a token that authenticates the very account, and the wallet is then an
  active wallet of the caller; registered as primary, it is the only active primary wallet of the
  caller on the network.\<close>

theorem registration_proves_account:
  assumes "wallets_ok (w_db w)" and "register_wallet network ver user input w = (Inr v, w1)"
  shows "(\<exists>who. ver (w_now w) (trim_space (wi_token input)) = Inr who \<and> wp_account who = wv_account v) \<and>
    wv_user v = trim_space user \<and> wv_network v = network \<and> wv_status v = ''active'' \<and> wv_primary v = wi_primary input \<and>
    developer_wallet_view ` {r \<in> set (wallet_rows (w_db w1)). wallet_key r = (wv_user v, network, wv_account v)} = {v} \<and>
    (wi_primary input \<longrightarrow> developer_wallet_view ` {r \<in> set (wallet_rows (w_db w1)).
        is_primary_of r = Some (trim_space user, network)} = {v})"
proof -
  let ?account = "trim_space (wi_account input)"
  have "outcome (register_wallet network ver user input)
      (\<lambda>v d'. (\<exists>who. ver (w_now w) (trim_space (wi_token input)) = Inr who \<and> wp_account who = ?account) \<and>
        (\<exists>x. registered x v d' \<and> wallet_key x = (trim_space user, network, ?account) \<and> dw_primary x = wi_primary input))
      (\<lambda>_ _. True) (w_db w) (w_now w)"
  proof (cases "ver (w_now w) (trim_space (wi_token input))")
    case (Inl e)
    then show ?thesis
      unfolding register_wallet_def Let_def
      by (intro outcome_bind outcome_guard outcome_now) (simp_all add: outcome_fail)
  next
    case (Inr who)
    show ?thesis
      unfolding register_wallet_def Let_def
    proof (rule outcome_bind, rule outcome_guard, rule outcome_bind, rule outcome_now, goal_cases)
      case 1
      show ?case
        unfolding Inr sum.case
        by (rule outcome_bind, rule outcome_guard, rule outcome_bind, rule outcome_new_id, rule outcome_bind, rule outcome_now,
            rule outcome_weaken [OF upsert_outcome [OF assms(1)]])
           (use 1 in \<open>auto simp: wallet_key_def\<close>)
    qed simp_all
  qed
  from outcome_Inr [OF this assms(2)] obtain who x r where
    who: "ver (w_now w) (trim_space (wi_token input)) = Inr who" "wp_account who = ?account" and
    r: "r \<in> set (wallet_rows (w_db w1))" "v = developer_wallet_view r" "wallet_key r = (trim_space user, network, ?account)"
      "dw_status r = ''active''" "dw_primary r = wi_primary input" by (auto simp: registered_def)
  have ok: "wallets_ok (w_db w1)" by (rule steady_run [OF steady_register assms])
  have v: "wv_user v = trim_space user" "wv_network v = network" "wv_account v = ?account" "wv_status v = ''active''"
    "wv_primary v = wi_primary input" using r by (simp_all add: developer_wallet_view_def wallet_key_def)
  have key: "q = r" if "q \<in> set (wallet_rows (w_db w1))" "wallet_key q = wallet_key r" for q
    using ok that r(1) unfolding wallets_ok_def by (intro distinct_key_eq [where f = wallet_key and xs = "wallet_rows (w_db w1)"]) auto
  have prim: "q = r" if "q \<in> set (wallet_rows (w_db w1))" "wi_primary input" "is_primary_of q = Some (trim_space user, network)" for q
    by (rule check_unique_inj [where k = is_primary_of and rows = "wallet_rows (w_db w1)"])
       (use ok that r in \<open>auto simp: wallets_ok_def is_primary_of_def wallet_key_def\<close>)
  have kr: "(wv_user v, network, wv_account v) = wallet_key r" using r(3) v by simp
  have "{q \<in> set (wallet_rows (w_db w1)). wallet_key q = (wv_user v, network, wv_account v)} = {r}"
    using key r(1) unfolding kr by blast
  moreover have "{q \<in> set (wallet_rows (w_db w1)). is_primary_of q = Some (trim_space user, network)} = {r}" if "wi_primary input"
  proof -
    have "is_primary_of r = Some (trim_space user, network)" using r that by (simp add: is_primary_of_def wallet_key_def)
    with prim [OF _ that] r(1) show ?thesis by blast
  qed
  ultimately show ?thesis using who v r(2) by simp
qed

end
