(* ===== verification/Wallet_Examples.thy ===== *)
theory Wallet_Examples
  imports Wallet_Laws
begin

text \<open>
  Concrete runs of the wallet components: a firm quote that is made, read and consumed, a SEP-10
  challenge that is exchanged, and two wallets of one user. They are the witnesses of the properties.
\<close>

declare world0_facts [simp]

section \<open>Prices and firm quotes\<close>

definition demo_sep38 :: sep38_config where
  "demo_sep38 = \<lparr>s38_policy = \<lparr>ttl = 600 * second, max_age = 300 * second, spread_bps = 150\<rparr>, s38_min = 10000,
     s38_max = 1000000, s38_issuer = []\<rparr>"

definition demo_rate :: market_price where
  "demo_rate = \<lparr>idr_per_xlm = ''5432.1'', observed_at = 1000\<rparr>"

definition demo_holder :: sep10_principal where
  "demo_holder = \<lparr>wp_account = ''GA2'', wp_token = ''t1''\<rparr>"

definition demo_quote_request :: sep38_quote_request where
  "demo_quote_request = \<lparr>qr_sell_asset = sep38_idr_asset, qr_buy_asset = sep38_xlm_asset, qr_sell_amount = ''50000'',
     qr_buy_amount = [], qr_sell_delivery = ''qris'', qr_buy_delivery = []\<rparr>"

definition demo_quoted :: quote where
  "demo_quoted = \<lparr>fiat_amount = 50000, asset_amount = 90685156, q_rate = decimal (54321 / 10),
     adjusted_rate = decimal (54321 / 10 * (203 / 200)), q_spread_bps = 150, source_at = 1000,
     q_expires_at = 2000 + 600 * second\<rparr>"

lemma demo_rate_rate: "market_rate demo_rate = Some (54321 / 10)"
proof -
  have "trim_space ''5432.1'' = ''5432'' @ CHR ''.'' # ''1''" by code_simp
  then show ?thesis
    using rat_set_digits [of "''5432''" "''1''"]
    by (simp add: market_rate_def demo_rate_def is_digit_def digits_val_def digit_val_def less_eq_char_nat)
qed

lemma demo_sep38_simps [simp]:
  "\<not> policy_invalid (s38_policy demo_sep38)" "\<not> price_stale (s38_policy demo_sep38) 2000 demo_rate"
  "spread_multiplier (s38_policy demo_sep38) = 203 / 200" "spread_bps (s38_policy demo_sep38) = 150"
  "ttl (s38_policy demo_sep38) = 600 * second" "observed_at demo_rate = 1000" "s38_issuer demo_sep38 = []"
  by (simp_all add: policy_invalid_def demo_sep38_def price_stale_def demo_rate_def time_sub_def
      int64_min_def int64_max_def spread_multiplier_def)

lemma demo_created_quote: "quote_create (s38_policy demo_sep38) 2000 50000 demo_rate = Inr demo_quoted"
proof -
  have "buy_floor (54321 / 10 * (203 / 200)) 50000 = 90685156"
    unfolding buy_floor_def by (rule floor_unique) (simp_all add: stroops_per_xlm_def)
  then show ?thesis
    by (simp add: quote_create_spec demo_rate_rate Let_def demo_quoted_def int64_max_def)
qed

lemma demo_texts:
  "trim_space sep38_idr_asset = sep38_idr_asset" "trim_space sep38_xlm_asset = sep38_xlm_asset"
  "trim_space ''50000'' = ''50000''" "trim_space ''qris'' = ''qris''" "trim_space ([] :: string) = []"
  "trim_space ''q1'' = ''q1''" "trim_space ''GA2'' = ''GA2''" "trim_space ''quote-q1'' = ''quote-q1''"
  "valid_classic_account ''GA2''" "sep38_asset_identifier [] = sep38_xlm_asset"
  by code_simp+

lemma demo_idr_amount: "parse_sep38_idr ''50000'' = Inr 50000" "fiat_in_range demo_sep38 50000"
proof -
  have "parse_int64 ''50000'' = Some (int (digits_val ''50000''))"
    by (rule parse_int64_digits) (simp_all add: is_digit_def less_eq_char_nat digits_val_def digit_val_def int64_max_def)
  then show "parse_sep38_idr ''50000'' = Inr 50000"
    by (simp add: parse_sep38_idr_def demo_texts digits_val_def digit_val_def)
qed (simp add: fiat_in_range_def demo_sep38_def)

lemma demo_trimmed: "trimmed_quote_request demo_quote_request = demo_quote_request"
  "default_delivery demo_quote_request = demo_quote_request"
  by (simp_all add: trimmed_quote_request_def demo_quote_request_def demo_texts default_delivery_def)

lemma demo_quote_of: "sep38_quote_of demo_sep38 2000 demo_quote_request demo_rate = Inr demo_quoted"
  by (simp add: sep38_quote_of_def demo_quote_request_def quote_fiat_def demo_idr_amount demo_created_quote)

definition demo_row :: sep38_quote where
  "demo_row = sep38_quote_row demo_sep38 ''GA2'' 2000 ''q1'' demo_quote_request demo_quoted"

lemma demo_row_simps [simp]:
  "sq_id demo_row = ''q1''" "sq_quote demo_row = ''quote-q1''" "sq_wallet demo_row = ''GA2''" "sq_consumed demo_row = None"
  "sq_expires demo_row = 2000 + 600 * second" "sq_spread demo_row = 150" "sq_sell_amount demo_row = ''50000''"
  by (simp_all add: demo_row_def sep38_quote_row_def Let_def demo_quoted_def quote_sell_amount_def demo_quote_request_def
      demo_texts sep38_idr_asset_def sep38_xlm_asset_def)

lemma demo_row_times: "sq_expires demo_row = 2000 + 600 * second" "sq_created demo_row = 2000" "sq_updated demo_row = 2000"
    "sq_consumed demo_row = None"
  by (simp_all add: demo_row_def sep38_quote_row_def Let_def demo_quoted_def)

lemma demo_row_more: "sq_sell_asset demo_row = sep38_idr_asset" "amount_of sep38_idr_asset ''50000'' = Inr 50000"
  by (simp_all add: demo_row_def sep38_quote_row_def Let_def demo_quote_request_def amount_of_def demo_idr_amount)

lemma demo_clock [simp]: "timestamptz 600000002000 = 600000002000" "timestamptz 2000 = 2000" "timestamptz 3000 = 3000"
  by (simp_all add: timestamptz_def)

lemma demo_row_stored [simp]: "stored_quote demo_row = demo_row"
  by (simp only: stored_quote_def demo_row_times option.map) (simp add: demo_row_def sep38_quote_row_def Let_def demo_quoted_def)

definition demo_quote_db :: db where "demo_quote_db = put_acc sep38_quotes_update [demo_row] empty_db"

lemma demo_quote_rows [simp]: "sep38_quotes (accts demo_quote_db) = [demo_row]"
  by (simp add: demo_quote_db_def)

lemma no_quotes [simp]: "sep38_quotes (accts empty_db) = []"
  by code_simp

lemma demo_quotes_ok: "quotes_ok empty_db" "quotes_ok demo_quote_db"
  by (simp_all add: quotes_ok_def)

lemma demo_quote_made:
  obtains w1 where "sep38_quote_create demo_sep38 (Inr demo_rate) demo_holder demo_quote_request (world0 empty_db [''q1''] 2000) =
    (Inr (sep38_quote_view_of demo_row), w1)" "w_db w1 = demo_quote_db"
proof -
  have "runs (sep38_quote_create demo_sep38 (Inr demo_rate) demo_holder demo_quote_request)
      (\<lambda>v d _. v = sep38_quote_view_of demo_row \<and> d = demo_quote_db) empty_db [''q1''] 2000"
    unfolding sep38_quote_create_def Let_def demo_trimmed sep38_insert_quote_def insert_sep38_def
    by (rule demo_quote_of runs_intro
        | (simp add: demo_holder_def demo_texts demo_quote_db_def flip: demo_row_def; fail)
        | (simp add: demo_texts demo_quote_request_def valid_sep38_pair_for_def; fail) | (simp only: sum.case))+
  from runs_world0 [OF this] that show thesis by blast
qed

theorem firm_quote_is_price_witness:
  "\<exists>p. sep38_price_of demo_sep38 (Inr demo_rate) 2000 (priced_request demo_quote_request) = Inr p \<and>
     sp_sell_asset p = sep38_idr_asset \<and> Inr 50000 = amount_of (sp_sell_asset p) (sp_sell_amount p)"
proof -
  obtain w1 where "sep38_quote_create demo_sep38 (Inr demo_rate) demo_holder demo_quote_request (world0 empty_db [''q1''] 2000) =
    (Inr (sep38_quote_view_of demo_row), w1)" by (rule demo_quote_made)
  from firm_quote_is_price [OF this] obtain p where
    "sep38_price_of demo_sep38 (Inr demo_rate) 2000 (priced_request demo_quote_request) = Inr p"
    "sq_sell_asset demo_row = sp_sell_asset p"
    "amount_of (sq_sell_asset demo_row) (sq_sell_amount demo_row) = amount_of (sp_sell_asset p) (sp_sell_amount p)"
    by (auto simp: sep38_quote_view_of_def)
  then show ?thesis by (simp add: demo_row_more)
qed

text \<open>A price older than five minutes.\<close>

theorem sep38_price_errors_witness:
  "\<exists>e. sep38_price_of demo_sep38 (Inr demo_rate) (301 * second + 1000) (priced_request demo_quote_request) = Inl e \<and>
     e \<in> {sep38_invalid, ErrInvalidQuote, ErrStalePrice, ErrInvalidPrice, ErrAmountOutOfRange}"
proof -
  have "price_stale (s38_policy demo_sep38) (301 * second + 1000) demo_rate"
    by (simp add: demo_sep38_def demo_rate_def price_stale_def time_sub_def int64_min_def int64_max_def)
  then have e: "sep38_price_of demo_sep38 (Inr demo_rate) (301 * second + 1000) (priced_request demo_quote_request) = Inl ErrStalePrice"
    by (simp add: sep38_price_of_def Let_def priced_request_def demo_quote_request_def demo_texts price_idr_to_xlm_def quote_fiat_def
      demo_idr_amount quote_create_spec valid_sep38_pair_for_def)
  from sep38_price_errors [OF this] show ?thesis unfolding e by blast
qed

theorem firm_quote_kept_witness:
  "\<exists>w3. sep38_quote_get demo_holder ''quote-q1'' (world0 demo_quote_db [] 3000) = (Inr (sep38_quote_view_of demo_row), w3)"
proof -
  obtain w1 where w1: "sep38_quote_create demo_sep38 (Inr demo_rate) demo_holder demo_quote_request (world0 empty_db [''q1''] 2000) =
    (Inr (sep38_quote_view_of demo_row), w1)" "w_db w1 = demo_quote_db" by (rule demo_quote_made)
  have "history run_quote (w_db w1) (w_db (world0 demo_quote_db [] 3000))" by (simp add: w1(2) history_now)
  from firm_quote_kept [OF _ w1(1) this] show ?thesis
    by (simp add: demo_quotes_ok quote_spent_def) (simp add: sep38_quote_view_of_def world0_def)
qed

theorem firm_quote_consumed_once_witness:
  "\<exists>w1 e w3. sep38_quote_consume demo_holder ''quote-q1'' (world0 demo_quote_db [] 3000) = (Inr (), w1) \<and>
     sep38_quote_consume demo_holder ''quote-q1'' w1 = (Inl e, w3) \<and> w_db w3 = w_db w1"
proof -
  have "runs (sep38_quote_consume demo_holder ''quote-q1'') (\<lambda>_ _ _. True) demo_quote_db [] 3000"
    unfolding sep38_quote_consume_def sep38_consume_def update_sep38_def
    by (rule runs_intro | (simp add: demo_holder_def demo_texts count_rows_def; fail)
        | (simp add: demo_holder_def demo_texts count_rows_def, rule runs_ret))+
  from runs_world0 [OF this] obtain w1 where w1:
    "sep38_quote_consume demo_holder ''quote-q1'' (world0 demo_quote_db [] 3000) = (Inr (), w1)" by auto
  from firm_quote_consumed_once [OF _ this history_now] w1 demo_quotes_ok show ?thesis by simp
qed

section \<open>Challenges and tokens\<close>

definition demo_s10 :: sep10_config where
  "demo_s10 = \<lparr>s10_network = ''testnet'', s10_home = ''kailo.pay'', s10_challenge_ttl = 300 * second, s10_token_ttl = 900 * second,
     s10_issuer = ''issuer'', s10_audience = ''wallets'', s10_secret = ''secret''\<rparr>"

definition demo_claims :: sep10_claims where
  "demo_claims = sep10_claims_of demo_s10 ''GA2'' (minute) ''t1''"

definition demo_sdk :: sep10_sdk where
  "demo_sdk = \<lparr>sk_address = (\<lambda>a. a = ''GA2''), sk_build = (\<lambda>a. Inr a), sk_hash = (\<lambda>_. Inr [7]), sk_base64 = (\<lambda>tx. Inr tx),
     sk_read = (\<lambda>s. Inr (s, ''GA2'', ''kailo.pay'')), sk_signers = (\<lambda>s a. s = ''signed''),
     sk_sign = (\<lambda>k c. if c = demo_claims then Inr ''jwt'' else Inl (ErrText ''unsigned'')),
     sk_parse = (\<lambda>k s. if s = ''jwt'' then Some demo_claims else None),
     sk_validate = (\<lambda>c i a now. jc_issuer c = i \<and> a \<in> set (jc_audience c) \<and> jc_issued c \<le> unix_seconds now \<and>
       unix_seconds now < jc_expiry c), sk_sha256 = (\<lambda>b. b)\<rparr>"

lemma demo_jwt_laws: "jwt_laws demo_sdk"
  by (simp add: jwt_laws_def demo_sdk_def)

definition demo_challenge :: sep10_challenge where
  "demo_challenge = \<lparr>sc_id = ''c1'', sc_hash = [7], sc_account = ''GA2'', sc_domain = ''kailo.pay'', sc_network = ''testnet'',
     sc_expires = 300 * second, sc_consumed = None, sc_created = 0\<rparr>"

definition demo_challenge_db :: db where "demo_challenge_db = put_acc sep10_challenges_update [demo_challenge] empty_db"

lemma demo_sep10_texts: "trim_space ''signed'' = ''signed''" "trim_space ''jwt'' = ''jwt''" "trim_space ''GA2'' = ''GA2''"
  by code_simp+

lemma demo_sdk_simps [simp]:
  "verify_challenge demo_sdk (s10_home demo_s10) ''signed'' = Inr (''GA2'', [7])"
  "sk_sign demo_sdk k (sep10_claims_of demo_s10 ''GA2'' minute ''t1'') = Inr ''jwt''"
  "validate_account demo_sdk ''GA2''" "s10_token_ttl demo_s10 = 900 * second"
  by (simp_all add: verify_challenge_def validate_account_def demo_sep10_texts demo_claims_def demo_sdk_def demo_s10_def
      has_prefix_def)

lemma demo_challenge_started:
  "\<exists>w. sep10_start demo_sdk demo_s10 ''GA2'' (world0 empty_db [''c1''] 0) = (Inr (''GA2'', 300 * second), w) \<and> w_db w = demo_challenge_db"
proof -
  have "runs (sep10_start demo_sdk demo_s10 ''GA2'') (\<lambda>x d _. x = (''GA2'', 300 * second) \<and> d = demo_challenge_db) empty_db [''c1''] 0"
  proof -
    have b: "build_challenge demo_sdk ''GA2'' = Inr (''GA2'', [7])"
      by (simp add: build_challenge_def) (simp add: demo_sdk_def)
    have e: "sep10_challenges (accts empty_db) = []" by code_simp
    show ?thesis
      unfolding sep10_start_def Let_def demo_sep10_texts b sum.case prod.case insert_sep10_def
      by (rule runs_intro | (simp add: demo_challenge_db_def demo_challenge_def demo_s10_def e demo_sep10_texts; fail))+
  qed
  from runs_world0 [OF this] show ?thesis by auto
qed

lemma demo_challenges_ok: "challenges_ok demo_challenge_db"
  by (simp add: challenges_ok_def demo_challenge_db_def)

lemma demo_exchanged:
  obtains w1 where "sep10_exchange demo_sdk demo_s10 ''signed'' (world0 demo_challenge_db [''t1''] (minute)) =
    (Inr (''jwt'', 960 * second), w1)"
proof -
  have r: "sep10_challenges (accts demo_challenge_db) = [demo_challenge]" by (simp add: demo_challenge_db_def)
  have "runs (sep10_exchange demo_sdk demo_s10 ''signed'') (\<lambda>x _ _. x = (''jwt'', 960 * second)) demo_challenge_db [''t1''] (minute)"
    unfolding sep10_exchange_def Let_def demo_sep10_texts demo_sdk_simps sum.case prod.case sep10_find_by_hash_def sep10_consume_def
      update_sep10_def
    by (rule runs_intro runs_or_missing demo_sdk_simps | (simp add: r first_by_def demo_challenge_def count_rows_def; fail)
        | (simp add: r demo_challenge_def count_rows_def, rule runs_ret))+
  from runs_world0 [OF this] that show thesis by auto
qed

theorem challenge_exchanged_once_witness:
  "\<exists>w1 e w3. sep10_exchange demo_sdk demo_s10 ''signed'' (world0 demo_challenge_db [''t1''] (minute)) = (Inr (''jwt'', 960 * second), w1) \<and>
     sep10_exchange demo_sdk demo_s10 ''signed'' w1 = (Inl e, w3) \<and> w_db w3 = w_db w1"
proof -
  obtain w1 where w1: "sep10_exchange demo_sdk demo_s10 ''signed'' (world0 demo_challenge_db [''t1''] (minute)) =
    (Inr (''jwt'', 960 * second), w1)" by (rule demo_exchanged)
  from challenge_exchanged_once [OF _ w1 _ history_now, of "''GA2''" "[7]" demo_sdk demo_s10 "''signed''" "''GA2''"] w1
  show ?thesis by (simp add: demo_challenges_ok demo_sep10_texts)
qed

theorem wallet_token_authenticates_witness:
  "sep10_authenticate demo_sdk demo_s10 (100 * second) ''jwt'' = Inr \<lparr>wp_account = ''GA2'', wp_token = ''t1''\<rparr>"
proof -
  obtain w1 where w1: "sep10_exchange demo_sdk demo_s10 ''signed'' (world0 demo_challenge_db [''t1''] minute) =
    (Inr (''jwt'', 960 * second), w1)" by (rule demo_exchanged)
  have p: "sk_parse demo_sdk k ''jwt'' = Some (sep10_claims_of demo_s10 ''GA2'' minute ''t1'')" for k
    by (simp add: demo_sdk_def demo_claims_def)
  have pre: "challenges_ok (w_db (world0 demo_challenge_db [''t1''] minute))" "trim_space ''jwt'' = ''jwt''" "''jwt'' \<noteq> []"
    "length ''jwt'' \<le> 8192" "w_now (world0 demo_challenge_db [''t1''] minute) \<le> 100 * second"
    "unix_seconds (100 * second) < unix_seconds (960 * second)"
    by (simp_all add: demo_challenges_ok demo_sep10_texts unix_seconds_def)
  from wallet_token_authenticates [OF pre(1) w1 demo_jwt_laws pre(2-6)] obtain c :: sep10_challenge and i where
    c: "Some (sep10_claims_of demo_s10 ''GA2'' minute ''t1'') = Some (sep10_claims_of demo_s10 (sc_account c) minute i)"
    "i = [] \<or> sep10_authenticate demo_sdk demo_s10 (100 * second) ''jwt'' = Inr \<lparr>wp_account = sc_account c, wp_token = i\<rparr>"
    unfolding p world0_facts by blast
  then have "''GA2'' = sc_account c" "''t1'' = i" by (simp_all add: sep10_claims_of_def)
  with c(2) show ?thesis by auto
qed

section \<open>Wallets\<close>

definition demo_verifier :: "time \<Rightarrow> string \<Rightarrow> err + sep10_principal" where
  "demo_verifier t token = (if token = ''ta'' then Inr \<lparr>wp_account = ''GA'', wp_token = ''1''\<rparr>
     else if token = ''tb'' then Inr \<lparr>wp_account = ''GB'', wp_token = ''2''\<rparr> else Inl (ErrWallet Sep10InvalidToken))"

definition demo_wallet_input :: "string \<Rightarrow> string \<Rightarrow> wallet_input" where
  "demo_wallet_input account token = \<lparr>wi_client = [], wi_network = ''stellar_testnet'', wi_account = account, wi_label = ''main'',
     wi_primary = True, wi_token = token\<rparr>"

definition demo_register :: "string \<Rightarrow> string \<Rightarrow> string \<Rightarrow> string \<Rightarrow> world \<Rightarrow> (err + wallet_view) \<times> world" where
  "demo_register u account token i w =
     register_wallet ''stellar_testnet'' demo_verifier u (demo_wallet_input account token) (world0 (w_db w) [i] 5)"

definition demo_wallet_a :: "(err + wallet_view) \<times> world" where
  "demo_wallet_a = demo_register ''u1'' ''GA'' ''ta'' ''w1'' (world0 empty_db [] 0)"

definition demo_wallet_b :: "(err + wallet_view) \<times> world" where
  "demo_wallet_b = demo_register ''u1'' ''GB'' ''tb'' ''w2'' (snd demo_wallet_a)"

definition demo_wallet_c :: "(err + wallet_view) \<times> world" where
  "demo_wallet_c = demo_register ''u2'' ''GA'' ''ta'' ''w3'' (snd demo_wallet_b)"

lemma demo_wallet_facts:
  "(case fst demo_wallet_a of Inr v \<Rightarrow> wv_id v = ''w1'' \<and> wv_primary v | _ \<Rightarrow> False)"
  "(case fst demo_wallet_b of Inr v \<Rightarrow> wv_id v = ''w2'' \<and> wv_account v = ''GB'' \<and> wv_primary v | _ \<Rightarrow> False)"
  "List.map (\<lambda>r. (dw_id r, dw_user r, dw_primary r)) (wallet_rows (w_db (snd demo_wallet_c))) =
     [(''w1'', ''u1'', False), (''w2'', ''u1'', True), (''w3'', ''u2'', True)]"
  "trim_space ''u2'' = ''u2''"
  by code_simp+

lemma empty_wallets_ok: "wallets_ok empty_db"
proof -
  have "wallet_rows empty_db = []" by code_simp
  then show ?thesis by (simp add: wallets_ok_def check_unique_def)
qed

lemma demo_register_history:
  assumes "history run_wallet d (w_db w)"
  shows "history run_wallet d (w_db (snd (demo_register u account token i w)))"
proof -
  let ?c = "WalletRegister ''stellar_testnet'' demo_verifier u (demo_wallet_input account token)"
  let ?w = "world0 (w_db w) [i] 5"
  have "snd (run_wallet ?c ?w) = snd (demo_register u account token i w)"
    by (auto simp: demo_register_def act_bind_def act_ret_def split: prod.splits sum.splits)
  with history_call [of run_wallet d ?w ?c "fst (run_wallet ?c ?w)" "snd (run_wallet ?c ?w)"] assms show ?thesis by simp
qed

lemma demo_wallet_history:
  "history run_wallet empty_db (w_db (snd demo_wallet_a))" "history run_wallet empty_db (w_db (snd demo_wallet_c))"
  unfolding demo_wallet_c_def demo_wallet_b_def demo_wallet_a_def
  by (intro demo_register_history, simp add: history_now)+

lemma demo_wallets_ok: "wallets_ok (w_db (snd demo_wallet_a))" "wallets_ok (w_db (snd demo_wallet_c))"
  by (rule steady_history [OF steady_run_wallet], rule demo_wallet_history, rule empty_wallets_ok)+

theorem one_primary_wallet_witness:
  "let rows = filter (\<lambda>r. dw_user r = ''u1'' \<and> dw_primary r) (wallet_rows (w_db (snd demo_wallet_c)))
   in rows \<noteq> [] \<and> hd rows = last rows"
proof -
  let ?all = "wallet_rows (w_db (snd demo_wallet_c))"
  let ?rows = "filter (\<lambda>r. dw_user r = ''u1'' \<and> dw_primary r) ?all"
  have n: "?rows \<noteq> []" "list_all (\<lambda>r. dw_network r = ''stellar_testnet'' \<and> dw_status r = ''active'') ?rows" by code_simp+
  from n(2) hd_in_set [OF n(1)] last_in_set [OF n(1)] have "hd ?rows = last ?rows"
    by (intro one_primary_wallet [OF empty_wallets_ok demo_wallet_history(2)]) (auto simp: list_all_iff)
  with n(1) show ?thesis by simp
qed

theorem wallets_isolated_witness:
  "wallets_of ''u2'' (w_db (snd (run_wallet (WalletRevoke ''u1'' ''w3'') (world0 (w_db (snd demo_wallet_c)) [] 9)))) =
     wallets_of ''u2'' (w_db (snd demo_wallet_c)) \<and> List.map dw_id (wallets_of ''u2'' (w_db (snd demo_wallet_c))) = [''w3'']"
proof -
  have t: "trim_space ''u1'' = ''u1''" and r: "List.map dw_id (wallets_of ''u2'' (w_db (snd demo_wallet_c))) = [''w3'']"
    by code_simp+
  have "wallets_ok (w_db (world0 (w_db (snd demo_wallet_c)) [] 9))" "trim_space (wallet_caller (WalletRevoke ''u1'' ''w3'')) \<noteq> ''u2''"
    by (simp_all add: demo_wallets_ok t)
  from wallets_isolated [OF this] r show ?thesis by simp
qed

theorem registration_proves_account_witness:
  "\<exists>v who. fst demo_wallet_b = Inr v \<and> demo_verifier 5 ''tb'' = Inr who \<and> wp_account who = wv_account v \<and>
     developer_wallet_view ` {r \<in> set (wallet_rows (w_db (snd demo_wallet_b))). is_primary_of r = Some (''u1'', ''stellar_testnet'')} = {v}"
proof -
  obtain v where v: "fst demo_wallet_b = Inr v" using demo_wallet_facts(2) by (auto split: sum.splits)
  have t: "trim_space ''tb'' = ''tb''" "trim_space ''u1'' = ''u1''" by code_simp+
  have "register_wallet ''stellar_testnet'' demo_verifier ''u1'' (demo_wallet_input ''GB'' ''tb'')
      (world0 (w_db (snd demo_wallet_a)) [''w2''] 5) = (Inr v, snd demo_wallet_b)"
    using v unfolding demo_wallet_b_def demo_register_def by (metis prod.collapse)
  from registration_proves_account [OF _ this] show ?thesis
    using v by (auto simp: demo_wallets_ok t demo_wallet_input_def)
qed

end
