(* ===== verification/Sep24.thy ===== *)
theory Sep24
  imports Wallets Onramp_Usecase Offramp_Usecase
begin

text \<open>
  SEP-24, deposits and withdrawals of wallets: \<open>internal/usecase/sep24_usecase.go\<close> over
  \<open>internal/repository/sep24_repository.go\<close>. A protocol transaction is a row that maps an identifier
  to an order; the order use cases do the work. As in \<open>cmd/api/main.go\<close>, the reader of orders is the
  on-ramp use case, and every optional reader interface is implemented.
\<close>

record sep24_deposit_command =
  dc_principal :: order_principal
  dc_wallet :: string
  dc_quote_id :: string
  dc_key :: string
  dc_asset :: string
  dc_amount :: idr
  dc_destination :: string
  dc_memo :: string
  dc_method :: payment_method

record sep24_withdraw_command =
  wc_principal :: order_principal
  wc_wallet :: string
  wc_quote_id :: string
  wc_key :: string
  wc_asset :: string
  wc_amount :: string
  wc_destination :: string

text \<open>The record without its principal, which no reader of a found record looks at.\<close>

record sep24_record =
  sr_wallet :: string
  sr_quote :: string
  sr_transaction :: string
  sr_order :: string
  sr_kind :: string
  sr_stellar :: string
  sr_external :: string

record sep24_view =
  tv_id :: string
  tv_kind :: string
  tv_status :: string
  tv_quote :: string
  tv_stellar :: string
  tv_external :: string
  tv_order :: order_view

record sep24_filter =
  hf_asset :: string
  hf_kind :: string
  hf_limit :: int
  hf_no_older :: "time option"
  hf_paging :: string

record sep24_deps =
  sd_onramp :: onramp_deps
  sd_onramp_config :: service_config
  sd_offramp :: offramp_deps
  sd_offramp_config :: offramp_service_config

definition sep24_deposit :: string where "sep24_deposit = ''deposit''"
definition sep24_withdraw :: string where "sep24_withdraw = ''withdraw''"

abbreviation sep24_missing :: err where "sep24_missing \<equiv> ErrWallet Sep24TransactionNotFound"
abbreviation sep24_conflict :: err where "sep24_conflict \<equiv> ErrWallet Sep24TransactionConflict"
abbreviation sep24_invalid :: err where "sep24_invalid \<equiv> ErrWallet Sep24InvalidRequest"

section \<open>Repository\<close>

definition sep24_order_direction :: "string \<Rightarrow> string" where
  "sep24_order_direction kind =
     (if kind = sep24_deposit then ''onramp'' else if kind = sep24_withdraw then ''offramp'' else [])"

definition sep24_row :: "string \<Rightarrow> sep24_record \<Rightarrow> time \<Rightarrow> sep24_transaction" where
  "sep24_row i r now = \<lparr>s24_id = i, s24_transaction = sr_transaction r, s24_order = sr_order r, s24_kind = sr_kind r,
     s24_wallet = str_ptr_if_not_empty (sr_wallet r), s24_quote = str_ptr_if_not_empty (sr_quote r),
     s24_stellar = None, s24_external = None, s24_created = now\<rparr>"

definition sep24_create :: "order_principal \<Rightarrow> sep24_record \<Rightarrow> unit repo" where
  "sep24_create p r =
     act_bind (act_guard (principal_validate p = None) sep24_conflict) (\<lambda>_.
     act_bind (act_guard (\<not> (trim_space (sr_transaction r) = [] \<or> trim_space (sr_order r) = [])) sep24_conflict) (\<lambda>_.
     act_bind (act_guard (sep24_order_direction (sr_kind r) \<noteq> []) sep24_conflict) (\<lambda>_.
     act_bind now_utc (\<lambda>now.
     tx_do (
       case apply_order_ownership p of Inl _ \<Rightarrow> act_fail sep24_conflict
       | Inr owned \<Rightarrow>
           act_bind (or_missing sep24_conflict (first_row orders or_id
             (\<lambda>o'. or_id o' = sr_order r \<and> or_direction o' = sep24_order_direction (sr_kind r) \<and> owned o'))) (\<lambda>_.
           act_bind new_id (\<lambda>i.
           act_bind (insert_sep24 (sep24_row i r now)) (\<lambda>n.
           if n > 0 then act_ret ()
           else act_bind (first_row sep24_txs s24_id (\<lambda>m. s24_transaction m = sr_transaction r)) (\<lambda>m.
             act_guard (s24_order m = sr_order r \<and> s24_kind m = sr_kind r) sep24_conflict)))))))))"

definition wallet_transaction_record :: "sep24_transaction \<Rightarrow> sep24_record" where
  "wallet_transaction_record m =
     \<lparr>sr_wallet = deref_str (s24_wallet m), sr_quote = deref_str (s24_quote m), sr_transaction = s24_transaction m,
      sr_order = s24_order m, sr_kind = s24_kind m, sr_stellar = deref_str (s24_stellar m),
      sr_external = deref_str (s24_external m)\<rparr>"

text \<open>The join with \<open>orders\<close> and its ownership clause, which repeats \<open>apply_order_ownership\<close>.\<close>

definition joined_order :: "order_principal \<Rightarrow> db \<Rightarrow> sep24_transaction \<Rightarrow> bool" where
  "joined_order p d m \<longleftrightarrow> list_ex (\<lambda>r. or_id r = s24_order m \<and>
     (if is_api_client p then or_client_id r = Some (op_client p) \<and> or_retail_session r = None
      else or_client_id r = None \<and> or_retail_session r \<noteq> None \<and> or_created_by r = Some (op_owner p))) (orders d)"

definition sep24_find :: "order_principal \<Rightarrow> string \<Rightarrow> sep24_record repo" where
  "sep24_find p transaction0 =
     (let transaction = trim_space transaction0 in
      act_bind (act_guard (principal_validate p = None) sep24_missing) (\<lambda>_.
      act_bind (act_guard (\<not> (transaction = [] \<or> 255 < length transaction)) sep24_missing) (\<lambda>_.
      act_bind (or_missing sep24_missing (select_first (\<lambda>d. first_by s24_id
          (\<lambda>m. s24_transaction m = transaction \<and> joined_order p d m) (sep24_txs d)))) (\<lambda>m.
      act_ret (wallet_transaction_record m)))))"

definition sep24_find_by_wallet :: "string \<Rightarrow> string \<Rightarrow> sep24_record repo" where
  "sep24_find_by_wallet wallet transaction =
     act_bind (or_missing sep24_missing (first_row sep24_txs s24_id
       (\<lambda>m. s24_wallet m = Some (trim_space wallet) \<and> s24_transaction m = trim_space transaction))) (\<lambda>m.
     act_ret (wallet_transaction_record m))"

definition sep24_find_by_identifier :: "string \<Rightarrow> string \<Rightarrow> sep24_record repo" where
  "sep24_find_by_identifier wallet identifier0 =
     (let identifier = trim_space identifier0 in
      act_bind (act_guard (identifier \<noteq> []) sep24_missing) (\<lambda>_.
      act_bind (or_missing sep24_missing (first_row sep24_txs s24_id (\<lambda>m. s24_wallet m = Some (trim_space wallet) \<and>
          (s24_transaction m = identifier \<or> s24_stellar m = Some identifier \<or> s24_external m = Some identifier)))) (\<lambda>m.
      act_ret (wallet_transaction_record m))))"

definition newest_sep24 :: "(sep24_transaction \<Rightarrow> bool) \<Rightarrow> nat \<Rightarrow> sep24_transaction list \<Rightarrow> sep24_transaction list" where
  "newest_sep24 P n rows = take n (rev (sort_key (\<lambda>m. (s24_created m, s24_id m)) (filter P rows)))"

definition sep24_list_by_wallet :: "string \<Rightarrow> int \<Rightarrow> sep24_record list repo" where
  "sep24_list_by_wallet wallet limit =
     act_bind (select (\<lambda>d. newest_sep24 (\<lambda>m. s24_wallet m = Some (trim_space wallet)) (page_limit limit) (sep24_txs d))) (\<lambda>rows.
     act_ret (List.map wallet_transaction_record rows))"

definition sep24_list :: "order_principal \<Rightarrow> int \<Rightarrow> sep24_record list repo" where
  "sep24_list p limit =
     act_bind (act_guard (principal_validate p = None) sep24_missing) (\<lambda>_.
     act_bind (select (\<lambda>d. newest_sep24 (joined_order p d) (page_limit limit) (sep24_txs d))) (\<lambda>rows.
     act_ret (List.map wallet_transaction_record rows)))"

section \<open>Statuses and identifiers\<close>

fun sep24_status :: "order_status \<Rightarrow> string option" where
  "sep24_status OSCreated = Some ''pending_user_transfer_start''"
| "sep24_status OSPaymentPending = Some ''pending_user_transfer_start''"
| "sep24_status OSAssetPending = Some ''pending_user_transfer_start''"
| "sep24_status OSPaymentConfirmed = Some ''pending_anchor''"
| "sep24_status OSAssetReceived = Some ''pending_anchor''"
| "sep24_status OSStellarProcessing = Some ''pending_external''"
| "sep24_status OSRetirementProcessing = Some ''pending_external''"
| "sep24_status OSWithdrawalProcessing = Some ''pending_external''"
| "sep24_status OSCompleted = Some ''completed''"
| "sep24_status OSExpired = Some ''expired''"
| "sep24_status OSPaymentFailed = Some ''error''"
| "sep24_status OSStellarFailed = Some ''error''"
| "sep24_status OSAssetInvalid = Some ''error''"
| "sep24_status OSRetirementFailed = Some ''error''"
| "sep24_status OSWithdrawalFailed = Some ''error''"
| "sep24_status OSCancelled = Some ''error''"
| "sep24_status OSUnknown = None"

definition sep24_order_status :: "order_view \<Rightarrow> string option" where
  "sep24_order_status v = (if ov_failure v = ''checkout_unknown'' then Some ''pending_external'' else sep24_status (ov_status v))"

definition sep24_transaction_id :: "string \<Rightarrow> string \<Rightarrow> string" where
  "sep24_transaction_id kind order_id = trim_space kind @ ''-'' @ trim_space order_id"

definition sep24_idempotency_key :: "string \<Rightarrow> string \<Rightarrow> string" where
  "sep24_idempotency_key kind k = ''sep24-'' @ kind @ ''-'' @ trim_space k"

definition valid_sep24_start :: "order_principal \<Rightarrow> string \<Rightarrow> string \<Rightarrow> bool" where
  "valid_sep24_start p k asset \<longleftrightarrow> principal_validate p = None \<and>
     \<not> (trim_space k = [] \<or> 240 < length (trim_space k) \<or> trim_space asset \<noteq> kxlm_asset_code)"

section \<open>Use case\<close>

definition transaction_view :: "sep24_record \<Rightarrow> order_view \<Rightarrow> err + sep24_view" where
  "transaction_view r v = (case sep24_order_status v of None \<Rightarrow> Inl (ErrWallet Sep24StatusUnavailable)
     | Some s \<Rightarrow> Inr \<lparr>tv_id = sr_transaction r, tv_kind = sr_kind r, tv_status = s, tv_quote = sr_quote r,
         tv_stellar = sr_stellar r, tv_external = sr_external r, tv_order = v\<rparr>)"

definition record_transaction :: "order_principal \<Rightarrow> string \<Rightarrow> string \<Rightarrow> string \<Rightarrow> order_view \<Rightarrow> sep24_view repo" where
  "record_transaction p wallet quote_id kind v =
     act_bind (act_guard (trim_space (ov_id v) \<noteq> []) (ErrWallet Sep24StatusUnavailable)) (\<lambda>_.
     let r = \<lparr>sr_wallet = trim_space wallet, sr_quote = trim_space quote_id,
         sr_transaction = sep24_transaction_id kind (ov_id v), sr_order = ov_id v, sr_kind = kind, sr_stellar = [], sr_external = []\<rparr> in
     act_bind (sep24_create p r) (\<lambda>_. act_lift (transaction_view r v)))"

text \<open>\<open>errors.As\<close> with a \<open>CheckoutUnknownError\<close>.\<close>

fun as_checkout_unknown :: "err \<Rightarrow> string option" where
  "as_checkout_unknown (CheckoutUnknownError i) = Some i"
| "as_checkout_unknown (ErrJoined a b) = (case as_checkout_unknown a of Some i \<Rightarrow> Some i | None \<Rightarrow> as_checkout_unknown b)"
| "as_checkout_unknown (KYCProviderUnavailableError e) = as_checkout_unknown e"
| "as_checkout_unknown _ = None"

definition start_deposit :: "sep24_deps \<Rightarrow> sep24_deposit_command \<Rightarrow> sep24_view repo" where
  "start_deposit deps c =
     act_bind (act_guard (valid_sep24_start (dc_principal c) (dc_key c) (dc_asset c)) sep24_invalid) (\<lambda>_.
     act_bind (act_guard (\<not> (dc_amount c \<le> 0 \<or> trim_space (dc_destination c) = [])) sep24_invalid) (\<lambda>_.
     act_bind (act_try (onramp_create (sd_onramp deps) (sd_onramp_config deps)
       \<lparr>cm_principal = dc_principal c, cm_wallet = trim_space (dc_wallet c), cm_quote_id = trim_space (dc_quote_id c),
        cm_key = sep24_idempotency_key sep24_deposit (dc_key c), cm_amount = dc_amount c, cm_method = dc_method c,
        cm_destination = dc_destination c, cm_memo = dc_memo c\<rparr>)) (\<lambda>created.
     act_bind (case created of
         Inr (v, _) \<Rightarrow> act_ret v
       | Inl e \<Rightarrow> (case as_checkout_unknown e of
           Some i \<Rightarrow> if i = [] then act_fail e else onramp_usecase_get (dc_principal c) i
         | None \<Rightarrow> act_fail e)) (\<lambda>v.
     record_transaction (dc_principal c) (dc_wallet c) (dc_quote_id c) sep24_deposit v))))"

definition start_withdraw :: "sep24_deps \<Rightarrow> sep24_withdraw_command \<Rightarrow> sep24_view repo" where
  "start_withdraw deps c =
     act_bind (act_guard (valid_sep24_start (wc_principal c) (wc_key c) (wc_asset c)) sep24_invalid) (\<lambda>_.
     act_bind (act_guard (\<not> (trim_space (wc_amount c) = [] \<or> trim_space (wc_destination c) = [])) sep24_invalid) (\<lambda>_.
     act_bind (offramp_create (sd_offramp deps) (sd_offramp_config deps)
       \<lparr>fm_principal = wc_principal c, fm_wallet = trim_space (wc_wallet c), fm_quote_id = trim_space (wc_quote_id c),
        fm_key = sep24_idempotency_key sep24_withdraw (wc_key c), fm_network = stellar_testnet_network,
        fm_asset_code = wc_asset c, fm_currency = idr_currency, fm_amount = wc_amount c, fm_method = WMSandboxTransfer,
        fm_destination = wc_destination c\<rparr>) (\<lambda>(v, _).
     record_transaction (wc_principal c) (wc_wallet c) (wc_quote_id c) sep24_withdraw v)))"

definition order_or_missing :: "order_view repo \<Rightarrow> order_view repo" where
  "order_or_missing m = act_bind (act_try m) (\<lambda>r. case r of
     Inl e \<Rightarrow> act_fail (if errors_is e ErrOrderNotFound then sep24_missing else e)
   | Inr v \<Rightarrow> act_ret v)"

definition get_transaction :: "order_principal \<Rightarrow> string \<Rightarrow> sep24_view repo" where
  "get_transaction p transaction0 =
     (let transaction = trim_space transaction0 in
      act_bind (act_guard (principal_validate p = None) sep24_missing) (\<lambda>_.
      act_bind (act_guard (\<not> (transaction = [] \<or> 255 < length transaction)) sep24_invalid) (\<lambda>_.
      act_bind (sep24_find p transaction) (\<lambda>r.
      act_bind (order_or_missing (onramp_usecase_get p (sr_order r))) (\<lambda>v.
      act_lift (transaction_view r v))))))"

definition list_transactions :: "order_principal \<Rightarrow> int \<Rightarrow> sep24_view list repo" where
  "list_transactions p limit =
     act_bind (act_guard (principal_validate p = None) sep24_missing) (\<lambda>_.
     act_bind (sep24_list p (int (page_limit limit))) (\<lambda>records.
     act_fold (\<lambda>r vs. act_bind (get_transaction p (sr_transaction r)) (\<lambda>v. act_ret (vs @ [v]))) records []))"

definition get_wallet_transaction :: "string \<Rightarrow> string \<Rightarrow> sep24_view repo" where
  "get_wallet_transaction wallet0 transaction =
     (let wallet = trim_space wallet0 in
      act_bind (act_guard (wallet \<noteq> []) sep24_missing) (\<lambda>_.
      act_bind (sep24_find_by_wallet wallet transaction) (\<lambda>r.
      act_bind (order_or_missing (onramp_get_by_wallet wallet (sr_order r))) (\<lambda>v.
      act_lift (transaction_view r v)))))"

definition get_wallet_transaction_by_identifier :: "string \<Rightarrow> string \<Rightarrow> sep24_view repo" where
  "get_wallet_transaction_by_identifier wallet identifier =
     act_bind (sep24_find_by_identifier wallet identifier) (\<lambda>r.
     act_bind (order_or_missing (onramp_get_by_wallet wallet (sr_order r))) (\<lambda>v.
     act_lift (transaction_view r v)))"

definition list_wallet_transactions :: "string \<Rightarrow> int \<Rightarrow> sep24_view list repo" where
  "list_wallet_transactions wallet limit =
     act_bind (sep24_list_by_wallet wallet (int (page_limit limit))) (\<lambda>records.
     act_fold (\<lambda>r vs. act_bind (get_wallet_transaction wallet (sr_transaction r)) (\<lambda>v. act_ret (vs @ [v]))) records [])"

text \<open>The loop over the views: what follows the paging identifier, filtered, up to the limit.\<close>

definition sep24_filter_keeps :: "sep24_filter \<Rightarrow> sep24_view \<Rightarrow> bool" where
  "sep24_filter_keeps f v \<longleftrightarrow>
     (let asset = to_lower (trim_space (hf_asset f)); kind = to_lower (trim_space (hf_kind f));
          k = to_lower (tv_kind v); view_kind = (if k = sep24_withdraw then ''withdrawal'' else k) in
      \<not> (case hf_no_older f of None \<Rightarrow> False | Some t \<Rightarrow> t < ov_created (tv_order v)) \<and>
      \<not> (asset \<noteq> [] \<and> asset \<noteq> to_lower kxlm_asset_code \<and> asset \<noteq> ''xlm'' \<and> asset \<noteq> ''native'' \<and> asset \<noteq> ''stellar:native'') \<and>
      \<not> (kind \<noteq> [] \<and> kind \<noteq> view_kind \<and> \<not> (kind = sep24_withdraw \<and> view_kind = ''withdrawal'')))"

fun sep24_history :: "sep24_filter \<Rightarrow> bool \<Rightarrow> nat \<Rightarrow> sep24_view list \<Rightarrow> sep24_view list" where
  "sep24_history f passed n [] = []"
| "sep24_history f passed n (v # vs) =
     (if \<not> passed then sep24_history f (tv_id v = trim_space (hf_paging f)) n vs
      else if \<not> sep24_filter_keeps f v then sep24_history f passed n vs
      else v # (if n = 1 then [] else sep24_history f passed (n - 1) vs))"

definition list_wallet_transactions_filtered :: "string \<Rightarrow> sep24_filter \<Rightarrow> sep24_view list repo" where
  "list_wallet_transactions_filtered wallet f =
     act_bind (list_wallet_transactions wallet 100) (\<lambda>views.
     act_ret (sep24_history f (trim_space (hf_paging f) = []) (page_limit (hf_limit f)) views))"

section \<open>Federation\<close>

definition is_federation_name_safe :: "string \<Rightarrow> bool" where
  "is_federation_name_safe name \<longleftrightarrow> list_all (\<lambda>c. c \<in> set ''-_.'' \<or>
     list_ex (\<lambda>(lo, hi). lo \<le> c \<and> c \<le> hi) [(CHR ''a'', CHR ''z''), (CHR ''0'', CHR ''9'')]) name"

text \<open>\<open>strings.Cut\<close> at the first separator.\<close>

definition cut_at :: "char \<Rightarrow> string \<Rightarrow> (string \<times> string) option" where
  "cut_at c s = (if c \<in> set s then Some (takeWhile (\<lambda>x. x \<noteq> c) s, tl (dropWhile (\<lambda>x. x \<noteq> c) s)) else None)"

definition federation_resolve :: "string \<Rightarrow> string \<Rightarrow> (string \<times> string) option" where
  "federation_resolve deposit_account query =
     (case cut_at CHR ''*'' (trim_space (to_lower query)) of None \<Rightarrow> None
      | Some (name, domain) \<Rightarrow>
          if domain \<noteq> ''kailopay'' \<or> name = [] \<or> 28 < length name \<or>
             list_ex (\<lambda>c. c = CHR '' '' \<or> c = CHR 0x09 \<or> c = CHR 0x0D \<or> c = CHR 0x0A) name \<or> \<not> is_federation_name_safe name
          then None else Some (deposit_account, ''fed-'' @ name))"

end
