(* ===== verification/Sep24_Interactive.thy ===== *)
theory Sep24_Interactive
  imports Sep24 Kyc
begin

text \<open>
  The interactive part of SEP-24: \<open>internal/usecase/sep24_interactive_usecase.go\<close> over
  \<open>internal/repository/sep24_interactive_repository.go\<close>. A session is opened by a wallet, linked to
  a retail user in the browser and completed by an order. SHA-256 is a parameter. The \<open>jsonb\<close>
  column of the request holds its members; texts are taken to be valid UTF-8 without NUL, which
  \<open>json.Marshal\<close> and PostgreSQL keep as they are.
\<close>

record interactive_request =
  iq_kind :: string
  iq_asset :: string
  iq_fiat :: idr
  iq_asset_amount :: string
  iq_account :: string
  iq_memo :: string
  iq_method :: payment_method
  iq_destination :: string
  iq_quote :: string
  iq_key :: string

record interactive_view =
  iv_id :: string
  iv_url :: string
  iv_kind :: string
  iv_status :: string
  iv_wallet :: string
  iv_user :: string
  iv_order :: string
  iv_kyc :: string
  iv_kyc_required :: bool
  iv_expires :: time
  iv_transaction :: "sep24_view option"

record interactive_config =
  ic_base :: string
  ic_ttl :: duration
  ic_environment :: string
  ic_network :: string
  ic_issuer :: string
  ic_auto_approve :: bool
  ic_sha256 :: "byte list \<Rightarrow> byte list"
  ic_transfers :: sep24_deps

definition interactive_config_error :: "interactive_config \<Rightarrow> err option" where
  "interactive_config_error cfg =
     (if trim_space (ic_base cfg) = [] \<or> ic_ttl cfg \<le> 0
      then Some (ErrText ''valid SEP-24 interactive dependencies and configuration are required'')
      else if ic_auto_approve cfg \<and> (to_lower (trim_space (ic_environment cfg)) \<noteq> ''test'' \<or>
          trim_space (ic_network cfg) \<noteq> stellar_testnet_network)
      then Some (ErrText ''automatic kyc approval requires test environment and Stellar testnet'')
      else None)"

abbreviation session_missing :: err where "session_missing \<equiv> ErrWallet Sep24InteractiveNotFound"
abbreviation session_conflict :: err where "session_conflict \<equiv> ErrWallet Sep24InteractiveConflict"
abbreviation session_completed :: err where "session_completed \<equiv> ErrWallet Sep24InteractiveCompleted"
abbreviation user_mismatch :: err where "user_mismatch \<equiv> ErrWallet Sep24UserMismatch"

section \<open>Repository\<close>

definition session_create :: "sep24_session \<Rightarrow> unit repo" where
  "session_create s = act_bind (act_try (insert_sep24_session s)) (\<lambda>r. case r of
     Inr _ \<Rightarrow> act_ret ()
   | Inl e \<Rightarrow> act_fail (if is_unique_violation e then session_conflict else e))"

definition session_find :: "string \<Rightarrow> sep24_session repo" where
  "session_find transaction = or_missing session_missing
     (first_row (\<lambda>d. sep24_sessions (accts d)) sn_id (\<lambda>s. sn_transaction s = transaction))"

definition session_find_by_token :: "string \<Rightarrow> byte list \<Rightarrow> sep24_session repo" where
  "session_find_by_token transaction h = or_missing session_missing
     (first_row (\<lambda>d. sep24_sessions (accts d)) sn_id (\<lambda>s. sn_transaction s = transaction \<and> sn_token_hash s = h))"

definition session_link :: "string \<Rightarrow> string \<Rightarrow> string \<Rightarrow> string \<Rightarrow> string \<Rightarrow> time \<Rightarrow> unit repo" where
  "session_link transaction wallet user_id session_id kyc now =
     act_bind (update_sep24_sessions (\<lambda>s. sn_transaction s = transaction \<and> sn_wallet s = wallet \<and>
         (sn_user s = None \<or> sn_user s = Some user_id))
       (\<lambda>s. s\<lparr>sn_user := Some user_id, sn_session := Some session_id, sn_kyc := kyc, sn_updated := now\<rparr>)) (\<lambda>n.
     if n = 1 then act_ret ()
     else act_bind (session_find transaction) (\<lambda>s.
       act_guard (\<not> (sn_wallet s \<noteq> wallet \<or> sn_user s \<noteq> Some user_id)) user_mismatch))"

definition session_complete :: "string \<Rightarrow> string \<Rightarrow> string \<Rightarrow> time \<Rightarrow> unit repo" where
  "session_complete transaction user_id order_id now =
     act_bind (update_sep24_sessions (\<lambda>s. sn_transaction s = transaction \<and> sn_user s = Some user_id \<and> sn_order s = None)
       (\<lambda>s. s\<lparr>sn_order := Some order_id, sn_completed := Some now, sn_kyc := ''approved'', sn_updated := now\<rparr>)) (\<lambda>n.
     if n = 1 then act_ret ()
     else act_bind (session_find transaction) (\<lambda>s.
       act_fail (if deref_str (sn_order s) \<noteq> [] then session_completed
         else if sn_user s \<noteq> Some user_id then user_mismatch else session_conflict)))"

section \<open>Requests\<close>

definition normalize_interactive :: "string \<Rightarrow> interactive_request \<Rightarrow> err + interactive_request" where
  "normalize_interactive account r0 =
     (let k = to_lower (trim_space (iq_kind r0));
          r = r0\<lparr>iq_kind := (if k = ''withdrawal'' then sep24_withdraw else k), iq_asset := trim_space (iq_asset r0),
            iq_account := trim_space (iq_account r0), iq_asset_amount := trim_space (iq_asset_amount r0),
            iq_memo := trim_space (iq_memo r0), iq_destination := trim_space (iq_destination r0),
            iq_quote := trim_space (iq_quote r0), iq_key := trim_space (iq_key r0)\<rparr> in
      if iq_kind r \<noteq> sep24_deposit \<and> iq_kind r \<noteq> sep24_withdraw \<or> iq_asset r \<noteq> kxlm_asset_code then Inl sep24_invalid
      else let r = (if iq_key r = [] then r\<lparr>iq_key := ''sep24-interactive-'' @ account\<rparr> else r) in
        if iq_kind r = sep24_deposit then
          (if iq_fiat r \<le> 0 \<and> iq_quote r = [] then Inl sep24_invalid
           else if iq_account r \<noteq> [] \<and> iq_account r \<noteq> account then Inl (ErrWallet Sep24WalletMismatch)
           else Inr (r\<lparr>iq_account := account\<rparr>))
        else if iq_asset_amount r = [] \<and> iq_quote r = [] then Inl sep24_invalid
        else Inr r)"

definition apply_interactive_quote :: "interactive_request \<Rightarrow> sep38_quote_view \<Rightarrow> string \<Rightarrow> err + interactive_request" where
  "apply_interactive_quote r q asset =
     (if qv_quote q = [] then Inl sep24_invalid
      else if iq_kind r = sep24_deposit then
        (if qv_sell_asset q \<noteq> sep38_idr_asset \<or> qv_buy_asset q \<noteq> asset then Inl sep24_invalid
         else if iq_fiat r = 0 then
           (case parse_sep38_idr (qv_sell_amount q) of Inl _ \<Rightarrow> Inl sep24_invalid | Inr a \<Rightarrow> Inr (r\<lparr>iq_fiat := a\<rparr>))
         else if format_int (iq_fiat r) \<noteq> qv_sell_amount q then Inl sep24_invalid
         else Inr r)
      else if qv_sell_asset q \<noteq> asset \<or> qv_buy_asset q \<noteq> sep38_idr_asset then Inl sep24_invalid
      else let r = (if iq_asset_amount r = [] then r\<lparr>iq_asset_amount := qv_sell_amount q\<rparr> else r) in
        if iq_asset_amount r \<noteq> qv_sell_amount q then Inl sep24_invalid else Inr r)"

text \<open>The members of the stored request, and its decoding: an absent member is a zero value, one of
  another type an error.\<close>

definition interactive_payload :: "interactive_request \<Rightarrow> (string \<times> json) list" where
  "interactive_payload r =
     [(''Kind'', JString (iq_kind r)), (''AssetCode'', JString (iq_asset r)), (''AmountMinor'', JNumber (iq_fiat r)),
      (''AssetAmount'', JString (iq_asset_amount r)), (''Account'', JString (iq_account r)), (''Memo'', JString (iq_memo r)),
      (''PaymentMethod'', JString (payment_method_text (iq_method r))), (''DestinationToken'', JString (iq_destination r)),
      (''QuoteID'', JString (iq_quote r)), (''IdempotencyKey'', JString (iq_key r))]"

definition payment_method_of :: "string \<Rightarrow> payment_method" where
  "payment_method_of s = (if s = [] then PMUnknown else if s = ''qris'' then PMQRIS else if s = ''bri_va'' then PMBRIVA
     else if s = ''xendit'' then PMXendit else PMOther s)"

definition member_text :: "(string \<times> json) list \<Rightarrow> string \<Rightarrow> string option" where
  "member_text p k = (case map_of p k of None \<Rightarrow> Some [] | Some (JString s) \<Rightarrow> Some s | Some (JNumber _) \<Rightarrow> None)"

definition member_number :: "(string \<times> json) list \<Rightarrow> string \<Rightarrow> int option" where
  "member_number p k = (case map_of p k of None \<Rightarrow> Some 0 | Some (JNumber n) \<Rightarrow> Some n | Some (JString _) \<Rightarrow> None)"

definition decode_interactive :: "(string \<times> json) list \<Rightarrow> interactive_request option" where
  "decode_interactive p =
     (let t = member_text p in
      case (t ''Kind'', t ''AssetCode'', member_number p ''AmountMinor'', t ''AssetAmount'', t ''Account'') of
        (Some kind, Some asset, Some fiat, Some amount, Some account) \<Rightarrow>
          (case (t ''Memo'', t ''PaymentMethod'', t ''DestinationToken'', t ''QuoteID'', t ''IdempotencyKey'') of
             (Some memo, Some m, Some dest, Some quote_id, Some k) \<Rightarrow>
               Some \<lparr>iq_kind = kind, iq_asset = asset, iq_fiat = fiat, iq_asset_amount = amount, iq_account = account,
                 iq_memo = memo, iq_method = payment_method_of m, iq_destination = dest, iq_quote = quote_id, iq_key = k\<rparr>
           | _ \<Rightarrow> None)
      | _ \<Rightarrow> None)"

section \<open>Views\<close>

text \<open>\<open>url.PathEscape\<close> and \<open>url.QueryEscape\<close>.\<close>

definition upper_hex :: "nat \<Rightarrow> char" where
  "upper_hex n = char_of (if n < 10 then 48 + n else 55 + n)"

definition percent :: "char \<Rightarrow> string" where
  "percent c = [CHR ''%'', upper_hex (of_char c div 16), upper_hex (of_char c mod 16)]"

definition unreserved :: "char \<Rightarrow> bool" where
  "unreserved c \<longleftrightarrow> c \<in> set ''-_.~'' \<or>
     list_ex (\<lambda>(lo, hi). lo \<le> c \<and> c \<le> hi) [(CHR ''a'', CHR ''z''), (CHR ''A'', CHR ''Z''), (CHR ''0'', CHR ''9'')]"

definition path_escape :: "string \<Rightarrow> string" where
  "path_escape s = List.concat (List.map (\<lambda>c. if unreserved c \<or> c \<in> set ''$&+:=@'' then [c] else percent c) s)"

definition query_escape :: "string \<Rightarrow> string" where
  "query_escape s = List.concat (List.map (\<lambda>c. if unreserved c then [c] else if c = CHR '' '' then ''+'' else percent c) s)"

definition trim_right_slash :: "string \<Rightarrow> string" where
  "trim_right_slash s = rev (dropWhile (\<lambda>c. c = CHR ''/'') (rev s))"

definition session_view :: "interactive_config \<Rightarrow> sep24_session \<Rightarrow> string \<Rightarrow> interactive_view" where
  "session_view cfg s token =
     \<lparr>iv_id = sn_transaction s,
      iv_url = trim_right_slash (ic_base cfg) @ ''/'' @ path_escape (sn_transaction s) @
        (if token \<noteq> [] then ''?token='' @ query_escape token else []),
      iv_kind = sn_kind s, iv_status = (if sn_order s \<noteq> None then ''completed'' else ''pending_user_transfer_start''),
      iv_wallet = sn_wallet s, iv_user = (case sn_user s of None \<Rightarrow> [] | Some u \<Rightarrow> trim_space u),
      iv_order = (case sn_order s of None \<Rightarrow> [] | Some i \<Rightarrow> trim_space i), iv_kyc = sn_kyc s,
      iv_kyc_required = (sn_kyc s \<noteq> ''approved''), iv_expires = sn_expires s, iv_transaction = None\<rparr>"

definition session_open :: "sep24_session \<Rightarrow> time \<Rightarrow> bool" where
  "session_open s now \<longleftrightarrow> sn_completed s \<noteq> None \<or> sn_order s \<noteq> None \<or> now < sn_expires s"

definition ensure_active :: "sep24_session \<Rightarrow> unit repo" where
  "ensure_active s = act_bind now_utc (\<lambda>now. act_guard (session_open s now) (ErrWallet Sep24InteractiveExpired))"

definition has_order :: "sep24_session \<Rightarrow> bool" where
  "has_order s \<longleftrightarrow> (case sn_order s of None \<Rightarrow> False | Some i \<Rightarrow> trim_space i \<noteq> [])"

text \<open>The inactive session with an order is read all the same; \<open>ensureActive\<close> has no other effect.\<close>

definition load_view :: "interactive_config \<Rightarrow> sep24_session \<Rightarrow> interactive_view repo" where
  "load_view cfg s =
     act_bind (act_try (ensure_active s)) (\<lambda>r.
     act_bind (case r of Inl e \<Rightarrow> if sn_order s = None then act_fail e else act_ret () | Inr _ \<Rightarrow> act_ret ()) (\<lambda>_.
     case (has_order s, sn_user s, sn_session s) of
       (True, Some u, Some i) \<Rightarrow>
         act_bind (get_transaction \<lparr>op_kind = OPRetailSession, op_client = [], op_owner = trim_space u, op_session = trim_space i\<rparr>
             (sn_transaction s)) (\<lambda>t.
         act_ret ((session_view cfg s [])\<lparr>iv_transaction := Some t, iv_status := tv_status t\<rparr>))
     | _ \<Rightarrow> act_ret (session_view cfg s [])))"

definition map_interactive_error :: "err \<Rightarrow> err" where
  "map_interactive_error e =
     (if errors_is e session_missing \<or> errors_is e sep24_missing then session_missing
      else if errors_is e session_conflict then session_conflict
      else if errors_is e session_completed then session_completed else e)"

definition mapped_errors :: "'a repo \<Rightarrow> 'a repo" where
  "mapped_errors m = act_bind (act_try m) (\<lambda>r. case r of Inl e \<Rightarrow> act_fail (map_interactive_error e) | Inr x \<Rightarrow> act_ret x)"

definition load_session :: "string \<Rightarrow> sep24_session repo" where
  "load_session transaction0 =
     (let transaction = trim_space transaction0 in
      act_bind (act_guard (\<not> (transaction = [] \<or> 255 < length transaction)) session_missing) (\<lambda>_.
      mapped_errors (session_find transaction)))"

section \<open>Use case\<close>

definition sep24_interactive_id :: "string \<Rightarrow> string \<Rightarrow> string" where
  "sep24_interactive_id kind i = trim_space kind @ ''-interactive-'' @ trim_space i"

definition optional_string :: "string \<Rightarrow> string option" where
  "optional_string v = (if trim_space v = [] then None else Some (trim_space v))"

definition optional_idr :: "idr \<Rightarrow> int option" where
  "optional_idr v = (if v \<le> 0 then None else Some v)"

definition optional_payment_method :: "payment_method \<Rightarrow> string option" where
  "optional_payment_method m =
     (if m = PMUnknown \<or> trim_space (payment_method_text m) = [] then None else Some (payment_method_text m))"

definition interactive_session ::
  "interactive_config \<Rightarrow> string \<Rightarrow> interactive_request \<Rightarrow> string \<Rightarrow> string \<Rightarrow> byte list \<Rightarrow> time \<Rightarrow> sep24_session" where
  "interactive_session cfg account r i token request_hash now =
     \<lparr>sn_id = i, sn_transaction = sep24_interactive_id (iq_kind r) i, sn_kind = iq_kind r, sn_wallet = account,
      sn_token_hash = ic_sha256 cfg (str_bytes token), sn_request_hash = request_hash, sn_payload = interactive_payload r,
      sn_asset = iq_asset r, sn_asset_amount = optional_string (iq_asset_amount r), sn_fiat = optional_idr (iq_fiat r),
      sn_method = optional_payment_method (iq_method r), sn_destination = iq_destination r,
      sn_quote = optional_string (iq_quote r), sn_user = None, sn_session = None, sn_kyc = ''pending'', sn_order = None,
      sn_expires = now + ic_ttl cfg, sn_completed = None, sn_created = now, sn_updated = now\<rparr>"

text \<open>\<open>hash\<close> is SHA-256 of the JSON text of a request; nothing reads it back.\<close>

definition interactive_start ::
  "interactive_config \<Rightarrow> (interactive_request \<Rightarrow> byte list) \<Rightarrow> sep10_principal \<Rightarrow> interactive_request \<Rightarrow> interactive_view repo" where
  "interactive_start cfg hash who request =
     (let account = trim_space (wp_account who) in
      act_bind (act_guard (valid_classic_account account) (ErrWallet Sep10InvalidAccount)) (\<lambda>_.
      act_bind (act_lift (normalize_interactive account request)) (\<lambda>r0.
      act_bind (if iq_quote r0 = [] then act_ret r0
          else act_bind (sep38_quote_get who (iq_quote r0)) (\<lambda>q.
            act_lift (apply_interactive_quote r0 q (sep38_asset_identifier (ic_issuer cfg))))) (\<lambda>r.
      act_bind new_id (\<lambda>i0.
      let i = trim_space i0 in
      act_bind (act_guard (i \<noteq> []) session_conflict) (\<lambda>_.
      act_bind (random_string 32) (\<lambda>token.
      act_bind now_utc (\<lambda>now.
      let s = interactive_session cfg account r i token (hash r) now in
      act_bind (session_create s) (\<lambda>_.
      act_ret (session_view cfg s token))))))))))"

definition interactive_load :: "interactive_config \<Rightarrow> sep10_principal \<Rightarrow> string \<Rightarrow> interactive_view repo" where
  "interactive_load cfg who transaction =
     (let account = trim_space (wp_account who) in
      act_bind (act_guard (valid_classic_account account) (ErrWallet Sep10InvalidAccount)) (\<lambda>_.
      act_bind (load_session transaction) (\<lambda>s.
      act_bind (act_guard (sn_wallet s = account) (ErrWallet Sep24WalletMismatch)) (\<lambda>_.
      load_view cfg s))))"

definition interactive_load_browser :: "interactive_config \<Rightarrow> string \<Rightarrow> string \<Rightarrow> interactive_view repo" where
  "interactive_load_browser cfg transaction0 token0 =
     (let transaction = trim_space transaction0; token = trim_space token0 in
      act_bind (act_guard (\<not> (transaction = [] \<or> token = [])) session_missing) (\<lambda>_.
      act_bind (mapped_errors (session_find_by_token transaction (ic_sha256 cfg (str_bytes token)))) (\<lambda>s.
      act_bind (ensure_active s) (\<lambda>_.
      load_view cfg s))))"

definition owner_of :: "Principal.authenticated_user \<Rightarrow> sep24_session \<Rightarrow> bool" where
  "owner_of u s \<longleftrightarrow> (case sn_user s of None \<Rightarrow> True | Some x \<Rightarrow> trim_space x = trim_space (au_id u))"

definition interactive_link :: "interactive_config \<Rightarrow> string \<Rightarrow> Principal.authenticated_user \<Rightarrow> interactive_view repo" where
  "interactive_link cfg transaction u =
     act_bind (load_session transaction) (\<lambda>s.
     act_bind (ensure_active s) (\<lambda>_.
     act_bind (act_guard (\<not> isl (new_retail_session_principal u)) user_mismatch) (\<lambda>_.
     act_bind (act_guard (owner_of u s) user_mismatch) (\<lambda>_.
     let kyc = (if ic_auto_approve cfg then ''approved'' else ''pending'') in
     act_bind now_utc (\<lambda>now.
     act_bind (mapped_errors (session_link (sn_transaction s) (sn_wallet s) (trim_space (au_id u)) (trim_space (Principal.authenticated_user.au_session u)) kyc now)) (\<lambda>_.
     load_view cfg (s\<lparr>sn_user := Some (trim_space (au_id u)), sn_session := Some (trim_space (Principal.authenticated_user.au_session u)), sn_kyc := kyc\<rparr>)))))))"

text \<open>The order of a session, by its kind.\<close>

definition start_transfer ::
  "interactive_config \<Rightarrow> order_principal \<Rightarrow> sep24_session \<Rightarrow> interactive_request \<Rightarrow> string \<Rightarrow> sep24_view repo" where
  "start_transfer cfg p s r destination0 =
     (if sn_kind s = sep24_deposit then
        start_deposit (ic_transfers cfg) \<lparr>dc_principal = p, dc_wallet = sn_wallet s, dc_quote_id = iq_quote r, dc_key = iq_key r,
          dc_asset = iq_asset r, dc_amount = iq_fiat r, dc_destination = sn_wallet s, dc_memo = iq_memo r, dc_method = iq_method r\<rparr>
      else if sn_kind s = sep24_withdraw then
        (let destination = (if trim_space destination0 = [] then trim_space (iq_destination r) else trim_space destination0) in
         act_bind (act_guard (destination \<noteq> []) sep24_invalid) (\<lambda>_.
         start_withdraw (ic_transfers cfg) \<lparr>wc_principal = p, wc_wallet = sn_wallet s, wc_quote_id = iq_quote r, wc_key = iq_key r,
           wc_asset = iq_asset r, wc_amount = iq_asset_amount r, wc_destination = destination\<rparr>))
      else act_fail sep24_invalid)"

definition load_completed :: "sep24_session \<Rightarrow> Principal.authenticated_user \<Rightarrow> sep24_view repo" where
  "load_completed s u = (case new_retail_session_principal u of
     Inl _ \<Rightarrow> act_fail user_mismatch
   | Inr p \<Rightarrow> act_bind (act_guard (case sn_user s of None \<Rightarrow> False | Some x \<Rightarrow> trim_space x = op_owner p) user_mismatch) (\<lambda>_.
       get_transaction p (sn_transaction s)))"

definition complete_transfer ::
  "interactive_config \<Rightarrow> order_principal \<Rightarrow> Principal.authenticated_user \<Rightarrow> sep24_session \<Rightarrow> string \<Rightarrow> sep24_view repo" where
  "complete_transfer cfg p u s destination =
     act_bind (if ic_auto_approve cfg then act_ret True else is_approved (trim_space (au_id u))) (\<lambda>approved.
     act_bind (act_guard approved ErrKYCRequired) (\<lambda>_.
     case decode_interactive (sn_payload s) of None \<Rightarrow> act_fail session_conflict
     | Some r0 \<Rightarrow>
         let r = (if trim_space (iq_key r0) = [] then r0\<lparr>iq_key := sn_transaction s\<rparr> else r0) in
         act_bind (if iq_quote r = [] then act_ret () else sep38_quote_consume \<lparr>wp_account = sn_wallet s, wp_token = []\<rparr> (iq_quote r)) (\<lambda>_.
         act_bind (start_transfer cfg p s r destination) (\<lambda>v.
         act_bind now_utc (\<lambda>now.
         act_bind (act_try (session_complete (sn_transaction s) (trim_space (au_id u)) (tv_id v) now)) (\<lambda>res.
         case res of
           Inr _ \<Rightarrow> act_ret v
         | Inl e \<Rightarrow> if errors_is e session_completed then get_transaction p (sn_transaction s)
                    else act_fail (map_interactive_error e)))))))"

definition interactive_complete :: "interactive_config \<Rightarrow> string \<Rightarrow> Principal.authenticated_user \<Rightarrow> string \<Rightarrow> sep24_view repo" where
  "interactive_complete cfg transaction u destination =
     act_bind (load_session transaction) (\<lambda>s.
     act_bind (act_try (ensure_active s)) (\<lambda>active. case active of
       Inl e \<Rightarrow> if has_order s then load_completed s u else act_fail e
     | Inr _ \<Rightarrow>
         (case new_retail_session_principal u of Inl _ \<Rightarrow> act_fail user_mismatch
          | Inr p \<Rightarrow>
              act_bind (act_guard (owner_of u s) user_mismatch) (\<lambda>_.
              if has_order s then get_transaction p (sn_transaction s)
              else act_bind (if sn_user s = None then act_bind (interactive_link cfg (sn_transaction s) u) (\<lambda>_. act_ret ()) else act_ret ()) (\<lambda>_.
                complete_transfer cfg p u s destination)))))"

end
