(* ===== verification/Sep24_Laws.thy ===== *)
theory Sep24_Laws
  imports Sep24_Interactive Order_Frame System Kyc_Laws Sep38_Quotes
begin

text \<open>
  What SEP-24 keeps through every operation: a protocol transaction stays bound to its order, an
  order to its owner, and an interactive session to its wallet, its token and the user it is linked
  to. The order operations of \<open>System\<close> and the calls of the protocol run interleaved.
\<close>

section \<open>What is kept\<close>

definition sep24_ok :: "db \<Rightarrow> bool" where
  "sep24_ok d \<longleftrightarrow> distinct (List.map s24_transaction (sep24_txs d)) \<and> distinct (List.map or_id (orders d)) \<and>
     distinct (List.map sn_transaction (sep24_sessions (accts d)))"

definition session_terms :: "sep24_session \<Rightarrow> string \<times> string \<times> string \<times> byte list \<times> (string \<times> json) list \<times> time" where
  "session_terms s = (sn_transaction s, sn_kind s, sn_wallet s, sn_token_hash s, sn_payload s, sn_expires s)"

definition sep24_terms :: "sep24_transaction \<Rightarrow> string \<times> string \<times> string \<times> string option \<times> string option" where
  "sep24_terms m = (s24_transaction m, s24_order m, s24_kind m, s24_wallet m, s24_quote m)"

definition sep24_from :: "db \<Rightarrow> db \<Rightarrow> bool" where
  "sep24_from d0 d \<longleftrightarrow> kept_orders (orders d0) (orders d) \<and>
     carried sep24_terms (\<lambda>_. None :: unit option) (sep24_txs d0) (sep24_txs d) \<and>
     distinct (List.map s24_transaction (sep24_txs d)) \<and>
     carried session_terms sn_user (sep24_sessions (accts d0)) (sep24_sessions (accts d)) \<and>
     distinct (List.map sn_transaction (sep24_sessions (accts d)))"

lemma sep24_from_refl: "sep24_ok d \<Longrightarrow> sep24_from d d"
  by (simp add: sep24_ok_def sep24_from_def kept_orders_refl)

lemma sep24_from_ok: "sep24_from d0 d \<Longrightarrow> sep24_ok d"
  by (simp add: sep24_ok_def sep24_from_def kept_orders_def)

lemma sep24_frame:
  assumes "\<And>d0. steady (orders_from d0) m"
  shows "steady (sep24_from d0) m"
  by (rule frame_steady [OF assms])
     (auto simp: sep24_from_def orders_from_def other_tables_def kept_orders_def intro: carried_trans)

named_theorems sep24_intro "statements and operations that keep sep24_from"

lemmas order_statements [sep24_intro] =
  frame_insert_order [THEN sep24_frame] frame_inserts [THEN sep24_frame] frame_updates [THEN sep24_frame]
  frame_events [THEN sep24_frame] frame_add_reserved [THEN sep24_frame] frame_checkouts [THEN sep24_frame]
  frame_reserve [THEN sep24_frame] frame_create_offramp [THEN sep24_frame]

lemma sep24_update_orders [sep24_intro]:
  "(\<And>r. P r \<Longrightarrow> order_terms (f r) = order_terms r) \<Longrightarrow> steady (sep24_from d0) (update_orders P f)"
  by (rule sep24_frame) (rule frame_update_orders)

lemma steady_insert_sep24 [sep24_intro]: "steady (sep24_from d0) (insert_sep24 r)"
  unfolding insert_sep24_def
  by (intro steady_intro steady_sql) (auto simp: sep24_from_def list_ex_iff intro: carried_trans split: if_splits)

lemma steady_update_sep24 [sep24_intro]:
  assumes "\<And>m. P m \<Longrightarrow> sep24_terms (f m) = sep24_terms m"
  shows "steady (sep24_from d0) (update_sep24 P f)"
  unfolding update_sep24_def
proof (rule steady_update)
  fix d assume i: "sep24_from d0 d"
  have "List.map s24_transaction (update_rows P f (sep24_txs d)) = List.map s24_transaction (sep24_txs d)"
    by (rule map_update_rows_on) (use assms in \<open>simp add: sep24_terms_def\<close>)
  moreover have "carried sep24_terms (\<lambda>_. None :: unit option) (sep24_txs d) (update_rows P f (sep24_txs d))"
    by (rule carried_update) (use assms in simp)
  ultimately show "sep24_from d0 (d\<lparr>sep24_txs := update_rows P f (sep24_txs d)\<rparr>)"
    using i by (auto simp: sep24_from_def intro: carried_trans)
qed

text \<open>The other statements of the order operations.\<close>

lemma steady_settlement_statements [sep24_intro]:
  "steady (sep24_from d0) (insert_stellar s)" "steady (sep24_from d0) (insert_payout q)"
  "steady (sep24_from d0) (update_stellar P f)" "steady (sep24_from d0) (update_gateway_events Q g)"
  "steady (sep24_from d0) (update_outbox R h)"
  unfolding store_defs by (intro steady_insert steady_update; simp add: sep24_from_def)+

lemma steady_insert_session_row [sep24_intro]: "steady (sep24_from d0) (insert_sep24_session s)"
  unfolding insert_sep24_session_def
  by (intro steady_intro steady_insert) (auto simp: sep24_from_def intro: carried_trans)

lemma steady_update_session_rows [sep24_intro]:
  assumes "\<And>s. P s \<Longrightarrow> session_terms (f s) = session_terms s \<and> (sn_user s = None \<or> sn_user (f s) = sn_user s)"
  shows "steady (sep24_from d0) (update_sep24_sessions P f)"
  unfolding update_sep24_sessions_def
proof (rule steady_sql)
  fix d d' :: db and x
  let ?old = "sep24_sessions (accts d)" and ?new = "update_rows P f (sep24_sessions (accts d))"
  assume i: "sep24_from d0 d" and u: "(let rows = sep24_sessions (accts d); rs = update_rows P f rows in
     if check_unique sn_order rs \<noteq> None then (Inl ErrDuplicateKey, d)
     else if \<not> list_all (\<lambda>r. \<not> P r \<or> session_refers d (f r)) rows then (Inl ErrForeignKey, d)
     else (Inr (count_rows P rows), put_acc sep24_sessions_update rs d)) = (Inr x, d')"
  have "List.map sn_transaction ?new = List.map sn_transaction ?old"
    by (rule map_update_rows_on) (use assms in \<open>simp add: session_terms_def\<close>)
  moreover have "carried session_terms sn_user ?old ?new"
    by (rule carried_update) (use assms in force)
  moreover have "d' = put_acc sep24_sessions_update ?new d" using u by (simp add: Let_def split: if_splits)
  ultimately show "sep24_from d0 d'" using i by (auto simp: sep24_from_def intro: carried_trans)
qed

lemma steady_update_quotes [sep24_intro]: "steady (sep24_from d0) (update_sep38 P f)"
  unfolding update_sep38_def by (intro steady_update) (simp add: sep24_from_def)

lemma steady_insert_gateway_event [sep24_intro]: "steady (sep24_from d0) (insert_gateway_event e)"
  unfolding insert_gateway_event_def by (intro steady_intro steady_sql) (auto simp: sep24_from_def split: if_splits)

lemma steady_order_reads [sep24_intro]:
  "steady I (find_order i)" "steady I (find_stellar i s)" "steady I (find_payout i)" "steady I (find_intent i)"
  "steady I (onramp_order_view r)" "steady I (find_gateway_event e)"
  unfolding find_intent_def find_gateway_event_def by (intro order_frame steady_intro)+

section \<open>The order operations\<close>

lemma steady_parts [sep24_intro]:
  "steady (sep24_from d0) (lease_row topic k worker now dur)" "steady (sep24_from d0) (close_outbox topic i now oe)"
  "steady (sep24_from d0) (append_order_event_from_source i v e p n src t)"
  "steady (sep24_from d0) (receipt_seen rc g)" "steady (sep24_from d0) (consume_reservation q now)"
  "steady (sep24_from d0) (enqueue_sandbox_payout i now)" "steady (sep24_from d0) (ensure_payout ord ref now)"
  unfolding lease_row_def close_outbox_def append_order_event_from_source_def append_public_webhook_event_def receipt_seen_def
    consume_reservation_def enqueue_sandbox_payout_def ensure_payout_def
  by (intro steady_intro sep24_intro)+

lemma steady_settlement [sep24_intro]:
  "steady (sep24_from d0) (settlement_lease k w n dur)" "steady (sep24_from d0) (lease_outbox k dec tp w n dur)"
  "steady (sep24_from d0) (finish_outbox tp i n)" "steady (sep24_from d0) (mark_submitted i h n)"
  "steady (sep24_from d0) (settlement_confirm i h l)" "steady (sep24_from d0) (mark_unknown i e)"
  "steady (sep24_from d0) (fail_permanent i e)" "steady (sep24_from d0) (retry_later i a e)"
  "steady (sep24_from d0) (reset_submitted i e)" "steady (sep24_from d0) (release_expired_reservations n' c)"
  unfolding settlement_lease_def lease_outbox_def finish_outbox_def mark_submitted_def settlement_confirm_def mark_unknown_def
    fail_permanent_def retry_later_def reset_submitted_def release_expired_reservations_def release_one_def
    append_settlement_event_def Let_def
  by (intro steady_intro sep24_intro; simp add: order_terms_def sep24_terms_def)+

lemma steady_callbacks [sep24_intro]:
  "steady (sep24_from d0) (record_callback_receipt rc)" "steady (sep24_from d0) (confirm_payment_and_enqueue cf)"
  "steady (sep24_from d0) (complete_callback e r)"
  unfolding record_callback_receipt_def confirm_payment_and_enqueue_def complete_callback_def Let_def
  by (intro steady_intro sep24_intro; simp add: order_terms_def)+

lemma steady_offramp [sep24_intro]:
  "steady (sep24_from d0) (expire_pending_deposits n k)" "steady (sep24_from d0) (record_asset_received i p)"
  "steady (sep24_from d0) (record_asset_invalid i h e)" "steady (sep24_from d0) (save_retirement_hash i h n)"
  "steady (sep24_from d0) (reset_retirement_hash i h e n)" "steady (sep24_from d0) (simulate_retirement i n)"
  "steady (sep24_from d0) (confirm_retirement i h n)" "steady (sep24_from d0) (fail_retirement i e)"
  "steady (sep24_from d0) (complete_sandbox_payout i ob ref n)"
  unfolding expire_pending_deposits_def expire_one_def record_asset_received_def record_asset_invalid_def save_retirement_hash_def
    reset_retirement_hash_def simulate_retirement_def confirm_retirement_def fail_retirement_def complete_sandbox_payout_def
  by (intro steady_intro sep24_intro; simp add: order_terms_def sep24_terms_def)+

lemma steady_requeue [sep24_intro]: "steady (sep24_from d0) (requeue_unsubmitted_retirements n k)"
  unfolding requeue_unsubmitted_retirements_def by (intro steady_intro steady_sql) (auto simp: sep24_from_def Let_def)

lemma steady_run_op: "steady (sep24_from d0) (run_op op)"
  by (cases op; simp add: ignore_def; intro steady_intro sep24_intro)

section \<open>The protocol operations\<close>

lemma steady_sep24_create [sep24_intro]: "steady (sep24_from d0) (sep24_create p r)"
  unfolding sep24_create_def by (intro steady_intro sep24_intro)

lemma steady_record_transaction [sep24_intro]: "steady (sep24_from d0) (record_transaction p u q k v)"
  unfolding record_transaction_def Let_def by (intro steady_intro sep24_intro)

lemma steady_start_deposit: "steady (sep24_from d0) (start_deposit deps c)"
  unfolding start_deposit_def by (intro steady_intro sep24_frame [OF frame_onramp_create] sep24_intro order_frame)

lemma steady_start_withdraw: "steady (sep24_from d0) (start_withdraw deps c)"
  unfolding start_withdraw_def by (intro steady_intro sep24_frame [OF frame_offramp_create] sep24_intro)

text \<open>The readers.\<close>

lemma steady_sep24_reads [steady_intro]:
  "steady I (get_transaction p i)" "steady I (list_transactions p n)" "steady I (get_wallet_transaction u i)"
  "steady I (get_wallet_transaction_by_identifier u i)" "steady I (list_wallet_transactions u n)"
  "steady I (list_wallet_transactions_filtered u f)"
  unfolding get_transaction_def list_transactions_def get_wallet_transaction_def get_wallet_transaction_by_identifier_def
    list_wallet_transactions_filtered_def list_wallet_transactions_def sep24_find_def sep24_list_def sep24_find_by_wallet_def
    sep24_find_by_identifier_def sep24_list_by_wallet_def order_or_missing_def Let_def
  by (intro steady_intro order_frame)+

section \<open>The interactive operations\<close>

lemma steady_session_finds [sep24_intro]:
  "steady I (session_find i)" "steady I (session_find_by_token i h)" "steady I (sep38_quote_get who q)"
  "steady I (ensure_active s)"
  unfolding session_find_def session_find_by_token_def sep38_quote_get_def ensure_active_def
  by (intro steady_intro)+

lemma steady_mapped [sep24_intro]: "steady I m \<Longrightarrow> steady I (mapped_errors m)"
  unfolding mapped_errors_def by (intro steady_intro)

lemma steady_load_session [sep24_intro]: "steady I (load_session i)"
  unfolding load_session_def Let_def by (intro steady_intro sep24_intro)

lemma steady_case_bool [steady_intro]: "steady I a \<Longrightarrow> steady I b \<Longrightarrow> steady I (case c of True \<Rightarrow> a | False \<Rightarrow> b)"
  by (cases c) auto

lemma steady_load_view [sep24_intro]: "steady I (load_view cfg s)"
  unfolding load_view_def by (intro steady_intro sep24_intro)

lemma steady_session_writes [sep24_intro]:
  "steady (sep24_from d0) (session_create s)" "steady (sep24_from d0) (session_link i u v k n t)"
  "steady (sep24_from d0) (session_complete i u j t)" "steady (sep24_from d0) (sep38_quote_consume who q)"
  unfolding session_create_def session_link_def session_complete_def sep38_quote_consume_def sep38_consume_def
  by (intro steady_intro sep24_intro; auto simp: session_terms_def)+

lemma steady_start_transfer [sep24_intro]: "steady (sep24_from d0) (start_transfer cfg p s r dest)"
  unfolding start_transfer_def Let_def by (intro steady_intro steady_start_deposit steady_start_withdraw)

lemma steady_interactive_link [sep24_intro]: "steady (sep24_from d0) (interactive_link cfg i u)"
  unfolding interactive_link_def Let_def by (intro steady_intro sep24_intro)

lemma steady_completion [sep24_intro]:
  "steady (sep24_from d0) (complete_transfer cfg p u s dest)" "steady I (load_completed s u)"
  unfolding complete_transfer_def load_completed_def Let_def by (intro steady_intro sep24_intro)+

lemma steady_interactive [sep24_intro]:
  "steady (sep24_from d0) (interactive_start cfg hash who r)" "steady (sep24_from d0) (interactive_load cfg who i)"
  "steady (sep24_from d0) (interactive_load_browser cfg i tok)" "steady (sep24_from d0) (interactive_complete cfg i u dest)"
  unfolding interactive_start_def interactive_load_def interactive_load_browser_def interactive_complete_def
    Let_def
  by (intro steady_intro sep24_intro)+

section \<open>All calls interleaved\<close>

text \<open>The ways to read transactions: by an order principal or by the account of a SEP-10 token.\<close>

datatype sep24_read =
    ReadTransaction order_principal string
  | ReadTransactions order_principal int
  | ReadWallet string string
  | ReadIdentifier string string
  | ReadWalletPage string int
  | ReadWalletHistory string sep24_filter

abbreviation one_view :: "sep24_view repo \<Rightarrow> sep24_view list repo" where
  "one_view m \<equiv> act_bind m (\<lambda>v. act_ret [v])"

fun read_sep24 :: "sep24_read \<Rightarrow> sep24_view list repo" where
  "read_sep24 (ReadTransaction p i) = one_view (get_transaction p i)"
| "read_sep24 (ReadTransactions p n) = list_transactions p n"
| "read_sep24 (ReadWallet a i) = one_view (get_wallet_transaction a i)"
| "read_sep24 (ReadIdentifier a i) = one_view (get_wallet_transaction_by_identifier a i)"
| "read_sep24 (ReadWalletPage a n) = list_wallet_transactions a n"
| "read_sep24 (ReadWalletHistory a f) = list_wallet_transactions_filtered a f"

lemma steady_read_sep24 [sep24_intro]: "steady I (read_sep24 r)"
  by (cases r; simp; intro steady_intro)

datatype sep24_call =
    Sep24Deposit sep24_deps sep24_deposit_command
  | Sep24Withdraw sep24_deps sep24_withdraw_command
  | Sep24Read sep24_read
  | Sep24Session interactive_config "interactive_request \<Rightarrow> byte list" sep10_principal interactive_request
  | Sep24Link interactive_config string "Principal.authenticated_user"
  | Sep24Complete interactive_config string "Principal.authenticated_user" string
  | Sep24Load interactive_config sep10_principal string
  | Sep24Browse interactive_config string string
  | Sep24Order operation

fun run_sep24 :: "sep24_call \<Rightarrow> unit repo" where
  "run_sep24 (Sep24Deposit deps c) = ignore (start_deposit deps c)"
| "run_sep24 (Sep24Withdraw deps c) = ignore (start_withdraw deps c)"
| "run_sep24 (Sep24Read r) = ignore (read_sep24 r)"
| "run_sep24 (Sep24Session cfg hash who r) = ignore (interactive_start cfg hash who r)"
| "run_sep24 (Sep24Link cfg i u) = ignore (interactive_link cfg i u)"
| "run_sep24 (Sep24Complete cfg i u dest) = ignore (interactive_complete cfg i u dest)"
| "run_sep24 (Sep24Load cfg who i) = ignore (interactive_load cfg who i)"
| "run_sep24 (Sep24Browse cfg i tok) = ignore (interactive_load_browser cfg i tok)"
| "run_sep24 (Sep24Order op) = run_op op"

lemma steady_ignore [sep24_intro]: "steady I m \<Longrightarrow> steady I (ignore m)"
  unfolding ignore_def by (intro steady_intro)

lemma steady_run_sep24: "steady (sep24_from d0) (run_sep24 c)"
  by (cases c; simp; intro sep24_intro steady_intro steady_start_deposit steady_start_withdraw steady_run_op)

interpretation sep24_system: invariant_system run_sep24 "sep24_from d0" for d0
  by (rule steady_invariant_system) (rule steady_run_sep24)

lemma sep24_history: "history run_sep24 d d' \<Longrightarrow> sep24_ok d \<Longrightarrow> sep24_from d d'"
  by (rule steady_history [OF steady_run_sep24]) (auto intro: sep24_from_refl)

section \<open>The ledger\<close>

text \<open>The calls that start an order through the protocol keep the order ledger.\<close>

named_theorems ledger_intro "statements and operations that keep the ledger"

lemma ledger_creates [ledger_intro]:
  "steady ledger_inv (onramp_create deps cfg c)" "steady ledger_inv (offramp_create fdeps fcfg fc)"
  by (rule steadyI, erule onramp_create_inv offramp_create_inv)+

lemma ledger_statements [ledger_intro]:
  "steady ledger_inv (insert_sep24 r)" "steady ledger_inv (update_sep38 P f)" "steady ledger_inv (insert_sep24_session s)"
  "steady ledger_inv (update_sep24_sessions Q g)"
  unfolding insert_sep24_def update_sep38_def insert_sep24_session_def update_sep24_sessions_def Let_def
  by (intro steady_intro steady_sql steady_update steady_insert; auto simp: ledger_inv_def split: if_splits)+

lemma ledger_sep24_create [ledger_intro]: "steady ledger_inv (sep24_create p r)"
  unfolding sep24_create_def by (intro steady_intro ledger_intro)

lemma ledger_record_transaction [ledger_intro]: "steady ledger_inv (record_transaction p u q k v)"
  unfolding record_transaction_def Let_def by (intro steady_intro ledger_intro)

lemma ledger_starts [ledger_intro]:
  "steady ledger_inv (start_deposit deps dc)" "steady ledger_inv (start_withdraw deps wc)"
  unfolding start_deposit_def start_withdraw_def by (intro steady_intro order_frame ledger_intro)+

lemma ledger_session_writes [ledger_intro]:
  "steady ledger_inv (session_create s)" "steady ledger_inv (session_link i u v k n t)"
  "steady ledger_inv (session_complete i u j t)" "steady ledger_inv (sep38_quote_consume who q)"
  unfolding session_create_def session_link_def session_complete_def sep38_quote_consume_def sep38_consume_def
  by (intro steady_intro sep24_intro ledger_intro)+

lemma ledger_start_transfer [ledger_intro]: "steady ledger_inv (start_transfer cfg p s r dest)"
  unfolding start_transfer_def Let_def by (intro steady_intro ledger_intro)

lemma ledger_interactive_start: "steady ledger_inv (interactive_start cfg hash who r)"
  unfolding interactive_start_def Let_def by (intro steady_intro sep24_intro ledger_intro)

lemma ledger_interactive_link [ledger_intro]: "steady ledger_inv (interactive_link cfg i u)"
  unfolding interactive_link_def Let_def by (intro steady_intro sep24_intro ledger_intro)

lemma ledger_complete_transfer [ledger_intro]: "steady ledger_inv (complete_transfer cfg p u s dest)"
  unfolding complete_transfer_def Let_def by (intro steady_intro sep24_intro ledger_intro)

lemma ledger_interactive_complete: "steady ledger_inv (interactive_complete cfg i u dest)"
  unfolding interactive_complete_def by (intro steady_intro sep24_intro ledger_intro)

end
