(* ===== verification/Sep24_Properties.thy ===== *)
theory Sep24_Properties
  imports Sep24_Laws Order_Lists Scenario
begin

text \<open>
  SEP-24 transactions and sessions through every history: who sees a transaction, and who a session
  belongs to. The histories are those of \<open>run_sep24\<close>: calls of the protocol interleaved with
  all order operations, each with its own faults and time.
\<close>

section \<open>Starting\<close>

definition owned_by :: "order_principal \<Rightarrow> order_record \<Rightarrow> bool" where
  "owned_by p r \<longleftrightarrow> (\<exists>P. apply_order_ownership p = Inr P \<and> P r)"

text \<open>A transaction on file for an order of \<open>p\<close>.\<close>

definition filed :: "order_principal \<Rightarrow> string \<Rightarrow> string \<Rightarrow> string \<Rightarrow> db \<Rightarrow> bool" where
  "filed p i kind order_id d \<longleftrightarrow>
     (\<exists>m \<in> set (sep24_txs d). s24_transaction m = i \<and> s24_kind m = kind \<and> s24_order m = order_id) \<and>
     (\<exists>r \<in> set (orders d). or_id r = order_id \<and> or_direction r = sep24_order_direction kind \<and> owned_by p r)"

lemma insert_sep24_outcome:
  "outcome (insert_sep24 r)
    (\<lambda>n d'. n > 0 \<and> d' = d\<lparr>sep24_txs := sep24_txs d @ [r]\<rparr> \<or> n = 0 \<and> d' = d) (\<lambda>_ d'. d' = d) d t"
  unfolding insert_sep24_def by (rule outcome_bind, rule outcome_guard, rule outcome_sql) (auto split: if_splits)

lemma sep24_create_outcome:
  "outcome (sep24_create p r) (\<lambda>_ d'. filed p (sr_transaction r) (sr_kind r) (sr_order r) d') (\<lambda>_ _. True) d t"
proof (cases "apply_order_ownership p")
  case (Inl e)
  show ?thesis
    unfolding sep24_create_def Inl sum.case
    by (rule outcome_bind, rule outcome_guard, rule outcome_bind, rule outcome_guard, rule outcome_bind, rule outcome_guard,
        rule outcome_bind, rule outcome_now, rule outcome_tx) (simp_all add: outcome_fail)
next
  case (Inr owned)
  show ?thesis
    unfolding sep24_create_def Inr sum.case
  proof (rule outcome_bind, rule outcome_guard, rule outcome_bind, rule outcome_guard, rule outcome_bind, rule outcome_guard,
      rule outcome_bind, rule outcome_now, rule outcome_tx, rule outcome_bind, rule outcome_or_missing, goal_cases)
    case (1 ord)
    then have o: "ord \<in> set (orders d)" "or_id ord = sr_order r" "or_direction ord = sep24_order_direction (sr_kind r)" "owned_by p ord"
      using Inr by (auto dest!: first_by_Some simp: owned_by_def)
    show ?case
    proof (rule outcome_bind, rule outcome_new_id, rule outcome_bind, rule outcome_weaken [OF insert_sep24_outcome], goal_cases)
      case (1 i n d')
      then consider (new) "n > 0" "d' = d\<lparr>sep24_txs := sep24_txs d @ [sep24_row i r t]\<rparr>" | (old) "n = 0" "d' = d" by auto
      then show ?case
      proof cases
        case new
        then show ?thesis
          using o by (simp add: filed_def sep24_row_def) (rule outcome_ret, auto)
      next
        case old
        show ?thesis
          unfolding old
          by simp (rule outcome_bind, rule outcome_select_first, rule outcome_guard,
              use o in \<open>auto simp: filed_def dest!: first_by_Some\<close>)
      qed
    qed simp_all
  qed simp_all
qed

lemma record_transaction_outcome:
  "outcome (record_transaction p u q kind ord)
    (\<lambda>v d'. trim_space (ov_id ord) \<noteq> [] \<and> tv_id v = sep24_transaction_id kind (ov_id ord) \<and> tv_kind v = kind \<and> tv_order v = ord \<and>
       filed p (tv_id v) kind (ov_id ord) d') (\<lambda>_ _. True) d t"
  unfolding record_transaction_def Let_def
  by (rule outcome_bind, rule outcome_guard, rule outcome_bind, rule outcome_weaken [OF sep24_create_outcome], rule outcome_lift)
     (auto simp: transaction_view_def split: option.splits)

lemma outcome_kept:
  assumes "\<And>d0. steady (sep24_from d0) m" and "sep24_ok d"
  shows "outcome m (\<lambda>_. sep24_ok) (\<lambda>_. sep24_ok) d t"
  by (rule outcome_weaken [OF steadyD [OF assms(1) sep24_from_refl [OF assms(2)]]]) (auto dest: sep24_from_ok)

text \<open>What a successful start has filed.\<close>

definition started :: "order_principal \<Rightarrow> string \<Rightarrow> sep24_view \<Rightarrow> db \<Rightarrow> bool" where
  "started p kind v d \<longleftrightarrow> trim_space (ov_id (tv_order v)) \<noteq> [] \<and> tv_kind v = kind \<and>
     tv_id v = sep24_transaction_id kind (ov_id (tv_order v)) \<and> filed p (tv_id v) kind (ov_id (tv_order v)) d"

lemma record_transaction_started:
  "outcome (record_transaction p u q kind ord) (\<lambda>v. started p kind v) (\<lambda>_ _. True) d t"
  by (rule outcome_weaken [OF record_transaction_outcome]) (auto simp: started_def)

lemma start_deposit_outcome:
  assumes "sep24_ok d"
  shows "outcome (start_deposit deps c) (started (dc_principal c) sep24_deposit) (\<lambda>_ _. True) d t"
proof -
  have tail: "outcome (act_bind (case x of Inr (v, _) \<Rightarrow> act_ret v
       | Inl e \<Rightarrow> (case as_checkout_unknown e of
           Some i \<Rightarrow> if i = [] then act_fail e else onramp_usecase_get (dc_principal c) i
         | None \<Rightarrow> act_fail e)) (\<lambda>v. record_transaction (dc_principal c) (dc_wallet c) (dc_quote_id c) sep24_deposit v))
     (started (dc_principal c) sep24_deposit) (\<lambda>_ _. True) d' t" if "sep24_ok d'" for x :: "err + order_view \<times> bool" and d'
    by (rule outcome_bind, rule outcome_weaken [OF outcome_kept [OF _ that]])
       (intro steady_intro order_frame, rule record_transaction_started, simp)
  show ?thesis
    unfolding start_deposit_def
    by (rule outcome_bind, rule outcome_guard, rule outcome_bind, rule outcome_guard, rule outcome_bind, rule outcome_try,
        rule outcome_weaken [OF outcome_kept [OF sep24_frame [OF frame_onramp_create] assms]])
       (rule tail, simp_all add: tail [where x = "Inl e" for e, unfolded sum.case])
qed

lemma start_withdraw_outcome:
  assumes "sep24_ok d"
  shows "outcome (start_withdraw deps c) (started (wc_principal c) sep24_withdraw) (\<lambda>_ _. True) d t"
  unfolding start_withdraw_def
  by (rule outcome_bind, rule outcome_guard, rule outcome_bind, rule outcome_guard, rule outcome_bind,
      rule outcome_weaken [OF outcome_kept [OF sep24_frame [OF frame_offramp_create] assms]])
     (auto intro: record_transaction_started)

text \<open>What a read has found.\<close>

lemma get_order_shown:
  assumes "shows_order view"
  shows "outcome (get_order view p i) (\<lambda>v d'. d' = d \<and> ov_id v = i) (\<lambda>_ _. True) d t"
  unfolding get_order_def
  by (rule outcome_bind, rule outcome_lift, rule outcome_bind, rule outcome_try, rule outcome_select_first)
     (auto simp: outcome_fail dest!: first_by_Some intro!: outcome_weaken [OF assms [unfolded shows_order_def, rule_format]])

lemma sep24_find_outcome:
  "outcome (sep24_find q i) (\<lambda>r d'. d' = d \<and> (\<exists>m \<in> set (sep24_txs d). s24_transaction m = trim_space i \<and> joined_order q d m \<and>
     r = wallet_transaction_record m)) (\<lambda>_ _. True) d t"
  unfolding sep24_find_def Let_def
  by (rule outcome_bind, rule outcome_guard, rule outcome_bind, rule outcome_guard, rule outcome_bind, rule outcome_or_missing)
     (auto intro!: outcome_ret dest!: first_by_Some)

lemma order_or_missing_outcome:
  "outcome m (\<lambda>v d'. Q v d') (\<lambda>_ _. True) d t \<Longrightarrow> outcome (order_or_missing m) Q (\<lambda>_ _. True) d t"
  unfolding order_or_missing_def
  by (rule outcome_bind, rule outcome_try, erule outcome_weaken) (auto intro: outcome_ret outcome_fail)

lemma usecase_get_outcome: "outcome (onramp_usecase_get q i) (\<lambda>v d'. d' = d \<and> ov_id v = i) (\<lambda>_ _. True) d t"
  unfolding onramp_usecase_get_def onramp_get_def
  using get_order_shown [OF onramp_view_shows] by (simp add: outcome_fail)

lemma wallet_get_outcome: "outcome (onramp_get_by_wallet a i) (\<lambda>v d'. d' = d \<and> ov_id v = i) (\<lambda>_ _. True) d t"
  unfolding onramp_get_by_wallet_def
  by (rule outcome_bind, rule outcome_try, rule outcome_select_first)
     (auto simp: outcome_fail dest!: first_by_Some intro!: outcome_weaken [OF onramp_view_shows [unfolded shows_order_def, rule_format]])

text \<open>A view shows a row of the table: its identifier, its kind and its order.\<close>

definition row_shown :: "(sep24_transaction \<Rightarrow> bool) \<Rightarrow> sep24_view \<Rightarrow> db \<Rightarrow> bool" where
  "row_shown P v d \<longleftrightarrow> (\<exists>m \<in> set (sep24_txs d). P m \<and> tv_id v = s24_transaction m \<and> tv_kind v = s24_kind m \<and>
     ov_id (tv_order v) = s24_order m)"

lemma row_shown_mono: "row_shown P v d \<Longrightarrow> (\<And>m. P m \<Longrightarrow> Q m) \<Longrightarrow> row_shown Q v d"
  by (auto simp: row_shown_def)

fun read_right :: "sep24_read \<Rightarrow> db \<Rightarrow> sep24_transaction \<Rightarrow> bool" where
  "read_right (ReadTransaction q i) d m \<longleftrightarrow> principal_validate q = None \<and> joined_order q d m \<and> s24_transaction m = trim_space i"
| "read_right (ReadTransactions q n) d m \<longleftrightarrow> principal_validate q = None \<and> joined_order q d m"
| "read_right (ReadWallet a i) d m \<longleftrightarrow> s24_wallet m = Some (trim_space a) \<and> s24_transaction m = trim_space i"
| "read_right (ReadIdentifier a i) d m \<longleftrightarrow> s24_wallet m = Some (trim_space a)"
| "read_right (ReadWalletPage a n) d m \<longleftrightarrow> s24_wallet m = Some (trim_space a)"
| "read_right (ReadWalletHistory a f) d m \<longleftrightarrow> s24_wallet m = Some (trim_space a)"

lemma get_transaction_outcome:
  "outcome (get_transaction q i) (\<lambda>v d'. d' = d \<and> row_shown (read_right (ReadTransaction q i) d) v d) (\<lambda>_ _. True) d t"
  unfolding get_transaction_def Let_def
proof (rule outcome_bind, rule outcome_guard, rule outcome_bind, rule outcome_guard, rule outcome_bind,
    rule outcome_weaken [OF sep24_find_outcome], rule outcome_bind, rule order_or_missing_outcome,
    rule outcome_weaken [OF usecase_get_outcome], rule outcome_lift, goal_cases)
  case (1 r d1 v d2 x)
  then show ?case
    by (auto simp: row_shown_def wallet_transaction_record_def transaction_view_def trim_trim split: option.splits)
qed simp_all

lemma get_wallet_outcome:
  "outcome (get_wallet_transaction a i) (\<lambda>v d'. d' = d \<and> row_shown (read_right (ReadWallet a i) d) v d) (\<lambda>_ _. True) d t"
  unfolding get_wallet_transaction_def sep24_find_by_wallet_def Let_def
proof (rule outcome_bind, rule outcome_guard, rule outcome_bind, rule outcome_bind, rule outcome_or_missing, rule outcome_ret,
    rule outcome_bind, rule order_or_missing_outcome, rule outcome_weaken [OF wallet_get_outcome], rule outcome_lift, goal_cases)
  case (1 m v d2 x)
  then show ?case
    by (auto simp: row_shown_def wallet_transaction_record_def transaction_view_def trim_trim dest!: first_by_Some split: option.splits)
qed simp_all

lemma get_identifier_outcome:
  "outcome (get_wallet_transaction_by_identifier a i) (\<lambda>v d'. d' = d \<and> row_shown (read_right (ReadIdentifier a i) d) v d) (\<lambda>_ _. True) d t"
  unfolding get_wallet_transaction_by_identifier_def sep24_find_by_identifier_def Let_def
proof (rule outcome_bind, rule outcome_bind, rule outcome_guard, rule outcome_bind, rule outcome_or_missing, rule outcome_ret,
    rule outcome_bind, rule order_or_missing_outcome, rule outcome_weaken [OF wallet_get_outcome], rule outcome_lift, goal_cases)
  case (1 m v d2 x)
  then show ?case
    by (auto simp: row_shown_def wallet_transaction_record_def transaction_view_def dest!: first_by_Some split: option.splits)
qed simp_all

text \<open>A page is read row by row.\<close>

lemma outcome_read_views:
  assumes "\<And>r. outcome (read r) (\<lambda>v d'. d' = d \<and> row_shown P v d) (\<lambda>_ _. True) d t"
  shows "outcome (act_fold (\<lambda>r vs. act_bind (read r) (\<lambda>v. act_ret (vs @ [v]))) rs [])
    (\<lambda>vs d'. d' = d \<and> list_all (\<lambda>v. row_shown P v d) vs) (\<lambda>_ _. True) d t"
proof (rule outcome_fold)
  fix r vs d1 assume "d1 = d \<and> list_all (\<lambda>v. row_shown P v d) vs"
  then show "outcome (act_bind (read r) (\<lambda>v. act_ret (vs @ [v]))) (\<lambda>vs d'. d' = d \<and> list_all (\<lambda>v. row_shown P v d) vs) (\<lambda>_ _. True) d1 t"
    by (auto intro!: outcome_bind outcome_weaken [OF assms] outcome_ret)
qed simp

lemma list_transactions_outcome:
  "outcome (list_transactions q n)
    (\<lambda>vs d'. d' = d \<and> list_all (\<lambda>v. row_shown (read_right (ReadTransactions q n) d) v d) vs) (\<lambda>_ _. True) d t"
  unfolding list_transactions_def sep24_list_def
  by (intro outcome_bind outcome_guard outcome_select outcome_ret outcome_read_views outcome_weaken [OF get_transaction_outcome])
     (auto intro: row_shown_mono)

lemma wallet_page_outcome:
  "outcome (list_wallet_transactions a n)
    (\<lambda>vs d'. d' = d \<and> list_all (\<lambda>v. row_shown (\<lambda>m. s24_wallet m = Some (trim_space a)) v d) vs) (\<lambda>_ _. True) d t"
  unfolding list_wallet_transactions_def sep24_list_by_wallet_def
  by (intro outcome_bind outcome_select outcome_ret outcome_read_views outcome_weaken [OF get_wallet_outcome])
     (auto intro: row_shown_mono)

lemma set_history: "set (sep24_history f b n vs) \<subseteq> set vs"
  by (induction f b n vs rule: sep24_history.induct) auto

lemma read_sep24_outcome:
  "outcome (read_sep24 rd) (\<lambda>vs d'. d' = d \<and> list_all (\<lambda>v. row_shown (read_right rd d) v d) vs) (\<lambda>_ _. True) d t"
proof (cases rd)
  case (ReadWalletPage a n)
  have r: "read_right (ReadWalletPage a n) d = (\<lambda>m. s24_wallet m = Some (trim_space a))" by (rule ext) simp
  show ?thesis
    unfolding ReadWalletPage read_sep24.simps r by (rule wallet_page_outcome)
next
  case (ReadWalletHistory a f)
  have r: "read_right (ReadWalletHistory a f) d = (\<lambda>m. s24_wallet m = Some (trim_space a))" by (rule ext) simp
  show ?thesis
    unfolding ReadWalletHistory read_sep24.simps list_wallet_transactions_filtered_def
    by (rule outcome_bind, rule outcome_weaken [OF wallet_page_outcome], rule outcome_ret)
       (auto simp: r list_all_iff dest: subsetD [OF set_history])
qed (auto intro!: outcome_bind outcome_weaken [OF get_transaction_outcome] outcome_weaken [OF get_wallet_outcome]
       outcome_weaken [OF get_identifier_outcome] outcome_weaken [OF list_transactions_outcome]
       outcome_ret)

text \<open>An order of one principal is the order of the other only if they stand for the same owner.\<close>

lemma owned_scope:
  assumes "owned_by p r" and "list_ex (\<lambda>r'. or_id r' = i \<and>
     (if is_api_client q then or_client_id r' = Some (op_client q) \<and> or_retail_session r' = None
      else or_client_id r' = None \<and> or_retail_session r' \<noteq> None \<and> or_created_by r' = Some (op_owner q))) rows"
    and "r' \<in> set rows" "or_id r' = i" "order_terms r' = order_terms r" "distinct (List.map or_id rows)"
    and "principal_validate q = None"
  shows "principal_scope q = principal_scope p"
proof -
  from assms(2) obtain x where x: "x \<in> set rows" "or_id x = i"
    "if is_api_client q then or_client_id x = Some (op_client q) \<and> or_retail_session x = None
      else or_client_id x = None \<and> or_retail_session x \<noteq> None \<and> or_created_by x = Some (op_owner q)"
    by (auto simp: list_ex_iff)
  have "x = r'" using x(1,2) assms(3,4,6) by (auto simp: distinct_map dest: inj_onD)
  with x(3) assms(1,5,7) show ?thesis
    by (auto simp: owned_by_def apply_order_ownership_def order_terms_def principal_scope.simps is_api_client_def
        principal_validate_None split: option.splits if_splits principal_kind.splits)
qed

lemma trim_deposit_id: "trim_space i \<noteq> [] \<Longrightarrow> trim_space (''deposit-'' @ trim_space i) = ''deposit-'' @ trim_space i"
  by (rule trim_space_untrimmed, rule untrimmed_prefix [OF untrimmed_trim_space]) (auto simp: space_seqs_def)

lemma trim_withdraw_id: "trim_space i \<noteq> [] \<Longrightarrow> trim_space (''withdraw-'' @ trim_space i) = ''withdraw-'' @ trim_space i"
  by (rule trim_space_untrimmed, rule untrimmed_prefix [OF untrimmed_trim_space]) (auto simp: space_seqs_def)

lemma trim_kinds: "trim_space sep24_deposit = ''deposit''" "trim_space sep24_withdraw = ''withdraw''"
  by code_simp+

lemma started_id: "started p kind v d \<Longrightarrow> kind = sep24_deposit \<or> kind = sep24_withdraw \<Longrightarrow> trim_space (tv_id v) = tv_id v"
  using trim_deposit_id [of "ov_id (tv_order v)"] trim_withdraw_id [of "ov_id (tv_order v)"]
  by (auto simp: started_def sep24_transaction_id_def trim_kinds)

text \<open>The account that a transaction is on file for, and who may read it.\<close>

definition filed_wallet :: "string \<Rightarrow> db \<Rightarrow> string option" where
  "filed_wallet i d = (case List.find (\<lambda>m. s24_transaction m = i) (sep24_txs d) of None \<Rightarrow> None | Some m \<Rightarrow> s24_wallet m)"

lemma filed_wallet_row:
  assumes "m \<in> set (sep24_txs d)" and "distinct (List.map s24_transaction (sep24_txs d))"
  shows "filed_wallet (s24_transaction m) d = s24_wallet m"
proof -
  from assms(1) obtain k where k: "List.find (\<lambda>n. s24_transaction n = s24_transaction m) (sep24_txs d) = Some k"
    by (cases "List.find (\<lambda>n. s24_transaction n = s24_transaction m) (sep24_txs d)") (auto simp: find_None_iff)
  then have "k \<in> set (sep24_txs d)" "s24_transaction k = s24_transaction m" by (auto simp: find_Some_iff)
  with assms have "k = m" by (auto simp: distinct_map dest: inj_onD)
  with k show ?thesis by (simp add: filed_wallet_def)
qed

fun entitled :: "sep24_read \<Rightarrow> order_principal \<Rightarrow> string option \<Rightarrow> bool" where
  "entitled (ReadTransaction q i) p a \<longleftrightarrow> principal_scope q = principal_scope p"
| "entitled (ReadTransactions q n) p a \<longleftrightarrow> principal_scope q = principal_scope p"
| "entitled (ReadWallet b i) p a \<longleftrightarrow> a = Some (trim_space b)"
| "entitled (ReadIdentifier b i) p a \<longleftrightarrow> a = Some (trim_space b)"
| "entitled (ReadWalletPage b n) p a \<longleftrightarrow> a = Some (trim_space b)"
| "entitled (ReadWalletHistory b f) p a \<longleftrightarrow> a = Some (trim_space b)"

text \<open>The two reads by the identifier that the API shows answer with that transaction.\<close>

fun asked :: "sep24_read \<Rightarrow> string \<Rightarrow> bool" where
  "asked (ReadTransaction q i) j \<longleftrightarrow> j = trim_space i"
| "asked (ReadWallet a i) j \<longleftrightarrow> j = trim_space i"
| "asked _ j \<longleftrightarrow> True"

lemma read_right_cases:
  "read_right rd d m \<Longrightarrow> asked rd (s24_transaction m) \<and>
     ((\<exists>q. principal_validate q = None \<and> joined_order q d m \<and> (\<forall>p a. entitled rd p a \<longleftrightarrow> principal_scope q = principal_scope p)) \<or>
      (\<exists>b. s24_wallet m = Some b \<and> (\<forall>p a. entitled rd p a \<longleftrightarrow> a = Some b)))"
  by (cases rd) auto

text \<open>A transaction that was started is shown to its owner only, with its kind and its order.\<close>

lemma started_shown:
  assumes st: "started p kind v d" and kept: "sep24_from d d'" and ok: "sep24_ok d"
    and sh: "row_shown (read_right rd d') x d'" and id: "tv_id x = tv_id v"
  shows "entitled rd p (filed_wallet (tv_id v) d) \<and> tv_kind x = tv_kind v \<and> ov_id (tv_order x) = ov_id (tv_order v)"
proof -
  from st obtain m r where m: "m \<in> set (sep24_txs d)" "s24_transaction m = tv_id v" "s24_kind m = tv_kind v" "s24_order m = ov_id (tv_order v)"
    and r: "r \<in> set (orders d)" "or_id r = ov_id (tv_order v)" "owned_by p r"
    by (auto simp: started_def filed_def)
  from sh id obtain n where n: "n \<in> set (sep24_txs d')" "s24_transaction n = tv_id v" "read_right rd d' n"
    "tv_kind x = s24_kind n" "ov_id (tv_order x) = s24_order n"
    by (auto simp: row_shown_def)
  from kept m(1) obtain k where k: "k \<in> set (sep24_txs d')" "sep24_terms k = sep24_terms m"
    by (auto simp: sep24_from_def carried_def)
  from kept have "inj_on s24_transaction (set (sep24_txs d'))" by (simp add: sep24_from_def distinct_map)
  from inj_onD [OF this _ k(1) n(1)] have "k = n" using k(2) m(2) n(2) by (simp add: sep24_terms_def)
  with k(2) m have n': "s24_kind n = tv_kind v" "s24_order n = ov_id (tv_order v)" "s24_wallet n = s24_wallet m"
    by (auto simp: sep24_terms_def)
  from kept have ko: "kept_orders (orders d) (orders d')" by (simp add: sep24_from_def)
  from kept_order [OF ko r(1)] obtain r' where r': "r' \<in> set (orders d')" "order_terms r' = order_terms r" by auto
  have "filed_wallet (tv_id v) d = s24_wallet m" using ok filed_wallet_row [OF m(1)] m(2) by (simp add: sep24_ok_def)
  moreover have "principal_scope q = principal_scope p" if "principal_validate q = None" "joined_order q d' n" for q
    by (rule owned_scope [OF r(3) that(2) [unfolded joined_order_def] r'(1) _ r'(2) _ that(1)])
       (use r' r n' ko in \<open>auto simp: order_terms_def kept_orders_def\<close>)
  ultimately have "entitled rd p (filed_wallet (tv_id v) d)"
    using read_right_cases [OF n(3)] n'(3) by auto
  with n(4,5) n' show ?thesis by simp
qed

definition started_by :: "order_principal \<Rightarrow> sep24_view \<Rightarrow> world \<Rightarrow> world \<Rightarrow> bool" where
  "started_by p v w w' \<longleftrightarrow>
     (\<exists>deps c. dc_principal c = p \<and> start_deposit deps c w = (Inr v, w')) \<or>
     (\<exists>deps c. wc_principal c = p \<and> start_withdraw deps c w = (Inr v, w'))"

lemma started_by_started:
  assumes "sep24_ok (w_db w)" and "started_by p v w w'"
  shows "sep24_ok (w_db w') \<and> trim_space (tv_id v) = tv_id v \<and> (\<exists>kind. started p kind v (w_db w'))"
  using assms(2) unfolding started_by_def
proof (elim disjE exE conjE)
  fix deps c assume c: "dc_principal c = p" "start_deposit deps c w = (Inr v, w')"
  from outcomeD [OF start_deposit_outcome [OF assms(1)] refl refl c(2)] c(1)
  have s: "started p sep24_deposit v (w_db w')" by simp
  from steady_run [OF steady_start_deposit sep24_from_refl [OF assms(1)] c(2)] s started_id [OF s]
  show ?thesis by (auto dest: sep24_from_ok)
next
  fix deps c assume c: "wc_principal c = p" "start_withdraw deps c w = (Inr v, w')"
  from outcomeD [OF start_withdraw_outcome [OF assms(1)] refl refl c(2)] c(1)
  have s: "started p sep24_withdraw v (w_db w')" by simp
  from steady_run [OF steady_start_withdraw sep24_from_refl [OF assms(1)] c(2)] s started_id [OF s]
  show ?thesis by (auto dest: sep24_from_ok)
qed

text \<open>
  C38: a SEP-24 transaction, once a deposit or a withdrawal has started it, is shown, whatever calls of
  the protocol, payments, settlements and payouts have run in between, only to principals of the same
  API client or retail user and, through the reads of the wallet protocol, to the account that it was
  filed for; always with its kind and its order. A read by identifier answers with that transaction.
\<close>
theorem sep24_owner_only:
  assumes "sep24_ok (w_db w)" and "started_by p v w w1" and "history run_sep24 (w_db w1) (w_db u)"
    and "read_sep24 rd u = (Inr xs, u')" and "x \<in> set xs"
  shows "asked rd (tv_id x) \<and> (tv_id x = tv_id v \<longrightarrow> entitled rd p (filed_wallet (tv_id v) (w_db w1)) \<and>
     tv_kind x = tv_kind v \<and> ov_id (tv_order x) = ov_id (tv_order v))"
proof -
  from started_by_started [OF assms(1,2)] obtain kind where
    s: "sep24_ok (w_db w1)" "started p kind v (w_db w1)" by auto
  from outcomeD [OF read_sep24_outcome refl refl assms(4)] assms(5)
  have sh: "row_shown (read_right rd (w_db u)) x (w_db u)" by (simp add: list_all_iff)
  then have "asked rd (tv_id x)" by (auto simp: row_shown_def dest: read_right_cases)
  with started_shown [OF s(2) sep24_history [OF assms(3) s(1)] s(1) sh] show ?thesis by blast
qed

text \<open>A deposit that is answered with an order on file.\<close>

definition demo_sep24_db :: db where
  "demo_sep24_db = empty_db\<lparr>orders := [hd demo_orders], idempotency := [hd demo_idempotency]\<rparr>"

definition demo_sep24_deps :: sep24_deps where
  "demo_sep24_deps = \<lparr>sd_onramp = \<lparr>od_price = Inl (ErrText []), od_balance = (\<lambda>_. Inr 0), od_checkout = (\<lambda>_ _. Inr demo_checkout),
       od_destination = (\<lambda>_. True), od_trustline = None, od_kyc = (\<lambda>_. Inr True),
       od_digest = (\<lambda>s. if s = ''sep24-deposit-k'' then ''k1'' else ''h1'')\<rparr>,
     sd_onramp_config = \<lparr>sc_policy = \<lparr>ttl = 1, max_age = 1, spread_bps = 0\<rparr>, sc_min = 10000, sc_max = 1000000, sc_treasury = ''GT'',
       sc_repo = demo_onramp_config\<rparr>,
     sd_offramp = undefined, sd_offramp_config = undefined\<rparr>"

definition demo_sep24_command :: sep24_deposit_command where
  "demo_sep24_command = \<lparr>dc_principal = demo_client, dc_wallet = ''GW'', dc_quote_id = [], dc_key = ''k'', dc_asset = ''KXLM'',
     dc_amount = 50000, dc_destination = CHR ''G'' # replicate 55 (CHR ''A''), dc_memo = ''m1'', dc_method = PMQRIS\<rparr>"

lemma demo_sep24_tables:
  "orders demo_sep24_db = [hd demo_orders]" "idempotency demo_sep24_db = [hd demo_idempotency]" "checkouts demo_sep24_db = []"
  "stellar_txs demo_sep24_db = []" "sep24_txs demo_sep24_db = []" "sep24_sessions (accts demo_sep24_db) = []"
  by (simp_all add: demo_sep24_db_def empty_db_def)

lemma runs_no_row: "f d = None \<Longrightarrow> Q None d is \<Longrightarrow> runs (optional_row (select_first f)) Q d is t"
  unfolding optional_row_def select_first_def
  by (rule runs_bind, rule runs_try_bind, rule runs_select) (simp add: runs_try_fail runs_ret)

lemma demo_colleague_viewed:
  "n \<noteq> [] \<Longrightarrow> orders d = [hd demo_orders] \<Longrightarrow> checkouts d = [] \<Longrightarrow> stellar_txs d = [] \<Longrightarrow>
   (\<And>v. ov_id v = ''o1'' \<Longrightarrow> ov_failure v = [] \<Longrightarrow> ov_status v = OSCompleted \<Longrightarrow> Q v d is) \<Longrightarrow>
   runs (onramp_get (demo_client\<lparr>op_owner := n\<rparr>) ''o1'') Q d is t"
  unfolding onramp_get_def get_order_def onramp_order_view_def Let_def find_stellar_def
  by (rule runs_intro runs_no_row
      | (simp add: apply_order_ownership_def demo_client_def principal_validate.simps is_api_client_def; fail)
      | (simp add: first_by_def demo_orders_def; fail)
      | (simp add: first_by_def demo_orders_def base_order_view_def deref_str_def, rule runs_ret))+

lemma demo_client_named: "demo_client\<lparr>op_owner := ''owner''\<rparr> = demo_client"
  by (simp add: demo_client_def)

lemmas demo_order_viewed = demo_colleague_viewed [of "''owner''", unfolded demo_client_named, simplified]

definition demo_order_command :: command where
  "demo_order_command = \<lparr>cm_principal = demo_client, cm_wallet = ''GW'', cm_quote_id = [], cm_key = ''sep24-deposit-k'',
     cm_amount = 50000, cm_method = PMQRIS, cm_destination = CHR ''G'' # replicate 55 (CHR ''A''), cm_memo = ''m1''\<rparr>"

lemma demo_sep24_texts:
  "trim_space ''sep24-deposit-k'' = ''sep24-deposit-k''" "trim_space ''m1'' = ''m1''" "trim_space ''k'' = ''k''"
  "trim_space ''KXLM'' = ''KXLM''" "trim_space ''GW'' = ''GW''" "trim_space ([] :: string) = []" "trim_space ''o1'' = ''o1''"
  "trim_space (CHR ''G'' # replicate 55 (CHR ''A'')) = CHR ''G'' # replicate 55 (CHR ''A'')"
  by code_simp+

lemma demo_normalized: "normalize_command demo_order_command = demo_order_command"
  by (simp add: normalize_command_def demo_order_command_def demo_sep24_texts)

lemma demo_command_valid: "validate_command demo_order_command"
  by (simp add: validate_command_def demo_order_command_def amount_validate_def has_prefix_def is_base32_char_def less_eq_char_nat list_all_iff)

lemma demo_digests:
  "od_digest (sd_onramp demo_sep24_deps) ''sep24-deposit-k'' = ''k1''"
  "onramp_request_hash (od_digest (sd_onramp demo_sep24_deps)) demo_order_command = ''h1''"
proof -
  show "onramp_request_hash (od_digest (sd_onramp demo_sep24_deps)) demo_order_command = ''h1''"
    by (auto simp: onramp_request_hash_def order_request_hash_def demo_sep24_deps_def demo_order_command_def encode_parts_def
        encode_part_def dest!: arg_cong [where f = length])
qed (simp add: demo_sep24_deps_def)

lemma demo_order_replayed:
  assumes "\<And>v b. ov_id v = ''o1'' \<Longrightarrow> ov_status v = OSCompleted \<Longrightarrow> ov_failure v = [] \<Longrightarrow> Q (v, b) demo_sep24_db is"
  shows "runs (onramp_create (sd_onramp demo_sep24_deps) (sd_onramp_config demo_sep24_deps) demo_order_command) Q demo_sep24_db is t"
proof -
  have k: "cm_key demo_order_command = ''sep24-deposit-k''" "cm_principal demo_order_command = demo_client"
    "principal_validate demo_client = None"
    by (simp_all add: demo_order_command_def demo_client_def principal_validate.simps)
  have g: "od_destination (sd_onramp demo_sep24_deps) x" "od_trustline (sd_onramp demo_sep24_deps) = None"
    "sc_min (sd_onramp_config demo_sep24_deps) = 10000" "sc_max (sd_onramp_config demo_sep24_deps) = 1000000"
    "cm_amount demo_order_command = 50000" for x
    by (simp_all add: demo_sep24_deps_def demo_order_command_def)
  have f: "apply_idempotency_ownership demo_client = Inr (\<lambda>r. ir_client r = Some ''client'' \<and> ir_user r = None)"
    by (simp add: apply_idempotency_ownership_def demo_client_def principal_validate.simps is_api_client_def)
  show ?thesis
    unfolding onramp_create_def Let_def demo_normalized k demo_digests onramp_find_replay_def find_replay_of_def f
    by (rule runs_intro demo_order_viewed | (simp add: demo_command_valid g demo_sep24_tables; fail)
        | (simp add: demo_sep24_tables first_by_def demo_idempotency_def onramp_create_operation_def; fail)
        | (simp add: demo_idempotency_def, rule runs_intro demo_order_viewed)
        | (simp add: replayed_def replay_error_def, rule runs_ret, rule assms; assumption))+
qed

definition demo_sep24_row :: sep24_transaction where
  "demo_sep24_row = \<lparr>s24_id = ''s1'', s24_transaction = ''deposit-o1'', s24_order = ''o1'', s24_kind = ''deposit'',
     s24_wallet = Some ''GW'', s24_quote = None, s24_stellar = None, s24_external = None, s24_created = 3000\<rparr>"

definition demo_sep24_filed :: db where
  "demo_sep24_filed = demo_sep24_db\<lparr>sep24_txs := [demo_sep24_row]\<rparr>"

lemma demo_client_owner:
  "principal_validate demo_client = None"
  "apply_order_ownership demo_client = Inr (\<lambda>r. or_client_id r = Some ''client'' \<and> or_retail_session r = None)"
  by (simp_all add: apply_order_ownership_def demo_client_def principal_validate.simps is_api_client_def)

lemma demo_recorded:
  assumes v: "ov_id v = ''o1''" "ov_status v = OSCompleted" "ov_failure v = []"
  shows "runs (record_transaction demo_client ''GW'' [] sep24_deposit v) (\<lambda>x d _. d = demo_sep24_filed \<and> tv_id x = ''deposit-o1'')
      demo_sep24_db [''s1''] 3000"
proof -
  have i: "sep24_transaction_id sep24_deposit ''o1'' = ''deposit-o1''"
    by (simp add: sep24_transaction_id_def trim_kinds demo_sep24_texts)
  have t: "trim_space ''deposit-o1'' = ''deposit-o1''" using trim_deposit_id [of "''o1''"] by (simp add: demo_sep24_texts)
  let ?r = "\<lparr>sr_wallet = ''GW'', sr_quote = [], sr_transaction = ''deposit-o1'', sr_order = ''o1'', sr_kind = sep24_deposit,
    sr_stellar = [], sr_external = []\<rparr>"
  have row: "sep24_row ''s1'' ?r 3000 = demo_sep24_row"
    by (simp add: sep24_row_def demo_sep24_row_def str_ptr_if_not_empty_def sep24_deposit_def demo_sep24_texts)
  have ins: "runs (insert_sep24 demo_sep24_row) (\<lambda>n d _. n = 1 \<and> d = demo_sep24_filed) demo_sep24_db [] 3000"
    unfolding insert_sep24_def
    by (rule runs_bind, rule runs_guard, simp add: demo_sep24_row_def, rule runs_sql [where x = 1 and d' = demo_sep24_filed])
       (simp_all add: demo_sep24_filed_def demo_sep24_tables)
  have "runs (sep24_create demo_client ?r) (\<lambda>_ d _. d = demo_sep24_filed) demo_sep24_db [''s1''] 3000"
    unfolding sep24_create_def demo_client_owner sum.case
    by (rule runs_bind, rule runs_guard, simp, rule runs_bind, rule runs_guard, simp add: t demo_sep24_texts,
        rule runs_bind, rule runs_guard, simp add: sep24_order_direction_def, rule runs_bind, rule runs_now, rule runs_tx,
        rule runs_bind, rule runs_or_missing [where x = "hd demo_orders"],
        simp add: demo_sep24_tables first_by_def demo_orders_def sep24_order_direction_def,
        rule runs_bind, rule runs_new_id, unfold row, rule runs_bind, rule runs_weaken [OF ins], simp add: runs_ret)
  then show ?thesis
    unfolding record_transaction_def Let_def v i demo_sep24_texts
    by (intro runs_bind runs_guard)
       (simp, erule runs_weaken, rule runs_lift [where x = "\<lparr>tv_id = ''deposit-o1'', tv_kind = sep24_deposit, tv_status = ''completed'',
          tv_quote = [], tv_stellar = [], tv_external = [], tv_order = v\<rparr>"], simp_all add: transaction_view_def sep24_order_status_def v)
qed

lemma demo_started:
  obtains v w where "start_deposit demo_sep24_deps demo_sep24_command (world0 demo_sep24_db [''s1''] 3000) = (Inr v, w)"
    "w_db w = demo_sep24_filed" "tv_id v = ''deposit-o1''"
proof -
  have c: "dc_principal demo_sep24_command = demo_client" "dc_wallet demo_sep24_command = ''GW''" "dc_quote_id demo_sep24_command = []"
    "valid_sep24_start demo_client (dc_key demo_sep24_command) (dc_asset demo_sep24_command)"
    "\<not> (dc_amount demo_sep24_command \<le> 0 \<or> trim_space (dc_destination demo_sep24_command) = [])"
    by (simp_all add: demo_sep24_command_def valid_sep24_start_def demo_client_owner demo_sep24_texts kxlm_asset_code_def)
  have k: "\<lparr>cm_principal = demo_client, cm_wallet = trim_space ''GW'', cm_quote_id = trim_space [],
        cm_key = sep24_idempotency_key sep24_deposit (dc_key demo_sep24_command), cm_amount = dc_amount demo_sep24_command,
        cm_method = dc_method demo_sep24_command, cm_destination = dc_destination demo_sep24_command,
        cm_memo = dc_memo demo_sep24_command\<rparr> = demo_order_command"
    by (simp add: demo_order_command_def demo_sep24_command_def demo_sep24_texts sep24_idempotency_key_def sep24_deposit_def)
  have "runs (start_deposit demo_sep24_deps demo_sep24_command) (\<lambda>v d _. d = demo_sep24_filed \<and> tv_id v = ''deposit-o1'')
      demo_sep24_db [''s1''] 3000"
    unfolding start_deposit_def c(1-3) k
    by (rule runs_bind, rule runs_guard, rule c(4), rule runs_bind, rule runs_guard, rule c(5), rule runs_bind, rule runs_try,
        rule demo_order_replayed, simp, rule runs_bind, rule runs_ret, rule demo_recorded)
  from runs_world0 [OF this] that show thesis by auto
qed

lemma demo_transaction_read:
  "\<exists>x w. get_transaction (demo_client\<lparr>op_owner := ''colleague''\<rparr>) ''deposit-o1'' (world0 demo_sep24_filed [] 4000) = (Inr x, w)"
proof -
  let ?q = "demo_client\<lparr>op_owner := ''colleague''\<rparr>"
  have t: "trim_space ''deposit-o1'' = ''deposit-o1''" using trim_deposit_id [of "''o1''"] by (simp add: demo_sep24_texts)
  have q: "principal_validate ?q = None" by (simp add: demo_client_def principal_validate.simps)
  have rows: "sep24_txs demo_sep24_filed = [demo_sep24_row]" "orders demo_sep24_filed = [hd demo_orders]"
    "checkouts demo_sep24_filed = []" "stellar_txs demo_sep24_filed = []"
    by (simp_all add: demo_sep24_filed_def demo_sep24_tables)
  have j: "first_by s24_id (\<lambda>m. s24_transaction m = ''deposit-o1'' \<and> joined_order ?q demo_sep24_filed m) (sep24_txs demo_sep24_filed) =
      Some demo_sep24_row"
    by (simp add: first_by_def rows demo_sep24_row_def joined_order_def demo_orders_def is_api_client_def demo_client_def)
  have "runs (sep24_find ?q ''deposit-o1'') (\<lambda>r d js. r = wallet_transaction_record demo_sep24_row \<and> d = demo_sep24_filed \<and> js = [])
      demo_sep24_filed [] 4000"
    unfolding sep24_find_def Let_def t
    by (rule runs_bind, rule runs_guard, rule q, rule runs_bind, rule runs_guard, simp, rule runs_bind, rule runs_or_missing, rule j)
       (simp add: runs_ret)
  then have "runs (get_transaction ?q ''deposit-o1'') (\<lambda>_ _ _. True) demo_sep24_filed [] 4000"
    unfolding get_transaction_def Let_def t
    by (intro runs_bind runs_guard)
       (simp_all add: q, erule runs_weaken, auto intro!: runs_bind runs_try demo_colleague_viewed runs_ret runs_lift
          simp: order_or_missing_def onramp_usecase_get_def q wallet_transaction_record_def demo_sep24_row_def rows
            transaction_view_def sep24_order_status_def)
  from runs_world0 [OF this] show ?thesis by auto
qed

theorem sep24_owner_only_witness:
  "\<exists>v w1 x w2. start_deposit demo_sep24_deps demo_sep24_command (world0 demo_sep24_db [''s1''] 3000) = (Inr v, w1) \<and>
     get_transaction (demo_client\<lparr>op_owner := ''colleague''\<rparr>) (tv_id v) (world0 demo_sep24_filed [] 4000) = (Inr x, w2) \<and>
     ov_id (tv_order x) = ov_id (tv_order v) \<and>
     principal_scope (demo_client\<lparr>op_owner := ''colleague''\<rparr>) = principal_scope (dc_principal demo_sep24_command)"
proof -
  obtain v w1 where s: "start_deposit demo_sep24_deps demo_sep24_command (world0 demo_sep24_db [''s1''] 3000) = (Inr v, w1)"
    "w_db w1 = demo_sep24_filed" "tv_id v = ''deposit-o1''" by (rule demo_started)
  from demo_transaction_read obtain x w2 where
    g: "get_transaction (demo_client\<lparr>op_owner := ''colleague''\<rparr>) (tv_id v) (world0 demo_sep24_filed [] 4000) = (Inr x, w2)"
    using s(3) by auto
  have ok: "sep24_ok (w_db (world0 demo_sep24_db [''s1''] 3000))"
    by (simp add: sep24_ok_def demo_sep24_tables world0_facts)
  have b: "started_by (dc_principal demo_sep24_command) v (world0 demo_sep24_db [''s1''] 3000) w1"
    using s(1) by (auto simp: started_by_def)
  have h: "history run_sep24 (w_db w1) (w_db (world0 demo_sep24_filed [] 4000))"
    by (simp add: s(2) world0_facts history_now)
  have rd: "read_sep24 (ReadTransaction (demo_client\<lparr>op_owner := ''colleague''\<rparr>) (tv_id v)) (world0 demo_sep24_filed [] 4000) = (Inr [x], w2)"
    using g by (simp add: act_bind_def act_ret_def)
  have "trim_space (tv_id v) = tv_id v" unfolding s(3) using trim_deposit_id [of "''o1''"] by (simp add: demo_sep24_texts)
  with sep24_owner_only [OF ok b h rd list.set_intros(1)] s(1) g show ?thesis by auto
qed

section \<open>Who a session belongs to\<close>

definition linked :: "string \<Rightarrow> string \<Rightarrow> db \<Rightarrow> bool" where
  "linked i u d \<longleftrightarrow> (\<exists>s \<in> set (sep24_sessions (accts d)). sn_transaction s = i \<and> sn_user s = Some u)"

definition admitted :: "string \<Rightarrow> Principal.authenticated_user \<Rightarrow> db \<Rightarrow> bool" where
  "admitted i u d \<longleftrightarrow> (\<exists>s \<in> set (sep24_sessions (accts d)). sn_transaction s = i \<and> owner_of u s)"

lemma linked_kept: "linked i u d \<Longrightarrow> sep24_from d d' \<Longrightarrow> linked i u d'"
  unfolding linked_def sep24_from_def
  by (auto simp: session_terms_def dest!: carried_stamped [of session_terms sn_user] split: prod.splits)

lemma linked_admitted:
  assumes "linked i x d" and "sep24_ok d" and "admitted i u d"
  shows "trim_space (au_id u) = trim_space x"
proof -
  from assms(1,3) obtain r s where r: "r \<in> set (sep24_sessions (accts d))" "sn_transaction r = i" "sn_user r = Some x"
    and s: "s \<in> set (sep24_sessions (accts d))" "sn_transaction s = i" "owner_of u s"
    by (auto simp: linked_def admitted_def)
  from assms(2) have "inj_on sn_transaction (set (sep24_sessions (accts d)))" by (simp add: sep24_ok_def distinct_map)
  from inj_onD [OF this _ r(1) s(1)] r s have "r = s" by simp
  with r(3) s(3) show ?thesis by (simp add: owner_of_def)
qed

lemma session_find_outcome:
  "outcome (session_find i) (\<lambda>s d'. d' = d \<and> s \<in> set (sep24_sessions (accts d)) \<and> sn_transaction s = i) (\<lambda>_ d'. d' = d) d t"
  unfolding session_find_def by (rule outcome_or_missing) (auto dest: first_by_Some)

lemma mapped_outcome: "outcome m Q (\<lambda>_. E) d t \<Longrightarrow> outcome (mapped_errors m) Q (\<lambda>_. E) d t"
  unfolding mapped_errors_def
  by (rule outcome_bind, rule outcome_try, erule outcome_weaken) (auto intro: outcome_ret outcome_fail)

lemma load_session_outcome:
  "outcome (load_session i) (\<lambda>s d'. d' = d \<and> s \<in> set (sep24_sessions (accts d)) \<and> sn_transaction s = trim_space i) (\<lambda>_ d'. d' = d) d t"
  unfolding load_session_def Let_def
  by (rule outcome_bind, rule outcome_guard, rule mapped_outcome, rule session_find_outcome) simp

lemma update_sessions_outcome:
  "outcome (update_sep24_sessions P f)
    (\<lambda>n d'. n = count_rows P (sep24_sessions (accts d)) \<and> d' = put_acc sep24_sessions_update (update_rows P f (sep24_sessions (accts d))) d)
    (\<lambda>_ d'. d' = d) d t"
  unfolding update_sep24_sessions_def Let_def by (rule outcome_sql) (auto split: if_splits)

lemma session_link_outcome:
  "outcome (session_link i wallet u k kyc now) (\<lambda>_. linked i u) (\<lambda>_ _. True) d t"
  unfolding session_link_def
proof (rule outcome_bind, rule outcome_weaken [OF update_sessions_outcome], goal_cases)
  case (1 n d')
  let ?P = "\<lambda>s. sn_transaction s = i \<and> sn_wallet s = wallet \<and> (sn_user s = None \<or> sn_user s = Some u)"
  let ?f = "\<lambda>s. s\<lparr>sn_user := Some u, sn_session := Some k, sn_kyc := kyc, sn_updated := now\<rparr>"
  show ?case
  proof (cases "n = 1")
    case True
    with 1 have "count_rows ?P (sep24_sessions (accts d)) = 1" by simp
    from count_rows_one [OF this] obtain s where s: "s \<in> set (sep24_sessions (accts d))" "?P s" by blast
    from in_update_rows [OF s(1), of ?P ?f] s(2) have "?f s \<in> set (update_rows ?P ?f (sep24_sessions (accts d)))" by simp
    with s(2) 1 have "linked i u d'" by (auto simp: linked_def intro!: bexI [where x = "?f s"])
    with True show ?thesis by (simp add: outcome_ret)
  next
    case False
    show ?thesis
      unfolding if_not_P [OF False]
      by (rule outcome_bind, rule outcome_weaken [OF session_find_outcome], rule outcome_guard) (auto simp: linked_def)
  qed
qed simp

lemma interactive_link_outcome:
  "outcome (interactive_link cfg i u) (\<lambda>_ d'. linked (trim_space i) (trim_space (au_id u)) d' \<and> admitted (trim_space i) u d) (\<lambda>_ _. True) d t"
  unfolding interactive_link_def Let_def
proof (rule outcome_bind, rule outcome_weaken [OF load_session_outcome], rule outcome_bind, unfold ensure_active_def,
    rule outcome_bind, rule outcome_now, rule outcome_guard, rule outcome_bind, rule outcome_guard, rule outcome_bind,
    rule outcome_guard, rule outcome_bind, rule outcome_now, rule outcome_bind, rule mapped_outcome,
    rule outcome_weaken [OF session_link_outcome], goal_cases)
  case (1 s d1 x d2)
  then have "linked (trim_space i) (trim_space (au_id u)) d2" "admitted (trim_space i) u d" by (auto simp: admitted_def)
  then show ?case by (intro outcome_weaken [OF steadyD [OF steady_load_view]]) auto
qed simp_all

lemma interactive_complete_outcome:
  assumes "sep24_ok d"
  shows "outcome (interactive_complete cfg i u dest) (\<lambda>_ _. admitted (trim_space i) u d) (\<lambda>_ _. True) d t"
  unfolding interactive_complete_def
proof (rule outcome_bind, rule outcome_weaken [OF load_session_outcome], goal_cases)
  case (1 s d1)
  then have s: "s \<in> set (sep24_sessions (accts d))" "sn_transaction s = trim_space i" and d1: "d1 = d" by auto
  have owner: "admitted (trim_space i) u d" if "owner_of u s" using that s by (auto simp: admitted_def)
  have any: "outcome m (\<lambda>_ _. admitted (trim_space i) u d) (\<lambda>_ _. True) d t"
    if "owner_of u s" and "\<And>d0. steady (sep24_from d0) m" for m :: "sep24_view repo"
    by (rule outcome_weaken [OF outcome_kept [OF that(2) assms]]) (use owner [OF that(1)] in simp_all)
  have completed: "outcome (load_completed s u) (\<lambda>_ _. admitted (trim_space i) u d) (\<lambda>_ _. True) d t"
  proof (cases "new_retail_session_principal u")
    case (Inl e)
    then show ?thesis by (simp add: load_completed_def outcome_fail)
  next
    case (Inr p)
    have "owner_of u s" if "case sn_user s of None \<Rightarrow> False | Some x \<Rightarrow> trim_space x = op_owner p"
      using that Inr by (auto simp: owner_of_def new_retail_session_principal_def Let_def split: option.splits if_splits)
    then show ?thesis
      unfolding load_completed_def Inr sum.case
      by (intro outcome_bind outcome_guard any) (auto intro: sep24_intro steady_intro)
  qed
  show ?case
  proof (cases "session_open s t")
    case False
    show ?thesis
      unfolding d1 ensure_active_def
      by (rule outcome_bind, rule outcome_try, rule outcome_bind, rule outcome_now, rule outcome_guard)
         (use False in \<open>auto simp: completed outcome_fail\<close>)
  next
    case True
    have "outcome (case new_retail_session_principal u of Inl _ \<Rightarrow> act_fail user_mismatch
       | Inr p \<Rightarrow>
           act_bind (act_guard (owner_of u s) user_mismatch) (\<lambda>_.
           if has_order s then get_transaction p (sn_transaction s)
           else act_bind (if sn_user s = None then act_bind (interactive_link cfg (sn_transaction s) u) (\<lambda>_. act_ret ()) else act_ret ()) (\<lambda>_.
             complete_transfer cfg p u s dest))) (\<lambda>_ _. admitted (trim_space i) u d) (\<lambda>_ _. True) d t"
    proof (cases "new_retail_session_principal u")
      case (Inr p)
      show ?thesis
        unfolding Inr sum.case
        by (rule outcome_bind, rule outcome_guard, rule any) (assumption, intro steady_intro sep24_intro, simp)
    qed (simp add: outcome_fail)
    with True show ?thesis
      unfolding d1 ensure_active_def
      by (intro outcome_bind outcome_try outcome_now outcome_guard) simp_all
  qed
qed simp

text \<open>
  C39: once a user is linked to an interactive session, no other user is: whatever has run in between,
  a later link or completion of the session that succeeds is one of the same user.
\<close>
theorem session_user_final:
  assumes "sep24_ok (w_db w)" and "interactive_link cfg i u w = (Inr v, w1)" and "history run_sep24 (w_db w1) (w_db y)"
    and "interactive_link cfg' i u' y = (Inr v', y') \<or> interactive_complete cfg' i u' dest y = (Inr t, y')"
  shows "trim_space (au_id u') = trim_space (au_id u)"
proof -
  from outcomeD [OF interactive_link_outcome refl refl assms(2)]
  have l: "linked (trim_space i) (trim_space (au_id u)) (w_db w1)" by simp
  have "sep24_ok (w_db w1)"
    using steady_run [OF steady_interactive_link sep24_from_refl [OF assms(1)] assms(2)] by (rule sep24_from_ok)
  from sep24_history [OF assms(3) this] l have y: "sep24_ok (w_db y)" "linked (trim_space i) (trim_space (au_id u)) (w_db y)"
    by (auto intro: sep24_from_ok linked_kept)
  have "admitted (trim_space i) u' (w_db y)"
    using assms(4)
  proof
    assume "interactive_link cfg' i u' y = (Inr v', y')"
    from outcomeD [OF interactive_link_outcome refl refl this] show ?thesis by simp
  next
    assume "interactive_complete cfg' i u' dest y = (Inr t, y')"
    from outcomeD [OF interactive_complete_outcome [OF y(1)] refl refl this] show ?thesis by simp
  qed
  from linked_admitted [OF y(2,1) this] show ?thesis by (simp add: trim_trim)
qed

definition demo_browser_session :: sep24_session where
  "demo_browser_session = \<lparr>sn_id = ''b1'', sn_transaction = ''t1'', sn_kind = ''deposit'', sn_wallet = ''GW'', sn_token_hash = [1],
     sn_request_hash = [2], sn_payload = [], sn_asset = ''KXLM'', sn_asset_amount = None, sn_fiat = Some 50000, sn_method = None,
     sn_destination = [], sn_quote = None, sn_user = None, sn_session = None, sn_kyc = ''pending'', sn_order = None,
     sn_expires = 9000, sn_completed = None, sn_created = 1000, sn_updated = 1000\<rparr>"

definition demo_browser_db :: db where
  "demo_browser_db = put_acc sep24_sessions_update [demo_browser_session] (empty_db\<lparr>users := [\<lparr>us_id = ''u1'', us_status = ''active'',
       us_display = ''Ana'', us_email = None, us_avatar = None, us_verified = Some 1, us_developer = None, us_created = 1, us_updated = 1\<rparr>],
     sessions := [\<lparr>rs_id = ''s1'', rs_user = ''u1'', rs_token = [3], rs_expires = 9000, rs_last_used = None, rs_revoked = None,
       rs_created = 1, rs_updated = 1\<rparr>]\<rparr>)"

definition demo_browser_user :: "Principal.authenticated_user" where
  "demo_browser_user = \<lparr>au_id = ''u1'', au_verified = True, au_session = ''s1''\<rparr>"

lemma demo_browser_rows:
  "sep24_sessions (accts demo_browser_db) = [demo_browser_session]" "List.map us_id (users demo_browser_db) = [''u1'']"
  "List.map rs_id (sessions demo_browser_db) = [''s1'']" "orders demo_browser_db = []" "sep24_txs demo_browser_db = []"
  by (simp_all add: demo_browser_db_def empty_db_def)

lemma demo_browser_texts: "trim_space ''t1'' = ''t1''" "trim_space ''u1'' = ''u1''" "trim_space ''u2'' = ''u2''" "trim_space ''s1'' = ''s1''"
  by code_simp+

lemma demo_linked: "\<exists>v w1. interactive_link cfg ''t1'' demo_browser_user (world0 demo_browser_db [] 2000) = (Inr v, w1)"
proof -
  have u: "trim_space (au_id demo_browser_user) = ''u1''" "trim_space (Principal.authenticated_user.au_session demo_browser_user) = ''s1''"
    "\<not> isl (new_retail_session_principal demo_browser_user)"
    by (simp_all add: demo_browser_user_def demo_browser_texts new_retail_session_principal_def principal_validate.simps)
  have link: "runs (session_link ''t1'' ''GW'' ''u1'' ''s1'' kyc 2000) (\<lambda>_ _ _. True) demo_browser_db [] 2000" for kyc
    unfolding session_link_def update_sep24_sessions_def Let_def
    by (rule runs_bind, rule runs_sql [where x = 1])
       (simp_all add: demo_browser_rows check_unique_def demo_browser_session_def session_refers_def refers_def count_rows_def
         update_rows_def runs_ret)
  have load: "runs (load_session ''t1'') (\<lambda>s d js. s = demo_browser_session \<and> d = demo_browser_db \<and> js = []) demo_browser_db [] 2000"
    unfolding load_session_def Let_def mapped_errors_def session_find_def demo_browser_texts
    by (rule runs_bind, rule runs_guard, simp, rule runs_bind, rule runs_try, rule runs_or_missing [where x = demo_browser_session])
       (simp_all add: first_by_def demo_browser_rows demo_browser_session_def runs_ret)
  have s: "sn_transaction demo_browser_session = ''t1''" "sn_wallet demo_browser_session = ''GW''" "owner_of demo_browser_user demo_browser_session"
    "session_open demo_browser_session 2000" "sn_order demo_browser_session = None"
    by (simp_all add: demo_browser_session_def owner_of_def session_open_def)
  have view: "runs (load_view cfg (demo_browser_session\<lparr>sn_user := x, sn_session := y, sn_kyc := kyc\<rparr>)) (\<lambda>_ _ _. True) d js 2000"
    for x y kyc d js
    unfolding load_view_def ensure_active_def
    by (rule runs_bind, rule runs_try, rule runs_bind, rule runs_now, rule runs_guard)
       (use s in \<open>auto simp: session_open_def has_order_def intro!: runs_bind runs_ret\<close>)
  have "runs (interactive_link cfg ''t1'' demo_browser_user) (\<lambda>_ _ _. True) demo_browser_db [] 2000"
    unfolding interactive_link_def Let_def ensure_active_def mapped_errors_def
    by (rule runs_bind, rule runs_weaken [OF load], elim conjE, hypsubst, unfold s(1,2) u(1,2),
        rule runs_bind, rule runs_bind, rule runs_now, rule runs_guard, rule s(4), rule runs_bind, rule runs_guard, rule u(3),
        rule runs_bind, rule runs_guard, rule s(3), rule runs_bind, rule runs_now, rule runs_bind, rule runs_bind, rule runs_try,
        rule runs_weaken [OF link]) (auto intro: runs_ret view)
  from runs_world0 [OF this] show ?thesis by auto
qed

theorem session_user_final_witness:
  "\<forall>cfg. \<exists>v w1 e w2. interactive_link cfg ''t1'' demo_browser_user (world0 demo_browser_db [] 2000) = (Inr v, w1) \<and>
     interactive_link cfg ''t1'' (demo_browser_user\<lparr>au_id := ''u2''\<rparr>) w1 = (Inl e, w2)"
proof
  fix cfg
  obtain v w1 where l: "interactive_link cfg ''t1'' demo_browser_user (world0 demo_browser_db [] 2000) = (Inr v, w1)"
    using demo_linked by blast
  obtain r w2 where m: "interactive_link cfg ''t1'' (demo_browser_user\<lparr>au_id := ''u2''\<rparr>) w1 = (r, w2)" by fastforce
  have ok: "sep24_ok (w_db (world0 demo_browser_db [] 2000))" by (simp add: sep24_ok_def demo_browser_rows world0_facts)
  have "r \<noteq> Inr x" for x
  proof
    assume "r = Inr x"
    with m have "interactive_link cfg ''t1'' (demo_browser_user\<lparr>au_id := ''u2''\<rparr>) w1 = (Inr x, w2)" by simp
    from session_user_final [OF ok l history_now disjI1 [OF this]] show False
      by (simp add: demo_browser_texts demo_browser_user_def)
  qed
  then obtain e where "r = Inl e" by (cases r) auto
  with l m show "\<exists>v w1 e w2. interactive_link cfg ''t1'' demo_browser_user (world0 demo_browser_db [] 2000) = (Inr v, w1) \<and>
     interactive_link cfg ''t1'' (demo_browser_user\<lparr>au_id := ''u2''\<rparr>) w1 = (Inl e, w2)" by blast
qed

text \<open>
  The completion of a session stores the identifier of the new transaction, which is made of its kind
  and its order's identifier, as the identifier of an order. No order has it, so the foreign key
  refuses the update: the call fails although the order has been created, and a session never
  records its order.
\<close>

lemma session_complete_refused:
  assumes "\<And>r. r \<in> set (orders d) \<Longrightarrow> or_id r \<noteq> x"
  shows "outcome (session_complete i u x now) (\<lambda>_ _. False) (\<lambda>_ d'. d' = d) d t"
  unfolding session_complete_def
proof (rule outcome_bind, unfold update_sep24_sessions_def Let_def, rule outcome_sql, goal_cases)
  case (1 n d')
  let ?P = "\<lambda>s. sn_transaction s = i \<and> sn_user s = Some u \<and> sn_order s = None" and ?rows = "sep24_sessions (accts d)"
  let ?f = "\<lambda>s. s\<lparr>sn_order := Some x, sn_completed := Some now, sn_kyc := ''approved'', sn_updated := now\<rparr>"
  have "\<not> session_refers d (?f s)" for s using assms by (auto simp: session_refers_def refers_def)
  with 1 have un: "\<And>s. s \<in> set ?rows \<Longrightarrow> \<not> ?P s" by (auto simp: list_all_iff split: if_splits)
  then have c: "count_rows ?P ?rows = 0" using count_rows_0 [of ?P ?rows] by blast
  have "update_rows ?P ?f ?rows = ?rows" by (rule update_rows_unmet [OF c])
  with c have "n = 0" "d' = d" using 1 by (auto split: if_splits)
  then show ?case
    by simp (rule outcome_bind, rule outcome_weaken [OF session_find_outcome], auto intro: outcome_fail)
qed (auto split: if_splits)

lemma completion_refused:
  assumes "start_deposit deps c w = (Inr v, w1)" and "sep24_ok (w_db w)"
    and "\<And>r. r \<in> set (orders (w_db w1)) \<Longrightarrow> \<not> has_prefix ''deposit-'' (or_id r)"
  shows "\<exists>e w2. session_complete i u (tv_id v) now w1 = (Inl e, w2) \<and> w_db w2 = w_db w1"
proof (rule outcome_refused, rule session_complete_refused)
  from outcomeD [OF start_deposit_outcome [OF assms(2)] refl refl assms(1)]
  have "has_prefix ''deposit-'' (tv_id v)"
    by (simp add: started_def sep24_transaction_id_def trim_kinds has_prefix_def)
  then show "or_id r \<noteq> tv_id v" if "r \<in> set (orders (w_db w1))" for r
    using assms(3) [OF that] by auto
qed

end
