(* ===== verification/Dashboard.thy ===== *)
theory Dashboard
  imports Webhook_Repo
begin

text \<open>
  The developer dashboard: \<open>internal/usecase/developer_dashboard_usecase.go\<close> over
  \<open>internal/repository/developer_dashboard_repository.go\<close>. It reads; nothing here writes. A joined
  query is a list of joined rows. Averages and rates are the exact rationals that the code rounds to
  \<open>float64\<close>. \<open>date_trunc\<close> under the session's time zone and the JSON text of a cursor are parameters.
\<close>

definition ErrInvalidDeveloperQuery :: err where
  "ErrInvalidDeveloperQuery = ErrText ''invalid developer query''"

definition native_asset_code :: string where "native_asset_code = ''XLM''"
definition default_developer_window :: duration where "default_developer_window = 30 * 24 * hour"
definition max_developer_window :: duration where "max_developer_window = 366 * 24 * hour"
definition max_developer_page_size :: int where "max_developer_page_size = 100"

record developer_query =
  dy_owner :: string
  dy_client :: string
  dy_from :: time
  dy_to :: time
  dy_currency :: string
  dy_direction :: string
  dy_status :: string
  dy_method :: string
  dy_limit :: int
  dy_cursor :: string
  dy_bucket :: string

record developer_revenue_entry =
  re_order :: string
  re_client :: string
  re_direction :: string
  re_created :: time
  re_gross :: int
  re_fee :: int
  re_platform :: int
  re_developer :: int
  re_net :: int
  re_asset_amount :: string
  re_stroops :: int
  re_fee_currency :: string
  re_policy :: string
  re_source :: string
  re_simulated :: bool

record developer_order =
  do_id :: string
  do_client :: string
  do_client_name :: string
  do_environment :: string
  do_direction :: string
  do_status :: string
  do_currency :: string
  do_fiat :: int
  do_asset_amount :: string
  do_stroops :: int
  do_method :: string
  do_gateway :: string
  do_gateway_reference :: string
  do_intent :: string
  do_hash :: string
  do_sep24 :: string
  do_quote :: string
  do_wallet :: string
  do_payout :: string
  do_payout_simulated :: bool
  do_payout_disclosure :: string
  do_latest_event :: string
  do_latest_at :: time
  do_created :: time
  do_updated :: time
  do_completed :: "time option"
  do_failure :: string
  do_financial :: "developer_revenue_entry option"

record developer_overview =
  vo_environment :: string
  vo_network :: string
  vo_from :: time
  vo_to :: time
  vo_total :: int
  vo_active :: int
  vo_completed :: int
  vo_failed :: int
  vo_buy :: int
  vo_sell :: int
  vo_gross :: int
  vo_stroops :: int
  vo_fee :: int
  vo_net :: int
  vo_success :: rat
  vo_seconds :: rat
  vo_pending :: int
  vo_exhausted :: int
  vo_recent :: "developer_order list"

record developer_revenue_summary =
  vs_environment :: string
  vs_network :: string
  vs_from :: time
  vs_to :: time
  vs_gross :: int
  vs_fee :: int
  vs_platform :: int
  vs_developer :: int
  vs_net :: int
  vs_count :: int
  vs_simulated :: bool
  vs_disclosure :: string

record developer_bucket =
  db_start :: time
  db_end :: time
  db_orders :: int
  db_buy :: int
  db_sell :: int
  db_gross :: int
  db_stroops :: int
  db_fee :: int
  db_net :: int
  db_completed :: int
  db_failed :: int
  db_seconds :: rat
  db_methods :: "(string \<times> int) list"
  db_delivered :: int
  db_retried :: int
  db_exhausted :: int

record developer_analytics =
  va_environment :: string
  va_network :: string
  va_from :: time
  va_to :: time
  va_bucket :: string
  va_buckets :: "developer_bucket list"

section \<open>Joins and aggregates\<close>

definition left_join :: "('a \<Rightarrow> 'b \<Rightarrow> bool) \<Rightarrow> 'b list \<Rightarrow> 'a list \<Rightarrow> ('a \<times> 'b option) list" where
  "left_join on right left = List.concat (List.map (\<lambda>a. case filter (on a) right of
     [] \<Rightarrow> [(a, None)] | bs \<Rightarrow> List.map (\<lambda>b. (a, Some b)) bs) left)"

definition inner_join :: "('a \<Rightarrow> 'b \<Rightarrow> bool) \<Rightarrow> 'b list \<Rightarrow> 'a list \<Rightarrow> ('a \<times> 'b) list" where
  "inner_join on right left = List.concat (List.map (\<lambda>a. List.map (\<lambda>b. (a, b)) (filter (on a) right)) left)"

text \<open>\<open>COALESCE(SUM(\<dots>), 0)::bigint\<close>: a sum outside the type is an error of the query.\<close>

definition big_sum :: "int list \<Rightarrow> err + int" where
  "big_sum xs = (let s = sum_list xs in
     if int64_min \<le> s \<and> s \<le> int64_max then Inr s else Inl (ErrText ''bigint out of range''))"

definition count_distinct :: "string list \<Rightarrow> int" where
  "count_distinct xs = int (length (remdups xs))"

definition count_of :: "('a \<Rightarrow> bool) \<Rightarrow> 'a list \<Rightarrow> int" where
  "count_of P xs = int (length (filter P xs))"

definition average_seconds :: "order_record list \<Rightarrow> rat" where
  "average_seconds rows =
     (let ds = List.map (\<lambda>r. the (or_completed r) - or_created r) (filter (\<lambda>r. or_completed r \<noteq> None) rows) in
      if ds = [] then 0 else rat_of_int (sum_list ds) / rat_of_int (int (length ds) * second))"

section \<open>The owner's orders\<close>

type_synonym owned_row = "order_record \<times> api_client option"

definition developer_filter :: "developer_query \<Rightarrow> order_record \<Rightarrow> bool" where
  "developer_filter q r \<longleftrightarrow> dy_from q \<le> or_created r \<and> or_created r < dy_to q \<and>
     (dy_client q = [] \<or> or_client_id r = Some (dy_client q)) \<and>
     (if dy_currency q = idr_currency then or_currency r = idr_currency
      else dy_currency q = [] \<or> or_asset_code r = dy_currency q) \<and>
     (dy_direction q = [] \<or> or_direction r = dy_direction q) \<and>
     (dy_status q = [] \<or> status_text (or_status r) = dy_status q) \<and>
     (dy_method q = [] \<or> map_option payment_method_text (or_payment_method r) = Some (dy_method q))"

definition developer_owns :: "string \<Rightarrow> owned_row \<Rightarrow> bool" where
  "developer_owns owner row \<longleftrightarrow> or_created_by (fst row) = Some owner \<or>
     (case snd row of None \<Rightarrow> False | Some c \<Rightarrow> ac_owner c = owner)"

definition with_clients :: "db \<Rightarrow> order_record list \<Rightarrow> owned_row list" where
  "with_clients d = left_join (\<lambda>r c. or_client_id r = Some (ac_id c)) (api_clients d)"

definition developer_orders_of :: "developer_query \<Rightarrow> db \<Rightarrow> owned_row list" where
  "developer_orders_of q d = filter (\<lambda>row. developer_owns (dy_owner q) row \<and> developer_filter q (fst row)) (with_clients d (orders d))"

definition for_order :: "owned_row \<Rightarrow> order_financial \<Rightarrow> bool" where
  "for_order row f \<longleftrightarrow> of_order f = or_id (fst row)"

definition with_financials :: "db \<Rightarrow> owned_row list \<Rightarrow> (owned_row \<times> order_financial option) list" where
  "with_financials d = left_join for_order (financials d)"

definition failed_statuses :: "string list" where
  "failed_statuses = [''expired'', ''payment_failed'', ''stellar_failed'', ''asset_invalid'', ''retirement_failed'',
     ''withdrawal_failed'', ''cancelled'']"

definition is_active_order :: "order_record \<Rightarrow> bool" where
  "is_active_order r \<longleftrightarrow> status_text (or_status r) \<notin> set (''completed'' # failed_statuses)"

definition is_completed_order :: "order_record \<Rightarrow> bool" where
  "is_completed_order r \<longleftrightarrow> status_text (or_status r) = ''completed''"

definition is_failed_order :: "order_record \<Rightarrow> bool" where
  "is_failed_order r \<longleftrightarrow> status_text (or_status r) \<in> set failed_statuses"

text \<open>The attempts of the owner's orders, with their events: inner joins.\<close>

definition developer_attempts :: "developer_query \<Rightarrow> db \<Rightarrow> (webhook_attempt \<times> webhook_event) list" where
  "developer_attempts q d =
     List.map fst (filter (\<lambda>(_, row). developer_owns (dy_owner q) row \<and> developer_filter q (fst row))
       (inner_join (\<lambda>(a, e) row. we_order e = Some (or_id (fst row))) (with_clients d (orders d))
         (inner_join (\<lambda>a e. we_id e = wa_event a) (webhook_events d) (webhook_attempts d))))"

section \<open>Revenue\<close>

definition sandbox_revenue_disclosure :: string where
  "sandbox_revenue_disclosure = ''Sandbox figures are simulated estimates; no real fiat revenue or payout is settled.''"

definition revenue_rows :: "developer_query \<Rightarrow> db \<Rightarrow> (owned_row \<times> order_financial) list" where
  "revenue_rows q d = inner_join for_order (financials d) (developer_orders_of q d)"

definition revenue_totals :: "developer_query \<Rightarrow> order_financial list \<Rightarrow> err + developer_revenue_summary" where
  "revenue_totals q fs =
     (case (big_sum (List.map of_gross fs), big_sum (List.map of_fee fs), big_sum (List.map of_platform fs),
            big_sum (List.map of_developer fs), big_sum (List.map of_net fs)) of
        (Inr gross, Inr fee, Inr platform, Inr developer, Inr net) \<Rightarrow>
          Inr \<lparr>vs_environment = ''test'', vs_network = stellar_testnet_network, vs_from = dy_from q, vs_to = dy_to q,
            vs_gross = gross, vs_fee = fee, vs_platform = platform, vs_developer = developer, vs_net = net,
            vs_count = count_distinct (List.map of_order fs), vs_simulated = True, vs_disclosure = sandbox_revenue_disclosure\<rparr>
      | _ \<Rightarrow> Inl (ErrText ''bigint out of range''))"

definition get_revenue_summary :: "developer_query \<Rightarrow> developer_revenue_summary repo" where
  "get_revenue_summary q =
     act_bind (select (\<lambda>d. List.map snd (revenue_rows q d))) (\<lambda>fs. act_lift (revenue_totals q fs))"

definition revenue_entry_from_row :: "order_financial \<Rightarrow> developer_revenue_entry" where
  "revenue_entry_from_row f = \<lparr>re_order = of_order f, re_client = deref_str (of_client f), re_direction = of_direction f,
     re_created = of_created f, re_gross = of_gross f, re_fee = of_fee f, re_platform = of_platform f,
     re_developer = of_developer f, re_net = of_net f, re_asset_amount = of_asset_amount f, re_stroops = of_stroops f,
     re_fee_currency = of_fee_currency f, re_policy = of_policy f, re_source = of_source f, re_simulated = of_simulated f\<rparr>"

definition developer_cursor_of :: "cursor_codec \<Rightarrow> string \<Rightarrow> (time \<times> string) option repo" where
  "developer_cursor_of cc cursor =
     (if cursor = [] then act_ret None
      else case decode_developer_cursor cc cursor of Inl _ \<Rightarrow> act_fail ErrInvalidDeveloperQuery | Inr k \<Rightarrow> act_ret (Some k))"

text \<open>
  One page of at most \<open>limit\<close> rows in descending order of their key, and the cursor of the next.
  A negative limit makes \<open>make\<close> panic.
\<close>

definition developer_page ::
  "cursor_codec \<Rightarrow> ('r \<Rightarrow> time \<times> string) \<Rightarrow> (db \<Rightarrow> 'r list) \<Rightarrow> int \<Rightarrow> string \<Rightarrow> ('r list \<times> string) repo" where
  "developer_page cc key tab limit cursor =
     act_bind (developer_cursor_of cc cursor) (\<lambda>k.
     act_bind (select (\<lambda>d. keyset_rows key (\<lambda>_. True) k (nat limit + 1) (tab d))) (\<lambda>rows.
     act_bind (act_guard (0 \<le> limit) (ErrText ''panic: makeslice: cap out of range'')) (\<lambda>_.
     if nat limit < length rows then
       (if limit = 0 then act_fail (ErrText ''panic: index out of range'')
        else act_bind (act_lift (encode_developer_cursor cc (key (rows ! (nat limit - 1))))) (\<lambda>nxt.
          act_ret (take (nat limit) rows, nxt)))
     else act_ret (rows, []))))"

definition financial_key :: "owned_row \<times> order_financial \<Rightarrow> time \<times> string" where
  "financial_key = (\<lambda>(_, f). (of_created f, of_order f))"

definition list_revenue_entries :: "cursor_codec \<Rightarrow> developer_query \<Rightarrow> (developer_revenue_entry list \<times> string) repo" where
  "list_revenue_entries cc q =
     act_bind (developer_page cc financial_key (revenue_rows q) (dy_limit q) (dy_cursor q)) (\<lambda>(rows, nxt).
     act_ret (List.map (\<lambda>(_, f). revenue_entry_from_row f) rows, nxt))"

section \<open>Orders\<close>

text \<open>
  The columns that are not columns of the order: the newest checkout, intent, hash, protocol
  transaction and event. Rows created at the same time are told apart by identifier. \<open>(order_id, purpose)\<close>
  is a key of the Stellar transactions, so the sub-query of the retirement hash has one row.
\<close>

record developer_order_row =
  dr_order :: order_record
  dr_client :: "api_client option"
  dr_financial :: "order_financial option"
  dr_payout :: "offramp_payout option"
  dr_gateway_reference :: string
  dr_intent :: string
  dr_hash :: string
  dr_retirement_hash :: string
  dr_retirement_status :: "stellar_status option"
  dr_retirement_ledger :: "time option"
  dr_sep24 :: string
  dr_event :: "order_event option"

type_synonym order_join = "(owned_row \<times> order_financial option) \<times> offramp_payout option"

definition order_rows :: "developer_query \<Rightarrow> db \<Rightarrow> order_join list" where
  "order_rows q d = left_join (\<lambda>row p. po_order p = or_id (fst (fst row))) (payouts d)
     (with_financials d (developer_orders_of q d))"

definition order_join_key :: "order_join \<Rightarrow> time \<times> string" where
  "order_join_key = (\<lambda>(((r, _), _), _). (or_created r, or_id r))"

definition text_of :: "('r \<Rightarrow> string) \<Rightarrow> 'r option \<Rightarrow> string" where
  "text_of col row = (case row of None \<Rightarrow> [] | Some r \<Rightarrow> col r)"

definition developer_order_columns :: "db \<Rightarrow> order_join \<Rightarrow> developer_order_row" where
  "developer_order_columns d = (\<lambda>(((r, c), f), p).
     let newest_tx = (\<lambda>P. first_by (\<lambda>s. (- st_created s, st_id s)) (\<lambda>s. st_order s = or_id r \<and> P s) (stellar_txs d));
         retirement = first_by st_id (\<lambda>s. st_order s = or_id r \<and> st_purpose s = ''retirement'') (stellar_txs d) in
     \<lparr>dr_order = r, dr_client = c, dr_financial = f, dr_payout = p,
      dr_gateway_reference = text_of pc_provider_id (first_by (\<lambda>x. (- pc_created x, pc_id x)) (\<lambda>x. pc_order x = or_id r) (checkouts d)),
      dr_intent = text_of st_intent (newest_tx (\<lambda>_. True)),
      dr_hash = text_of (\<lambda>s. deref_str (st_hash s)) (newest_tx (\<lambda>s. st_hash s \<noteq> None)),
      dr_retirement_hash = text_of (\<lambda>s. deref_str (st_hash s)) retirement,
      dr_retirement_status = map_option st_status retirement,
      dr_retirement_ledger = (case retirement of None \<Rightarrow> None | Some s \<Rightarrow> st_ledger s),
      dr_sep24 = text_of s24_transaction (first_by (\<lambda>s. (- s24_created s, s24_id s)) (\<lambda>s. s24_order s = or_id r) (sep24_txs d)),
      dr_event = first_by (\<lambda>e. (- ev_version e, ev_id e)) (\<lambda>e. ev_order e = or_id r) (order_events d)\<rparr>)"

definition confirmed_without_proof :: "developer_order_row \<Rightarrow> bool" where
  "confirmed_without_proof w \<longleftrightarrow> dr_retirement_status w = Some STConfirmed \<and>
     (dr_retirement_hash w = [] \<or> dr_retirement_ledger w = None)"

definition developer_order_from_row :: "developer_order_row \<Rightarrow> developer_order" where
  "developer_order_from_row w =
     (let r = dr_order w; payout = text_of po_reference (dr_payout w);
          proven = payout \<noteq> [] \<and> dr_retirement_status w = Some STConfirmed \<and> \<not> confirmed_without_proof w in
      \<lparr>do_id = or_id r, do_client = deref_str (or_client_id r), do_client_name = text_of ac_name (dr_client w),
       do_environment = (case dr_client w of None \<Rightarrow> ''test'' | Some c \<Rightarrow> ac_environment c),
       do_direction = or_direction r, do_status = status_text (or_status r), do_currency = or_currency r,
       do_fiat = or_fiat_minor r, do_asset_amount = or_asset_amount r, do_stroops = or_asset_stroops r,
       do_method = text_of payment_method_text (or_payment_method r), do_gateway = deref_str (or_gateway r),
       do_gateway_reference = dr_gateway_reference w, do_intent = dr_intent w,
       do_hash = (if proven then dr_retirement_hash w else dr_hash w), do_sep24 = dr_sep24 w,
       do_quote = deref_str (or_quote_id r), do_wallet = deref_str (or_wallet_account r), do_payout = payout,
       do_payout_simulated = (dr_payout w \<noteq> None),
       do_payout_disclosure = (if payout = [] then []
          else sandbox_payout_disclosure_for (if confirmed_without_proof w then None else dr_retirement_status w)),
       do_latest_event = text_of ev_type (dr_event w), do_latest_at = (case dr_event w of None \<Rightarrow> 0 | Some e \<Rightarrow> ev_created e),
       do_created = or_created r, do_updated = or_updated r, do_completed = or_completed r, do_failure = deref_str (or_failure_code r),
       do_financial = (case dr_financial w of None \<Rightarrow> None | Some f \<Rightarrow>
          if of_order f = [] then None
          else Some ((revenue_entry_from_row f)\<lparr>re_client := deref_str (or_client_id r), re_direction := or_direction r,
            re_created := or_created r\<rparr>))\<rparr>)"

definition list_developer_orders :: "cursor_codec \<Rightarrow> developer_query \<Rightarrow> (developer_order list \<times> string) repo" where
  "list_developer_orders cc q =
     act_bind (developer_page cc (order_join_key \<circ> fst) (\<lambda>d. List.map (\<lambda>j. (j, developer_order_columns d j)) (order_rows q d))
       (dy_limit q) (dy_cursor q)) (\<lambda>(rows, nxt).
     act_ret (List.map (\<lambda>(_, w). developer_order_from_row w) rows, nxt))"

section \<open>Overview\<close>

definition pending_statuses :: "string list" where
  "pending_statuses = [''pending'', ''retry_scheduled'', ''in_flight'']"

definition attempts_in :: "string list \<Rightarrow> webhook_attempt list \<Rightarrow> int" where
  "attempts_in ss = count_of (\<lambda>a. attempt_status_text (wa_status a) \<in> set ss)"

definition webhook_delivery_counts :: "developer_query \<Rightarrow> (int \<times> int) repo" where
  "webhook_delivery_counts q =
     act_bind (select (\<lambda>d. List.map fst (developer_attempts q d))) (\<lambda>as.
     act_ret (attempts_in pending_statuses as, attempts_in [''exhausted''] as))"

text \<open>The aggregates over the orders, joined with their snapshots.\<close>

definition overview_row :: "developer_query \<Rightarrow> (owned_row \<times> order_financial option) list \<Rightarrow> err + developer_overview" where
  "overview_row q rows =
     (let rs = List.map (\<lambda>((r, _), _). r) rows; fs = List.concat (List.map (\<lambda>(_, f). case f of None \<Rightarrow> [] | Some f \<Rightarrow> [f]) rows);
          completed = count_of is_completed_order rs; failed = count_of is_failed_order rs in
      case (big_sum (List.map of_gross fs), big_sum (List.map of_stroops fs), big_sum (List.map of_fee fs), big_sum (List.map of_net fs)) of
        (Inr gross, Inr volume, Inr fee, Inr net) \<Rightarrow>
          Inr \<lparr>vo_environment = ''test'', vo_network = stellar_testnet_network, vo_from = dy_from q, vo_to = dy_to q,
            vo_total = count_distinct (List.map or_id rs), vo_active = count_of is_active_order rs,
            vo_completed = completed, vo_failed = failed,
            vo_buy = count_of (\<lambda>r. or_direction r = ''onramp'') rs, vo_sell = count_of (\<lambda>r. or_direction r = ''offramp'') rs,
            vo_gross = gross, vo_stroops = volume, vo_fee = fee, vo_net = net,
            vo_success = (if completed + failed > 0 then rat_of_int completed / rat_of_int (completed + failed) * 100 else 0),
            vo_seconds = average_seconds rs, vo_pending = 0, vo_exhausted = 0, vo_recent = []\<rparr>
      | _ \<Rightarrow> Inl (ErrText ''bigint out of range''))"

text \<open>The query of the recent orders does not hand on the payment method.\<close>

definition get_overview :: "cursor_codec \<Rightarrow> developer_query \<Rightarrow> developer_overview repo" where
  "get_overview cc q =
     act_bind (select (\<lambda>d. with_financials d (developer_orders_of q d))) (\<lambda>rows.
     act_bind (act_lift (overview_row q rows)) (\<lambda>v.
     act_bind (webhook_delivery_counts q) (\<lambda>(pending, exhausted).
     act_bind (list_developer_orders cc (q\<lparr>dy_method := [], dy_cursor := [], dy_bucket := []\<rparr>)) (\<lambda>(recent, _).
     act_ret (v\<lparr>vo_pending := pending, vo_exhausted := exhausted, vo_recent := recent\<rparr>)))))"

section \<open>Analytics\<close>

definition bucket_names :: "string list" where "bucket_names = [''hour'', ''day'', ''week'']"

definition analytics_bucket_duration :: "string \<Rightarrow> duration" where
  "analytics_bucket_duration b = (if b = ''hour'' then hour else if b = ''week'' then 7 * 24 * hour else 24 * hour)"

text \<open>\<open>GROUP BY bucket_start ORDER BY bucket_start\<close>.\<close>

definition grouped :: "('a \<Rightarrow> 'k::linorder) \<Rightarrow> 'a list \<Rightarrow> ('k \<times> 'a list) list" where
  "grouped key rows = List.map (\<lambda>k. (k, filter (\<lambda>r. key r = k) rows)) (sorted_list_of_set (key ` set rows))"

definition analytics_payment_methods :: "order_record list \<Rightarrow> (string \<times> int) list" where
  "analytics_payment_methods rs =
     (let name = (\<lambda>r. case or_payment_method r of None \<Rightarrow> ''unknown'' | Some m \<Rightarrow> payment_method_text m) in
      List.map (\<lambda>m. (m, count_distinct (List.map or_id (filter (\<lambda>r. name r = m) rs)))) (remdups (List.map name rs)))"

definition analytics_bucket ::
  "string \<Rightarrow> time \<Rightarrow> (owned_row \<times> order_financial option) list \<Rightarrow> order_record list \<Rightarrow> webhook_attempt list \<Rightarrow> err + developer_bucket" where
  "analytics_bucket b start rows plain as =
     (let rs = List.map (\<lambda>((r, _), _). r) rows; fs = List.concat (List.map (\<lambda>(_, f). case f of None \<Rightarrow> [] | Some f \<Rightarrow> [f]) rows) in
      case (big_sum (List.map of_gross fs), big_sum (List.map of_stroops fs), big_sum (List.map of_fee fs), big_sum (List.map of_net fs)) of
        (Inr gross, Inr volume, Inr fee, Inr net) \<Rightarrow>
          Inr \<lparr>db_start = start, db_end = start + analytics_bucket_duration b, db_orders = count_distinct (List.map or_id rs),
            db_buy = count_of (\<lambda>r. or_direction r = ''onramp'') rs, db_sell = count_of (\<lambda>r. or_direction r = ''offramp'') rs,
            db_gross = gross, db_stroops = volume, db_fee = fee, db_net = net, db_completed = count_of is_completed_order rs,
            db_failed = count_of is_failed_order rs, db_seconds = average_seconds rs, db_methods = analytics_payment_methods plain,
            db_delivered = attempts_in [''delivered''] as, db_retried = attempts_in [''retry_scheduled'', ''in_flight''] as,
            db_exhausted = attempts_in [''exhausted''] as\<rparr>
      | _ \<Rightarrow> Inl (ErrText ''bigint out of range''))"

fun all_buckets :: "(err + developer_bucket) list \<Rightarrow> err + developer_bucket list" where
  "all_buckets [] = Inr []"
| "all_buckets (Inl e # rs) = Inl e"
| "all_buckets (Inr b # rs) = (case all_buckets rs of Inl e \<Rightarrow> Inl e | Inr bs \<Rightarrow> Inr (b # bs))"

text \<open>
  Three queries: the orders with their snapshots by the start of their bucket, the payment methods and
  the attempts by the start of the bucket of their event. The loop is over the buckets of the first.
\<close>

definition get_analytics :: "(string \<Rightarrow> time \<Rightarrow> time) \<Rightarrow> developer_query \<Rightarrow> developer_analytics repo" where
  "get_analytics date_trunc q =
     act_bind (act_guard (dy_bucket q \<in> set bucket_names) ErrInvalidDeveloperQuery) (\<lambda>_.
     let start = date_trunc (dy_bucket q) in
     act_bind (select (\<lambda>d. grouped (\<lambda>((r, _), _). start (or_created r)) (with_financials d (developer_orders_of q d)))) (\<lambda>rows.
     act_bind (select (\<lambda>d. List.map fst (developer_orders_of q d))) (\<lambda>plain.
     act_bind (select (developer_attempts q)) (\<lambda>attempts.
     act_bind (act_lift (all_buckets (List.map (\<lambda>(k, rs). analytics_bucket (dy_bucket q) k rs
         (filter (\<lambda>r. start (or_created r) = k) plain)
         (List.map fst (filter (\<lambda>(_, e). start (we_created e) = k) attempts))) rows))) (\<lambda>buckets.
     act_ret \<lparr>va_environment = ''test'', va_network = stellar_testnet_network, va_from = dy_from q, va_to = dy_to q,
       va_bucket = dy_bucket q, va_buckets = buckets\<rparr>)))))"

section \<open>Use case\<close>

text \<open>\<open>strings.ToUpper\<close>: two letters outside ASCII have an upper case in it, the dotless i and the long s.\<close>

fun to_upper :: "string \<Rightarrow> string" where
  "to_upper [] = []"
| "to_upper (c # s) =
     (if c = CHR 0xC4 \<and> s \<noteq> [] \<and> hd s = CHR 0xB1 then CHR ''I'' # to_upper (tl s)
      else if c = CHR 0xC5 \<and> s \<noteq> [] \<and> hd s = CHR 0xBF then CHR ''S'' # to_upper (tl s)
      else (if 97 \<le> (of_char c :: nat) \<and> (of_char c :: nat) \<le> 122 then char_of ((of_char c :: nat) - 32) else c) # to_upper s)"

definition valid_developer_order_status :: "string \<Rightarrow> bool" where
  "valid_developer_order_status s \<longleftrightarrow> s \<in> set (List.map status_text [OSCreated, OSPaymentPending, OSPaymentConfirmed,
     OSAssetReceived, OSStellarProcessing, OSCompleted, OSAssetPending, OSExpired, OSPaymentFailed, OSStellarFailed, OSCancelled])"

definition trimmed_developer_query :: "developer_query \<Rightarrow> developer_query" where
  "trimmed_developer_query q = q\<lparr>dy_owner := trim_space (dy_owner q), dy_client := trim_space (dy_client q),
     dy_currency := to_upper (trim_space (dy_currency q)), dy_direction := to_lower (trim_space (dy_direction q)),
     dy_status := to_lower (trim_space (dy_status q)), dy_method := to_lower (trim_space (dy_method q)),
     dy_bucket := to_lower (trim_space (dy_bucket q)), dy_cursor := trim_space (dy_cursor q)\<rparr>"

definition valid_developer_query :: "developer_query \<Rightarrow> bool" where
  "valid_developer_query q \<longleftrightarrow>
     \<not> (dy_owner q = [] \<or> dy_cursor q \<noteq> [] \<and> 512 < length (dy_cursor q)) \<and>
     \<not> (dy_currency q \<noteq> [] \<and> dy_currency q \<noteq> idr_currency \<and> dy_currency q \<noteq> native_asset_code \<and> dy_currency q \<noteq> kxlm_asset_code) \<and>
     \<not> (dy_direction q \<noteq> [] \<and> dy_direction q \<noteq> ''onramp'' \<and> dy_direction q \<noteq> ''offramp'') \<and>
     \<not> (dy_status q \<noteq> [] \<and> \<not> valid_developer_order_status (dy_status q)) \<and>
     \<not> (dy_method q \<noteq> [] \<and> dy_method q \<noteq> ''qris'' \<and> dy_method q \<noteq> ''bri_va'' \<and> dy_method q \<noteq> ''xendit'')"

definition developer_window :: "time \<Rightarrow> developer_query \<Rightarrow> developer_query" where
  "developer_window now q =
     (let until = (if dy_to q = 0 then now else dy_to q) in
      q\<lparr>dy_to := until, dy_from := (if dy_from q = 0 then until - default_developer_window else dy_from q)\<rparr>)"

definition developer_limit :: "int \<Rightarrow> int" where
  "developer_limit n = (let n = (if n \<le> 0 then 20 else n) in if max_developer_page_size < n then max_developer_page_size else n)"

definition normalize_developer_query :: "developer_query \<Rightarrow> bool \<Rightarrow> developer_query repo" where
  "normalize_developer_query q0 paginated =
     (let q = trimmed_developer_query q0 in
      act_bind (act_guard (valid_developer_query q) ErrInvalidDeveloperQuery) (\<lambda>_.
      act_bind now_utc (\<lambda>now.
      let q = developer_window now q in
      act_bind (act_guard (\<not> (dy_to q < dy_from q \<or> max_developer_window < time_sub (dy_to q) (dy_from q))) ErrInvalidDeveloperQuery) (\<lambda>_.
      act_ret (if paginated then q\<lparr>dy_limit := developer_limit (dy_limit q)\<rparr> else q)))))"

definition developer_overview_of :: "cursor_codec \<Rightarrow> developer_query \<Rightarrow> developer_overview repo" where
  "developer_overview_of cc q0 =
     act_bind (normalize_developer_query q0 False) (\<lambda>q.
     get_overview cc (if dy_limit q = 0 then q\<lparr>dy_limit := 10\<rparr> else q))"

definition developer_analytics_of :: "(string \<Rightarrow> time \<Rightarrow> time) \<Rightarrow> developer_query \<Rightarrow> developer_analytics repo" where
  "developer_analytics_of date_trunc q0 =
     act_bind (normalize_developer_query q0 False) (\<lambda>q.
     let q = (if dy_bucket q = [] then q\<lparr>dy_bucket := ''day''\<rparr> else q) in
     act_bind (act_guard (dy_bucket q \<in> set bucket_names) ErrInvalidDeveloperQuery) (\<lambda>_.
     get_analytics date_trunc q))"

definition developer_revenue_of :: "developer_query \<Rightarrow> developer_revenue_summary repo" where
  "developer_revenue_of q = act_bind (normalize_developer_query q False) get_revenue_summary"

definition developer_entries_of :: "cursor_codec \<Rightarrow> developer_query \<Rightarrow> (developer_revenue_entry list \<times> string) repo" where
  "developer_entries_of cc q = act_bind (normalize_developer_query q True) (list_revenue_entries cc)"

definition developer_order_list_of :: "cursor_codec \<Rightarrow> developer_query \<Rightarrow> (developer_order list \<times> string) repo" where
  "developer_order_list_of cc q = act_bind (normalize_developer_query q True) (list_developer_orders cc)"

end
