(* ===== verification/Dashboard_Laws.thy ===== *)
theory Dashboard_Laws
  imports Dashboard Steady Interfaces "HOL-Library.Multiset"
begin

text \<open>
  What the dashboard shows: orders of the owner only, totals that agree with the entries listed, and
  counts that partition the orders.
\<close>

section \<open>Joins\<close>

lemma left_join_mem:
  assumes "(a, b) \<in> set (left_join on right left)"
  shows "a \<in> set left \<and> (b = None \<or> (\<exists>x \<in> set right. b = Some x \<and> on a x))"
proof -
  from assms obtain a' where a': "a' \<in> set left" "(a, b) \<in> set (case filter (on a') right of
      [] \<Rightarrow> [(a', None)] | bs \<Rightarrow> List.map (\<lambda>b. (a', Some b)) bs)"
    by (auto simp: left_join_def)
  show ?thesis
  proof (cases "filter (on a') right")
    case Nil
    with a' show ?thesis by simp
  next
    case (Cons x xs)
    with a'(2) obtain y where y: "a = a'" "b = Some y" "y \<in> set (x # xs)" by auto
    from y(3) have "y \<in> set (filter (on a') right)" by (simp only: Cons)
    with y a' show ?thesis by simp
  qed
qed

text \<open>A left join with at most one row on the right keeps the rows on the left, once each.\<close>

lemma left_join_rows:
  assumes "\<And>a. a \<in> set left \<Longrightarrow> length (filter (on a) right) \<le> 1"
  shows "List.map fst (left_join on right left) = left"
  using assms
proof (induction left)
  case (Cons a left)
  have "length (filter (on a) right) \<le> 1" using Cons.prems by simp
  then have "List.map fst (case filter (on a) right of [] \<Rightarrow> [(a, None)] | bs \<Rightarrow> List.map (\<lambda>b. (a, Some b)) bs) = [a]"
    by (cases "filter (on a) right") auto
  with Cons show ?case by (simp add: left_join_def)
qed (simp add: left_join_def)

lemma key_matches: "distinct (List.map k rows) \<Longrightarrow> (\<And>x. P x \<Longrightarrow> k x = v) \<Longrightarrow> length (filter P rows) \<le> 1"
  using count_rows_key [of k rows P v] by (simp add: count_rows_def)

section \<open>Whose orders\<close>

definition owner_order :: "string \<Rightarrow> db \<Rightarrow> order_record \<Rightarrow> bool" where
  "owner_order owner d r \<longleftrightarrow> r \<in> set (orders d) \<and>
     (or_created_by r = Some owner \<or> (\<exists>c \<in> set (api_clients d). or_client_id r = Some (ac_id c) \<and> ac_owner c = owner))"

lemma developer_orders_mem: "row \<in> set (developer_orders_of q d) \<Longrightarrow> owner_order (dy_owner q) d (fst row) \<and> developer_filter q (fst row)"
  by (cases row) (auto simp: developer_orders_of_def with_clients_def owner_order_def developer_owns_def split: option.splits
      dest!: left_join_mem)

lemma order_rows_mem: "j \<in> set (order_rows q d) \<Longrightarrow> fst (fst j) \<in> set (developer_orders_of q d)"
  by (cases j) (auto simp: order_rows_def with_financials_def dest!: left_join_mem)

section \<open>One page\<close>

lemma keyset_all: "length (keyset_rows key (\<lambda>_. True) None (n + 1) rows) \<le> n \<Longrightarrow>
    mset (keyset_rows key (\<lambda>_. True) None (n + 1) rows) = mset rows"
  by (simp add: keyset_rows_def)

lemma keyset_subset: "set (keyset_rows key P k n rows) \<subseteq> set rows"
  using set_take_subset [of n] by (fastforce simp: keyset_rows_def)

lemma developer_cursor_reads: "outcome (developer_cursor_of cc cursor) (\<lambda>k d'. d' = d \<and> (cursor = [] \<longrightarrow> k = None)) (\<lambda>_ d'. d' = d) d t"
  unfolding developer_cursor_of_def
  by (cases "decode_developer_cursor cc cursor") (auto intro: outcome_ret outcome_fail)

lemma developer_page_outcome:
  "outcome (developer_page cc key tab limit cursor)
    (\<lambda>(rows, nxt) d'. d' = d \<and> set rows \<subseteq> set (tab d) \<and> (cursor \<noteq> [] \<or> nxt \<in> range (cc_encode cc) \<or> mset rows = mset (tab d)))
    (\<lambda>_ d'. d' = d) d t"
  unfolding developer_page_def
proof (rule outcome_bind, rule outcome_weaken [OF developer_cursor_reads], rule outcome_bind, rule outcome_select,
    rule outcome_bind, rule outcome_guard, goal_cases)
  case (1 k d')
  let ?rows = "keyset_rows key (\<lambda>_. True) k (nat limit + 1) (tab d')"
  from 1 have d: "d' = d" by simp
  have sub: "set ?rows \<subseteq> set (tab d)" unfolding d by (rule keyset_subset)
  have part: "set (take (nat limit) ?rows) \<subseteq> set (tab d)" by (rule order_trans [OF set_take_subset sub])
  show ?case
  proof (cases "nat limit < length ?rows")
    case True
    have "x \<in> range (cc_encode cc)" if "encode_developer_cursor cc y = Inr x" for x y
      using that by (auto simp: encode_developer_cursor_def split: if_splits)
    with part True d show ?thesis
      by (cases "limit = 0") (simp_all add: outcome_fail, rule outcome_bind, rule outcome_lift, rule outcome_ret, simp_all)
  next
    case False
    then have "cursor \<noteq> [] \<or> mset ?rows = mset (tab d)" using keyset_all [of key "nat limit" "tab d"] 1 by auto
    with False show ?thesis using sub 1 by (auto intro!: outcome_ret)
  qed
qed simp_all

section \<open>The normalized query\<close>

definition normalized :: "developer_query \<Rightarrow> bool \<Rightarrow> time \<Rightarrow> developer_query" where
  "normalized q paginated t =
     (let q = developer_window t (trimmed_developer_query q) in
      if paginated then q\<lparr>dy_limit := developer_limit (dy_limit q)\<rparr> else q)"

lemma normalize_outcome:
  "outcome (normalize_developer_query q paginated) (\<lambda>n d'. d' = d \<and> n = normalized q paginated t) (\<lambda>_ d'. d' = d) d t"
  unfolding normalize_developer_query_def Let_def normalized_def
  by (rule outcome_bind, rule outcome_guard, rule outcome_bind, rule outcome_now, rule outcome_bind, rule outcome_guard, rule outcome_ret)
     simp_all

lemma normalized_simps:
  "dy_owner (normalized q p t) = trim_space (dy_owner q)" "dy_cursor (normalized q p t) = trim_space (dy_cursor q)"
  by (simp_all add: normalized_def Let_def developer_window_def trimmed_developer_query_def)

lemma same_filter:
  "developer_orders_of (normalized q True t) d = developer_orders_of (normalized q False t) d"
  by (simp add: normalized_def Let_def developer_orders_of_def developer_filter_def cong: filter_cong)

section \<open>Entries and totals\<close>

lemma list_entries_outcome:
  "outcome (list_revenue_entries cc q)
    (\<lambda>(es, nxt) d'. d' = d \<and> (dy_cursor q \<noteq> [] \<or> nxt \<in> range (cc_encode cc) \<or>
       mset es = mset (List.map (\<lambda>(_, f). revenue_entry_from_row f) (revenue_rows q d)))) (\<lambda>_ d'. d' = d) d t"
  unfolding list_revenue_entries_def
  by (rule outcome_bind, rule outcome_weaken [OF developer_page_outcome]) (auto intro!: outcome_ret)

lemma big_sum_Inr: "big_sum xs = Inr s \<Longrightarrow> s = sum_list xs"
  by (auto simp: big_sum_def Let_def split: if_splits)

lemma revenue_totals_Inr:
  "revenue_totals q fs = Inr s \<Longrightarrow> vs_gross s = sum_list (List.map of_gross fs) \<and> vs_fee s = sum_list (List.map of_fee fs) \<and>
     vs_platform s = sum_list (List.map of_platform fs) \<and> vs_developer s = sum_list (List.map of_developer fs) \<and>
     vs_net s = sum_list (List.map of_net fs) \<and> vs_count s = count_distinct (List.map of_order fs)"
  by (auto simp: revenue_totals_def split: sum.splits dest!: big_sum_Inr)

lemma sum_entries:
  assumes "mset es = mset (List.map (\<lambda>(_, f). revenue_entry_from_row f) rows)"
    and "\<And>f. g (revenue_entry_from_row f) = h f"
  shows "sum_list (List.map g es) = (sum_list (List.map h (List.map snd rows)) :: int)"
proof -
  have "mset (List.map g es) = mset (List.map h (List.map snd rows))"
    using arg_cong [OF assms(1), of "image_mset g"] assms(2) by (simp add: multiset.map_comp comp_def case_prod_beta image_mset.compositionality)
  then show ?thesis by (metis sum_mset_sum_list)
qed

section \<open>Counts\<close>

text \<open>The unique keys that the joins rest on.\<close>

definition dashboard_ok :: "db \<Rightarrow> bool" where
  "dashboard_ok d \<longleftrightarrow> distinct (List.map or_id (orders d)) \<and> distinct (List.map ac_id (api_clients d)) \<and>
     distinct (List.map of_order (financials d))"

lemma clients_joined:
  assumes "dashboard_ok d"
  shows "List.map fst (with_clients d rows) = rows"
  unfolding with_clients_def
proof (rule left_join_rows)
  fix r :: order_record
  show "length (filter (\<lambda>c. or_client_id r = Some (ac_id c)) (api_clients d)) \<le> 1"
    by (rule key_matches [where k = ac_id and v = "the (or_client_id r)"]) (use assms in \<open>auto simp: dashboard_ok_def\<close>)
qed

lemma financials_joined:
  assumes "dashboard_ok d"
  shows "List.map fst (with_financials d rows) = rows"
  unfolding with_financials_def
proof (rule left_join_rows)
  fix row :: owned_row
  show "length (filter (for_order row) (financials d)) \<le> 1"
    by (rule key_matches [where k = of_order and v = "or_id (fst row)"]) (use assms in \<open>auto simp: dashboard_ok_def for_order_def\<close>)
qed

lemma filter_fst_distinct: "distinct (List.map f (List.map fst rows)) \<Longrightarrow> distinct (List.map f (List.map fst (filter P rows)))"
  by (induction rows) auto

lemma overview_orders:
  assumes "dashboard_ok d"
  shows "List.map (\<lambda>((r, _), _). r) (with_financials d (developer_orders_of q d)) = List.map fst (developer_orders_of q d) \<and>
    distinct (List.map or_id (List.map fst (developer_orders_of q d)))"
proof
  have "List.map (\<lambda>((r, _), _). r) (with_financials d (developer_orders_of q d)) =
      List.map fst (List.map fst (with_financials d (developer_orders_of q d)))"
    by (simp add: comp_def case_prod_beta)
  then show "List.map (\<lambda>((r, _), _). r) (with_financials d (developer_orders_of q d)) = List.map fst (developer_orders_of q d)"
    by (simp only: financials_joined [OF assms])
  have "distinct (List.map or_id (List.map fst (with_clients d (orders d))))"
    using assms by (simp add: clients_joined [OF assms] dashboard_ok_def del: map_map)
  then show "distinct (List.map or_id (List.map fst (developer_orders_of q d)))"
    unfolding developer_orders_of_def by (rule filter_fst_distinct)
qed

lemma counts_cover: "count_of is_active_order rs + count_of is_completed_order rs + count_of is_failed_order rs = int (length rs)"
proof (induction rs)
  case (Cons r rs)
  then show ?case
    by (cases "or_status r")
       (simp_all add: count_of_def is_active_order_def is_completed_order_def is_failed_order_def failed_statuses_def)
qed (simp add: count_of_def)

section \<open>Listed orders\<close>

definition shows_owned :: "string \<Rightarrow> db \<Rightarrow> developer_order \<Rightarrow> bool" where
  "shows_owned owner d v \<longleftrightarrow> (\<exists>r. owner_order owner d r \<and> do_id v = or_id r \<and> do_status v = status_text (or_status r) \<and>
     do_fiat v = or_fiat_minor r)"

lemma list_orders_outcome:
  "outcome (list_developer_orders cc q) (\<lambda>(os, _) d'. d' = d \<and> list_all (shows_owned (dy_owner q) d) os) (\<lambda>_ d'. d' = d) d t"
  unfolding list_developer_orders_def
proof (rule outcome_bind, rule outcome_weaken [OF developer_page_outcome], goal_cases)
  case (1 x d')
  have own: "shows_owned (dy_owner q) d (developer_order_from_row (developer_order_columns d j))" if "j \<in> set (order_rows q d)" for j
  proof -
    obtain r c f p where j: "j = (((r, c), f), p)" by (metis surj_pair)
    from developer_orders_mem [OF order_rows_mem [OF that]] have "owner_order (dy_owner q) d r" by (simp add: j)
    then show ?thesis
      by (auto simp: shows_owned_def developer_order_from_row_def developer_order_columns_def j Let_def)
  qed
  obtain rows nxt where x: "x = (rows, nxt)" by (cases x)
  with 1 have d: "d' = d" and sub: "set rows \<subseteq> set (List.map (\<lambda>j. (j, developer_order_columns d j)) (order_rows q d))" by auto
  have "shows_owned (dy_owner q) d (developer_order_from_row (snd r))" if "r \<in> set rows" for r
  proof -
    from subsetD [OF sub that] obtain j where "j \<in> set (order_rows q d)" "r = (j, developer_order_columns d j)" by auto
    with own show ?thesis by simp
  qed
  then have "list_all (shows_owned (dy_owner q) d) (List.map (\<lambda>(_, w). developer_order_from_row w) rows)"
    by (simp add: list_all_iff case_prod_beta)
  then show ?case by (simp add: x d outcome_ret)
qed simp

lemma overview_row_Inr:
  assumes "overview_row q rows = Inr v"
  shows "let rs = List.map (\<lambda>((r, _), _). r) rows in vo_total v = count_distinct (List.map or_id rs) \<and>
    vo_active v = count_of is_active_order rs \<and> vo_completed v = count_of is_completed_order rs \<and> vo_failed v = count_of is_failed_order rs"
  using assms by (auto simp: overview_row_def Let_def split: sum.splits)

definition overview_of :: "developer_query \<Rightarrow> db \<Rightarrow> developer_overview \<Rightarrow> bool" where
  "overview_of q d v \<longleftrightarrow> vo_total v = int (length (developer_orders_of q d)) \<and>
     vo_active v + vo_completed v + vo_failed v = vo_total v \<and> list_all (shows_owned (dy_owner q) d) (vo_recent v)"

lemma get_overview_outcome:
  assumes "dashboard_ok d"
  shows "outcome (get_overview cc q) (\<lambda>v d'. d' = d \<and> overview_of q d v) (\<lambda>_ d'. d' = d) d t"
  unfolding get_overview_def webhook_delivery_counts_def
proof (rule outcome_bind, rule outcome_select, rule outcome_bind, rule outcome_lift, rule outcome_bind, rule outcome_bind,
    rule outcome_select, rule outcome_ret, unfold prod.case, rule outcome_bind, rule outcome_weaken [OF list_orders_outcome], goal_cases)
  case (1 v x d')
  from overview_row_Inr [OF 1(1)] overview_orders [OF assms, of q]
    counts_cover [of "List.map fst (developer_orders_of q d)"]
  have "overview_of q d (v\<lparr>vo_pending := p, vo_exhausted := e, vo_recent := fst x\<rparr>)" for p e
    using 1(2) by (auto simp: overview_of_def Let_def count_distinct_def distinct_remdups_id)
  with 1(2) show ?case by (auto intro!: outcome_ret)
qed simp_all

end
