(* ===== verification/Dashboard_Properties.thy ===== *)
theory Dashboard_Properties
  imports Dashboard_Laws Scenario Calm_Runs
begin

text \<open>
  The developer dashboard: its counts cover the owner's orders, and its totals are those of the
  entries it lists.
\<close>

text \<open>The orders that a page lists belong to the developer, by creation or by the client they were made with.\<close>

theorem developer_sees_own_orders:
  assumes "developer_order_list_of cc q w = (Inr (os, nxt), w')"
  shows "w_db w' = w_db w \<and> list_all (shows_owned (trim_space (dy_owner q)) (w_db w)) os"
proof -
  have "outcome (developer_order_list_of cc q) (\<lambda>(os, _) d'. d' = w_db w \<and> list_all (shows_owned (trim_space (dy_owner q)) (w_db w)) os)
      (\<lambda>_ _. True) (w_db w) (w_now w)"
    unfolding developer_order_list_of_def
    by (rule outcome_bind, rule outcome_weaken [OF normalize_outcome], elim conjE, hypsubst,
        rule outcome_weaken [OF list_orders_outcome]) (simp_all add: normalized_simps)
  from outcomeD [OF this refl refl assms] show ?thesis by simp
qed

text \<open>
  C7: the overview of a developer counts each of the orders in the window once, every one of them as
  active, completed or failed, and its recent orders are the developer's own.
\<close>
theorem overview_counts_orders:
  assumes "dashboard_ok (w_db w)" and "developer_overview_of cc q w = (Inr v, w')"
  shows "vo_total v = int (length (developer_orders_of (normalized q False (w_now w)) (w_db w))) \<and>
    vo_active v + vo_completed v + vo_failed v = vo_total v \<and>
    list_all (shows_owned (trim_space (dy_owner q)) (w_db w)) (vo_recent v) \<and> w_db w' = w_db w"
proof -
  let ?n = "normalized q False (w_now w)"
  have same: "developer_orders_of (?n\<lparr>dy_limit := l\<rparr>) d = developer_orders_of ?n d" for l d
    by (simp add: developer_orders_of_def developer_filter_def)
  have "outcome (developer_overview_of cc q) (\<lambda>v d'. d' = w_db w \<and> vo_total v = int (length (developer_orders_of ?n (w_db w))) \<and>
      vo_active v + vo_completed v + vo_failed v = vo_total v \<and> list_all (shows_owned (trim_space (dy_owner q)) (w_db w)) (vo_recent v))
      (\<lambda>_ _. True) (w_db w) (w_now w)"
    unfolding developer_overview_of_def
    by (rule outcome_bind, rule outcome_weaken [OF normalize_outcome], elim conjE, hypsubst,
        rule outcome_weaken [OF get_overview_outcome [OF assms(1)]])
       (auto simp: overview_of_def same normalized_simps split: if_splits)
  from outcomeD [OF this refl refl assms(2)] show ?thesis by simp
qed

text \<open>
  C10: the totals of the revenue summary are the sums over the entries that the developer is shown for
  the same query, when they fit one page.
\<close>
theorem revenue_totals_agree:
  assumes "\<And>k. cc_encode cc k \<noteq> []" and "trim_space (dy_cursor q) = []"
    and "developer_entries_of cc q w = (Inr (es, []), w1)" and "developer_revenue_of q u = (Inr s, u1)"
    and "w_db u = w_db w" and "w_now u = w_now w"
  shows "vs_gross s = sum_list (List.map re_gross es) \<and> vs_fee s = sum_list (List.map re_fee es) \<and>
    vs_platform s = sum_list (List.map re_platform es) \<and> vs_developer s = sum_list (List.map re_developer es) \<and>
    vs_net s = sum_list (List.map re_net es)"
proof -
  let ?n = "normalized q False (w_now w)"
  let ?rows = "revenue_rows ?n (w_db w)"
  have "revenue_rows (normalized q True (w_now w)) d = revenue_rows ?n d" for d
    by (simp add: revenue_rows_def same_filter)
  then have o: "outcome (developer_entries_of cc q) (\<lambda>(es, nxt) d'. d' = w_db w \<and> (nxt \<in> range (cc_encode cc) \<or>
      mset es = mset (List.map (\<lambda>(_, f). revenue_entry_from_row f) ?rows))) (\<lambda>_ _. True) (w_db w) (w_now w)"
    unfolding developer_entries_of_def
    by (intro outcome_bind outcome_weaken [OF normalize_outcome])
       (auto simp: normalized_simps assms(2) intro!: outcome_weaken [OF list_entries_outcome])
  have "[] \<notin> range (cc_encode cc)" using assms(1) by (metis rangeE)
  with outcomeD [OF o refl refl assms(3)] have es: "mset es = mset (List.map (\<lambda>(_, f). revenue_entry_from_row f) ?rows)" by simp
  have "outcome (developer_revenue_of q) (\<lambda>s _. revenue_totals ?n (List.map snd ?rows) = Inr s) (\<lambda>_ _. True) (w_db w) (w_now w)"
    unfolding developer_revenue_of_def get_revenue_summary_def
    by (rule outcome_bind, rule outcome_weaken [OF normalize_outcome], elim conjE, hypsubst, rule outcome_bind, rule outcome_select,
        rule outcome_lift) simp_all
  from outcomeD [OF this assms(5,6,4)] have "revenue_totals ?n (List.map snd ?rows) = Inr s" by simp
  from revenue_totals_Inr [OF this]
    sum_entries [OF es, of re_gross of_gross] sum_entries [OF es, of re_fee of_fee] sum_entries [OF es, of re_platform of_platform]
    sum_entries [OF es, of re_developer of_developer] sum_entries [OF es, of re_net of_net]
  show ?thesis by (simp add: revenue_entry_from_row_def)
qed

section \<open>An example\<close>

definition demo_financial :: order_financial where
  "demo_financial = \<lparr>of_id = ''f1'', of_order = ''o1'', of_client = Some ''client'', of_direction = ''onramp'', of_environment = ''test'',
     of_network = ''stellar_testnet'', of_currency = ''IDR'', of_asset_code = ''KXLM'', of_asset_issuer = ''GT'',
     of_asset_amount = ''10.0000000'', of_stroops = 100000000, of_gross = 50000, of_fee = 0, of_platform = 0, of_developer = 0,
     of_net = 50000, of_fee_currency = ''IDR'', of_policy = ''sandbox-zero-fee-v1'', of_source = ''sandbox'', of_spread = 0,
     of_simulated = True, of_created = 1000\<rparr>"

definition demo_dashboard_db :: db where
  "demo_dashboard_db = empty_db\<lparr>orders := [hd demo_orders], financials := [demo_financial],
     api_clients := [\<lparr>ac_id = ''client'', ac_owner = ''owner'', ac_name = ''shop'', ac_environment = ''test'', ac_status = ''active'',
       ac_created = 1, ac_updated = 1\<rparr>]\<rparr>"

definition demo_developer_query :: developer_query where
  "demo_developer_query = \<lparr>dy_owner = ''owner'', dy_client = [], dy_from = 0, dy_to = 0, dy_currency = [], dy_direction = [],
     dy_status = [], dy_method = [], dy_limit = 0, dy_cursor = [], dy_bucket = []\<rparr>"

definition demo_codec :: cursor_codec where
  "demo_codec = \<lparr>cc_encode = (\<lambda>_. ''cursor''), cc_decode = (\<lambda>_. None)\<rparr>"

lemma demo_developer_texts: "trim_space ''owner'' = ''owner''" "trim_space ([] :: string) = []"
  by code_simp+

lemma demo_normalized_query: "normalized demo_developer_query p 3000 =
    \<lparr>dy_owner = ''owner'', dy_client = [], dy_from = 3000 - default_developer_window, dy_to = 3000, dy_currency = [], dy_direction = [],
     dy_status = [], dy_method = [], dy_limit = (if p then 20 else 0), dy_cursor = [], dy_bucket = []\<rparr>"
  by (simp add: normalized_def trimmed_developer_query_def demo_developer_query_def demo_developer_texts developer_window_def
      developer_limit_def max_developer_page_size_def)

lemma demo_normalizes:
  "(\<And>n. n = normalized demo_developer_query p 3000 \<Longrightarrow> Q n d is) \<Longrightarrow> runs (normalize_developer_query demo_developer_query p) Q d is 3000"
  unfolding normalize_developer_query_def Let_def normalized_def
  by (rule runs_bind, rule runs_guard, simp add: valid_developer_query_def trimmed_developer_query_def demo_developer_query_def demo_developer_texts,
      rule runs_bind, rule runs_now, rule runs_bind, rule runs_guard,
      simp add: developer_window_def trimmed_developer_query_def demo_developer_query_def default_developer_window_def max_developer_window_def
        time_sub_def int64_min_def int64_max_def, rule runs_ret) simp

lemma demo_developer_rows:
  "developer_orders_of (normalized demo_developer_query p 3000) demo_dashboard_db = [(hd demo_orders, Some (hd (api_clients demo_dashboard_db)))]"
  unfolding demo_normalized_query
  by (simp add: developer_orders_of_def with_clients_def left_join_def demo_dashboard_db_def demo_orders_def developer_owns_def
      developer_filter_def default_developer_window_def idr_currency_def)

lemma demo_financial_rows: "financials demo_dashboard_db = [demo_financial]"
  by (simp add: demo_dashboard_db_def)

lemma demo_entries:
  "\<exists>w. developer_entries_of demo_codec demo_developer_query (world0 demo_dashboard_db [] 3000) =
     (Inr ([revenue_entry_from_row demo_financial], []), w)"
proof -
  have r: "revenue_rows (normalized demo_developer_query True 3000) demo_dashboard_db =
      [((hd demo_orders, Some (hd (api_clients demo_dashboard_db))), demo_financial)]"
    by (simp add: revenue_rows_def inner_join_def demo_developer_rows demo_financial_rows for_order_def demo_financial_def demo_orders_def)
  have "runs (developer_entries_of demo_codec demo_developer_query) (\<lambda>x _ _. x = ([revenue_entry_from_row demo_financial], []))
      demo_dashboard_db [] 3000"
    unfolding developer_entries_of_def list_revenue_entries_def developer_page_def developer_cursor_of_def
    by (rule runs_bind, rule demo_normalizes, rule runs_bind)
       (simp add: demo_normalized_query, intro runs_bind runs_ret runs_select runs_guard,
        simp_all add: keyset_rows_def r [unfolded demo_normalized_query, simplified] runs_ret)
  from runs_world0 [OF this] show ?thesis by auto
qed

lemma demo_revenue:
  "\<exists>s w. developer_revenue_of demo_developer_query (world0 demo_dashboard_db [] 3000) = (Inr s, w)"
proof -
  have r: "List.map snd (revenue_rows (normalized demo_developer_query False 3000) demo_dashboard_db) = [demo_financial]"
    by (simp add: revenue_rows_def inner_join_def demo_developer_rows demo_financial_rows for_order_def demo_financial_def demo_orders_def)
  obtain s where s: "revenue_totals (normalized demo_developer_query False 3000) [demo_financial] = Inr s"
    by (simp add: revenue_totals_def big_sum_def demo_financial_def int64_min_def int64_max_def)
  have "runs (developer_revenue_of demo_developer_query) (\<lambda>x _ _. x = s) demo_dashboard_db [] 3000"
    unfolding developer_revenue_of_def get_revenue_summary_def
    by (rule runs_bind, rule demo_normalizes, simp only:, rule runs_bind, rule runs_select, simp only: r,
        rule runs_lift [OF s]) simp
  from runs_world0 [OF this] show ?thesis by auto
qed

theorem revenue_totals_agree_witness:
  "\<exists>s w. developer_revenue_of demo_developer_query (world0 demo_dashboard_db [] 3000) = (Inr s, w) \<and> vs_gross s = 50000 \<and> vs_net s = 50000"
proof -
  obtain s w where s: "developer_revenue_of demo_developer_query (world0 demo_dashboard_db [] 3000) = (Inr s, w)"
    using demo_revenue by blast
  obtain w' where e: "developer_entries_of demo_codec demo_developer_query (world0 demo_dashboard_db [] 3000) =
      (Inr ([revenue_entry_from_row demo_financial], []), w')"
    using demo_entries by blast
  have "cc_encode demo_codec k \<noteq> []" for k by (simp add: demo_codec_def)
  moreover have "trim_space (dy_cursor demo_developer_query) = []" by (simp add: demo_developer_query_def demo_developer_texts)
  ultimately show ?thesis
    using revenue_totals_agree [OF _ _ e s refl refl] s by (simp add: revenue_entry_from_row_def demo_financial_def)
qed

lemma limit_kept: "developer_orders_of (q\<lparr>dy_limit := n\<rparr>) d = developer_orders_of q d"
  by (simp add: developer_orders_of_def developer_filter_def)

lemma demo_overview:
  "\<exists>v w. developer_overview_of demo_codec demo_developer_query (world0 demo_dashboard_db [] 3000) = (Inr v, w)"
proof -
  let ?q = "(normalized demo_developer_query False 3000)\<lparr>dy_limit := 10\<rparr>"
  have o: "developer_orders_of ?q demo_dashboard_db = [(hd demo_orders, Some (hd (api_clients demo_dashboard_db)))]"
    using demo_developer_rows [of False] by (simp add: limit_kept)
  have f: "with_financials demo_dashboard_db (developer_orders_of ?q demo_dashboard_db) =
      [((hd demo_orders, Some (hd (api_clients demo_dashboard_db))), Some demo_financial)]"
    unfolding o by (simp add: with_financials_def left_join_def demo_financial_rows for_order_def demo_financial_def demo_orders_def)
  obtain v where v: "overview_row ?q [((hd demo_orders, Some (hd (api_clients demo_dashboard_db))), Some demo_financial)] = Inr v"
    by (simp add: overview_row_def Let_def big_sum_def demo_financial_def int64_min_def int64_max_def)
  have limit: "dy_limit (normalized demo_developer_query False 3000) = 0" by (simp add: demo_normalized_query)
  have m: "?q\<lparr>dy_method := [], dy_cursor := [], dy_bucket := []\<rparr> = ?q" by (simp add: demo_normalized_query)
  have cursor: "dy_cursor ?q = []" and limit10: "dy_limit ?q = 10" by (simp_all add: demo_normalized_query)
  have no_payouts: "payouts demo_dashboard_db = []" by (simp add: demo_dashboard_db_def empty_db_def)
  have len: "length (order_rows ?q demo_dashboard_db) = 1"
    by (simp add: order_rows_def f left_join_def no_payouts)
  have l: "runs (list_developer_orders demo_codec ?q) (\<lambda>_ d js. d = demo_dashboard_db \<and> js = []) demo_dashboard_db [] 3000"
    unfolding list_developer_orders_def developer_page_def developer_cursor_of_def
    by (rule runs_bind, simp add: cursor limit10, intro runs_bind runs_ret runs_select runs_guard)
       (simp_all add: keyset_rows_def len runs_ret)
  have "runs (developer_overview_of demo_codec demo_developer_query) (\<lambda>_ _ _. True) demo_dashboard_db [] 3000"
    unfolding developer_overview_of_def get_overview_def webhook_delivery_counts_def
    by (rule runs_bind, rule demo_normalizes, simp only: limit simp_thms if_True m, rule runs_bind, rule runs_select, simp only: f,
        rule runs_bind, rule runs_lift [OF v], rule runs_bind, rule runs_bind, rule runs_select, rule runs_ret, unfold prod.case,
        rule runs_bind, rule runs_weaken [OF l]) (simp add: case_prod_beta runs_ret)
  from runs_world0 [OF this] show ?thesis by auto
qed

theorem overview_counts_orders_witness:
  "\<exists>v w. developer_overview_of demo_codec demo_developer_query (world0 demo_dashboard_db [] 3000) = (Inr v, w) \<and> vo_total v = 1 \<and>
     vo_active v + vo_completed v + vo_failed v = 1"
proof -
  obtain v w where v: "developer_overview_of demo_codec demo_developer_query (world0 demo_dashboard_db [] 3000) = (Inr v, w)"
    using demo_overview by blast
  have "dashboard_ok (w_db (world0 demo_dashboard_db [] 3000))"
    by (simp add: dashboard_ok_def demo_dashboard_db_def empty_db_def demo_orders_def world0_def)
  from overview_counts_orders [OF this v] v show ?thesis by (simp add: demo_developer_rows world0_facts)
qed

end
