(* ===== verification/Spec2Isabelle.thy ===== *)
theory Spec2Isabelle
  imports Findings Api_Key_Properties Wallet_Examples Sep24_Properties Dashboard_Properties
begin

text \<open>
  The back end of KailoPay (\<open>src/\<close>, Go). A customer buys a Stellar asset for rupiah (on-ramp) or sells
  it (off-ramp); HTTP handlers call use cases (\<open>internal/usecase\<close>), which call repositories
  (\<open>internal/repository\<close>) over one PostgreSQL database, and a worker process (\<open>cmd/worker\<close>) leases
  messages of an outbox table and talks to the Stellar network, the mail provider and the customers'
  webhook endpoints. The development models the use cases, the repositories and the worker's passes, the
  database they share and the accounts and sessions in front of them.

  \<^bold>\<open>How the code is translated.\<close> \<open>Kailo_Prelude\<close> has 64-bit integers and times, Go's string functions
  and the state-and-error actions in which every stateful function is written; \<open>Encodings\<close> hexadecimal
  and base64; \<open>Kailo_Errors\<close> the errors that callers tell apart. \<open>Entities\<close> has one record per
  row type of \<open>internal/entity\<close>. \<open>Store\<close> has the database \<open>db\<close>, one list of rows per table, and the
  \<open>world\<close> around it: the identifiers and random bytes still to be drawn, the fault each statement
  meets (none, a transient lock error, a hard failure), whether the context is cancelled, the time, and
  the state of the open transaction; \<open>tx_do\<close> is \<open>txManager.do\<close> (\<open>repository/tx.go\<close>): three attempts,
  each rolled back on an error. \<open>Tables\<close> has the statements with the unique keys and checks of the
  migrations. A repository method or a use case is one definition with the name it has in Go (in
  lower case, with the component's name in front where two clash), composed of the statements and calls of
  its Go body in their order; every early return is a guard or a branch.

  \<^bold>\<open>Parts.\<close>
  \<^item> Orders: \<open>Order_Machine\<close> (\<open>entity/order.go\<close>), \<open>Amounts\<close> and \<open>Amount_Formats\<close>
    (\<open>entity/amount.go\<close> and the decimal parsers), \<open>Quote\<close> (\<open>onramp_quote_usecase.go\<close>), \<open>Principal\<close>
    (\<open>order_principal.go\<close>, \<open>order_ownership.go\<close>), \<open>Ledger\<close> (order events, public webhook events and
    financial snapshots, which both directions write), \<open>Ledger_Invariants\<close>.
  \<^item> Buy side: \<open>Onramp_Repo\<close>, \<open>Onramp_Usecase\<close> (create, read, list, payment callbacks), then
    \<open>Settlement_Repo\<close> and \<open>Settlement_Usecase\<close> (lease an intent, submit the transfer, confirm it).
  \<^item> Sell side: \<open>Deposit_Memo\<close>, \<open>Offramp_Repo\<close>, \<open>Offramp_Usecase\<close> (create, deposit scanner,
    retirement worker, simulated payout, quote preview).
  \<^item> Notifications: \<open>Web_Address\<close> and \<open>Webhook_Policy\<close> (which destinations are admitted),
    \<open>Webhook_Repo\<close>, \<open>Webhook_Attempts\<close>, \<open>Webhook_Usecase\<close>, \<open>Email\<close>; \<open>Worker\<close> is the tick of
    \<open>cmd/worker/main.go\<close> over all queues.
  \<^item> Accounts: \<open>Mail_Address\<close>, \<open>Passwords\<close>, \<open>Auth_Repo\<close>, \<open>Auth_Usecase\<close> (\<open>auth_repository.go\<close>,
    \<open>auth_usecase.go\<close>): passwords, Google sign-in, sessions, email challenges, profiles, avatars.
    \<open>Api_Keys\<close> (\<open>apikey_usecase.go\<close> and its repository) has the developers' keys and clients, \<open>Kyc\<close>
    (\<open>kyc_usecase.go\<close>, \<open>kyc_repository.go\<close>) the identity inquiries and the provider's webhooks.
  \<^item> Wallets: \<open>Sep10\<close> (challenges and tokens), \<open>Sep38\<close> (prices and firm quotes, over \<open>Quote\<close>), \<open>Wallets\<close>
    (\<open>developer_wallet_usecase.go\<close>), \<open>Sep24\<close> (protocol transactions over the order use cases, history,
    federation) and \<open>Sep24_Interactive\<close> (browser sessions: opened by a wallet, linked to a user, completed by an
    order; it calls \<open>Sep38\<close>, \<open>Kyc\<close> and \<open>Sep24\<close>). Each has its use case and its repository in one theory.
  \<^item> Reports: \<open>Dashboard\<close> has the five reports of the developer dashboard
    (\<open>developer_dashboard_usecase.go\<close>, \<open>developer_dashboard_repository.go\<close>): joins, filters and
    aggregates over the tables, with averages and rates as exact rationals.

  \<^bold>\<open>What is proved.\<close>
  \<^item> \<open>Store\<close> has two calculi: \<open>outcome m Q E d t\<close>, whatever identifiers and faults the world has,
    a success of \<open>m\<close> from database \<open>d\<close> at time \<open>t\<close> satisfies \<open>Q\<close> and a failure \<open>E\<close>; and \<open>reads\<close>.
    \<open>Progress\<close> has \<open>runs m Q d is t\<close>: in a calm world (no fault, enough identifiers) \<open>m\<close> succeeds with
    \<open>Q\<close>. Safety rests on the first, completion on the second.
  \<^item> \<open>System\<close> makes the order operations one transition system; \<open>Ledger_Invariants\<close> holds in every
    reachable state under every fault: logs are lifecycles of the state machine, reservations add up,
    payouts are made once. The use cases and the worker keep it (\<open>Interfaces\<close>: \<open>invariant_system\<close>).
  \<^item> \<open>Interfaces\<close> and \<open>Paging\<close> state the contracts between parts as locales: an invariant system, a leased
    queue (interpreted on five queues), an operation filed under an idempotency key (on both order
    writes), a token of single use (on challenges and on login transactions), a keyset page, a text
    encoding. The clients' theorems rest on the interpretations.
  \<^item> \<open>Auth_Invariants\<close> and \<open>Auth_Safety\<close> show that every authentication call keeps the account tables
    consistent and that revocation, consumption and verification are never undone; \<open>Auth_System\<close> and
    \<open>Auth_Signin\<close> derive what a sign-in reaches, what ends a session and what locks a credential.
  \<^item> \<open>Steady\<close> has a third calculus, \<open>steady I m\<close>: \<open>m\<close> keeps the predicate \<open>I\<close>, succeed or fail; and
    \<open>history run d d'\<close>, the databases that any calls of a system lead to. \<open>Table_Laws\<close> says which columns
    of a table later states carry along. On them rest \<open>Kyc_Laws\<close> and \<open>Kyc_Properties\<close> (webhooks in any order),
    \<open>Api_Key_Properties\<close>, \<open>Sep10_Laws\<close>, \<open>Sep38_Prices\<close>, \<open>Sep38_Quotes\<close> and \<open>Wallet_Laws\<close>, with an interpretation
    of the invariant system each; \<open>Calm_Runs\<close> and \<open>Wallet_Examples\<close> have the runs of their witnesses.
  \<^item> \<open>Order_Frame\<close> shows what the two order creations leave alone; \<open>Sep24_Laws\<close> extends it to every order
    operation of \<open>System\<close> and every call of SEP-24 (interpretation \<open>sep24_system\<close>); \<open>Sep24_Properties\<close> derives who sees a
    transaction, whose a session is, and that the completion of a session is refused by a foreign key.
  \<^item> \<open>Leases\<close> shows that every operation of orders, webhooks and emails leaves alone the messages of the
    outbox that it is not for, so a lease lasts; \<open>Dashboard_Laws\<close> and \<open>Dashboard_Properties\<close> that counts and
    totals of the reports agree with the rows they show.
  \<^item> The numbered properties C1, C2, \<dots> stand in this theory, in \<open>Order_Properties\<close>, \<open>Webhook_Properties\<close>
    and the properties theories of the other parts; \<open>Scenario\<close> has two complete runs that serve as
    witnesses. \<open>Findings\<close> proves behaviours that the code's comments or purpose do not intend.

  \<^bold>\<open>Bounds and fuel.\<close> A transaction has three attempts, as in the code. An IPv6 text is parsed in eight
  rounds, one per group; trimming a text takes at most its length; walking an order list takes fuel above
  the number of orders, and each page is followed by fewer rows; batches of the sweeps are the code's
  limits. No other definition takes fuel.

  \<^bold>\<open>Parameters.\<close> Code that is not in the repository is an argument: the Stellar network, the payment
  gateway, the price feed, the resolver and the HTTP client, SHA-256 and HMAC, AES-GCM, Argon2, the
  Google provider, the object store, the identity provider, the Stellar SDK and the JWT library behind SEP-10
  (with \<open>jwt_laws\<close> as the hypothesis on signatures), the JSON text of a list cursor,
  \<open>date_trunc\<close> of the database and the parser of \<open>net/url\<close>.

  \<^bold>\<open>Not modelled.\<close> HTTP handlers and middleware, configuration, the adapters' network input and output and
  the process wiring of \<open>cmd\<close>. Foreign keys are checked by the
  updates of interactive sessions only (that owners of accounts exist is proved, \<open>accounts_inv\<close>); a column of type
  \<open>uuid\<close> takes any text. The times of sessions and of firm quotes are stored with the microseconds of
  \<open>timestamptz\<close> (\<open>Tables.timestamptz\<close>), those of the other tables with nanoseconds. The CHECKs of migration 1
  that admit only XLM in orders and Stellar transactions are left out: with them no order could be stored. The random delay between attempts of a transaction has no state. Two
  concurrent transactions are serialised, as the row locks the code takes make them. Letters outside ASCII are
  compared unchanged where Go folds case. A query result that a failed attempt of a transaction left in a captured
  variable is not carried into the next attempt. The list of event types of an endpoint is a list, not
  its JSON text.
\<close>

section \<open>The order ledger\<close>

text \<open>
  C1: in every reachable database the event log of an order is one lifecycle of the state
  machine: it starts with \<open>created\<close>, follows allowed transitions, repeats no status, ends in the
  status of the order row, and its length is the row's version.
\<close>
theorem order_log_is_lifecycle:
  assumes "reachable d" and "r \<in> set (orders d)"
  shows "let ss = log_statuses (order_log (order_events d) (or_id r)) in
    hd ss = OSCreated \<and> successively allowed_transition ss \<and> distinct ss \<and>
    last ss = or_status r \<and> or_version r = int (length ss)"
  using reachable_log [OF assms] chain_distinct by (auto simp: log_conforms_def Let_def)

theorem order_log_is_lifecycle_witness:
  "let ss = log_statuses (order_log (order_events demo_done) (or_id (hd (orders demo_done)))) in
    hd ss = OSCreated \<and> successively allowed_transition ss \<and> distinct ss \<and>
    last ss = or_status (hd (orders demo_done)) \<and> or_version (hd (orders demo_done)) = int (length ss)"
  by (rule order_log_is_lifecycle [OF demo_done_reachable demo_done_first])

text \<open>
  C2: a completed order went through the whole pipeline of its direction, stage by stage: a
  buy order was paid and settled on the ledger, a sell order had its deposit verified and its
  asset retired before the payout.
\<close>
theorem completed_order_history:
  assumes "reachable d" and "r \<in> set (orders d)" and "or_status r = OSCompleted"
  shows "log_statuses (order_log (order_events d) (or_id r)) =
    (if or_direction r = ''offramp''
     then [OSCreated, OSAssetPending, OSAssetReceived, OSRetirementProcessing, OSWithdrawalProcessing,
           OSCompleted]
     else [OSCreated, OSPaymentPending, OSPaymentConfirmed, OSStellarProcessing, OSCompleted])"
  using reachable_log [OF assms(1,2)] assms(3) by (rule completed_log)

theorem completed_order_history_witness:
  "log_statuses (order_log (order_events demo_done) (or_id (hd (orders demo_done)))) =
    (if or_direction (hd (orders demo_done)) = ''offramp''
     then [OSCreated, OSAssetPending, OSAssetReceived, OSRetirementProcessing, OSWithdrawalProcessing,
           OSCompleted]
     else [OSCreated, OSPaymentPending, OSPaymentConfirmed, OSStellarProcessing, OSCompleted])"
  by (rule completed_order_history [OF demo_done_reachable demo_done_first]) (simp add: demo_orders_def)

text \<open>Events are numbered without a gap from one, and an order never has more than six of them.\<close>
theorem order_versions_gapless:
  assumes "reachable d" and "r \<in> set (orders d)"
  shows "List.map ev_version (order_log (order_events d) (or_id r)) = [1..or_version r] \<and>
    1 \<le> or_version r \<and> or_version r \<le> 6"
  using reachable_log [OF assms] by (rule log_versions)

theorem order_versions_gapless_witness:
  "List.map ev_version (order_log (order_events demo_done) (or_id (hd (orders demo_done)))) =
     [1..or_version (hd (orders demo_done))] \<and>
   1 \<le> or_version (hd (orders demo_done)) \<and> or_version (hd (orders demo_done)) \<le> 6"
  by (rule order_versions_gapless [OF demo_done_reachable demo_done_first])

text \<open>
  C3: a treasury account's reserved amount is the sum of its open reservations, and never
  exceeds the balance observed on the ledger.
\<close>
theorem treasury_reserved_is_sum:
  assumes "reachable d" and "t \<in> set (treasuries d)"
  shows "ta_reserved t = (\<Sum>r \<leftarrow> reservations d.
      if tr_treasury r = ta_id t \<and> tr_status r = RSReserved then tr_amount r else 0) \<and>
    0 \<le> ta_reserved t \<and> ta_reserved t \<le> ta_observed t"
  using reachable_treasury [OF assms] by (simp add: treasury_ok_def)

theorem treasury_reserved_is_sum_witness:
  "let t = hd (treasuries demo_reserved) in
    ta_reserved t = (\<Sum>r \<leftarrow> reservations demo_reserved.
      if tr_treasury r = ta_id t \<and> tr_status r = RSReserved then tr_amount r else 0) \<and>
    0 \<le> ta_reserved t \<and> ta_reserved t \<le> ta_observed t"
  using treasury_reserved_is_sum [OF demo_reserved_reachable, of "hd (treasuries demo_reserved)"]
  by (simp add: Let_def demo_treasuries_def)

text \<open>
  C4: a completed sell order has exactly one payout and it pays the quoted fiat amount; a
  payout belongs to a completed order.
\<close>
theorem payout_exactly_once:
  assumes "reachable d" and "r \<in> set (orders d)" and "or_direction r = ''offramp''"
  shows "length (filter (\<lambda>p. po_order p = or_id r) (payouts d)) = (if or_status r = OSCompleted then 1 else 0) \<and>
    list_all (\<lambda>p. po_amount p = or_fiat_minor r) (filter (\<lambda>p. po_order p = or_id r) (payouts d))"
  using reachable_ledger_ok [OF assms(1)] assms(2,3) by (rule payout_count)

theorem payout_exactly_once_witness:
  "let r = orders demo_done ! 1 in
    length (filter (\<lambda>p. po_order p = or_id r) (payouts demo_done)) = (if or_status r = OSCompleted then 1 else 0) \<and>
    list_all (\<lambda>p. po_amount p = or_fiat_minor r) (filter (\<lambda>p. po_order p = or_id r) (payouts demo_done))"
  using payout_exactly_once [OF demo_done_reachable demo_done_second] by (simp add: Let_def demo_orders_def)

text \<open>
  C5: every use case that writes orders, reservations or payouts keeps the ledger invariant, and so
  does the worker's tick, whatever the database, the identifiers, the SQL faults, the cancellations and
  the answers of the gateways and networks: buying, selling, the payment callback, the two sweeps, the
  deposit scan, and SEP-24's start of a deposit or withdrawal and its interactive start, link and
  completion.
\<close>
theorem use_cases_keep_ledger:
  assumes "ledger_inv (w_db w)"
  shows "ledger_inv (w_db (snd (onramp_create deps cfg c w))) \<and>
    ledger_inv (w_db (snd (process_callback gw raw token w))) \<and>
    ledger_inv (w_db (snd (release_expired w))) \<and>
    ledger_inv (w_db (snd (offramp_create fdeps fcfg fc w))) \<and>
    ledger_inv (w_db (snd (scan_deposits sha recent account w))) \<and>
    ledger_inv (w_db (snd (expire_deposits now w))) \<and>
    ledger_inv (w_db (snd (worker_tick wdeps w))) \<and>
    ledger_inv (w_db (snd (start_deposit sdeps dc w))) \<and>
    ledger_inv (w_db (snd (start_withdraw sdeps wc w))) \<and>
    ledger_inv (w_db (snd (interactive_start icfg hash who request w))) \<and>
    ledger_inv (w_db (snd (interactive_link icfg i user w))) \<and>
    ledger_inv (w_db (snd (interactive_complete icfg i user destination w)))"
  using assms
  by (simp add: outcome_state [where I = ledger_inv] onramp_create_inv process_callback_inv
      release_expired_sweep_inv offramp_create_inv scan_deposits_inv expire_deposits_inv worker_tick_inv
      steadyD [OF ledger_starts(1)] steadyD [OF ledger_starts(2)] steadyD [OF ledger_interactive_start]
      steadyD [OF ledger_interactive_link] steadyD [OF ledger_interactive_complete])

theorem use_cases_keep_ledger_witness:
  "\<forall>wdeps sdeps dc. ledger_inv (w_db (snd (worker_tick wdeps (world0 demo_done [] 3000)))) \<and>
     ledger_inv (w_db (snd (start_deposit sdeps dc (world0 demo_done [] 3000))))"
proof (intro allI)
  fix wdeps sdeps dc
  have "ledger_inv (w_db (world0 demo_done [] 3000))"
    by (simp add: world0_def reachable_ledger_inv demo_done_reachable)
  note h = use_cases_keep_ledger [OF this, where wdeps = wdeps and sdeps = sdeps and dc = dc, THEN conjunct2, THEN conjunct2,
      THEN conjunct2, THEN conjunct2, THEN conjunct2, THEN conjunct2]
  show "ledger_inv (w_db (snd (worker_tick wdeps (world0 demo_done [] 3000)))) \<and>
      ledger_inv (w_db (snd (start_deposit sdeps dc (world0 demo_done [] 3000))))"
    by (rule conjI [OF conjunct1 [OF h] conjunct1 [OF conjunct2 [OF h]]])
qed

lemma chain_known: "successively allowed_transition (s # ns) \<Longrightarrow> s \<noteq> OSUnknown \<Longrightarrow> last (s # ns) \<noteq> OSUnknown"
proof (induction ns arbitrary: s)
  case (Cons n ns)
  then have "n \<noteq> OSUnknown" by (cases s) auto
  with Cons show ?case by simp
qed simp

text \<open>
  C6: every stored order has a status of its direction: a buy order is never in a deposit,
  retirement or withdrawal status, a sell order never in a payment or transfer status.
\<close>
theorem order_status_typed:
  assumes "reachable d" and "r \<in> set (orders d)"
  shows "or_status r \<in> (if or_direction r = ''offramp''
    then {OSAssetPending, OSAssetReceived, OSAssetInvalid, OSRetirementProcessing, OSRetirementFailed,
          OSWithdrawalProcessing, OSWithdrawalFailed, OSCompleted, OSExpired, OSCancelled}
    else {OSCreated, OSPaymentPending, OSPaymentConfirmed, OSPaymentFailed, OSStellarProcessing,
          OSStellarFailed, OSCompleted, OSExpired, OSCancelled})"
proof -
  let ?ss = "log_statuses (order_log (order_events d) (or_id r))"
  from reachable_log [OF assms] have ss: "?ss \<noteq> []" "hd ?ss = OSCreated" "successively allowed_transition ?ss"
    "last ?ss = or_status r" "list_all (status_lane (or_direction r)) ?ss"
    "or_direction r = ''offramp'' \<longrightarrow> or_status r \<noteq> OSCreated"
    unfolding log_conforms_def Let_def log_statuses_Nil by blast+
  from ss(1,4,5) have "status_lane (or_direction r) (or_status r)" by (metis last_in_set list_all_iff)
  moreover have "or_status r \<noteq> OSUnknown" using ss(1-4) chain_known [of OSCreated "tl ?ss"] by (metis list.collapse order_status.distinct(1))
  ultimately show ?thesis using ss(6) by (cases "or_status r") auto
qed

theorem order_status_typed_witness:
  "or_status (orders demo_done ! 1) \<in> {OSAssetPending, OSAssetReceived, OSAssetInvalid, OSRetirementProcessing,
     OSRetirementFailed, OSWithdrawalProcessing, OSWithdrawalFailed, OSCompleted, OSExpired, OSCancelled}"
  using order_status_typed [OF demo_done_reachable demo_done_second] by (simp add: demo_orders_def)

section \<open>Quotes and amounts\<close>

text \<open>
  C8: a buy quote gives the largest stroop amount that the paid rupiah cover at the adjusted
  rate, positive and within \<open>int64\<close>, and it carries the policy's spread and expiry.
\<close>
theorem buy_quote_is_floor:
  assumes "quote_create p now amount m = Inr q"
  shows "let r = adjusted_market_rate p m in
    of_int (asset_amount q) * r \<le> of_int (amount * stroops_per_xlm) \<and>
    of_int (amount * stroops_per_xlm) < of_int (asset_amount q + 1) * r \<and>
    0 < asset_amount q \<and> asset_amount q \<le> int64_max \<and> fiat_amount q = amount \<and>
    q_spread_bps q = spread_bps p \<and> q_expires_at q = now + ttl p"
  using assms buy_floor_bounds adjusted_pos
  by (auto simp: quote_create_Inr adjusted_market_rate_def Let_def is_int64_def)

definition demo_policy :: quote_policy where
  "demo_policy = \<lparr>ttl = 600000000000, max_age = 300000000000, spread_bps = 150\<rparr>"

definition demo_market :: market_price where
  "demo_market = \<lparr>idr_per_xlm = ''5432.1'', observed_at = 1000\<rparr>"

lemma demo_market_rate: "market_rate demo_market = Some (54321 / 10)"
proof -
  have "trim_space ''5432.1'' = ''5432'' @ CHR ''.'' # ''1''" by code_simp
  then show ?thesis
    using rat_set_digits [of "''5432''" "''1''"]
    by (simp add: market_rate_def demo_market_def is_digit_def digits_val_def digit_val_def less_eq_char_nat)
qed

definition the_buy :: quote where
  "the_buy = \<lparr>fiat_amount = 50000, asset_amount = 90685156, q_rate = decimal (54321 / 10),
     adjusted_rate = decimal (54321 / 10 * spread_multiplier demo_policy), q_spread_bps = 150,
     source_at = 1000, q_expires_at = 600000002000\<rparr>"

lemma demo_policy_simps [simp]:
  "\<not> policy_invalid demo_policy" "\<not> price_stale demo_policy 2000 demo_market"
  "spread_multiplier demo_policy = 203 / 200" "spread_bps demo_policy = 150"
  "ttl demo_policy = 600000000000" "observed_at demo_market = 1000"
  by (simp_all add: policy_invalid_def demo_policy_def price_stale_def demo_market_def time_sub_def
      int64_min_def int64_max_def spread_multiplier_def)

lemma the_buy_quote: "quote_create demo_policy 2000 50000 demo_market = Inr the_buy"
proof -
  have "buy_floor (54321 / 10 * (203 / 200)) 50000 = 90685156"
    unfolding buy_floor_def by (rule floor_unique) (simp_all add: stroops_per_xlm_def)
  then show ?thesis
    by (simp add: quote_create_spec demo_market_rate Let_def the_buy_def int64_max_def)
qed

theorem buy_quote_is_floor_witness:
  "let r = adjusted_market_rate demo_policy demo_market in
    of_int (asset_amount the_buy) * r \<le> of_int (50000 * stroops_per_xlm) \<and>
    of_int (50000 * stroops_per_xlm) < of_int (asset_amount the_buy + 1) * r \<and>
    0 < asset_amount the_buy \<and> asset_amount the_buy \<le> int64_max \<and> fiat_amount the_buy = 50000 \<and>
    q_spread_bps the_buy = spread_bps demo_policy \<and> q_expires_at the_buy = 2000 + ttl demo_policy"
  by (rule buy_quote_is_floor [OF the_buy_quote])

text \<open>
  C9: under one policy and one market price, selling what was bought never pays more than was
  paid for it, and buying back with the proceeds of a sale never yields more than was sold.
\<close>
theorem quotes_give_no_profit:
  assumes "quote_create p now1 (fiat_amount b) m = Inr b"
    and "quote_create_reverse p now2 (asset_amount s) m = Inr s"
  shows "(asset_amount s = asset_amount b \<longrightarrow> fiat_amount s \<le> fiat_amount b) \<and>
    (fiat_amount b = fiat_amount s \<longrightarrow> asset_amount b \<le> asset_amount s)"
  using quote_pair [OF assms] sell_buy_le buy_sell_le by metis+

definition the_sale :: quote where
  "the_sale = \<lparr>fiat_amount = 49999, asset_amount = 90685156, q_rate = decimal (54321 / 10),
     adjusted_rate = decimal (54321 / 10 * spread_multiplier demo_policy), q_spread_bps = 150,
     source_at = 1000, q_expires_at = 600000002000\<rparr>"

lemma the_sale_quote: "quote_create_reverse demo_policy 2000 90685156 demo_market = Inr the_sale"
proof -
  have "sell_floor (54321 / 10 * (203 / 200)) 90685156 = 49999"
    unfolding sell_floor_def by (rule floor_unique) (simp_all add: stroops_per_xlm_def)
  then show ?thesis
    by (simp add: quote_create_reverse_spec demo_market_rate Let_def the_sale_def int64_max_def)
qed

theorem quotes_give_no_profit_witness: "fiat_amount the_sale \<le> fiat_amount the_buy"
  using quotes_give_no_profit [of demo_policy 2000 the_buy demo_market 2000 the_sale]
    the_buy_quote the_sale_quote
  by (simp add: the_buy_def the_sale_def)

text \<open>
  A sell quote pays the largest whole rupiah amount that the asset is worth at the
  adjusted rate, and fails in the same three ways.
\<close>
theorem sell_quote_errors:
  "quote_create_reverse p now asset m =
     (if policy_invalid p \<or> asset \<le> 0 then Inl ErrInvalidQuote
      else if price_stale p now m then Inl ErrStalePrice
      else case market_rate m of None \<Rightarrow> Inl ErrInvalidPrice
      | Some rate \<Rightarrow>
          if rate \<le> 0 then Inl ErrInvalidPrice
          else let n = sell_floor (rate * spread_multiplier p) asset in
            if n \<le> 0 \<or> int64_max < n then Inl ErrInvalidQuote
            else Inr \<lparr>fiat_amount = n, asset_amount = asset, q_rate = decimal rate,
              adjusted_rate = decimal (rate * spread_multiplier p), q_spread_bps = spread_bps p,
              source_at = observed_at m, q_expires_at = now + ttl p\<rparr>)"
  by (rule quote_create_reverse_spec)

text \<open>
  C11: a stroop amount survives formatting and both parsers, the one of the public API and the
  one that reads the settlement tables.
\<close>
theorem stroops_round_trip:
  assumes "0 < a" and "a \<le> int64_max"
  shows "parse_decimal_stroops (stroops_string a) = Inr a \<and> parse_stroops (stroops_string a) = Inr a"
  using assms by (simp add: parse_decimal_of_string parse_stroops_of_string)

theorem stroops_round_trip_witness:
  "parse_decimal_stroops (stroops_string int64_max) = Inr int64_max \<and>
   parse_stroops (stroops_string int64_max) = Inr int64_max"
  using stroops_round_trip [of int64_max] by (simp add: int64_max_def)

text \<open>A rate with at most eighteen decimals survives the decimal text it is stored as.\<close>
theorem rate_round_trip:
  fixes x :: rat
  assumes "0 \<le> x" and "x * 10 ^ 18 = of_int k"
  shows "rat_set_string (decimal x) = Some x"
  using assms by (rule decimal_set_string)

theorem rate_round_trip_witness: "rat_set_string (decimal (54321 / 10)) = Some (54321 / 10)"
  by (rule rate_round_trip [where k = "5432100000000000000000"]) simp_all

text \<open>
  A quote preview answers only for the configured network, asset and currency, with the
  quote the order itself would get, and with a fiat amount inside the configured limits.
\<close>
theorem quote_preview_in_range:
  assumes "quote_preview cfg price now c = Inr (direction, q)"
  shows "vc_min cfg \<le> fiat_amount q \<and> fiat_amount q \<le> vc_max cfg \<and>
    (\<exists>m. price = Inr m \<and>
      (direction = ''buy'' \<and> quote_create (vc_policy cfg) now (vm_fiat c) m = Inr q \<or>
       direction = ''sell'' \<and> (\<exists>a. parse_decimal_stroops (trim_space (vm_asset_amount c)) = Inr a \<and>
          quote_create_reverse (vc_policy cfg) now a m = Inr q)))"
  using assms by (rule quote_preview_Inr)

theorem quote_preview_in_range_witness:
  "let cfg = \<lparr>vc_policy = demo_policy, vc_min = 10000, vc_max = 1000000\<rparr> in
   vc_min cfg \<le> fiat_amount the_buy \<and> fiat_amount the_buy \<le> vc_max cfg"
proof -
  let ?cfg = "\<lparr>vc_policy = demo_policy, vc_min = 10000, vc_max = 1000000\<rparr>"
  let ?c = "\<lparr>vm_direction = '' buy'', vm_currency = ''IDR'', vm_fiat = 50000, vm_network = ''stellar_testnet'',
            vm_asset_code = ''KXLM'', vm_asset_amount = ''''\<rparr>"
  have "trim_space '' buy'' = ''buy''" "trim_space ''IDR'' = ''IDR''" "trim_space '''' = ''''"
    "trim_space ''stellar_testnet'' = ''stellar_testnet''" "trim_space ''KXLM'' = ''KXLM''"
    by code_simp+
  then have "quote_preview ?cfg (Inr demo_market) 2000 ?c = Inr (''buy'', the_buy)"
    using the_buy_quote
    by (simp add: quote_preview_def Let_def idr_currency_def stellar_testnet_network_def
        kxlm_asset_code_def amount_validate_def)
  from quote_preview_in_range [OF this] show ?thesis by (simp add: Let_def)
qed

section \<open>Ownership and idempotency\<close>

text \<open>
  C12: the order written for a principal is visible to exactly the principals of the same scope,
  the same API client or the same retail user.
\<close>
theorem order_visible_to_owner:
  assumes "order_ownership_for p = Inr w" and "apply_order_ownership q = Inr visible"
    and "or_client_id r = ow_client w" "or_created_by r = ow_created_by w" "or_retail_session r = ow_session w"
  shows "visible r \<longleftrightarrow> principal_scope q = principal_scope p"
  using assms by (rule order_filter_scope)

theorem order_visible_to_owner_witness:
  "\<not> projr (apply_order_ownership (demo_client\<lparr>op_client := ''other''\<rparr>)) (hd (orders demo_done))"
proof -
  let ?q = "demo_client\<lparr>op_client := ''other''\<rparr>" and ?r = "hd (orders demo_done)"
  have w: "order_ownership_for demo_client = Inr \<lparr>ow_client = Some ''client'', ow_created_by = None,
      ow_session = None, ow_retail_user = None\<rparr>"
    by (simp add: order_ownership_for_def demo_client_def principal_validate.simps)
  have v: "apply_order_ownership ?q = Inr (projr (apply_order_ownership ?q))"
    by (simp add: apply_order_ownership_def demo_client_def principal_validate.simps)
  have "projr (apply_order_ownership ?q) ?r \<longleftrightarrow> principal_scope ?q = principal_scope demo_client"
    by (rule order_visible_to_owner [OF w v]) (simp_all add: demo_orders_def)
  then show ?thesis by (simp add: principal_scope.simps demo_client_def)
qed

text \<open>The text that is digested for a request determines the operation and every field of it.\<close>
theorem request_encoding_injective: "encode_parts ps = encode_parts qs \<longleftrightarrow> ps = qs"
  using encode_parts_inj by auto

text \<open>
  Two buy requests have the same request hash exactly when they agree in amount, payment
  method, destination and memo, provided the digest does not collide.
\<close>
theorem onramp_request_hash_identity:
  assumes "inj digest"
  shows "onramp_request_hash digest c = onramp_request_hash digest c' \<longleftrightarrow>
    cm_amount c = cm_amount c' \<and> payment_method_text (cm_method c) = payment_method_text (cm_method c') \<and>
    cm_destination c = cm_destination c' \<and> cm_memo c = cm_memo c'"
  using assms encode_parts_inj
  by (auto simp: onramp_request_hash_def order_request_hash_def inj_eq dest!: encode_parts_inj format_int_inj)

theorem onramp_request_hash_identity_witness:
  "\<forall>c. onramp_request_hash id (c\<lparr>cm_amount := 1\<rparr>) \<noteq> onramp_request_hash id (c\<lparr>cm_amount := 2\<rparr>)"
  using onramp_request_hash_identity [of id] by simp

text \<open>
  With its idempotency key on file, a buy request changes nothing: it is answered from the
  record or refused, whatever the faults and the answers of the services.
\<close>
theorem onramp_create_idempotent:
  assumes "key_on_file (w_db w) onramp_create_operation (cm_principal c) (od_digest deps (trim_space (cm_key c)))"
  shows "w_db (snd (onramp_create deps cfg c w)) = w_db w"
  using onramp_create_key_on_file [OF assms]
  by (rule outcome_state [where I = "\<lambda>d. d = w_db w"])

definition demo_deps :: onramp_deps where
  "demo_deps = \<lparr>od_price = Inr demo_market, od_balance = (\<lambda>_. Inr 1000000),
     od_checkout = (\<lambda>_ _. Inr demo_checkout), od_destination = (\<lambda>_. True), od_trustline = None,
     od_kyc = (\<lambda>_. Inr True), od_digest = id\<rparr>"

definition demo_command :: command where
  "demo_command = \<lparr>cm_principal = demo_client, cm_wallet = [], cm_quote_id = [], cm_key = ''k1'',
     cm_amount = 50000, cm_method = PMQRIS, cm_destination = CHR ''G'' # replicate 55 (CHR ''A''), cm_memo = ''m1''\<rparr>"

definition demo_service :: service_config where
  "demo_service = \<lparr>sc_policy = demo_policy, sc_min = 10000, sc_max = 1000000, sc_treasury = ''GT'',
     sc_repo = demo_onramp_config\<rparr>"

lemma demo_key_on_file: "key_on_file demo_done onramp_create_operation demo_client ''k1''"
proof -
  have "apply_idempotency_ownership demo_client = Inr (\<lambda>r. ir_client r = Some ''client'' \<and> ir_user r = None)"
    by (simp add: apply_idempotency_ownership_def demo_client_def principal_validate.simps is_api_client_def)
  moreover have "list_ex (\<lambda>r. (ir_client r = Some ''client'' \<and> ir_user r = None) \<and>
      ir_operation r = onramp_create_operation \<and> ir_key r = ''k1'') (idempotency demo_done)"
    by (simp add: demo_idempotency_def onramp_create_operation_def)
  ultimately show ?thesis by (auto simp: key_on_file_def list_ex_iff)
qed

theorem onramp_create_idempotent_witness:
  "w_db (snd (onramp_create demo_deps demo_service demo_command (world0 demo_done demo_ids 4000))) = demo_done"
proof -
  have "key_on_file (w_db (world0 demo_done demo_ids 4000)) onramp_create_operation (cm_principal demo_command)
      (od_digest demo_deps (trim_space (cm_key demo_command)))"
  proof -
    have "trim_space ''k1'' = ''k1''" by code_simp
    with demo_key_on_file show ?thesis by (simp add: world0_def demo_command_def demo_deps_def)
  qed
  from onramp_create_idempotent [OF this] show ?thesis by (simp add: world0_def)
qed

end
